(* ===== verification/Prelude.thy ===== *)
theory Prelude
  imports Main "HOL-Library.Multiset" "HOL-Library.List_Lexorder" "HOL-Library.Char_ord"
begin

text \<open>
  Shared vocabulary of the development: the Go data the operator manipulates and the generic
  facts the component theories rest on.

  \<^item> Go strings are byte strings: \<open>string\<close> (a list of 8-bit characters), ordered bytewise as
    Go's \<open><\<close> and \<open>sort.Strings\<close> order them (List_Lexorder over Char_ord).
  \<^item> A Go map with string keys is a \<open>gomap\<close>: an association list strictly sorted by key, so that
    two Go maps with the same entries are the same list.  \<open>mget\<close>, \<open>mput\<close> and \<open>mdel\<close> are
    \<open>m[k]\<close>, \<open>m[k] = v\<close> and \<open>delete(m, k)\<close>; the locale \<open>string_map\<close> states their laws.
  \<^item> A value of the Go type \<open>interface{}\<close>, as the YAML and JSON decoders produce it, is a
    \<open>yaml\<close> tree.
\<close>

section \<open>Collections of facts\<close>

named_theorems gomap_simps "laws of the Go map operations"
named_theorems cfg_simps "equations of the config-building helpers"

section \<open>Go maps with string keys\<close>

type_synonym 'v gomap = "(string \<times> 'v) list"

definition mempty :: "'v gomap" where
  "mempty = []"

fun mput :: "string \<Rightarrow> 'v \<Rightarrow> 'v gomap \<Rightarrow> 'v gomap" where
  "mput k v [] = [(k, v)]"
| "mput k v ((k', v') # m) =
     (if k < k' then (k, v) # (k', v') # m
      else if k = k' then (k, v) # m
      else (k', v') # mput k v m)"

definition mget :: "'v gomap \<Rightarrow> string \<Rightarrow> 'v option" where
  "mget m k = map_of m k"

definition mdel :: "string \<Rightarrow> 'v gomap \<Rightarrow> 'v gomap" where
  "mdel k m = filter (\<lambda>(k', v). k' \<noteq> k) m"

definition mkeys :: "'v gomap \<Rightarrow> string list" where
  "mkeys m = map fst m"

definition wf_map :: "'v gomap \<Rightarrow> bool" where
  "wf_map m \<longleftrightarrow> sorted_wrt (<) (mkeys m)"

text \<open>A Go map literal, and the loop \<open>for k, v := range src { dst[k] = v }\<close>.\<close>

definition mlit :: "(string \<times> 'v) list \<Rightarrow> 'v gomap" where
  "mlit kvs = fold (\<lambda>(k, v) m. mput k v m) kvs mempty"

definition mcopy :: "'v gomap \<Rightarrow> 'v gomap \<Rightarrow> 'v gomap" where
  "mcopy src dst = fold (\<lambda>(k, v) m. mput k v m) src dst"

lemma mget_mempty [simp, gomap_simps]: "mget mempty k = None"
  by (simp add: mget_def mempty_def)

lemma mget_Nil [simp]: "mget [] k = None"
  by (simp add: mget_def)

lemma mget_mput [simp, gomap_simps]: "mget (mput k v m) k' = (if k' = k then Some v else mget m k')"
  by (induction k v m rule: mput.induct) (auto simp: mget_def)

lemma mkeys_Nil [simp]: "mkeys [] = []"
  by (simp add: mkeys_def)

lemma mkeys_Cons [simp]: "mkeys ((k, v) # m) = k # mkeys m"
  by (simp add: mkeys_def)

lemma set_mkeys_mput [simp]: "set (mkeys (mput k v m)) = insert k (set (mkeys m))"
  by (induction k v m rule: mput.induct) (auto simp: mkeys_def)

lemma mput_not_Nil [simp]: "mput k v m \<noteq> []"
  by (induction k v m rule: mput.induct) auto

lemma wf_map_Nil [simp]: "wf_map []" "wf_map mempty"
  by (simp_all add: wf_map_def mkeys_def mempty_def)

lemma wf_map_Cons [simp]: "wf_map ((k, v) # m) \<longleftrightarrow> (\<forall>k' \<in> set (mkeys m). k < k') \<and> wf_map m"
  by (auto simp: wf_map_def mkeys_def)

lemma wf_map_mput [simp, intro]: "wf_map m \<Longrightarrow> wf_map (mput k v m)"
  by (induction k v m rule: mput.induct) auto

lemma wf_map_mdel [simp, intro]: "wf_map m \<Longrightarrow> wf_map (mdel k m)"
  by (induction m) (auto simp: mdel_def mkeys_def)

lemma mget_mdel [simp, gomap_simps]: "mget (mdel k m) k' = (if k' = k then None else mget m k')"
  by (induction m) (auto simp: mdel_def mget_def)

lemma mget_in_mkeys: "(mget m k \<noteq> None) \<longleftrightarrow> k \<in> set (mkeys m)"
  by (induction m) (auto simp: mget_def mkeys_def)

lemma wf_map_distinct: "wf_map m \<Longrightarrow> distinct (mkeys m)"
  by (simp add: wf_map_def strict_sorted_iff)

lemma wf_map_mget_iff: "wf_map m \<Longrightarrow> mget m k = Some v \<longleftrightarrow> (k, v) \<in> set m"
  using wf_map_distinct [of m] by (simp add: mget_def mkeys_def)

text \<open>Well-formed maps are determined by what they return: Go map equality.\<close>

lemma mget_Cons: "mget ((k, v) # m) k' = (if k' = k then Some v else mget m k')"
  by (simp add: mget_def)

lemma wf_map_notin: "\<forall>k' \<in> set (mkeys m). k < k' \<Longrightarrow> mget m k = None"
  using mget_in_mkeys [of m k] by auto

lemma set_mkeys: "set (mkeys m) = {k. mget m k \<noteq> None}"
  using mget_in_mkeys by auto

lemma wf_map_rebuild: "wf_map m \<Longrightarrow> map (\<lambda>k. (k, the (mget m k))) (mkeys m) = m"
proof (induction m)
  case (Cons a m)
  obtain k v where a: "a = (k, v)" by force
  from Cons.prems a have "\<forall>k' \<in> set (mkeys m). k' \<noteq> k" by auto
  then have "map (\<lambda>k'. (k', the (mget (a # m) k'))) (mkeys m)
           = map (\<lambda>k'. (k', the (mget m k'))) (mkeys m)"
    by (auto simp: a mget_Cons)
  with Cons a show ?case by (simp add: mget_Cons)
qed simp

lemma wf_map_eqI:
  assumes "wf_map m" and "wf_map m'" and eq: "\<And>k. mget m k = mget m' k"
  shows "m = m'"
proof -
  have "mkeys m = mkeys m'"
    using assms by (intro strict_sorted_equal) (auto simp: wf_map_def set_mkeys)
  with assms show ?thesis
    by (metis (no_types, lifting) map_eq_conv wf_map_rebuild)
qed

lemma mput_mput [simp]: "wf_map m \<Longrightarrow> mput k v (mput k w m) = mput k v m"
  by (rule wf_map_eqI) auto

lemma mput_commute: "wf_map m \<Longrightarrow> k \<noteq> k' \<Longrightarrow> mput k v (mput k' w m) = mput k' w (mput k v m)"
  by (rule wf_map_eqI) auto

lemma map_of_rev_distinct: "distinct (map fst kvs) \<Longrightarrow> map_of (rev kvs) = map_of kvs"
  by (rule map_of_inject_set [THEN iffD2]) (simp_all add: rev_map [symmetric])

text \<open>The contract of a string-keyed map, as its clients use it.\<close>

locale string_map =
  fixes get :: "'m \<Rightarrow> string \<Rightarrow> 'v option"
    and put :: "string \<Rightarrow> 'v \<Rightarrow> 'm \<Rightarrow> 'm"
    and wf :: "'m \<Rightarrow> bool"
  assumes get_put: "get (put k v m) k' = (if k' = k then Some v else get m k')"
    and wf_put: "wf m \<Longrightarrow> wf (put k v m)"
    and ext: "wf m \<Longrightarrow> wf m' \<Longrightarrow> (\<And>k. get m k = get m' k) \<Longrightarrow> m = m'"
begin

text \<open>\<open>for k, v := range src { dst[k] = v }\<close> over any sequence of assignments.\<close>

definition put_all :: "(string \<times> 'v) list \<Rightarrow> 'm \<Rightarrow> 'm" where
  "put_all kvs m = fold (\<lambda>(k, v) m. put k v m) kvs m"

lemma put_all_Nil: "put_all [] m = m"
  by (simp add: put_all_def)

lemma put_all_Cons: "put_all ((k, v) # kvs) m = put_all kvs (put k v m)"
  by (simp add: put_all_def)

lemma put_all_append: "put_all (xs @ ys) m = put_all ys (put_all xs m)"
  by (simp add: put_all_def)

lemma wf_put_all: "wf m \<Longrightarrow> wf (put_all kvs m)"
  by (induction kvs arbitrary: m) (auto simp: put_all_def wf_put)

lemma get_put_all_notin: "k \<notin> fst ` set kvs \<Longrightarrow> get (put_all kvs m) k = get m k"
  by (induction kvs arbitrary: m) (auto simp: put_all_def get_put)

lemma get_put_all_last_wins:
  "get (put_all kvs m) k = (case map_of (rev kvs) k of None \<Rightarrow> get m k | Some v \<Rightarrow> Some v)"
proof (induction kvs rule: rev_induct)
  case (snoc a kvs)
  then show ?case by (cases a) (simp add: put_all_append put_all_Nil put_all_Cons get_put)
qed (simp add: put_all_Nil)

lemma get_put_all_distinct:
  "distinct (map fst kvs) \<Longrightarrow>
   get (put_all kvs m) k = (case map_of kvs k of None \<Rightarrow> get m k | Some v \<Rightarrow> Some v)"
  by (simp add: get_put_all_last_wins map_of_rev_distinct)

text \<open>Go's map iteration order is unspecified: copying a map with distinct keys gives the
  same map whatever order the loop visits the keys in.\<close>

lemma put_all_order_irrelevant:
  assumes "wf m" and "distinct (map fst kvs)" and "mset kvs = mset kvs'"
  shows "put_all kvs m = put_all kvs' m"
proof (rule ext)
  have set: "set kvs = set kvs'" using assms(3) by (metis set_mset_mset)
  have "mset (map fst kvs) = mset (map fst kvs')" using assms(3) by simp
  with assms(2) have d: "distinct (map fst kvs')" using mset_eq_imp_distinct_iff by blast
  with assms(2) set have "map_of kvs = map_of kvs'" by (metis map_of_inject_set)
  then show "get (put_all kvs m) k = get (put_all kvs' m) k" for k
    using assms(2) d by (simp add: get_put_all_distinct)
qed (simp_all add: assms(1) wf_put_all)

end

interpretation gm: string_map mget mput wf_map
  by unfold_locales (auto intro: wf_map_eqI)

lemma mcopy_put_all: "mcopy src dst = gm.put_all src dst"
  by (simp add: mcopy_def gm.put_all_def)

lemma mlit_put_all: "mlit kvs = gm.put_all kvs []"
  by (simp add: mlit_def gm.put_all_def mempty_def)

lemma wf_mcopy [simp, intro]: "wf_map dst \<Longrightarrow> wf_map (mcopy src dst)"
  by (simp add: mcopy_put_all gm.wf_put_all)

lemma wf_mlit [simp, intro]: "wf_map (mlit kvs)"
  by (simp add: mlit_put_all gm.wf_put_all)

lemma mget_mcopy:
  "wf_map src \<Longrightarrow>
   mget (mcopy src dst) k = (case mget src k of None \<Rightarrow> mget dst k | Some v \<Rightarrow> Some v)"
  using wf_map_distinct [of src]
  by (simp add: mcopy_put_all gm.get_put_all_distinct mkeys_def mget_def [of src])

section \<open>Fallible computations\<close>

text \<open>A Go function returning \<open>(T, error)\<close> is an \<open>'e + 'a\<close>; \<open>ebind\<close> is the early return
  \<open>if err != nil { return ..., err }\<close>.\<close>

definition ebind :: "'e + 'a \<Rightarrow> ('a \<Rightarrow> 'e + 'b) \<Rightarrow> 'e + 'b" where
  "ebind r f = (case r of Inl e \<Rightarrow> Inl e | Inr a \<Rightarrow> f a)"

lemma ebind_simps [simp]: "ebind (Inl e) f = Inl e" "ebind (Inr a) f = f a"
  by (simp_all add: ebind_def)

lemma ebind_Inr_iff: "ebind r f = Inr b \<longleftrightarrow> (\<exists>a. r = Inr a \<and> f a = Inr b)"
  by (cases r) auto

lemma ebind_Inl_iff: "ebind r f = Inl e \<longleftrightarrow> r = Inl e \<or> (\<exists>a. r = Inr a \<and> f a = Inl e)"
  by (cases r) auto

lemma ebind_assoc: "ebind (ebind r f) g = ebind r (\<lambda>x. ebind (f x) g)"
  by (cases r) auto

definition emap :: "('a \<Rightarrow> 'b) \<Rightarrow> 'e + 'a \<Rightarrow> 'e + 'b" where
  "emap f r = ebind r (\<lambda>a. Inr (f a))"

definition mapErr :: "('e \<Rightarrow> 'f) \<Rightarrow> 'e + 'a \<Rightarrow> 'f + 'a" where
  "mapErr f r = (case r of Inl e \<Rightarrow> Inl (f e) | Inr a \<Rightarrow> Inr a)"

lemma emap_simps [simp]: "emap f (Inl e) = Inl e" "emap f (Inr a) = Inr (f a)"
  by (simp_all add: emap_def)

lemma mapErr_simps [simp]: "mapErr f (Inl e) = Inl (f e)" "mapErr f (Inr a) = Inr a"
  by (simp_all add: mapErr_def)

lemma mapErr_Inr_iff [simp]: "mapErr f r = Inr a \<longleftrightarrow> r = Inr a"
  by (cases r) auto

text \<open>Run a list of fallible computations in order, stopping at the first error.\<close>

fun traverse :: "('e + 'a) list \<Rightarrow> 'e + 'a list" where
  "traverse [] = Inr []"
| "traverse (r # rs) = ebind r (\<lambda>a. emap (\<lambda>as. a # as) (traverse rs))"

lemma traverse_append: "traverse (xs @ ys) = ebind (traverse xs) (\<lambda>as. emap (\<lambda>bs. as @ bs) (traverse ys))"
proof (induction xs)
  case Nil
  then show ?case by (cases "traverse ys") auto
next
  case (Cons r xs)
  then show ?case by (cases r; cases "traverse xs"; cases "traverse ys") auto
qed

lemma traverse_Inr_map [simp]: "traverse (map (\<lambda>x. Inr (f x)) xs) = Inr (map f xs)"
  by (induction xs) auto

lemma traverse_Inr_iff: "traverse rs = Inr as \<longleftrightarrow> rs = map Inr as"
proof (induction rs arbitrary: as)
  case (Cons r rs)
  show ?case
  proof (cases r)
    case (Inr a)
    have "traverse (r # rs) = Inr as \<longleftrightarrow> (\<exists>bs. traverse rs = Inr bs \<and> as = a # bs)"
      using Inr by (cases "traverse rs") auto
    also have "\<dots> \<longleftrightarrow> (\<exists>bs. rs = map Inr bs \<and> as = a # bs)" using Cons by blast
    finally show ?thesis using Inr by auto
  qed auto
qed auto

lemma traverse_Inl_iff:
  "traverse rs = Inl e \<longleftrightarrow> (\<exists>as rs'. rs = map Inr as @ Inl e # rs')"
proof (induction rs)
  case (Cons r rs)
  show ?case
  proof (cases r)
    case (Inl e')
    have "(\<exists>as rs'. Inl e' # rs = map Inr as @ Inl e # rs') \<longleftrightarrow> e' = e"
      by (auto simp: Cons_eq_append_conv)
    with Inl show ?thesis by simp
  next
    case (Inr a)
    have "(\<exists>as rs'. Inr a # rs = map Inr as @ Inl e # rs') \<longleftrightarrow> (\<exists>as rs'. rs = map Inr as @ Inl e # rs')"
      by (auto simp: Cons_eq_append_conv) (metis list.simps(9))
    with Inr Cons show ?thesis by (cases "traverse rs") auto
  qed
qed auto

lemma traverse_Inl_mem: "traverse rs = Inl e \<Longrightarrow> Inl e \<in> set rs"
  by (auto simp: traverse_Inl_iff)

end
