(* ===== verification/Yaml.thy ===== *)
theory Yaml
  imports Prelude
begin

text \<open>
  Dynamic configuration values.  A Go value of type \<open>interface{}\<close> decoded from YAML or JSON, or
  built by the generator as nested \<open>map[string]interface{}\<close>, is a \<open>yaml\<close> tree.  Type
  assertions \<open>v.(T)\<close> are the partial projections \<open>asMap\<close>, \<open>asList\<close> and \<open>asStr\<close>; a missing
  key of a Go map read through \<open>m[k]\<close> gives \<open>nil\<close>, on which every assertion fails.
\<close>

datatype yaml =
    YNull
  | YBool bool
  | YInt int
  | YStr string
  | YList "yaml list"
  | YMap "(string \<times> yaml) list"
  | YOther string

text \<open>\<open>YOther\<close> carries the scalars the operator never inspects (floats, timestamps) and mappings
  with keys that are not strings, by their text.\<close>

type_synonym ymap = "yaml gomap"

definition asMap :: "yaml \<Rightarrow> ymap option" where
  "asMap y = (case y of YMap m \<Rightarrow> Some m | _ \<Rightarrow> None)"

definition asList :: "yaml \<Rightarrow> yaml list option" where
  "asList y = (case y of YList l \<Rightarrow> Some l | _ \<Rightarrow> None)"

definition asStr :: "yaml \<Rightarrow> string option" where
  "asStr y = (case y of YStr s \<Rightarrow> Some s | _ \<Rightarrow> None)"

definition mfield :: "ymap \<Rightarrow> string \<Rightarrow> yaml" where
  "mfield m k = (case mget m k of None \<Rightarrow> YNull | Some v \<Rightarrow> v)"

lemma as_simps [simp, cfg_simps]:
  "asMap (YMap m) = Some m" "asMap YNull = None" "asMap (YStr s) = None" "asMap (YList l) = None"
  "asMap (YInt i) = None" "asMap (YBool b) = None"
  "asList (YList l) = Some l" "asList YNull = None" "asList (YStr s) = None" "asList (YMap m) = None"
  "asStr (YStr s) = Some s" "asStr YNull = None" "asStr (YMap m) = None" "asStr (YList l) = None"
  "asStr (YInt i) = None"
  by (simp_all add: asMap_def asList_def asStr_def)

lemma asMap_Some [simp]: "asMap y = Some m \<longleftrightarrow> y = YMap m"
  by (cases y) (auto simp: asMap_def)

lemma asList_Some [simp]: "asList y = Some l \<longleftrightarrow> y = YList l"
  by (cases y) (auto simp: asList_def)

lemma asStr_Some [simp]: "asStr y = Some s \<longleftrightarrow> y = YStr s"
  by (cases y) (auto simp: asStr_def)

lemma mfield_mput [simp, cfg_simps]: "mfield (mput k v m) k' = (if k' = k then v else mfield m k')"
  by (simp add: mfield_def)

text \<open>A tree is well formed when every mapping in it is: no key twice, keys in order.  That is
  the representation invariant of Go maps, which every operation that builds a tree must keep.\<close>

fun wf_yaml :: "yaml \<Rightarrow> bool" where
  "wf_yaml (YList ys) \<longleftrightarrow> list_all wf_yaml ys"
| "wf_yaml (YMap m) \<longleftrightarrow> wf_map m \<and> list_all (\<lambda>kv. wf_yaml (snd kv)) m"
| "wf_yaml _ \<longleftrightarrow> True"

definition wf_ymap :: "ymap \<Rightarrow> bool" where
  "wf_ymap m \<longleftrightarrow> wf_yaml (YMap m)"

lemma wf_ymap_wf_map [simp, intro]: "wf_ymap m \<Longrightarrow> wf_map m"
  by (simp add: wf_ymap_def)

lemma wf_yaml_YMap [simp]: "wf_yaml (YMap m) \<longleftrightarrow> wf_ymap m"
  by (simp add: wf_ymap_def)

declare wf_yaml.simps(2) [simp del]

lemma wf_ymap_Nil [simp]: "wf_ymap []" "wf_ymap mempty"
  by (simp_all add: wf_ymap_def mempty_def wf_yaml.simps del: wf_yaml_YMap)

lemma list_all_mput:
  "list_all (\<lambda>kv. P (snd kv)) m \<Longrightarrow> P v \<Longrightarrow> list_all (\<lambda>kv. P (snd kv)) (mput k v m)"
  by (induction k v m rule: mput.induct) auto

lemma wf_ymap_mput [simp, intro]: "wf_ymap m \<Longrightarrow> wf_yaml v \<Longrightarrow> wf_ymap (mput k v m)"
  by (simp add: wf_ymap_def wf_yaml.simps list_all_mput del: wf_yaml_YMap)

lemma wf_ymap_mget: "wf_ymap m \<Longrightarrow> mget m k = Some v \<Longrightarrow> wf_yaml v"
  by (force simp: wf_ymap_def wf_yaml.simps list_all_iff mget_def dest: map_of_SomeD
      simp del: wf_yaml_YMap)

lemma wf_ymap_iff: "wf_ymap m \<longleftrightarrow> wf_map m \<and> (\<forall>k v. (k, v) \<in> set m \<longrightarrow> wf_yaml v)"
  by (auto simp: wf_ymap_def wf_yaml.simps list_all_iff simp del: wf_yaml_YMap)

lemma wf_ymap_fold_mput:
  "wf_ymap dst \<Longrightarrow> (\<And>k v. (k, v) \<in> set kvs \<Longrightarrow> wf_yaml v) \<Longrightarrow>
   wf_ymap (fold (\<lambda>(k, v) m. mput k v m) kvs dst)"
proof (induction kvs arbitrary: dst)
  case (Cons kv kvs)
  obtain k v where kv: "kv = (k, v)" by force
  with Cons.prems have "wf_ymap (mput k v dst)" by auto
  with Cons.IH Cons.prems kv show ?case by auto
qed simp

lemma wf_ymap_mlit: "(\<And>k v. (k, v) \<in> set kvs \<Longrightarrow> wf_yaml v) \<Longrightarrow> wf_ymap (mlit kvs)"
  by (simp add: mlit_def wf_ymap_fold_mput)

lemma wf_ymap_mcopy:
  assumes "wf_ymap src" "wf_ymap dst" shows "wf_ymap (mcopy src dst)"
  using assms unfolding mcopy_def by (intro wf_ymap_fold_mput) (auto simp: wf_ymap_iff)

lemma wf_yaml_strs [simp]: "wf_yaml (YList (map YStr xs))"
  by (simp add: list_all_iff)

end
