(* ===== verification/K8s_Types.thy ===== *)
theory K8s_Types
  imports Yaml
begin

text \<open>
  The parts of the Kubernetes API types (\<open>k8s.io/api\<close>, \<open>k8s.io/apimachinery\<close>) that the operator's
  sources read or write.  Fields the operator only carries around are kept as the JSON value
  they serialize to (\<open>yaml\<close>).  \<open>metav1.Time\<close> is a number of seconds.
\<close>

record OwnerReference =
  owner_APIVersion :: string
  owner_Kind :: string
  owner_Name :: string
  owner_UID :: string
  owner_Controller :: "bool option"

record ObjectMeta =
  meta_Name :: string
  meta_Namespace :: string
  meta_UID :: string
  meta_Generation :: int
  meta_ResourceVersion :: string
  meta_Labels :: "string gomap"
  meta_Annotations :: "string gomap"
  meta_OwnerReferences :: "OwnerReference list"
  meta_DeletionTimestamp :: "int option"

text \<open>\<open>corev1.EnvVar\<close>.  A value source other than a secret key is kept as its JSON value.\<close>

record SecretKeySelector =
  sks_Name :: string
  sks_Key :: string

datatype EnvVarSource = SecretSource SecretKeySelector | OtherSource yaml

record EnvVar =
  env_Name :: string
  env_Value :: string
  env_ValueFrom :: "EnvVarSource option"

definition env_SecretKeyRef :: "EnvVar \<Rightarrow> SecretKeySelector option" where
  "env_SecretKeyRef e =
     (case env_ValueFrom e of Some (SecretSource r) \<Rightarrow> Some r | _ \<Rightarrow> None)"

text \<open>\<open>corev1.Volume\<close>: the sources the admission webhook admits, and all others by name.\<close>

record Volume =
  vol_Name :: string
  vol_ConfigMap :: "yaml option"
  vol_Secret :: "yaml option"
  vol_EmptyDir :: "yaml option"
  vol_PersistentVolumeClaim :: "yaml option"
  vol_Projected :: "yaml option"
  vol_DownwardAPI :: "yaml option"
  vol_OtherSources :: "yaml gomap"

text \<open>\<open>corev1.ResourceRequirements\<close>; a quantity is its text.\<close>

record ResourceRequirements =
  rr_Limits :: "string gomap"
  rr_Requests :: "string gomap"
  rr_Claims :: "yaml list"

definition noResources :: ResourceRequirements where
  "noResources = \<lparr>rr_Limits = mempty, rr_Requests = mempty, rr_Claims = []\<rparr>"

record LabelSelector =
  ls_MatchLabels :: "string gomap"
  ls_MatchExpressions :: "yaml list"

record NetworkPolicyPeer =
  peer_PodSelector :: "LabelSelector option"
  peer_NamespaceSelector :: "LabelSelector option"
  peer_IPBlock :: "yaml option"

text \<open>Ingress and egress rules are only converted to their JSON value by the operator.\<close>

type_synonym NetworkPolicyIngressRule = yaml
type_synonym NetworkPolicyEgressRule = yaml

text \<open>\<open>metav1.Condition\<close>.\<close>

datatype ConditionStatus = ConditionTrue | ConditionFalse | ConditionUnknown

record Condition =
  cond_Type :: string
  cond_Status :: ConditionStatus
  cond_ObservedGeneration :: int
  cond_LastTransitionTime :: int
  cond_Reason :: string
  cond_Message :: string

text \<open>\<open>encoding/json\<close> of the selector types: \<open>omitempty\<close> drops empty maps, lists and nil pointers.\<close>

definition jsonStrMap :: "string gomap \<Rightarrow> yaml" where
  "jsonStrMap m = YMap (map (\<lambda>(k, v). (k, YStr v)) m)"

definition jsonLabelSelector :: "LabelSelector \<Rightarrow> yaml" where
  "jsonLabelSelector s = YMap (
     (if ls_MatchExpressions s = [] then [] else [(''matchExpressions'', YList (ls_MatchExpressions s))])
     @ (if ls_MatchLabels s = [] then [] else [(''matchLabels'', jsonStrMap (ls_MatchLabels s))]))"

definition jsonPeer :: "NetworkPolicyPeer \<Rightarrow> ymap" where
  "jsonPeer p =
     (case peer_IPBlock p of None \<Rightarrow> [] | Some b \<Rightarrow> [(''ipBlock'', b)])
     @ (case peer_NamespaceSelector p of None \<Rightarrow> [] | Some s \<Rightarrow> [(''namespaceSelector'', jsonLabelSelector s)])
     @ (case peer_PodSelector p of None \<Rightarrow> [] | Some s \<Rightarrow> [(''podSelector'', jsonLabelSelector s)])"

lemma mkeys_jsonStrMap: "mkeys (map (\<lambda>(k, v). (k, f v)) m) = mkeys m"
  by (induction m) (auto simp: mkeys_def)

lemma wf_map_map_val [simp]: "wf_map (map (\<lambda>(k, v). (k, f v)) m) \<longleftrightarrow> wf_map m"
  by (simp add: wf_map_def mkeys_jsonStrMap)

lemma wf_jsonStrMap: "wf_map m \<Longrightarrow> wf_yaml (jsonStrMap m)"
  by (auto simp: jsonStrMap_def wf_ymap_iff)

end
