(* ===== verification/Go_Strings.thy ===== *)
theory Go_Strings
  imports Prelude
begin

text \<open>
  The functions of Go's \<open>strings\<close>, \<open>strconv\<close> and \<open>fmt\<close> packages that the operator's sources call, on
  byte strings: \<open>HasPrefix\<close>, \<open>HasSuffix\<close>, \<open>Contains\<close>, \<open>ReplaceAll\<close>, \<open>ToUpper\<close>, \<open>ToLower\<close> (ASCII
  range), \<open>Trim\<close>, \<open>Split\<close>/\<open>Join\<close>, \<open>Atoi\<close> and the verb \<open>%d\<close>.
\<close>

section \<open>Prefixes, substrings and replacement\<close>

definition hasPrefix :: "string \<Rightarrow> string \<Rightarrow> bool" where
  "hasPrefix s p \<longleftrightarrow> take (length p) s = p"

definition hasSuffix :: "string \<Rightarrow> string \<Rightarrow> bool" where
  "hasSuffix s p \<longleftrightarrow> hasPrefix (rev s) (rev p)"

fun containsStr :: "string \<Rightarrow> string \<Rightarrow> bool" where
  "containsStr [] p \<longleftrightarrow> p = []"
| "containsStr (c # cs) p \<longleftrightarrow> hasPrefix (c # cs) p \<or> containsStr cs p"

lemma hasPrefix_iff: "hasPrefix s p \<longleftrightarrow> (\<exists>t. s = p @ t)"
  by (metis append_eq_conv_conj append_take_drop_id hasPrefix_def)

lemma hasSuffix_iff: "hasSuffix s p \<longleftrightarrow> (\<exists>t. s = t @ p)"
  unfolding hasSuffix_def hasPrefix_iff by (metis rev_append rev_rev_ident)

lemma hasPrefix_append [simp]: "hasPrefix (p @ t) p"
  by (simp add: hasPrefix_def)

lemma containsStr_iff: "containsStr s p \<longleftrightarrow> (\<exists>a b. s = a @ p @ b)"
proof (induction s)
  case (Cons c cs)
  have "(\<exists>a b. c # cs = a @ p @ b) \<longleftrightarrow> (\<exists>b. c # cs = p @ b) \<or> (\<exists>a b. cs = a @ p @ b)"
    by (metis append_Cons append_Nil list.exhaust list.inject)
  with Cons show ?case by (simp add: hasPrefix_iff)
qed auto

function replaceAll :: "string \<Rightarrow> string \<Rightarrow> string \<Rightarrow> string" where
  "replaceAll old new s =
     (if old = [] then s
      else if s = [] then []
      else if hasPrefix s old then new @ replaceAll old new (drop (length old) s)
      else hd s # replaceAll old new (tl s))"
  by pat_completeness auto
termination
  by (relation "measure (\<lambda>(old, new, s). length s)") auto

declare replaceAll.simps [simp del]

lemma replaceAll_Nil [simp]: "replaceAll old new [] = []"
  by (simp add: replaceAll.simps)

text \<open>A string without the pattern is left alone.\<close>

lemma replaceAll_id: "\<not> containsStr s old \<Longrightarrow> replaceAll old new s = s"
proof (induction s)
  case (Cons c cs)
  then show ?case by (subst replaceAll.simps) auto
qed simp

section \<open>Case mapping and trimming\<close>

definition isAsciiLower :: "char \<Rightarrow> bool" where
  "isAsciiLower c \<longleftrightarrow> CHR ''a'' \<le> c \<and> c \<le> CHR ''z''"

definition isAsciiUpper :: "char \<Rightarrow> bool" where
  "isAsciiUpper c \<longleftrightarrow> CHR ''A'' \<le> c \<and> c \<le> CHR ''Z''"

definition isDigit :: "char \<Rightarrow> bool" where
  "isDigit c \<longleftrightarrow> CHR ''0'' \<le> c \<and> c \<le> CHR ''9''"

definition upperByte :: "char \<Rightarrow> char" where
  "upperByte c = (if isAsciiLower c then char_of (of_char c - 32 :: nat) else c)"

text \<open>
  \<open>strings.ToUpper\<close> maps runes.  Exactly two runes outside ASCII have an ASCII upper case:
  U+0131 (bytes C4 B1) becomes \<open>I\<close> and U+017F (bytes C5 BF) becomes \<open>S\<close>.  Every other rune
  outside ASCII stays outside ASCII; which one it becomes is not observable by the callers
  below, which treat all of them alike, so its bytes are kept.
\<close>

fun toUpper :: "string \<Rightarrow> string" where
  "toUpper [] = []"
| "toUpper [c] = [upperByte c]"
| "toUpper (c # d # s) =
     (if c = CHR 0xC4 \<and> d = CHR 0xB1 then CHR ''I'' # toUpper s
      else if c = CHR 0xC5 \<and> d = CHR 0xBF then CHR ''S'' # toUpper s
      else upperByte c # toUpper (d # s))"

definition trimChar :: "char \<Rightarrow> string \<Rightarrow> string" where
  "trimChar c s = rev (dropWhile (\<lambda>x. x = c) (rev (dropWhile (\<lambda>x. x = c) s)))"

section \<open>Decimal numbers\<close>

definition digitChar :: "nat \<Rightarrow> char" where
  "digitChar d = char_of (48 + d)"

definition digitVal :: "char \<Rightarrow> nat" where
  "digitVal c = of_char c - 48"

fun showNat :: "nat \<Rightarrow> string" where
  "showNat n = (if n < 10 then [digitChar n] else showNat (n div 10) @ [digitChar (n mod 10)])"

declare showNat.simps [simp del]

definition showInt :: "int \<Rightarrow> string" where
  "showInt i = (if i < 0 then CHR ''-'' # showNat (nat (- i)) else showNat (nat i))"

definition readNat :: "string \<Rightarrow> nat" where
  "readNat s = fold (\<lambda>c n. n * 10 + digitVal c) s 0"

definition maxInt64 :: int where
  "maxInt64 = 2 ^ 63 - 1"

definition minInt64 :: int where
  "minInt64 = - (2 ^ 63)"

text \<open>\<open>strconv.Atoi\<close> on a 64-bit platform: an optional sign, at least one digit, nothing else, and
  an error when the value leaves the 64-bit range.\<close>

definition atoi :: "string \<Rightarrow> int option" where
  "atoi s =
     (let (neg, ds) = (case s of
          [] \<Rightarrow> (False, [])
        | c # cs \<Rightarrow> if c = CHR ''-'' then (True, cs) else if c = CHR ''+'' then (False, cs) else (False, s))
      in if ds = [] \<or> \<not> list_all isDigit ds then None
         else let v = (if neg then - int (readNat ds) else int (readNat ds))
              in if minInt64 \<le> v \<and> v \<le> maxInt64 then Some v else None)"

lemma digit_range: "d < 10 \<Longrightarrow> isDigit (digitChar d) \<and> digitVal (digitChar d) = d"
proof -
  assume "d < 10"
  then have "d \<in> {0,1,2,3,4,5,6,7,8,9}" by auto
  then show ?thesis by (auto simp: isDigit_def digitChar_def digitVal_def less_eq_char_def)
qed

lemma showNat_digits: "list_all isDigit (showNat n) \<and> showNat n \<noteq> []"
proof (induction n rule: showNat.induct)
  case (1 n)
  then show ?case
    by (subst (1 2) showNat.simps) (simp add: digit_range)
qed

lemma readNat_append: "readNat (s @ [c]) = readNat s * 10 + digitVal c"
  by (simp add: readNat_def)

lemma readNat_showNat: "readNat (showNat n) = n"
proof (induction n rule: showNat.induct)
  case (1 n)
  show ?case
  proof (cases "n < 10")
    case True
    then show ?thesis by (subst showNat.simps) (simp add: readNat_def digit_range)
  next
    case False
    then show ?thesis
      using 1 by (subst showNat.simps) (simp add: readNat_append digit_range)
  qed
qed

lemma isDigit_not_sign: "isDigit c \<Longrightarrow> c \<noteq> CHR ''-'' \<and> c \<noteq> CHR ''+''"
  by (auto simp: isDigit_def)

text \<open>Printing with \<open>%d\<close> and reading back with \<open>Atoi\<close> is the identity on 64-bit integers.\<close>

lemma atoi_showInt:
  assumes "minInt64 \<le> i" "i \<le> maxInt64"
  shows "atoi (showInt i) = Some i"
proof (cases "i < 0")
  case True
  with assms show ?thesis
    using showNat_digits [of "nat (- i)"] by (simp add: atoi_def showInt_def readNat_showNat)
next
  case False
  obtain c cs where c: "showNat (nat i) = c # cs"
    using showNat_digits [of "nat i"] by (cases "showNat (nat i)") auto
  with showNat_digits [of "nat i"] have "c \<noteq> CHR ''-''" "c \<noteq> CHR ''+''"
    using isDigit_not_sign by auto
  with False assms c show ?thesis
    using showNat_digits [of "nat i"] readNat_showNat [of "nat i"]
    by (simp add: atoi_def showInt_def)
qed

end
