(* ===== verification/Api_Providers.thy ===== *)
theory Api_Providers
  imports Go_Strings Yaml
begin

text \<open>
  The provider types of the \<open>ogx.io/v1beta1\<close> API (\<open>api/v1beta1/provider_types*.go\<close>) and the
  identifiers their methods derive.  One record per Go struct, one field per Go field, named
  with a prefix for the struct; an embedded struct is a field with the struct's name.  A Go
  pointer is an \<open>option\<close>; a slice is a list and a map a \<open>gomap\<close> (the operations here and in the
  config generator do not tell \<open>nil\<close> from empty).  An \<open>apiextensionsv1.JSON\<close> holds the bytes of a JSON text; a
  \<open>RawJSON\<close> is that text up to its meaning: malformed, or the value it denotes.
  Methods with a pointer receiver accept \<open>nil\<close>, so their models take an \<open>option\<close>.
\<close>

section \<open>References, provider base and custom providers\<close>

datatype RawJSON = RawMalformed string | RawValue yaml

record SecretKeyRef =
  skr_Name :: string
  skr_Key :: string

record ConfigMapKeyRef =
  cmkr_Name :: string
  cmkr_Key :: string

record RoutedProviderBase =
  rpb_ID :: string

record CustomProvider =
  custom_RoutedProviderBase :: RoutedProviderBase
  custom_Type :: string
  custom_SecretRefs :: "SecretKeyRef gomap"
  custom_Settings :: "RawJSON option"

definition deriveOrDefault :: "RoutedProviderBase \<Rightarrow> string \<Rightarrow> string" where
  "deriveOrDefault b defaultID = (if rpb_ID b \<noteq> [] then rpb_ID b else defaultID)"

definition custom_DeriveID :: "CustomProvider \<Rightarrow> string" where
  "custom_DeriveID c =
     deriveOrDefault (custom_RoutedProviderBase c) (replaceAll ''::'' ''-'' (custom_Type c))"

definition deriveSliceIDs :: "('a \<Rightarrow> string) \<Rightarrow> 'a list \<Rightarrow> string list" where
  "deriveSliceIDs deriveID items = map deriveID items"

section \<open>Inference providers\<close>

record TLSConfig =
  tlsc_Verify :: "bool option"
  tlsc_MinVersion :: string
  tlsc_Ciphers :: "string list"

record ProxyConfig =
  proxy_URL :: "string option"
  proxy_HTTP :: "string option"
  proxy_HTTPS :: "string option"
  proxy_CACert :: "string option"
  proxy_NoProxy :: "string list"

record TimeoutConfig =
  timeout_Connect :: "int option"
  timeout_Read :: "int option"

record NetworkConfig =
  netc_TLS :: "TLSConfig option"
  netc_Proxy :: "ProxyConfig option"
  netc_Timeout :: "TimeoutConfig option"
  netc_Headers :: "string gomap"

record RemoteInferenceCommonConfig =
  ric_AllowedModels :: "string list"
  ric_RefreshModels :: "bool option"
  ric_Network :: "NetworkConfig option"

record VLLMProvider =
  vllm_RoutedProviderBase :: RoutedProviderBase
  vllm_RemoteInferenceCommonConfig :: RemoteInferenceCommonConfig
  vllm_Endpoint :: string
  vllm_APIToken :: "SecretKeyRef option"
  vllm_MaxTokens :: "int option"

record OpenAIProvider =
  openai_RoutedProviderBase :: RoutedProviderBase
  openai_RemoteInferenceCommonConfig :: RemoteInferenceCommonConfig
  openai_Endpoint :: string
  openai_APIKey :: SecretKeyRef

record AzureProvider =
  azure_RoutedProviderBase :: RoutedProviderBase
  azure_RemoteInferenceCommonConfig :: RemoteInferenceCommonConfig
  azure_Endpoint :: string
  azure_APIKey :: SecretKeyRef
  azure_APIVersion :: string
  azure_APIType :: string

record BedrockProvider =
  bedrock_RoutedProviderBase :: RoutedProviderBase
  bedrock_RemoteInferenceCommonConfig :: RemoteInferenceCommonConfig
  bedrock_Region :: string
  bedrock_APIKey :: "SecretKeyRef option"
  bedrock_AWSAccessKeyID :: "SecretKeyRef option"
  bedrock_AWSSecretAccessKey :: "SecretKeyRef option"
  bedrock_AWSSessionToken :: "SecretKeyRef option"
  bedrock_AWSRoleArn :: string
  bedrock_AWSWebIdentityTokenFile :: string
  bedrock_AWSRoleSessionName :: string
  bedrock_ProfileName :: string
  bedrock_TotalMaxAttempts :: "int option"
  bedrock_RetryMode :: string
  bedrock_ConnectTimeout :: "int option"
  bedrock_ReadTimeout :: "int option"
  bedrock_SessionTTL :: "int option"

record VertexAIProvider =
  vertex_RoutedProviderBase :: RoutedProviderBase
  vertex_RemoteInferenceCommonConfig :: RemoteInferenceCommonConfig
  vertex_Project :: string
  vertex_Location :: string

record WatsonxProvider =
  watsonx_RoutedProviderBase :: RoutedProviderBase
  watsonx_RemoteInferenceCommonConfig :: RemoteInferenceCommonConfig
  watsonx_Endpoint :: string
  watsonx_APIKey :: SecretKeyRef
  watsonx_ProjectID :: string
  watsonx_Timeout :: "int option"

record InferenceRemoteProviders =
  infR_VLLM :: "VLLMProvider list"
  infR_OpenAI :: "OpenAIProvider list"
  infR_Azure :: "AzureProvider list"
  infR_Bedrock :: "BedrockProvider list"
  infR_VertexAI :: "VertexAIProvider list"
  infR_Watsonx :: "WatsonxProvider list"
  infR_Custom :: "CustomProvider list"

record InferenceInlineProviders =
  infI_Custom :: "CustomProvider list"

record InferenceProvidersSpec =
  inf_Remote :: "InferenceRemoteProviders option"
  inf_Inline :: "InferenceInlineProviders option"

definition vllm_DeriveID :: "VLLMProvider \<Rightarrow> string" where
  "vllm_DeriveID p = deriveOrDefault (vllm_RoutedProviderBase p) ''remote-vllm''"

definition openai_DeriveID :: "OpenAIProvider \<Rightarrow> string" where
  "openai_DeriveID p = deriveOrDefault (openai_RoutedProviderBase p) ''remote-openai''"

definition azure_DeriveID :: "AzureProvider \<Rightarrow> string" where
  "azure_DeriveID p = deriveOrDefault (azure_RoutedProviderBase p) ''remote-azure''"

definition bedrock_DeriveID :: "BedrockProvider \<Rightarrow> string" where
  "bedrock_DeriveID p = deriveOrDefault (bedrock_RoutedProviderBase p) ''remote-bedrock''"

definition vertex_DeriveID :: "VertexAIProvider \<Rightarrow> string" where
  "vertex_DeriveID p = deriveOrDefault (vertex_RoutedProviderBase p) ''remote-vertexai''"

definition watsonx_DeriveID :: "WatsonxProvider \<Rightarrow> string" where
  "watsonx_DeriveID p = deriveOrDefault (watsonx_RoutedProviderBase p) ''remote-watsonx''"

definition infR_IDs :: "InferenceRemoteProviders option \<Rightarrow> string list" where
  "infR_IDs ro = (case ro of None \<Rightarrow> [] | Some r \<Rightarrow>
     deriveSliceIDs vllm_DeriveID (infR_VLLM r) @ deriveSliceIDs openai_DeriveID (infR_OpenAI r)
     @ deriveSliceIDs azure_DeriveID (infR_Azure r) @ deriveSliceIDs bedrock_DeriveID (infR_Bedrock r)
     @ deriveSliceIDs vertex_DeriveID (infR_VertexAI r) @ deriveSliceIDs watsonx_DeriveID (infR_Watsonx r)
     @ deriveSliceIDs custom_DeriveID (infR_Custom r))"

definition infI_IDs :: "InferenceInlineProviders option \<Rightarrow> string list" where
  "infI_IDs inlo = (case inlo of None \<Rightarrow> [] | Some inl \<Rightarrow>
     deriveSliceIDs custom_DeriveID (infI_Custom inl))"

definition inf_IDs :: "InferenceProvidersSpec option \<Rightarrow> string list" where
  "inf_IDs so = (case so of None \<Rightarrow> [] | Some s \<Rightarrow>
     infR_IDs (inf_Remote s) @ infI_IDs (inf_Inline s))"

section \<open>Vector IO providers\<close>

record HNSWConfig =
  hnsw_M :: "int option"
  hnsw_EfConstruction :: "int option"
  hnsw_EfSearch :: "int option"

record IVFFlatConfig =
  ivf_Nlist :: "int option"
  ivf_Nprobe :: "int option"

record VectorIndexConfig =
  vidx_HNSW :: "HNSWConfig option"
  vidx_IVFFlat :: "IVFFlatConfig option"

record PgvectorProvider =
  pgv_RoutedProviderBase :: RoutedProviderBase
  pgv_Host :: string
  pgv_Port :: "int option"
  pgv_DB :: string
  pgv_User :: string
  pgv_Password :: SecretKeyRef
  pgv_DistanceMetric :: string
  pgv_VectorIndex :: "VectorIndexConfig option"

record MilvusProvider =
  milvus_RoutedProviderBase :: RoutedProviderBase
  milvus_URI :: string
  milvus_Token :: "SecretKeyRef option"
  milvus_ConsistencyLevel :: string

record QdrantProvider =
  qdrant_RoutedProviderBase :: RoutedProviderBase
  qdrant_URL :: string
  qdrant_Host :: string
  qdrant_Port :: "int option"
  qdrant_APIKey :: "SecretKeyRef option"
  qdrant_Location :: string
  qdrant_GRPCPort :: "int option"
  qdrant_PreferGRPC :: "bool option"
  qdrant_HTTPS :: "bool option"
  qdrant_Prefix :: string
  qdrant_Timeout :: "int option"

record VectorIORemoteProviders =
  vioR_Pgvector :: "PgvectorProvider list"
  vioR_Milvus :: "MilvusProvider list"
  vioR_Qdrant :: "QdrantProvider list"
  vioR_Custom :: "CustomProvider list"

record VectorIOInlineProviders =
  vioI_Custom :: "CustomProvider list"

record VectorIOProvidersSpec =
  vio_Remote :: "VectorIORemoteProviders option"
  vio_Inline :: "VectorIOInlineProviders option"

definition pgv_DeriveID :: "PgvectorProvider \<Rightarrow> string" where
  "pgv_DeriveID p = deriveOrDefault (pgv_RoutedProviderBase p) ''remote-pgvector''"

definition pgv_PersistenceNamespace :: "PgvectorProvider \<Rightarrow> string" where
  "pgv_PersistenceNamespace p = ''vector_io::'' @ deriveOrDefault (pgv_RoutedProviderBase p) ''pgvector''"

definition milvus_DeriveID :: "MilvusProvider \<Rightarrow> string" where
  "milvus_DeriveID p = deriveOrDefault (milvus_RoutedProviderBase p) ''remote-milvus''"

definition qdrant_DeriveID :: "QdrantProvider \<Rightarrow> string" where
  "qdrant_DeriveID p = deriveOrDefault (qdrant_RoutedProviderBase p) ''remote-qdrant''"

definition vioR_IDs :: "VectorIORemoteProviders option \<Rightarrow> string list" where
  "vioR_IDs ro = (case ro of None \<Rightarrow> [] | Some r \<Rightarrow>
     deriveSliceIDs pgv_DeriveID (vioR_Pgvector r) @ deriveSliceIDs milvus_DeriveID (vioR_Milvus r)
     @ deriveSliceIDs qdrant_DeriveID (vioR_Qdrant r) @ deriveSliceIDs custom_DeriveID (vioR_Custom r))"

definition vioI_IDs :: "VectorIOInlineProviders option \<Rightarrow> string list" where
  "vioI_IDs inlo = (case inlo of None \<Rightarrow> [] | Some inl \<Rightarrow>
     deriveSliceIDs custom_DeriveID (vioI_Custom inl))"

definition vio_IDs :: "VectorIOProvidersSpec option \<Rightarrow> string list" where
  "vio_IDs so = (case so of None \<Rightarrow> [] | Some s \<Rightarrow>
     vioR_IDs (vio_Remote s) @ vioI_IDs (vio_Inline s))"

section \<open>Vector store configuration and responses providers\<close>

record QualifiedModel =
  qm_ProviderID :: string
  qm_ModelID :: string
  qm_EmbeddingDimensions :: "int option"

record RerankerModel =
  rm_ProviderID :: string
  rm_ModelID :: string

record RewriteQueryParams =
  rq_Model :: "QualifiedModel option"
  rq_Prompt :: string
  rq_MaxTokens :: "int option"
  rq_Temperature :: "string option"

record FileSearchDisplayParams =
  fsd_HeaderTemplate :: string
  fsd_FooterTemplate :: string

record ContextPromptParams =
  cpp_ChunkAnnotationTemplate :: string
  cpp_ContextTemplate :: string

record AnnotationPromptParams =
  ann_EnableAnnotations :: "bool option"
  ann_AnnotationInstructionTemplate :: string
  ann_ChunkAnnotationTemplate :: string

record FileIngestionParams =
  fip_DefaultChunkSizeTokens :: "int option"
  fip_DefaultChunkOverlapTokens :: "int option"

record ChunkRetrievalParams =
  crp_ChunkMultiplier :: "int option"
  crp_MaxTokensInContext :: "int option"
  crp_DefaultRerankerStrategy :: "string option"
  crp_RRFImpactFactor :: "string option"
  crp_WeightedSearchAlpha :: "string option"
  crp_DefaultSearchMode :: "string option"

record FileBatchParams =
  fbp_MaxConcurrentFilesPerBatch :: "int option"
  fbp_FileBatchChunkSize :: "int option"
  fbp_CleanupIntervalSeconds :: "int option"

record ContextualRetrievalParams =
  ctxr_Model :: "QualifiedModel option"
  ctxr_DefaultTimeoutSeconds :: "int option"
  ctxr_DefaultMaxConcurrency :: "int option"
  ctxr_MaxDocumentTokens :: "int option"

record VectorStoresConfig =
  vsc_DefaultProviderID :: string
  vsc_DefaultEmbeddingModel :: "QualifiedModel option"
  vsc_DefaultRerankerModel :: "RerankerModel option"
  vsc_RewriteQueryParams :: "RewriteQueryParams option"
  vsc_FileSearchParams :: "FileSearchDisplayParams option"
  vsc_ContextPromptParams :: "ContextPromptParams option"
  vsc_AnnotationPromptParams :: "AnnotationPromptParams option"
  vsc_FileIngestionParams :: "FileIngestionParams option"
  vsc_ChunkRetrievalParams :: "ChunkRetrievalParams option"
  vsc_FileBatchParams :: "FileBatchParams option"
  vsc_ContextualRetrievalParams :: "ContextualRetrievalParams option"

record CompactionConfig =
  comp_SummarizationPrompt :: string
  comp_SummaryPrefix :: string
  comp_SummarizationModel :: string
  comp_DefaultCompactThreshold :: "int option"
  comp_TokenizerEncoding :: string

record InlineBuiltinResponsesProvider =
  rbi_VectorStoresConfig :: "VectorStoresConfig option"
  rbi_CompactionConfig :: "CompactionConfig option"

record ResponsesRemoteProviders =
  respR_Custom :: "CustomProvider list"

record ResponsesInlineProviders =
  respI_Builtin :: "InlineBuiltinResponsesProvider option"
  respI_Custom :: "CustomProvider list"

record ResponsesProvidersSpec =
  resp_Remote :: "ResponsesRemoteProviders option"
  resp_Inline :: "ResponsesInlineProviders option"

definition rbi_DeriveID :: "InlineBuiltinResponsesProvider \<Rightarrow> string" where
  "rbi_DeriveID p = ''inline-builtin''"

definition respR_IDs :: "ResponsesRemoteProviders option \<Rightarrow> string list" where
  "respR_IDs ro = (case ro of None \<Rightarrow> [] | Some r \<Rightarrow>
     deriveSliceIDs custom_DeriveID (respR_Custom r))"

definition respI_IDs :: "ResponsesInlineProviders option \<Rightarrow> string list" where
  "respI_IDs inlo = (case inlo of None \<Rightarrow> [] | Some inl \<Rightarrow>
     (case respI_Builtin inl of None \<Rightarrow> [] | Some p \<Rightarrow> [rbi_DeriveID p])
     @ deriveSliceIDs custom_DeriveID (respI_Custom inl))"

definition resp_IDs :: "ResponsesProvidersSpec option \<Rightarrow> string list" where
  "resp_IDs so = (case so of None \<Rightarrow> [] | Some s \<Rightarrow>
     respR_IDs (resp_Remote s) @ respI_IDs (resp_Inline s))"

section \<open>Tool runtime providers\<close>

record BraveSearchProvider =
  brave_RoutedProviderBase :: RoutedProviderBase
  brave_APIKey :: SecretKeyRef
  brave_MaxResults :: "int option"

record TavilySearchProvider =
  tavily_RoutedProviderBase :: RoutedProviderBase
  tavily_APIKey :: SecretKeyRef
  tavily_MaxResults :: "int option"

record ModelContextProtocolProvider =
  mcp_RoutedProviderBase :: RoutedProviderBase

record InlineFileSearchProvider =
  fsearch_RoutedProviderBase :: RoutedProviderBase
  fsearch_VectorStoresConfig :: "VectorStoresConfig option"

record ToolRuntimeRemoteProviders =
  trR_BraveSearch :: "BraveSearchProvider list"
  trR_TavilySearch :: "TavilySearchProvider list"
  trR_ModelContextProtocol :: "ModelContextProtocolProvider list"
  trR_Custom :: "CustomProvider list"

record ToolRuntimeInlineProviders =
  trI_FileSearch :: "InlineFileSearchProvider list"
  trI_Custom :: "CustomProvider list"

record ToolRuntimeProvidersSpec =
  tr_Remote :: "ToolRuntimeRemoteProviders option"
  tr_Inline :: "ToolRuntimeInlineProviders option"

definition brave_DeriveID :: "BraveSearchProvider \<Rightarrow> string" where
  "brave_DeriveID p = deriveOrDefault (brave_RoutedProviderBase p) ''remote-brave-search''"

definition tavily_DeriveID :: "TavilySearchProvider \<Rightarrow> string" where
  "tavily_DeriveID p = deriveOrDefault (tavily_RoutedProviderBase p) ''remote-tavily-search''"

definition mcp_DeriveID :: "ModelContextProtocolProvider \<Rightarrow> string" where
  "mcp_DeriveID p = deriveOrDefault (mcp_RoutedProviderBase p) ''remote-model-context-protocol''"

definition fsearch_DeriveID :: "InlineFileSearchProvider \<Rightarrow> string" where
  "fsearch_DeriveID p = deriveOrDefault (fsearch_RoutedProviderBase p) ''inline-file-search''"

definition trR_IDs :: "ToolRuntimeRemoteProviders option \<Rightarrow> string list" where
  "trR_IDs ro = (case ro of None \<Rightarrow> [] | Some r \<Rightarrow>
     deriveSliceIDs brave_DeriveID (trR_BraveSearch r) @ deriveSliceIDs tavily_DeriveID (trR_TavilySearch r)
     @ deriveSliceIDs mcp_DeriveID (trR_ModelContextProtocol r) @ deriveSliceIDs custom_DeriveID (trR_Custom r))"

definition trI_IDs :: "ToolRuntimeInlineProviders option \<Rightarrow> string list" where
  "trI_IDs inlo = (case inlo of None \<Rightarrow> [] | Some inl \<Rightarrow>
     deriveSliceIDs fsearch_DeriveID (trI_FileSearch inl) @ deriveSliceIDs custom_DeriveID (trI_Custom inl))"

definition tr_IDs :: "ToolRuntimeProvidersSpec option \<Rightarrow> string list" where
  "tr_IDs so = (case so of None \<Rightarrow> [] | Some s \<Rightarrow>
     trR_IDs (tr_Remote s) @ trI_IDs (tr_Inline s))"

section \<open>Files providers\<close>

record S3Provider =
  s3_BucketName :: string
  s3_Region :: string
  s3_AWSAccessKeyID :: "SecretKeyRef option"
  s3_AWSSecretAccessKey :: "SecretKeyRef option"
  s3_EndpointURL :: string
  s3_AutoCreateBucket :: "bool option"

record InlineLocalFSProvider =
  localfs_TTLSecs :: "int option"

record FilesRemoteProviders =
  filesR_S3 :: "S3Provider option"
  filesR_Custom :: "CustomProvider list"

record FilesInlineProviders =
  filesI_LocalFS :: "InlineLocalFSProvider option"
  filesI_Custom :: "CustomProvider list"

record FilesProvidersSpec =
  files_Remote :: "FilesRemoteProviders option"
  files_Inline :: "FilesInlineProviders option"

definition s3_DeriveID :: "S3Provider \<Rightarrow> string" where
  "s3_DeriveID p = ''remote-s3''"

definition localfs_DeriveID :: "InlineLocalFSProvider \<Rightarrow> string" where
  "localfs_DeriveID p = ''inline-localfs''"

definition filesR_IDs :: "FilesRemoteProviders option \<Rightarrow> string list" where
  "filesR_IDs ro = (case ro of None \<Rightarrow> [] | Some r \<Rightarrow>
     (case filesR_S3 r of None \<Rightarrow> [] | Some p \<Rightarrow> [s3_DeriveID p])
     @ deriveSliceIDs custom_DeriveID (filesR_Custom r))"

definition filesI_IDs :: "FilesInlineProviders option \<Rightarrow> string list" where
  "filesI_IDs inlo = (case inlo of None \<Rightarrow> [] | Some inl \<Rightarrow>
     (case filesI_LocalFS inl of None \<Rightarrow> [] | Some p \<Rightarrow> [localfs_DeriveID p])
     @ deriveSliceIDs custom_DeriveID (filesI_Custom inl))"

definition files_IDs :: "FilesProvidersSpec option \<Rightarrow> string list" where
  "files_IDs so = (case so of None \<Rightarrow> [] | Some s \<Rightarrow>
     filesR_IDs (files_Remote s) @ filesI_IDs (files_Inline s))"

section \<open>Batches providers\<close>

record InlineReferenceProvider =
  refp_MaxConcurrentBatches :: "int option"
  refp_MaxConcurrentRequestsPerBatch :: "int option"

record BatchesRemoteProviders =
  batR_Custom :: "CustomProvider list"

record BatchesInlineProviders =
  batI_Reference :: "InlineReferenceProvider option"
  batI_Custom :: "CustomProvider list"

record BatchesProvidersSpec =
  bat_Remote :: "BatchesRemoteProviders option"
  bat_Inline :: "BatchesInlineProviders option"

definition refp_DeriveID :: "InlineReferenceProvider \<Rightarrow> string" where
  "refp_DeriveID p = ''inline-reference''"

definition batR_IDs :: "BatchesRemoteProviders option \<Rightarrow> string list" where
  "batR_IDs ro = (case ro of None \<Rightarrow> [] | Some r \<Rightarrow>
     deriveSliceIDs custom_DeriveID (batR_Custom r))"

definition batI_IDs :: "BatchesInlineProviders option \<Rightarrow> string list" where
  "batI_IDs inlo = (case inlo of None \<Rightarrow> [] | Some inl \<Rightarrow>
     (case batI_Reference inl of None \<Rightarrow> [] | Some p \<Rightarrow> [refp_DeriveID p])
     @ deriveSliceIDs custom_DeriveID (batI_Custom inl))"

definition bat_IDs :: "BatchesProvidersSpec option \<Rightarrow> string list" where
  "bat_IDs so = (case so of None \<Rightarrow> [] | Some s \<Rightarrow>
     batR_IDs (bat_Remote s) @ batI_IDs (bat_Inline s))"

section \<open>File processors providers\<close>

record FileProcessorChunkConfig =
  fpc_DefaultChunkSizeTokens :: "int option"
  fpc_DefaultChunkOverlapTokens :: "int option"

record InlineAutoFileProcessorProvider =
  fpauto_FileProcessorChunkConfig :: FileProcessorChunkConfig
  fpauto_ExtractMetadata :: "bool option"
  fpauto_CleanText :: "bool option"

record InlinePyPDFFileProcessorProvider =
  pypdf_FileProcessorChunkConfig :: FileProcessorChunkConfig
  pypdf_ExtractMetadata :: "bool option"
  pypdf_CleanText :: "bool option"

record InlineMarkItDownFileProcessorProvider =
  markit_FileProcessorChunkConfig :: FileProcessorChunkConfig

record InlineDoclingFileProcessorProvider =
  docling_FileProcessorChunkConfig :: FileProcessorChunkConfig
  docling_DoOCR :: "bool option"

record DoclingServeProvider =
  dserve_BaseURL :: string
  dserve_APIKey :: "SecretKeyRef option"
  dserve_DefaultChunkSizeTokens :: "int option"

record FileProcessorsRemoteProviders =
  fpR_DoclingServe :: "DoclingServeProvider option"
  fpR_Custom :: "CustomProvider list"

record FileProcessorsInlineProviders =
  fpI_Auto :: "InlineAutoFileProcessorProvider option"
  fpI_PyPDF :: "InlinePyPDFFileProcessorProvider option"
  fpI_MarkItDown :: "InlineMarkItDownFileProcessorProvider option"
  fpI_Docling :: "InlineDoclingFileProcessorProvider option"
  fpI_Custom :: "CustomProvider list"

record FileProcessorsProvidersSpec =
  fp_Remote :: "FileProcessorsRemoteProviders option"
  fp_Inline :: "FileProcessorsInlineProviders option"

definition fpauto_DeriveID :: "InlineAutoFileProcessorProvider \<Rightarrow> string" where
  "fpauto_DeriveID p = ''inline-auto''"

definition pypdf_DeriveID :: "InlinePyPDFFileProcessorProvider \<Rightarrow> string" where
  "pypdf_DeriveID p = ''inline-pypdf''"

definition markit_DeriveID :: "InlineMarkItDownFileProcessorProvider \<Rightarrow> string" where
  "markit_DeriveID p = ''inline-markitdown''"

definition docling_DeriveID :: "InlineDoclingFileProcessorProvider \<Rightarrow> string" where
  "docling_DeriveID p = ''inline-docling''"

definition dserve_DeriveID :: "DoclingServeProvider \<Rightarrow> string" where
  "dserve_DeriveID p = ''remote-docling-serve''"

definition fpR_IDs :: "FileProcessorsRemoteProviders option \<Rightarrow> string list" where
  "fpR_IDs ro = (case ro of None \<Rightarrow> [] | Some r \<Rightarrow>
     (case fpR_DoclingServe r of None \<Rightarrow> [] | Some p \<Rightarrow> [dserve_DeriveID p])
     @ deriveSliceIDs custom_DeriveID (fpR_Custom r))"

definition fpI_IDs :: "FileProcessorsInlineProviders option \<Rightarrow> string list" where
  "fpI_IDs inlo = (case inlo of None \<Rightarrow> [] | Some inl \<Rightarrow>
     (case fpI_Auto inl of None \<Rightarrow> [] | Some p \<Rightarrow> [fpauto_DeriveID p])
     @ (case fpI_PyPDF inl of None \<Rightarrow> [] | Some p \<Rightarrow> [pypdf_DeriveID p])
     @ (case fpI_MarkItDown inl of None \<Rightarrow> [] | Some p \<Rightarrow> [markit_DeriveID p])
     @ (case fpI_Docling inl of None \<Rightarrow> [] | Some p \<Rightarrow> [docling_DeriveID p])
     @ deriveSliceIDs custom_DeriveID (fpI_Custom inl))"

definition fp_IDs :: "FileProcessorsProvidersSpec option \<Rightarrow> string list" where
  "fp_IDs so = (case so of None \<Rightarrow> [] | Some s \<Rightarrow>
     fpR_IDs (fp_Remote s) @ fpI_IDs (fp_Inline s))"

section \<open>All providers\<close>

record ProvidersSpec =
  ps_Inference :: "InferenceProvidersSpec option"
  ps_VectorIo :: "VectorIOProvidersSpec option"
  ps_ToolRuntime :: "ToolRuntimeProvidersSpec option"
  ps_Files :: "FilesProvidersSpec option"
  ps_Batches :: "BatchesProvidersSpec option"
  ps_Responses :: "ResponsesProvidersSpec option"
  ps_FileProcessors :: "FileProcessorsProvidersSpec option"

definition ps_IDs :: "ProvidersSpec option \<Rightarrow> string list" where
  "ps_IDs so = (case so of None \<Rightarrow> [] | Some s \<Rightarrow>
     inf_IDs (ps_Inference s) @ vio_IDs (ps_VectorIo s) @ tr_IDs (ps_ToolRuntime s)
     @ files_IDs (ps_Files s) @ bat_IDs (ps_Batches s) @ resp_IDs (ps_Responses s)
     @ fp_IDs (ps_FileProcessors s))"

lemmas IDs_defs = infR_IDs_def infI_IDs_def inf_IDs_def vioR_IDs_def vioI_IDs_def vio_IDs_def respR_IDs_def respI_IDs_def resp_IDs_def trR_IDs_def trI_IDs_def tr_IDs_def filesR_IDs_def filesI_IDs_def files_IDs_def batR_IDs_def batI_IDs_def bat_IDs_def fpR_IDs_def fpI_IDs_def fp_IDs_def ps_IDs_def deriveSliceIDs_def

text \<open>An explicit ID always wins; a provider without one still has an ID (its type is not empty,
  by the CRD's \<open>MinLength=1\<close> on \<open>custom[].type\<close>).\<close>

lemma deriveOrDefault_nonempty: "d \<noteq> [] \<Longrightarrow> deriveOrDefault b d \<noteq> []"
  by (simp add: deriveOrDefault_def)

lemma deriveOrDefault_explicit: "rpb_ID b \<noteq> [] \<Longrightarrow> deriveOrDefault b d = rpb_ID b"
  by (simp add: deriveOrDefault_def)

end
