(* ===== verification/Api_Server.thy ===== *)
theory Api_Server
  imports K8s_Types Api_Providers
begin

text \<open>
  The \<open>OGXServer\<close> custom resource (\<open>api/v1beta1/ogxserver_types.go\<close>): its spec, its status and the
  methods that read them.  Kubernetes values the operator only passes on (resource quantities,
  topology constraints, volume mounts) are their JSON value or text.
\<close>

section \<open>Constants\<close>

definition DefaultServerPort :: int where
  "DefaultServerPort = 8321"

definition DefaultPraxisPodLabelKey :: string where
  "DefaultPraxisPodLabelKey = ''app.kubernetes.io/name''"

definition DefaultPraxisPodLabelValue :: string where
  "DefaultPraxisPodLabelValue = ''praxis-gateway''"

definition DefaultPraxisNamespace :: string where
  "DefaultPraxisNamespace = ''praxis-standalone''"

definition DefaultNamespaceNameLabel :: string where
  "DefaultNamespaceNameLabel = ''kubernetes.io/metadata.name''"

definition AdoptStorageAnnotation :: string where
  "AdoptStorageAnnotation = ''ogx.io/adopt-storage''"

definition AdoptNetworkingAnnotation :: string where
  "AdoptNetworkingAnnotation = ''ogx.io/adopt-networking''"

section \<open>The spec\<close>

record DistributionSpec =
  dist_Name :: string
  dist_Image :: string

record ModelConfig =
  mc_Name :: string
  mc_Provider :: string
  mc_ContextLength :: "int option"
  mc_ModelType :: string
  mc_Quantization :: string

record ResourcesSpec =
  res_Models :: "ModelConfig list"

record KVStorageSpec =
  kv_Type :: string
  kv_Endpoint :: string
  kv_Password :: "SecretKeyRef option"

record SQLStorageSpec =
  sql_Type :: string
  sql_ConnectionString :: "SecretKeyRef option"

record StateStorageSpec =
  stg_KV :: "KVStorageSpec option"
  stg_SQL :: "SQLStorageSpec option"

record TLSSpec =
  tls_SecretName :: string

record TrustConfig =
  trust_CACertificates :: "ConfigMapKeyRef list"

record IdentityConfig =
  ident_Cert :: ConfigMapKeyRef
  ident_Key :: SecretKeyRef

record TLSClientConfig =
  tlscl_Trust :: "TrustConfig option"
  tlscl_Identity :: "IdentityConfig option"

record NetworkPolicySpec =
  np_Enabled :: "bool option"
  np_PolicyTypes :: "string list"
  np_Ingress :: "NetworkPolicyIngressRule list"
  np_Egress :: "NetworkPolicyEgressRule list"

record ExternalAccessConfig =
  ea_Enabled :: bool
  ea_Hostname :: string
  ea_TLS :: "TLSSpec option"

record NetworkSpec =
  net_Port :: int
  net_TLS :: "TLSSpec option"
  net_ExternalAccess :: "ExternalAccessConfig option"
  net_Policy :: "NetworkPolicySpec option"

record MonitoringSpec =
  mon_Enabled :: "bool option"
  mon_MetricsPort :: "int option"

record PVCStorageSpec =
  pvc_Size :: "string option"
  pvc_MountPath :: string

record PodDisruptionBudgetSpec =
  pdb_MinAvailable :: "yaml option"
  pdb_MaxUnavailable :: "yaml option"

record AutoscalingSpec =
  as_MinReplicas :: "int option"
  as_MaxReplicas :: int
  as_TargetCPUUtilizationPercentage :: "int option"
  as_TargetMemoryUtilizationPercentage :: "int option"

record WorkloadOverrides =
  wo_ServiceAccountName :: string
  wo_Env :: "EnvVar list"
  wo_Command :: "string list"
  wo_Args :: "string list"
  wo_Volumes :: "Volume list"
  wo_VolumeMounts :: "yaml list"

record WorkloadSpec =
  wl_Replicas :: "int option"
  wl_Workers :: "int option"
  wl_Resources :: "ResourceRequirements option"
  wl_ResourceClaims :: "yaml list"
  wl_Autoscaling :: "AutoscalingSpec option"
  wl_Storage :: "PVCStorageSpec option"
  wl_PodDisruptionBudget :: "PodDisruptionBudgetSpec option"
  wl_TopologySpreadConstraints :: "yaml list"
  wl_Overrides :: "WorkloadOverrides option"

record PraxisSelector =
  psel_Namespace :: string
  psel_PodSelector :: LabelSelector

record MigrationJobSpec =
  mj_Enabled :: "bool option"
  mj_TargetConnectionString :: "SecretKeyRef option"
  mj_FallbackTenant :: string
  mj_FallbackOwnerSubject :: string

record PraxisModeSpec =
  pm_Enabled :: "bool option"
  pm_PraxisSelector :: "PraxisSelector option"
  pm_MigrationJob :: "MigrationJobSpec option"

record OGXServerSpec =
  spec_Distribution :: DistributionSpec
  spec_Providers :: "ProvidersSpec option"
  spec_Resources :: "ResourcesSpec option"
  spec_Storage :: "StateStorageSpec option"
  spec_DisabledAPIs :: "string list"
  spec_RegistryRefreshIntervalSeconds :: "int option"
  spec_Network :: "NetworkSpec option"
  spec_TLS :: "TLSClientConfig option"
  spec_Workload :: "WorkloadSpec option"
  spec_Monitoring :: "MonitoringSpec option"
  spec_BaseConfig :: "ConfigMapKeyRef option"
  spec_OverrideConfig :: "ConfigMapKeyRef option"
  spec_PraxisMode :: "PraxisModeSpec option"

section \<open>The status\<close>

datatype OGXServerPhase = PhasePending | PhaseInitializing | PhaseReady | PhaseFailed | PhaseTerminating | PhaseUnset

text \<open>\<open>OGXServerPhase\<close> is a Go string; \<open>PhaseUnset\<close> is its zero value, the empty string.\<close>

datatype MigrationPhase =
    MigrationPhasePending | MigrationPhasePreflightFailed | MigrationPhaseRunning
  | MigrationPhaseFailed | MigrationPhaseValidated | MigrationPhaseUnset

record ProviderHealthStatus =
  phs_Status :: string
  phs_Message :: string

record ProviderInfo =
  pinfo_API :: string
  pinfo_ProviderID :: string
  pinfo_ProviderType :: string
  pinfo_Config :: RawJSON
  pinfo_Health :: ProviderHealthStatus

record DistributionConfig =
  dcfg_ActiveDistribution :: string
  dcfg_Providers :: "ProviderInfo list"
  dcfg_AvailableDistributions :: "string gomap"

record VersionInfo =
  ver_OperatorVersion :: string
  ver_ServerVersion :: string
  ver_LastUpdated :: int

record ResolvedDistributionStatus =
  rds_Image :: string
  rds_ConfigSource :: string
  rds_ConfigHash :: string

record ConfigGenerationStatus =
  cgs_ObservedGeneration :: int
  cgs_ConfigMapName :: string
  cgs_GeneratedAt :: int
  cgs_ProviderCount :: int
  cgs_ResourceCount :: int
  cgs_ConfigVersion :: int

record MigrationStatus =
  mig_Phase :: MigrationPhase
  mig_ObservedGeneration :: int
  mig_AttemptKey :: string
  mig_JobName :: string
  mig_Message :: string
  mig_SoftRollbackWarning :: string

record OGXServerStatus =
  status_Phase :: OGXServerPhase
  status_Version :: VersionInfo
  status_DistributionConfig :: DistributionConfig
  status_ResolvedDistribution :: "ResolvedDistributionStatus option"
  status_ConfigGeneration :: "ConfigGenerationStatus option"
  status_Migration :: "MigrationStatus option"
  status_Conditions :: "Condition list"
  status_AvailableReplicas :: int
  status_ServiceURL :: string
  status_ExternalURL :: "string option"

record OGXServer =
  srv_ObjectMeta :: ObjectMeta
  srv_Spec :: OGXServerSpec
  srv_Status :: OGXServerStatus

section \<open>Methods\<close>

definition IsPraxisModeEnabled :: "OGXServerSpec \<Rightarrow> bool" where
  "IsPraxisModeEnabled s =
     (case spec_PraxisMode s of None \<Rightarrow> False
      | Some pm \<Rightarrow> (case pm_Enabled pm of None \<Rightarrow> True | Some b \<Rightarrow> b))"

definition HasOverrideConfig :: "OGXServer \<Rightarrow> bool" where
  "HasOverrideConfig r =
     (case spec_OverrideConfig (srv_Spec r) of None \<Rightarrow> False
      | Some c \<Rightarrow> cmkr_Name c \<noteq> [] \<and> cmkr_Key c \<noteq> [])"

definition HasDeclarativeConfig :: "OGXServer \<Rightarrow> bool" where
  "HasDeclarativeConfig r \<longleftrightarrow>
     spec_Providers (srv_Spec r) \<noteq> None \<or> spec_Resources (srv_Spec r) \<noteq> None
     \<or> spec_Storage (srv_Spec r) \<noteq> None \<or> length (spec_DisabledAPIs (srv_Spec r)) > 0"

definition annotationOf :: "OGXServer \<Rightarrow> string \<Rightarrow> string" where
  "annotationOf r k = (case mget (meta_Annotations (srv_ObjectMeta r)) k of None \<Rightarrow> [] | Some v \<Rightarrow> v)"

definition GetAdoptStorageSource :: "OGXServer \<Rightarrow> string" where
  "GetAdoptStorageSource r = annotationOf r AdoptStorageAnnotation"

definition GetAdoptNetworkingSource :: "OGXServer \<Rightarrow> string" where
  "GetAdoptNetworkingSource r = annotationOf r AdoptNetworkingAnnotation"

datatype adoption_error = AdoptionEmpty | AdoptionTooLong string | AdoptionNotDNSLabel string

definition isLowerAlnum :: "char \<Rightarrow> bool" where
  "isLowerAlnum c \<longleftrightarrow> isAsciiLower c \<or> isDigit c"

text \<open>\<open>dns1123LabelRegex\<close>: \<open>^[a-z0-9]([a-z0-9\-]{0,61}[a-z0-9])?$\<close>.\<close>

definition dns1123Label :: "string \<Rightarrow> bool" where
  "dns1123Label s \<longleftrightarrow>
     s \<noteq> [] \<and> isLowerAlnum (hd s) \<and>
     (length s = 1 \<or>
      (length s \<le> 63 \<and> isLowerAlnum (last s) \<and>
       list_all (\<lambda>c. isLowerAlnum c \<or> c = CHR ''-'') s))"

definition ValidateAdoptionAnnotation :: "string \<Rightarrow> adoption_error option" where
  "ValidateAdoptionAnnotation v =
     (if v = [] then Some AdoptionEmpty
      else if length v > 63 then Some (AdoptionTooLong v)
      else if \<not> dns1123Label v then Some (AdoptionNotDNSLabel v)
      else None)"

definition GetEffectivePVCName :: "OGXServer \<Rightarrow> string" where
  "GetEffectivePVCName r =
     (let src = GetAdoptStorageSource r
      in if src \<noteq> [] \<and> ValidateAdoptionAnnotation src = None then src @ ''-pvc''
         else meta_Name (srv_ObjectMeta r) @ ''-pvc'')"

lemma IsPraxisModeEnabled_iff:
  "IsPraxisModeEnabled s \<longleftrightarrow> (\<exists>pm. spec_PraxisMode s = Some pm \<and> pm_Enabled pm \<noteq> Some False)"
  by (auto simp: IsPraxisModeEnabled_def split: option.splits)

text \<open>The validation accepts exactly the RFC 1123 labels.\<close>

lemma ValidateAdoptionAnnotation_None_iff:
  "ValidateAdoptionAnnotation v = None \<longleftrightarrow>
     v \<noteq> [] \<and> length v \<le> 63 \<and> isLowerAlnum (hd v) \<and> isLowerAlnum (last v) \<and>
     list_all (\<lambda>c. isLowerAlnum c \<or> c = CHR ''-'') v"
proof -
  have "length v = 1 \<Longrightarrow> v = [hd v] \<and> last v = hd v" by (cases v) auto
  then show ?thesis
    by (auto simp: ValidateAdoptionAnnotation_def dns1123Label_def list_all_iff)
       (metis list.set_intros(1) in_set_conv_nth length_0_conv less_one set_ConsD list.set(1) empty_iff)+
qed

end
