(* ===== verification/Secrets.thy ===== *)
theory Secrets
  imports Api_Server
begin

text \<open>
  Secret references (\<open>pkg/config/secret.go\<close>): every secret reference of the spec becomes an
  environment variable of the server container, and the generated \<open>config.yaml\<close> mentions it as
  \<open>${env.NAME}\<close>.  The theory models the collection, the validation that runs before it, and the
  naming scheme, and proves that the names are always valid, that validation fails exactly on
  conflicting references, and that a validated spec loses no reference.
\<close>

section \<open>Names\<close>

definition envVarPrefix :: string where
  "envVarPrefix = ''OGX''"

definition isEnvVarAlphaNum :: "char \<Rightarrow> bool" where
  "isEnvVarAlphaNum c \<longleftrightarrow>
     (CHR ''A'' \<le> c \<and> c \<le> CHR ''Z'') \<or> (CHR ''0'' \<le> c \<and> c \<le> CHR ''9'')"

text \<open>The loop of \<open>trimAndCollapseToUnderscore\<close>, with its flag \<open>lastUnderscore\<close>.\<close>

fun collapseLoop :: "bool \<Rightarrow> string \<Rightarrow> string" where
  "collapseLoop lastUnderscore [] = []"
| "collapseLoop lastUnderscore (r # s) =
     (if isEnvVarAlphaNum r then r # collapseLoop False s
      else if \<not> lastUnderscore then CHR ''_'' # collapseLoop True s
      else collapseLoop lastUnderscore s)"

definition trimAndCollapseToUnderscore :: "string \<Rightarrow> string" where
  "trimAndCollapseToUnderscore s = trimChar (CHR ''_'') (collapseLoop False s)"

definition ensureValidEnvVarPrefix :: "string \<Rightarrow> string" where
  "ensureValidEnvVarPrefix s =
     (if s = [] then ''_''
      else if CHR ''0'' \<le> hd s \<and> hd s \<le> CHR ''9'' then CHR ''_'' # s
      else s)"

definition normalizeEnvVarField :: "string \<Rightarrow> string" where
  "normalizeEnvVarField s =
     (let upper = toUpper s; out = trimAndCollapseToUnderscore upper
      in ensureValidEnvVarPrefix out)"

definition buildEnvVarName :: "string \<Rightarrow> string \<Rightarrow> string" where
  "buildEnvVarName providerID fld = envVarPrefix @ ''_'' @ normalizeEnvVarField providerID @ ''_'' @ fld"

definition envVarRef :: "string \<Rightarrow> string \<Rightarrow> string" where
  "envVarRef providerID fld = ''${env.'' @ buildEnvVarName providerID fld @ ''}''"

text \<open>\<open>envVarNameRegex\<close>: \<open>^[A-Z_][A-Z0-9_]*$\<close>.\<close>

definition envVarNameRegex :: "string \<Rightarrow> bool" where
  "envVarNameRegex s \<longleftrightarrow>
     s \<noteq> [] \<and> ((CHR ''A'' \<le> hd s \<and> hd s \<le> CHR ''Z'') \<or> hd s = CHR ''_'')
     \<and> list_all (\<lambda>c. isEnvVarAlphaNum c \<or> c = CHR ''_'') (tl s)"

section \<open>Collecting\<close>

definition secretEnv :: "string \<Rightarrow> SecretKeyRef \<Rightarrow> EnvVar" where
  "secretEnv nm ref =
     \<lparr> env_Name = nm, env_Value = [],
       env_ValueFrom = Some (SecretSource \<lparr> sks_Name = skr_Name ref, sks_Key = skr_Key ref \<rparr>) \<rparr>"

definition secretToEnvVar :: "string \<Rightarrow> string \<Rightarrow> SecretKeyRef \<Rightarrow> EnvVar" where
  "secretToEnvVar providerID fld ref = secretEnv (buildEnvVarName providerID fld) ref"

text \<open>\<open>if p.F != nil { envVars = append(envVars, secretToEnvVar(id, F, *p.F)) }\<close>\<close>

definition optSecret :: "string \<Rightarrow> string \<Rightarrow> SecretKeyRef option \<Rightarrow> EnvVar list" where
  "optSecret providerID fld r = (case r of None \<Rightarrow> [] | Some ref \<Rightarrow> [secretToEnvVar providerID fld ref])"

definition collectCustomProviderSecrets :: "CustomProvider \<Rightarrow> EnvVar list" where
  "collectCustomProviderSecrets p =
     map (\<lambda>key. secretToEnvVar (custom_DeriveID p) (normalizeEnvVarField key)
                  (the (mget (custom_SecretRefs p) key)))
       (sort (mkeys (custom_SecretRefs p)))"

definition collectCustoms :: "CustomProvider list \<Rightarrow> EnvVar list" where
  "collectCustoms ps = concat (map collectCustomProviderSecrets ps)"

definition collectBedrockSecrets :: "BedrockProvider \<Rightarrow> EnvVar list" where
  "collectBedrockSecrets p =
     (let id = bedrock_DeriveID p in
        optSecret id ''API_KEY'' (bedrock_APIKey p)
      @ optSecret id ''AWS_ACCESS_KEY_ID'' (bedrock_AWSAccessKeyID p)
      @ optSecret id ''AWS_SECRET_ACCESS_KEY'' (bedrock_AWSSecretAccessKey p)
      @ optSecret id ''AWS_SESSION_TOKEN'' (bedrock_AWSSessionToken p))"

definition collectRemoteInferenceSecrets :: "InferenceRemoteProviders \<Rightarrow> EnvVar list" where
  "collectRemoteInferenceSecrets remote =
       concat (map (\<lambda>p. optSecret (vllm_DeriveID p) ''API_TOKEN'' (vllm_APIToken p)) (infR_VLLM remote))
     @ map (\<lambda>p. secretToEnvVar (openai_DeriveID p) ''API_KEY'' (openai_APIKey p)) (infR_OpenAI remote)
     @ map (\<lambda>p. secretToEnvVar (azure_DeriveID p) ''API_KEY'' (azure_APIKey p)) (infR_Azure remote)
     @ concat (map collectBedrockSecrets (infR_Bedrock remote))
     @ map (\<lambda>p. secretToEnvVar (watsonx_DeriveID p) ''API_KEY'' (watsonx_APIKey p)) (infR_Watsonx remote)
     @ collectCustoms (infR_Custom remote)"

definition collectInferenceSecrets :: "InferenceProvidersSpec \<Rightarrow> EnvVar list" where
  "collectInferenceSecrets s =
       (case inf_Remote s of None \<Rightarrow> [] | Some r \<Rightarrow> collectRemoteInferenceSecrets r)
     @ (case inf_Inline s of None \<Rightarrow> [] | Some i \<Rightarrow> collectCustoms (infI_Custom i))"

definition collectVectorIOSecrets :: "VectorIOProvidersSpec \<Rightarrow> EnvVar list" where
  "collectVectorIOSecrets s =
       (case vio_Remote s of None \<Rightarrow> [] | Some r \<Rightarrow>
            map (\<lambda>p. secretToEnvVar (pgv_DeriveID p) ''PASSWORD'' (pgv_Password p)) (vioR_Pgvector r)
          @ concat (map (\<lambda>p. optSecret (milvus_DeriveID p) ''TOKEN'' (milvus_Token p)) (vioR_Milvus r))
          @ concat (map (\<lambda>p. optSecret (qdrant_DeriveID p) ''API_KEY'' (qdrant_APIKey p)) (vioR_Qdrant r))
          @ collectCustoms (vioR_Custom r))
     @ (case vio_Inline s of None \<Rightarrow> [] | Some i \<Rightarrow> collectCustoms (vioI_Custom i))"

definition collectToolRuntimeSecrets :: "ToolRuntimeProvidersSpec \<Rightarrow> EnvVar list" where
  "collectToolRuntimeSecrets s =
       (case tr_Remote s of None \<Rightarrow> [] | Some r \<Rightarrow>
            map (\<lambda>p. secretToEnvVar (brave_DeriveID p) ''API_KEY'' (brave_APIKey p)) (trR_BraveSearch r)
          @ map (\<lambda>p. secretToEnvVar (tavily_DeriveID p) ''API_KEY'' (tavily_APIKey p)) (trR_TavilySearch r)
          @ collectCustoms (trR_Custom r))
     @ (case tr_Inline s of None \<Rightarrow> [] | Some i \<Rightarrow> collectCustoms (trI_Custom i))"

definition collectFilesSecrets :: "FilesProvidersSpec \<Rightarrow> EnvVar list" where
  "collectFilesSecrets s =
       (case files_Remote s of None \<Rightarrow> [] | Some r \<Rightarrow>
            (case filesR_S3 r of None \<Rightarrow> [] | Some p \<Rightarrow>
                 optSecret (s3_DeriveID p) ''AWS_ACCESS_KEY_ID'' (s3_AWSAccessKeyID p)
               @ optSecret (s3_DeriveID p) ''AWS_SECRET_ACCESS_KEY'' (s3_AWSSecretAccessKey p))
          @ collectCustoms (filesR_Custom r))
     @ (case files_Inline s of None \<Rightarrow> [] | Some i \<Rightarrow> collectCustoms (filesI_Custom i))"

definition collectFileProcessorsSecrets :: "FileProcessorsProvidersSpec \<Rightarrow> EnvVar list" where
  "collectFileProcessorsSecrets s =
       (case fp_Remote s of None \<Rightarrow> [] | Some r \<Rightarrow>
            (case fpR_DoclingServe r of None \<Rightarrow> [] | Some p \<Rightarrow>
               optSecret (dserve_DeriveID p) ''API_KEY'' (dserve_APIKey p))
          @ collectCustoms (fpR_Custom r))
     @ (case fp_Inline s of None \<Rightarrow> [] | Some i \<Rightarrow> collectCustoms (fpI_Custom i))"

definition collectCustomSecretsFromSlices :: "CustomProvider list \<Rightarrow> CustomProvider list \<Rightarrow> EnvVar list" where
  "collectCustomSecretsFromSlices remote inline = collectCustoms remote @ collectCustoms inline"

definition collectBatchesSecrets :: "BatchesProvidersSpec \<Rightarrow> EnvVar list" where
  "collectBatchesSecrets s =
     collectCustomSecretsFromSlices
       (case bat_Remote s of None \<Rightarrow> [] | Some r \<Rightarrow> batR_Custom r)
       (case bat_Inline s of None \<Rightarrow> [] | Some i \<Rightarrow> batI_Custom i)"

definition collectResponsesSecrets :: "ResponsesProvidersSpec \<Rightarrow> EnvVar list" where
  "collectResponsesSecrets s =
     collectCustomSecretsFromSlices
       (case resp_Remote s of None \<Rightarrow> [] | Some r \<Rightarrow> respR_Custom r)
       (case resp_Inline s of None \<Rightarrow> [] | Some i \<Rightarrow> respI_Custom i)"

definition collectProviderSecrets :: "ProvidersSpec \<Rightarrow> EnvVar list" where
  "collectProviderSecrets ps =
       (case ps_Inference ps of None \<Rightarrow> [] | Some s \<Rightarrow> collectInferenceSecrets s)
     @ (case ps_VectorIo ps of None \<Rightarrow> [] | Some s \<Rightarrow> collectVectorIOSecrets s)
     @ (case ps_ToolRuntime ps of None \<Rightarrow> [] | Some s \<Rightarrow> collectToolRuntimeSecrets s)
     @ (case ps_Files ps of None \<Rightarrow> [] | Some s \<Rightarrow> collectFilesSecrets s)
     @ (case ps_Batches ps of None \<Rightarrow> [] | Some s \<Rightarrow> collectBatchesSecrets s)
     @ (case ps_Responses ps of None \<Rightarrow> [] | Some s \<Rightarrow> collectResponsesSecrets s)
     @ (case ps_FileProcessors ps of None \<Rightarrow> [] | Some s \<Rightarrow> collectFileProcessorsSecrets s)"

definition collectStorageSecrets :: "StateStorageSpec \<Rightarrow> EnvVar list" where
  "collectStorageSecrets s =
       (case stg_KV s of None \<Rightarrow> [] | Some kv \<Rightarrow>
          (case kv_Password kv of None \<Rightarrow> [] | Some ref \<Rightarrow>
             [secretEnv (envVarPrefix @ ''_STORAGE_KV_PASSWORD'') ref]))
     @ (case stg_SQL s of None \<Rightarrow> [] | Some sql \<Rightarrow>
          (case sql_ConnectionString sql of None \<Rightarrow> [] | Some ref \<Rightarrow>
             [secretEnv (envVarPrefix @ ''_STORAGE_SQL_CONNECTION_STRING'') ref]))"

definition collectSecretRefsRaw :: "OGXServerSpec \<Rightarrow> EnvVar list" where
  "collectSecretRefsRaw s =
       (case spec_Providers s of None \<Rightarrow> [] | Some ps \<Rightarrow> collectProviderSecrets ps)
     @ (case spec_Storage s of None \<Rightarrow> [] | Some st \<Rightarrow> collectStorageSecrets st)"

fun addUniqueEnvVars :: "EnvVar gomap \<Rightarrow> EnvVar list \<Rightarrow> EnvVar gomap" where
  "addUniqueEnvVars dst [] = dst"
| "addUniqueEnvVars dst (env # envs) =
     (case mget dst (env_Name env) of
        None \<Rightarrow> addUniqueEnvVars (mput (env_Name env) env dst) envs
      | Some _ \<Rightarrow> addUniqueEnvVars dst envs)"

definition CollectSecretRefs :: "OGXServerSpec \<Rightarrow> EnvVar list" where
  "CollectSecretRefs s =
     (let unique = addUniqueEnvVars mempty (collectSecretRefsRaw s)
      in sort_key env_Name (map snd unique))"

section \<open>Validation\<close>

datatype secret_error =
    InvalidEnvVarName string
  | EnvVarCollision string SecretKeySelector SecretKeySelector

fun validateEnvLoop :: "SecretKeySelector gomap \<Rightarrow> EnvVar list \<Rightarrow> secret_error option" where
  "validateEnvLoop seen [] = None"
| "validateEnvLoop seen (env # envs) =
     (if \<not> envVarNameRegex (env_Name env) then Some (InvalidEnvVarName (env_Name env))
      else case env_SecretKeyRef env of
        None \<Rightarrow> validateEnvLoop seen envs
      | Some ref \<Rightarrow>
          (case mget seen (env_Name env) of
             Some existing \<Rightarrow>
               if sks_Name existing \<noteq> sks_Name ref \<or> sks_Key existing \<noteq> sks_Key ref
               then Some (EnvVarCollision (env_Name env) existing ref)
               else validateEnvLoop seen envs
           | None \<Rightarrow> validateEnvLoop (mput (env_Name env) ref seen) envs))"

definition ValidateSecretRefEnvVarNames :: "OGXServerSpec \<Rightarrow> secret_error option" where
  "ValidateSecretRefEnvVarNames s = validateEnvLoop mempty (collectSecretRefsRaw s)"

lemmas collect_defs =
  collectSecretRefsRaw_def collectProviderSecrets_def collectInferenceSecrets_def
  collectRemoteInferenceSecrets_def collectBedrockSecrets_def collectVectorIOSecrets_def
  collectToolRuntimeSecrets_def collectFilesSecrets_def collectFileProcessorsSecrets_def
  collectBatchesSecrets_def collectResponsesSecrets_def collectCustomSecretsFromSlices_def
  collectStorageSecrets_def

section \<open>The naming scheme\<close>

definition envChar :: "char \<Rightarrow> bool" where
  "envChar c \<longleftrightarrow> isEnvVarAlphaNum c \<or> c = CHR ''_''"

lemma envVarNameRegex_iff:
  "envVarNameRegex s \<longleftrightarrow>
     s \<noteq> [] \<and> (isAsciiUpper (hd s) \<or> hd s = CHR ''_'') \<and> list_all envChar (tl s)"
  by (simp add: envVarNameRegex_def envChar_def isAsciiUpper_def list_all_iff)

text \<open>\<open>collapsed b s\<close>: only allowed characters and no two underscores in a row (nor a leading
  one, when \<open>b\<close>).\<close>

fun collapsed :: "bool \<Rightarrow> string \<Rightarrow> bool" where
  "collapsed b [] \<longleftrightarrow> True"
| "collapsed b (c # cs) \<longleftrightarrow>
     (if isEnvVarAlphaNum c then collapsed False cs
      else c = CHR ''_'' \<and> \<not> b \<and> collapsed True cs)"

lemma collapsed_collapseLoop: "collapsed b (collapseLoop b s)"
  by (induction b s rule: collapseLoop.induct) (auto simp: isEnvVarAlphaNum_def)

lemma collapseLoop_collapsed: "collapsed b s \<Longrightarrow> collapseLoop b s = s"
  by (induction b s rule: collapsed.induct) (auto split: if_splits)

lemma collapsed_weaken: "collapsed b s \<Longrightarrow> collapsed False s"
  by (cases s) (auto split: if_splits)

lemma collapsed_append: "collapsed b (xs @ ys) \<Longrightarrow> collapsed b xs"
  by (induction b xs rule: collapsed.induct) (auto split: if_splits)

lemma collapsed_envChars: "collapsed b s \<Longrightarrow> list_all envChar s"
  by (induction b s rule: collapsed.induct) (auto simp: envChar_def split: if_splits)

lemma collapsed_dropWhile: "collapsed b s \<Longrightarrow> collapsed False (dropWhile (\<lambda>x. x = CHR ''_'') s)"
  by (induction b s rule: collapsed.induct) (auto split: if_splits intro: collapsed_weaken)

lemma trim_decomp:
  "\<exists>u. dropWhile (\<lambda>x. x = c) s = trimChar c s @ u"
  unfolding trimChar_def by (metis rev_append rev_rev_ident takeWhile_dropWhile_id)

lemma trimChar_hd_last:
  assumes "trimChar c s \<noteq> []"
  shows "hd (trimChar c s) \<noteq> c" and "last (trimChar c s) \<noteq> c"
proof -
  obtain u where u: "dropWhile (\<lambda>x. x = c) s = trimChar c s @ u"
    using trim_decomp by blast
  with assms have "hd (dropWhile (\<lambda>x. x = c) s) = hd (trimChar c s)"
    and "dropWhile (\<lambda>x. x = c) s \<noteq> []" by auto
  then show "hd (trimChar c s) \<noteq> c" by (metis (mono_tags) hd_dropWhile)
  show "last (trimChar c s) \<noteq> c"
    using assms unfolding trimChar_def
    by (metis (mono_tags, lifting) hd_dropWhile last_rev rev_is_Nil_conv)
qed

lemma dropWhile_hd: "s \<noteq> [] \<Longrightarrow> \<not> P (hd s) \<Longrightarrow> dropWhile P s = s"
  by (cases s) auto

lemma trimChar_id: "s \<noteq> [] \<Longrightarrow> hd s \<noteq> c \<Longrightarrow> last s \<noteq> c \<Longrightarrow> trimChar c s = s"
  by (simp add: trimChar_def dropWhile_hd hd_rev)

lemma trimAndCollapse_collapsed: "collapsed False (trimAndCollapseToUnderscore s)"
  unfolding trimAndCollapseToUnderscore_def
  by (metis collapsed_append collapsed_collapseLoop collapsed_dropWhile trim_decomp)

lemma upperByte_envChar: "envChar c \<Longrightarrow> upperByte c = c"
proof -
  assume "envChar c"
  then have "\<not> isAsciiLower c"
    by (auto simp: envChar_def isEnvVarAlphaNum_def isAsciiLower_def less_eq_char_def)
  then show ?thesis by (simp add: upperByte_def)
qed

lemma toUpper_envChars: "list_all envChar s \<Longrightarrow> toUpper s = s"
proof (induction s rule: toUpper.induct)
  case (3 c d s)
  have "\<not> envChar (CHR 0xC4)" "\<not> envChar (CHR 0xC5)"
    by (simp_all add: envChar_def isEnvVarAlphaNum_def less_eq_char_def)
  with 3 show ?case by (auto simp: upperByte_envChar)
qed (auto simp: upperByte_envChar)

lemma not_alnum_underscore [simp]: "\<not> isEnvVarAlphaNum (CHR ''_'')"
  by (simp add: isEnvVarAlphaNum_def)

lemma normalize_cases:
  obtains (empty) "normalizeEnvVarField s = ''_''"
  | (digit) t where "normalizeEnvVarField s = CHR ''_'' # t" "collapsed False t" "t \<noteq> []"
      "CHR ''0'' \<le> hd t \<and> hd t \<le> CHR ''9''" "hd t \<noteq> CHR ''_''" "last t \<noteq> CHR ''_''"
  | (letter) t where "normalizeEnvVarField s = t" "collapsed False t" "t \<noteq> []"
      "\<not> (CHR ''0'' \<le> hd t \<and> hd t \<le> CHR ''9'')" "hd t \<noteq> CHR ''_''" "last t \<noteq> CHR ''_''"
proof -
  define t where "t = trimAndCollapseToUnderscore (toUpper s)"
  have n: "normalizeEnvVarField s = ensureValidEnvVarPrefix t"
    by (simp add: normalizeEnvVarField_def t_def)
  have c: "collapsed False t" by (simp add: t_def trimAndCollapse_collapsed)
  have hl: "t \<noteq> [] \<Longrightarrow> hd t \<noteq> CHR ''_'' \<and> last t \<noteq> CHR ''_''"
    using trimChar_hd_last unfolding t_def trimAndCollapseToUnderscore_def by blast
  show thesis
    using n c hl empty digit letter unfolding ensureValidEnvVarPrefix_def
    by (metis (no_types, lifting))
qed

lemma collapsed_hd: "collapsed False t \<Longrightarrow> t \<noteq> [] \<Longrightarrow> hd t \<noteq> CHR ''_'' \<Longrightarrow> isEnvVarAlphaNum (hd t)"
  by (cases t) (auto split: if_splits)

lemma normalize_chars: "list_all envChar (normalizeEnvVarField s) \<and> normalizeEnvVarField s \<noteq> []"
  by (cases s rule: normalize_cases) (auto simp: envChar_def dest: collapsed_envChars)

lemma normalize_valid: "envVarNameRegex (normalizeEnvVarField s)"
proof (cases s rule: normalize_cases)
  case (letter t)
  then have "isEnvVarAlphaNum (hd t)" by (simp add: collapsed_hd)
  with letter show ?thesis
    using normalize_chars [of s]
    by (cases t) (auto simp: envVarNameRegex_iff isEnvVarAlphaNum_def isAsciiUpper_def)
qed (auto simp: envVarNameRegex_iff dest: collapsed_envChars)

lemma normalize_idem: "normalizeEnvVarField (normalizeEnvVarField s) = normalizeEnvVarField s"
proof (cases s rule: normalize_cases)
  case empty
  show ?thesis by (simp add: empty) code_simp
next
  case (digit t)
  have al: "isEnvVarAlphaNum (hd t)" using digit by (simp add: collapsed_hd)
  then have "collapsed False (CHR ''_'' # t)" using digit by (cases t) auto
  then have "collapseLoop False (CHR ''_'' # t) = CHR ''_'' # t" by (rule collapseLoop_collapsed)
  moreover have "toUpper (CHR ''_'' # t) = CHR ''_'' # t"
    using normalize_chars [of s] digit by (simp add: toUpper_envChars)
  moreover have "trimChar (CHR ''_'') (CHR ''_'' # t) = t"
    using digit trimChar_id [of t] by (simp add: trimChar_def)
  ultimately show ?thesis
    using digit by (simp add: normalizeEnvVarField_def trimAndCollapseToUnderscore_def
        ensureValidEnvVarPrefix_def)
next
  case (letter t)
  have "toUpper t = t" using letter by (simp add: toUpper_envChars collapsed_envChars)
  with letter show ?thesis
    by (auto simp: normalizeEnvVarField_def trimAndCollapseToUnderscore_def collapseLoop_collapsed
        trimChar_id ensureValidEnvVarPrefix_def)
qed

lemma buildEnvVarName_valid: "list_all envChar fld \<Longrightarrow> envVarNameRegex (buildEnvVarName i fld)"
  using normalize_chars [of i]
  by (simp add: buildEnvVarName_def envVarPrefix_def envVarNameRegex_iff isAsciiUpper_def)
     (simp add: isEnvVarAlphaNum_def envChar_def)


section \<open>The collected references\<close>

text \<open>
  Every collected variable is \<open>secretEnv\<close> of a name with allowed characters, scoped by the
  operator's prefix and one more segment.
\<close>

definition okEnv :: "EnvVar \<Rightarrow> bool" where
  "okEnv e \<longleftrightarrow> envVarNameRegex (env_Name e) \<and>
     (\<exists>ref. e = secretEnv (env_Name e) ref) \<and>
     (\<exists>a b. env_Name e = envVarPrefix @ ''_'' @ a @ ''_'' @ b)"

lemma okEnvI:
  assumes "envVarNameRegex n" "n = envVarPrefix @ ''_'' @ a @ ''_'' @ b"
  shows "okEnv (secretEnv n ref)"
proof -
  have "env_Name (secretEnv n ref) = n" by (simp add: secretEnv_def)
  then show ?thesis unfolding okEnv_def using assms by metis
qed

lemma okEnv_secretToEnvVar: "list_all envChar fld \<Longrightarrow> okEnv (secretToEnvVar i fld ref)"
  unfolding secretToEnvVar_def by (rule okEnvI [OF buildEnvVarName_valid buildEnvVarName_def])

lemma okEnv_optSecret: "list_all envChar fld \<Longrightarrow> list_all okEnv (optSecret i fld r)"
  by (simp add: optSecret_def okEnv_secretToEnvVar split: option.splits)

lemma okEnv_customs: "list_all okEnv (collectCustoms ps)"
  using normalize_chars
  by (auto simp: list_all_iff collectCustoms_def collectCustomProviderSecrets_def
      intro!: okEnv_secretToEnvVar)

lemma fieldNames_envChar:
  "list_all envChar ''API_TOKEN''" "list_all envChar ''API_KEY''" "list_all envChar ''PASSWORD''"
  "list_all envChar ''TOKEN''" "list_all envChar ''AWS_ACCESS_KEY_ID''"
  "list_all envChar ''AWS_SECRET_ACCESS_KEY''" "list_all envChar ''AWS_SESSION_TOKEN''"
  by (simp_all add: envChar_def isEnvVarAlphaNum_def)

lemma okEnv_storage: "list_all okEnv (collectStorageSecrets st)"
proof -
  have "envVarNameRegex (envVarPrefix @ ''_STORAGE_KV_PASSWORD'')"
    "envVarNameRegex (envVarPrefix @ ''_STORAGE_SQL_CONNECTION_STRING'')"
    by (simp_all add: envVarPrefix_def envVarNameRegex_def isEnvVarAlphaNum_def)
  then have "okEnv (secretEnv (envVarPrefix @ ''_STORAGE_KV_PASSWORD'') ref)"
    "okEnv (secretEnv (envVarPrefix @ ''_STORAGE_SQL_CONNECTION_STRING'') ref)" for ref
    by (auto intro: okEnvI [where a = "''STORAGE''" and b = "''KV_PASSWORD''"]
        okEnvI [where a = "''STORAGE''" and b = "''SQL_CONNECTION_STRING''"])
  then show ?thesis
    by (auto simp: collectStorageSecrets_def split: option.splits)
qed

lemma list_all_concat_map: "list_all P (concat (map f xs)) \<longleftrightarrow> (\<forall>x \<in> set xs. list_all P (f x))"
  by (induction xs) auto

lemma list_all_map_ball: "list_all P (map f xs) \<longleftrightarrow> (\<forall>x \<in> set xs. P (f x))"
  by (induction xs) auto

lemmas okEnv_simps = okEnv_customs okEnv_storage
  fieldNames_envChar [THEN okEnv_optSecret] fieldNames_envChar [THEN okEnv_secretToEnvVar]
  list_all_concat_map list_all_map_ball list_all_append

lemma okEnv_bedrock: "list_all okEnv (collectBedrockSecrets p)"
  by (simp add: collectBedrockSecrets_def Let_def okEnv_simps)

lemma okEnv_inference: "list_all okEnv (collectInferenceSecrets s)"
  by (simp add: collectInferenceSecrets_def collectRemoteInferenceSecrets_def okEnv_bedrock okEnv_simps
      split: option.split)

lemma okEnv_vectorIO: "list_all okEnv (collectVectorIOSecrets s)"
  by (simp add: collectVectorIOSecrets_def okEnv_simps split: option.split)

lemma okEnv_toolRuntime: "list_all okEnv (collectToolRuntimeSecrets s)"
  by (simp add: collectToolRuntimeSecrets_def okEnv_simps split: option.split)

lemma okEnv_files: "list_all okEnv (collectFilesSecrets s)"
  by (simp add: collectFilesSecrets_def okEnv_simps split: option.split)

lemma okEnv_fileProcessors: "list_all okEnv (collectFileProcessorsSecrets s)"
  by (simp add: collectFileProcessorsSecrets_def okEnv_simps split: option.split)

lemma okEnv_batches: "list_all okEnv (collectBatchesSecrets s)"
  by (simp add: collectBatchesSecrets_def collectCustomSecretsFromSlices_def okEnv_simps)

lemma okEnv_responses: "list_all okEnv (collectResponsesSecrets s)"
  by (simp add: collectResponsesSecrets_def collectCustomSecretsFromSlices_def okEnv_simps)

lemma okEnv_providers: "list_all okEnv (collectProviderSecrets ps)"
  by (simp add: collectProviderSecrets_def okEnv_inference okEnv_vectorIO okEnv_toolRuntime okEnv_files
      okEnv_fileProcessors okEnv_batches okEnv_responses split: option.split)

lemma okEnv_raw: "list_all okEnv (collectSecretRefsRaw s)"
  by (simp add: collectSecretRefsRaw_def okEnv_providers okEnv_storage split: option.split)

section \<open>Deduplication\<close>

lemma wf_addUnique: "wf_map m \<Longrightarrow> wf_map (addUniqueEnvVars m es)"
  by (induction m es rule: addUniqueEnvVars.induct) (auto split: option.splits)

lemma mget_addUnique:
  "mget (addUniqueEnvVars m es) n =
     (case mget m n of Some e \<Rightarrow> Some e | None \<Rightarrow> find (\<lambda>e. env_Name e = n) es)"
proof (induction m es rule: addUniqueEnvVars.induct)
  case (2 dst env envs)
  then show ?case by (cases "mget dst (env_Name env)") (auto split: option.split)
qed (simp split: option.split)

lemma find_Some_name: "find (\<lambda>e. env_Name e = n) es = Some e \<Longrightarrow> env_Name e = n \<and> e \<in> set es"
  by (auto simp: find_Some_iff)

lemma set_CollectSecretRefs:
  "e \<in> set (CollectSecretRefs s) \<longleftrightarrow>
     find (\<lambda>e'. env_Name e' = env_Name e) (collectSecretRefsRaw s) = Some e"
proof -
  let ?m = "addUniqueEnvVars mempty (collectSecretRefsRaw s)"
  have wf: "wf_map ?m" by (simp add: wf_addUnique)
  have "e \<in> set (CollectSecretRefs s) \<longleftrightarrow> e \<in> snd ` set ?m"
    by (simp add: CollectSecretRefs_def)
  also have "\<dots> \<longleftrightarrow> (\<exists>n. mget ?m n = Some e)"
    using wf_map_mget_iff [OF wf] by force
  also have "\<dots> \<longleftrightarrow> mget ?m (env_Name e) = Some e"
    using find_Some_name by (auto simp: mget_addUnique)
  finally show ?thesis by (simp add: mget_addUnique)
qed

lemma map_snd_names:
  assumes "wf_map m" "\<And>n e. mget m n = Some e \<Longrightarrow> env_Name e = n"
  shows "map env_Name (map snd m) = mkeys m"
  using assms by (auto simp: mkeys_def wf_map_mget_iff)

lemma CollectSecretRefs_sorted: "sorted_wrt (<) (map env_Name (CollectSecretRefs s))"
proof -
  let ?m = "addUniqueEnvVars mempty (collectSecretRefsRaw s)"
  have wf: "wf_map ?m" by (simp add: wf_addUnique)
  have names: "map env_Name (map snd ?m) = mkeys ?m"
    by (rule map_snd_names [OF wf]) (auto simp: mget_addUnique dest: find_Some_name)
  with wf have st: "sorted_wrt (<) (map env_Name (map snd ?m))" by (simp add: wf_map_def)
  then have "sort_key env_Name (map snd ?m) = map snd ?m"
    by (intro sort_key_id_if_sorted strict_sorted_imp_sorted)
  with st show ?thesis by (simp add: CollectSecretRefs_def)
qed

section \<open>Validation is exactly the absence of conflicts\<close>

definition conflictFree :: "EnvVar list \<Rightarrow> bool" where
  "conflictFree es \<longleftrightarrow> (\<forall>e \<in> set es. \<forall>e' \<in> set es. env_Name e = env_Name e' \<longrightarrow> e = e')"

lemma env_SecretKeyRef_secretEnv [simp]:
  "env_SecretKeyRef (secretEnv n ref) = Some \<lparr> sks_Name = skr_Name ref, sks_Key = skr_Key ref \<rparr>"
  by (simp add: env_SecretKeyRef_def secretEnv_def)

lemma okEnv_eqI:
  assumes "okEnv e" "okEnv e'" "env_Name e = env_Name e'" "env_SecretKeyRef e = env_SecretKeyRef e'"
  shows "e = e'"
proof -
  obtain r r' where e: "e = secretEnv (env_Name e) r" "e' = secretEnv (env_Name e) r'"
    using assms unfolding okEnv_def by metis
  then have "Some \<lparr> sks_Name = skr_Name r, sks_Key = skr_Key r \<rparr>
           = Some \<lparr> sks_Name = skr_Name r', sks_Key = skr_Key r' \<rparr>"
    using assms(4) by (metis env_SecretKeyRef_secretEnv)
  with e show ?thesis by (metis (no_types) SecretKeySelector.ext_inject option.inject secretEnv_def)
qed

lemma okEnv_ref: "okEnv e \<Longrightarrow> \<exists>r. env_SecretKeyRef e = Some r"
  unfolding okEnv_def by (metis env_SecretKeyRef_secretEnv)

text \<open>The loop invariant: \<open>seen\<close> holds the reference of every variable already visited.\<close>

lemma validateEnvLoop_None_iff:
  assumes "list_all okEnv es"
  shows "validateEnvLoop seen es = None \<longleftrightarrow>
     (\<forall>e \<in> set es. \<forall>r. mget seen (env_Name e) = Some r \<longrightarrow> env_SecretKeyRef e = Some r)
     \<and> conflictFree es"
  using assms
proof (induction es arbitrary: seen)
  case (Cons e es)
  obtain r where r: "env_SecretKeyRef e = Some r" using Cons.prems okEnv_ref by auto
  have name: "envVarNameRegex (env_Name e)" using Cons.prems by (simp add: okEnv_def)
  have ok: "okEnv e" "list_all okEnv es" using Cons.prems by auto
  have cf: "conflictFree (e # es) \<longleftrightarrow>
     conflictFree es \<and> (\<forall>e' \<in> set es. env_Name e' = env_Name e \<longrightarrow> env_SecretKeyRef e' = Some r)"
  proof -
    have "e' \<in> set es \<Longrightarrow> env_Name e' = env_Name e \<Longrightarrow> e' = e \<longleftrightarrow> env_SecretKeyRef e' = Some r" for e'
      using ok r okEnv_eqI [of e' e] by (auto simp: list_all_iff)
    then show ?thesis by (fastforce simp: conflictFree_def)
  qed
  show ?case
  proof (cases "mget seen (env_Name e)")
    case None
    then have "validateEnvLoop seen (e # es) = validateEnvLoop (mput (env_Name e) r seen) es"
      using name r by simp
    also have "\<dots> = None \<longleftrightarrow>
      (\<forall>e' \<in> set es. \<forall>r'. mget (mput (env_Name e) r seen) (env_Name e') = Some r'
         \<longrightarrow> env_SecretKeyRef e' = Some r') \<and> conflictFree es"
      using Cons.IH ok by blast
    finally show ?thesis using None cf by auto
  next
    case (Some r0)
    then show ?thesis using name r cf Cons.IH [OF ok(2)] by (cases r0; cases r) auto
  qed
qed (simp add: conflictFree_def)

lemma validateEnvLoop_no_invalid:
  assumes "list_all okEnv es" "validateEnvLoop seen es = Some err"
  shows "\<exists>n x y. err = EnvVarCollision n x y \<and> x \<noteq> y"
  using assms
proof (induction seen es rule: validateEnvLoop.induct)
  case (2 seen env envs)
  obtain r where "env_SecretKeyRef env = Some r" using "2.prems"(1) okEnv_ref by auto
  with 2 show ?case by (auto simp: okEnv_def split: option.splits if_splits)
qed simp

lemma conflictFree_find:
  "conflictFree es \<Longrightarrow> e \<in> set es \<Longrightarrow> find (\<lambda>e'. env_Name e' = env_Name e) es = Some e"
  by (cases "find (\<lambda>e'. env_Name e' = env_Name e) es")
     (auto simp: conflictFree_def find_None_iff dest!: find_Some_name)

lemma Validate_iff: "ValidateSecretRefEnvVarNames s = None \<longleftrightarrow> conflictFree (collectSecretRefsRaw s)"
  using validateEnvLoop_None_iff [OF okEnv_raw] by (simp add: ValidateSecretRefEnvVarNames_def)

section \<open>Properties\<close>

text \<open>
  Every provider ID and every custom field name, whatever bytes it holds, is normalized to a
  valid environment variable name (\<open>[A-Z_][A-Z0-9_]*\<close>), and normalizing again changes nothing.
  So the branch of the validation that rejects a malformed generated name is dead: it can only
  ever report a collision between two different references.
\<close>

theorem generated_names_are_valid:
  "envVarNameRegex (normalizeEnvVarField x)
   \<and> normalizeEnvVarField (normalizeEnvVarField x) = normalizeEnvVarField x
   \<and> (\<forall>e \<in> set (collectSecretRefsRaw s). envVarNameRegex (env_Name e))
   \<and> (\<forall>err. ValidateSecretRefEnvVarNames s = Some err \<longrightarrow>
        (\<exists>n a b. err = EnvVarCollision n a b \<and> a \<noteq> b))"
  using normalize_valid normalize_idem okEnv_raw [of s] validateEnvLoop_no_invalid [OF okEnv_raw]
  by (auto simp: ValidateSecretRefEnvVarNames_def list_all_iff okEnv_def)

definition exKV :: "string \<Rightarrow> KVStorageSpec" where
  "exKV name = \<lparr> kv_Type = ''redis'', kv_Endpoint = ''redis:6379'',
     kv_Password = Some \<lparr> skr_Name = name, skr_Key = ''password'' \<rparr> \<rparr>"

definition exPgvector :: PgvectorProvider where
  "exPgvector = \<lparr> pgv_RoutedProviderBase = \<lparr> rpb_ID = ''storage-kv'' \<rparr>, pgv_Host = [], pgv_Port = None,
     pgv_DB = [], pgv_User = [], pgv_Password = \<lparr> skr_Name = ''pg-secret'', skr_Key = ''password'' \<rparr>,
     pgv_DistanceMetric = [], pgv_VectorIndex = None \<rparr>"

text \<open>A spec whose vector store is called \<open>storage-kv\<close>: its password variable has the name of the
  Redis password variable.\<close>

definition exCollidingSpec :: "string \<Rightarrow> OGXServerSpec" where
  "exCollidingSpec name = \<lparr> spec_Distribution = \<lparr> dist_Name = ''starter'', dist_Image = [] \<rparr>,
     spec_Providers = Some \<lparr> ps_Inference = None,
       ps_VectorIo = Some \<lparr> vio_Remote = Some \<lparr> vioR_Pgvector = [exPgvector], vioR_Milvus = [],
                              vioR_Qdrant = [], vioR_Custom = [] \<rparr>, vio_Inline = None \<rparr>,
       ps_ToolRuntime = None, ps_Files = None, ps_Batches = None, ps_Responses = None,
       ps_FileProcessors = None \<rparr>,
     spec_Resources = None, spec_Storage = Some \<lparr> stg_KV = Some (exKV name), stg_SQL = None \<rparr>,
     spec_DisabledAPIs = [], spec_RegistryRefreshIntervalSeconds = None, spec_Network = None,
     spec_TLS = None, spec_Workload = None, spec_Monitoring = None, spec_BaseConfig = None,
     spec_OverrideConfig = None, spec_PraxisMode = None \<rparr>"

theorem generated_names_are_valid_witness:
  "\<exists>err. ValidateSecretRefEnvVarNames (exCollidingSpec ''redis-secret'') = Some err \<and>
     (\<exists>n a b. err = EnvVarCollision n a b \<and> a \<noteq> b)"
proof -
  have "ValidateSecretRefEnvVarNames (exCollidingSpec ''redis-secret'') =
     Some (EnvVarCollision ''OGX_STORAGE_KV_PASSWORD''
       \<lparr> sks_Name = ''pg-secret'', sks_Key = ''password'' \<rparr> \<lparr> sks_Name = ''redis-secret'', sks_Key = ''password'' \<rparr>)"
    by code_simp
  then show ?thesis using generated_names_are_valid [of "[]" "exCollidingSpec ''redis-secret''"] by blast
qed

text \<open>
  (C30) Validation is exact: it accepts a spec if and only if no two secret references of the spec
  get the same variable name while pointing at different secrets or keys.
\<close>

theorem validation_is_exact:
  "ValidateSecretRefEnvVarNames s = None \<longleftrightarrow>
     (\<forall>e \<in> set (collectSecretRefsRaw s). \<forall>e' \<in> set (collectSecretRefsRaw s).
        env_Name e = env_Name e' \<longrightarrow> env_SecretKeyRef e = env_SecretKeyRef e')"
proof -
  have "e = e' \<longleftrightarrow> env_SecretKeyRef e = env_SecretKeyRef e'"
    if "e \<in> set (collectSecretRefsRaw s)" "e' \<in> set (collectSecretRefsRaw s)" "env_Name e = env_Name e'" for e e'
    using that okEnv_raw [of s] okEnv_eqI [of e e'] by (auto simp: list_all_iff)
  then show ?thesis unfolding Validate_iff conflictFree_def by blast
qed

theorem validation_is_exact_witness:
  "ValidateSecretRefEnvVarNames (exCollidingSpec ''pg-secret'') = None \<and>
   length (collectSecretRefsRaw (exCollidingSpec ''pg-secret'')) = 2 \<and>
   env_SecretKeyRef (hd (collectSecretRefsRaw (exCollidingSpec ''pg-secret''))) =
   env_SecretKeyRef (last (collectSecretRefsRaw (exCollidingSpec ''pg-secret'')))"
proof -
  let ?raw = "collectSecretRefsRaw (exCollidingSpec ''pg-secret'')"
  have "ValidateSecretRefEnvVarNames (exCollidingSpec ''pg-secret'') = None" by code_simp
  moreover have len: "length ?raw = 2" by code_simp
  moreover have "env_Name (hd ?raw) = env_Name (last ?raw)" by code_simp
  moreover have "hd ?raw \<in> set ?raw" "last ?raw \<in> set ?raw"
    using len by (metis hd_in_set last_in_set length_0_conv zero_neq_numeral)+
  ultimately show ?thesis using validation_is_exact [of "exCollidingSpec ''pg-secret''"] by blast
qed

text \<open>
  The environment variables handed to the Deployment are strictly ordered by name (hence
  without duplicates and independent of Go's map iteration order), they are all references of the
  spec, every name of the spec is present, and when the spec passed validation no reference is
  lost: the collected list and the raw references have the same elements.
\<close>

theorem collected_env_vars:
  "sorted_wrt (<) (map env_Name (CollectSecretRefs s))
   \<and> set (CollectSecretRefs s) \<subseteq> set (collectSecretRefsRaw s)
   \<and> env_Name ` set (CollectSecretRefs s) = env_Name ` set (collectSecretRefsRaw s)
   \<and> (ValidateSecretRefEnvVarNames s = None \<longrightarrow> set (CollectSecretRefs s) = set (collectSecretRefsRaw s))"
proof -
  have sub: "set (CollectSecretRefs s) \<subseteq> set (collectSecretRefsRaw s)"
    by (auto simp: set_CollectSecretRefs dest: find_Some_name)
  have "env_Name e \<in> env_Name ` set (CollectSecretRefs s)" if e: "e \<in> set (collectSecretRefsRaw s)" for e
  proof -
    obtain e' where f: "find (\<lambda>e'. env_Name e' = env_Name e) (collectSecretRefsRaw s) = Some e'"
      using e by (cases "find (\<lambda>e'. env_Name e' = env_Name e) (collectSecretRefsRaw s)") (auto simp: find_None_iff)
    then have n: "env_Name e' = env_Name e" by (auto dest: find_Some_name)
    with f have "e' \<in> set (CollectSecretRefs s)" by (simp add: set_CollectSecretRefs)
    then have "env_Name e' \<in> env_Name ` set (CollectSecretRefs s)" by (rule imageI)
    with n show ?thesis by simp
  qed
  with sub have names: "env_Name ` set (CollectSecretRefs s) = env_Name ` set (collectSecretRefsRaw s)" by blast
  have "set (collectSecretRefsRaw s) \<subseteq> set (CollectSecretRefs s)" if "ValidateSecretRefEnvVarNames s = None"
    using that conflictFree_find by (auto simp: Validate_iff set_CollectSecretRefs)
  with sub names CollectSecretRefs_sorted show ?thesis by auto
qed

theorem collected_env_vars_witness:
  "ValidateSecretRefEnvVarNames (exCollidingSpec ''pg-secret'') = None
   \<and> set (CollectSecretRefs (exCollidingSpec ''pg-secret'')) = set (collectSecretRefsRaw (exCollidingSpec ''pg-secret''))"
proof -
  have "ValidateSecretRefEnvVarNames (exCollidingSpec ''pg-secret'') = None" by code_simp
  then show ?thesis using collected_env_vars [of "exCollidingSpec ''pg-secret''"] by blast
qed

end
