(* ===== verification/Provider_Config.thy ===== *)
theory Provider_Config
  imports Secrets
begin

text \<open>
  Expansion of one typed provider into its \<open>config.yaml\<close> entry (\<open>pkg/config/provider.go\<close>, the
  functions \<open>expandXProvider\<close> and the \<open>apply\<close>/\<open>set\<close> helpers they share).  A Go map that a
  helper fills in place is passed through the helper's model as its last argument.  Each
  expander is total; only custom providers can fail (malformed or conflicting settings).
\<close>

section \<open>Config entries and setters\<close>

record ConfigProvider =
  cp_ProviderID :: string
  cp_ProviderType :: string
  cp_Config :: ymap

definition setString :: "string \<Rightarrow> string \<Rightarrow> ymap \<Rightarrow> ymap" where
  "setString key val cfg = (if val \<noteq> [] then mput key (YStr val) cfg else cfg)"

definition setPtr :: "('a \<Rightarrow> yaml) \<Rightarrow> string \<Rightarrow> 'a option \<Rightarrow> ymap \<Rightarrow> ymap" where
  "setPtr conv key val cfg = (case val of None \<Rightarrow> cfg | Some v \<Rightarrow> mput key (conv v) cfg)"

definition setIntPtr :: "string \<Rightarrow> int option \<Rightarrow> ymap \<Rightarrow> ymap" where
  "setIntPtr = setPtr YInt"

definition setBoolPtr :: "string \<Rightarrow> bool option \<Rightarrow> ymap \<Rightarrow> ymap" where
  "setBoolPtr = setPtr YBool"

definition setStringPtr :: "string \<Rightarrow> string option \<Rightarrow> ymap \<Rightarrow> ymap" where
  "setStringPtr = setPtr YStr"

definition setStrings :: "string \<Rightarrow> string list \<Rightarrow> ymap \<Rightarrow> ymap" where
  "setStrings key vals cfg = (if length vals > 0 then mput key (YList (map YStr vals)) cfg else cfg)"

text \<open>\<open>if len(m) > 0 { cfg[key] = m }\<close>\<close>

definition setNonEmpty :: "string \<Rightarrow> ymap \<Rightarrow> ymap \<Rightarrow> ymap" where
  "setNonEmpty key m cfg = (if length m > 0 then mput key (YMap m) cfg else cfg)"

definition setSecretRef :: "string \<Rightarrow> string \<Rightarrow> string \<Rightarrow> SecretKeyRef option \<Rightarrow> ymap \<Rightarrow> ymap" where
  "setSecretRef key providerID fld ref cfg =
     (case ref of None \<Rightarrow> cfg | Some _ \<Rightarrow> mput key (YStr (envVarRef providerID fld)) cfg)"

section \<open>Network settings of remote inference providers\<close>

definition applyTLSConfig :: "TLSConfig option \<Rightarrow> ymap \<Rightarrow> ymap" where
  "applyTLSConfig tls cfg = (case tls of None \<Rightarrow> cfg | Some t \<Rightarrow>
     (let m = mempty;
          m = setBoolPtr ''verify'' (tlsc_Verify t) m;
          m = setString ''min_version'' (tlsc_MinVersion t) m;
          m = setStrings ''ciphers'' (tlsc_Ciphers t) m
      in setNonEmpty ''tls'' m cfg))"

definition applyTimeoutConfig :: "TimeoutConfig option \<Rightarrow> ymap \<Rightarrow> ymap" where
  "applyTimeoutConfig timeout cfg = (case timeout of None \<Rightarrow> cfg | Some t \<Rightarrow>
     (let m = mempty;
          m = setIntPtr ''connect'' (timeout_Connect t) m;
          m = setIntPtr ''read'' (timeout_Read t) m
      in setNonEmpty ''timeout'' m cfg))"

definition applyProxyConfig :: "ProxyConfig option \<Rightarrow> ymap \<Rightarrow> ymap" where
  "applyProxyConfig proxy cfg = (case proxy of None \<Rightarrow> cfg | Some p \<Rightarrow>
     (let m = mempty;
          m = setStringPtr ''url'' (proxy_URL p) m;
          m = setStringPtr ''http'' (proxy_HTTP p) m;
          m = setStringPtr ''https'' (proxy_HTTPS p) m;
          m = setStringPtr ''ca_cert'' (proxy_CACert p) m;
          m = setStrings ''no_proxy'' (proxy_NoProxy p) m
      in setNonEmpty ''proxy'' m cfg))"

definition applyNetworkConfig :: "NetworkConfig option \<Rightarrow> ymap \<Rightarrow> ymap" where
  "applyNetworkConfig network cfg = (case network of None \<Rightarrow> cfg | Some nw \<Rightarrow>
     (let n = mempty;
          n = applyTLSConfig (netc_TLS nw) n;
          n = applyTimeoutConfig (netc_Timeout nw) n;
          n = (if length (netc_Headers nw) > 0 then mput ''headers'' (jsonStrMap (netc_Headers nw)) n else n);
          n = applyProxyConfig (netc_Proxy nw) n
      in setNonEmpty ''network'' n cfg))"

definition applyCommonInferenceConfig :: "RemoteInferenceCommonConfig \<Rightarrow> ymap \<Rightarrow> ymap" where
  "applyCommonInferenceConfig c cfg =
     (let cfg = setBoolPtr ''refresh_models'' (ric_RefreshModels c) cfg;
          cfg = setStrings ''allowed_models'' (ric_AllowedModels c) cfg
      in applyNetworkConfig (ric_Network c) cfg)"

section \<open>Inference providers\<close>

definition mkProvider :: "string \<Rightarrow> string \<Rightarrow> ymap \<Rightarrow> ConfigProvider" where
  "mkProvider pid ptype cfg = \<lparr> cp_ProviderID = pid, cp_ProviderType = ptype, cp_Config = cfg \<rparr>"

definition expandVLLMProvider :: "VLLMProvider \<Rightarrow> ConfigProvider" where
  "expandVLLMProvider p =
     (let cfg = mlit [(''base_url'', YStr (vllm_Endpoint p))];
          cfg = setIntPtr ''max_tokens'' (vllm_MaxTokens p) cfg;
          cfg = setSecretRef ''api_token'' (vllm_DeriveID p) ''API_TOKEN'' (vllm_APIToken p) cfg;
          cfg = applyCommonInferenceConfig (vllm_RemoteInferenceCommonConfig p) cfg
      in mkProvider (vllm_DeriveID p) ''remote::vllm'' cfg)"

definition expandOpenAIProvider :: "OpenAIProvider \<Rightarrow> ConfigProvider" where
  "expandOpenAIProvider p =
     (let cfg = mlit [(''api_key'', YStr (envVarRef (openai_DeriveID p) ''API_KEY''))];
          cfg = setString ''base_url'' (openai_Endpoint p) cfg;
          cfg = applyCommonInferenceConfig (openai_RemoteInferenceCommonConfig p) cfg
      in mkProvider (openai_DeriveID p) ''remote::openai'' cfg)"

definition expandAzureProvider :: "AzureProvider \<Rightarrow> ConfigProvider" where
  "expandAzureProvider p =
     (let cfg = mlit [(''base_url'', YStr (azure_Endpoint p)),
                      (''api_key'', YStr (envVarRef (azure_DeriveID p) ''API_KEY''))];
          cfg = setString ''api_version'' (azure_APIVersion p) cfg;
          cfg = setString ''api_type'' (azure_APIType p) cfg;
          cfg = applyCommonInferenceConfig (azure_RemoteInferenceCommonConfig p) cfg
      in mkProvider (azure_DeriveID p) ''remote::azure'' cfg)"

definition expandBedrockProvider :: "BedrockProvider \<Rightarrow> ConfigProvider" where
  "expandBedrockProvider p =
     (let cfg = mlit [(''region_name'', YStr (bedrock_Region p))];
          id = bedrock_DeriveID p;
          cfg = setSecretRef ''api_key'' id ''API_KEY'' (bedrock_APIKey p) cfg;
          cfg = setSecretRef ''aws_access_key_id'' id ''AWS_ACCESS_KEY_ID'' (bedrock_AWSAccessKeyID p) cfg;
          cfg = setSecretRef ''aws_secret_access_key'' id ''AWS_SECRET_ACCESS_KEY'' (bedrock_AWSSecretAccessKey p) cfg;
          cfg = setSecretRef ''aws_session_token'' id ''AWS_SESSION_TOKEN'' (bedrock_AWSSessionToken p) cfg;
          cfg = setString ''aws_role_arn'' (bedrock_AWSRoleArn p) cfg;
          cfg = setString ''aws_web_identity_token_file'' (bedrock_AWSWebIdentityTokenFile p) cfg;
          cfg = setString ''aws_role_session_name'' (bedrock_AWSRoleSessionName p) cfg;
          cfg = setString ''profile_name'' (bedrock_ProfileName p) cfg;
          cfg = setString ''retry_mode'' (bedrock_RetryMode p) cfg;
          cfg = setIntPtr ''total_max_attempts'' (bedrock_TotalMaxAttempts p) cfg;
          cfg = setIntPtr ''connect_timeout'' (bedrock_ConnectTimeout p) cfg;
          cfg = setIntPtr ''read_timeout'' (bedrock_ReadTimeout p) cfg;
          cfg = setIntPtr ''session_ttl'' (bedrock_SessionTTL p) cfg;
          cfg = applyCommonInferenceConfig (bedrock_RemoteInferenceCommonConfig p) cfg
      in mkProvider id ''remote::bedrock'' cfg)"

definition expandVertexAIProvider :: "VertexAIProvider \<Rightarrow> ConfigProvider" where
  "expandVertexAIProvider p =
     (let cfg = mlit [(''project'', YStr (vertex_Project p))];
          cfg = setString ''location'' (vertex_Location p) cfg;
          cfg = applyCommonInferenceConfig (vertex_RemoteInferenceCommonConfig p) cfg
      in mkProvider (vertex_DeriveID p) ''remote::vertexai'' cfg)"

definition expandWatsonxProvider :: "WatsonxProvider \<Rightarrow> ConfigProvider" where
  "expandWatsonxProvider p =
     (let cfg = mlit [(''api_key'', YStr (envVarRef (watsonx_DeriveID p) ''API_KEY''))];
          cfg = setString ''base_url'' (watsonx_Endpoint p) cfg;
          cfg = setString ''project_id'' (watsonx_ProjectID p) cfg;
          cfg = setIntPtr ''timeout'' (watsonx_Timeout p) cfg;
          cfg = applyCommonInferenceConfig (watsonx_RemoteInferenceCommonConfig p) cfg
      in mkProvider (watsonx_DeriveID p) ''remote::watsonx'' cfg)"

section \<open>Custom providers\<close>

datatype provider_error =
    BadSettingsJSON string
  | SettingsSecretConflict string string

text \<open>\<open>json.Unmarshal\<close> into a \<open>map[string]interface{}\<close>: an object, or \<open>null\<close> for the nil map.\<close>

definition jsonUnmarshalMap :: "RawJSON \<Rightarrow> ymap option" where
  "jsonUnmarshalMap raw =
     (case raw of RawValue (YMap m) \<Rightarrow> Some m | RawValue YNull \<Rightarrow> Some mempty | _ \<Rightarrow> None)"

fun customSettingsLoop :: "string \<Rightarrow> SecretKeyRef gomap \<Rightarrow> ymap \<Rightarrow> ymap \<Rightarrow> provider_error + ymap" where
  "customSettingsLoop pid refs [] cfg = Inr cfg"
| "customSettingsLoop pid refs ((k, v) # settings) cfg =
     (case mget refs k of
        Some _ \<Rightarrow> Inl (SettingsSecretConflict pid k)
      | None \<Rightarrow> customSettingsLoop pid refs settings (mput k v cfg))"

definition customSecretConfig :: "CustomProvider \<Rightarrow> ymap" where
  "customSecretConfig p =
     fold (\<lambda>key cfg. mput key (YStr (envVarRef (custom_DeriveID p) (normalizeEnvVarField key))) cfg)
       (mkeys (custom_SecretRefs p)) mempty"

definition expandCustomProvider :: "CustomProvider \<Rightarrow> provider_error + ConfigProvider" where
  "expandCustomProvider p =
     (let cfg = customSecretConfig p in
      case custom_Settings p of
        None \<Rightarrow> Inr (mkProvider (custom_DeriveID p) (custom_Type p) cfg)
      | Some raw \<Rightarrow>
          (case jsonUnmarshalMap raw of
             None \<Rightarrow> Inl (BadSettingsJSON (custom_DeriveID p))
           | Some settings \<Rightarrow>
               (case customSettingsLoop (custom_DeriveID p) (custom_SecretRefs p) settings cfg of
                  Inl e \<Rightarrow> Inl e
                | Inr cfg' \<Rightarrow> Inr (mkProvider (custom_DeriveID p) (custom_Type p) cfg'))))"

section \<open>Vector IO providers\<close>

text \<open>The vector-index helpers return a Go map or nil; nil is also returned for an empty map.\<close>

definition nilIfEmpty :: "ymap \<Rightarrow> ymap option" where
  "nilIfEmpty cfg = (if length cfg = 0 then None else Some cfg)"

definition expandPgvectorHNSW :: "HNSWConfig option \<Rightarrow> ymap option" where
  "expandPgvectorHNSW hnsw = (case hnsw of None \<Rightarrow> None | Some h \<Rightarrow>
     (let cfg = mempty;
          cfg = setIntPtr ''m'' (hnsw_M h) cfg;
          cfg = setIntPtr ''ef_construction'' (hnsw_EfConstruction h) cfg;
          cfg = setIntPtr ''ef_search'' (hnsw_EfSearch h) cfg
      in nilIfEmpty cfg))"

definition expandPgvectorIVFFlat :: "IVFFlatConfig option \<Rightarrow> ymap option" where
  "expandPgvectorIVFFlat ivf = (case ivf of None \<Rightarrow> None | Some v \<Rightarrow>
     (let cfg = mempty;
          cfg = setIntPtr ''nlist'' (ivf_Nlist v) cfg;
          cfg = setIntPtr ''nprobe'' (ivf_Nprobe v) cfg
      in nilIfEmpty cfg))"

definition expandPgvectorVectorIndex :: "VectorIndexConfig option \<Rightarrow> ymap option" where
  "expandPgvectorVectorIndex vectorIndex = (case vectorIndex of None \<Rightarrow> None | Some vi \<Rightarrow>
     (let cfg = mempty;
          cfg = setPtr YMap ''hnsw'' (expandPgvectorHNSW (vidx_HNSW vi)) cfg;
          cfg = setPtr YMap ''ivf_flat'' (expandPgvectorIVFFlat (vidx_IVFFlat vi)) cfg
      in nilIfEmpty cfg))"

definition expandPgvectorProvider :: "PgvectorProvider \<Rightarrow> ConfigProvider" where
  "expandPgvectorProvider p =
     (let cfg = mempty;
          cfg = setString ''host'' (pgv_Host p) cfg;
          cfg = setIntPtr ''port'' (pgv_Port p) cfg;
          cfg = setString ''db'' (pgv_DB p) cfg;
          cfg = setString ''user'' (pgv_User p) cfg;
          cfg = mput ''password'' (YStr (envVarRef (pgv_DeriveID p) ''PASSWORD'')) cfg;
          cfg = setString ''distance_metric'' (pgv_DistanceMetric p) cfg;
          cfg = setPtr YMap ''vector_index'' (expandPgvectorVectorIndex (pgv_VectorIndex p)) cfg;
          cfg = mput ''persistence''
                  (YMap (mlit [(''backend'', YStr ''kv_default''),
                               (''namespace'', YStr (pgv_PersistenceNamespace p))])) cfg
      in mkProvider (pgv_DeriveID p) ''remote::pgvector'' cfg)"

definition expandMilvusProvider :: "MilvusProvider \<Rightarrow> ConfigProvider" where
  "expandMilvusProvider p =
     (let cfg = mlit [(''uri'', YStr (milvus_URI p))];
          cfg = setSecretRef ''token'' (milvus_DeriveID p) ''TOKEN'' (milvus_Token p) cfg;
          cfg = setString ''consistency_level'' (milvus_ConsistencyLevel p) cfg
      in mkProvider (milvus_DeriveID p) ''remote::milvus'' cfg)"

definition applyQdrantConnectionConfig :: "QdrantProvider \<Rightarrow> ymap \<Rightarrow> ymap" where
  "applyQdrantConnectionConfig p cfg =
     (let cfg = setString ''url'' (qdrant_URL p) cfg;
          cfg = setString ''host'' (qdrant_Host p) cfg;
          cfg = setIntPtr ''port'' (qdrant_Port p) cfg
      in setString ''location'' (qdrant_Location p) cfg)"

definition applyQdrantAuthConfig :: "QdrantProvider \<Rightarrow> ymap \<Rightarrow> ymap" where
  "applyQdrantAuthConfig p cfg =
     setSecretRef ''api_key'' (qdrant_DeriveID p) ''API_KEY'' (qdrant_APIKey p) cfg"

definition applyQdrantRuntimeConfig :: "QdrantProvider \<Rightarrow> ymap \<Rightarrow> ymap" where
  "applyQdrantRuntimeConfig p cfg =
     (let cfg = setIntPtr ''grpc_port'' (qdrant_GRPCPort p) cfg;
          cfg = setBoolPtr ''prefer_grpc'' (qdrant_PreferGRPC p) cfg;
          cfg = setBoolPtr ''https'' (qdrant_HTTPS p) cfg;
          cfg = setString ''prefix'' (qdrant_Prefix p) cfg
      in setIntPtr ''timeout'' (qdrant_Timeout p) cfg)"

definition expandQdrantProvider :: "QdrantProvider \<Rightarrow> ConfigProvider" where
  "expandQdrantProvider p =
     (let cfg = mempty;
          cfg = applyQdrantConnectionConfig p cfg;
          cfg = applyQdrantAuthConfig p cfg;
          cfg = applyQdrantRuntimeConfig p cfg
      in mkProvider (qdrant_DeriveID p) ''remote::qdrant'' cfg)"

section \<open>Vector store configuration\<close>

definition setMapPtr :: "('a \<Rightarrow> ymap) \<Rightarrow> string \<Rightarrow> 'a option \<Rightarrow> ymap \<Rightarrow> ymap" where
  "setMapPtr f = setPtr (\<lambda>x. YMap (f x))"

definition expandQualifiedModel :: "QualifiedModel \<Rightarrow> ymap" where
  "expandQualifiedModel qm =
     (let m = mlit [(''provider_id'', YStr (qm_ProviderID qm)), (''model_id'', YStr (qm_ModelID qm))]
      in setIntPtr ''embedding_dimensions'' (qm_EmbeddingDimensions qm) m)"

definition expandRerankerModel :: "RerankerModel \<Rightarrow> ymap" where
  "expandRerankerModel m =
     mlit [(''provider_id'', YStr (rm_ProviderID m)), (''model_id'', YStr (rm_ModelID m))]"

definition expandRewriteQueryParams :: "RewriteQueryParams \<Rightarrow> ymap" where
  "expandRewriteQueryParams p =
     (let cfg = mempty;
          cfg = setMapPtr expandQualifiedModel ''model'' (rq_Model p) cfg;
          cfg = setString ''prompt'' (rq_Prompt p) cfg;
          cfg = setIntPtr ''max_tokens'' (rq_MaxTokens p) cfg
      in setStringPtr ''temperature'' (rq_Temperature p) cfg)"

definition expandFileSearchParams :: "FileSearchDisplayParams \<Rightarrow> ymap" where
  "expandFileSearchParams p =
     (let cfg = mempty;
          cfg = setString ''header_template'' (fsd_HeaderTemplate p) cfg
      in setString ''footer_template'' (fsd_FooterTemplate p) cfg)"

definition expandContextPromptParams :: "ContextPromptParams \<Rightarrow> ymap" where
  "expandContextPromptParams p =
     (let cfg = mempty;
          cfg = setString ''chunk_annotation_template'' (cpp_ChunkAnnotationTemplate p) cfg
      in setString ''context_template'' (cpp_ContextTemplate p) cfg)"

definition expandAnnotationPromptParams :: "AnnotationPromptParams \<Rightarrow> ymap" where
  "expandAnnotationPromptParams p =
     (let cfg = mempty;
          cfg = setBoolPtr ''enable_annotations'' (ann_EnableAnnotations p) cfg;
          cfg = setString ''annotation_instruction_template'' (ann_AnnotationInstructionTemplate p) cfg
      in setString ''chunk_annotation_template'' (ann_ChunkAnnotationTemplate p) cfg)"

definition expandFileIngestionParams :: "FileIngestionParams \<Rightarrow> ymap" where
  "expandFileIngestionParams p =
     (let cfg = mempty;
          cfg = setIntPtr ''default_chunk_size_tokens'' (fip_DefaultChunkSizeTokens p) cfg
      in setIntPtr ''default_chunk_overlap_tokens'' (fip_DefaultChunkOverlapTokens p) cfg)"

definition expandChunkRetrievalParams :: "ChunkRetrievalParams \<Rightarrow> ymap" where
  "expandChunkRetrievalParams p =
     (let cfg = mempty;
          cfg = setIntPtr ''chunk_multiplier'' (crp_ChunkMultiplier p) cfg;
          cfg = setIntPtr ''max_tokens_in_context'' (crp_MaxTokensInContext p) cfg;
          cfg = setStringPtr ''default_reranker_strategy'' (crp_DefaultRerankerStrategy p) cfg;
          cfg = setStringPtr ''rrf_impact_factor'' (crp_RRFImpactFactor p) cfg;
          cfg = setStringPtr ''weighted_search_alpha'' (crp_WeightedSearchAlpha p) cfg
      in setStringPtr ''default_search_mode'' (crp_DefaultSearchMode p) cfg)"

definition expandFileBatchParams :: "FileBatchParams \<Rightarrow> ymap" where
  "expandFileBatchParams p =
     (let cfg = mempty;
          cfg = setIntPtr ''max_concurrent_files_per_batch'' (fbp_MaxConcurrentFilesPerBatch p) cfg;
          cfg = setIntPtr ''file_batch_chunk_size'' (fbp_FileBatchChunkSize p) cfg
      in setIntPtr ''cleanup_interval_seconds'' (fbp_CleanupIntervalSeconds p) cfg)"

definition expandContextualRetrievalParams :: "ContextualRetrievalParams \<Rightarrow> ymap" where
  "expandContextualRetrievalParams p =
     (let cfg = mempty;
          cfg = setMapPtr expandQualifiedModel ''model'' (ctxr_Model p) cfg;
          cfg = setIntPtr ''default_timeout_seconds'' (ctxr_DefaultTimeoutSeconds p) cfg;
          cfg = setIntPtr ''default_max_concurrency'' (ctxr_DefaultMaxConcurrency p) cfg
      in setIntPtr ''max_document_tokens'' (ctxr_MaxDocumentTokens p) cfg)"

definition applyVectorStoreDefaults :: "VectorStoresConfig \<Rightarrow> ymap \<Rightarrow> ymap" where
  "applyVectorStoreDefaults vs cfg =
     (let cfg = setString ''default_provider_id'' (vsc_DefaultProviderID vs) cfg;
          cfg = setMapPtr expandQualifiedModel ''default_embedding_model'' (vsc_DefaultEmbeddingModel vs) cfg
      in setMapPtr expandRerankerModel ''default_reranker_model'' (vsc_DefaultRerankerModel vs) cfg)"

definition applyVectorStoreSearchConfig :: "VectorStoresConfig \<Rightarrow> ymap \<Rightarrow> ymap" where
  "applyVectorStoreSearchConfig vs cfg =
     (let cfg = setMapPtr expandRewriteQueryParams ''rewrite_query_params'' (vsc_RewriteQueryParams vs) cfg;
          cfg = setMapPtr expandFileSearchParams ''file_search_params'' (vsc_FileSearchParams vs) cfg
      in setMapPtr expandChunkRetrievalParams ''chunk_retrieval_params'' (vsc_ChunkRetrievalParams vs) cfg)"

definition applyVectorStorePromptConfig :: "VectorStoresConfig \<Rightarrow> ymap \<Rightarrow> ymap" where
  "applyVectorStorePromptConfig vs cfg =
     (let cfg = setMapPtr expandContextPromptParams ''context_prompt_params'' (vsc_ContextPromptParams vs) cfg
      in setMapPtr expandAnnotationPromptParams ''annotation_prompt_params'' (vsc_AnnotationPromptParams vs) cfg)"

definition applyVectorStoreIngestionConfig :: "VectorStoresConfig \<Rightarrow> ymap \<Rightarrow> ymap" where
  "applyVectorStoreIngestionConfig vs cfg =
     (let cfg = setMapPtr expandFileIngestionParams ''file_ingestion_params'' (vsc_FileIngestionParams vs) cfg;
          cfg = setMapPtr expandFileBatchParams ''file_batch_params'' (vsc_FileBatchParams vs) cfg
      in setMapPtr expandContextualRetrievalParams ''contextual_retrieval_params''
           (vsc_ContextualRetrievalParams vs) cfg)"

definition expandVectorStoresConfig :: "VectorStoresConfig \<Rightarrow> ymap" where
  "expandVectorStoresConfig vs =
     (let m = mempty;
          m = applyVectorStoreDefaults vs m;
          m = applyVectorStoreSearchConfig vs m;
          m = applyVectorStorePromptConfig vs m
      in applyVectorStoreIngestionConfig vs m)"

definition expandCompactionConfig :: "CompactionConfig \<Rightarrow> ymap" where
  "expandCompactionConfig cc =
     (let m = mempty;
          m = setString ''summarization_prompt'' (comp_SummarizationPrompt cc) m;
          m = setString ''summary_prefix'' (comp_SummaryPrefix cc) m;
          m = setString ''summarization_model'' (comp_SummarizationModel cc) m;
          m = setIntPtr ''default_compact_threshold'' (comp_DefaultCompactThreshold cc) m
      in setString ''tokenizer_encoding'' (comp_TokenizerEncoding cc) m)"

section \<open>Tool runtime, files, batches and responses providers\<close>

definition expandBraveSearchProvider :: "BraveSearchProvider \<Rightarrow> ConfigProvider" where
  "expandBraveSearchProvider p =
     (let cfg = mlit [(''api_key'', YStr (envVarRef (brave_DeriveID p) ''API_KEY''))];
          cfg = setIntPtr ''max_results'' (brave_MaxResults p) cfg
      in mkProvider (brave_DeriveID p) ''remote::brave-search'' cfg)"

definition expandTavilySearchProvider :: "TavilySearchProvider \<Rightarrow> ConfigProvider" where
  "expandTavilySearchProvider p =
     (let cfg = mlit [(''api_key'', YStr (envVarRef (tavily_DeriveID p) ''API_KEY''))];
          cfg = setIntPtr ''max_results'' (tavily_MaxResults p) cfg
      in mkProvider (tavily_DeriveID p) ''remote::tavily-search'' cfg)"

definition expandMCPProvider :: "ModelContextProtocolProvider \<Rightarrow> ConfigProvider" where
  "expandMCPProvider p = mkProvider (mcp_DeriveID p) ''remote::model-context-protocol'' mempty"

definition expandInlineFileSearchProvider :: "InlineFileSearchProvider \<Rightarrow> ConfigProvider" where
  "expandInlineFileSearchProvider p =
     (let cfg = mempty;
          cfg = setMapPtr expandVectorStoresConfig ''vector_stores_config'' (fsearch_VectorStoresConfig p) cfg
      in mkProvider (fsearch_DeriveID p) ''inline::rag-runtime'' cfg)"

definition expandS3Provider :: "S3Provider \<Rightarrow> ConfigProvider" where
  "expandS3Provider p =
     (let cfg = mlit [(''bucket_name'', YStr (s3_BucketName p))];
          cfg = setString ''region'' (s3_Region p) cfg;
          cfg = setString ''endpoint_url'' (s3_EndpointURL p) cfg;
          cfg = setSecretRef ''aws_access_key_id'' (s3_DeriveID p) ''AWS_ACCESS_KEY_ID'' (s3_AWSAccessKeyID p) cfg;
          cfg = setSecretRef ''aws_secret_access_key'' (s3_DeriveID p) ''AWS_SECRET_ACCESS_KEY'' (s3_AWSSecretAccessKey p) cfg;
          cfg = setBoolPtr ''auto_create_bucket'' (s3_AutoCreateBucket p) cfg
      in mkProvider (s3_DeriveID p) ''remote::s3'' cfg)"

definition expandLocalFSProvider :: "InlineLocalFSProvider \<Rightarrow> ConfigProvider" where
  "expandLocalFSProvider p =
     (let cfg = setIntPtr ''ttl_secs'' (localfs_TTLSecs p) mempty
      in mkProvider (localfs_DeriveID p) ''inline::localfs'' cfg)"

definition expandReferenceProvider :: "InlineReferenceProvider \<Rightarrow> ConfigProvider" where
  "expandReferenceProvider p =
     (let cfg = mempty;
          cfg = setIntPtr ''max_concurrent_batches'' (refp_MaxConcurrentBatches p) cfg;
          cfg = setIntPtr ''max_concurrent_requests_per_batch'' (refp_MaxConcurrentRequestsPerBatch p) cfg
      in mkProvider (refp_DeriveID p) ''inline::batch-reference'' cfg)"

definition expandBuiltinResponsesProvider :: "InlineBuiltinResponsesProvider \<Rightarrow> ConfigProvider" where
  "expandBuiltinResponsesProvider p =
     (let cfg = mempty;
          cfg = setMapPtr expandVectorStoresConfig ''vector_stores_config'' (rbi_VectorStoresConfig p) cfg;
          cfg = setMapPtr expandCompactionConfig ''compaction_config'' (rbi_CompactionConfig p) cfg
      in mkProvider (rbi_DeriveID p) ''inline::responses'' cfg)"

section \<open>File processors\<close>

definition expandDoclingServeProvider :: "DoclingServeProvider \<Rightarrow> ConfigProvider" where
  "expandDoclingServeProvider p =
     (let cfg = mlit [(''base_url'', YStr (dserve_BaseURL p))];
          cfg = setSecretRef ''api_key'' (dserve_DeriveID p) ''API_KEY'' (dserve_APIKey p) cfg;
          cfg = setIntPtr ''default_chunk_size_tokens'' (dserve_DefaultChunkSizeTokens p) cfg
      in mkProvider (dserve_DeriveID p) ''remote::docling-serve'' cfg)"

definition applyChunkConfig :: "FileProcessorChunkConfig \<Rightarrow> ymap \<Rightarrow> ymap" where
  "applyChunkConfig c cfg =
     setIntPtr ''default_chunk_overlap_tokens'' (fpc_DefaultChunkOverlapTokens c)
       (setIntPtr ''default_chunk_size_tokens'' (fpc_DefaultChunkSizeTokens c) cfg)"

definition expandAutoFileProcessorProvider :: "InlineAutoFileProcessorProvider \<Rightarrow> ConfigProvider" where
  "expandAutoFileProcessorProvider p =
     (let cfg = applyChunkConfig (fpauto_FileProcessorChunkConfig p) mempty;
          cfg = setBoolPtr ''extract_metadata'' (fpauto_ExtractMetadata p) cfg;
          cfg = setBoolPtr ''clean_text'' (fpauto_CleanText p) cfg
      in mkProvider (fpauto_DeriveID p) ''inline::auto'' cfg)"

definition expandPyPDFFileProcessorProvider :: "InlinePyPDFFileProcessorProvider \<Rightarrow> ConfigProvider" where
  "expandPyPDFFileProcessorProvider p =
     (let cfg = applyChunkConfig (pypdf_FileProcessorChunkConfig p) mempty;
          cfg = setBoolPtr ''extract_metadata'' (pypdf_ExtractMetadata p) cfg;
          cfg = setBoolPtr ''clean_text'' (pypdf_CleanText p) cfg
      in mkProvider (pypdf_DeriveID p) ''inline::pypdf'' cfg)"

definition expandMarkItDownFileProcessorProvider :: "InlineMarkItDownFileProcessorProvider \<Rightarrow> ConfigProvider" where
  "expandMarkItDownFileProcessorProvider p =
     (let cfg = applyChunkConfig (markit_FileProcessorChunkConfig p) mempty
      in mkProvider (markit_DeriveID p) ''inline::markitdown'' cfg)"

definition expandDoclingFileProcessorProvider :: "InlineDoclingFileProcessorProvider \<Rightarrow> ConfigProvider" where
  "expandDoclingFileProcessorProvider p =
     (let cfg = applyChunkConfig (docling_FileProcessorChunkConfig p) mempty;
          cfg = setBoolPtr ''do_ocr'' (docling_DoOCR p) cfg
      in mkProvider (docling_DeriveID p) ''inline::docling'' cfg)"

section \<open>Lookup laws of the setters\<close>

lemma mget_setPtr [simp]:
  "mget (setPtr f k v m) k' = (if k' = k \<and> v \<noteq> None then Some (f (the v)) else mget m k')"
  by (cases v) (auto simp: setPtr_def)

lemma mget_setString [simp]:
  "mget (setString k v m) k' = (if k' = k \<and> v \<noteq> [] then Some (YStr v) else mget m k')"
  by (simp add: setString_def)

lemma mget_setStrings [simp]:
  "mget (setStrings k v m) k' = (if k' = k \<and> v \<noteq> [] then Some (YList (map YStr v)) else mget m k')"
  by (simp add: setStrings_def)

lemma mget_setNonEmpty [simp]:
  "mget (setNonEmpty k v m) k' = (if k' = k \<and> v \<noteq> [] then Some (YMap v) else mget m k')"
  by (simp add: setNonEmpty_def)

lemma mget_setSecretRef [simp]:
  "mget (setSecretRef k i f r m) k' =
     (if k' = k \<and> r \<noteq> None then Some (YStr (envVarRef i f)) else mget m k')"
  by (cases r) (auto simp: setSecretRef_def)

lemma mget_mlit_Nil [simp]: "mget (mlit []) k = None"
  by (simp add: mlit_def)

lemma mget_mlit1 [simp]: "mget (mlit [(k, v)]) k' = (if k' = k then Some v else None)"
  by (simp add: mlit_def)

lemma mget_mlit2 [simp]:
  "mget (mlit [(k, v), (l, w)]) k' = (if k' = l then Some w else if k' = k then Some v else None)"
  by (simp add: mlit_def)

lemmas setPtr_defs = setIntPtr_def setBoolPtr_def setStringPtr_def setMapPtr_def

lemma mget_applyNetworkConfig:
  "k \<noteq> ''network'' \<Longrightarrow> mget (applyNetworkConfig n cfg) k = mget cfg k"
  by (simp add: applyNetworkConfig_def Let_def split: option.split)

text \<open>The shared inference settings touch three keys only.\<close>

lemma mget_applyCommonInferenceConfig:
  "k \<notin> {''refresh_models'', ''allowed_models'', ''network''} \<Longrightarrow>
   mget (applyCommonInferenceConfig c cfg) k = mget cfg k"
  by (simp add: applyCommonInferenceConfig_def Let_def mget_applyNetworkConfig setPtr_defs)

section \<open>Well-formedness of the produced trees\<close>

lemma wf_setPtr [simp]: "wf_ymap m \<Longrightarrow> (\<And>x. v = Some x \<Longrightarrow> wf_yaml (f x)) \<Longrightarrow> wf_ymap (setPtr f k v m)"
  by (cases v) (auto simp: setPtr_def)

lemma wf_setString [simp]: "wf_ymap m \<Longrightarrow> wf_ymap (setString k v m)"
  by (simp add: setString_def)

lemma wf_setStrings [simp]: "wf_ymap m \<Longrightarrow> wf_ymap (setStrings k v m)"
  by (simp add: setStrings_def del: wf_yaml.simps)

lemma wf_setNonEmpty [simp]: "wf_ymap m \<Longrightarrow> wf_ymap v \<Longrightarrow> wf_ymap (setNonEmpty k v m)"
  by (simp add: setNonEmpty_def)

lemma wf_setSecretRef [simp]: "wf_ymap m \<Longrightarrow> wf_ymap (setSecretRef k i f r m)"
  by (cases r) (auto simp: setSecretRef_def)

lemma wf_setPtrs [simp]:
  "wf_ymap m \<Longrightarrow> wf_ymap (setIntPtr k i m)" "wf_ymap m \<Longrightarrow> wf_ymap (setBoolPtr k b m)"
  "wf_ymap m \<Longrightarrow> wf_ymap (setStringPtr k s m)"
  "wf_ymap m \<Longrightarrow> (\<And>x. wf_ymap (f x)) \<Longrightarrow> wf_ymap (setMapPtr f k v m)"
  by (simp_all add: setPtr_defs)

lemma wf_mlit1 [simp]: "wf_yaml v \<Longrightarrow> wf_ymap (mlit [(k, v)])"
  by (auto intro: wf_ymap_mlit)

lemma wf_mlit2 [simp]: "wf_yaml v \<Longrightarrow> wf_yaml w \<Longrightarrow> wf_ymap (mlit [(k, v), (l, w)])"
  by (auto intro: wf_ymap_mlit)

end
