(* ===== verification/Provider_Expand.thy ===== *)
theory Provider_Expand
  imports Provider_Config
begin

text \<open>
  \<open>ExpandProviders\<close> (\<open>pkg/config/provider.go\<close>): one expander per configured API, composed as the code
  composes them, and the correspondence between this walk over the spec and the one in
  \<open>secret.go\<close>.  The source keeps the two walks in step by a comment (``Keep in sync with
  \<open>buildProviderExpanders\<close>''); here both are shown to be views of one list of \<open>entries\<close>, from
  which it follows that every secret the deployment mounts is referenced by the generated
  configuration and every reference the expanders write is mounted.
\<close>

section \<open>The expanders\<close>

fun appendCustomProviders ::
  "ConfigProvider list \<Rightarrow> CustomProvider list \<Rightarrow> provider_error + ConfigProvider list" where
  "appendCustomProviders providers [] = Inr providers"
| "appendCustomProviders providers (p # custom) =
     ebind (expandCustomProvider p) (\<lambda>cp. appendCustomProviders (providers @ [cp]) custom)"

definition expandRemoteInferenceProviders ::
  "InferenceRemoteProviders \<Rightarrow> ConfigProvider list \<Rightarrow> ConfigProvider list" where
  "expandRemoteInferenceProviders remote providers =
     providers
     @ map expandVLLMProvider (infR_VLLM remote)
     @ map expandOpenAIProvider (infR_OpenAI remote)
     @ map expandAzureProvider (infR_Azure remote)
     @ map expandBedrockProvider (infR_Bedrock remote)
     @ map expandVertexAIProvider (infR_VertexAI remote)
     @ map expandWatsonxProvider (infR_Watsonx remote)"

text \<open>\<open>if spec.Remote != nil { ... }\<close> and \<open>if spec.Inline != nil { ... }\<close>: append the built-in entries,
  then the custom ones; the first error wins.\<close>

definition expandSection ::
  "('r \<Rightarrow> ConfigProvider list) \<Rightarrow> ('r \<Rightarrow> CustomProvider list) \<Rightarrow> 'r option
   \<Rightarrow> ConfigProvider list \<Rightarrow> provider_error + ConfigProvider list" where
  "expandSection builtin custom sec providers =
     (case sec of None \<Rightarrow> Inr providers
      | Some r \<Rightarrow> appendCustomProviders (providers @ builtin r) (custom r))"

definition expandInferenceProviders :: "InferenceProvidersSpec \<Rightarrow> provider_error + ConfigProvider list" where
  "expandInferenceProviders s =
     ebind (expandSection (\<lambda>r. expandRemoteInferenceProviders r []) infR_Custom (inf_Remote s) [])
       (expandSection (\<lambda>i. []) infI_Custom (inf_Inline s))"

definition expandVectorIOProviders :: "VectorIOProvidersSpec \<Rightarrow> provider_error + ConfigProvider list" where
  "expandVectorIOProviders s =
     ebind (expandSection (\<lambda>r. map expandPgvectorProvider (vioR_Pgvector r)
                              @ map expandMilvusProvider (vioR_Milvus r)
                              @ map expandQdrantProvider (vioR_Qdrant r)) vioR_Custom (vio_Remote s) [])
       (expandSection (\<lambda>i. []) vioI_Custom (vio_Inline s))"

definition expandToolRuntimeProviders :: "ToolRuntimeProvidersSpec \<Rightarrow> provider_error + ConfigProvider list" where
  "expandToolRuntimeProviders s =
     ebind (expandSection (\<lambda>r. map expandBraveSearchProvider (trR_BraveSearch r)
                              @ map expandTavilySearchProvider (trR_TavilySearch r)
                              @ map expandMCPProvider (trR_ModelContextProtocol r)) trR_Custom (tr_Remote s) [])
       (expandSection (\<lambda>i. map expandInlineFileSearchProvider (trI_FileSearch i)) trI_Custom (tr_Inline s))"

definition optEntry :: "('a \<Rightarrow> 'b) \<Rightarrow> 'a option \<Rightarrow> 'b list" where
  "optEntry f x = (case x of None \<Rightarrow> [] | Some p \<Rightarrow> [f p])"

definition expandFilesProviders :: "FilesProvidersSpec \<Rightarrow> provider_error + ConfigProvider list" where
  "expandFilesProviders s =
     ebind (expandSection (\<lambda>r. optEntry expandS3Provider (filesR_S3 r)) filesR_Custom (files_Remote s) [])
       (expandSection (\<lambda>i. optEntry expandLocalFSProvider (filesI_LocalFS i)) filesI_Custom (files_Inline s))"

definition expandBatchesProviders :: "BatchesProvidersSpec \<Rightarrow> provider_error + ConfigProvider list" where
  "expandBatchesProviders s =
     ebind (expandSection (\<lambda>r. []) batR_Custom (bat_Remote s) [])
       (expandSection (\<lambda>i. optEntry expandReferenceProvider (batI_Reference i)) batI_Custom (bat_Inline s))"

definition expandResponsesProviders :: "ResponsesProvidersSpec \<Rightarrow> provider_error + ConfigProvider list" where
  "expandResponsesProviders s =
     ebind (expandSection (\<lambda>r. []) respR_Custom (resp_Remote s) [])
       (expandSection (\<lambda>i. optEntry expandBuiltinResponsesProvider (respI_Builtin i)) respI_Custom (resp_Inline s))"

definition expandFileProcessorsProviders ::
  "FileProcessorsProvidersSpec \<Rightarrow> provider_error + ConfigProvider list" where
  "expandFileProcessorsProviders s =
     ebind (expandSection (\<lambda>r. optEntry expandDoclingServeProvider (fpR_DoclingServe r)) fpR_Custom (fp_Remote s) [])
       (expandSection (\<lambda>i. optEntry expandAutoFileProcessorProvider (fpI_Auto i)
                          @ optEntry expandPyPDFFileProcessorProvider (fpI_PyPDF i)
                          @ optEntry expandMarkItDownFileProcessorProvider (fpI_MarkItDown i)
                          @ optEntry expandDoclingFileProcessorProvider (fpI_Docling i)) fpI_Custom (fp_Inline s))"

section \<open>All APIs\<close>

text \<open>A \<open>providerExpander\<close> is an API name with its delayed expansion.\<close>

definition buildProviderExpanders ::
  "ProvidersSpec \<Rightarrow> (string \<times> (provider_error + ConfigProvider list)) list" where
  "buildProviderExpanders p =
       optEntry (\<lambda>s. (''inference'', expandInferenceProviders s)) (ps_Inference p)
     @ optEntry (\<lambda>s. (''vector_io'', expandVectorIOProviders s)) (ps_VectorIo p)
     @ optEntry (\<lambda>s. (''tool_runtime'', expandToolRuntimeProviders s)) (ps_ToolRuntime p)
     @ optEntry (\<lambda>s. (''files'', expandFilesProviders s)) (ps_Files p)
     @ optEntry (\<lambda>s. (''batches'', expandBatchesProviders s)) (ps_Batches p)
     @ optEntry (\<lambda>s. (''responses'', expandResponsesProviders s)) (ps_Responses p)
     @ optEntry (\<lambda>s. (''file_processors'', expandFileProcessorsProviders s)) (ps_FileProcessors p)"

datatype expand_error = ExpandFailed string provider_error

fun expandLoop ::
  "(string \<times> (provider_error + ConfigProvider list)) list \<Rightarrow> ConfigProvider list gomap
   \<Rightarrow> expand_error + ConfigProvider list gomap" where
  "expandLoop [] result = Inr result"
| "expandLoop ((apiType, expand) # es) result =
     (case expand of
        Inl err \<Rightarrow> Inl (ExpandFailed apiType err)
      | Inr ps \<Rightarrow> expandLoop es (if length ps > 0 then mput apiType ps result else result))"

text \<open>The nil map returned for nil providers is \<open>None\<close>.\<close>

definition ExpandProviders :: "ProvidersSpec option \<Rightarrow> expand_error + ConfigProvider list gomap option" where
  "ExpandProviders providers =
     (case providers of None \<Rightarrow> Inr None
      | Some p \<Rightarrow> emap Some (expandLoop (buildProviderExpanders p) mempty))"

section \<open>The provider entries of a spec\<close>

text \<open>An entry is one configured provider: its ID, its expansion and the secrets it mounts.\<close>

type_synonym entry = "string \<times> (provider_error + ConfigProvider) \<times> EnvVar list"

definition ent :: "('a \<Rightarrow> string) \<Rightarrow> ('a \<Rightarrow> ConfigProvider) \<Rightarrow> ('a \<Rightarrow> EnvVar list) \<Rightarrow> 'a \<Rightarrow> entry" where
  "ent deriveID expand secrets p = (deriveID p, Inr (expand p), secrets p)"

definition customEnt :: "CustomProvider \<Rightarrow> entry" where
  "customEnt p = (custom_DeriveID p, expandCustomProvider p, collectCustomProviderSecrets p)"

definition optEntries :: "('a \<Rightarrow> entry list) \<Rightarrow> 'a option \<Rightarrow> entry list" where
  "optEntries f x = (case x of None \<Rightarrow> [] | Some s \<Rightarrow> f s)"

definition inferenceEntries :: "InferenceProvidersSpec \<Rightarrow> entry list" where
  "inferenceEntries s =
     optEntries (\<lambda>r.
         map (ent vllm_DeriveID expandVLLMProvider
                (\<lambda>p. optSecret (vllm_DeriveID p) ''API_TOKEN'' (vllm_APIToken p))) (infR_VLLM r)
       @ map (ent openai_DeriveID expandOpenAIProvider
                (\<lambda>p. [secretToEnvVar (openai_DeriveID p) ''API_KEY'' (openai_APIKey p)])) (infR_OpenAI r)
       @ map (ent azure_DeriveID expandAzureProvider
                (\<lambda>p. [secretToEnvVar (azure_DeriveID p) ''API_KEY'' (azure_APIKey p)])) (infR_Azure r)
       @ map (ent bedrock_DeriveID expandBedrockProvider collectBedrockSecrets) (infR_Bedrock r)
       @ map (ent vertex_DeriveID expandVertexAIProvider (\<lambda>p. [])) (infR_VertexAI r)
       @ map (ent watsonx_DeriveID expandWatsonxProvider
                (\<lambda>p. [secretToEnvVar (watsonx_DeriveID p) ''API_KEY'' (watsonx_APIKey p)])) (infR_Watsonx r)
       @ map customEnt (infR_Custom r)) (inf_Remote s)
     @ optEntries (\<lambda>i. map customEnt (infI_Custom i)) (inf_Inline s)"

definition vectorIOEntries :: "VectorIOProvidersSpec \<Rightarrow> entry list" where
  "vectorIOEntries s =
     optEntries (\<lambda>r.
         map (ent pgv_DeriveID expandPgvectorProvider
                (\<lambda>p. [secretToEnvVar (pgv_DeriveID p) ''PASSWORD'' (pgv_Password p)])) (vioR_Pgvector r)
       @ map (ent milvus_DeriveID expandMilvusProvider
                (\<lambda>p. optSecret (milvus_DeriveID p) ''TOKEN'' (milvus_Token p))) (vioR_Milvus r)
       @ map (ent qdrant_DeriveID expandQdrantProvider
                (\<lambda>p. optSecret (qdrant_DeriveID p) ''API_KEY'' (qdrant_APIKey p))) (vioR_Qdrant r)
       @ map customEnt (vioR_Custom r)) (vio_Remote s)
     @ optEntries (\<lambda>i. map customEnt (vioI_Custom i)) (vio_Inline s)"

definition toolRuntimeEntries :: "ToolRuntimeProvidersSpec \<Rightarrow> entry list" where
  "toolRuntimeEntries s =
     optEntries (\<lambda>r.
         map (ent brave_DeriveID expandBraveSearchProvider
                (\<lambda>p. [secretToEnvVar (brave_DeriveID p) ''API_KEY'' (brave_APIKey p)])) (trR_BraveSearch r)
       @ map (ent tavily_DeriveID expandTavilySearchProvider
                (\<lambda>p. [secretToEnvVar (tavily_DeriveID p) ''API_KEY'' (tavily_APIKey p)])) (trR_TavilySearch r)
       @ map (ent mcp_DeriveID expandMCPProvider (\<lambda>p. [])) (trR_ModelContextProtocol r)
       @ map customEnt (trR_Custom r)) (tr_Remote s)
     @ optEntries (\<lambda>i.
         map (ent fsearch_DeriveID expandInlineFileSearchProvider (\<lambda>p. [])) (trI_FileSearch i)
       @ map customEnt (trI_Custom i)) (tr_Inline s)"

definition filesEntries :: "FilesProvidersSpec \<Rightarrow> entry list" where
  "filesEntries s =
     optEntries (\<lambda>r.
         optEntry (ent s3_DeriveID expandS3Provider (\<lambda>p.
             optSecret (s3_DeriveID p) ''AWS_ACCESS_KEY_ID'' (s3_AWSAccessKeyID p)
           @ optSecret (s3_DeriveID p) ''AWS_SECRET_ACCESS_KEY'' (s3_AWSSecretAccessKey p))) (filesR_S3 r)
       @ map customEnt (filesR_Custom r)) (files_Remote s)
     @ optEntries (\<lambda>i.
         optEntry (ent localfs_DeriveID expandLocalFSProvider (\<lambda>p. [])) (filesI_LocalFS i)
       @ map customEnt (filesI_Custom i)) (files_Inline s)"

definition batchesEntries :: "BatchesProvidersSpec \<Rightarrow> entry list" where
  "batchesEntries s =
     optEntries (\<lambda>r. map customEnt (batR_Custom r)) (bat_Remote s)
     @ optEntries (\<lambda>i.
         optEntry (ent refp_DeriveID expandReferenceProvider (\<lambda>p. [])) (batI_Reference i)
       @ map customEnt (batI_Custom i)) (bat_Inline s)"

definition responsesEntries :: "ResponsesProvidersSpec \<Rightarrow> entry list" where
  "responsesEntries s =
     optEntries (\<lambda>r. map customEnt (respR_Custom r)) (resp_Remote s)
     @ optEntries (\<lambda>i.
         optEntry (ent rbi_DeriveID expandBuiltinResponsesProvider (\<lambda>p. [])) (respI_Builtin i)
       @ map customEnt (respI_Custom i)) (resp_Inline s)"

definition fileProcessorsEntries :: "FileProcessorsProvidersSpec \<Rightarrow> entry list" where
  "fileProcessorsEntries s =
     optEntries (\<lambda>r.
         optEntry (ent dserve_DeriveID expandDoclingServeProvider
                     (\<lambda>p. optSecret (dserve_DeriveID p) ''API_KEY'' (dserve_APIKey p))) (fpR_DoclingServe r)
       @ map customEnt (fpR_Custom r)) (fp_Remote s)
     @ optEntries (\<lambda>i.
         optEntry (ent fpauto_DeriveID expandAutoFileProcessorProvider (\<lambda>p. [])) (fpI_Auto i)
       @ optEntry (ent pypdf_DeriveID expandPyPDFFileProcessorProvider (\<lambda>p. [])) (fpI_PyPDF i)
       @ optEntry (ent markit_DeriveID expandMarkItDownFileProcessorProvider (\<lambda>p. [])) (fpI_MarkItDown i)
       @ optEntry (ent docling_DeriveID expandDoclingFileProcessorProvider (\<lambda>p. [])) (fpI_Docling i)
       @ map customEnt (fpI_Custom i)) (fp_Inline s)"

definition apiEntries :: "ProvidersSpec \<Rightarrow> (string \<times> entry list) list" where
  "apiEntries p =
       optEntry (\<lambda>s. (''inference'', inferenceEntries s)) (ps_Inference p)
     @ optEntry (\<lambda>s. (''vector_io'', vectorIOEntries s)) (ps_VectorIo p)
     @ optEntry (\<lambda>s. (''tool_runtime'', toolRuntimeEntries s)) (ps_ToolRuntime p)
     @ optEntry (\<lambda>s. (''files'', filesEntries s)) (ps_Files p)
     @ optEntry (\<lambda>s. (''batches'', batchesEntries s)) (ps_Batches p)
     @ optEntry (\<lambda>s. (''responses'', responsesEntries s)) (ps_Responses p)
     @ optEntry (\<lambda>s. (''file_processors'', fileProcessorsEntries s)) (ps_FileProcessors p)"

definition allEntries :: "ProvidersSpec \<Rightarrow> entry list" where
  "allEntries p = concat (map snd (apiEntries p))"

section \<open>Both walks are views of the entries\<close>

lemma appendCustomProviders_traverse:
  "appendCustomProviders ps cs = emap (\<lambda>as. ps @ as) (traverse (map expandCustomProvider cs))"
proof (induction cs arbitrary: ps)
  case (Cons c cs)
  then show ?case
    by (cases "expandCustomProvider c"; cases "traverse (map expandCustomProvider cs)") auto
qed simp

lemma traverse_map_Inr_append: "traverse (map Inr as @ rs) = emap (\<lambda>bs. as @ bs) (traverse rs)"
  by (simp add: traverse_append traverse_Inr_iff [THEN iffD2, of "map Inr as" as])

lemma expandSection_traverse:
  "expandSection builtin custom sec ps =
     emap (\<lambda>as. ps @ as) (traverse (case sec of None \<Rightarrow> []
        | Some r \<Rightarrow> map Inr (builtin r) @ map expandCustomProvider (custom r)))"
  by (cases sec; cases "traverse (map expandCustomProvider (custom (the sec)))")
     (simp_all add: expandSection_def appendCustomProviders_traverse traverse_map_Inr_append)

lemma expandSections_traverse:
  "ebind (expandSection b1 c1 s1 []) (expandSection b2 c2 s2) =
     traverse ((case s1 of None \<Rightarrow> [] | Some r \<Rightarrow> map Inr (b1 r) @ map expandCustomProvider (c1 r))
             @ (case s2 of None \<Rightarrow> [] | Some r \<Rightarrow> map Inr (b2 r) @ map expandCustomProvider (c2 r)))"
proof -
  have "emap (\<lambda>as. as) r = r" for r :: "provider_error + ConfigProvider list" by (cases r) auto
  moreover have eta: "expandSection b2 c2 s2 = (\<lambda>ps. expandSection b2 c2 s2 ps)" by simp
  ultimately show ?thesis
    by (subst eta) (simp add: expandSection_traverse traverse_append del: eta)
qed

abbreviation entID :: "entry \<Rightarrow> string" where
  "entID e \<equiv> fst e"

abbreviation entResult :: "entry \<Rightarrow> provider_error + ConfigProvider" where
  "entResult e \<equiv> fst (snd e)"

abbreviation entSecrets :: "entry \<Rightarrow> EnvVar list" where
  "entSecrets e \<equiv> snd (snd e)"

lemma ent_simps [simp]:
  "fst (ent d x s p) = d p" "snd (ent d x s p) = (Inr (x p), s p)"
  "fst (customEnt c) = custom_DeriveID c"
  "snd (customEnt c) = (expandCustomProvider c, collectCustomProviderSecrets c)"
  by (simp_all add: ent_def customEnt_def)

lemmas entries_defs =
  inferenceEntries_def vectorIOEntries_def toolRuntimeEntries_def filesEntries_def batchesEntries_def
  responsesEntries_def fileProcessorsEntries_def

lemmas expand_defs =
  expandInferenceProviders_def expandVectorIOProviders_def expandToolRuntimeProviders_def
  expandFilesProviders_def expandBatchesProviders_def expandResponsesProviders_def
  expandFileProcessorsProviders_def expandRemoteInferenceProviders_def

lemmas walk_simps = expandSections_traverse optEntries_def optEntry_def o_def

lemma expandInference_entries:
  "expandInferenceProviders s = traverse (map entResult (inferenceEntries s))"
  by (simp add: expand_defs entries_defs walk_simps split: option.split)

lemma expandVectorIO_entries:
  "expandVectorIOProviders s = traverse (map entResult (vectorIOEntries s))"
  by (simp add: expand_defs entries_defs walk_simps split: option.split)

lemma expandToolRuntime_entries:
  "expandToolRuntimeProviders s = traverse (map entResult (toolRuntimeEntries s))"
  by (simp add: expand_defs entries_defs walk_simps split: option.split)

lemma expandFiles_entries:
  "expandFilesProviders s = traverse (map entResult (filesEntries s))"
  by (simp add: expand_defs entries_defs walk_simps split: option.split)

lemma expandBatches_entries:
  "expandBatchesProviders s = traverse (map entResult (batchesEntries s))"
  by (simp add: expand_defs entries_defs walk_simps split: option.split)

lemma expandResponses_entries:
  "expandResponsesProviders s = traverse (map entResult (responsesEntries s))"
  by (simp add: expand_defs entries_defs walk_simps split: option.split)

lemma expandFileProcessors_entries:
  "expandFileProcessorsProviders s = traverse (map entResult (fileProcessorsEntries s))"
  by (simp add: expand_defs entries_defs walk_simps split: option.split)

lemma buildProviderExpanders_entries:
  "buildProviderExpanders p = map (\<lambda>(api, es). (api, traverse (map entResult es))) (apiEntries p)"
  by (simp add: buildProviderExpanders_def apiEntries_def optEntry_def expandInference_entries
      expandVectorIO_entries expandToolRuntime_entries expandFiles_entries expandBatches_entries
      expandResponses_entries expandFileProcessors_entries split: option.split)

lemma concat_map_single: "concat (map (\<lambda>x. [f x]) xs) = map f xs"
  by (induction xs) auto

lemma concat_map_Nil: "concat (map (\<lambda>x. []) xs) = []"
  by (induction xs) auto

lemmas secrets_walk = collectCustoms_def optEntries_def optEntry_def o_def concat_map_single concat_map_Nil

lemma collectInference_entries:
  "collectInferenceSecrets s = concat (map entSecrets (inferenceEntries s))"
  by (simp add: collectInferenceSecrets_def collectRemoteInferenceSecrets_def inferenceEntries_def
      secrets_walk split: option.split)

lemma collectVectorIO_entries: "collectVectorIOSecrets s = concat (map entSecrets (vectorIOEntries s))"
  by (simp add: collectVectorIOSecrets_def vectorIOEntries_def secrets_walk split: option.split)

lemma collectToolRuntime_entries: "collectToolRuntimeSecrets s = concat (map entSecrets (toolRuntimeEntries s))"
  by (auto simp: collectToolRuntimeSecrets_def toolRuntimeEntries_def secrets_walk ent_def split: option.split)

lemma collectFiles_entries: "collectFilesSecrets s = concat (map entSecrets (filesEntries s))"
  by (auto simp: collectFilesSecrets_def filesEntries_def secrets_walk ent_def split: option.split)

lemma collectBatches_entries: "collectBatchesSecrets s = concat (map entSecrets (batchesEntries s))"
  by (auto simp: collectBatchesSecrets_def collectCustomSecretsFromSlices_def batchesEntries_def
      secrets_walk ent_def split: option.split)

lemma collectResponses_entries: "collectResponsesSecrets s = concat (map entSecrets (responsesEntries s))"
  by (auto simp: collectResponsesSecrets_def collectCustomSecretsFromSlices_def responsesEntries_def
      secrets_walk ent_def split: option.split)

lemma collectFileProcessors_entries:
  "collectFileProcessorsSecrets s = concat (map entSecrets (fileProcessorsEntries s))"
  by (auto simp: collectFileProcessorsSecrets_def fileProcessorsEntries_def secrets_walk ent_def split: option.split)

lemmas collect_entries =
  collectInference_entries collectVectorIO_entries collectToolRuntime_entries collectFiles_entries
  collectBatches_entries collectResponses_entries collectFileProcessors_entries

lemma collectProviderSecrets_entries:
  "collectProviderSecrets p = concat (map entSecrets (allEntries p))"
  by (simp add: collectProviderSecrets_def allEntries_def apiEntries_def optEntry_def collect_entries
      split: option.split)

lemma inf_IDs_entries: "inf_IDs (Some s) = map entID (inferenceEntries s)"
  by (simp add: inf_IDs_def infR_IDs_def infI_IDs_def deriveSliceIDs_def inferenceEntries_def optEntry_def
      optEntries_def o_def split: option.split)

lemma vio_IDs_entries: "vio_IDs (Some s) = map entID (vectorIOEntries s)"
  by (simp add: vio_IDs_def vioR_IDs_def vioI_IDs_def deriveSliceIDs_def vectorIOEntries_def optEntry_def
      optEntries_def o_def split: option.split)

lemma tr_IDs_entries: "tr_IDs (Some s) = map entID (toolRuntimeEntries s)"
  by (simp add: tr_IDs_def trR_IDs_def trI_IDs_def deriveSliceIDs_def toolRuntimeEntries_def optEntry_def
      optEntries_def o_def split: option.split)

lemma files_IDs_entries: "files_IDs (Some s) = map entID (filesEntries s)"
  by (simp add: files_IDs_def filesR_IDs_def filesI_IDs_def deriveSliceIDs_def filesEntries_def optEntry_def
      optEntries_def o_def split: option.split)

lemma bat_IDs_entries: "bat_IDs (Some s) = map entID (batchesEntries s)"
  by (simp add: bat_IDs_def batR_IDs_def batI_IDs_def deriveSliceIDs_def batchesEntries_def optEntry_def
      optEntries_def o_def split: option.split)

lemma resp_IDs_entries: "resp_IDs (Some s) = map entID (responsesEntries s)"
  by (simp add: resp_IDs_def respR_IDs_def respI_IDs_def deriveSliceIDs_def responsesEntries_def optEntry_def
      optEntries_def o_def split: option.split)

lemma fp_IDs_entries: "fp_IDs (Some s) = map entID (fileProcessorsEntries s)"
  by (simp add: fp_IDs_def fpR_IDs_def fpI_IDs_def deriveSliceIDs_def fileProcessorsEntries_def optEntry_def
      optEntries_def o_def split: option.split)

lemma IDs_None: "inf_IDs None = []" "vio_IDs None = []" "tr_IDs None = []" "files_IDs None = []"
  "bat_IDs None = []" "resp_IDs None = []" "fp_IDs None = []"
  by (simp_all add: inf_IDs_def vio_IDs_def tr_IDs_def files_IDs_def bat_IDs_def resp_IDs_def fp_IDs_def)

lemma IDs_entries_option:
  "inf_IDs x1 = map entID (optEntries inferenceEntries x1)"
  "vio_IDs x2 = map entID (optEntries vectorIOEntries x2)"
  "tr_IDs x3 = map entID (optEntries toolRuntimeEntries x3)"
  "files_IDs x4 = map entID (optEntries filesEntries x4)"
  "bat_IDs x5 = map entID (optEntries batchesEntries x5)"
  "resp_IDs x6 = map entID (optEntries responsesEntries x6)"
  "fp_IDs x7 = map entID (optEntries fileProcessorsEntries x7)"
  by (simp_all add: optEntries_def IDs_None inf_IDs_entries vio_IDs_entries tr_IDs_entries
      files_IDs_entries bat_IDs_entries resp_IDs_entries fp_IDs_entries split: option.split)

lemma concat_optEntry: "concat (map snd (optEntry (\<lambda>s. (a, f s)) x)) = optEntries f x"
  by (simp add: optEntry_def optEntries_def split: option.split)

lemma allEntries_alt:
  "allEntries p = optEntries inferenceEntries (ps_Inference p) @ optEntries vectorIOEntries (ps_VectorIo p)
     @ optEntries toolRuntimeEntries (ps_ToolRuntime p) @ optEntries filesEntries (ps_Files p)
     @ optEntries batchesEntries (ps_Batches p) @ optEntries responsesEntries (ps_Responses p)
     @ optEntries fileProcessorsEntries (ps_FileProcessors p)"
  by (simp add: allEntries_def apiEntries_def concat_optEntry)

lemma ps_IDs_entries: "ps_IDs (Some p) = map entID (allEntries p)"
  by (simp add: ps_IDs_def allEntries_alt IDs_entries_option)

section \<open>Custom providers\<close>

lemma mget_fold_keys:
  "mget (fold (\<lambda>key cfg. mput key (f key) cfg) ks m) k = (if k \<in> set ks then Some (f k) else mget m k)"
  by (induction ks arbitrary: m) auto

lemma mget_customSecretConfig:
  "mget (customSecretConfig p) k =
     (if k \<in> set (mkeys (custom_SecretRefs p))
      then Some (YStr (envVarRef (custom_DeriveID p) (normalizeEnvVarField k))) else None)"
  by (simp add: customSecretConfig_def mget_fold_keys)

lemma customSettingsLoop_Inr:
  assumes "customSettingsLoop pid refs settings cfg = Inr cfg'"
  shows "set (mkeys settings) \<inter> set (mkeys refs) = {}"
    and "k \<in> set (mkeys refs) \<Longrightarrow> mget cfg' k = mget cfg k"
    and "mget cfg' k = Some v \<Longrightarrow> mget cfg k = Some v \<or> (k, v) \<in> set settings"
    and "k \<in> set (mkeys settings) \<Longrightarrow> \<exists>w. mget cfg' k = Some w \<and> (k, w) \<in> set settings"
proof -
  have "set (mkeys settings) \<inter> set (mkeys refs) = {}
      \<and> (\<forall>k. k \<in> set (mkeys refs) \<longrightarrow> mget cfg' k = mget cfg k)
      \<and> (\<forall>k v. mget cfg' k = Some v \<longrightarrow> mget cfg k = Some v \<and> k \<notin> set (mkeys settings) \<or> (k, v) \<in> set settings)
      \<and> (\<forall>k. k \<in> set (mkeys settings) \<longrightarrow> mget cfg' k \<noteq> None)
      \<and> (\<forall>k. mget cfg k \<noteq> None \<longrightarrow> mget cfg' k \<noteq> None)"
    using assms
  proof (induction pid refs settings cfg rule: customSettingsLoop.induct)
    case (2 pid refs k v settings cfg)
    then have "mget refs k = None" by (auto split: option.splits)
    moreover from this have "k \<notin> set (mkeys refs)" using mget_in_mkeys [of refs k] by simp
    moreover note 2
    ultimately show ?case by (auto split: if_splits)
  qed simp
  then show "set (mkeys settings) \<inter> set (mkeys refs) = {}"
    and "k \<in> set (mkeys refs) \<Longrightarrow> mget cfg' k = mget cfg k"
    and "mget cfg' k = Some v \<Longrightarrow> mget cfg k = Some v \<or> (k, v) \<in> set settings"
    and "k \<in> set (mkeys settings) \<Longrightarrow> \<exists>w. mget cfg' k = Some w \<and> (k, w) \<in> set settings"
    by blast+
qed

lemma expandCustomProvider_Inr:
  assumes "expandCustomProvider p = Inr cp"
  shows "cp_ProviderID cp = custom_DeriveID p" "cp_ProviderType cp = custom_Type p"
    and "k \<in> set (mkeys (custom_SecretRefs p)) \<Longrightarrow>
         mget (cp_Config cp) k = Some (YStr (envVarRef (custom_DeriveID p) (normalizeEnvVarField k)))"
    and "mget (cp_Config cp) k = Some v \<Longrightarrow>
         k \<in> set (mkeys (custom_SecretRefs p)) \<or>
         (\<exists>raw m. custom_Settings p = Some raw \<and> jsonUnmarshalMap raw = Some m \<and> (k, v) \<in> set m)"
  using assms customSettingsLoop_Inr [of "custom_DeriveID p" "custom_SecretRefs p" _ "customSecretConfig p"]
  by (fastforce simp: expandCustomProvider_def mkProvider_def mget_customSecretConfig Let_def
      split: option.splits sum.splits if_splits)+

section \<open>Secrets and references agree entry by entry\<close>

definition envRefOf :: "EnvVar \<Rightarrow> yaml" where
  "envRefOf e = YStr (''${env.'' @ env_Name e @ ''}'')"

definition secretConfigKeys :: "string list" where
  "secretConfigKeys = [''api_token'', ''api_key'', ''password'', ''token'', ''aws_access_key_id'',
     ''aws_secret_access_key'', ''aws_session_token'']"

definition settingsDefine :: "CustomProvider \<Rightarrow> string \<Rightarrow> yaml \<Rightarrow> bool" where
  "settingsDefine c k v \<longleftrightarrow>
     (\<exists>raw m. custom_Settings c = Some raw \<and> jsonUnmarshalMap raw = Some m \<and> (k, v) \<in> set m)"

definition entryOK :: "entry \<Rightarrow> bool" where
  "entryOK e \<longleftrightarrow> (\<forall>cp. entResult e = Inr cp \<longrightarrow>
     cp_ProviderID cp = entID e \<and>
     (\<forall>env \<in> set (entSecrets e). \<exists>k. mget (cp_Config cp) k = Some (envRefOf env)) \<and>
     (\<forall>k \<in> set secretConfigKeys. \<forall>v. mget (cp_Config cp) k = Some v \<longrightarrow>
        (\<exists>env \<in> set (entSecrets e). v = envRefOf env) \<or>
        (\<exists>c. e = customEnt c \<and> settingsDefine c k v)))"

lemma envRefOf_secretToEnvVar [simp]: "envRefOf (secretToEnvVar i f r) = YStr (envVarRef i f)"
  by (simp add: envRefOf_def secretToEnvVar_def secretEnv_def envVarRef_def)

lemma set_optSecret: "e \<in> set (optSecret i f r) \<longleftrightarrow> (\<exists>x. r = Some x \<and> e = secretToEnvVar i f x)"
  by (cases r) (auto simp: optSecret_def)

lemma ball_optSecret:
  "(\<forall>e \<in> set (optSecret i f r). Q e) \<longleftrightarrow> (\<forall>x. r = Some x \<longrightarrow> Q (secretToEnvVar i f x))"
  by (auto simp: set_optSecret)

lemma bex_optSecret:
  "(\<exists>e \<in> set (optSecret i f r). Q e) \<longleftrightarrow> (\<exists>x. r = Some x \<and> Q (secretToEnvVar i f x))"
  by (auto simp: set_optSecret)

lemma entryOK_entI:
  assumes "cp_ProviderID (x p) = d p"
    and "\<forall>env \<in> set (s p). \<exists>k \<in> set secretConfigKeys. mget (cp_Config (x p)) k = Some (envRefOf env)"
    and "\<forall>k \<in> set secretConfigKeys. \<forall>v. mget (cp_Config (x p)) k = Some v \<longrightarrow>
           (\<exists>env \<in> set (s p). v = envRefOf env)"
  shows "entryOK (ent d x s p)"
  using assms by (force simp: entryOK_def)

lemma entryOK_customEnt: "entryOK (customEnt c)"
  unfolding entryOK_def
proof (intro allI impI conjI ballI)
  fix cp assume cp: "entResult (customEnt c) = Inr cp"
  then have x: "expandCustomProvider c = Inr cp" by simp
  show "cp_ProviderID cp = entID (customEnt c)" using expandCustomProvider_Inr(1) [OF x] by simp
  fix env assume "env \<in> set (entSecrets (customEnt c))"
  then obtain k where "k \<in> set (mkeys (custom_SecretRefs c))"
    "env = secretToEnvVar (custom_DeriveID c) (normalizeEnvVarField k) (the (mget (custom_SecretRefs c) k))"
    by (auto simp: collectCustomProviderSecrets_def)
  then show "\<exists>k. mget (cp_Config cp) k = Some (envRefOf env)"
    using expandCustomProvider_Inr(3) [OF x] by auto
next
  fix cp k v
  assume "entResult (customEnt c) = Inr cp" "mget (cp_Config cp) k = Some v"
  then have x: "expandCustomProvider c = Inr cp" and v: "mget (cp_Config cp) k = Some v" by auto
  show "(\<exists>env \<in> set (entSecrets (customEnt c)). v = envRefOf env)
        \<or> (\<exists>c'. customEnt c = customEnt c' \<and> settingsDefine c' k v)"
  proof (cases "k \<in> set (mkeys (custom_SecretRefs c))")
    case True
    then have "v = YStr (envVarRef (custom_DeriveID c) (normalizeEnvVarField k))"
      using expandCustomProvider_Inr(3) [OF x True] v by simp
    with True show ?thesis by (auto simp: collectCustomProviderSecrets_def)
  next
    case False
    then show ?thesis using expandCustomProvider_Inr(4) [OF x v] by (auto simp: settingsDefine_def)
  qed
qed

lemmas builtin_entry_simps = mkProvider_def Let_def ball_optSecret bex_optSecret ball_Un bex_Un
  secretConfigKeys_def setPtr_defs
  mget_applyCommonInferenceConfig

lemma entryOK_vllm: "entryOK (ent vllm_DeriveID expandVLLMProvider (\<lambda>p. optSecret (vllm_DeriveID p) ''API_TOKEN'' (vllm_APIToken p)) p)"
  by (rule entryOK_entI) (simp_all add: expandVLLMProvider_def builtin_entry_simps)

lemma entryOK_openai: "entryOK (ent openai_DeriveID expandOpenAIProvider (\<lambda>p. [secretToEnvVar (openai_DeriveID p) ''API_KEY'' (openai_APIKey p)]) p)"
  by (rule entryOK_entI) (simp_all add: expandOpenAIProvider_def builtin_entry_simps)

lemma entryOK_azure: "entryOK (ent azure_DeriveID expandAzureProvider (\<lambda>p. [secretToEnvVar (azure_DeriveID p) ''API_KEY'' (azure_APIKey p)]) p)"
  by (rule entryOK_entI) (simp_all add: expandAzureProvider_def builtin_entry_simps)

lemma entryOK_bedrock: "entryOK (ent bedrock_DeriveID expandBedrockProvider collectBedrockSecrets p)"
  by (rule entryOK_entI) (simp_all add: expandBedrockProvider_def collectBedrockSecrets_def builtin_entry_simps)

lemma entryOK_vertex: "entryOK (ent vertex_DeriveID expandVertexAIProvider (\<lambda>p. []) p)"
  by (rule entryOK_entI) (simp_all add: expandVertexAIProvider_def builtin_entry_simps)

lemma entryOK_watsonx: "entryOK (ent watsonx_DeriveID expandWatsonxProvider (\<lambda>p. [secretToEnvVar (watsonx_DeriveID p) ''API_KEY'' (watsonx_APIKey p)]) p)"
  by (rule entryOK_entI) (simp_all add: expandWatsonxProvider_def builtin_entry_simps)

lemma entryOK_pgv: "entryOK (ent pgv_DeriveID expandPgvectorProvider (\<lambda>p. [secretToEnvVar (pgv_DeriveID p) ''PASSWORD'' (pgv_Password p)]) p)"
  by (rule entryOK_entI) (simp_all add: expandPgvectorProvider_def builtin_entry_simps)

lemma entryOK_milvus: "entryOK (ent milvus_DeriveID expandMilvusProvider (\<lambda>p. optSecret (milvus_DeriveID p) ''TOKEN'' (milvus_Token p)) p)"
  by (rule entryOK_entI) (simp_all add: expandMilvusProvider_def builtin_entry_simps)

lemma entryOK_qdrant: "entryOK (ent qdrant_DeriveID expandQdrantProvider (\<lambda>p. optSecret (qdrant_DeriveID p) ''API_KEY'' (qdrant_APIKey p)) p)"
  by (rule entryOK_entI) (simp_all add: expandQdrantProvider_def applyQdrantConnectionConfig_def applyQdrantAuthConfig_def applyQdrantRuntimeConfig_def builtin_entry_simps)

lemma entryOK_brave: "entryOK (ent brave_DeriveID expandBraveSearchProvider (\<lambda>p. [secretToEnvVar (brave_DeriveID p) ''API_KEY'' (brave_APIKey p)]) p)"
  by (rule entryOK_entI) (simp_all add: expandBraveSearchProvider_def builtin_entry_simps)

lemma entryOK_tavily: "entryOK (ent tavily_DeriveID expandTavilySearchProvider (\<lambda>p. [secretToEnvVar (tavily_DeriveID p) ''API_KEY'' (tavily_APIKey p)]) p)"
  by (rule entryOK_entI) (simp_all add: expandTavilySearchProvider_def builtin_entry_simps)

lemma entryOK_mcp: "entryOK (ent mcp_DeriveID expandMCPProvider (\<lambda>p. []) p)"
  by (rule entryOK_entI) (simp_all add: expandMCPProvider_def builtin_entry_simps)

lemma entryOK_fsearch: "entryOK (ent fsearch_DeriveID expandInlineFileSearchProvider (\<lambda>p. []) p)"
  by (rule entryOK_entI) (simp_all add: expandInlineFileSearchProvider_def builtin_entry_simps)

lemma entryOK_s3: "entryOK (ent s3_DeriveID expandS3Provider (\<lambda>p.
     optSecret (s3_DeriveID p) ''AWS_ACCESS_KEY_ID'' (s3_AWSAccessKeyID p)
   @ optSecret (s3_DeriveID p) ''AWS_SECRET_ACCESS_KEY'' (s3_AWSSecretAccessKey p)) p)"
  by (rule entryOK_entI) (simp_all add: expandS3Provider_def builtin_entry_simps)

lemma entryOK_localfs: "entryOK (ent localfs_DeriveID expandLocalFSProvider (\<lambda>p. []) p)"
  by (rule entryOK_entI) (simp_all add: expandLocalFSProvider_def builtin_entry_simps)

lemma entryOK_refp: "entryOK (ent refp_DeriveID expandReferenceProvider (\<lambda>p. []) p)"
  by (rule entryOK_entI) (simp_all add: expandReferenceProvider_def builtin_entry_simps)

lemma entryOK_rbi: "entryOK (ent rbi_DeriveID expandBuiltinResponsesProvider (\<lambda>p. []) p)"
  by (rule entryOK_entI) (simp_all add: expandBuiltinResponsesProvider_def builtin_entry_simps)

lemma entryOK_dserve: "entryOK (ent dserve_DeriveID expandDoclingServeProvider (\<lambda>p. optSecret (dserve_DeriveID p) ''API_KEY'' (dserve_APIKey p)) p)"
  by (rule entryOK_entI) (simp_all add: expandDoclingServeProvider_def builtin_entry_simps)

lemma entryOK_fpauto: "entryOK (ent fpauto_DeriveID expandAutoFileProcessorProvider (\<lambda>p. []) p)"
  by (rule entryOK_entI) (simp_all add: expandAutoFileProcessorProvider_def applyChunkConfig_def builtin_entry_simps)

lemma entryOK_pypdf: "entryOK (ent pypdf_DeriveID expandPyPDFFileProcessorProvider (\<lambda>p. []) p)"
  by (rule entryOK_entI) (simp_all add: expandPyPDFFileProcessorProvider_def applyChunkConfig_def builtin_entry_simps)

lemma entryOK_markit: "entryOK (ent markit_DeriveID expandMarkItDownFileProcessorProvider (\<lambda>p. []) p)"
  by (rule entryOK_entI) (simp_all add: expandMarkItDownFileProcessorProvider_def applyChunkConfig_def builtin_entry_simps)

lemma entryOK_docling: "entryOK (ent docling_DeriveID expandDoclingFileProcessorProvider (\<lambda>p. []) p)"
  by (rule entryOK_entI) (simp_all add: expandDoclingFileProcessorProvider_def applyChunkConfig_def builtin_entry_simps)

lemmas entryOK_all = entryOK_customEnt entryOK_vllm entryOK_openai entryOK_azure entryOK_bedrock entryOK_vertex entryOK_watsonx entryOK_pgv entryOK_milvus entryOK_qdrant entryOK_brave entryOK_tavily entryOK_mcp entryOK_fsearch entryOK_s3 entryOK_localfs entryOK_refp entryOK_rbi entryOK_dserve entryOK_fpauto entryOK_pypdf entryOK_markit entryOK_docling

lemma list_all_optEntries: "list_all P (optEntries f x) \<longleftrightarrow> (\<forall>s. x = Some s \<longrightarrow> list_all P (f s))"
  by (cases x) (auto simp: optEntries_def)

lemma list_all_optEntry: "list_all P (optEntry f x) \<longleftrightarrow> (\<forall>s. x = Some s \<longrightarrow> P (f s))"
  by (cases x) (auto simp: optEntry_def)

lemma entryOK_allEntries: "list_all entryOK (allEntries p)"
  by (simp add: allEntries_alt entries_defs list_all_optEntries list_all_optEntry list_all_map_ball
      entryOK_all)

section \<open>The expansion as a map from APIs to entries\<close>

lemma expandLoop_Inr:
  assumes "expandLoop xs m = Inr r" "distinct (map fst xs)"
  shows "mget r k = (case map_of xs k of Some (Inr ps) \<Rightarrow> if ps = [] then mget m k else Some ps | _ \<Rightarrow> mget m k)"
    and "(k, x) \<in> set xs \<Longrightarrow> \<exists>ps. x = Inr ps"
proof -
  have "(\<forall>k. mget r k = (case map_of xs k of Some (Inr ps) \<Rightarrow> if ps = [] then mget m k else Some ps
                       | _ \<Rightarrow> mget m k)) \<and> (\<forall>k x. (k, x) \<in> set xs \<longrightarrow> (\<exists>ps. x = Inr ps))"
    using assms
  proof (induction xs m rule: expandLoop.induct)
    case (2 api x es m)
    then obtain ps where x: "x = Inr ps" by (cases x) auto
    from 2(3) have "map_of es api = None" by (simp add: map_of_eq_None_iff image_iff)
    with 2 x show ?case by (auto split: option.splits sum.splits if_splits)
  qed simp
  then show "mget r k = (case map_of xs k of Some (Inr ps) \<Rightarrow> if ps = [] then mget m k else Some ps | _ \<Rightarrow> mget m k)"
    and "(k, x) \<in> set xs \<Longrightarrow> \<exists>ps. x = Inr ps" by blast+
qed

lemma apiEntries_distinct: "distinct (map fst (apiEntries p))"
  by (simp add: apiEntries_def optEntry_def split: option.split)

lemma ExpandProviders_Inr:
  assumes "ExpandProviders (Some p) = Inr (Some r)"
  shows "(api, es) \<in> set (apiEntries p) \<Longrightarrow> es \<noteq> [] \<Longrightarrow>
           \<exists>cps. mget r api = Some cps \<and> map entResult es = map Inr cps"
    and "mget r api = Some cps \<Longrightarrow>
           \<exists>es. (api, es) \<in> set (apiEntries p) \<and> map entResult es = map Inr cps \<and> cps \<noteq> []"
proof -
  let ?xs = "buildProviderExpanders p"
  have loop: "expandLoop ?xs mempty = Inr r"
    using assms by (auto simp: ExpandProviders_def emap_def ebind_Inr_iff)
  have xs: "?xs = map (\<lambda>(api, es). (api, traverse (map entResult es))) (apiEntries p)"
    by (rule buildProviderExpanders_entries)
  have fsts: "map fst ?xs = map fst (apiEntries p)" by (auto simp: xs)
  then have d: "distinct (map fst ?xs)" using apiEntries_distinct by simp
  note r = expandLoop_Inr [OF loop d]
  {
    assume a: "(api, es) \<in> set (apiEntries p)" "es \<noteq> []"
    then have m: "(api, traverse (map entResult es)) \<in> set ?xs" by (force simp: xs)
    then obtain ps where ps: "traverse (map entResult es) = Inr ps" using r(2) by blast
    have "map_of ?xs api = Some (Inr ps)" using m d ps by simp
    moreover have "map entResult es = map Inr ps" using ps by (simp add: traverse_Inr_iff)
    moreover from this have "ps \<noteq> []" using a(2) by auto
    ultimately show "\<exists>cps. mget r api = Some cps \<and> map entResult es = map Inr cps"
      using r(1) [of api] by auto
  }
  assume "mget r api = Some cps"
  then have "map_of ?xs api = Some (Inr cps)" "cps \<noteq> []"
    using r(1) [of api] by (auto split: option.splits sum.splits if_splits)
  then obtain es where "(api, es) \<in> set (apiEntries p)" "traverse (map entResult es) = Inr cps"
    by (auto simp: xs dest!: map_of_SomeD)
  with \<open>cps \<noteq> []\<close>
  show "\<exists>es. (api, es) \<in> set (apiEntries p) \<and> map entResult es = map Inr cps \<and> cps \<noteq> []"
    unfolding traverse_Inr_iff by blast
qed

text \<open>The IDs of the generated entries, API by API in the order of the walk.\<close>

definition expandedIDs :: "ProvidersSpec \<Rightarrow> ConfigProvider list gomap \<Rightarrow> string list" where
  "expandedIDs p r = concat (map (\<lambda>(api, es).
     case mget r api of None \<Rightarrow> [] | Some cps \<Rightarrow> map cp_ProviderID cps) (apiEntries p))"

lemma entries_IDs:
  assumes "list_all entryOK es" "map entResult es = map Inr cps"
  shows "map cp_ProviderID cps = map entID es"
  using assms by (induction es arbitrary: cps) (auto simp: entryOK_def)

lemma expandedIDs_IDs:
  assumes "ExpandProviders (Some p) = Inr (Some r)"
  shows "expandedIDs p r = ps_IDs (Some p)"
proof -
  have "(case mget r api of None \<Rightarrow> [] | Some cps \<Rightarrow> map cp_ProviderID cps) = map entID es"
    if a: "(api, es) \<in> set (apiEntries p)" for api es
  proof (cases "es = []")
    case True
    have "mget r api = None"
    proof (rule ccontr)
      assume "mget r api \<noteq> None"
      then obtain cps es' where "(api, es') \<in> set (apiEntries p)" "map entResult es' = map Inr cps" "cps \<noteq> []"
        using ExpandProviders_Inr(2) [OF assms] by blast
      with True a apiEntries_distinct show False by (metis eq_key_imp_eq_value list.map_disc_iff)
    qed
    with True show ?thesis by simp
  next
    case False
    then obtain cps where cps: "mget r api = Some cps" "map entResult es = map Inr cps"
      using ExpandProviders_Inr(1) [OF assms a] by blast
    have "list_all entryOK es"
      using a entryOK_allEntries [of p] by (force simp: allEntries_def list_all_iff)
    then show ?thesis using cps entries_IDs by simp
  qed
  then have "expandedIDs p r = concat (map (\<lambda>(api, es). map entID es) (apiEntries p))"
    unfolding expandedIDs_def by (intro arg_cong [where f = concat] map_cong) auto
  also have "\<dots> = map entID (allEntries p)"
    by (simp add: allEntries_def map_concat o_def split_def)
  finally show ?thesis by (simp add: ps_IDs_entries)
qed

section \<open>Properties\<close>

definition exVLLM :: VLLMProvider where
  "exVLLM = \<lparr> vllm_RoutedProviderBase = \<lparr> rpb_ID = ''my-vllm'' \<rparr>,
     vllm_RemoteInferenceCommonConfig =
       \<lparr> ric_AllowedModels = [], ric_RefreshModels = None, ric_Network = None \<rparr>,
     vllm_Endpoint = ''http://vllm:8000'',
     vllm_APIToken = Some \<lparr> skr_Name = ''vllm-secret'', skr_Key = ''token'' \<rparr>, vllm_MaxTokens = None \<rparr>"

definition exProviders :: ProvidersSpec where
  "exProviders = \<lparr> ps_Inference = Some \<lparr>
       inf_Remote = Some \<lparr> infR_VLLM = [exVLLM], infR_OpenAI = [], infR_Azure = [], infR_Bedrock = [],
         infR_VertexAI = [], infR_Watsonx = [], infR_Custom = [] \<rparr>,
       inf_Inline = None \<rparr>,
     ps_VectorIo = None, ps_ToolRuntime = None, ps_Files = None, ps_Batches = None,
     ps_Responses = None, ps_FileProcessors = None \<rparr>"

definition exExpanded :: "ConfigProvider list gomap" where
  "exExpanded = [(''inference'', [\<lparr> cp_ProviderID = ''my-vllm'', cp_ProviderType = ''remote::vllm'',
     cp_Config = [(''api_token'', YStr ''${env.OGX_MY_VLLM_API_TOKEN}''),
                  (''base_url'', YStr ''http://vllm:8000'')] \<rparr>])]"

lemma exProviders_expand: "ExpandProviders (Some exProviders) = Inr (Some exExpanded)"
  by code_simp

text \<open>
  Every secret the operator mounts for a provider is used: when the expansion succeeds, each
  environment variable that \<open>collectProviderSecrets\<close> produces is referenced as \<open>${env.NAME}\<close> by
  some provider entry of the generated configuration.  This is the property that the ``keep in
  sync'' comments on \<open>buildProviderExpanders\<close> and \<open>collectProviderSecrets\<close> ask for.
\<close>

theorem mounted_secrets_are_referenced:
  assumes "ExpandProviders (Some p) = Inr (Some r)" and "env \<in> set (collectProviderSecrets p)"
  shows "\<exists>api cps cp k. mget r api = Some cps \<and> cp \<in> set cps \<and> mget (cp_Config cp) k = Some (envRefOf env)"
proof -
  obtain e where e: "e \<in> set (allEntries p)" "env \<in> set (entSecrets e)"
    using assms(2) by (auto simp: collectProviderSecrets_entries)
  then obtain api es where a: "(api, es) \<in> set (apiEntries p)" "e \<in> set es"
    by (auto simp: allEntries_def)
  then obtain cps where cps: "mget r api = Some cps" "map entResult es = map Inr cps"
    using ExpandProviders_Inr(1) [OF assms(1) a(1)] by force
  have "entResult e \<in> set (map Inr cps)" using a(2) cps(2) by (metis imageI list.set_map)
  then obtain cp where cp: "cp \<in> set cps" "entResult e = Inr cp" by auto
  moreover have "entryOK e" using entryOK_allEntries e(1) by (auto simp: list_all_iff)
  ultimately have "\<exists>k. mget (cp_Config cp) k = Some (envRefOf env)"
    using e(2) by (auto simp: entryOK_def)
  with cp(1) cps(1) show ?thesis by blast
qed

theorem mounted_secrets_are_referenced_witness:
  "ExpandProviders (Some exProviders) = Inr (Some exExpanded)
   \<and> (\<exists>api cps cp k. mget exExpanded api = Some cps \<and> cp \<in> set cps \<and>
        mget (cp_Config cp) k = Some (envRefOf (hd (collectProviderSecrets exProviders))))"
proof -
  have "hd (collectProviderSecrets exProviders) \<in> set (collectProviderSecrets exProviders)" by code_simp
  then show ?thesis using mounted_secrets_are_referenced [OF exProviders_expand] exProviders_expand by blast
qed

text \<open>
  No dangling reference: in every generated provider entry, a value under one of the
  credential keys (\<open>api_key\<close>, \<open>api_token\<close>, \<open>password\<close>, \<open>token\<close>, the AWS keys) is the
  \<open>${env.NAME}\<close> reference of an environment variable the operator mounts, unless the entry
  belongs to a custom provider whose own settings define that key literally.
\<close>

theorem references_are_mounted:
  assumes "ExpandProviders (Some p) = Inr (Some r)" and "mget r api = Some cps" and "cp \<in> set cps"
    and "k \<in> set secretConfigKeys" and "mget (cp_Config cp) k = Some v"
  shows "(\<exists>env \<in> set (collectProviderSecrets p). v = envRefOf env)
       \<or> (\<exists>c. customEnt c \<in> set (allEntries p) \<and> expandCustomProvider c = Inr cp \<and> settingsDefine c k v)"
proof -
  obtain es where es: "(api, es) \<in> set (apiEntries p)" "map entResult es = map Inr cps"
    using ExpandProviders_Inr(2) [OF assms(1,2)] by blast
  have "Inr cp \<in> set (map entResult es)" using es(2) assms(3) by simp
  then obtain e where e: "e \<in> set es" "entResult e = Inr cp" by auto
  then have all: "e \<in> set (allEntries p)" using es(1) by (force simp: allEntries_def)
  then have "entryOK e" using entryOK_allEntries by (auto simp: list_all_iff)
  then consider env where "env \<in> set (entSecrets e)" "v = envRefOf env"
    | c where "e = customEnt c" "settingsDefine c k v"
    using e(2) assms(4,5) unfolding entryOK_def by blast
  then show ?thesis
  proof cases
    case (1 env)
    then show ?thesis using all by (auto simp: collectProviderSecrets_entries)
  next
    case (2 c)
    then show ?thesis using all e(2) by auto
  qed
qed

theorem references_are_mounted_witness:
  "(\<exists>env \<in> set (collectProviderSecrets exProviders).
      YStr ''${env.OGX_MY_VLLM_API_TOKEN}'' = envRefOf env)
   \<or> (\<exists>c. customEnt c \<in> set (allEntries exProviders) \<and>
        expandCustomProvider c = Inr (hd (snd (hd exExpanded))) \<and>
        settingsDefine c ''api_token'' (YStr ''${env.OGX_MY_VLLM_API_TOKEN}''))"
proof (rule references_are_mounted [OF exProviders_expand])
  show "mget exExpanded ''inference'' = Some (snd (hd exExpanded))" by code_simp
  show "hd (snd (hd exExpanded)) \<in> set (snd (hd exExpanded))" by code_simp
  show "''api_token'' \<in> set secretConfigKeys" by code_simp
  show "mget (cp_Config (hd (snd (hd exExpanded)))) ''api_token''
      = Some (YStr ''${env.OGX_MY_VLLM_API_TOKEN}'')" by code_simp
qed

text \<open>
  The IDs the admission webhook checks are the IDs that end up in the configuration: read API
  by API, the provider IDs of the expanded entries are exactly \<open>ProvidersSpec.IDs()\<close>, in order and
  with multiplicity.  So a spec the webhook admits generates entries with distinct IDs.
\<close>

theorem expanded_IDs_are_spec_IDs:
  assumes "ExpandProviders (Some p) = Inr (Some r)"
  shows "expandedIDs p r = ps_IDs (Some p)"
  using assms by (rule expandedIDs_IDs)

theorem expanded_IDs_are_spec_IDs_witness:
  "expandedIDs exProviders exExpanded = ps_IDs (Some exProviders) \<and> ps_IDs (Some exProviders) = [''my-vllm'']"
  using expanded_IDs_are_spec_IDs [OF exProviders_expand] by (rule conjI) code_simp

end
