(* ===== verification/Config_Merge.thy ===== *)
theory Config_Merge
  imports Provider_Expand
begin

text \<open>
  The pure stages of the pipeline between expansion and serialization: the storage section
  (\<open>pkg/config/storage.go\<close>), the models (\<open>resource.go\<close>), and the merge of user configuration over the
  base configuration (\<open>merge.go\<close>).  A Go map whose nilness the code tests is an \<open>option\<close>.
\<close>

section \<open>Storage\<close>

definition defaultKVBackend :: ymap where
  "defaultKVBackend = mlit [(''type'', YStr ''kv_sqlite''),
     (''db_path'', YStr ''${env.SQLITE_STORE_DIR:=/.ogx}/kvstore.db'')]"

definition defaultSQLBackend :: ymap where
  "defaultSQLBackend = mlit [(''type'', YStr ''sql_sqlite''),
     (''db_path'', YStr ''${env.SQLITE_STORE_DIR:=/.ogx}/sqlstore.db'')]"

definition expandKVBackend :: "KVStorageSpec \<Rightarrow> ymap" where
  "expandKVBackend kv =
     (if kv_Type kv = ''redis''
      then let cfg = mlit [(''type'', YStr ''kv_redis''), (''host'', YStr (kv_Endpoint kv))]
           in (case kv_Password kv of None \<Rightarrow> cfg
               | Some _ \<Rightarrow> mput ''password'' (YStr (''${env.'' @ envVarPrefix @ ''_STORAGE_KV_PASSWORD}'')) cfg)
      else defaultKVBackend)"

definition expandSQLBackend :: "SQLStorageSpec \<Rightarrow> ymap" where
  "expandSQLBackend sql =
     (if sql_Type sql = ''postgres''
      then mlit [(''type'', YStr ''sql_postgres''),
                 (''connection_string'', YStr (''${env.'' @ envVarPrefix @ ''_STORAGE_SQL_CONNECTION_STRING}''))]
      else defaultSQLBackend)"

definition defaultStores :: ymap where
  "defaultStores = mlit [
     (''metadata'', YMap (mlit [(''backend'', YStr ''kv_default''), (''namespace'', YStr ''registry'')])),
     (''inference'', YMap (mlit [(''backend'', YStr ''sql_default''), (''table_name'', YStr ''inference_store'')])),
     (''conversations'', YMap (mlit [(''backend'', YStr ''sql_default''), (''table_name'', YStr ''openai_conversations'')])),
     (''prompts'', YMap (mlit [(''backend'', YStr ''kv_default''), (''namespace'', YStr ''prompts'')]))]"

definition ApplyStorage :: "StateStorageSpec option \<Rightarrow> ymap option" where
  "ApplyStorage storage = (case storage of None \<Rightarrow> None | Some s \<Rightarrow>
     (let backends = mempty;
          stores = defaultStores;
          backends = mput ''kv_default''
            (YMap (case stg_KV s of Some kv \<Rightarrow> expandKVBackend kv | None \<Rightarrow> defaultKVBackend)) backends;
          backends = mput ''sql_default''
            (YMap (case stg_SQL s of Some sql \<Rightarrow> expandSQLBackend sql | None \<Rightarrow> defaultSQLBackend)) backends
      in Some (mlit [(''backends'', YMap backends), (''stores'', YMap stores)])))"

section \<open>Models\<close>

record ConfigModel =
  cm_ModelID :: string
  cm_ProviderID :: string
  cm_ModelType :: string
  cm_ContextLength :: "int option"
  cm_Quantization :: string

definition defaultModelType :: string where
  "defaultModelType = ''llm''"

datatype config_error =
    ParseBaseFailed
  | MissingVersion
  | ExpandProvidersFailed expand_error
  | NoInferenceProvider string
  | ParseDefaultFailed
  | ServerNotObject
  | SerializeFailed

text \<open>\<open>providers["inference"]\<close> of a map that may be nil.\<close>

definition providersFor :: "ConfigProvider list gomap option \<Rightarrow> string \<Rightarrow> ConfigProvider list" where
  "providersFor providers api =
     (case providers of None \<Rightarrow> [] | Some m \<Rightarrow> (case mget m api of None \<Rightarrow> [] | Some ps \<Rightarrow> ps))"

definition expandModel :: "ConfigProvider list gomap option \<Rightarrow> ModelConfig \<Rightarrow> config_error + ConfigModel" where
  "expandModel providers m =
     ebind (if mc_Provider m = [] then
              (let inferenceProviders = providersFor providers ''inference''
               in if length inferenceProviders = 0 then Inl (NoInferenceProvider (mc_Name m))
                  else Inr (cp_ProviderID (hd (sort_key cp_ProviderID inferenceProviders))))
            else Inr (mc_Provider m))
       (\<lambda>providerID. Inr \<lparr> cm_ModelID = mc_Name m, cm_ProviderID = providerID,
          cm_ModelType = (if mc_ModelType m \<noteq> [] then mc_ModelType m else defaultModelType),
          cm_ContextLength = mc_ContextLength m, cm_Quantization = mc_Quantization m \<rparr>)"

definition ExpandResources ::
  "ResourcesSpec option \<Rightarrow> ConfigProvider list gomap option \<Rightarrow> config_error + ConfigModel list" where
  "ExpandResources resources providers =
     (case resources of None \<Rightarrow> Inr []
      | Some r \<Rightarrow> traverse (map (expandModel providers) (res_Models r)))"

section \<open>Merging\<close>

definition MergeProviders ::
  "ConfigProvider list gomap option \<Rightarrow> ConfigProvider list gomap option \<Rightarrow> ConfigProvider list gomap option" where
  "MergeProviders base user =
     (case user of None \<Rightarrow> base
      | Some u \<Rightarrow> (case base of None \<Rightarrow> user
                  | Some b \<Rightarrow> Some (mcopy u (mcopy b mempty))))"

definition MergeStorage :: "ymap option \<Rightarrow> ymap option \<Rightarrow> ymap option" where
  "MergeStorage base user =
     (case user of None \<Rightarrow> base
      | Some u \<Rightarrow> (case base of None \<Rightarrow> user | Some b \<Rightarrow> Some u))"

text \<open>The set \<open>map[string]bool\<close> built from the disabled list, and the filter.\<close>

definition MergeAPIs :: "string list \<Rightarrow> string list \<Rightarrow> string list" where
  "MergeAPIs baseAPIs disabledAPIs =
     (if length disabledAPIs = 0 then baseAPIs
      else let disabled = fold (\<lambda>d m. mput d True m) disabledAPIs mempty
           in filter (\<lambda>api. mget disabled api \<noteq> Some True) baseAPIs)"

section \<open>Laws\<close>

lemma providersFor_simps [simp]:
  "providersFor None api = []"
  "providersFor (Some m) api = (case mget m api of None \<Rightarrow> [] | Some ps \<Rightarrow> ps)"
  by (simp_all add: providersFor_def)

lemma mget_MergeProviders:
  assumes "wf_map b" "wf_map u"
  shows "\<exists>m. MergeProviders (Some b) (Some u) = Some m \<and> wf_map m \<and>
     (\<forall>k. mget m k = (case mget u k of None \<Rightarrow> mget b k | Some v \<Rightarrow> Some v))"
  using assms by (auto simp: MergeProviders_def mget_mcopy split: option.split)

lemma MergeAPIs_filter: "MergeAPIs base disabled = filter (\<lambda>api. api \<notin> set disabled) base"
proof -
  have "mget (fold (\<lambda>d m. mput d True m) ds m0) api = (if api \<in> set ds then Some True else mget m0 api)"
    for ds api and m0 :: "bool gomap"
    by (induction ds arbitrary: m0) auto
  then show ?thesis by (auto simp: MergeAPIs_def intro!: filter_cong)
qed

lemma hd_sort_key_least:
  fixes f :: "'a \<Rightarrow> 'b::linorder"
  assumes "xs \<noteq> []"
  shows "hd (sort_key f xs) \<in> set xs" and "x \<in> set xs \<Longrightarrow> f (hd (sort_key f xs)) \<le> f x"
proof -
  have ne: "sort_key f xs \<noteq> []" using assms by (metis length_0_conv length_sort)
  then show "hd (sort_key f xs) \<in> set xs" by (metis hd_in_set set_sort)
  assume "x \<in> set xs"
  then have "x \<in> set (sort_key f xs)" by simp
  moreover have "sorted (map f (sort_key f xs))" by simp
  ultimately show "f (hd (sort_key f xs)) \<le> f x"
    using ne by (cases "sort_key f xs") auto
qed

lemma mget_ApplyStorage:
  "ApplyStorage (Some s) = Some st \<Longrightarrow>
     mget st ''backends'' = Some (YMap (mlit [
       (''kv_default'', YMap (case stg_KV s of Some kv \<Rightarrow> expandKVBackend kv | None \<Rightarrow> defaultKVBackend)),
       (''sql_default'', YMap (case stg_SQL s of Some sql \<Rightarrow> expandSQLBackend sql | None \<Rightarrow> defaultSQLBackend))]))
   \<and> mget st ''stores'' = Some (YMap defaultStores)"
  by (auto simp: ApplyStorage_def mlit_def)

section \<open>Properties\<close>

text \<open>The names of the backends a storage section declares, and the backends its stores use.\<close>

definition storeBackends :: "ymap \<Rightarrow> yaml list" where
  "storeBackends stores = map (\<lambda>(k, v). case asMap v of None \<Rightarrow> YNull | Some m \<Rightarrow> mfield m ''backend'') stores"

text \<open>
  The storage section the operator writes is closed: it declares its backends and its stores,
  and the backend of every store (metadata, inference, conversations, prompts) is one of the
  declared backends, whatever KV and SQL settings the spec gives.
\<close>

theorem storage_stores_use_declared_backends:
  assumes "ApplyStorage storage = Some st"
  shows "\<exists>backends stores. mget st ''backends'' = Some (YMap backends) \<and> mget st ''stores'' = Some (YMap stores)
     \<and> (\<forall>b \<in> set (storeBackends stores). \<exists>name. b = YStr name \<and> mget backends name \<noteq> None)"
proof -
  obtain s where "storage = Some s" using assms by (cases storage) (auto simp: ApplyStorage_def)
  moreover have "storeBackends defaultStores = [YStr ''sql_default'', YStr ''sql_default'', YStr ''kv_default'', YStr ''kv_default'']"
    by code_simp
  ultimately show ?thesis using mget_ApplyStorage assms by auto
qed

definition exStorage :: StateStorageSpec where
  "exStorage = \<lparr> stg_KV = Some \<lparr> kv_Type = ''redis'', kv_Endpoint = ''redis:6379'',
       kv_Password = Some \<lparr> skr_Name = ''redis-secret'', skr_Key = ''password'' \<rparr> \<rparr>, stg_SQL = None \<rparr>"

theorem storage_stores_use_declared_backends_witness:
  "\<exists>backends stores name. mget (the (ApplyStorage (Some exStorage))) ''backends'' = Some (YMap backends)
     \<and> mget (the (ApplyStorage (Some exStorage))) ''stores'' = Some (YMap stores)
     \<and> hd (storeBackends stores) = YStr name \<and> mget backends name \<noteq> None"
proof -
  have st: "ApplyStorage (Some exStorage) = Some (the (ApplyStorage (Some exStorage)))"
    by (simp add: ApplyStorage_def Let_def)
  obtain backends stores where
    "mget (the (ApplyStorage (Some exStorage))) ''backends'' = Some (YMap backends)"
    and stores: "mget (the (ApplyStorage (Some exStorage))) ''stores'' = Some (YMap stores)"
    and all: "\<forall>b \<in> set (storeBackends stores). \<exists>name. b = YStr name \<and> mget backends name \<noteq> None"
    using storage_stores_use_declared_backends [OF st] by blast
  moreover have "stores = defaultStores" using mget_ApplyStorage [OF st] stores by simp
  then have "hd (storeBackends stores) \<in> set (storeBackends stores)" by simp code_simp
  ultimately show ?thesis by blast
qed

text \<open>
  Storage secrets and storage references agree: when the KV store is Redis with a password,
  the backend's \<open>password\<close> is the reference of a mounted variable, and when the SQL store is
  Postgres with a connection string, so is its \<open>connection_string\<close>; a storage section without these
  mounts nothing for them and, for KV, references nothing.
\<close>

theorem storage_references_are_mounted:
  "mget (expandKVBackend kv) ''password'' =
     (if kv_Type kv = ''redis'' \<and> kv_Password kv \<noteq> None
      then Some (envRefOf (hd (collectStorageSecrets \<lparr> stg_KV = Some kv, stg_SQL = sqlo \<rparr>))) else None)
   \<and> (sql_Type sql = ''postgres'' \<and> sql_ConnectionString sql \<noteq> None \<longrightarrow>
      mget (expandSQLBackend sql) ''connection_string'' =
        Some (envRefOf (last (collectStorageSecrets \<lparr> stg_KV = kvo, stg_SQL = Some sql \<rparr>))))"
proof -
  have "mget (expandKVBackend kv) ''password'' =
     (if kv_Type kv = ''redis'' \<and> kv_Password kv \<noteq> None
      then Some (envRefOf (hd (collectStorageSecrets \<lparr> stg_KV = Some kv, stg_SQL = sqlo \<rparr>))) else None)"
    by (auto simp: expandKVBackend_def defaultKVBackend_def collectStorageSecrets_def envRefOf_def
        secretEnv_def envVarPrefix_def split: option.split)
  then show ?thesis
    by (auto simp: expandSQLBackend_def collectStorageSecrets_def envRefOf_def secretEnv_def envVarPrefix_def)
qed

definition exSQL :: SQLStorageSpec where
  "exSQL = \<lparr> sql_Type = ''postgres'',
     sql_ConnectionString = Some \<lparr> skr_Name = ''pg-secret'', skr_Key = ''dsn'' \<rparr> \<rparr>"

theorem storage_references_are_mounted_witness:
  "mget (expandSQLBackend exSQL) ''connection_string'' =
     Some (envRefOf (last (collectStorageSecrets \<lparr> stg_KV = stg_KV exStorage, stg_SQL = Some exSQL \<rparr>)))"
  using storage_references_are_mounted [of "the (stg_KV exStorage)" None exSQL "stg_KV exStorage"]
  by (simp add: exSQL_def)

text \<open>
  Model registration: expansion fails exactly when some model names no provider while no
  inference provider is configured; otherwise there is one entry per model, in order, with the
  model's name, and a model that names no provider is given the inference provider with the
  least ID (so the choice does not depend on the order of the provider list).
\<close>

theorem ExpandResources_correct:
  "case ExpandResources (Some r) providers of
     Inl e \<Rightarrow> providersFor providers ''inference'' = []
        \<and> (\<exists>m \<in> set (res_Models r). mc_Provider m = [] \<and> e = NoInferenceProvider (mc_Name m))
   | Inr cms \<Rightarrow> map cm_ModelID cms = map mc_Name (res_Models r)
        \<and> (\<forall>(m, cm) \<in> set (zip (res_Models r) cms).
             if mc_Provider m \<noteq> [] then cm_ProviderID cm = mc_Provider m
             else cm_ProviderID cm \<in> cp_ProviderID ` set (providersFor providers ''inference'')
                \<and> (\<forall>p \<in> set (providersFor providers ''inference''). cm_ProviderID cm \<le> cp_ProviderID p))"
proof (cases "ExpandResources (Some r) providers")
  case (Inl e)
  then have "Inl e \<in> expandModel providers ` set (res_Models r)"
    using traverse_Inl_mem by (fastforce simp: ExpandResources_def)
  then show ?thesis
    using Inl by (auto simp: expandModel_def Let_def split: if_splits)
next
  case (Inr cms)
  let ?ps = "providersFor providers ''inference''"
  have eq: "map (expandModel providers) (res_Models r) = map Inr cms"
    using Inr by (simp add: ExpandResources_def traverse_Inr_iff)
  have one: "cm_ModelID cm = mc_Name m \<and> (if mc_Provider m \<noteq> [] then cm_ProviderID cm = mc_Provider m
       else cm_ProviderID cm \<in> cp_ProviderID ` set ?ps \<and> (\<forall>p \<in> set ?ps. cm_ProviderID cm \<le> cp_ProviderID p))"
    if "expandModel providers m = Inr cm" for m cm
    using that hd_sort_key_least [where xs = ?ps and f = cp_ProviderID]
    by (auto simp: expandModel_def Let_def simp del: providersFor_simps split: if_splits)
  have "list_all2 (\<lambda>m cm. expandModel providers m = Inr cm) (res_Models r) cms"
    using eq by (simp add: list_eq_iff_nth_eq list_all2_conv_all_nth)
  then have two: "list_all2 (\<lambda>m cm. cm_ModelID cm = mc_Name m \<and> (if mc_Provider m \<noteq> [] then cm_ProviderID cm = mc_Provider m
       else cm_ProviderID cm \<in> cp_ProviderID ` set ?ps \<and> (\<forall>p \<in> set ?ps. cm_ProviderID cm \<le> cp_ProviderID p))) (res_Models r) cms"
    by (rule list_all2_mono) (rule one)
  have "map cm_ModelID cms = map mc_Name (res_Models r)"
    using two by (auto simp: list_all2_conv_all_nth intro!: nth_equalityI)
  with two Inr show ?thesis by (auto simp: list_all2_iff)
qed

definition exResources :: ResourcesSpec where
  "exResources = \<lparr> res_Models = [\<lparr> mc_Name = ''llama'', mc_Provider = [], mc_ContextLength = None,
     mc_ModelType = [], mc_Quantization = [] \<rparr>] \<rparr>"

theorem ExpandResources_correct_witness:
  "\<exists>cm. ExpandResources (Some exResources) (Some exExpanded) = Inr [cm] \<and> cm_ModelID cm = ''llama''
     \<and> cm_ProviderID cm \<in> cp_ProviderID ` set (providersFor (Some exExpanded) ''inference'')"
proof -
  have ok: "ExpandResources (Some exResources) (Some exExpanded) =
      Inr [\<lparr> cm_ModelID = ''llama'', cm_ProviderID = ''my-vllm'', cm_ModelType = ''llm'',
             cm_ContextLength = None, cm_Quantization = [] \<rparr>]"
    by code_simp
  show ?thesis
    using ExpandResources_correct [where r = exResources and providers = "Some exExpanded"]
    unfolding ok by (simp add: exResources_def del: providersFor_simps)
qed

end
