(* ===== verification/Digest.thy ===== *)
theory Digest
  imports Go_Strings "HOL-Library.Word"
begin

text \<open>
  \<open>crypto/sha256\<close> and \<open>encoding/hex\<close> as the operator uses them to name generated ConfigMaps and
  migration attempts: SHA-256 on 32-bit words (FIPS 180-4, constants in decimal) and lower-case hexadecimal output.
\<close>

unbundle bit_operations_syntax

section \<open>SHA-256\<close>

type_synonym w32 = "32 word"

definition sha256_K :: "w32 list" where
  "sha256_K = [
     1116352408, 1899447441, 3049323471, 3921009573, 961987163, 1508970993, 2453635748, 2870763221,
     3624381080, 310598401, 607225278, 1426881987, 1925078388, 2162078206, 2614888103, 3248222580,
     3835390401, 4022224774, 264347078, 604807628, 770255983, 1249150122, 1555081692, 1996064986,
     2554220882, 2821834349, 2952996808, 3210313671, 3336571891, 3584528711, 113926993, 338241895,
     666307205, 773529912, 1294757372, 1396182291, 1695183700, 1986661051, 2177026350, 2456956037,
     2730485921, 2820302411, 3259730800, 3345764771, 3516065817, 3600352804, 4094571909, 275423344,
     430227734, 506948616, 659060556, 883997877, 958139571, 1322822218, 1537002063, 1747873779,
     1955562222, 2024104815, 2227730452, 2361852424, 2428436474, 2756734187, 3204031479, 3329325298]"

definition rotr32 :: "nat \<Rightarrow> w32 \<Rightarrow> w32" where
  "rotr32 n w = drop_bit n w OR push_bit (32 - n) w"

definition sigma0 :: "w32 \<Rightarrow> w32" where
  "sigma0 w = rotr32 7 w XOR rotr32 18 w XOR drop_bit 3 w"

definition sigma1 :: "w32 \<Rightarrow> w32" where
  "sigma1 w = rotr32 17 w XOR rotr32 19 w XOR drop_bit 10 w"

definition Sigma0 :: "w32 \<Rightarrow> w32" where
  "Sigma0 w = rotr32 2 w XOR rotr32 13 w XOR rotr32 22 w"

definition Sigma1 :: "w32 \<Rightarrow> w32" where
  "Sigma1 w = rotr32 6 w XOR rotr32 11 w XOR rotr32 25 w"

text \<open>The message schedule is kept newest word first: its next word combines the 2nd, 7th, 15th and
  16th most recent ones.\<close>

fun schedule :: "nat \<Rightarrow> w32 list \<Rightarrow> w32 list" where
  "schedule 0 ws = ws"
| "schedule (Suc n) ws =
     schedule n ((sigma1 (ws ! 1) + ws ! 6 + sigma0 (ws ! 14) + ws ! 15) # ws)"

datatype sha_state = Sha w32 w32 w32 w32 w32 w32 w32 w32

fun shaRound :: "w32 \<times> w32 \<Rightarrow> sha_state \<Rightarrow> sha_state" where
  "shaRound (k, w) (Sha a b c d e f g h) =
     (let ch = (e AND f) XOR (NOT e AND g);
          temp1 = h + Sigma1 e + ch + k + w;
          maj = (a AND b) XOR (a AND c) XOR (b AND c);
          temp2 = Sigma0 a + maj
      in Sha (temp1 + temp2) a b c (d + temp1) e f g)"

fun addState :: "sha_state \<Rightarrow> sha_state \<Rightarrow> sha_state" where
  "addState (Sha a b c d e f g h) (Sha a' b' c' d' e' f' g' h') =
     Sha (a + a') (b + b') (c + c') (d + d') (e + e') (f + f') (g + g') (h + h')"

definition compress :: "w32 list \<Rightarrow> sha_state \<Rightarrow> sha_state" where
  "compress block st = addState st (fold shaRound (zip sha256_K (rev (schedule 48 (rev block)))) st)"

text \<open>Bytes are integers between 0 and 255.\<close>

definition beBytes :: "nat \<Rightarrow> int \<Rightarrow> int list" where
  "beBytes k n = rev (map (\<lambda>i. n div 256 ^ i mod 256) [0..<k])"

definition shaPad :: "int list \<Rightarrow> int list" where
  "shaPad bs =
     bs @ [128] @ replicate ((119 - length bs mod 64) mod 64) 0 @ beBytes 8 (8 * int (length bs))"

fun toWords :: "int list \<Rightarrow> w32 list" where
  "toWords (a # b # c # d # bs) = word_of_int (((a * 256 + b) * 256 + c) * 256 + d) # toWords bs"
| "toWords _ = []"

function blocks :: "w32 list \<Rightarrow> w32 list list" where
  "blocks ws = (if length ws < 16 then [] else take 16 ws # blocks (drop 16 ws))"
  by pat_completeness auto
termination
  by (relation "measure length") auto

declare blocks.simps [simp del]

fun stateBytes :: "sha_state \<Rightarrow> int list" where
  "stateBytes (Sha a b c d e f g h) = concat (map (\<lambda>w. beBytes 4 (uint w)) [a, b, c, d, e, f, g, h])"

definition sha256_init :: sha_state where
  "sha256_init = Sha 1779033703 3144134277 1013904242 2773480762 1359893119 2600822924 528734635 1541459225"

definition sha256Sum :: "string \<Rightarrow> int list" where
  "sha256Sum s = stateBytes (fold compress (blocks (toWords (shaPad (map of_char s)))) sha256_init)"

section \<open>Hexadecimal\<close>

definition hexDigits :: string where
  "hexDigits = ''0123456789abcdef''"

definition hexDigit :: "int \<Rightarrow> char" where
  "hexDigit n = hexDigits ! nat n"

definition hexEncode :: "int list \<Rightarrow> string" where
  "hexEncode bs = concat (map (\<lambda>b. [hexDigit (b div 16), hexDigit (b mod 16)]) bs)"

definition isHexChar :: "char \<Rightarrow> bool" where
  "isHexChar c \<longleftrightarrow> c \<in> set hexDigits"

lemma length_hexDigits [simp]: "length hexDigits = 16"
  by (simp add: hexDigits_def)

lemma distinct_hexDigits: "distinct hexDigits"
  by (simp add: hexDigits_def)

lemma length_hexEncode [simp]: "length (hexEncode bs) = 2 * length bs"
  by (induction bs) (auto simp: hexEncode_def)

lemma hexEncode_chars: "\<forall>b \<in> set bs. 0 \<le> b \<and> b < 256 \<Longrightarrow> list_all isHexChar (hexEncode bs)"
proof -
  have "isHexChar (hexDigit n)" if "0 \<le> n" "n < 16" for n
  proof -
    have "nat n < length hexDigits" using that by simp
    then show ?thesis unfolding isHexChar_def hexDigit_def by (rule nth_mem)
  qed
  then show "\<forall>b \<in> set bs. 0 \<le> b \<and> b < 256 \<Longrightarrow> ?thesis"
    by (auto simp: hexEncode_def list_all_iff)
qed

text \<open>The encoding loses nothing.\<close>

lemma hexDigit_inj: "0 \<le> m \<Longrightarrow> m < 16 \<Longrightarrow> 0 \<le> n \<Longrightarrow> n < 16 \<Longrightarrow> hexDigit m = hexDigit n \<Longrightarrow> m = n"
proof -
  assume mn: "0 \<le> m" "m < 16" "0 \<le> n" "n < 16" and eq: "hexDigit m = hexDigit n"
  from eq have "nat m = nat n"
    using nth_eq_iff_index_eq [OF distinct_hexDigits, of "nat m" "nat n"] mn by (simp add: hexDigit_def)
  with mn show "m = n" by simp
qed

lemma nibbles: "0 \<le> a \<and> a < 256 \<Longrightarrow> 0 \<le> a div 16 \<and> a div 16 < 16 \<and> 0 \<le> a mod 16 \<and> a mod 16 < (16 :: int)"
  by auto

lemma hexByte_inj:
  assumes "0 \<le> a \<and> a < 256" "0 \<le> b \<and> b < 256"
    and "hexDigit (a div 16) = hexDigit (b div 16)" "hexDigit (a mod 16) = hexDigit (b mod 16)"
  shows "a = b"
proof -
  have "a div 16 = b div 16" "a mod 16 = b mod 16"
    using nibbles [OF assms(1)] nibbles [OF assms(2)] assms(3,4) by (blast intro: hexDigit_inj)+
  then show ?thesis by (metis div_mult_mod_eq)
qed

lemma hexEncode_simps [simp]:
  "hexEncode [] = []" "hexEncode (b # bs) = hexDigit (b div 16) # hexDigit (b mod 16) # hexEncode bs"
  by (simp_all add: hexEncode_def)

lemma hexEncode_inj:
  "\<forall>b \<in> set as. 0 \<le> b \<and> b < 256 \<Longrightarrow> \<forall>b \<in> set bs. 0 \<le> b \<and> b < 256 \<Longrightarrow> hexEncode as = hexEncode bs \<Longrightarrow> as = bs"
proof (induction as arbitrary: bs)
  case Nil
  from Nil(3) show ?case by (cases bs) simp_all
next
  case (Cons a as)
  from Cons.prems(3) obtain b bs' where bs: "bs = b # bs'" by (cases bs) simp_all
  from Cons.prems(3) have eqs: "hexDigit (a div 16) = hexDigit (b div 16)" "hexDigit (a mod 16) = hexDigit (b mod 16)"
    "hexEncode as = hexEncode bs'" unfolding bs by simp_all
  have "0 \<le> a \<and> a < 256" "0 \<le> b \<and> b < 256" using Cons.prems(1,2) bs by simp_all
  then have "a = b" using eqs(1,2) by (rule hexByte_inj)
  moreover have "as = bs'"
    by (rule Cons.IH [OF _ _ eqs(3)]) (use Cons.prems(1,2) bs in simp_all)
  ultimately show ?case using bs by simp
qed

lemma length_beBytes [simp]: "length (beBytes k n) = k"
  by (simp add: beBytes_def)

lemma beBytes_byte: "b \<in> set (beBytes k n) \<Longrightarrow> 0 \<le> b \<and> b < 256"
  by (auto simp: beBytes_def)

lemma sha256Sum_length: "length (sha256Sum s) = 32"
  unfolding sha256Sum_def by (cases "fold compress (blocks (toWords (shaPad (map of_char s)))) sha256_init") simp

lemma sha256Sum_bytes: "b \<in> set (sha256Sum s) \<Longrightarrow> 0 \<le> b \<and> b < 256"
  unfolding sha256Sum_def
  by (cases "fold compress (blocks (toWords (shaPad (map of_char s)))) sha256_init")
     (auto dest: beBytes_byte)

text \<open>The padded message is a whole number of 64-byte blocks, so no input byte is dropped.\<close>

lemma shaPad_length: "64 dvd length (shaPad bs)"
proof -
  define n q r where "n = length bs" and "q = n div 64" and "r = n mod 64"
  have n: "n = 64 * q + r" and r: "r < 64" by (auto simp: q_def r_def)
  have "64 dvd n + 9 + (119 - r) mod 64"
  proof (cases "r \<le> 55")
    case True
    then have "119 - r = 64 + (55 - r)" by simp
    then have "(119 - r) mod 64 = (55 - r) mod 64" by (simp only: mod_add_self1)
    then have "(119 - r) mod 64 = 55 - r" by simp
    with n True have "n + 9 + (119 - r) mod 64 = 64 * (q + 1)" by simp
    then show ?thesis by (rule dvdI)
  next
    case False
    then have "(119 - r) mod 64 = 119 - r" by simp
    with n r False have "n + 9 + (119 - r) mod 64 = 64 * (q + 2)" by simp
    then show ?thesis by (rule dvdI)
  qed
  then show ?thesis by (simp add: shaPad_def n_def r_def ac_simps)
qed

end
