(* ===== verification/Config_Generator.thy ===== *)
theory Config_Generator
  imports Config_Merge Digest
begin

text \<open>
  The config generation pipeline (\<open>pkg/config/generator.go\<close> and the types of \<open>types.go\<close>).  The YAML
  library (\<open>gopkg.in/yaml.v3\<close>) is a parameter, the record \<open>yaml_codec\<close>: decoding into the
  \<open>BaseConfig\<close> struct, decoding into a generic map (which may be nil), and encoding.  The generated
  document is built as a \<open>yaml\<close> tree and handed to the encoder.
\<close>

section \<open>Types\<close>

record GeneratedConfig =
  gc_ConfigYAML :: string
  gc_ContentHash :: string
  gc_EnvVars :: "EnvVar list"
  gc_ProviderCount :: int
  gc_ResourceCount :: int
  gc_ConfigVersion :: int
  gc_ConfigVersionDefaulted :: bool
  gc_PraxisAPIsFiltered :: bool

record RegisteredResources =
  rr_Models :: "yaml list"
  rr_VectorStores :: "yaml list"

record BaseConfig =
  bc_Version :: string
  bc_DistroName :: string
  bc_ImageName :: string
  bc_APIs :: "string list"
  bc_Providers :: "ConfigProvider list gomap option"
  bc_RegisteredResources :: "RegisteredResources option"
  bc_VectorStores :: "ymap option"
  bc_Server :: ymap
  bc_Storage :: "ymap option"

record yaml_codec =
  yc_unmarshalBase :: "string \<Rightarrow> BaseConfig option"
  yc_unmarshalMap :: "string \<Rightarrow> ymap option option"
  yc_marshal :: "yaml \<Rightarrow> string option"

section \<open>APIs\<close>

definition praxisServedAPIs :: "string list" where
  "praxisServedAPIs = [''responses'', ''conversations'']"

definition appendIfMissing :: "string list \<Rightarrow> string \<Rightarrow> string list" where
  "appendIfMissing items value = (if value \<in> set items then items else items @ [value])"

definition effectiveDisabledAPIs :: "string list \<Rightarrow> bool \<Rightarrow> string list" where
  "effectiveDisabledAPIs specDisabled praxisMode =
     (if \<not> praxisMode then specDisabled
      else fold (\<lambda>api disabled. appendIfMissing disabled api) praxisServedAPIs specDisabled)"

definition filterAPIList :: "ymap \<Rightarrow> string list \<Rightarrow> ymap \<times> bool" where
  "filterAPIList cfg disabled =
     (case asList (mfield cfg ''apis'') of
        None \<Rightarrow> (cfg, False)
      | Some raw \<Rightarrow>
          (let kept = filter (\<lambda>item. \<not> (case asStr item of None \<Rightarrow> False | Some name \<Rightarrow> name \<in> set disabled)) raw
           in if length kept = 0 then (cfg, False)
              else (mput ''apis'' (YList kept) cfg, True)))"

section \<open>Sections of the document\<close>

definition serializeProvider :: "ConfigProvider \<Rightarrow> yaml" where
  "serializeProvider p =
     YMap (mput ''config'' (YMap (cp_Config p))
       (mlit [(''provider_id'', YStr (cp_ProviderID p)), (''provider_type'', YStr (cp_ProviderType p))]))"

definition serializeProviders :: "ConfigProvider list gomap \<Rightarrow> ymap" where
  "serializeProviders providers = map (\<lambda>(apiType, ps). (apiType, YList (map serializeProvider ps))) providers"

definition serializeModel :: "ConfigModel \<Rightarrow> yaml" where
  "serializeModel m =
     (let entry = mlit [(''model_id'', YStr (cm_ModelID m)), (''provider_id'', YStr (cm_ProviderID m))];
          entry = setString ''model_type'' (cm_ModelType m) entry;
          entry = setIntPtr ''context_length'' (cm_ContextLength m) entry;
          entry = setString ''quantization'' (cm_Quantization m) entry
      in YMap entry)"

definition serializeModels :: "ConfigModel list \<Rightarrow> yaml list" where
  "serializeModels models = map serializeModel models"

definition buildRegisteredResources :: "BaseConfig \<Rightarrow> ConfigModel list \<Rightarrow> RegisteredResources" where
  "buildRegisteredResources base userModels =
     (let rr = (case bc_RegisteredResources base of None \<Rightarrow> \<lparr> rr_Models = [], rr_VectorStores = [] \<rparr> | Some r \<Rightarrow> r)
      in if length userModels > 0 then rr\<lparr> rr_Models := serializeModels userModels \<rparr> else rr)"

text \<open>The encoder's view of the struct: both fields are \<open>omitempty\<close>.\<close>

definition registeredResourcesTree :: "RegisteredResources \<Rightarrow> yaml" where
  "registeredResourcesTree rr =
     (let m = mempty;
          m = (if rr_Models rr = [] then m else mput ''models'' (YList (rr_Models rr)) m);
          m = (if rr_VectorStores rr = [] then m else mput ''vector_stores'' (YList (rr_VectorStores rr)) m)
      in YMap m)"

definition praxisAuth :: yaml where
  "praxisAuth = YMap (mlit [
     (''provider_config'', YMap (mlit [
        (''type'', YStr ''upstream_header''),
        (''principal_header'', YStr ''x-user-id''),
        (''tenant_header'', YStr ''x-tenant-id'')])),
     (''access_policy'', YList [
        YMap (mlit [
          (''permit'', YMap (mlit [(''actions'', YList [YStr ''read''])])),
          (''when'', YStr ''resource is unowned''),
          (''description'', YStr ''All users can read system resources'')]),
        YMap (mlit [
          (''permit'', YMap (mlit [(''actions'', YList [YStr ''create''])])),
          (''description'', YStr ''Authenticated users can create resources'')]),
        YMap (mlit [
          (''permit'', YMap (mlit [(''actions'', YList [YStr ''read'', YStr ''update'', YStr ''delete''])])),
          (''when'', YStr ''user is owner''),
          (''description'', YStr ''Owners can manage their own resources'')])])])"

definition applyPraxisAuth :: "ymap \<Rightarrow> ymap" where
  "applyPraxisAuth server = mput ''auth'' praxisAuth server"

definition specPort :: "OGXServerSpec \<Rightarrow> int" where
  "specPort s = (case spec_Network s of None \<Rightarrow> 0 | Some n \<Rightarrow> net_Port n)"

definition buildServerSection :: "BaseConfig \<Rightarrow> OGXServerSpec \<Rightarrow> bool \<Rightarrow> ymap" where
  "buildServerSection base s praxisMode =
     (let server = mcopy (bc_Server base) mempty;
          server = (if praxisMode then applyPraxisAuth server else server)
      in if specPort s \<noteq> 0 then mput ''port'' (YInt (specPort s)) server
         else if mget server ''port'' = None then mput ''port'' (YInt DefaultServerPort) server
         else server)"

definition serverSection :: "ymap \<Rightarrow> config_error + ymap" where
  "serverSection cfg =
     (case mget cfg ''server'' of
        None \<Rightarrow> Inr mempty
      | Some server \<Rightarrow> if server = YNull then Inr mempty
                       else (case asMap server of None \<Rightarrow> Inl ServerNotObject | Some sec \<Rightarrow> Inr sec))"

section \<open>Storage of vector-store metadata\<close>

definition isSQLBackend :: "yaml \<Rightarrow> bool" where
  "isSQLBackend backend =
     (case asMap backend of None \<Rightarrow> False
      | Some cfg \<Rightarrow> (case asStr (mfield cfg ''type'') of None \<Rightarrow> False
                    | Some backendType \<Rightarrow> hasPrefix backendType ''sql_''))"

text \<open>The empty string for ``none'', as in the source.\<close>

definition sqlBackendName :: "ymap \<Rightarrow> string" where
  "sqlBackendName storage =
     (case asMap (mfield storage ''backends'') of None \<Rightarrow> []
      | Some backends \<Rightarrow>
          if isSQLBackend (mfield backends ''sql_default'') then ''sql_default''
          else let candidates = map fst (filter (\<lambda>(name, backend). isSQLBackend backend) backends)
               in if length candidates = 0 then [] else hd (sort candidates))"

definition praxisVectorStoreTable :: string where
  "praxisVectorStoreTable = ''openai_vector_stores''"

definition vectorStoreEntry :: "string \<Rightarrow> yaml" where
  "vectorStoreEntry backend =
     YMap (mlit [(''table_name'', YStr praxisVectorStoreTable), (''backend'', YStr backend)])"

definition applyPraxisVectorStoreMetadata :: "ymap \<Rightarrow> bool \<Rightarrow> ymap" where
  "applyPraxisVectorStoreMetadata storage hasVectorIO =
     (if \<not> hasVectorIO then storage
      else let backend = sqlBackendName storage
           in if backend = [] then storage
              else case mget storage ''stores'' of
                None \<Rightarrow> mput ''stores'' (YMap (mput ''vector_stores'' (vectorStoreEntry backend) mempty)) storage
              | Some sv \<Rightarrow>
                  (case asMap sv of
                     None \<Rightarrow> storage
                   | Some stores \<Rightarrow>
                       if mfield stores ''vector_stores'' \<noteq> YNull then storage
                       else mput ''stores'' (YMap (mput ''vector_stores'' (vectorStoreEntry backend) stores)) storage))"

definition storageSection :: "ymap \<Rightarrow> ymap option" where
  "storageSection cfg = asMap (mfield cfg ''storage'')"

text \<open>The call \<open>applyPraxisVectorStoreMetadata(storageSection(cfg), b)\<close> updates the storage map that
  \<open>cfg\<close> holds; a nil storage map is left alone.\<close>

definition updateStorageMetadata :: "bool \<Rightarrow> ymap \<Rightarrow> ymap" where
  "updateStorageMetadata b cfg =
     (case storageSection cfg of None \<Rightarrow> cfg
      | Some storage \<Rightarrow> mput ''storage'' (YMap (applyPraxisVectorStoreMetadata storage b)) cfg)"

definition hasVectorIOProvider :: "ymap \<Rightarrow> bool" where
  "hasVectorIOProvider cfg =
     (case asMap (mfield cfg ''providers'') of None \<Rightarrow> False
      | Some providers \<Rightarrow> (case asList (mfield providers ''vector_io'') of None \<Rightarrow> False
                         | Some l \<Rightarrow> length l > 0))"

definition buildStorageSection :: "ymap option \<Rightarrow> BaseConfig \<Rightarrow> ymap \<Rightarrow> ymap" where
  "buildStorageSection storage base cfg =
     (case storage of Some st \<Rightarrow> mput ''storage'' (YMap st) cfg
      | None \<Rightarrow> (case bc_Storage base of Some st \<Rightarrow> mput ''storage'' (YMap st) cfg | None \<Rightarrow> cfg))"

section \<open>The document\<close>

definition buildFinalConfig ::
  "BaseConfig \<Rightarrow> ConfigProvider list gomap option \<Rightarrow> ConfigModel list \<Rightarrow> ymap option \<Rightarrow> string list
   \<Rightarrow> OGXServerSpec \<Rightarrow> bool \<Rightarrow> ymap" where
  "buildFinalConfig base providers models storage apis s praxisMode =
     (let cfg = mempty;
          cfg = mput ''version'' (YStr (bc_Version base)) cfg;
          cfg = (if dist_Name (spec_Distribution s) \<noteq> []
                 then mput ''distro_name'' (YStr (dist_Name (spec_Distribution s))) cfg
                 else if dist_Image (spec_Distribution s) \<noteq> []
                 then mput ''distro_name'' (YStr (dist_Image (spec_Distribution s))) cfg
                 else cfg);
          cfg = (if length apis > 0 then mput ''apis'' (YList (map YStr apis)) cfg else cfg);
          cfg = (case providers of None \<Rightarrow> cfg
                 | Some ps \<Rightarrow> if length ps > 0 then mput ''providers'' (YMap (serializeProviders ps)) cfg else cfg);
          cfg = mput ''registered_resources''
                  (registeredResourcesTree (buildRegisteredResources base models)) cfg;
          cfg = (case bc_VectorStores base of None \<Rightarrow> cfg | Some v \<Rightarrow> mput ''vector_stores'' (YMap v) cfg);
          cfg = mput ''server'' (YMap (buildServerSection base s praxisMode)) cfg;
          cfg = buildStorageSection storage base cfg
      in if praxisMode then updateStorageMetadata (length (providersFor providers ''vector_io'') > 0) cfg
         else cfg)"

definition countProviders :: "ConfigProvider list gomap option \<Rightarrow> int" where
  "countProviders providers =
     (case providers of None \<Rightarrow> 0 | Some m \<Rightarrow> fold (\<lambda>(k, ps) count. count + int (length ps)) m 0)"

definition parseConfigVersion :: "string \<Rightarrow> int \<times> bool" where
  "parseConfigVersion version = (case atoi version of None \<Rightarrow> (2, False) | Some v \<Rightarrow> (v, True))"

section \<open>The pipeline\<close>

definition ParseBaseConfig :: "yaml_codec \<Rightarrow> string \<Rightarrow> config_error + BaseConfig" where
  "ParseBaseConfig codec data =
     (case yc_unmarshalBase codec data of
        None \<Rightarrow> Inl ParseBaseFailed
      | Some cfg \<Rightarrow> if bc_Version cfg = [] then Inl MissingVersion else Inr cfg)"

definition marshalConfig :: "yaml_codec \<Rightarrow> ymap \<Rightarrow> config_error + string" where
  "marshalConfig codec cfg =
     (case yc_marshal codec (YMap cfg) of None \<Rightarrow> Inl SerializeFailed | Some s \<Rightarrow> Inr s)"

definition contentHashOf :: "string \<Rightarrow> string" where
  "contentHashOf configYAML = hexEncode (take 8 (sha256Sum configYAML))"

definition GenerateConfig ::
  "yaml_codec \<Rightarrow> OGXServerSpec \<Rightarrow> string \<Rightarrow> bool \<Rightarrow> config_error + GeneratedConfig" where
  "GenerateConfig codec s baseConfigData praxisMode =
     ebind (ParseBaseConfig codec baseConfigData) (\<lambda>baseConfig.
     ebind (mapErr ExpandProvidersFailed (ExpandProviders (spec_Providers s))) (\<lambda>userProviders.
     let mergedProviders = MergeProviders (bc_Providers baseConfig) userProviders in
     ebind (ExpandResources (spec_Resources s) mergedProviders) (\<lambda>userModels.
     let userStorage = ApplyStorage (spec_Storage s);
         mergedStorage = MergeStorage (bc_Storage baseConfig) userStorage;
         disabledAPIs = effectiveDisabledAPIs (spec_DisabledAPIs s) praxisMode;
         mergedAPIs = MergeAPIs (bc_APIs baseConfig) disabledAPIs;
         finalConfig = buildFinalConfig baseConfig mergedProviders userModels mergedStorage mergedAPIs s praxisMode
     in ebind (marshalConfig codec finalConfig) (\<lambda>configYAML.
     let (configVersion, configVersionParsed) = parseConfigVersion (bc_Version baseConfig)
     in Inr \<lparr> gc_ConfigYAML = configYAML,
              gc_ContentHash = contentHashOf configYAML,
              gc_EnvVars = CollectSecretRefs s,
              gc_ProviderCount = countProviders mergedProviders,
              gc_ResourceCount = int (length userModels),
              gc_ConfigVersion = configVersion,
              gc_ConfigVersionDefaulted = (\<not> configVersionParsed),
              gc_PraxisAPIsFiltered = (praxisMode \<and> length (bc_APIs baseConfig) > 0) \<rparr>))))"

text \<open>The document of \<open>GeneratePraxisDefaultConfig\<close> before encoding, with the filter's verdict.\<close>

definition praxisDefaultDocument :: "OGXServerSpec \<Rightarrow> ymap \<Rightarrow> config_error + ymap \<times> bool" where
  "praxisDefaultDocument s cfg =
     ebind (serverSection cfg) (\<lambda>server.
     let server = applyPraxisAuth server;
         server = (if specPort s \<noteq> 0 then mput ''port'' (YInt (specPort s)) server else server);
         cfg = mput ''server'' (YMap server) cfg;
         cfg = updateStorageMetadata (hasVectorIOProvider cfg) cfg
     in Inr (filterAPIList cfg (effectiveDisabledAPIs (spec_DisabledAPIs s) True)))"

definition GeneratePraxisDefaultConfig ::
  "yaml_codec \<Rightarrow> OGXServerSpec \<Rightarrow> string \<Rightarrow> config_error + GeneratedConfig" where
  "GeneratePraxisDefaultConfig codec s baseConfigData =
     ebind (ParseBaseConfig codec baseConfigData) (\<lambda>baseConfig.
     case yc_unmarshalMap codec baseConfigData of
       None \<Rightarrow> Inl ParseDefaultFailed
     | Some cfgo \<Rightarrow>
         (let cfg = (case cfgo of None \<Rightarrow> mempty | Some m \<Rightarrow> m) in
          ebind (praxisDefaultDocument s cfg) (\<lambda>(cfg, apisFiltered).
          ebind (marshalConfig codec cfg) (\<lambda>configYAML.
          let (configVersion, configVersionParsed) = parseConfigVersion (bc_Version baseConfig)
          in Inr \<lparr> gc_ConfigYAML = configYAML,
                   gc_ContentHash = contentHashOf configYAML,
                   gc_EnvVars = CollectSecretRefs s,
                   gc_ProviderCount = countProviders (bc_Providers baseConfig),
                   gc_ResourceCount =
                     (case bc_RegisteredResources baseConfig of None \<Rightarrow> 0 | Some rr \<Rightarrow> int (length (rr_Models rr))),
                   gc_ConfigVersion = configVersion,
                   gc_ConfigVersionDefaulted = (\<not> configVersionParsed),
                   gc_PraxisAPIsFiltered = apisFiltered \<rparr>))))"

end
