(* ===== verification/Config_Correct.thy ===== *)
theory Config_Correct
  imports Config_Generator
begin

text \<open>
  Correctness of the generation pipeline.  The statements speak about the document that is handed
  to the YAML encoder; the only assumption on the YAML library is that a decoded Go map has no
  key twice (\<open>wf_codec\<close>), which every Go map satisfies.
\<close>

section \<open>Well-formed inputs\<close>

definition wf_providers :: "ConfigProvider list gomap \<Rightarrow> bool" where
  "wf_providers m \<longleftrightarrow> wf_map m \<and> (\<forall>k ps p. (k, ps) \<in> set m \<longrightarrow> p \<in> set ps \<longrightarrow> wf_ymap (cp_Config p))"

definition wf_base :: "BaseConfig \<Rightarrow> bool" where
  "wf_base b \<longleftrightarrow>
     (\<forall>m. bc_Providers b = Some m \<longrightarrow> wf_providers m) \<and>
     (\<forall>r. bc_RegisteredResources b = Some r \<longrightarrow> list_all wf_yaml (rr_Models r) \<and> list_all wf_yaml (rr_VectorStores r)) \<and>
     (\<forall>v. bc_VectorStores b = Some v \<longrightarrow> wf_ymap v) \<and>
     wf_ymap (bc_Server b) \<and>
     (\<forall>st. bc_Storage b = Some st \<longrightarrow> wf_ymap st)"

definition wf_codec :: "yaml_codec \<Rightarrow> bool" where
  "wf_codec codec \<longleftrightarrow>
     (\<forall>data b. yc_unmarshalBase codec data = Some b \<longrightarrow> wf_base b) \<and>
     (\<forall>data m. yc_unmarshalMap codec data = Some (Some m) \<longrightarrow> wf_ymap m)"

section \<open>Inverting the pipeline\<close>

lemma ParseBaseConfig_Inr:
  "ParseBaseConfig codec data = Inr b \<longleftrightarrow> yc_unmarshalBase codec data = Some b \<and> bc_Version b \<noteq> []"
  by (auto simp: ParseBaseConfig_def split: option.splits)

lemma marshalConfig_Inr: "marshalConfig codec cfg = Inr s \<longleftrightarrow> yc_marshal codec (YMap cfg) = Some s"
  by (auto simp: marshalConfig_def split: option.splits)

definition finalDocument ::
  "OGXServerSpec \<Rightarrow> bool \<Rightarrow> BaseConfig \<Rightarrow> ConfigProvider list gomap option \<Rightarrow> ConfigModel list \<Rightarrow> ymap" where
  "finalDocument s pm b up models =
     buildFinalConfig b (MergeProviders (bc_Providers b) up) models
       (MergeStorage (bc_Storage b) (ApplyStorage (spec_Storage s)))
       (MergeAPIs (bc_APIs b) (effectiveDisabledAPIs (spec_DisabledAPIs s) pm)) s pm"

lemma GenerateConfig_Inr:
  assumes "GenerateConfig codec s data pm = Inr g"
  obtains b up models where
    "ParseBaseConfig codec data = Inr b"
    "ExpandProviders (spec_Providers s) = Inr up"
    "ExpandResources (spec_Resources s) (MergeProviders (bc_Providers b) up) = Inr models"
    "yc_marshal codec (YMap (finalDocument s pm b up models)) = Some (gc_ConfigYAML g)"
    "gc_ContentHash g = contentHashOf (gc_ConfigYAML g)"
    "gc_EnvVars g = CollectSecretRefs s"
    "gc_ProviderCount g = countProviders (MergeProviders (bc_Providers b) up)"
    "gc_ResourceCount g = int (length models)"
    "gc_PraxisAPIsFiltered g \<longleftrightarrow> pm \<and> bc_APIs b \<noteq> []"
    "gc_ConfigVersionDefaulted g \<longleftrightarrow> atoi (bc_Version b) = None"
    "gc_ConfigVersion g = (case atoi (bc_Version b) of None \<Rightarrow> 2 | Some v \<Rightarrow> v)"
  using assms
  by (auto simp: GenerateConfig_def Let_def ebind_Inr_iff marshalConfig_Inr finalDocument_def
      parseConfigVersion_def case_prod_beta split: option.splits)

lemma GeneratePraxisDefaultConfig_Inr:
  assumes "GeneratePraxisDefaultConfig codec s data = Inr g"
  obtains b cfgo doc where
    "ParseBaseConfig codec data = Inr b"
    "yc_unmarshalMap codec data = Some cfgo"
    "praxisDefaultDocument s (case cfgo of None \<Rightarrow> mempty | Some m \<Rightarrow> m) = Inr (doc, gc_PraxisAPIsFiltered g)"
    "yc_marshal codec (YMap doc) = Some (gc_ConfigYAML g)"
    "gc_ContentHash g = contentHashOf (gc_ConfigYAML g)"
    "gc_EnvVars g = CollectSecretRefs s"
proof -
  obtain b cfgo where b: "ParseBaseConfig codec data = Inr b" and c: "yc_unmarshalMap codec data = Some cfgo"
    using assms by (auto simp: GeneratePraxisDefaultConfig_def ebind_Inr_iff split: option.splits)
  let ?cfg = "case cfgo of None \<Rightarrow> mempty | Some m \<Rightarrow> m"
  obtain doc f where d: "praxisDefaultDocument s ?cfg = Inr (doc, f)"
    using assms b c by (cases "praxisDefaultDocument s ?cfg")
      (auto simp: GeneratePraxisDefaultConfig_def Let_def)
  show thesis
  proof (rule that [OF b c])
    show "praxisDefaultDocument s ?cfg = Inr (doc, gc_PraxisAPIsFiltered g)"
      and "yc_marshal codec (YMap doc) = Some (gc_ConfigYAML g)"
      and "gc_ContentHash g = contentHashOf (gc_ConfigYAML g)"
      and "gc_EnvVars g = CollectSecretRefs s"
      using assms b c d
      by (auto simp: GeneratePraxisDefaultConfig_def Let_def ebind_Inr_iff marshalConfig_Inr case_prod_beta)
  qed
qed

section \<open>Lookups in the document\<close>

lemma mget_updateStorageMetadata:
  "k \<noteq> ''storage'' \<Longrightarrow> mget (updateStorageMetadata b cfg) k = mget cfg k"
  by (simp add: updateStorageMetadata_def split: option.split)

lemma mget_buildStorageSection:
  "k \<noteq> ''storage'' \<Longrightarrow> mget (buildStorageSection st b cfg) k = mget cfg k"
  by (simp add: buildStorageSection_def split: option.split)

lemmas doc_simps = buildFinalConfig_def Let_def mget_updateStorageMetadata mget_buildStorageSection

lemma mget_final_server:
  "mget (buildFinalConfig b ps ms st apis s pm) ''server'' = Some (YMap (buildServerSection b s pm))"
  by (simp add: doc_simps split: option.split)

lemma mget_final_apis:
  "mget (buildFinalConfig b ps ms st apis s pm) ''apis'' =
     (if apis = [] then None else Some (YList (map YStr apis)))"
  by (simp add: doc_simps split: option.split)

lemma mget_final_providers:
  "mget (buildFinalConfig b ps ms st apis s pm) ''providers'' =
     (case ps of None \<Rightarrow> None | Some m \<Rightarrow> if m = [] then None else Some (YMap (serializeProviders m)))"
  by (simp add: doc_simps split: option.split)

lemma mget_final_version:
  "mget (buildFinalConfig b ps ms st apis s pm) ''version'' = Some (YStr (bc_Version b))"
  by (simp add: doc_simps split: option.split)

lemma mget_serializeProviders:
  "mget (serializeProviders m) api = map_option (\<lambda>ps. YList (map serializeProvider ps)) (mget m api)"
  by (induction m) (auto simp: serializeProviders_def mget_def)

lemma mget_buildServerSection:
  assumes "wf_map (bc_Server b)"
  shows "mget (buildServerSection b s pm) k =
     (if k = ''port'' then
        (if specPort s \<noteq> 0 then Some (YInt (specPort s))
         else case mget (bc_Server b) ''port'' of None \<Rightarrow> Some (YInt DefaultServerPort) | Some p \<Rightarrow> Some p)
      else if k = ''auth'' \<and> pm then Some praxisAuth
      else mget (bc_Server b) k)"
  using assms by (auto simp: buildServerSection_def Let_def applyPraxisAuth_def mget_mcopy split: option.split)

lemma set_effectiveDisabledAPIs:
  "set (effectiveDisabledAPIs ds pm) = set ds \<union> (if pm then {''responses'', ''conversations''} else {})"
  by (auto simp: effectiveDisabledAPIs_def praxisServedAPIs_def appendIfMissing_def)

section \<open>Example inputs\<close>

text \<open>Concrete specs and codecs at which the properties below are instantiated.\<close>

definition emptySpec :: OGXServerSpec where
  "emptySpec = \<lparr> spec_Distribution = \<lparr> dist_Name = ''starter'', dist_Image = [] \<rparr>,
     spec_Providers = None, spec_Resources = None, spec_Storage = None, spec_DisabledAPIs = [],
     spec_RegistryRefreshIntervalSeconds = None, spec_Network = None, spec_TLS = None,
     spec_Workload = None, spec_Monitoring = None, spec_BaseConfig = None, spec_OverrideConfig = None,
     spec_PraxisMode = None \<rparr>"

definition exSpec :: OGXServerSpec where
  "exSpec = emptySpec\<lparr> spec_Providers := Some exProviders \<rparr>"

definition exBase :: BaseConfig where
  "exBase = \<lparr> bc_Version = ''2'', bc_DistroName = [], bc_ImageName = [],
     bc_APIs = [''inference'', ''responses''], bc_Providers = None, bc_RegisteredResources = None,
     bc_VectorStores = None, bc_Server = [(''auth'', YNull), (''tenancy'', YStr ''single'')], bc_Storage = None \<rparr>"

definition exMap :: ymap where
  "exMap = [(''apis'', YList [YStr ''inference'', YStr ''responses'']),
            (''server'', YMap [(''auth'', YNull), (''tenancy'', YStr ''single'')]),
            (''version'', YStr ''2'')]"

definition exCodec :: yaml_codec where
  "exCodec = \<lparr> yc_unmarshalBase = (\<lambda>_. Some exBase), yc_unmarshalMap = (\<lambda>_. Some (Some exMap)),
     yc_marshal = (\<lambda>_. Some ''doc'') \<rparr>"

lemma less_string_simps [simp]:
  "[] < (c # cs :: string)" "\<not> (s :: string) < []"
  by simp_all

lemma exCodec_wf: "wf_codec exCodec"
  by (auto simp: wf_codec_def exCodec_def wf_base_def exBase_def exMap_def wf_ymap_iff)

lemma GenerateConfig_marshal_total:
  assumes "ParseBaseConfig codec data = Inr b" "ExpandProviders (spec_Providers s) = Inr up"
    "ExpandResources (spec_Resources s) (MergeProviders (bc_Providers b) up) = Inr models"
    "\<And>t. yc_marshal codec t \<noteq> None"
  shows "\<exists>g. GenerateConfig codec s data pm = Inr g"
  using assms by (auto simp: GenerateConfig_def Let_def marshalConfig_def split: prod.split option.split)

lemma exCodec_generates: "\<exists>g. GenerateConfig exCodec exSpec ''base'' pm = Inr g"
proof (rule GenerateConfig_marshal_total)
  show "ParseBaseConfig exCodec ''base'' = Inr exBase"
    by (simp add: ParseBaseConfig_def exCodec_def exBase_def)
  show "ExpandProviders (spec_Providers exSpec) = Inr (Some exExpanded)"
    using exProviders_expand by (simp add: exSpec_def)
qed (simp_all add: ExpandResources_def exSpec_def emptySpec_def exCodec_def)

lemma exCodec_default: "\<exists>g. GeneratePraxisDefaultConfig exCodec exSpec ''base'' = Inr g"
  by (auto simp: GeneratePraxisDefaultConfig_def exCodec_def ParseBaseConfig_def exBase_def exMap_def Let_def
      praxisDefaultDocument_def serverSection_def marshalConfig_def mget_def split: prod.split)

section \<open>Properties\<close>

text \<open>
  (C24) In Praxis mode the declarative path always installs the upstream-header authentication: the
  generated document's \<open>server.auth\<close> is exactly the operator's policy whatever the base config
  had there, every other server key except the port (tenancy in particular) is the base
  config's, and the port is the spec's when set, else the base config's, else 8321.
\<close>

theorem praxis_auth_is_installed:
  assumes "wf_codec codec" and "GenerateConfig codec s data True = Inr g"
  shows "\<exists>b doc server. ParseBaseConfig codec data = Inr b
     \<and> yc_marshal codec (YMap doc) = Some (gc_ConfigYAML g)
     \<and> mget doc ''server'' = Some (YMap server)
     \<and> mget server ''auth'' = Some praxisAuth
     \<and> (\<forall>k. k \<noteq> ''auth'' \<and> k \<noteq> ''port'' \<longrightarrow> mget server k = mget (bc_Server b) k)
     \<and> mget server ''port'' =
         (if specPort s \<noteq> 0 then Some (YInt (specPort s))
          else case mget (bc_Server b) ''port'' of None \<Rightarrow> Some (YInt 8321) | Some p \<Rightarrow> Some p)"
proof (rule GenerateConfig_Inr [OF assms(2)])
  fix b up models
  assume b: "ParseBaseConfig codec data = Inr b"
    and m: "yc_marshal codec (YMap (finalDocument s True b up models)) = Some (gc_ConfigYAML g)"
  have "wf_map (bc_Server b)"
    using b assms(1) by (auto simp: ParseBaseConfig_Inr wf_codec_def wf_base_def)
  note server = mget_buildServerSection [OF this, of s True]
  show ?thesis
  proof (intro exI conjI)
    show "ParseBaseConfig codec data = Inr b" by (rule b)
    show "yc_marshal codec (YMap (finalDocument s True b up models)) = Some (gc_ConfigYAML g)" by (rule m)
    show "mget (finalDocument s True b up models) ''server'' = Some (YMap (buildServerSection b s True))"
      by (simp add: finalDocument_def mget_final_server)
  qed (auto simp: server DefaultServerPort_def split: option.split)
qed

theorem praxis_auth_is_installed_witness:
  "\<exists>g b doc server. GenerateConfig exCodec exSpec ''base'' True = Inr g
     \<and> ParseBaseConfig exCodec ''base'' = Inr b
     \<and> yc_marshal exCodec (YMap doc) = Some (gc_ConfigYAML g)
     \<and> mget doc ''server'' = Some (YMap server) \<and> mget server ''auth'' = Some praxisAuth"
proof -
  obtain g where g: "GenerateConfig exCodec exSpec ''base'' True = Inr g" using exCodec_generates by blast
  from praxis_auth_is_installed [OF exCodec_wf g]
  obtain b doc server where "ParseBaseConfig exCodec ''base'' = Inr b"
    "yc_marshal exCodec (YMap doc) = Some (gc_ConfigYAML g)" "mget doc ''server'' = Some (YMap server)"
    "mget server ''auth'' = Some praxisAuth"
    by (elim exE conjE) (rule that; assumption)
  with g show ?thesis by (intro exI conjI)
qed

text \<open>
  The default Praxis path changes nothing it does not own: when it succeeds, the document has
  the distribution's own value under every key except \<open>server\<close>, \<open>storage\<close> and \<open>apis\<close>; its
  \<open>server\<close> section is the distribution's with \<open>auth\<close> replaced by the operator's policy and
  \<open>port\<close> replaced when the spec sets one, so existing tenancy is left unchanged.
\<close>

theorem praxis_default_preserves_the_rest:
  assumes "GeneratePraxisDefaultConfig codec s data = Inr g"
  shows "\<exists>cfgo doc server0 server. yc_unmarshalMap codec data = Some cfgo
     \<and> yc_marshal codec (YMap doc) = Some (gc_ConfigYAML g)
     \<and> (\<forall>k. k \<notin> {''server'', ''storage'', ''apis''} \<longrightarrow>
          mget doc k = mget (case cfgo of None \<Rightarrow> mempty | Some m \<Rightarrow> m) k)
     \<and> serverSection (case cfgo of None \<Rightarrow> mempty | Some m \<Rightarrow> m) = Inr server0
     \<and> mget doc ''server'' = Some (YMap server)
     \<and> mget server ''auth'' = Some praxisAuth
     \<and> (\<forall>k. k \<noteq> ''auth'' \<and> (k \<noteq> ''port'' \<or> specPort s = 0) \<longrightarrow> mget server k = mget server0 k)"
proof (rule GeneratePraxisDefaultConfig_Inr [OF assms])
  fix b doc and cfgo :: "ymap option"
  let ?cfg = "case cfgo of None \<Rightarrow> mempty | Some m \<Rightarrow> m"
  assume c: "yc_unmarshalMap codec data = Some cfgo"
    and d: "praxisDefaultDocument s ?cfg = Inr (doc, gc_PraxisAPIsFiltered g)"
    and m: "yc_marshal codec (YMap doc) = Some (gc_ConfigYAML g)"
  obtain server0 where s0: "serverSection ?cfg = Inr server0"
    using d by (cases "serverSection ?cfg") (auto simp: praxisDefaultDocument_def)
  define server where "server = (if specPort s \<noteq> 0 then mput ''port'' (YInt (specPort s)) (applyPraxisAuth server0)
     else applyPraxisAuth server0)"
  define cfg1 where "cfg1 = mput ''server'' (YMap server) ?cfg"
  define cfg2 where "cfg2 = updateStorageMetadata (hasVectorIOProvider cfg1) cfg1"
  have doc: "doc = fst (filterAPIList cfg2 (effectiveDisabledAPIs (spec_DisabledAPIs s) True))"
    using d s0 by (simp add: praxisDefaultDocument_def Let_def server_def cfg1_def cfg2_def split: if_splits)
  have other: "mget doc k = mget cfg2 k" if "k \<noteq> ''apis''" for k
    using that by (simp add: doc filterAPIList_def Let_def split: option.split)
  show ?thesis
  proof (intro exI conjI)
    show "yc_unmarshalMap codec data = Some cfgo" by (rule c)
    show "yc_marshal codec (YMap doc) = Some (gc_ConfigYAML g)" by (rule m)
    show "serverSection ?cfg = Inr server0" by (rule s0)
    show "\<forall>k. k \<notin> {''server'', ''storage'', ''apis''} \<longrightarrow> mget doc k = mget ?cfg k"
      by (simp add: other cfg2_def cfg1_def mget_updateStorageMetadata)
    show "mget doc ''server'' = Some (YMap server)"
      by (simp add: other cfg2_def cfg1_def mget_updateStorageMetadata)
  qed (simp_all add: server_def applyPraxisAuth_def)
qed

theorem praxis_default_preserves_the_rest_witness:
  "\<exists>g cfgo doc server. GeneratePraxisDefaultConfig exCodec exSpec ''base'' = Inr g
     \<and> yc_unmarshalMap exCodec ''base'' = Some cfgo
     \<and> yc_marshal exCodec (YMap doc) = Some (gc_ConfigYAML g)
     \<and> mget doc ''server'' = Some (YMap server) \<and> mget server ''auth'' = Some praxisAuth"
proof -
  obtain g where g: "GeneratePraxisDefaultConfig exCodec exSpec ''base'' = Inr g" using exCodec_default by blast
  from praxis_default_preserves_the_rest [OF g]
  obtain cfgo doc server where "yc_unmarshalMap exCodec ''base'' = Some cfgo"
    "yc_marshal exCodec (YMap doc) = Some (gc_ConfigYAML g)" "mget doc ''server'' = Some (YMap server)"
    "mget server ''auth'' = Some praxisAuth"
    by (elim exE conjE) (rule that; assumption)
  with g show ?thesis by (intro exI conjI)
qed

text \<open>
  The declarative path lists exactly the base APIs that are not disabled, in the base config's
  order; in Praxis mode neither \<open>responses\<close> nor \<open>conversations\<close> is ever listed, whatever the
  spec disables.
\<close>

theorem generated_apis:
  assumes "GenerateConfig codec s data pm = Inr g"
  shows "\<exists>b doc. ParseBaseConfig codec data = Inr b
     \<and> yc_marshal codec (YMap doc) = Some (gc_ConfigYAML g)
     \<and> (let kept = filter (\<lambda>api. api \<notin> set (spec_DisabledAPIs s)
                          \<and> (pm \<longrightarrow> api \<noteq> ''responses'' \<and> api \<noteq> ''conversations'')) (bc_APIs b)
        in mget doc ''apis'' = (if kept = [] then None else Some (YList (map YStr kept))))"
proof (rule GenerateConfig_Inr [OF assms])
  fix b up models
  assume b: "ParseBaseConfig codec data = Inr b"
    and m: "yc_marshal codec (YMap (finalDocument s pm b up models)) = Some (gc_ConfigYAML g)"
  have "MergeAPIs (bc_APIs b) (effectiveDisabledAPIs (spec_DisabledAPIs s) pm)
      = filter (\<lambda>api. api \<notin> set (spec_DisabledAPIs s)
                  \<and> (pm \<longrightarrow> api \<noteq> ''responses'' \<and> api \<noteq> ''conversations'')) (bc_APIs b)"
    unfolding MergeAPIs_filter set_effectiveDisabledAPIs by (rule filter_cong) auto
  then show ?thesis
    using b m by (intro exI [of _ b] exI conjI) (assumption, assumption,
      simp only: finalDocument_def mget_final_apis Let_def)
qed

theorem generated_apis_witness:
  "\<exists>g b doc. GenerateConfig exCodec exSpec ''base'' True = Inr g
     \<and> ParseBaseConfig exCodec ''base'' = Inr b \<and> b = exBase
     \<and> yc_marshal exCodec (YMap doc) = Some (gc_ConfigYAML g)
     \<and> mget doc ''apis'' = Some (YList [YStr ''inference''])"
proof -
  obtain g where g: "GenerateConfig exCodec exSpec ''base'' True = Inr g" using exCodec_generates by blast
  have e: "ParseBaseConfig exCodec ''base'' = Inr exBase"
    by (simp add: ParseBaseConfig_def exCodec_def exBase_def)
  from generated_apis [OF g] obtain doc where "yc_marshal exCodec (YMap doc) = Some (gc_ConfigYAML g)"
    "mget doc ''apis'' = Some (YList [YStr ''inference''])"
    by (auto simp: e exBase_def exSpec_def emptySpec_def)
  with g e show ?thesis by (intro exI conjI) (assumption, assumption, rule refl, assumption+)
qed

text \<open>
  On the default path the verdict ``filtered'' is truthful: if it is reported, the document has a
  non-empty \<open>apis\<close> list from which every disabled name is gone and nothing else was removed; if it is
  not, the document's \<open>apis\<close> is untouched.  An empty list, which the server would read as ``serve
  everything'', is never written.
\<close>

theorem filterAPIList_correct:
  "case filterAPIList cfg disabled of (cfg', filtered) \<Rightarrow>
     if filtered then
       (\<exists>raw kept. mget cfg ''apis'' = Some (YList raw) \<and> mget cfg' ''apis'' = Some (YList kept) \<and> kept \<noteq> []
          \<and> kept = filter (\<lambda>y. \<forall>name \<in> set disabled. y \<noteq> YStr name) raw
          \<and> (\<forall>k. k \<noteq> ''apis'' \<longrightarrow> mget cfg' k = mget cfg k))
     else cfg' = cfg"
proof -
  have key: "(\<not> (case asStr item of None \<Rightarrow> False | Some name \<Rightarrow> name \<in> set disabled))
      \<longleftrightarrow> (\<forall>name \<in> set disabled. item \<noteq> YStr name)" for item
    by (cases "asStr item") (auto simp: asStr_def split: yaml.splits)
  show ?thesis
  proof (cases "asList (mfield cfg ''apis'')")
    case (Some raw)
    then have "mget cfg ''apis'' = Some (YList raw)" by (auto simp: mfield_def split: option.splits)
    with Some show ?thesis by (simp add: filterAPIList_def Let_def key del: asList_Some)
  qed (simp add: filterAPIList_def)
qed

theorem filterAPIList_correct_witness:
  "\<exists>cfg'. filterAPIList exMap [''responses''] = (cfg', True) \<and> mget cfg' ''apis'' = Some (YList [YStr ''inference''])
     \<and> mget cfg' ''server'' = mget exMap ''server''"
proof -
  have f: "filterAPIList exMap [''responses''] = (mput ''apis'' (YList [YStr ''inference'']) exMap, True)"
    by code_simp
  show ?thesis using filterAPIList_correct [of exMap "[''responses'']"] unfolding f by simp
qed

end
