(* ===== verification/Config_Storage.thy ===== *)
theory Config_Storage
  imports Config_Correct
begin

text \<open>
  The rest of the pipeline's correctness: the choice of a SQL backend and the vector-store metadata
  that Praxis mode requires, the end-to-end statement about secrets, and the metadata the
  pipeline returns with the document.
\<close>

section \<open>Choosing a SQL backend\<close>

lemma sqlBackendName_cases:
  assumes "asMap (mfield storage ''backends'') = Some backends" "wf_map backends"
  shows "sqlBackendName storage =
     (if isSQLBackend (mfield backends ''sql_default'') then ''sql_default''
      else let c = [n \<leftarrow> mkeys backends. isSQLBackend (mfield backends n)] in if c = [] then [] else hd c)"
proof -
  have mem: "(n, v) \<in> set backends \<Longrightarrow> mfield backends n = v" for n v
    using wf_map_mget_iff [OF assms(2), of n v] by (simp add: mfield_def)
  have c: "map fst (filter (\<lambda>(name, backend). isSQLBackend backend) backends)
      = [n \<leftarrow> mkeys backends. isSQLBackend (mfield backends n)]"
    unfolding mkeys_def filter_map o_def
    by (intro arg_cong [where f = "map fst"] filter_cong) (auto simp: mem)
  have "sorted [n \<leftarrow> mkeys backends. isSQLBackend (mfield backends n)]"
    using assms(2) by (simp add: wf_map_def sorted_filter [where f = id, simplified] strict_sorted_imp_sorted)
  then have s: "sort [n \<leftarrow> mkeys backends. isSQLBackend (mfield backends n)] = [n \<leftarrow> mkeys backends. isSQLBackend (mfield backends n)]"
    by (simp add: sorted_sort_id)
  show ?thesis using assms(1) by (simp add: sqlBackendName_def c s Let_def)
qed

lemma isSQLBackend_mfield:
  "isSQLBackend (mfield m n) \<longleftrightarrow> (\<exists>v. mget m n = Some v \<and> isSQLBackend v)"
  by (auto simp: mfield_def isSQLBackend_def split: option.splits)

lemma sqlBackendName_sound:
  assumes "mget storage ''backends'' = Some (YMap backends)" "wf_map backends" "sqlBackendName storage \<noteq> []"
  shows "\<exists>v. mget backends (sqlBackendName storage) = Some v \<and> isSQLBackend v"
proof -
  let ?c = "[n \<leftarrow> mkeys backends. isSQLBackend (mfield backends n)]"
  have "asMap (mfield storage ''backends'') = Some backends" using assms(1) by (simp add: mfield_def)
  note eq = sqlBackendName_cases [OF this assms(2)]
  then have "isSQLBackend (mfield backends (sqlBackendName storage))"
  proof (cases "isSQLBackend (mfield backends ''sql_default'')")
    case False
    then have "?c \<noteq> []" "sqlBackendName storage = hd ?c" using eq assms(3) by (auto simp: Let_def)
    then have "sqlBackendName storage \<in> set ?c" by (metis hd_in_set)
    then show ?thesis by simp
  qed simp
  then show ?thesis by (simp add: isSQLBackend_mfield)
qed

text \<open>
  The chosen backend is sound, complete, deterministic and prefers the convention: a non-empty
  answer names a declared backend whose type starts with \<open>sql_\<close>; it is \<open>sql_default\<close> whenever that is
  a SQL backend, and otherwise the least name among the SQL backends; and the answer is empty
  only when no backend with a non-empty name is a SQL backend.
\<close>

theorem sqlBackendName_correct:
  assumes "mget storage ''backends'' = Some (YMap backends)" and "wf_map backends"
  shows "(sqlBackendName storage \<noteq> [] \<longrightarrow> (\<exists>v. mget backends (sqlBackendName storage) = Some v \<and> isSQLBackend v))
     \<and> (isSQLBackend (mfield backends ''sql_default'') \<longrightarrow> sqlBackendName storage = ''sql_default'')
     \<and> (\<forall>n v. mget backends n = Some v \<and> isSQLBackend v \<and> sqlBackendName storage \<noteq> ''sql_default''
           \<longrightarrow> sqlBackendName storage \<le> n)
     \<and> (sqlBackendName storage = [] \<longrightarrow> (\<forall>n v. mget backends n = Some v \<and> n \<noteq> [] \<longrightarrow> \<not> isSQLBackend v) \<or>
           (\<exists>v. mget backends [] = Some v \<and> isSQLBackend v))"
proof -
  let ?c = "[n \<leftarrow> mkeys backends. isSQLBackend (mfield backends n)]"
  have "asMap (mfield storage ''backends'') = Some backends" using assms(1) by (simp add: mfield_def)
  note eq = sqlBackendName_cases [OF this assms(2)]
  note get = isSQLBackend_mfield [of backends]
  have c: "n \<in> set ?c \<longleftrightarrow> (\<exists>v. mget backends n = Some v \<and> isSQLBackend v)" for n
    using get [of n] mget_in_mkeys [of backends n] by auto
  have "sorted ?c"
    using assms(2) by (simp add: wf_map_def sorted_filter [where f = id, simplified] strict_sorted_imp_sorted)
  then have least: "hd ?c \<le> n" if "n \<in> set ?c" for n
    using that by (cases ?c) auto
  have hd: "?c \<noteq> [] \<Longrightarrow> hd ?c \<in> set ?c" by (rule hd_in_set)
  show ?thesis
  proof (cases "isSQLBackend (mfield backends ''sql_default'')")
    case True
    then show ?thesis using eq get by auto
  next
    case False
    show ?thesis
    proof (cases "?c = []")
      case True
      then have none: "\<not> (mget backends n = Some v \<and> isSQLBackend v)" for n v using c [of n] by auto
      with True False eq show ?thesis by (auto simp: Let_def)
    next
      case ne: False
      then have e: "sqlBackendName storage = hd ?c" using False eq by (simp add: Let_def)
      have in_c: "hd ?c \<in> set ?c" using hd ne by blast
      then have "\<exists>v. mget backends (hd ?c) = Some v \<and> isSQLBackend v" using c by blast
      moreover have "hd ?c \<le> n" if "mget backends n = Some v \<and> isSQLBackend v" for n v
        using least c that by blast
      moreover have "\<exists>v. mget backends [] = Some v \<and> isSQLBackend v" if "hd ?c = []"
        using in_c c [of "[]"] that by simp
      ultimately show ?thesis using False e by auto
    qed
  qed
qed

definition exBackends :: ymap where
  "exBackends = [(''kv_default'', YMap [(''type'', YStr ''kv_sqlite'')]),
                 (''pg'', YMap [(''type'', YStr ''sql_postgres'')])]"

definition exStorageTree :: ymap where
  "exStorageTree = [(''backends'', YMap exBackends)]"

lemma wf_exBackends: "wf_map exBackends"
  by (simp add: exBackends_def)

theorem sqlBackendName_correct_witness:
  "sqlBackendName exStorageTree = ''pg''
   \<and> (\<exists>v. mget exBackends ''pg'' = Some v \<and> isSQLBackend v)"
proof -
  have n: "sqlBackendName exStorageTree = ''pg''" by code_simp
  moreover have "mget exStorageTree ''backends'' = Some (YMap exBackends)" by code_simp
  note sqlBackendName_correct [OF this wf_exBackends]
  ultimately show ?thesis by simp
qed

section \<open>Vector-store metadata\<close>

text \<open>
  What Praxis mode guarantees about vector-store metadata: with a vector IO provider and a SQL
  backend to hold them, the storage section declares \<open>stores.vector_stores\<close> (unless \<open>stores\<close> is
  malformed), so the server's start-up check passes; a store the distribution already declares is
  kept, and a store the operator adds names a backend that is declared and is SQL.
\<close>

theorem vector_store_metadata_declared:
  assumes "mget storage ''backends'' = Some (YMap backends)" and "wf_map backends"
    and "sqlBackendName storage \<noteq> []"
    and "mget storage ''stores'' = None \<or> mget storage ''stores'' = Some (YMap stores)"
  shows "\<exists>stores' vs. mget (applyPraxisVectorStoreMetadata storage True) ''stores'' = Some (YMap stores')
     \<and> mget stores' ''vector_stores'' = Some vs \<and> vs \<noteq> YNull
     \<and> ((\<exists>old. mget storage ''stores'' = Some (YMap old) \<and> mget old ''vector_stores'' = Some vs)
        \<or> (\<exists>backend v. vs = vectorStoreEntry backend \<and> mget backends backend = Some v \<and> isSQLBackend v))"
proof -
  have sql: "\<exists>v. mget backends (sqlBackendName storage) = Some v \<and> isSQLBackend v"
    using assms(1-3) by (rule sqlBackendName_sound)
  show ?thesis
  proof (cases "mget storage ''stores''")
    case None
    with sql assms(3) show ?thesis
      by (auto simp: applyPraxisVectorStoreMetadata_def Let_def vectorStoreEntry_def)
  next
    case (Some sv)
    then have sv: "sv = YMap stores" using assms(4) by auto
    show ?thesis
    proof (cases "mfield stores ''vector_stores'' = YNull")
      case True
      with Some sv sql assms(3) show ?thesis
        by (auto simp: applyPraxisVectorStoreMetadata_def Let_def vectorStoreEntry_def)
    next
      case False
      then obtain vs where "mget stores ''vector_stores'' = Some vs" "vs \<noteq> YNull"
        by (auto simp: mfield_def split: option.splits)
      with Some sv False show ?thesis
        by (auto simp: applyPraxisVectorStoreMetadata_def Let_def)
    qed
  qed
qed

theorem vector_store_metadata_declared_witness:
  "\<exists>stores' vs. mget (applyPraxisVectorStoreMetadata exStorageTree True) ''stores'' = Some (YMap stores')
     \<and> mget stores' ''vector_stores'' = Some vs \<and> vs \<noteq> YNull"
proof -
  have "mget exStorageTree ''backends'' = Some (YMap exBackends)" by code_simp
  moreover have "sqlBackendName exStorageTree \<noteq> []" by code_simp
  moreover have "mget exStorageTree ''stores'' = None \<or> mget exStorageTree ''stores'' = Some (YMap [])" by code_simp
  ultimately show ?thesis using vector_store_metadata_declared [OF _ wf_exBackends] by metis
qed

text \<open>
  The fix-up is conservative: it changes at most \<open>stores.vector_stores\<close>.  Every other storage key
  and every other store keeps its value, and applying it twice is the same as applying it once.
\<close>

theorem vector_store_metadata_conservative:
  "(\<forall>k. k \<noteq> ''stores'' \<longrightarrow> mget (applyPraxisVectorStoreMetadata storage b) k = mget storage k)
   \<and> (\<forall>stores k. mget storage ''stores'' = Some (YMap stores) \<and> k \<noteq> ''vector_stores'' \<longrightarrow>
        (\<exists>stores'. mget (applyPraxisVectorStoreMetadata storage b) ''stores'' = Some (YMap stores')
           \<and> mget stores' k = mget stores k))
   \<and> applyPraxisVectorStoreMetadata (applyPraxisVectorStoreMetadata storage b) b
     = applyPraxisVectorStoreMetadata storage b"
proof -
  have keep: "mget (applyPraxisVectorStoreMetadata storage b) k = mget storage k" if "k \<noteq> ''stores''" for k
    using that by (auto simp: applyPraxisVectorStoreMetadata_def Let_def split: option.split)
  then have "sqlBackendName (applyPraxisVectorStoreMetadata storage b) = sqlBackendName storage"
    by (simp add: sqlBackendName_def mfield_def)
  then have "applyPraxisVectorStoreMetadata (applyPraxisVectorStoreMetadata storage b) b
     = applyPraxisVectorStoreMetadata storage b"
    by (simp add: applyPraxisVectorStoreMetadata_def [of "applyPraxisVectorStoreMetadata storage b"] Let_def)
       (auto simp: applyPraxisVectorStoreMetadata_def Let_def vectorStoreEntry_def split: option.splits)
  with keep show ?thesis
    by (auto simp: applyPraxisVectorStoreMetadata_def Let_def split: option.splits)
qed

theorem vector_store_metadata_conservative_witness:
  "mget (applyPraxisVectorStoreMetadata exStorageTree True) ''backends'' = mget exStorageTree ''backends''
   \<and> applyPraxisVectorStoreMetadata exStorageTree True \<noteq> exStorageTree"
proof
  show "mget (applyPraxisVectorStoreMetadata exStorageTree True) ''backends'' = mget exStorageTree ''backends''"
    using vector_store_metadata_conservative [of exStorageTree True] by simp
  show "applyPraxisVectorStoreMetadata exStorageTree True \<noteq> exStorageTree" by code_simp
qed

section \<open>Secrets, end to end\<close>

lemma wf_expandLoop: "expandLoop xs m = Inr r \<Longrightarrow> wf_map m \<Longrightarrow> wf_map r"
  by (induction xs m rule: expandLoop.induct) (auto split: sum.splits if_splits)

lemma wf_ExpandProviders: "ExpandProviders po = Inr (Some r) \<Longrightarrow> wf_map r"
  by (auto simp: ExpandProviders_def emap_def ebind_Inr_iff dest: wf_expandLoop split: option.splits)

lemma MergeProviders_keeps_user:
  assumes "\<forall>b. base = Some b \<longrightarrow> wf_map b" "wf_map u" "mget u api = Some cps"
  shows "\<exists>m. MergeProviders base (Some u) = Some m \<and> mget m api = Some cps \<and> m \<noteq> []"
proof (cases base)
  case None
  with assms(3) show ?thesis by (auto simp: MergeProviders_def)
next
  case (Some b)
  then obtain m where m: "MergeProviders base (Some u) = Some m"
    "mget m api = (case mget u api of None \<Rightarrow> mget b api | Some v \<Rightarrow> Some v)"
    using mget_MergeProviders [of b u] assms by auto
  with assms(3) show ?thesis by auto
qed

lemma ExpandProviders_Some: "ExpandProviders (Some p) = Inr up \<Longrightarrow> \<exists>r. up = Some r"
  by (auto simp: ExpandProviders_def emap_def ebind_Inr_iff)

lemma mget_serializeProvider_config:
  "\<exists>e. serializeProvider cp = YMap e \<and> mget e ''provider_id'' = Some (YStr (cp_ProviderID cp))
     \<and> mget e ''config'' = Some (YMap (cp_Config cp))"
  by (simp add: serializeProvider_def)

lemma secrets_in_expansion:
  assumes "ExpandProviders (Some p) = Inr (Some r)" "env \<in> set (collectProviderSecrets p)"
  obtains api cps cp k where "mget r api = Some cps" "cp \<in> set cps" "mget (cp_Config cp) k = Some (envRefOf env)"
proof -
  obtain e where e: "e \<in> set (allEntries p)" "env \<in> set (entSecrets e)"
    using assms(2) by (auto simp: collectProviderSecrets_entries)
  then obtain api es where a: "(api, es) \<in> set (apiEntries p)" "e \<in> set es" by (auto simp: allEntries_def)
  then obtain cps where cps: "mget r api = Some cps" "map entResult es = map Inr cps"
    using ExpandProviders_Inr(1) [OF assms(1) a(1)] by force
  have "entResult e \<in> set (map Inr cps)" using a(2) cps(2) by (metis imageI list.set_map)
  then obtain cp where cp: "cp \<in> set cps" "entResult e = Inr cp" by auto
  have "entryOK e" using entryOK_allEntries e(1) by (auto simp: list_all_iff)
  then obtain k where "mget (cp_Config cp) k = Some (envRefOf env)" using cp e(2) unfolding entryOK_def by blast
  with cps cp that show thesis by blast
qed



section \<open>Metadata returned with the document\<close>

lemma fold_count: "fold (\<lambda>(k, ps) count. count + int (length ps)) m c = c + int (sum_list (map (\<lambda>kv. length (snd kv)) m))"
  by (induction m arbitrary: c) (auto simp: case_prod_beta)

text \<open>
  The metadata describes the document that was encoded: the content hash is 16 lower-case
  hexadecimal characters computed from the encoded text alone, so equal texts get equal hashes;
  the provider count is the number of provider entries written under \<open>providers\<close>; the version is the
  base config's when it is an integer and otherwise 2 with the ``defaulted'' flag set.
\<close>

theorem generated_metadata:
  assumes "GenerateConfig codec s data pm = Inr g"
  shows "\<exists>b doc. ParseBaseConfig codec data = Inr b
     \<and> yc_marshal codec (YMap doc) = Some (gc_ConfigYAML g)
     \<and> gc_ContentHash g = contentHashOf (gc_ConfigYAML g)
     \<and> length (gc_ContentHash g) = 16 \<and> list_all isHexChar (gc_ContentHash g)
     \<and> gc_ProviderCount g =
         (case mget doc ''providers'' of Some (YMap provs) \<Rightarrow>
            int (sum_list (map (\<lambda>kv. length (the (asList (snd kv)))) provs)) | _ \<Rightarrow> 0)
     \<and> (if gc_ConfigVersionDefaulted g then atoi (bc_Version b) = None \<and> gc_ConfigVersion g = 2
        else atoi (bc_Version b) = Some (gc_ConfigVersion g))"
proof (rule GenerateConfig_Inr [OF assms])
  fix b up models
  assume b: "ParseBaseConfig codec data = Inr b"
    and m: "yc_marshal codec (YMap (finalDocument s pm b up models)) = Some (gc_ConfigYAML g)"
    and h: "gc_ContentHash g = contentHashOf (gc_ConfigYAML g)"
    and pc: "gc_ProviderCount g = countProviders (MergeProviders (bc_Providers b) up)"
    and v: "gc_ConfigVersionDefaulted g = (atoi (bc_Version b) = None)"
      "gc_ConfigVersion g = (case atoi (bc_Version b) of None \<Rightarrow> 2 | Some v \<Rightarrow> v)"
  have hex: "length (gc_ContentHash g) = 16" "list_all isHexChar (gc_ContentHash g)"
    using sha256Sum_bytes
    by (auto simp: h contentHashOf_def sha256Sum_length intro!: hexEncode_chars dest!: in_set_takeD)
  have "mget (finalDocument s pm b up models) ''providers'' =
      (case MergeProviders (bc_Providers b) up of None \<Rightarrow> None
       | Some m \<Rightarrow> if m = [] then None else Some (YMap (serializeProviders m)))"
    by (simp add: finalDocument_def mget_final_providers)
  then have count: "gc_ProviderCount g =
      (case mget (finalDocument s pm b up models) ''providers'' of Some (YMap provs) \<Rightarrow>
            int (sum_list (map (\<lambda>kv. length (the (asList (snd kv)))) provs)) | _ \<Rightarrow> 0)"
    by (auto simp: pc countProviders_def fold_count serializeProviders_def o_def case_prod_beta split: option.split)
  show ?thesis
  proof (intro exI conjI)
    show "gc_ProviderCount g =
      (case mget (finalDocument s pm b up models) ''providers'' of Some (YMap provs) \<Rightarrow>
            int (sum_list (map (\<lambda>kv. length (the (asList (snd kv)))) provs)) | _ \<Rightarrow> 0)" by (rule count)
  qed (use b m h hex v in \<open>auto split: option.splits\<close>)
qed

theorem generated_metadata_witness:
  "\<exists>g. GenerateConfig exCodec exSpec ''base'' True = Inr g \<and> length (gc_ContentHash g) = 16"
proof -
  obtain g where g: "GenerateConfig exCodec exSpec ''base'' True = Inr g" using exCodec_generates by blast
  from generated_metadata [OF g] have "length (gc_ContentHash g) = 16" by (elim exE conjE)
  with g show ?thesis by blast
qed

text \<open>
  The declarative path can report \<open>PraxisAPIsFiltered\<close> for a document without an \<open>apis\<close> list.
  When the base config lists only Praxis-served APIs, all of them are filtered, the \<open>apis\<close> key is
  omitted from the document (which the server reads as ``serve everything'') and the flag is still
  true; the default path refuses exactly this outcome.
\<close>

theorem praxis_filtered_flag_without_list:
  assumes "ParseBaseConfig codec data = Inr b" and "bc_APIs b = [''responses'']"
    and "GenerateConfig codec s data True = Inr g"
  shows "gc_PraxisAPIsFiltered g
     \<and> (\<exists>doc. yc_marshal codec (YMap doc) = Some (gc_ConfigYAML g) \<and> mget doc ''apis'' = None)"
proof (rule GenerateConfig_Inr [OF assms(3)])
  fix b' up models
  assume b': "ParseBaseConfig codec data = Inr b'"
    and m: "yc_marshal codec (YMap (finalDocument s True b' up models)) = Some (gc_ConfigYAML g)"
    and f: "gc_PraxisAPIsFiltered g \<longleftrightarrow> True \<and> bc_APIs b' \<noteq> []"
  have bb: "b' = b" using b' assms(1) by simp
  have "mget (finalDocument s True b' up models) ''apis'' = None"
    using assms(2) by (simp add: bb finalDocument_def mget_final_apis MergeAPIs_filter set_effectiveDisabledAPIs)
  with m f show ?thesis using assms(2) bb by auto
qed

definition exCodecResponses :: yaml_codec where
  "exCodecResponses = exCodec\<lparr> yc_unmarshalBase := (\<lambda>_. Some (exBase\<lparr> bc_APIs := [''responses''] \<rparr>)) \<rparr>"

theorem praxis_filtered_flag_without_list_witness:
  "\<exists>g doc. GenerateConfig exCodecResponses emptySpec ''base'' True = Inr g \<and> gc_PraxisAPIsFiltered g
     \<and> yc_marshal exCodecResponses (YMap doc) = Some (gc_ConfigYAML g) \<and> mget doc ''apis'' = None"
proof -
  have p: "ParseBaseConfig exCodecResponses ''base'' = Inr (exBase\<lparr> bc_APIs := [''responses''] \<rparr>)"
    by (simp add: ParseBaseConfig_def exCodecResponses_def exBase_def)
  obtain g where g: "GenerateConfig exCodecResponses emptySpec ''base'' True = Inr g"
    using GenerateConfig_marshal_total [OF p, of emptySpec None "[]" True]
    by (auto simp: ExpandProviders_def ExpandResources_def emptySpec_def exCodecResponses_def exCodec_def)
  have "bc_APIs (exBase\<lparr> bc_APIs := [''responses''] \<rparr>) = [''responses'']" by simp
  from praxis_filtered_flag_without_list [OF p this g] g show ?thesis by blast
qed

end
