(* ===== verification/Config_Types.thy ===== *)
theory Config_Types
  imports Config_Correct
begin

text \<open>
  The type of the generated document: which keys it has and the type of the value under each, as the sections
  of \<open>pkg/config/generator.go\<close> write them and the server reads them.
\<close>

section \<open>Types of documents\<close>

type_synonym shape = "yaml \<Rightarrow> bool"

definition isText :: shape where
  "isText y \<longleftrightarrow> asStr y \<noteq> None"

definition isInteger :: shape where
  "isInteger y = (case y of YInt _ \<Rightarrow> True | _ \<Rightarrow> False)"

definition anyValue :: shape where
  "anyValue y = True"

definition isMapping :: shape where
  "isMapping y \<longleftrightarrow> asMap y \<noteq> None"

definition listOf :: "shape \<Rightarrow> shape" where
  "listOf P y = (case asList y of None \<Rightarrow> False | Some ys \<Rightarrow> list_all P ys)"

definition mapOf :: "shape \<Rightarrow> shape" where
  "mapOf P y = (case asMap y of None \<Rightarrow> False | Some m \<Rightarrow> list_all (\<lambda>kv. P (snd kv)) m)"

text \<open>A closed record: fields that must be there, fields that may be, and no others.\<close>

definition typedFields :: "(string \<times> shape) list \<Rightarrow> ymap \<Rightarrow> bool" where
  "typedFields fs m \<longleftrightarrow>
     wf_map m \<and> list_all (\<lambda>kv. case map_of fs (fst kv) of None \<Rightarrow> False | Some P \<Rightarrow> P (snd kv)) m"

definition recordOf :: "(string \<times> shape) list \<Rightarrow> (string \<times> shape) list \<Rightarrow> shape" where
  "recordOf required optional y =
     (case asMap y of
        None \<Rightarrow> False
      | Some m \<Rightarrow> typedFields (required @ optional) m \<and> list_all (\<lambda>f. mget m (fst f) \<noteq> None) required)"

definition providerEntry :: shape where
  "providerEntry = recordOf [(''provider_id'', isText), (''provider_type'', isText), (''config'', isMapping)] []"

definition modelEntry :: shape where
  "modelEntry = recordOf [(''model_id'', isText), (''provider_id'', isText)]
     [(''model_type'', isText), (''context_length'', isInteger), (''quantization'', isText)]"

definition serverEntry :: shape where
  "serverEntry y = (case asMap y of None \<Rightarrow> False | Some m \<Rightarrow> mget m ''port'' \<noteq> None)"

definition resourcesEntry :: shape where
  "resourcesEntry = recordOf [] [(''models'', listOf anyValue), (''vector_stores'', listOf anyValue)]"

definition configFields :: "(string \<times> shape) list" where
  "configFields =
     [(''distro_name'', isText), (''apis'', listOf isText), (''providers'', mapOf (listOf providerEntry)),
      (''vector_stores'', isMapping), (''storage'', isMapping)]"

definition configDocument :: shape where
  "configDocument =
     recordOf [(''version'', isText), (''registered_resources'', resourcesEntry), (''server'', serverEntry)] configFields"

section \<open>Typing rules\<close>

lemma shape_simps [simp]:
  "isText (YStr s)" "isInteger (YInt i)" "anyValue y" "isMapping (YMap m)"
  "listOf P (YList ys) = list_all P ys" "mapOf P (YMap m) = list_all (\<lambda>kv. P (snd kv)) m"
  "serverEntry (YMap m) \<longleftrightarrow> mget m ''port'' \<noteq> None"
  by (simp_all add: isText_def isInteger_def anyValue_def isMapping_def listOf_def mapOf_def serverEntry_def
      asStr_def asMap_def asList_def)

lemma recordOf_YMap [simp]:
  "recordOf req opt (YMap m) \<longleftrightarrow> typedFields (req @ opt) m \<and> list_all (\<lambda>f. mget m (fst f) \<noteq> None) req"
  by (simp add: recordOf_def asMap_def)

lemma typedFields_empty [simp]: "typedFields fs mempty" "typedFields fs []"
  by (simp_all add: typedFields_def mempty_def)

lemma typedFields_mput:
  "typedFields fs m \<Longrightarrow> map_of fs k = Some P \<Longrightarrow> P v \<Longrightarrow> typedFields fs (mput k v m)"
proof -
  assume m: "typedFields fs m" and k: "map_of fs k = Some P" "P v"
  have "list_all Q m \<Longrightarrow> Q (k, v) \<Longrightarrow> list_all Q (mput k v m)" for Q
    by (induction k v m rule: mput.induct) auto
  with m k show ?thesis by (simp add: typedFields_def)
qed

lemma typedFields_setString:
  "typedFields fs m \<Longrightarrow> map_of fs k = Some isText \<Longrightarrow> typedFields fs (setString k v m)"
  by (simp add: setString_def typedFields_mput)

lemma typedFields_setIntPtr:
  "typedFields fs m \<Longrightarrow> map_of fs k = Some isInteger \<Longrightarrow> typedFields fs (setIntPtr k v m)"
  by (cases v) (simp_all add: setIntPtr_def setPtr_def typedFields_mput)

lemma typed_branch:
  "typedFields fs m \<Longrightarrow> typedFields fs m' \<Longrightarrow> typedFields fs (if c then m else m')"
  "typedFields fs m \<Longrightarrow> (\<And>x. typedFields fs (f x)) \<Longrightarrow> typedFields fs (case v of None \<Rightarrow> m | Some x \<Rightarrow> f x)"
  by (simp_all split: option.split)

lemmas typed_put = typedFields_mput typedFields_setString typedFields_setIntPtr

section \<open>The sections\<close>

lemma typed_serializeProvider: "providerEntry (serializeProvider p)"
  by (simp add: providerEntry_def serializeProvider_def mlit_def typedFields_mput)

lemma typed_serializeProviders: "mapOf (listOf providerEntry) (YMap (serializeProviders ps))"
  by (auto simp: serializeProviders_def list_all_iff typed_serializeProvider)

lemma mget_setString_other [simp]: "k \<noteq> k' \<Longrightarrow> mget (setString k v m) k' = mget m k'"
  by (simp add: setString_def)

lemma typed_serializeModel: "modelEntry (serializeModel m)"
  by (simp add: modelEntry_def serializeModel_def Let_def mlit_def typed_put setIntPtr_def setPtr_def setString_def
      split: option.split)

lemma typed_registeredResources: "resourcesEntry (registeredResourcesTree rr)"
  by (simp add: resourcesEntry_def registeredResourcesTree_def Let_def typedFields_mput list_all_iff)

lemma typed_buildServerSection: "serverEntry (YMap (buildServerSection b s pm))"
  by (simp add: buildServerSection_def Let_def)

lemma typed_updateStorageMetadata:
  assumes "typedFields fs cfg" "map_of fs ''storage'' = Some isMapping"
  shows "typedFields fs (updateStorageMetadata b cfg)"
  using assms by (simp add: updateStorageMetadata_def typedFields_mput split: option.split)

lemma typed_buildStorageSection:
  assumes "typedFields fs cfg" "map_of fs ''storage'' = Some isMapping"
  shows "typedFields fs (buildStorageSection st b cfg)"
  using assms by (simp add: buildStorageSection_def typedFields_mput split: option.split)

lemma typed_buildFinalConfig: "configDocument (YMap (buildFinalConfig b ps ms st apis s pm))"
proof -
  let ?fs = "[(''version'', isText), (''registered_resources'', resourcesEntry), (''server'', serverEntry)] @ configFields"
  have fs: "map_of ?fs ''version'' = Some isText" "map_of ?fs ''registered_resources'' = Some resourcesEntry"
      "map_of ?fs ''server'' = Some serverEntry" "map_of ?fs ''distro_name'' = Some isText"
      "map_of ?fs ''apis'' = Some (listOf isText)" "map_of ?fs ''providers'' = Some (mapOf (listOf providerEntry))"
      "map_of ?fs ''vector_stores'' = Some isMapping" "map_of ?fs ''storage'' = Some isMapping"
    by (simp_all add: configFields_def)
  have strs: "listOf isText (YList (map YStr apis))" by (simp add: list_all_iff)
  note rules = typedFields_mput [OF _ fs(1)] typedFields_mput [OF _ fs(2)] typedFields_mput [OF _ fs(3)]
    typedFields_mput [OF _ fs(4)] typedFields_mput [OF _ fs(5)] typedFields_mput [OF _ fs(6)] typedFields_mput [OF _ fs(7)]
    typed_updateStorageMetadata [OF _ fs(8)] typed_buildStorageSection [OF _ fs(8)]
  have "typedFields ?fs (buildFinalConfig b ps ms st apis s pm)"
    unfolding buildFinalConfig_def Let_def
    by (intro rules typed_branch strs typed_serializeProviders typed_registeredResources typed_buildServerSection shape_simps
        typedFields_empty)
  moreover have "mget (buildFinalConfig b ps ms st apis s pm) ''registered_resources'' \<noteq> None"
    by (simp add: doc_simps split: option.split)
  ultimately show ?thesis
    by (simp add: configDocument_def mget_final_server mget_final_version)
qed

lemma final_registered_resources:
  "mget (buildFinalConfig b ps ms st apis s pm) ''registered_resources'' =
     Some (registeredResourcesTree (buildRegisteredResources b ms))"
  by (simp add: doc_simps split: option.split)



end
