(* ===== verification/Kube_Client.thy ===== *)
theory Kube_Client
  imports Api_Server
begin

text \<open>
  The Kubernetes objects the reconciler reads and writes, and the interface it uses to do so.  The
  API server and the client libraries are not part of the repository: they are the fields of the
  record \<open>Kube\<close>, functions on an arbitrary state \<open>'w\<close> of the cluster.  A read returns an object or
  an error; a write returns its outcome and the next state, which may also hold what other clients
  did in the meantime.  Error values are their text, tagged with what the code asks of them
  (\<open>IsNotFound\<close>, \<open>IsAlreadyExists\<close>).
\<close>

datatype api_error = NotFound string | AlreadyExists string | OtherAPIError string

fun apiText :: "api_error \<Rightarrow> string" where
  "apiText (NotFound t) = t"
| "apiText (AlreadyExists t) = t"
| "apiText (OtherAPIError t) = t"

record Secret =
  sec_Labels :: "string gomap"
  sec_Data :: "string gomap"

record ConfigMap =
  cm_Labels :: "string gomap"
  cm_Data :: "string gomap"
  cm_BinaryData :: "string gomap"

record ContainerPort =
  cp_Name :: string
  cp_ContainerPort :: int

record Probe =
  pr_Path :: string
  pr_Port :: int
  pr_InitialDelaySeconds :: int
  pr_TimeoutSeconds :: int
  pr_FailureThreshold :: int
  pr_SuccessThreshold :: int

record SecurityContext =
  sc_RunAsNonRoot :: "bool option"
  sc_AllowPrivilegeEscalation :: "bool option"
  sc_SeccompProfile :: "string option"
  sc_CapabilitiesDrop :: "string list"

record PodSecurityContext =
  psc_RunAsNonRoot :: "bool option"
  psc_SeccompProfile :: "string option"

record Affinity =
  aff_PodAntiAffinity :: "yaml option"

record Container =
  ctr_Name :: string
  ctr_Image :: string
  ctr_ImagePullPolicy :: string
  ctr_Command :: "string list"
  ctr_Args :: "string list"
  ctr_Env :: "EnvVar list"
  ctr_VolumeMounts :: "yaml list"
  ctr_Resources :: ResourceRequirements
  ctr_Ports :: "ContainerPort list"
  ctr_StartupProbe :: "Probe option"
  ctr_SecurityContext :: "SecurityContext option"

record PodSpec =
  pod_RestartPolicy :: string
  pod_Containers :: "Container list"
  pod_Volumes :: "Volume list"
  pod_SecurityContext :: "PodSecurityContext option"
  pod_ServiceAccountName :: string
  pod_TopologySpreadConstraints :: "yaml list"
  pod_Affinity :: "Affinity option"
  pod_ResourceClaims :: "yaml list"

record JobSpec =
  jsp_BackoffLimit :: "int option"
  jsp_Completions :: "int option"
  jsp_Parallelism :: "int option"
  jsp_ActiveDeadlineSeconds :: "int option"
  jsp_TemplateLabels :: "string gomap"
  jsp_TemplateSpec :: PodSpec

record JobCondition =
  jc_Type :: string
  jc_Status :: ConditionStatus
  jc_Reason :: string
  jc_Message :: string

record JobStatus =
  jst_Conditions :: "JobCondition list"
  jst_Active :: int

record Job =
  job_ObjectMeta :: ObjectMeta
  job_Spec :: JobSpec
  job_Status :: JobStatus

definition JobComplete :: string where
  "JobComplete = ''Complete''"

definition JobFailed :: string where
  "JobFailed = ''Failed''"

record PodCondition =
  pc_Type :: string
  pc_Status :: ConditionStatus

record Pod =
  p_DeletionTimestamp :: "int option"
  p_Phase :: string
  p_Conditions :: "PodCondition list"

text \<open>
  \<open>kb_SetControllerReference\<close> and \<open>kb_IsControlledBy\<close> see the owner as a \<open>metav1.Object\<close>, its metadata.
  \<open>kb_ReadJob\<close> is \<open>APIReader.Get\<close> (\<open>None\<close> when the reconciler has no uncached reader);
  \<open>kb_ListPods\<close> lists the pods of a namespace that match a selector, after
  \<open>LabelSelectorAsSelector\<close> accepted it (\<open>kb_ParseSelector\<close> returns its error).
\<close>

record 'w Kube =
  kb_GetSecret :: "'w \<Rightarrow> string \<Rightarrow> string \<Rightarrow> api_error + Secret"
  kb_GetConfigMap :: "'w \<Rightarrow> string \<Rightarrow> string \<Rightarrow> api_error + ConfigMap"
  kb_GetJob :: "'w \<Rightarrow> string \<Rightarrow> string \<Rightarrow> api_error + Job"
  kb_ReadJob :: "('w \<Rightarrow> string \<Rightarrow> string \<Rightarrow> api_error + Job) option"
  kb_DeleteJob :: "'w \<Rightarrow> Job \<Rightarrow> api_error option \<times> 'w"
  kb_CreateJob :: "'w \<Rightarrow> Job \<Rightarrow> (api_error + Job) \<times> 'w"
  kb_SetControllerReference :: "ObjectMeta \<Rightarrow> Job \<Rightarrow> string + Job"
  kb_IsControlledBy :: "Job \<Rightarrow> ObjectMeta \<Rightarrow> bool"
  kb_ParseSelector :: "LabelSelector \<Rightarrow> string option"
  kb_ListPods :: "'w \<Rightarrow> string \<Rightarrow> LabelSelector \<Rightarrow> api_error + Pod list"
  kb_IsPrint :: "nat \<Rightarrow> bool"

text \<open>The fields of \<open>OGXServerReconciler\<close> that are its own.\<close>

record 'w OGXServerReconciler =
  rc_Kube :: "'w Kube"
  rc_HasRecorder :: bool
  rc_DistributionImages :: "string gomap"
  rc_ImageMappingOverrides :: "string gomap"

text \<open>What a reconciliation pass works on: the instance with its status, the cluster, the events.\<close>

record Event =
  ev_Type :: string
  ev_Reason :: string
  ev_Message :: string

record 'w Pass =
  ps_Instance :: OGXServer
  ps_World :: 'w
  ps_Events :: "Event list"

definition withStatus :: "(OGXServerStatus \<Rightarrow> OGXServerStatus) \<Rightarrow> 'w Pass \<Rightarrow> 'w Pass" where
  "withStatus f p = p\<lparr>ps_Instance := (ps_Instance p)\<lparr>srv_Status := f (srv_Status (ps_Instance p))\<rparr>\<rparr>"

definition statusOf :: "'w Pass \<Rightarrow> OGXServerStatus" where
  "statusOf p = srv_Status (ps_Instance p)"

lemma withStatus_simps [simp]:
  "statusOf (withStatus f p) = f (statusOf p)"
  "ps_World (withStatus f p) = ps_World p"
  "ps_Events (withStatus f p) = ps_Events p"
  "srv_Spec (ps_Instance (withStatus f p)) = srv_Spec (ps_Instance p)"
  "srv_ObjectMeta (ps_Instance (withStatus f p)) = srv_ObjectMeta (ps_Instance p)"
  by (simp_all add: withStatus_def statusOf_def)

section \<open>Shared helpers of the controllers package\<close>

definition ogxConfigPath :: string where
  "ogxConfigPath = ''/etc/ogx/config.yaml''"

definition WatchLabelKey :: string where
  "WatchLabelKey = ''ogx.io/watch''"

definition WatchLabelValue :: string where
  "WatchLabelValue = ''true''"

record runtimeConfigRef =
  rcr_ConfigMapName :: string
  rcr_ConfigMapKey :: string
  rcr_Generated :: bool

definition resolveRuntimeConfigRef :: "OGXServer \<Rightarrow> string \<Rightarrow> runtimeConfigRef option" where
  "resolveRuntimeConfigRef inst pending =
     (case spec_OverrideConfig (srv_Spec inst) of
        Some c \<Rightarrow>
          if cmkr_Name c \<noteq> [] \<and> cmkr_Key c \<noteq> []
          then Some \<lparr>rcr_ConfigMapName = cmkr_Name c, rcr_ConfigMapKey = cmkr_Key c, rcr_Generated = False\<rparr>
          else if pending \<noteq> []
          then Some \<lparr>rcr_ConfigMapName = pending, rcr_ConfigMapKey = ''config.yaml'', rcr_Generated = True\<rparr>
          else None
      | None \<Rightarrow>
          if pending \<noteq> []
          then Some \<lparr>rcr_ConfigMapName = pending, rcr_ConfigMapKey = ''config.yaml'', rcr_Generated = True\<rparr>
          else None)"

definition getManagedCABundleConfigMapName :: "OGXServer \<Rightarrow> string" where
  "getManagedCABundleConfigMapName inst = meta_Name (srv_ObjectMeta inst) @ ''-ca-bundle''"

definition odhTrustedCABundleConfigMap :: string where
  "odhTrustedCABundleConfigMap = ''odh-trusted-ca-bundle''"

text \<open>The detected ConfigMap and its keys; \<open>Inr None\<close> when there is none.\<close>

definition detectODHTrustedCABundle ::
    "'w OGXServerReconciler \<Rightarrow> 'w \<Rightarrow> OGXServer \<Rightarrow> string + (ConfigMap \<times> string list) option" where
  "detectODHTrustedCABundle r w inst =
     (case kb_GetConfigMap (rc_Kube r) w (meta_Namespace (srv_ObjectMeta inst)) odhTrustedCABundleConfigMap of
        Inl (NotFound _) \<Rightarrow> Inr None
      | Inl e \<Rightarrow> Inl (''failed to check for ODH trusted CA bundle ConfigMap ''
                     @ meta_Namespace (srv_ObjectMeta inst) @ ''/'' @ odhTrustedCABundleConfigMap
                     @ '': '' @ apiText e)
      | Inr cm \<Rightarrow> Inr (Some (cm, mkeys (cm_Data cm))))"

definition hasAnyCABundle :: "'w OGXServerReconciler \<Rightarrow> 'w \<Rightarrow> OGXServer \<Rightarrow> bool" where
  "hasAnyCABundle r w inst =
     ((case spec_TLS (srv_Spec inst) of None \<Rightarrow> False
       | Some t \<Rightarrow> (case tlscl_Trust t of None \<Rightarrow> False | Some tr \<Rightarrow> trust_CACertificates tr \<noteq> []))
      \<or> (case detectODHTrustedCABundle r w inst of
           Inr (Some (_, keys)) \<Rightarrow> keys \<noteq> [] | _ \<Rightarrow> False))"

definition resolveImage :: "'w OGXServerReconciler \<Rightarrow> DistributionSpec \<Rightarrow> string + string" where
  "resolveImage r d =
     (if dist_Name d \<noteq> [] then
        (case mget (rc_DistributionImages r) (dist_Name d) of
           None \<Rightarrow> Inl (''failed to validate distribution name: '' @ dist_Name d)
         | Some img \<Rightarrow>
             (case mget (rc_ImageMappingOverrides r) (dist_Name d) of
                Some o' \<Rightarrow> Inr o' | None \<Rightarrow> Inr img))
      else if dist_Image d \<noteq> [] then Inr (dist_Image d)
      else Inl ''failed to validate distribution: either distribution.name or distribution.image must be set'')"

definition emptyVolume :: "string \<Rightarrow> Volume" where
  "emptyVolume n =
     \<lparr>vol_Name = n, vol_ConfigMap = None, vol_Secret = None, vol_EmptyDir = None,
      vol_PersistentVolumeClaim = None, vol_Projected = None, vol_DownwardAPI = None,
      vol_OtherSources = []\<rparr>"

text \<open>A volume projecting one key of a ConfigMap to one path, in JSON form.\<close>

definition configMapKeyVolume :: "string \<Rightarrow> string \<Rightarrow> string \<Rightarrow> string \<Rightarrow> Volume" where
  "configMapKeyVolume volName cm key path =
     (emptyVolume volName)\<lparr>vol_ConfigMap := Some (YMap (mlit
        [(''name'', YStr cm),
         (''items'', YList [YMap (mlit [(''key'', YStr key), (''path'', YStr path)])])]))\<rparr>"

definition readOnlyMount :: "string \<Rightarrow> string \<Rightarrow> yaml" where
  "readOnlyMount volName path =
     YMap (mlit [(''name'', YStr volName), (''mountPath'', YStr path), (''readOnly'', YBool True)])"

definition CABundleVolumeName :: string where
  "CABundleVolumeName = ''ca-bundle''"

definition ManagedCABundleMountPath :: string where
  "ManagedCABundleMountPath = ''/etc/ssl/certs/ca-bundle''"

definition ManagedCABundleFilePath :: string where
  "ManagedCABundleFilePath = ''/etc/ssl/certs/ca-bundle/ca-bundle.crt''"

definition ManagedCABundleKey :: string where
  "ManagedCABundleKey = ''ca-bundle.crt''"

definition createCABundleVolume :: "string \<Rightarrow> Volume" where
  "createCABundleVolume cm = configMapKeyVolume CABundleVolumeName cm ManagedCABundleKey ManagedCABundleKey"

definition overridesOf :: "OGXServer \<Rightarrow> WorkloadOverrides option" where
  "overridesOf inst =
     (case spec_Workload (srv_Spec inst) of None \<Rightarrow> None | Some wl \<Rightarrow> wl_Overrides wl)"

definition configurePodOverrides :: "OGXServer \<Rightarrow> PodSpec \<Rightarrow> PodSpec" where
  "configurePodOverrides inst ps =
     (let ps1 = ps\<lparr>pod_ServiceAccountName :=
           (case overridesOf inst of
              Some ov \<Rightarrow> if wo_ServiceAccountName ov \<noteq> [] then wo_ServiceAccountName ov
                        else meta_Name (srv_ObjectMeta inst) @ ''-sa''
            | None \<Rightarrow> meta_Name (srv_ObjectMeta inst) @ ''-sa'')\<rparr>
      in case overridesOf inst of
           None \<Rightarrow> ps1
         | Some ov \<Rightarrow>
             ps1\<lparr>pod_Volumes := pod_Volumes ps1 @ wo_Volumes ov,
                 pod_Containers :=
                   (case pod_Containers ps1 of [] \<Rightarrow> []
                    | c # cs \<Rightarrow> c\<lparr>ctr_VolumeMounts := ctr_VolumeMounts c @ wo_VolumeMounts ov\<rparr> # cs)\<rparr>)"

end
