(* ===== verification/Kustomize_Lib.thy ===== *)
theory Kustomize_Lib
  imports Kube_Client
begin

text \<open>
  What the manifest plugins use of third-party code: the resources of the kustomize library (an
  arbitrary type \<open>'r\<close>), their YAML codec on texts (\<open>'t\<close>), the DNS label check of the Kubernetes libraries and JSON
  pointers.  The laws the rendering theorems rest on are named predicates; RFC 6901 is given as a
  reference semantics of pointers on \<open>yaml\<close> trees, which the pointer library is documented to
  implement.
\<close>

section \<open>The interface\<close>

record ('r, 't) Kustomize =
  kz_Kind :: "'r \<Rightarrow> string"
  kz_Name :: "'r \<Rightarrow> string"
  kz_AsYAML :: "'r \<Rightarrow> string + 't"
  kz_Unmarshal :: "'t \<Rightarrow> string + ymap"
  kz_Update :: "'r \<Rightarrow> yaml \<Rightarrow> string + 'r"
  kz_SetName :: "'r \<Rightarrow> string \<Rightarrow> string + 'r"
  kz_SetNamespace :: "'r \<Rightarrow> string \<Rightarrow> string + 'r"
  kz_ClusterScoped :: "'r \<Rightarrow> bool"
  kz_DNS1123Errors :: "string \<Rightarrow> string list"
  kz_PtrSet :: "string \<Rightarrow> yaml \<Rightarrow> yaml \<Rightarrow> string + yaml"
  kz_PtrGet :: "string \<Rightarrow> yaml \<Rightarrow> string + yaml"
  kz_PtrTokens :: "string \<Rightarrow> string + string list"
  kz_IsPrint :: "nat \<Rightarrow> bool"

text \<open>
  \<open>res.AsYAML\<close> followed by \<open>yaml.Unmarshal\<close>, with the two error prefixes of the call site.
  \<open>kz_Update\<close> is \<open>FromBytes\<close> on the marshalled data and \<open>ResetRNode\<close>; marshalling a decoded tree does
  not fail.
\<close>

definition parseData :: "('r, 't) Kustomize \<Rightarrow> string \<Rightarrow> string \<Rightarrow> 'r \<Rightarrow> string + ymap" where
  "parseData kz getErr decodeErr res =
     (case kz_AsYAML kz res of
        Inl e \<Rightarrow> Inl (getErr @ e)
      | Inr text \<Rightarrow>
          (case kz_Unmarshal kz text of
             Inl e \<Rightarrow> Inl (decodeErr @ e)
           | Inr data \<Rightarrow> Inr data))"

definition updateResource :: "('r, 't) Kustomize \<Rightarrow> 'r \<Rightarrow> yaml \<Rightarrow> string + 'r" where
  "updateResource kz res data = mapErr (\<lambda>e. ''failed to create resource from updated YAML: '' @ e) (kz_Update kz res data)"

definition content :: "('r, 't) Kustomize \<Rightarrow> 'r \<Rightarrow> ymap option" where
  "content kz res = (case parseData kz [] [] res of Inl _ \<Rightarrow> None | Inr d \<Rightarrow> Some d)"

lemma parseData_Inr [simp]: "parseData kz a b r = Inr d \<longleftrightarrow> content kz r = Some d"
  by (auto simp: parseData_def content_def split: sum.splits)

lemma parseData_Inl: "parseData kz a b r = Inl e \<Longrightarrow> content kz r = None"
  by (auto simp: parseData_def content_def split: sum.splits)

lemma updateResource_Inr [simp]: "updateResource kz r y = Inr r' \<longleftrightarrow> kz_Update kz r y = Inr r'"
  by (simp add: updateResource_def)

definition textAt :: "ymap \<Rightarrow> string \<Rightarrow> string" where
  "textAt d k = (case asStr (mfield d k) of Some s \<Rightarrow> s | None \<Rightarrow> [])"

definition nameOfData :: "ymap \<Rightarrow> string" where
  "nameOfData d = (case asMap (mfield d ''metadata'') of Some m \<Rightarrow> textAt m ''name'' | None \<Rightarrow> [])"

text \<open>A resource that was replaced by new content has that content.\<close>

definition updatesData :: "('r, 't) Kustomize \<Rightarrow> bool" where
  "updatesData kz \<longleftrightarrow>
     (\<forall>r y r'. kz_Update kz r y = Inr r' \<longrightarrow> (\<exists>d. y = YMap d \<and> content kz r' = Some d))"

text \<open>
  The library reads kind and name of a resource from its content, and its setters change the name
  or the namespace of a resource and keep its kind.
\<close>

definition readsContent :: "('r, 't) Kustomize \<Rightarrow> bool" where
  "readsContent kz \<longleftrightarrow>
     (\<forall>r d. content kz r = Some d \<longrightarrow> kz_Kind kz r = textAt d ''kind'' \<and> kz_Name kz r = nameOfData d)
   \<and> (\<forall>r n r'. kz_SetName kz r n = Inr r' \<longrightarrow> kz_Kind kz r' = kz_Kind kz r \<and> kz_Name kz r' = n)
   \<and> (\<forall>r n r'. kz_SetNamespace kz r n = Inr r' \<longrightarrow> kz_Kind kz r' = kz_Kind kz r \<and> kz_Name kz r' = kz_Name kz r)"

lemma updatesDataD: "updatesData kz \<Longrightarrow> kz_Update kz r y = Inr r' \<Longrightarrow> \<exists>d. y = YMap d \<and> content kz r' = Some d"
  by (simp add: updatesData_def)

lemma updatesData_YMap: "updatesData kz \<Longrightarrow> kz_Update kz r (YMap d) = Inr r' \<Longrightarrow> content kz r' = Some d"
  by (auto simp: updatesData_def)

section \<open>JSON pointers\<close>

definition ptrIndex :: "string \<Rightarrow> 'a list \<Rightarrow> nat option" where
  "ptrIndex t l = (if t \<noteq> [] \<and> list_all isDigit t \<and> readNat t < length l then Some (readNat t) else None)"

fun ptrGet :: "string list \<Rightarrow> yaml \<Rightarrow> yaml option" where
  "ptrGet [] y = Some y"
| "ptrGet (t # ts) y =
     (case y of
        YMap m \<Rightarrow> (case mget m t of None \<Rightarrow> None | Some c \<Rightarrow> ptrGet ts c)
      | YList l \<Rightarrow> (case ptrIndex t l of None \<Rightarrow> None | Some i \<Rightarrow> ptrGet ts (l ! i))
      | _ \<Rightarrow> None)"

fun ptrSet :: "string list \<Rightarrow> yaml \<Rightarrow> yaml \<Rightarrow> yaml option" where
  "ptrSet [] v y = Some v"
| "ptrSet (t # ts) v y =
     (case y of
        YMap m \<Rightarrow>
          (case (if ts = [] then Some YNull else mget m t) of
             None \<Rightarrow> None
           | Some c \<Rightarrow> map_option (\<lambda>c'. YMap (mput t c' m)) (ptrSet ts v c))
      | YList l \<Rightarrow>
          (case ptrIndex t l of None \<Rightarrow> None
           | Some i \<Rightarrow> map_option (\<lambda>c'. YList (l[i := c'])) (ptrSet ts v (l ! i)))
      | _ \<Rightarrow> None)"

definition escapeToken :: "string \<Rightarrow> string" where
  "escapeToken t = concat (map (\<lambda>c. if c = CHR ''~'' then ''~0'' else if c = CHR ''/'' then ''~1'' else [c]) t)"

definition ptrText :: "string list \<Rightarrow> string" where
  "ptrText ts = concat (map (\<lambda>t. ''/'' @ escapeToken t) ts)"

text \<open>The tokens the operator uses: a field name or the first element of a list.\<close>

definition tokenOK :: "string \<Rightarrow> bool" where
  "tokenOK t \<longleftrightarrow> t = ''0'' \<or> (t \<noteq> [] \<and> (isAsciiLower (hd t) \<or> isAsciiUpper (hd t)))"

text \<open>The pointer library parses such a pointer into its tokens, and reads and sets as RFC 6901 says.\<close>

definition rfc6901 :: "('r, 't) Kustomize \<Rightarrow> bool" where
  "rfc6901 kz \<longleftrightarrow>
     (\<forall>ts. ts \<noteq> [] \<longrightarrow> list_all tokenOK ts \<longrightarrow>
        kz_PtrTokens kz (ptrText ts) = Inr ts
        \<and> (\<forall>y v y'. (kz_PtrSet kz (ptrText ts) y v = Inr y') = (ptrSet ts v y = Some y'))
        \<and> (\<forall>y v. (kz_PtrGet kz (ptrText ts) y = Inr v) = (ptrGet ts y = Some v)))"

lemma ptrGet_ptrSet: "ptrSet ts v y = Some y' \<Longrightarrow> ptrGet ts y' = Some v"
proof (induction ts v y arbitrary: y' rule: ptrSet.induct)
  case (2 t ts v y)
  then show ?case
    by (auto simp: ptrIndex_def split: yaml.splits option.splits if_splits)
qed simp

definition comparable :: "string list \<Rightarrow> string list \<Rightarrow> bool" where
  "comparable a b \<longleftrightarrow> take (length b) a = b \<or> take (length a) b = a"

lemma comparable_Cons [simp]:
  "comparable [] b" "comparable a []" "comparable (x # a) (y # b) \<longleftrightarrow> x = y \<and> comparable a b"
  by (auto simp: comparable_def)

lemma readNat_ptrIndex_inj:
  "ptrIndex t l = Some i \<Longrightarrow> ptrIndex t (l[i := c]) = Some i"
  by (auto simp: ptrIndex_def split: if_splits)

lemma letter_no_digit: "isAsciiLower c \<or> isAsciiUpper c \<Longrightarrow> \<not> isDigit c"
proof
  assume "isAsciiLower c \<or> isAsciiUpper c" "isDigit c"
  then have "CHR ''A'' \<le> c \<or> CHR ''a'' \<le> c" "c \<le> CHR ''9''"
    by (auto simp: isAsciiLower_def isAsciiUpper_def isDigit_def)
  then show False using order_trans [of "CHR ''A''" c "CHR ''9''"] order_trans [of "CHR ''a''" c "CHR ''9''"]
    by auto
qed

lemma tokenOK_digits: "list_all isDigit t \<Longrightarrow> tokenOK t \<Longrightarrow> t \<noteq> [] \<Longrightarrow> t = ''0''"
  using letter_no_digit by (cases t) (auto simp: tokenOK_def)

text \<open>
  Setting one pointer keeps what another finds.  Two different numerals may name the same element
  of a list, so the other pointer may not walk through a list by a different token.
\<close>

lemma ptrGet_frame:
  assumes "ptrSet ts v y = Some y'" "\<not> comparable ts us" "list_all tokenOK ts" "list_all tokenOK us"
  shows "ptrGet us y' = ptrGet us y"
  using assms
proof (induction ts v y arbitrary: y' us rule: ptrSet.induct)
  case (2 t ts v y)
  then obtain u us' where u: "us = u # us'" by (cases us) auto
  note digits = tokenOK_digits
  show ?case
  proof (cases y)
    case (YList l)
    then obtain i c' where i: "ptrIndex t l = Some i" "ptrSet ts v (l ! i) = Some c'" "y' = YList (l[i := c'])"
      using 2(3) by (auto split: option.splits)
    then have t0: "t = ''0''" "i < length l" using digits 2(5) by (auto simp: ptrIndex_def split: if_splits)
    show ?thesis
    proof (cases "u = t")
      case True
      then show ?thesis using 2(1) [OF YList i(1,2)] 2(4,5,6) u YList i t0 readNat_ptrIndex_inj [OF i(1)] by simp
    next
      case False
      then have "ptrIndex u l = None" "ptrIndex u (l[i := c']) = None"
        using digits 2(6) u t0 by (auto simp: ptrIndex_def)
      then show ?thesis using u YList i by simp
    qed
  next
    case (YMap m)
    show ?thesis
    proof (cases "u = t")
      case True
      then show ?thesis using 2(2-6) u YMap by (cases "ts = []") (auto split: option.splits)
    next
      case False
      then show ?thesis using 2(3) u YMap by (auto split: option.splits)
    qed
  qed (use 2(3) in auto)
qed simp

lemma ptrGet_append: "ptrGet (a @ b) y = (case ptrGet a y of None \<Rightarrow> None | Some c \<Rightarrow> ptrGet b c)"
  by (induction a y rule: ptrGet.induct) (auto split: yaml.splits option.splits)

text \<open>Parsing a pointer, the inverse of \<open>ptrText\<close>.\<close>

fun unescapeToken :: "string \<Rightarrow> string" where
  "unescapeToken [] = []"
| "unescapeToken [c] = [c]"
| "unescapeToken (c # d # cs) =
     (if c = CHR ''~'' \<and> d = CHR ''1'' then CHR ''/'' # unescapeToken cs
      else if c = CHR ''~'' \<and> d = CHR ''0'' then CHR ''~'' # unescapeToken cs
      else c # unescapeToken (d # cs))"

function parsePtr :: "string \<Rightarrow> string list" where
  "parsePtr p =
     (case p of [] \<Rightarrow> []
      | _ # cs \<Rightarrow> unescapeToken (takeWhile (\<lambda>c. c \<noteq> CHR ''/'') cs) # parsePtr (dropWhile (\<lambda>c. c \<noteq> CHR ''/'') cs))"
  by pat_completeness auto
termination by (relation "measure length") (auto simp: le_imp_less_Suc length_dropWhile_le)

declare parsePtr.simps [simp del]

lemma escapeToken_Cons: "escapeToken (c # t) =
    (if c = CHR ''~'' then ''~0'' else if c = CHR ''/'' then ''~1'' else [c]) @ escapeToken t"
  by (simp add: escapeToken_def)

lemma escapeToken_no_slash: "CHR ''/'' \<notin> set (escapeToken t)"
  by (induction t) (auto simp: escapeToken_def)

lemma unescape_plain: "c \<noteq> CHR ''~'' \<Longrightarrow> unescapeToken (c # cs) = c # unescapeToken cs"
  by (cases cs) auto

lemma unescape_escape: "unescapeToken (escapeToken t) = t"
  by (induction t) (auto simp: escapeToken_Cons unescape_plain, simp_all add: escapeToken_def)

lemma parsePtr_ptrText: "parsePtr (ptrText ts) = ts"
proof (induction ts)
  case (Cons t ts)
  have tw: "takeWhile P (a @ b) = a" "dropWhile P (a @ b) = b"
    if "\<forall>c\<in>set a. P c" "b = [] \<or> \<not> P (hd b)" for P and a b :: string
    using that by (auto simp: takeWhile_append dropWhile_append takeWhile_eq_Nil_iff dropWhile_eq_self_iff)
  have "\<forall>c\<in>set (escapeToken t). c \<noteq> CHR ''/''" using escapeToken_no_slash by auto
  moreover have "ptrText ts = [] \<or> \<not> hd (ptrText ts) \<noteq> CHR ''/''"
    by (cases ts) (auto simp: ptrText_def)
  ultimately show ?case
    using Cons tw [of "escapeToken t" "\<lambda>c. c \<noteq> CHR ''/''" "ptrText ts"]
    by (subst parsePtr.simps) (simp add: ptrText_def unescape_escape)
qed (simp add: ptrText_def parsePtr.simps)

end
