(* ===== verification/Network_Policy.thy ===== *)
theory Network_Policy
  imports Kustomize_Lib
begin

text \<open>
  The NetworkPolicy of an instance: the transformer of \<open>pkg/deploy/plugins/networkpolicy_transformer.go\<close>,
  the port helpers of \<open>pkg/deploy/utils.go\<close> and the Praxis peer of the controller.  JSON conversion of the typed rules cannot
  fail and is the identity on their JSON values.
\<close>

section \<open>Ports\<close>

definition GetServicePort :: "OGXServer \<Rightarrow> int" where
  "GetServicePort inst =
     (case spec_Network (srv_Spec inst) of
        Some n \<Rightarrow> if net_Port n \<noteq> 0 then net_Port n else DefaultServerPort
      | None \<Rightarrow> DefaultServerPort)"

definition GetServiceName :: "OGXServer \<Rightarrow> string" where
  "GetServiceName inst = meta_Name (srv_ObjectMeta inst) @ ''-service''"

definition defaultMetricsPort :: int where
  "defaultMetricsPort = 9464"

definition getEffectiveMetricsPort :: "OGXServer \<Rightarrow> int" where
  "getEffectiveMetricsPort inst =
     (case spec_Monitoring (srv_Spec inst) of
        None \<Rightarrow> defaultMetricsPort
      | Some m \<Rightarrow>
          if mon_Enabled m = Some False then 0
          else (case mon_MetricsPort m of Some p \<Rightarrow> p | None \<Rightarrow> defaultMetricsPort))"

definition GetEffectiveReplicas :: "OGXServer \<Rightarrow> int" where
  "GetEffectiveReplicas inst =
     (case spec_Workload (srv_Spec inst) of
        None \<Rightarrow> 1
      | Some wl \<Rightarrow> (case wl_Replicas wl of Some n \<Rightarrow> n | None \<Rightarrow> 1))"

section \<open>The Praxis peer\<close>

definition defaultPraxisPeer :: NetworkPolicyPeer where
  "defaultPraxisPeer =
     \<lparr>peer_PodSelector = Some \<lparr>ls_MatchLabels = [(DefaultPraxisPodLabelKey, DefaultPraxisPodLabelValue)],
                             ls_MatchExpressions = []\<rparr>,
      peer_NamespaceSelector = Some \<lparr>ls_MatchLabels = [(DefaultNamespaceNameLabel, DefaultPraxisNamespace)],
                             ls_MatchExpressions = []\<rparr>,
      peer_IPBlock = None\<rparr>"

definition BuildPraxisPeer :: "OGXServer \<Rightarrow> NetworkPolicyPeer" where
  "BuildPraxisPeer inst =
     (case spec_PraxisMode (srv_Spec inst) of
        None \<Rightarrow> defaultPraxisPeer
      | Some pm \<Rightarrow>
          (case pm_PraxisSelector pm of
             None \<Rightarrow> defaultPraxisPeer
           | Some sel \<Rightarrow>
               \<lparr>peer_PodSelector = Some (psel_PodSelector sel),
                peer_NamespaceSelector =
                  Some \<lparr>ls_MatchLabels = [(DefaultNamespaceNameLabel, psel_Namespace sel)], ls_MatchExpressions = []\<rparr>,
                peer_IPBlock = None\<rparr>))"

section \<open>The transformer\<close>

record NetworkPolicyTransformerConfig =
  npc_InstanceName :: string
  npc_ServicePort :: int
  npc_OperatorNamespace :: string
  npc_NetworkSpec :: "NetworkSpec option"
  npc_MetricsPort :: int
  npc_PraxisPeer :: "NetworkPolicyPeer option"
  npc_PraxisMode :: bool

definition praxisPeerMap :: "NetworkPolicyTransformerConfig \<Rightarrow> ymap" where
  "praxisPeerMap c =
     jsonPeer (case npc_PraxisPeer c of Some p \<Rightarrow> p
       | None \<Rightarrow>
           \<lparr>peer_PodSelector = Some \<lparr>ls_MatchLabels = [(DefaultPraxisPodLabelKey, DefaultPraxisPodLabelValue)],
                                   ls_MatchExpressions = []\<rparr>,
            peer_NamespaceSelector = Some \<lparr>ls_MatchLabels = [(DefaultNamespaceNameLabel, DefaultPraxisNamespace)],
                                   ls_MatchExpressions = []\<rparr>,
            peer_IPBlock = None\<rparr>)"

definition namespaceLabelPeer :: "string \<Rightarrow> string \<Rightarrow> yaml" where
  "namespaceLabelPeer k v =
     YMap (mlit [(''namespaceSelector'', YMap (mlit [(''matchLabels'', YMap (mlit [(k, YStr v)]))]))])"

definition operatorNamespacePeer :: "NetworkPolicyTransformerConfig \<Rightarrow> yaml" where
  "operatorNamespacePeer c = namespaceLabelPeer ''kubernetes.io/metadata.name'' (npc_OperatorNamespace c)"

definition buildDefaultPeers :: "NetworkPolicyTransformerConfig \<Rightarrow> yaml list" where
  "buildDefaultPeers c = [YMap (mlit [(''podSelector'', YMap mempty)]), operatorNamespacePeer c]"

definition buildRouterPeers :: "NetworkPolicyTransformerConfig \<Rightarrow> yaml list" where
  "buildRouterPeers c =
     (if npc_NetworkSpec c = None then []
      else [namespaceLabelPeer ''network.openshift.io/policy-group'' ''ingress''])"

definition buildPeers :: "NetworkPolicyTransformerConfig \<Rightarrow> yaml list" where
  "buildPeers c =
     (if \<not> npc_PraxisMode c then buildDefaultPeers c @ buildRouterPeers c
      else [YMap (praxisPeerMap c), operatorNamespacePeer c])"

definition tcpPort :: "int \<Rightarrow> yaml" where
  "tcpPort n = YMap (mlit [(''protocol'', YStr ''TCP''), (''port'', YInt n)])"

definition ingressRule :: "yaml list \<Rightarrow> int \<Rightarrow> yaml" where
  "ingressRule peers n = YMap (mlit [(''from'', YList peers), (''ports'', YList [tcpPort n])])"

definition buildMonitoringIngressRules :: "NetworkPolicyTransformerConfig \<Rightarrow> yaml list" where
  "buildMonitoringIngressRules c =
     (if npc_MetricsPort c = 0 then []
      else [ingressRule [namespaceLabelPeer ''network.openshift.io/policy-group'' ''monitoring''] (npc_MetricsPort c)])"

definition buildIngressRules :: "NetworkPolicyTransformerConfig \<Rightarrow> yaml list" where
  "buildIngressRules c =
     ingressRule (buildPeers c) (npc_ServicePort c) # buildMonitoringIngressRules c"

definition networkPolicyRulesToAnySlice :: "NetworkPolicyIngressRule list \<Rightarrow> yaml list" where
  "networkPolicyRulesToAnySlice rules = rules"

definition networkPolicyEgressRulesToAnySlice :: "NetworkPolicyEgressRule list \<Rightarrow> yaml list" where
  "networkPolicyEgressRulesToAnySlice rules = rules"

definition userPolicy :: "NetworkPolicyTransformerConfig \<Rightarrow> NetworkPolicySpec option" where
  "userPolicy c = (case npc_NetworkSpec c of None \<Rightarrow> None | Some n \<Rightarrow> net_Policy n)"

definition applyPraxisNetworkPolicySpec :: "NetworkPolicyTransformerConfig \<Rightarrow> ymap \<Rightarrow> ymap" where
  "applyPraxisNetworkPolicySpec c spec =
     (let rules = buildIngressRules c @
            (case userPolicy c of None \<Rightarrow> []
             | Some p \<Rightarrow> if np_Ingress p \<noteq> [] then networkPolicyRulesToAnySlice (np_Ingress p) else []);
          spec1 = mput ''ingress'' (YList rules) spec
      in case userPolicy c of None \<Rightarrow> spec1
         | Some p \<Rightarrow>
             if np_Egress p \<noteq> []
             then mput ''policyTypes'' (YList [YStr ''Ingress'', YStr ''Egress''])
                    (mput ''egress'' (YList (networkPolicyEgressRulesToAnySlice (np_Egress p))) spec1)
             else spec1)"

definition applyLegacyNetworkPolicySpec :: "NetworkPolicyTransformerConfig \<Rightarrow> ymap \<Rightarrow> ymap" where
  "applyLegacyNetworkPolicySpec c spec =
     (case userPolicy c of
        Some p \<Rightarrow>
          if np_Ingress p \<noteq> [] then
            (let spec1 = mput ''ingress'' (YList (networkPolicyRulesToAnySlice (np_Ingress p))) spec
             in if np_Egress p \<noteq> []
                then mput ''policyTypes'' (YList [YStr ''Ingress'', YStr ''Egress''])
                       (mput ''egress'' (YList (networkPolicyEgressRulesToAnySlice (np_Egress p))) spec1)
                else mput ''policyTypes'' (YList [YStr ''Ingress'']) spec1)
          else mput ''ingress'' (YList (buildIngressRules c)) spec
      | None \<Rightarrow> mput ''ingress'' (YList (buildIngressRules c)) spec)"

definition applyNetworkPolicySpec :: "NetworkPolicyTransformerConfig \<Rightarrow> ymap \<Rightarrow> ymap" where
  "applyNetworkPolicySpec c spec =
     (if \<not> npc_PraxisMode c then applyLegacyNetworkPolicySpec c spec
      else applyPraxisNetworkPolicySpec c spec)"

definition updatePodSelector :: "NetworkPolicyTransformerConfig \<Rightarrow> ymap \<Rightarrow> ymap" where
  "updatePodSelector c spec =
     (let podSelector = (case asMap (mfield spec ''podSelector'') of Some m \<Rightarrow> m | None \<Rightarrow> mempty);
          matchLabels = (case asMap (mfield podSelector ''matchLabels'') of Some m \<Rightarrow> m | None \<Rightarrow> mempty);
          labels = mput ''app.kubernetes.io/instance'' (YStr (npc_InstanceName c))
                     (mput ''app'' (YStr ''ogx'') matchLabels)
      in mput ''podSelector'' (YMap (mput ''matchLabels'' (YMap labels) podSelector)) spec)"

definition transformNetworkPolicy ::
    "('r, 't) Kustomize \<Rightarrow> NetworkPolicyTransformerConfig \<Rightarrow> 'r \<Rightarrow> string + 'r" where
  "transformNetworkPolicy kz c res =
     (case parseData kz ''failed to get YAML: '' ''failed to unmarshal YAML: '' res of
        Inl e \<Rightarrow> Inl e
      | Inr data \<Rightarrow>
          (case asMap (mfield data ''spec'') of
             None \<Rightarrow> Inl ''failed to find spec in NetworkPolicy''
           | Some spec \<Rightarrow>
               updateResource kz res
                 (YMap (mput ''spec'' (YMap (applyNetworkPolicySpec c (updatePodSelector c spec))) data))))"

definition networkPolicyTransform ::
    "('r, 't) Kustomize \<Rightarrow> NetworkPolicyTransformerConfig \<Rightarrow> 'r list \<Rightarrow> string + 'r list" where
  "networkPolicyTransform kz c rs =
     traverse (map (\<lambda>res. if kz_Kind kz res \<noteq> ''NetworkPolicy'' then Inr res
        else (case transformNetworkPolicy kz c res of
                Inl e \<Rightarrow> Inl (''failed to transform NetworkPolicy: '' @ e)
              | Inr res' \<Rightarrow> Inr res')) rs)"

text \<open>\<open>applyNetworkPolicyTransformer\<close>; the operator namespace comes from the environment.\<close>

definition networkPolicyConfig ::
    "string + string \<Rightarrow> OGXServer \<Rightarrow> NetworkPolicyPeer option \<Rightarrow> bool \<Rightarrow> NetworkPolicyTransformerConfig" where
  "networkPolicyConfig operatorNS inst peer praxis =
     \<lparr>npc_InstanceName = meta_Name (srv_ObjectMeta inst), npc_ServicePort = GetServicePort inst,
      npc_OperatorNamespace = (case operatorNS of Inr ns \<Rightarrow> ns | Inl _ \<Rightarrow> ''ogx-k8s-operator-system''),
      npc_NetworkSpec = spec_Network (srv_Spec inst), npc_MetricsPort = getEffectiveMetricsPort inst,
      npc_PraxisPeer = peer, npc_PraxisMode = praxis\<rparr>"

definition applyNetworkPolicyTransformer ::
    "('r, 't) Kustomize \<Rightarrow> string + string \<Rightarrow> 'r list \<Rightarrow> OGXServer \<Rightarrow> NetworkPolicyPeer option \<Rightarrow> bool
       \<Rightarrow> string + 'r list" where
  "applyNetworkPolicyTransformer kz operatorNS rs inst peer praxis =
     networkPolicyTransform kz (networkPolicyConfig operatorNS inst peer praxis) rs"

section \<open>What a policy admits\<close>

text \<open>
  Reference semantics of a NetworkPolicy's ingress rules, as the Kubernetes API defines it: a rule
  admits a connection when one of its peers matches the source, or it names none, and one of its
  ports matches the destination, or it names none.  The matching of a single peer and port is the
  network plugin's, the arguments \<open>M\<close> and \<open>P\<close>.
\<close>

definition listField :: "yaml \<Rightarrow> string \<Rightarrow> yaml list" where
  "listField rule k =
     (case asMap rule of None \<Rightarrow> []
      | Some m \<Rightarrow> (case asList (mfield m k) of None \<Rightarrow> [] | Some l \<Rightarrow> l))"

definition ruleAdmits :: "(yaml \<Rightarrow> bool) \<Rightarrow> (yaml \<Rightarrow> bool) \<Rightarrow> yaml \<Rightarrow> bool" where
  "ruleAdmits M P rule =
     ((listField rule ''from'' = [] \<or> list_ex M (listField rule ''from''))
      \<and> (listField rule ''ports'' = [] \<or> list_ex P (listField rule ''ports'')))"

definition policyAdmits :: "(yaml \<Rightarrow> bool) \<Rightarrow> (yaml \<Rightarrow> bool) \<Rightarrow> ymap \<Rightarrow> bool" where
  "policyAdmits M P spec = list_ex (ruleAdmits M P) (listField (YMap spec) ''ingress'')"

lemma ruleAdmits_ingressRule:
  "peers \<noteq> [] \<Longrightarrow> ruleAdmits M P (ingressRule peers n) \<longleftrightarrow> list_ex M peers \<and> P (tcpPort n)"
  by (simp add: ruleAdmits_def ingressRule_def listField_def mlit_def)

lemma policyAdmits_ingress:
  "policyAdmits M P (mput ''ingress'' (YList rules) spec) = list_ex (ruleAdmits M P) rules"
  "k \<noteq> ''ingress'' \<Longrightarrow> policyAdmits M P (mput k v spec) = policyAdmits M P spec"
  by (simp_all add: policyAdmits_def listField_def)

lemma monitoring_admits:
  "list_ex (ruleAdmits M P) (buildMonitoringIngressRules c) \<longleftrightarrow>
     npc_MetricsPort c \<noteq> 0 \<and> M (namespaceLabelPeer ''network.openshift.io/policy-group'' ''monitoring'')
     \<and> P (tcpPort (npc_MetricsPort c))"
  by (simp add: buildMonitoringIngressRules_def ruleAdmits_ingressRule)

lemma ingressRules_admit:
  "list_ex (ruleAdmits M P) (buildIngressRules c) \<longleftrightarrow>
     (list_ex M (buildPeers c) \<and> P (tcpPort (npc_ServicePort c)))
     \<or> list_ex (ruleAdmits M P) (buildMonitoringIngressRules c)"
proof -
  have "buildPeers c \<noteq> []" by (simp add: buildPeers_def buildDefaultPeers_def)
  then show ?thesis by (simp add: buildIngressRules_def ruleAdmits_ingressRule)
qed

definition userRules :: "NetworkPolicyTransformerConfig \<Rightarrow> yaml list" where
  "userRules c = (case userPolicy c of None \<Rightarrow> [] | Some p \<Rightarrow> np_Ingress p)"

lemma policyAdmits_praxis:
  "policyAdmits M P (applyPraxisNetworkPolicySpec c spec) \<longleftrightarrow>
     list_ex (ruleAdmits M P) (buildIngressRules c) \<or> list_ex (ruleAdmits M P) (userRules c)"
  by (auto simp: applyPraxisNetworkPolicySpec_def Let_def userRules_def networkPolicyRulesToAnySlice_def
      policyAdmits_ingress list_ex_iff split: option.splits)

lemma policyAdmits_legacy:
  "policyAdmits M P (applyLegacyNetworkPolicySpec c spec) \<longleftrightarrow>
     (if userRules c = [] then list_ex (ruleAdmits M P) (buildIngressRules c)
      else list_ex (ruleAdmits M P) (userRules c))"
  by (auto simp: applyLegacyNetworkPolicySpec_def Let_def userRules_def networkPolicyRulesToAnySlice_def
      policyAdmits_ingress split: option.splits)

lemma applyNetworkPolicySpec_frame:
  "k \<notin> {''ingress'', ''egress'', ''policyTypes''} \<Longrightarrow> mget (applyNetworkPolicySpec c spec) k = mget spec k"
  by (auto simp: applyNetworkPolicySpec_def applyLegacyNetworkPolicySpec_def applyPraxisNetworkPolicySpec_def Let_def
      split: option.splits)

definition praxisAdmission ::
    "NetworkPolicyTransformerConfig \<Rightarrow> (yaml \<Rightarrow> bool) \<Rightarrow> (yaml \<Rightarrow> bool) \<Rightarrow> bool" where
  "praxisAdmission c M P \<longleftrightarrow>
      ((M (YMap (praxisPeerMap c)) \<or> M (operatorNamespacePeer c)) \<and> P (tcpPort (npc_ServicePort c)))
      \<or> (npc_MetricsPort c \<noteq> 0 \<and> M (namespaceLabelPeer ''network.openshift.io/policy-group'' ''monitoring'')
         \<and> P (tcpPort (npc_MetricsPort c)))
      \<or> list_ex (ruleAdmits M P) (userRules c)"

lemma praxis_spec:
  assumes "npc_PraxisMode c"
  shows "policyAdmits M P (applyNetworkPolicySpec c (updatePodSelector c spec)) = praxisAdmission c M P"
    "\<exists>sel labels. mget (applyNetworkPolicySpec c (updatePodSelector c spec)) ''podSelector'' = Some (YMap sel)
        \<and> mget sel ''matchLabels'' = Some (YMap labels) \<and> mget labels ''app'' = Some (YStr ''ogx'')
        \<and> mget labels ''app.kubernetes.io/instance'' = Some (YStr (npc_InstanceName c))"
proof -
  show "policyAdmits M P (applyNetworkPolicySpec c (updatePodSelector c spec)) = praxisAdmission c M P"
    using assms by (auto simp: applyNetworkPolicySpec_def policyAdmits_praxis ingressRules_admit buildPeers_def
        monitoring_admits praxisAdmission_def)
  have "mget (applyNetworkPolicySpec c (updatePodSelector c spec)) ''podSelector''
      = mget (updatePodSelector c spec) ''podSelector''"
    by (rule applyNetworkPolicySpec_frame) simp
  then show "\<exists>sel labels. mget (applyNetworkPolicySpec c (updatePodSelector c spec)) ''podSelector'' = Some (YMap sel)
        \<and> mget sel ''matchLabels'' = Some (YMap labels) \<and> mget labels ''app'' = Some (YStr ''ogx'')
        \<and> mget labels ''app.kubernetes.io/instance'' = Some (YStr (npc_InstanceName c))"
    by (simp add: updatePodSelector_def Let_def)
qed

lemma transform_data:
  assumes "updatesData kz" "transformNetworkPolicy kz c r = Inr r'"
  shows "\<exists>d spec. content kz r' = Some d
    \<and> mget d ''spec'' = Some (YMap (applyNetworkPolicySpec c (updatePodSelector c spec)))"
  using assms
  by (auto simp: transformNetworkPolicy_def dest!: updatesData_YMap split: sum.splits option.splits)

lemma traverse_map_list_all2:
  "traverse (map f xs) = Inr ys \<Longrightarrow> (\<And>x y. x \<in> set xs \<Longrightarrow> f x = Inr y \<Longrightarrow> R x y) \<Longrightarrow> list_all2 R xs ys"
proof (induction xs arbitrary: ys)
  case (Cons x xs)
  then show ?case by (cases "f x"; cases "traverse (map f xs)") (auto simp: emap_def)
qed simp

section \<open>Properties\<close>

text \<open>
  (C2) The Praxis lock-down, from the instance to the rendered manifests.  In Praxis mode every
  NetworkPolicy the transformer returns, whatever the manifest held, admits a connection exactly
  when it comes from the instance's Praxis peer or the operator namespace to the service port, from
  the monitoring namespaces to the metrics port when metrics are on, or when a rule of the user
  admits it: users add sources but never remove or widen the mandatory ones.  The policy selects
  the instance's pods.  Other resources are unchanged.
\<close>

theorem praxis_lockdown:
  assumes "updatesData kz"
    and "applyNetworkPolicyTransformer kz (Inr operatorNS) rs inst (Some (BuildPraxisPeer inst)) True = Inr rs'"
  shows "list_all2 (\<lambda>r r'. if kz_Kind kz r \<noteq> ''NetworkPolicy'' then r' = r
      else \<exists>d spec sel labels. content kz r' = Some d \<and> mget d ''spec'' = Some (YMap spec)
        \<and> mget spec ''podSelector'' = Some (YMap sel) \<and> mget sel ''matchLabels'' = Some (YMap labels)
        \<and> mget labels ''app'' = Some (YStr ''ogx'')
        \<and> mget labels ''app.kubernetes.io/instance'' = Some (YStr (meta_Name (srv_ObjectMeta inst)))
        \<and> (\<forall>M P. policyAdmits M P spec \<longleftrightarrow>
             ((M (YMap (jsonPeer (BuildPraxisPeer inst)))
               \<or> M (namespaceLabelPeer ''kubernetes.io/metadata.name'' operatorNS)) \<and> P (tcpPort (GetServicePort inst)))
             \<or> (getEffectiveMetricsPort inst \<noteq> 0
                \<and> M (namespaceLabelPeer ''network.openshift.io/policy-group'' ''monitoring'')
                \<and> P (tcpPort (getEffectiveMetricsPort inst)))
             \<or> list_ex (ruleAdmits M P)
                 (case spec_Network (srv_Spec inst) of None \<Rightarrow> []
                  | Some n \<Rightarrow> (case net_Policy n of None \<Rightarrow> [] | Some p \<Rightarrow> np_Ingress p)))) rs rs'"
proof -
  let ?c = "networkPolicyConfig (Inr operatorNS) inst (Some (BuildPraxisPeer inst)) True"
  have pm: "npc_PraxisMode ?c" by (simp add: networkPolicyConfig_def)
  have adm: "praxisAdmission ?c M P \<longleftrightarrow>
      ((M (YMap (jsonPeer (BuildPraxisPeer inst)))
        \<or> M (namespaceLabelPeer ''kubernetes.io/metadata.name'' operatorNS)) \<and> P (tcpPort (GetServicePort inst)))
      \<or> (getEffectiveMetricsPort inst \<noteq> 0
         \<and> M (namespaceLabelPeer ''network.openshift.io/policy-group'' ''monitoring'')
         \<and> P (tcpPort (getEffectiveMetricsPort inst)))
      \<or> list_ex (ruleAdmits M P)
          (case spec_Network (srv_Spec inst) of None \<Rightarrow> []
           | Some n \<Rightarrow> (case net_Policy n of None \<Rightarrow> [] | Some p \<Rightarrow> np_Ingress p))" for M P
    by (simp add: praxisAdmission_def networkPolicyConfig_def praxisPeerMap_def operatorNamespacePeer_def
        userRules_def userPolicy_def split: option.split)
  have name: "npc_InstanceName ?c = meta_Name (srv_ObjectMeta inst)" by (simp add: networkPolicyConfig_def)
  show ?thesis
    using assms(2) unfolding applyNetworkPolicyTransformer_def networkPolicyTransform_def
  proof (rule traverse_map_list_all2, goal_cases)
    case (1 r r')
    show ?case
    proof (cases "kz_Kind kz r = ''NetworkPolicy''")
      case True
      then have "transformNetworkPolicy kz ?c r = Inr r'" using 1 by (auto split: sum.splits)
      from transform_data [OF assms(1) this] obtain d spec where
        d: "content kz r' = Some d" "mget d ''spec'' = Some (YMap (applyNetworkPolicySpec ?c (updatePodSelector ?c spec)))"
        by blast
      obtain sel labels where l: "mget (applyNetworkPolicySpec ?c (updatePodSelector ?c spec)) ''podSelector'' = Some (YMap sel)"
        "mget sel ''matchLabels'' = Some (YMap labels)" "mget labels ''app'' = Some (YStr ''ogx'')"
        "mget labels ''app.kubernetes.io/instance'' = Some (YStr (meta_Name (srv_ObjectMeta inst)))"
        using praxis_spec(2) [OF pm, of spec] name by auto
      show ?thesis using True d l praxis_spec(1) [OF pm] adm by auto
    next
      case False
      then show ?thesis using 1 by simp
    qed
  qed
qed

text \<open>
  Outside Praxis mode, ingress rules of the user replace all defaults; without any, every pod of
  the namespace, the operator namespace and, when the network section is present, the router reach
  the service port, and monitoring the metrics port.
\<close>

theorem legacy_policy_admits:
  assumes "\<not> npc_PraxisMode c"
  shows "policyAdmits M P (applyNetworkPolicySpec c spec) \<longleftrightarrow>
     (if userRules c = []
      then ((M (YMap (mlit [(''podSelector'', YMap mempty)])) \<or> M (operatorNamespacePeer c)
             \<or> (npc_NetworkSpec c \<noteq> None \<and> M (namespaceLabelPeer ''network.openshift.io/policy-group'' ''ingress'')))
            \<and> P (tcpPort (npc_ServicePort c)))
           \<or> (npc_MetricsPort c \<noteq> 0 \<and> M (namespaceLabelPeer ''network.openshift.io/policy-group'' ''monitoring'')
              \<and> P (tcpPort (npc_MetricsPort c)))
      else list_ex (ruleAdmits M P) (userRules c))"
  using assms
  by (auto simp: applyNetworkPolicySpec_def policyAdmits_legacy ingressRules_admit monitoring_admits
      buildPeers_def buildDefaultPeers_def buildRouterPeers_def)


section \<open>Examples\<close>

text \<open>A library whose resources are decoded documents, with the pointers of RFC 6901.\<close>

definition setMeta :: "string \<Rightarrow> string \<Rightarrow> ymap \<Rightarrow> ymap" where
  "setMeta k v d =
     mput ''metadata'' (YMap (mput k (YStr v)
       (case asMap (mfield d ''metadata'') of Some m \<Rightarrow> m | None \<Rightarrow> mempty))) d"

definition docKustomize :: "(ymap, ymap) Kustomize" where
  "docKustomize =
     \<lparr>kz_Kind = (\<lambda>d. textAt d ''kind''), kz_Name = nameOfData, kz_AsYAML = Inr, kz_Unmarshal = Inr,
      kz_Update = (\<lambda>r y. case y of YMap d \<Rightarrow> Inr d | _ \<Rightarrow> Inl ''not a mapping''),
      kz_SetName = (\<lambda>r n. Inr (setMeta ''name'' n r)), kz_SetNamespace = (\<lambda>r n. Inr (setMeta ''namespace'' n r)),
      kz_ClusterScoped = (\<lambda>r. textAt r ''kind'' = ''ClusterRole''), kz_DNS1123Errors = (\<lambda>n. []),
      kz_PtrSet = (\<lambda>p y v. case ptrSet (parsePtr p) v y of Some y' \<Rightarrow> Inr y' | None \<Rightarrow> Inl p),
      kz_PtrGet = (\<lambda>p y. case ptrGet (parsePtr p) y of Some v \<Rightarrow> Inr v | None \<Rightarrow> Inl p),
      kz_PtrTokens = (\<lambda>p. Inr (parsePtr p)), kz_IsPrint = (\<lambda>_. True)\<rparr>"

lemma content_doc [simp]: "content docKustomize r = Some r"
  by (simp add: content_def parseData_def docKustomize_def)

lemma doc_select [simp]:
  "kz_Kind docKustomize d = textAt d ''kind''" "kz_Name docKustomize = nameOfData"
  "updateResource docKustomize r (YMap d) = Inr d" "parseData docKustomize e e' r = Inr r"
  by (simp_all add: docKustomize_def updateResource_def parseData_def)

lemma doc_updates: "updatesData docKustomize"
  by (auto simp: updatesData_def) (auto simp: docKustomize_def split: yaml.splits)

lemma doc_reads: "readsContent docKustomize"
  by (auto simp: readsContent_def) (auto simp: docKustomize_def setMeta_def textAt_def nameOfData_def mfield_def split: option.splits)

lemma doc_rfc6901: "rfc6901 docKustomize"
  by (auto simp: rfc6901_def docKustomize_def parsePtr_ptrText split: option.splits)

definition exNetServer :: OGXServer where
  "exNetServer =
     \<lparr>srv_ObjectMeta = \<lparr>meta_Name = ''demo'', meta_Namespace = ''ogx'', meta_UID = ''u'', meta_Generation = 1,
        meta_ResourceVersion = [], meta_Labels = [], meta_Annotations = [], meta_OwnerReferences = [],
        meta_DeletionTimestamp = None\<rparr>,
      srv_Spec = \<lparr>spec_Distribution = \<lparr>dist_Name = ''starter'', dist_Image = []\<rparr>, spec_Providers = None,
        spec_Resources = None, spec_Storage = None, spec_DisabledAPIs = [], spec_RegistryRefreshIntervalSeconds = None,
        spec_Network = None, spec_TLS = None, spec_Workload = None, spec_Monitoring = None, spec_BaseConfig = None,
        spec_OverrideConfig = None, spec_PraxisMode = None\<rparr>,
      srv_Status = \<lparr>status_Phase = PhaseUnset,
        status_Version = \<lparr>ver_OperatorVersion = [], ver_ServerVersion = [], ver_LastUpdated = 0\<rparr>,
        status_DistributionConfig = \<lparr>dcfg_ActiveDistribution = [], dcfg_Providers = [], dcfg_AvailableDistributions = []\<rparr>,
        status_ResolvedDistribution = None, status_ConfigGeneration = None, status_Migration = None,
        status_Conditions = [], status_AvailableReplicas = 0, status_ServiceURL = [], status_ExternalURL = None\<rparr>\<rparr>"

definition exPolicyDoc :: ymap where
  "exPolicyDoc = mlit [(''kind'', YStr ''NetworkPolicy''), (''spec'', YMap mempty)]"

theorem praxis_lockdown_witness:
  "\<exists>d spec. applyNetworkPolicyTransformer docKustomize (Inr ''ops'') [exPolicyDoc] exNetServer
       (Some (BuildPraxisPeer exNetServer)) True = Inr [d]
     \<and> mget d ''spec'' = Some (YMap spec)
     \<and> \<not> policyAdmits (\<lambda>peer. peer = YMap (mlit [(''podSelector'', YMap mempty)])) (\<lambda>port. True) spec"
proof -
  note u = doc_updates
  have k: "kz_Kind docKustomize exPolicyDoc = ''NetworkPolicy''" by (simp add: exPolicyDoc_def mlit_def textAt_def mfield_def)
  obtain d where t: "applyNetworkPolicyTransformer docKustomize (Inr ''ops'') [exPolicyDoc] exNetServer
       (Some (BuildPraxisPeer exNetServer)) True = Inr [d]"
    using k by (simp add: applyNetworkPolicyTransformer_def networkPolicyTransform_def transformNetworkPolicy_def emap_def)
       (simp add: exPolicyDoc_def mlit_def)
  let ?M = "\<lambda>peer. peer = YMap (mlit [(''podSelector'', YMap mempty)])"
  have "\<not> ?M (YMap (jsonPeer (BuildPraxisPeer exNetServer)))" "\<not> ?M (namespaceLabelPeer k v)" for k v
    by (simp_all add: namespaceLabelPeer_def mlit_def mempty_def BuildPraxisPeer_def exNetServer_def defaultPraxisPeer_def jsonPeer_def)
  moreover have "spec_Network (srv_Spec exNetServer) = None" by (simp add: exNetServer_def)
  ultimately show ?thesis
    using praxis_lockdown [OF u t] t k by auto
qed

theorem legacy_policy_admits_witness:
  "policyAdmits (\<lambda>peer. peer = YMap (mlit [(''podSelector'', YMap mempty)])) (\<lambda>port. port = tcpPort 8321)
     (applyNetworkPolicySpec (networkPolicyConfig (Inr ''ops'') exNetServer None False) mempty)"
  using legacy_policy_admits [of "networkPolicyConfig (Inr ''ops'') exNetServer None False"]
  by (simp add: networkPolicyConfig_def userRules_def userPolicy_def exNetServer_def GetServicePort_def DefaultServerPort_def)

end
