(* ===== verification/Go_Quote.thy ===== *)
theory Go_Quote
  imports Digest Go_Strings
begin

text \<open>
  \<open>strconv.Quote\<close> (also the verb \<open>%q\<close> of \<open>fmt\<close>): a Go string literal for a byte string.  Valid UTF-8
  sequences of printable runes are copied, other runes and bytes become escapes.  Whether a rune
  above \<open>U+00FF\<close> is printable is a table of the Unicode version, the argument \<open>isPrint\<close>.
\<close>

definition isCont :: "nat \<Rightarrow> bool" where
  "isCont b \<longleftrightarrow> 128 \<le> b \<and> b < 192"

text \<open>\<open>utf8.DecodeRuneInString\<close>: the first rune and its width, \<open>None\<close> for an invalid first byte.\<close>

fun decodeRune :: "nat list \<Rightarrow> (nat \<times> nat) option" where
  "decodeRune [] = None"
| "decodeRune (a # bs) =
     (if a < 128 then Some (a, 1)
      else if 194 \<le> a \<and> a < 224 then
        (case bs of b # _ \<Rightarrow> if isCont b then Some ((a - 192) * 64 + (b - 128), 2) else None | [] \<Rightarrow> None)
      else if 224 \<le> a \<and> a < 240 then
        (case bs of
           b # c # _ \<Rightarrow>
             if isCont b \<and> isCont c \<and> (a = 224 \<longrightarrow> 160 \<le> b) \<and> (a = 237 \<longrightarrow> b < 160)
             then Some ((a - 224) * 4096 + (b - 128) * 64 + (c - 128), 3) else None
         | _ \<Rightarrow> None)
      else if 240 \<le> a \<and> a < 245 then
        (case bs of
           b # c # d # _ \<Rightarrow>
             if isCont b \<and> isCont c \<and> isCont d \<and> (a = 240 \<longrightarrow> 144 \<le> b) \<and> (a = 244 \<longrightarrow> b < 144)
             then Some ((a - 240) * 262144 + (b - 128) * 4096 + (c - 128) * 64 + (d - 128), 4) else None
         | _ \<Rightarrow> None)
      else None)"

lemma decodeRune_width: "decodeRune bs = Some (r, w) \<Longrightarrow> 0 < w \<and> w \<le> length bs"
  by (cases bs) (auto split: if_splits list.splits)

definition printable :: "(nat \<Rightarrow> bool) \<Rightarrow> nat \<Rightarrow> bool" where
  "printable isPrint r \<longleftrightarrow>
     (if r < 256 then (32 \<le> r \<and> r < 127) \<or> (161 \<le> r \<and> r \<noteq> 173) else isPrint r)"

definition hexNibbles :: "nat \<Rightarrow> nat \<Rightarrow> string" where
  "hexNibbles k n = map (\<lambda>i. hexDigit (int (n div 16 ^ i mod 16))) (rev [0..<k])"

definition escapeRune :: "(nat \<Rightarrow> bool) \<Rightarrow> nat \<Rightarrow> string \<Rightarrow> string" where
  "escapeRune isPrint r raw =
     (if r = 34 \<or> r = 92 then CHR 0x5C # raw
      else if printable isPrint r then raw
      else if r = 7 then [CHR 0x5C, CHR ''a'']
      else if r = 8 then [CHR 0x5C, CHR ''b'']
      else if r = 12 then [CHR 0x5C, CHR ''f'']
      else if r = 10 then [CHR 0x5C, CHR ''n'']
      else if r = 13 then [CHR 0x5C, CHR ''r'']
      else if r = 9 then [CHR 0x5C, CHR ''t'']
      else if r = 11 then [CHR 0x5C, CHR ''v'']
      else if r < 32 \<or> r = 127 then CHR 0x5C # CHR ''x'' # hexNibbles 2 r
      else if r < 65536 then CHR 0x5C # CHR ''u'' # hexNibbles 4 r
      else CHR 0x5C # CHR ''U'' # hexNibbles 8 r)"

function quoteBytes :: "(nat \<Rightarrow> bool) \<Rightarrow> string \<Rightarrow> string" where
  "quoteBytes isPrint s =
     (if s = [] then []
      else case decodeRune (map of_char s) of
             None \<Rightarrow> (CHR 0x5C # CHR ''x'' # hexNibbles 2 (of_char (hd s))) @ quoteBytes isPrint (tl s)
           | Some (r, w) \<Rightarrow> escapeRune isPrint r (take w s) @ quoteBytes isPrint (drop w s))"
  by pat_completeness auto
termination
  by (relation "measure (\<lambda>(isPrint, s). length s)") (auto dest!: decodeRune_width)

declare quoteBytes.simps [simp del]

definition goQuote :: "(nat \<Rightarrow> bool) \<Rightarrow> string \<Rightarrow> string" where
  "goQuote isPrint s = CHR 0x22 # quoteBytes isPrint s @ [CHR 0x22]"

text \<open>Plain ASCII without quotes and backslashes is copied.\<close>

definition plainChar :: "char \<Rightarrow> bool" where
  "plainChar c \<longleftrightarrow> 32 \<le> (of_char c :: nat) \<and> of_char c < (127 :: nat) \<and> c \<noteq> CHR 0x22 \<and> c \<noteq> CHR 0x5C"

lemma plain_of_char: "plainChar c \<Longrightarrow> (of_char c :: nat) \<noteq> 34 \<and> (of_char c :: nat) \<noteq> 92"
proof -
  have "(of_char (CHR 0x22) :: nat) = 34" "(of_char (CHR 0x5C) :: nat) = 92" by simp_all
  then show "plainChar c \<Longrightarrow> ?thesis" unfolding plainChar_def by (metis char_of_char)
qed

lemma quoteBytes_plain: "list_all plainChar s \<Longrightarrow> quoteBytes isPrint s = s"
proof (induction s)
  case (Cons c cs)
  then have "plainChar c" by simp
  then have "(of_char c :: nat) < 127" "32 \<le> (of_char c :: nat)" by (simp_all add: plainChar_def)
  then have "escapeRune isPrint (of_char c) [c] = [c]"
    using plain_of_char [OF \<open>plainChar c\<close>] by (simp add: escapeRune_def printable_def)
  then show ?case using Cons \<open>(of_char c :: nat) < 127\<close> by (subst quoteBytes.simps) simp
qed (simp add: quoteBytes.simps)

lemma goQuote_plain: "list_all plainChar s \<Longrightarrow> goQuote isPrint s = CHR 0x22 # s @ [CHR 0x22]"
  by (simp add: goQuote_def quoteBytes_plain)

end
