(* ===== verification/Manifest_Plugins.thy ===== *)
theory Manifest_Plugins
  imports Network_Policy Go_Quote
begin

text \<open>
  The transformer plugins of \<open>pkg/deploy/plugins\<close> (name prefix, namespace, field mutator, Service) and
  the plugin chain \<open>applyPlugins\<close> of \<open>pkg/deploy/kustomizer.go\<close>.  A plugin changes resources in place
  and stops at the first error; the caller then drops the resources, so a plugin is a function
  from the list of resources to an error or the new list.
\<close>

section \<open>Names and namespaces\<close>

fun joinWith :: "string \<Rightarrow> string list \<Rightarrow> string" where
  "joinWith sep [] = []"
| "joinWith sep [x] = x"
| "joinWith sep (x # y # zs) = x @ sep @ joinWith sep (y # zs)"

definition ValidateK8sLabelName :: "('r, 't) Kustomize \<Rightarrow> string \<Rightarrow> string option" where
  "ValidateK8sLabelName kz name =
     (let errs = kz_DNS1123Errors kz name
      in if errs \<noteq> []
         then Some (''failed to validate name '' @ goQuote (kz_IsPrint kz) name @ '': '' @ joinWith '', '' errs)
         else None)"

record NamePrefixConfig =
  npx_Prefix :: string
  npx_IncludeKinds :: "string list"
  npx_ExcludeKinds :: "string list"

definition shouldApplyToKind :: "string \<Rightarrow> string list \<Rightarrow> string list \<Rightarrow> bool" where
  "shouldApplyToKind kind includeKinds excludeKinds =
     (if excludeKinds \<noteq> [] \<and> kind \<in> set excludeKinds then False
      else if includeKinds = [] then True
      else kind \<in> set includeKinds)"

definition makePrefixedName :: "string \<Rightarrow> string \<Rightarrow> string" where
  "makePrefixedName pre name = pre @ ''-'' @ name"

definition namePrefixTransform ::
    "('r, 't) Kustomize \<Rightarrow> NamePrefixConfig \<Rightarrow> 'r list \<Rightarrow> string + 'r list" where
  "namePrefixTransform kz c rs =
     traverse (map (\<lambda>res.
       if hasPrefix (kz_Name kz res) (npx_Prefix c @ ''-'') then Inr res
       else if \<not> shouldApplyToKind (kz_Kind kz res) (npx_IncludeKinds c) (npx_ExcludeKinds c) then Inr res
       else let name = makePrefixedName (npx_Prefix c) (kz_Name kz res)
            in case ValidateK8sLabelName kz name of
                 Some e \<Rightarrow> Inl (''failed to make valid prefixed name: '' @ e)
               | None \<Rightarrow> mapErr (\<lambda>e. ''failed to set resource name: '' @ e) (kz_SetName kz res name)) rs)"

definition CreateNamespacePlugin :: "('r, 't) Kustomize \<Rightarrow> string \<Rightarrow> string + string" where
  "CreateNamespacePlugin kz namespace =
     (if namespace = [] then Inl ''failed to set namespace: namespace cannot be empty''
      else case ValidateK8sLabelName kz namespace of
             Some e \<Rightarrow> Inl (''failed to set namespace: invalid namespace provided: '' @ e)
           | None \<Rightarrow> Inr namespace)"

definition namespaceTransform :: "('r, 't) Kustomize \<Rightarrow> string \<Rightarrow> 'r list \<Rightarrow> string + 'r list" where
  "namespaceTransform kz namespace rs =
     traverse (map (\<lambda>res.
       if kz_ClusterScoped kz res then Inr res
       else mapErr (\<lambda>e. ''failed to set namespace for resource '' @ kz_Kind kz res @ ''/'' @ kz_Name kz res @ '': '' @ e)
              (kz_SetNamespace kz res namespace)) rs)"

section \<open>The field mutator\<close>

record FieldMapping =
  fm_SourceValue :: yaml
  fm_DefaultValue :: yaml
  fm_TargetField :: string
  fm_TargetKind :: string
  fm_CreateIfNotExists :: bool

definition isEmpty :: "yaml \<Rightarrow> bool" where
  "isEmpty v = (case v of YNull \<Rightarrow> True | YStr s \<Rightarrow> s = [] | YMap m \<Rightarrow> m = [] | YList l \<Rightarrow> l = [] | _ \<Rightarrow> False)"

definition isNumericString :: "string \<Rightarrow> bool" where
  "isNumericString s = (s \<noteq> [] \<and> list_all isDigit s)"

text \<open>
  The loop over the parents of the target, from the root: \<open>done\<close> holds the tokens already walked.
  The parent's pointer is built from the decoded tokens without escaping them again.
\<close>

fun createParents ::
    "('r, 't) Kustomize \<Rightarrow> string list \<Rightarrow> string list \<Rightarrow> yaml \<Rightarrow> string + yaml" where
  "createParents kz walked (t # t' # ts) result =
     (let parentPath = ''/'' @ joinWith ''/'' (walked @ [t]);
          exists = (case kz_PtrGet kz parentPath result of Inr parent \<Rightarrow> parent \<noteq> YNull | Inl _ \<Rightarrow> False)
      in if exists then createParents kz (walked @ [t]) (t' # ts) result
         else let container = (if isNumericString t' then YList [] else YMap mempty)
              in case kz_PtrSet kz parentPath result container of
                   Inl e \<Rightarrow> Inl (''failed to create path at '' @ goQuote (kz_IsPrint kz) parentPath @ '': '' @ e)
                 | Inr result' \<Rightarrow> createParents kz (walked @ [t]) (t' # ts) result')"
| "createParents kz walked ts result = Inr result"

text \<open>A deep copy through JSON has the same value.\<close>

definition setWithPathCreation ::
    "('r, 't) Kustomize \<Rightarrow> yaml \<Rightarrow> string \<Rightarrow> string list \<Rightarrow> yaml \<Rightarrow> string + yaml" where
  "setWithPathCreation kz data ptr tokens value =
     (case kz_PtrSet kz ptr data value of
        Inr result \<Rightarrow> Inr result
      | Inl _ \<Rightarrow>
          if tokens = [] then Inr value
          else ebind (createParents kz [] tokens data) (\<lambda>result. kz_PtrSet kz ptr result value))"

definition setTargetField :: "('r, 't) Kustomize \<Rightarrow> 'r \<Rightarrow> yaml \<Rightarrow> FieldMapping \<Rightarrow> string + 'r" where
  "setTargetField kz res value mapping =
     (case parseData kz ''failed to get YAML: '' ''failed to unmarshal YAML: '' res of
        Inl e \<Rightarrow> Inl e
      | Inr data \<Rightarrow>
          (case kz_PtrTokens kz (fm_TargetField mapping) of
             Inl e \<Rightarrow> Inl (''failed to parse JSON Pointer path '' @ goQuote (kz_IsPrint kz) (fm_TargetField mapping) @ '': '' @ e)
           | Inr tokens \<Rightarrow>
               (case (if fm_CreateIfNotExists mapping
                      then setWithPathCreation kz (YMap data) (fm_TargetField mapping) tokens value
                      else kz_PtrSet kz (fm_TargetField mapping) (YMap data) value) of
                  Inl e \<Rightarrow> Inl (''failed to set field at path '' @ goQuote (kz_IsPrint kz) (fm_TargetField mapping) @ '': '' @ e)
                | Inr updatedData \<Rightarrow> updateResource kz res updatedData)))"

definition applyMapping :: "('r, 't) Kustomize \<Rightarrow> FieldMapping \<Rightarrow> 'r list \<Rightarrow> string + 'r list" where
  "applyMapping kz mapping rs =
     (let value = (if isEmpty (fm_SourceValue mapping) then fm_DefaultValue mapping else fm_SourceValue mapping)
      in if isEmpty value then Inr rs
         else traverse (map (\<lambda>res.
                if kz_Kind kz res \<noteq> fm_TargetKind mapping then Inr res
                else mapErr (\<lambda>e. ''failed to set target field for mapping '' @ fm_TargetField mapping @ '': '' @ e)
                       (setTargetField kz res value mapping)) rs))"

fun fieldTransform :: "('r, 't) Kustomize \<Rightarrow> FieldMapping list \<Rightarrow> 'r list \<Rightarrow> string + 'r list" where
  "fieldTransform kz [] rs = Inr rs"
| "fieldTransform kz (m # ms) rs = ebind (applyMapping kz m rs) (fieldTransform kz ms)"

section \<open>The Service\<close>

record ServiceTransformerConfig =
  stc_MetricsPort :: int
  stc_ServicePort :: int

definition metricsPort :: "int \<Rightarrow> yaml" where
  "metricsPort n = YMap (mlit [(''name'', YStr ''metrics''), (''protocol'', YStr ''TCP''), (''port'', YInt n), (''targetPort'', YInt n)])"

definition transformService :: "('r, 't) Kustomize \<Rightarrow> ServiceTransformerConfig \<Rightarrow> 'r \<Rightarrow> string + 'r" where
  "transformService kz c res =
     (if kz_Kind kz res \<noteq> ''Service'' then Inr res
      else case parseData kz ''failed to get Service YAML: '' ''failed to unmarshal Service YAML: '' res of
             Inl e \<Rightarrow> Inl e
           | Inr data \<Rightarrow>
               (case asMap (mfield data ''spec'') of
                  None \<Rightarrow> Inr res
                | Some spec \<Rightarrow>
                    (case asList (mfield spec ''ports'') of
                       None \<Rightarrow> Inr res
                     | Some ports \<Rightarrow>
                         mapErr (\<lambda>e. ''failed to update Service resource: '' @ e)
                           (updateResource kz res (YMap (mput ''spec''
                              (YMap (mput ''ports'' (YList (ports @ [metricsPort (stc_MetricsPort c)])) spec)) data))))))"

definition serviceTransform ::
    "('r, 't) Kustomize \<Rightarrow> ServiceTransformerConfig \<Rightarrow> 'r list \<Rightarrow> string + 'r list" where
  "serviceTransform kz c rs =
     (if stc_MetricsPort c = 0 \<or> stc_MetricsPort c = stc_ServicePort c then Inr rs
      else traverse (map (transformService kz c) rs))"

section \<open>The mappings of an instance\<close>

definition getStorageSize :: "OGXServer \<Rightarrow> string" where
  "getStorageSize inst =
     (case spec_Workload (srv_Spec inst) of None \<Rightarrow> []
      | Some wl \<Rightarrow> (case wl_Storage wl of None \<Rightarrow> []
          | Some st \<Rightarrow> (case pvc_Size st of None \<Rightarrow> [] | Some q \<Rightarrow> q)))"

definition getServicePort :: "OGXServer \<Rightarrow> yaml" where
  "getServicePort inst =
     (case spec_Network (srv_Spec inst) of None \<Rightarrow> YNull
      | Some n \<Rightarrow> if net_Port n \<noteq> 0 then YInt (net_Port n) else YNull)"

definition isAutoscalingEnabled :: "OGXServer \<Rightarrow> bool" where
  "isAutoscalingEnabled inst =
     (case spec_Workload (srv_Spec inst) of None \<Rightarrow> False
      | Some wl \<Rightarrow> (case wl_Autoscaling wl of None \<Rightarrow> False | Some a \<Rightarrow> as_MaxReplicas a > 0))"

definition fmap :: "yaml \<Rightarrow> yaml \<Rightarrow> string \<Rightarrow> string \<Rightarrow> FieldMapping" where
  "fmap src dflt field kind =
     \<lparr>fm_SourceValue = src, fm_DefaultValue = dflt, fm_TargetField = field, fm_TargetKind = kind,
      fm_CreateIfNotExists = True\<rparr>"

definition buildFieldMappings ::
    "string \<Rightarrow> string \<Rightarrow> string \<Rightarrow> yaml \<Rightarrow> string \<Rightarrow> string \<Rightarrow> int \<Rightarrow> FieldMapping list" where
  "buildFieldMappings instanceName instanceNamespace serviceAccountName servicePort storageSize instanceLabelPath replicas =
     [fmap (YStr storageSize) (YStr ''10Gi'') ''/spec/resources/requests/storage'' ''PersistentVolumeClaim'',
      fmap servicePort (YInt DefaultServerPort) ''/spec/ports/0/port'' ''Service'',
      fmap servicePort (YInt DefaultServerPort) ''/spec/ports/0/targetPort'' ''Service'',
      fmap (YStr instanceName) YNull (''/spec/selector'' @ instanceLabelPath) ''Service'',
      fmap (YStr instanceName) YNull ''/metadata/name'' ''Deployment'',
      fmap (YInt replicas) YNull ''/spec/replicas'' ''Deployment'',
      fmap (YStr serviceAccountName) YNull ''/spec/template/spec/serviceAccountName'' ''Deployment'',
      fmap (YStr instanceName) YNull (''/spec/selector/matchLabels'' @ instanceLabelPath) ''Deployment'',
      fmap (YStr instanceName) YNull (''/spec/template/metadata/labels'' @ instanceLabelPath) ''Deployment'',
      fmap (YStr serviceAccountName) YNull ''/subjects/0/name'' ''RoleBinding'',
      fmap (YStr instanceNamespace) YNull ''/subjects/0/namespace'' ''RoleBinding'',
      fmap (YStr instanceName) YNull (''/spec/selector/matchLabels'' @ instanceLabelPath) ''PodDisruptionBudget'',
      fmap (YStr instanceName) YNull ''/spec/scaleTargetRef/name'' ''HorizontalPodAutoscaler'']"

definition getFieldMappings :: "OGXServer \<Rightarrow> FieldMapping list" where
  "getFieldMappings inst =
     buildFieldMappings (meta_Name (srv_ObjectMeta inst)) (meta_Namespace (srv_ObjectMeta inst))
       (meta_Name (srv_ObjectMeta inst) @ ''-sa'') (getServicePort inst) (getStorageSize inst)
       ''/app.kubernetes.io~1instance'' (GetEffectiveReplicas inst)
     @ (if (case spec_Workload (srv_Spec inst) of None \<Rightarrow> False | Some wl \<Rightarrow> wl_Storage wl \<noteq> None)
        then [fmap (YStr ''Recreate'') YNull ''/spec/strategy/type'' ''Deployment''] else [])"

section \<open>The plugin chain\<close>

text \<open>\<open>parseResourceYAML\<close> and \<open>updateResourceFromData\<close>; the conversion of JSON to YAML does not fail.\<close>

definition parseResourceYAML :: "('r, 't) Kustomize \<Rightarrow> 'r \<Rightarrow> string + ymap" where
  "parseResourceYAML kz res = parseData kz ''failed to get YAML: '' ''failed to unmarshal YAML: '' res"

definition updateResourceFromData :: "('r, 't) Kustomize \<Rightarrow> 'r \<Rightarrow> ymap \<Rightarrow> string + 'r" where
  "updateResourceFromData kz res data =
     mapErr (\<lambda>e. ''failed to create resource from updated YAML: '' @ e) (kz_Update kz res (YMap data))"

definition removeReplicas :: "('r, 't) Kustomize \<Rightarrow> 'r \<Rightarrow> string + 'r" where
  "removeReplicas kz res =
     (if kz_Kind kz res \<noteq> ''Deployment'' then Inr res
      else ebind (parseResourceYAML kz res) (\<lambda>data.
        case asMap (mfield data ''spec'') of
          None \<Rightarrow> Inr res
        | Some spec \<Rightarrow>
            if mget spec ''replicas'' = None then Inr res
            else updateResourceFromData kz res (mput ''spec'' (YMap (mdel ''replicas'' spec)) data)))"

definition removeDeploymentReplicas :: "('r, 't) Kustomize \<Rightarrow> 'r list \<Rightarrow> string + 'r list" where
  "removeDeploymentReplicas kz rs = traverse (map (removeReplicas kz) rs)"

definition applyServiceTransformer :: "('r, 't) Kustomize \<Rightarrow> OGXServer \<Rightarrow> 'r list \<Rightarrow> string + 'r list" where
  "applyServiceTransformer kz inst rs =
     serviceTransform kz \<lparr>stc_MetricsPort = getEffectiveMetricsPort inst, stc_ServicePort = GetServicePort inst\<rparr> rs"

definition applyPlugins ::
    "('r, 't) Kustomize \<Rightarrow> string + string \<Rightarrow> OGXServer \<Rightarrow> NetworkPolicyPeer option \<Rightarrow> bool \<Rightarrow> 'r list
       \<Rightarrow> string + 'r list" where
  "applyPlugins kz operatorNS inst peer praxis rs =
     ebind (mapErr (\<lambda>e. ''failed to apply name prefix: '' @ e)
       (namePrefixTransform kz \<lparr>npx_Prefix = meta_Name (srv_ObjectMeta inst), npx_IncludeKinds = [],
          npx_ExcludeKinds = [''Deployment'']\<rparr> rs)) (\<lambda>rs1.
     ebind (CreateNamespacePlugin kz (meta_Namespace (srv_ObjectMeta inst))) (\<lambda>ns.
     ebind (mapErr (\<lambda>e. ''failed to apply namespace setter plugin: '' @ e) (namespaceTransform kz ns rs1)) (\<lambda>rs2.
     ebind (mapErr (\<lambda>e. ''failed to apply field transformer: '' @ e)
       (fieldTransform kz (getFieldMappings inst) rs2)) (\<lambda>rs3.
     ebind (mapErr (\<lambda>e. ''failed to apply NetworkPolicy transformer: '' @ e)
       (applyNetworkPolicyTransformer kz operatorNS rs3 inst peer praxis)) (\<lambda>rs4.
     ebind (mapErr (\<lambda>e. ''failed to apply Service transformer: '' @ e) (applyServiceTransformer kz inst rs4)) (\<lambda>rs5.
     if isAutoscalingEnabled inst
     then mapErr (\<lambda>e. ''failed to strip replicas for autoscaling: '' @ e) (removeDeploymentReplicas kz rs5)
     else Inr rs5))))))"

end
