(* ===== verification/Manifest_Correct.thy ===== *)
theory Manifest_Correct
  imports Manifest_Plugins
begin

text \<open>
  What the plugin chain establishes: pointer reasoning for the field mutator, the effect of each
  plugin on a resource, and the property that the rendered resources of an instance fit together.
\<close>

section \<open>Pointers to parents\<close>

lemma rfc6901D:
  assumes "rfc6901 kz" "ts \<noteq> []" "list_all tokenOK ts"
  shows "kz_PtrTokens kz (ptrText ts) = Inr ts"
    "(kz_PtrSet kz (ptrText ts) y v = Inr y') = (ptrSet ts v y = Some y')"
    "(kz_PtrGet kz (ptrText ts) y = Inr v) = (ptrGet ts y = Some v)"
  using assms by (simp_all add: rfc6901_def)

definition plainToken :: "string \<Rightarrow> bool" where
  "plainToken t \<longleftrightarrow> CHR ''/'' \<notin> set t \<and> CHR ''~'' \<notin> set t"

lemma escape_plain: "plainToken t \<Longrightarrow> escapeToken t = t"
  by (induction t) (auto simp: plainToken_def escapeToken_def)

lemma parentText: "list_all plainToken ts \<Longrightarrow> ts \<noteq> [] \<Longrightarrow> ''/'' @ joinWith ''/'' ts = ptrText ts"
proof (induction ts rule: induct_list012)
  case (3 x y zs)
  then show ?case by (simp add: ptrText_def escape_plain)
qed (auto simp: ptrText_def escape_plain)

lemma comparable_extend:
  assumes "comparable p us" "\<not> comparable (p @ q) us"
  shows "\<exists>r. r \<noteq> [] \<and> us = p @ r"
proof -
  have "take (length p) us = p \<Longrightarrow> \<exists>r. us = p @ r" by (metis append_take_drop_id)
  then obtain r where "us = p @ r" using assms by (auto simp: comparable_def)
  moreover have "r \<noteq> []" using assms(2) calculation by (auto simp: comparable_def)
  ultimately show ?thesis by blast
qed

text \<open>Creating a missing parent keeps what any pointer off the target path finds.\<close>

lemma create_one_frame:
  assumes "ptrSet p c y = Some y'" "ptrGet p y = None \<or> ptrGet p y = Some YNull"
    "\<not> comparable (p @ q) us" "list_all tokenOK p" "list_all tokenOK us" "ptrGet us y = Some w"
  shows "ptrGet us y' = Some w"
proof (cases "comparable p us")
  case True
  then obtain r where r: "r \<noteq> []" "us = p @ r" using comparable_extend assms(3) by blast
  then have "ptrGet us y = None" using assms(2) by (cases r) (auto simp: ptrGet_append)
  then show ?thesis using assms(6) by simp
next
  case False
  then show ?thesis using ptrGet_frame [OF assms(1)] assms(4,5,6) by simp
qed

lemma createParents_frame:
  assumes "rfc6901 kz" "createParents kz walked ts y = Inr y'" "list_all tokenOK (walked @ ts)"
    "list_all plainToken (walked @ butlast ts)" "\<not> comparable (walked @ ts) us" "list_all tokenOK us"
    "ptrGet us y = Some w"
  shows "ptrGet us y' = Some w"
  using assms
proof (induction kz walked ts y arbitrary: y' rule: createParents.induct)
  case (1 kz walked t t' ts y)
  let ?p = "walked @ [t]"
  let ?path = "''/'' @ joinWith ''/'' ?p"
  have path: "?path = ptrText ?p" using 1(6) parentText [of ?p] by simp
  have tok: "list_all tokenOK ?p" using 1(5) by simp
  have ptr: "(kz_PtrSet kz ?path z v = Inr z') = (ptrSet ?p v z = Some z')"
      "(kz_PtrGet kz ?path z = Inr v) = (ptrGet ?p z = Some v)" for z v z'
    unfolding path using rfc6901D(2,3) [OF 1(3) _ tok] by simp_all
  show ?case
  proof (cases "\<exists>c. kz_PtrGet kz ?path y = Inr c \<and> c \<noteq> YNull")
    case True
    then obtain c where c: "kz_PtrGet kz ?path y = Inr c" "c \<noteq> YNull" by blast
    then have "createParents kz ?p (t' # ts) y = Inr y'" using 1(4) by (simp add: Let_def)
    then show ?thesis using 1(1) c 1(3,5-) by simp
  next
    case False
    then have miss: "\<not> (case kz_PtrGet kz ?path y of Inl _ \<Rightarrow> False | Inr parent \<Rightarrow> parent \<noteq> YNull)"
      by (auto split: sum.splits)
    define c where "c = (if isNumericString t' then YList [] else YMap mempty)"
    obtain y1 where y1: "kz_PtrSet kz ?path y c = Inr y1" "createParents kz ?p (t' # ts) y1 = Inr y'"
      using 1(4) miss by (auto simp: Let_def c_def split: sum.splits)
    have "ptrGet ?p y = None \<or> ptrGet ?p y = Some YNull" using False ptr by (metis not_None_eq)
    then have "ptrGet us y1 = Some w"
      using create_one_frame [of ?p c y y1 "t' # ts" us w] y1 ptr tok 1(7,8,9) by simp
    then show ?thesis using 1(2) [OF refl refl] miss y1 c_def 1(3,5-) by simp
  qed
qed auto

lemma setWithPathCreation_ok:
  assumes kz: "rfc6901 kz" and ts: "ts \<noteq> []" "list_all tokenOK ts" "list_all plainToken (butlast ts)"
    and set: "setWithPathCreation kz y (ptrText ts) ts v = Inr y'"
  shows "ptrGet ts y' = Some v"
    "\<not> comparable ts us \<Longrightarrow> list_all tokenOK us \<Longrightarrow> ptrGet us y = Some w \<Longrightarrow> ptrGet us y' = Some w"
proof -
  have ptr: "(kz_PtrSet kz (ptrText ts) z v = Inr z') = (ptrSet ts v z = Some z')" for z z'
    using rfc6901D(2) [OF kz ts(1,2)] .
  obtain y1 where y1: "ptrSet ts v y1 = Some y'" "y1 = y \<or> createParents kz [] ts y = Inr y1"
    using set ptr ts(1) by (auto simp: setWithPathCreation_def ebind_Inr_iff split: sum.splits)
  then show "ptrGet ts y' = Some v" by (simp add: ptrGet_ptrSet)
  assume us: "\<not> comparable ts us" "list_all tokenOK us" "ptrGet us y = Some w"
  have "ptrGet us y1 = Some w" using y1(2) createParents_frame [OF kz _ _ _ _ us(2,3), of "[]" ts] ts us by auto
  then show "ptrGet us y' = Some w" using ptrGet_frame [OF y1(1) us(1)] ts us by simp
qed

section \<open>What the field mutator sets and keeps\<close>

definition has :: "('r, 't) Kustomize \<Rightarrow> 'r \<Rightarrow> string list \<Rightarrow> yaml \<Rightarrow> bool" where
  "has kz r ts v \<longleftrightarrow> (\<exists>d. content kz r = Some d \<and> ptrGet ts (YMap d) = Some v)"

definition path :: "FieldMapping \<Rightarrow> string list" where
  "path m = parsePtr (fm_TargetField m)"

definition valueOf :: "FieldMapping \<Rightarrow> yaml" where
  "valueOf m = (if isEmpty (fm_SourceValue m) then fm_DefaultValue m else fm_SourceValue m)"

definition goodMapping :: "FieldMapping \<Rightarrow> bool" where
  "goodMapping m \<longleftrightarrow> ptrText (path m) = fm_TargetField m \<and> path m \<noteq> [] \<and> list_all tokenOK (path m)
     \<and> list_all plainToken (butlast (path m)) \<and> hd (path m) \<noteq> ''kind'' \<and> fm_CreateIfNotExists m
     \<and> fm_TargetKind m \<noteq> []"

lemma setTargetField_ok:
  assumes "rfc6901 kz" "updatesData kz" "goodMapping m" "setTargetField kz r v m = Inr r'"
  shows "has kz r' (path m) v"
    "\<not> comparable (path m) us \<Longrightarrow> list_all tokenOK us \<Longrightarrow> has kz r us w \<Longrightarrow> has kz r' us w"
proof -
  have m: "fm_TargetField m = ptrText (path m)" "path m \<noteq> []" "list_all tokenOK (path m)"
    "list_all plainToken (butlast (path m))" "fm_CreateIfNotExists m"
    using assms(3) by (auto simp: goodMapping_def)
  obtain d y where d: "content kz r = Some d"
    "setWithPathCreation kz (YMap d) (ptrText (path m)) (path m) v = Inr y" "kz_Update kz r y = Inr r'"
    using assms(4) m(5) rfc6901D(1) [OF assms(1) m(2,3)] unfolding setTargetField_def m(1)
    by (auto split: sum.splits)
  obtain d' where d': "y = YMap d'" "content kz r' = Some d'" using updatesDataD [OF assms(2) d(3)] by blast
  note ok = setWithPathCreation_ok [OF assms(1) m(2,3,4) d(2)]
  show "has kz r' (path m) v" using ok(1) d' by (simp add: has_def)
  show "\<not> comparable (path m) us \<Longrightarrow> list_all tokenOK us \<Longrightarrow> has kz r us w \<Longrightarrow> has kz r' us w"
    using ok(2) d d' by (simp add: has_def)
qed

lemma readsContentD:
  assumes "readsContent kz"
  shows "content kz r = Some d \<Longrightarrow> kz_Kind kz r = textAt d ''kind''"
    "content kz r = Some d \<Longrightarrow> kz_Name kz r = nameOfData d"
    "kz_SetName kz r n = Inr r' \<Longrightarrow> kz_Kind kz r' = kz_Kind kz r \<and> kz_Name kz r' = n"
    "kz_SetNamespace kz r n = Inr r' \<Longrightarrow> kz_Kind kz r' = kz_Kind kz r \<and> kz_Name kz r' = kz_Name kz r"
  using assms by (simp_all add: readsContent_def)

lemma textAt_mget: "textAt d k \<noteq> [] \<Longrightarrow> mget d k = Some (YStr (textAt d k))"
  by (auto simp: textAt_def mfield_def split: option.splits)

lemma kind_has: "readsContent kz \<Longrightarrow> content kz r = Some d \<Longrightarrow> kz_Kind kz r \<noteq> [] \<Longrightarrow>
    has kz r [''kind''] (YStr (kz_Kind kz r))"
  by (simp add: has_def readsContentD(1) textAt_mget)

lemma has_kind: "readsContent kz \<Longrightarrow> has kz r [''kind''] (YStr k) \<Longrightarrow> kz_Kind kz r = k"
  by (auto simp: has_def readsContentD(1) textAt_def mfield_def split: option.splits)

lemma tokenOK_names [simp]: "tokenOK ''kind''" "tokenOK ''metadata''" "tokenOK ''name''" "tokenOK ''spec''"
  by (simp_all add: tokenOK_def isAsciiLower_def less_eq_char_def)

lemma setTargetField_kind:
  assumes "rfc6901 kz" "updatesData kz" "readsContent kz" "goodMapping m" "setTargetField kz r v m = Inr r'"
    "kz_Kind kz r = fm_TargetKind m"
  shows "kz_Kind kz r' = kz_Kind kz r"
proof -
  obtain d where "content kz r = Some d" using assms(5) by (auto simp: setTargetField_def split: sum.splits)
  then have "has kz r [''kind''] (YStr (kz_Kind kz r))" using kind_has assms(3,4,6) by (metis goodMapping_def)
  moreover have "\<not> comparable (path m) [''kind'']" using assms(4) by (cases "path m") (auto simp: goodMapping_def)
  ultimately have "has kz r' [''kind''] (YStr (kz_Kind kz r))"
    using setTargetField_ok(2) [OF assms(1,2,4,5)] by simp
  then show ?thesis by (rule has_kind [OF assms(3)])
qed

text \<open>What a step from \<open>r\<close> to \<open>r'\<close> under the mappings \<open>ms\<close> establishes.\<close>

definition mapped :: "('r, 't) Kustomize \<Rightarrow> FieldMapping list \<Rightarrow> 'r \<Rightarrow> 'r \<Rightarrow> bool" where
  "mapped kz ms r r' \<longleftrightarrow> kz_Kind kz r' = kz_Kind kz r
     \<and> (\<forall>m\<in>set ms. kz_Kind kz r = fm_TargetKind m \<longrightarrow> \<not> isEmpty (valueOf m) \<longrightarrow> has kz r' (path m) (valueOf m))
     \<and> (\<forall>us w. list_all tokenOK us \<longrightarrow> has kz r us w \<longrightarrow>
          (\<forall>m\<in>set ms. kz_Kind kz r = fm_TargetKind m \<longrightarrow> \<not> comparable (path m) us) \<longrightarrow> has kz r' us w)
     \<and> (r' = r \<or> content kz r \<noteq> None)"

lemma mapped_refl: "mapped kz [] r r"
  by (simp add: mapped_def)

lemma applyMapping_mapped:
  assumes "rfc6901 kz" "updatesData kz" "readsContent kz" "goodMapping m" "applyMapping kz m rs = Inr rs'"
  shows "list_all2 (mapped kz [m]) rs rs'"
proof (cases "isEmpty (valueOf m)")
  case True
  then have "rs' = rs" using assms(5) by (simp add: applyMapping_def valueOf_def Let_def)
  then show ?thesis using True by (auto simp: mapped_def intro: list_all2_refl)
next
  case False
  then have "traverse (map (\<lambda>res. if kz_Kind kz res \<noteq> fm_TargetKind m then Inr res
      else mapErr (\<lambda>e. ''failed to set target field for mapping '' @ fm_TargetField m @ '': '' @ e)
             (setTargetField kz res (valueOf m) m)) rs) = Inr rs'"
    using assms(5) by (simp only: applyMapping_def valueOf_def [symmetric] Let_def if_False)
  then show ?thesis
  proof (rule traverse_map_list_all2, goal_cases)
    case (1 r r')
    show ?case
    proof (cases "kz_Kind kz r = fm_TargetKind m")
      case True
      then have s: "setTargetField kz r (valueOf m) m = Inr r'" using 1 by simp
      show ?thesis
        using setTargetField_ok [OF assms(1,2,4) s] setTargetField_kind [OF assms(1-4) s True] True s
        by (auto simp: mapped_def setTargetField_def parseData_Inl split: sum.splits)
    next
      case False
      then show ?thesis using 1 by (simp add: mapped_def)
    qed
  qed
qed

definition separate :: "FieldMapping \<Rightarrow> FieldMapping \<Rightarrow> bool" where
  "separate m n \<longleftrightarrow> fm_TargetKind m \<noteq> fm_TargetKind n \<or> \<not> comparable (path n) (path m)"

lemma mapped_trans:
  assumes "mapped kz [m] r r1" "mapped kz ms r1 r'" "goodMapping m" "list_all (separate m) ms"
  shows "mapped kz (m # ms) r r'"
  using assms unfolding mapped_def separate_def goodMapping_def list_all_iff by auto

lemma fieldTransform_mapped:
  assumes "rfc6901 kz" "updatesData kz" "readsContent kz"
  shows "fieldTransform kz ms rs = Inr rs' \<Longrightarrow> list_all goodMapping ms \<Longrightarrow> sorted_wrt separate ms
     \<Longrightarrow> list_all2 (mapped kz ms) rs rs'"
proof (induction ms arbitrary: rs)
  case Nil
  then show ?case by (auto simp: mapped_refl intro: list_all2_refl)
next
  case (Cons m ms)
  then obtain rs1 where r: "applyMapping kz m rs = Inr rs1" "fieldTransform kz ms rs1 = Inr rs'"
    by (auto simp: ebind_Inr_iff)
  have "list_all2 (mapped kz [m]) rs rs1" using applyMapping_mapped [OF assms _ r(1)] Cons.prems by simp
  moreover have "list_all2 (mapped kz ms) rs1 rs'" using Cons.IH [OF r(2)] Cons.prems by simp
  ultimately show ?case
    using Cons.prems mapped_trans by (intro list_all2_trans [of "mapped kz [m]" "mapped kz ms" "mapped kz (m # ms)"])
      (auto simp: list_all_iff)
qed

section \<open>The mappings of an instance\<close>

definition instanceLabel :: string where
  "instanceLabel = ''app.kubernetes.io/instance''"

lemma mapping_paths:
  "path (fmap a b ''/spec/resources/requests/storage'' k) = [''spec'', ''resources'', ''requests'', ''storage'']"
  "path (fmap a b ''/spec/ports/0/port'' k) = [''spec'', ''ports'', ''0'', ''port'']"
  "path (fmap a b ''/spec/ports/0/targetPort'' k) = [''spec'', ''ports'', ''0'', ''targetPort'']"
  "path (fmap a b ''/spec/selector/app.kubernetes.io~1instance'' k) = [''spec'', ''selector'', instanceLabel]"
  "path (fmap a b ''/metadata/name'' k) = [''metadata'', ''name'']"
  "path (fmap a b ''/spec/replicas'' k) = [''spec'', ''replicas'']"
  "path (fmap a b ''/spec/template/spec/serviceAccountName'' k) = [''spec'', ''template'', ''spec'', ''serviceAccountName'']"
  "path (fmap a b ''/spec/selector/matchLabels/app.kubernetes.io~1instance'' k) =
     [''spec'', ''selector'', ''matchLabels'', instanceLabel]"
  "path (fmap a b ''/spec/template/metadata/labels/app.kubernetes.io~1instance'' k) =
     [''spec'', ''template'', ''metadata'', ''labels'', instanceLabel]"
  "path (fmap a b ''/subjects/0/name'' k) = [''subjects'', ''0'', ''name'']"
  "path (fmap a b ''/subjects/0/namespace'' k) = [''subjects'', ''0'', ''namespace'']"
  "path (fmap a b ''/spec/scaleTargetRef/name'' k) = [''spec'', ''scaleTargetRef'', ''name'']"
  "path (fmap a b ''/spec/strategy/type'' k) = [''spec'', ''strategy'', ''type'']"
  by (simp_all add: path_def fmap_def parsePtr.simps instanceLabel_def)

lemma fmap_simps [simp]:
  "fm_TargetKind (fmap a b f k) = k" "fm_TargetField (fmap a b f k) = f" "fm_CreateIfNotExists (fmap a b f k)"
  "valueOf (fmap a b f k) = (if isEmpty a then b else a)"
  by (simp_all add: fmap_def valueOf_def)

lemma mappings_good: "list_all goodMapping (getFieldMappings inst)"
  by (simp add: getFieldMappings_def buildFieldMappings_def goodMapping_def mapping_paths ptrText_def escapeToken_def
      tokenOK_def plainToken_def isAsciiLower_def less_eq_char_def instanceLabel_def)

lemma mappings_separate: "sorted_wrt separate (getFieldMappings inst)"
  by (simp add: getFieldMappings_def buildFieldMappings_def separate_def mapping_paths instanceLabel_def)

lemma isEmpty_simps [simp]: "isEmpty YNull" "isEmpty (YStr s) = (s = [])" "\<not> isEmpty (YInt i)"
  by (simp_all add: isEmpty_def)

lemma servicePort_value:
  "(if isEmpty (getServicePort inst) then YInt DefaultServerPort else getServicePort inst) = YInt (GetServicePort inst)"
  by (simp add: getServicePort_def GetServicePort_def split: option.split)

section \<open>The other plugins\<close>

lemma namePrefix_names:
  assumes "readsContent kz" "namePrefixTransform kz c rs = Inr rs'" "npx_IncludeKinds c = []"
  shows "list_all2 (\<lambda>r r'. kz_Kind kz r' = kz_Kind kz r
     \<and> (kz_Kind kz r \<notin> set (npx_ExcludeKinds c) \<longrightarrow> hasPrefix (kz_Name kz r') (npx_Prefix c @ ''-''))) rs rs'"
  using assms(2) unfolding namePrefixTransform_def
proof (rule traverse_map_list_all2, goal_cases)
  case (1 r r')
  then show ?case
    using assms(3) readsContentD(3) [OF assms(1), of r "makePrefixedName (npx_Prefix c) (kz_Name kz r)" r']
    by (auto simp: shouldApplyToKind_def makePrefixedName_def hasPrefix_def Let_def split: if_splits option.splits)
qed

lemma namespace_names:
  assumes "readsContent kz" "namespaceTransform kz ns rs = Inr rs'"
  shows "list_all2 (\<lambda>r r'. kz_Kind kz r' = kz_Kind kz r \<and> kz_Name kz r' = kz_Name kz r) rs rs'"
  using assms(2) unfolding namespaceTransform_def
  by (rule traverse_map_list_all2) (auto dest: readsContentD(4) [OF assms(1)] split: if_splits)

lemma nameOfData_has: "nameOfData d \<noteq> [] \<Longrightarrow> ptrGet [''metadata'', ''name''] (YMap d) = Some (YStr (nameOfData d))"
  by (auto simp: nameOfData_def mfield_def textAt_def split: option.splits)

lemma ptrIndex_name [simp]: "ptrIndex ''name'' l = None" "ptrIndex ''replicas'' l = None"
  by (simp_all add: ptrIndex_def isDigit_def less_eq_char_def)

lemma ptrGet_nameOfData: "ptrGet [''metadata'', ''name''] (YMap d) = Some (YStr n) \<Longrightarrow> nameOfData d = n"
  by (auto simp: nameOfData_def textAt_def mfield_def split: option.splits yaml.splits)

lemma has_name: "readsContent kz \<Longrightarrow> has kz r [''metadata'', ''name''] (YStr n) \<Longrightarrow> kz_Name kz r = n"
  using readsContentD(2) ptrGet_nameOfData unfolding has_def by metis

lemma mapped_name:
  assumes "readsContent kz" "mapped kz ms r r'" "kz_Name kz r \<noteq> []"
    "\<forall>m\<in>set ms. kz_Kind kz r = fm_TargetKind m \<longrightarrow> \<not> comparable (path m) [''metadata'', ''name'']"
  shows "kz_Name kz r' = kz_Name kz r"
proof (cases "r' = r")
  case False
  then obtain d where d: "content kz r = Some d" using assms(2) by (auto simp: mapped_def)
  then have "has kz r [''metadata'', ''name''] (YStr (kz_Name kz r))"
    using readsContentD(2) [OF assms(1) d] assms(3) nameOfData_has by (simp add: has_def)
  then have "has kz r' [''metadata'', ''name''] (YStr (kz_Name kz r))"
    using assms(2,4) by (simp add: mapped_def)
  then show ?thesis by (rule has_name [OF assms(1)])
qed simp

text \<open>The plugins after the field mutator change the specification only.\<close>

definition specUpdate :: "('r, 't) Kustomize \<Rightarrow> (ymap \<Rightarrow> ymap \<Rightarrow> bool) \<Rightarrow> 'r \<Rightarrow> 'r \<Rightarrow> bool" where
  "specUpdate kz P r r' \<longleftrightarrow> (\<exists>d spec spec'. content kz r = Some d \<and> mget d ''spec'' = Some (YMap spec)
     \<and> content kz r' = Some (mput ''spec'' (YMap spec') d) \<and> P spec spec')"

lemma mfield_asMap [simp]: "mfield d k = YMap m \<longleftrightarrow> mget d k = Some (YMap m)"
  by (auto simp: mfield_def split: option.splits)

lemma mfield_asList [simp]: "mfield d k = YList m \<longleftrightarrow> mget d k = Some (YList m)"
  by (auto simp: mfield_def split: option.splits)

lemma specUpdate_same:
  assumes "readsContent kz" "specUpdate kz P r r'"
  shows "kz_Kind kz r' = kz_Kind kz r" "kz_Name kz r' = kz_Name kz r"
proof -
  obtain d spec' where d: "content kz r = Some d" "content kz r' = Some (mput ''spec'' (YMap spec') d)"
    using assms(2) by (auto simp: specUpdate_def)
  show "kz_Kind kz r' = kz_Kind kz r" "kz_Name kz r' = kz_Name kz r"
    using readsContentD(1,2) [OF assms(1) d(1)] readsContentD(1,2) [OF assms(1) d(2)]
    by (simp_all add: textAt_def nameOfData_def)
qed

lemma specUpdate_has:
  assumes "specUpdate kz P r r'" "has kz r (''spec'' # us) w"
    "\<And>spec spec'. P spec spec' \<Longrightarrow> ptrGet us (YMap spec) = Some w \<Longrightarrow> ptrGet us (YMap spec') = Some w"
  shows "has kz r' (''spec'' # us) w"
  using assms by (fastforce simp: specUpdate_def has_def)

lemma policy_stage:
  assumes "updatesData kz" "applyNetworkPolicyTransformer kz o' rs inst peer praxis = Inr rs'"
  shows "list_all2 (\<lambda>r r'. r' = r \<or> (kz_Kind kz r = ''NetworkPolicy'' \<and> specUpdate kz (\<lambda>_ _. True) r r')) rs rs'"
  using assms(2) unfolding applyNetworkPolicyTransformer_def networkPolicyTransform_def
proof (rule traverse_map_list_all2, goal_cases)
  case (1 r r')
  then show ?case
    by (auto simp: transformNetworkPolicy_def specUpdate_def dest!: updatesData_YMap [OF assms(1)]
        split: if_splits sum.splits option.splits)
qed

lemma service_stage:
  assumes "updatesData kz" "applyServiceTransformer kz inst rs = Inr rs'"
  shows "list_all2 (\<lambda>r r'. r' = r \<or> (kz_Kind kz r = ''Service'' \<and> specUpdate kz (\<lambda>spec spec'.
     \<exists>ports p. mget spec ''ports'' = Some (YList ports) \<and> spec' = mput ''ports'' (YList (ports @ [p])) spec) r r')) rs rs'"
proof -
  let ?c = "\<lparr>stc_MetricsPort = getEffectiveMetricsPort inst, stc_ServicePort = GetServicePort inst\<rparr>"
  show ?thesis
  proof (cases "getEffectiveMetricsPort inst = 0 \<or> getEffectiveMetricsPort inst = GetServicePort inst")
    case True
    then have "rs' = rs" using assms(2) by (simp add: applyServiceTransformer_def serviceTransform_def)
    then show ?thesis by (simp add: list_all2_refl)
  next
    case False
    then have "traverse (map (transformService kz ?c) rs) = Inr rs'"
      using assms(2) by (simp add: applyServiceTransformer_def serviceTransform_def)
    then show ?thesis
    proof (rule traverse_map_list_all2, goal_cases)
      case (1 r r')
      show ?case
      proof (cases "r' = r")
        case False
        then obtain d spec ports where "kz_Kind kz r = ''Service''" "content kz r = Some d" "mget d ''spec'' = Some (YMap spec)"
          "mget spec ''ports'' = Some (YList ports)"
          "kz_Update kz r (YMap (mput ''spec'' (YMap (mput ''ports''
             (YList (ports @ [metricsPort (stc_MetricsPort ?c)])) spec)) d)) = Inr r'"
          using 1 by (auto simp: transformService_def split: if_splits sum.splits option.splits)
        then show ?thesis using updatesData_YMap [OF assms(1)] by (auto simp: specUpdate_def)
      qed simp
    qed
  qed
qed

lemma replicas_stage:
  assumes "updatesData kz" "removeDeploymentReplicas kz rs = Inr rs'"
  shows "list_all2 (\<lambda>r r'. if kz_Kind kz r \<noteq> ''Deployment'' then r' = r
     else (r' = r \<and> (\<forall>v. \<not> has kz r' [''spec'', ''replicas''] v))
       \<or> specUpdate kz (\<lambda>spec spec'. spec' = mdel ''replicas'' spec) r r') rs rs'"
  using assms(2) unfolding removeDeploymentReplicas_def
proof (rule traverse_map_list_all2, goal_cases)
  case (1 r r')
  show ?case
  proof (cases "kz_Kind kz r = ''Deployment''")
    case True
    then obtain d where d: "content kz r = Some d"
      "(case asMap (mfield d ''spec'') of None \<Rightarrow> Inr r | Some spec \<Rightarrow> if mget spec ''replicas'' = None then Inr r
        else updateResourceFromData kz r (mput ''spec'' (YMap (mdel ''replicas'' spec)) d)) = Inr r'"
      using 1 by (auto simp: removeReplicas_def parseResourceYAML_def ebind_Inr_iff)
    show ?thesis
    proof (cases "\<exists>spec. mget d ''spec'' = Some (YMap spec) \<and> mget spec ''replicas'' \<noteq> None")
      case upd: True
      then obtain spec where spec: "mget d ''spec'' = Some (YMap spec)" "mget spec ''replicas'' \<noteq> None" by blast
      then have am: "asMap (mfield d ''spec'') = Some spec" by simp
      have "kz_Update kz r (YMap (mput ''spec'' (YMap (mdel ''replicas'' spec)) d)) = Inr r'"
        using d(2) spec(2) unfolding am by (simp add: updateResourceFromData_def)
      then show ?thesis using True d(1) spec updatesData_YMap [OF assms(1)] by (auto simp: specUpdate_def)
    next
      case False
      then have "r' = r" using d(2) by (auto simp: asMap_def mfield_def split: option.splits yaml.splits if_splits)
      moreover have "\<not> has kz r [''spec'', ''replicas''] v" for v
        using False d(1) by (auto simp: has_def split: option.splits yaml.splits)
      ultimately show ?thesis using True by simp
    qed
  next
    case False
    then show ?thesis using 1 by (simp add: removeReplicas_def)
  qed
qed

section \<open>Rendered manifests\<close>

text \<open>What the rendered resource \<open>r\<close> of kind \<open>k\<close> holds for the instance.\<close>

definition rendered :: "('r, 't) Kustomize \<Rightarrow> OGXServer \<Rightarrow> string \<Rightarrow> 'r \<Rightarrow> bool" where
  "rendered kz inst k r \<longleftrightarrow>
     (let n = meta_Name (srv_ObjectMeta inst);
          labelled = (\<lambda>ts. has kz r (ts @ [instanceLabel]) (YStr n))
      in kz_Kind kz r = k
       \<and> (if k = ''Deployment'' then kz_Name kz r = n else hasPrefix (kz_Name kz r) (n @ ''-''))
       \<and> (k = ''Deployment'' \<longrightarrow>
            labelled [''spec'', ''selector'', ''matchLabels''] \<and> labelled [''spec'', ''template'', ''metadata'', ''labels'']
            \<and> has kz r [''spec'', ''template'', ''spec'', ''serviceAccountName''] (YStr (n @ ''-sa''))
            \<and> (if isAutoscalingEnabled inst then \<forall>v. \<not> has kz r [''spec'', ''replicas''] v
               else has kz r [''spec'', ''replicas''] (YInt (GetEffectiveReplicas inst))))
       \<and> (k = ''Service'' \<longrightarrow>
            labelled [''spec'', ''selector'']
            \<and> has kz r [''spec'', ''ports'', ''0'', ''port''] (YInt (GetServicePort inst))
            \<and> has kz r [''spec'', ''ports'', ''0'', ''targetPort''] (YInt (GetServicePort inst)))
       \<and> (k = ''PodDisruptionBudget'' \<longrightarrow> labelled [''spec'', ''selector'', ''matchLabels''])
       \<and> (k = ''HorizontalPodAutoscaler'' \<longrightarrow> has kz r [''spec'', ''scaleTargetRef'', ''name''] (YStr n))
       \<and> (k = ''RoleBinding'' \<longrightarrow> has kz r [''subjects'', ''0'', ''name''] (YStr (n @ ''-sa''))
            \<and> has kz r [''subjects'', ''0'', ''namespace''] (YStr (meta_Namespace (srv_ObjectMeta inst)))))"

lemma mapped_instance:
  assumes "mapped kz (getFieldMappings inst) r r'" "meta_Name (srv_ObjectMeta inst) \<noteq> []"
    "meta_Namespace (srv_ObjectMeta inst) \<noteq> []"
  defines "n \<equiv> meta_Name (srv_ObjectMeta inst)" and "k \<equiv> kz_Kind kz r"
  shows "k = ''Deployment'' \<Longrightarrow> has kz r' [''metadata'', ''name''] (YStr n)
      \<and> has kz r' [''spec'', ''selector'', ''matchLabels'', instanceLabel] (YStr n)
      \<and> has kz r' [''spec'', ''template'', ''metadata'', ''labels'', instanceLabel] (YStr n)
      \<and> has kz r' [''spec'', ''template'', ''spec'', ''serviceAccountName''] (YStr (n @ ''-sa''))
      \<and> has kz r' [''spec'', ''replicas''] (YInt (GetEffectiveReplicas inst))"
    "k = ''Service'' \<Longrightarrow> has kz r' [''spec'', ''selector'', instanceLabel] (YStr n)
      \<and> has kz r' [''spec'', ''ports'', ''0'', ''port''] (YInt (GetServicePort inst))
      \<and> has kz r' [''spec'', ''ports'', ''0'', ''targetPort''] (YInt (GetServicePort inst))"
    "k = ''PodDisruptionBudget'' \<Longrightarrow> has kz r' [''spec'', ''selector'', ''matchLabels'', instanceLabel] (YStr n)"
    "k = ''HorizontalPodAutoscaler'' \<Longrightarrow> has kz r' [''spec'', ''scaleTargetRef'', ''name''] (YStr n)"
    "k = ''RoleBinding'' \<Longrightarrow> has kz r' [''subjects'', ''0'', ''name''] (YStr (n @ ''-sa''))
      \<and> has kz r' [''subjects'', ''0'', ''namespace''] (YStr (meta_Namespace (srv_ObjectMeta inst)))"
    "kz_Kind kz r' = k"
proof -
  have set: "has kz r' (path m) (valueOf m)"
    if "m \<in> set (getFieldMappings inst)" "k = fm_TargetKind m" "\<not> isEmpty (valueOf m)" for m
    using assms(1) that by (auto simp: mapped_def k_def)
  note set' = set [unfolded getFieldMappings_def buildFieldMappings_def set_append list.set insert_iff Un_iff]
  show "k = ''Deployment'' \<Longrightarrow> has kz r' [''metadata'', ''name''] (YStr n)
      \<and> has kz r' [''spec'', ''selector'', ''matchLabels'', instanceLabel] (YStr n)
      \<and> has kz r' [''spec'', ''template'', ''metadata'', ''labels'', instanceLabel] (YStr n)
      \<and> has kz r' [''spec'', ''template'', ''spec'', ''serviceAccountName''] (YStr (n @ ''-sa''))
      \<and> has kz r' [''spec'', ''replicas''] (YInt (GetEffectiveReplicas inst))"
    using set' [of "fmap (YStr n) YNull ''/metadata/name'' ''Deployment''"]
      set' [of "fmap (YStr n) YNull (''/spec/selector/matchLabels'' @ ''/app.kubernetes.io~1instance'') ''Deployment''"]
      set' [of "fmap (YStr n) YNull (''/spec/template/metadata/labels'' @ ''/app.kubernetes.io~1instance'') ''Deployment''"]
      set' [of "fmap (YStr (n @ ''-sa'')) YNull ''/spec/template/spec/serviceAccountName'' ''Deployment''"]
      set' [of "fmap (YInt (GetEffectiveReplicas inst)) YNull ''/spec/replicas'' ''Deployment''"] assms(2)
    by (simp add: n_def mapping_paths)
  show "k = ''Service'' \<Longrightarrow> has kz r' [''spec'', ''selector'', instanceLabel] (YStr n)
      \<and> has kz r' [''spec'', ''ports'', ''0'', ''port''] (YInt (GetServicePort inst))
      \<and> has kz r' [''spec'', ''ports'', ''0'', ''targetPort''] (YInt (GetServicePort inst))"
    using set' [of "fmap (YStr n) YNull (''/spec/selector'' @ ''/app.kubernetes.io~1instance'') ''Service''"]
      set' [of "fmap (getServicePort inst) (YInt DefaultServerPort) ''/spec/ports/0/port'' ''Service''"]
      set' [of "fmap (getServicePort inst) (YInt DefaultServerPort) ''/spec/ports/0/targetPort'' ''Service''"] assms(2)
    by (simp add: n_def mapping_paths servicePort_value)
  show "k = ''PodDisruptionBudget'' \<Longrightarrow> has kz r' [''spec'', ''selector'', ''matchLabels'', instanceLabel] (YStr n)"
    using set' [of "fmap (YStr n) YNull (''/spec/selector/matchLabels'' @ ''/app.kubernetes.io~1instance'') ''PodDisruptionBudget''"] assms(2)
    by (simp add: n_def mapping_paths)
  show "k = ''HorizontalPodAutoscaler'' \<Longrightarrow> has kz r' [''spec'', ''scaleTargetRef'', ''name''] (YStr n)"
    using set' [of "fmap (YStr n) YNull ''/spec/scaleTargetRef/name'' ''HorizontalPodAutoscaler''"] assms(2)
    by (simp add: n_def mapping_paths)
  show "k = ''RoleBinding'' \<Longrightarrow> has kz r' [''subjects'', ''0'', ''name''] (YStr (n @ ''-sa''))
      \<and> has kz r' [''subjects'', ''0'', ''namespace''] (YStr (meta_Namespace (srv_ObjectMeta inst)))"
    using set' [of "fmap (YStr (n @ ''-sa'')) YNull ''/subjects/0/name'' ''RoleBinding''"]
      set' [of "fmap (YStr (meta_Namespace (srv_ObjectMeta inst))) YNull ''/subjects/0/namespace'' ''RoleBinding''"] assms(3)
    by (simp add: n_def mapping_paths)
  show "kz_Kind kz r' = k" using assms(1) by (simp add: mapped_def k_def)
qed

lemma name_untouched:
  "k \<noteq> ''Deployment'' \<Longrightarrow> \<forall>m\<in>set (getFieldMappings inst). k = fm_TargetKind m \<longrightarrow> \<not> comparable (path m) [''metadata'', ''name'']"
  by (auto simp: getFieldMappings_def buildFieldMappings_def mapping_paths split: if_splits)

lemma has_ports_append:
  "ptrGet [''ports'', ''0'', f] (YMap spec) = Some w \<Longrightarrow> mget spec ''ports'' = Some (YList ports) \<Longrightarrow>
   ptrGet [''ports'', ''0'', f] (YMap (mput ''ports'' (YList (ports @ [p])) spec)) = Some w"
  by (auto simp: ptrIndex_def nth_append split: option.splits if_splits)

lemma rendered_service:
  assumes "rendered kz inst ''Service'' r" "readsContent kz" "specUpdate kz (\<lambda>spec spec'.
     \<exists>ports p. mget spec ''ports'' = Some (YList ports) \<and> spec' = mput ''ports'' (YList (ports @ [p])) spec) r r'"
  shows "rendered kz inst ''Service'' r'"
proof -
  have "has kz r' (''spec'' # us) w" if "has kz r (''spec'' # us) w" "us = [''ports'', ''0'', f] \<or> us = ''selector'' # vs" for us w f vs
    using that by (intro specUpdate_has [OF assms(3)]) (auto simp del: ptrGet.simps(2) intro: has_ports_append, simp_all)
  then show ?thesis using assms(1) specUpdate_same [OF assms(2,3)]
    by (simp add: rendered_def Let_def)
qed

lemma rendered_deployment:
  assumes "readsContent kz" "specUpdate kz (\<lambda>spec spec'. spec' = mdel ''replicas'' spec) r r'"
    "has kz r (''spec'' # t # us) w" "t \<noteq> ''replicas''"
  shows "has kz r' (''spec'' # t # us) w"
  using assms(4) by (intro specUpdate_has [OF assms(2,3)]) simp

lemma no_replicas: "specUpdate kz (\<lambda>spec spec'. spec' = mdel ''replicas'' spec) r r' \<Longrightarrow> \<not> has kz r' [''spec'', ''replicas''] v"
  by (auto simp: specUpdate_def has_def)

lemma render_chain:
  assumes "readsContent kz" "meta_Name (srv_ObjectMeta inst) \<noteq> []" "meta_Namespace (srv_ObjectMeta inst) \<noteq> []"
    and pre: "kz_Kind kz r2 = ''Deployment'' \<or> hasPrefix (kz_Name kz r2) (meta_Name (srv_ObjectMeta inst) @ ''-'')"
    and m: "mapped kz (getFieldMappings inst) r2 r3"
    and pol: "r4 = r3 \<or> (kz_Kind kz r3 = ''NetworkPolicy'' \<and> specUpdate kz (\<lambda>_ _. True) r3 r4)"
    and svc: "r5 = r4 \<or> (kz_Kind kz r4 = ''Service'' \<and> specUpdate kz (\<lambda>spec spec'.
       \<exists>ports p. mget spec ''ports'' = Some (YList ports) \<and> spec' = mput ''ports'' (YList (ports @ [p])) spec) r4 r5)"
    and rep: "if \<not> isAutoscalingEnabled inst \<or> kz_Kind kz r5 \<noteq> ''Deployment'' then r6 = r5
       else (r6 = r5 \<and> (\<forall>v. \<not> has kz r6 [''spec'', ''replicas''] v))
         \<or> specUpdate kz (\<lambda>spec spec'. spec' = mdel ''replicas'' spec) r5 r6"
  shows "rendered kz inst (kz_Kind kz r2) r6"
proof -
  let ?n = "meta_Name (srv_ObjectMeta inst)"
  note mi = mapped_instance [OF m assms(2,3)]
  have k3: "kz_Kind kz r3 = kz_Kind kz r2" using mi(6) .
  have k4: "kz_Kind kz r4 = kz_Kind kz r3" "kz_Name kz r4 = kz_Name kz r3"
    using pol specUpdate_same [OF assms(1)] by blast+
  have n3: "hasPrefix (kz_Name kz r3) (?n @ ''-'')" if "kz_Kind kz r2 \<noteq> ''Deployment''"
    using mapped_name [OF assms(1) m _ name_untouched [OF that]] pre that
    by (cases "kz_Name kz r2 = []") (auto simp: hasPrefix_def)
  consider (dep) "kz_Kind kz r2 = ''Deployment''" | (svc) "kz_Kind kz r2 = ''Service''"
    | (other) "kz_Kind kz r2 \<noteq> ''Deployment''" "kz_Kind kz r2 \<noteq> ''Service''" by blast
  then show ?thesis
  proof cases
    case dep
    then have r5: "r5 = r3" using pol svc k3 k4 by auto
    have nm: "kz_Name kz r3 = ?n" using has_name [OF assms(1)] mi(1) dep by blast
    show ?thesis
    proof (cases "isAutoscalingEnabled inst \<and> specUpdate kz (\<lambda>spec spec'. spec' = mdel ''replicas'' spec) r5 r6")
      case True
      note up = True [THEN conjunct2]
      show ?thesis
        using dep mi(1) nm k3 True specUpdate_same [OF assms(1) up] rendered_deployment [OF assms(1) up] no_replicas [OF up]
        by (simp add: rendered_def r5)
    next
      case False
      then show ?thesis using dep mi(1) nm k3 rep r5 by (auto simp: rendered_def)
    qed
  next
    case svc': svc
    then have r4: "r4 = r3" using pol k3 by auto
    have "rendered kz inst ''Service'' r4" using svc' mi(2) n3 k3 r4 by (simp add: rendered_def)
    then have r5: "rendered kz inst ''Service'' r5" using svc rendered_service [OF _ assms(1)] by blast
    then have "r6 = r5" using rep by (auto simp: rendered_def Let_def split: if_splits)
    then show ?thesis using r5 svc' by simp
  next
    case other
    then have r5: "r5 = r4" using svc k3 k4 by auto
    then have r6: "r6 = r4" using rep other k3 k4 by auto
    show ?thesis
    proof (cases "r4 = r3")
      case True
      then show ?thesis using other mi(3,4,5) n3 k3 r6 by (simp add: rendered_def)
    next
      case False
      then have "kz_Kind kz r2 = ''NetworkPolicy''" using pol k3 by simp
      then show ?thesis using other n3 k3 k4 r6 by (simp add: rendered_def)
    qed
  qed
qed

lemma plugins_rendered:
  assumes "updatesData kz" "readsContent kz" "rfc6901 kz" "meta_Name (srv_ObjectMeta inst) \<noteq> []"
    and "applyPlugins kz operatorNS inst peer praxis rs = Inr rs'"
  shows "list_all2 (\<lambda>r r'. rendered kz inst (kz_Kind kz r) r') rs rs'"
proof -
  let ?c = "\<lparr>npx_Prefix = meta_Name (srv_ObjectMeta inst), npx_IncludeKinds = [], npx_ExcludeKinds = [''Deployment'']\<rparr>"
  obtain rs1 rs2 rs3 rs4 rs5 where s: "namePrefixTransform kz ?c rs = Inr rs1"
      "namespaceTransform kz (meta_Namespace (srv_ObjectMeta inst)) rs1 = Inr rs2"
      "fieldTransform kz (getFieldMappings inst) rs2 = Inr rs3"
      "applyNetworkPolicyTransformer kz operatorNS rs3 inst peer praxis = Inr rs4"
      "applyServiceTransformer kz inst rs4 = Inr rs5"
      "if isAutoscalingEnabled inst then removeDeploymentReplicas kz rs5 = Inr rs' else rs' = rs5"
    and ns: "meta_Namespace (srv_ObjectMeta inst) \<noteq> []"
    using assms(5) by (auto simp: applyPlugins_def ebind_Inr_iff CreateNamespacePlugin_def split: if_splits option.splits)
  note l1 = namePrefix_names [OF assms(2) s(1)]
  note l2 = namespace_names [OF assms(2) s(2)]
  note l3 = fieldTransform_mapped [OF assms(3,1,2) s(3) mappings_good mappings_separate]
  note l4 = policy_stage [OF assms(1) s(4)]
  note l5 = service_stage [OF assms(1) s(5)]
  have l6: "list_all2 (\<lambda>r r'. if \<not> isAutoscalingEnabled inst \<or> kz_Kind kz r \<noteq> ''Deployment'' then r' = r
       else (r' = r \<and> (\<forall>v. \<not> has kz r' [''spec'', ''replicas''] v))
         \<or> specUpdate kz (\<lambda>spec spec'. spec' = mdel ''replicas'' spec) r r') rs5 rs'"
    using s(6) replicas_stage [OF assms(1), of rs5 rs'] by (cases "isAutoscalingEnabled inst") (simp_all add: list_all2_refl)
  have len: "length rs1 = length rs" "length rs2 = length rs" "length rs3 = length rs" "length rs4 = length rs"
      "length rs5 = length rs" "length rs' = length rs"
    using l1 [THEN list_all2_lengthD] l2 [THEN list_all2_lengthD] l3 [THEN list_all2_lengthD] l4 [THEN list_all2_lengthD]
      l5 [THEN list_all2_lengthD] l6 [THEN list_all2_lengthD] by simp_all
  show ?thesis
  proof (rule list_all2_all_nthI)
    fix i assume i: "i < length rs"
    have n: "kz_Kind kz (rs2 ! i) = kz_Kind kz (rs ! i)"
        "kz_Kind kz (rs2 ! i) = ''Deployment'' \<or> hasPrefix (kz_Name kz (rs2 ! i)) (meta_Name (srv_ObjectMeta inst) @ ''-'')"
      using list_all2_nthD [OF l1 i] list_all2_nthD [OF l2] i len by auto
    show "rendered kz inst (kz_Kind kz (rs ! i)) (rs' ! i)"
      using render_chain [OF assms(2,4) ns n(2) list_all2_nthD [OF l3] list_all2_nthD [OF l4] list_all2_nthD [OF l5]
          list_all2_nthD [OF l6]] i len n(1) by simp
  qed (simp add: len)
qed

section \<open>Properties\<close>


section \<open>Examples\<close>

definition exManifests :: "ymap list" where
  "exManifests =
     [mlit [(''kind'', YStr ''Service''), (''metadata'', YMap (mlit [(''name'', YStr ''service'')])),
        (''spec'', YMap (mlit [(''ports'', YList [YMap (mlit [(''name'', YStr ''http'')])])]))],
      mlit [(''kind'', YStr ''Deployment''), (''metadata'', YMap (mlit [(''name'', YStr ''ogx'')])), (''spec'', YMap mempty)]]"


end
