(* ===== verification/Render.thy ===== *)
theory Render
  imports Manifest_Correct
begin

text \<open>
  Rendering with a manifest context (\<open>pkg/deploy/kustomizer.go\<close>): running kustomize on the manifest
  directory, the plugins, and the parts of the Deployment, PodDisruptionBudget and autoscaler that
  the controller computes.  The file system and the kustomize run are arguments.
\<close>

section \<open>Paths\<close>

fun splitSlash :: "string \<Rightarrow> string \<Rightarrow> string list" where
  "splitSlash acc [] = [rev acc]"
| "splitSlash acc (c # cs) = (if c = CHR ''/'' then rev acc # splitSlash [] cs else splitSlash (c # acc) cs)"

text \<open>\<open>filepath.Clean\<close>: components are pushed on a stack, \<open>.\<close> and empty ones are dropped, \<open>..\<close> pops.\<close>

fun cleanParts :: "bool \<Rightarrow> string list \<Rightarrow> string list \<Rightarrow> string list" where
  "cleanParts rooted stack [] = rev stack"
| "cleanParts rooted stack (p # ps) =
     (if p = [] \<or> p = ''.'' then cleanParts rooted stack ps
      else if p = ''..'' then
        (case stack of
           up # rest \<Rightarrow> if up = ''..'' then cleanParts rooted (''..'' # stack) ps else cleanParts rooted rest ps
         | [] \<Rightarrow> if rooted then cleanParts rooted [] ps else cleanParts rooted [''..''] ps)
      else cleanParts rooted (p # stack) ps)"

definition cleanPath :: "string \<Rightarrow> string" where
  "cleanPath p =
     (let rooted = hasPrefix p ''/'';
          out = (if rooted then ''/'' else []) @ joinWith ''/'' (cleanParts rooted [] (splitSlash [] p))
      in if out = [] then ''.'' else out)"

text \<open>\<open>filepath.Join(dir, name)\<close> for a name that is not empty.\<close>

definition joinPath :: "string \<Rightarrow> string \<Rightarrow> string" where
  "joinPath dir name = (if dir = [] then cleanPath name else cleanPath (dir @ ''/'' @ name))"

section \<open>Rendering\<close>

record 'r Renderer =
  rd_Exists :: "string \<Rightarrow> bool"
  rd_Run :: "string \<Rightarrow> string + 'r list"
  rd_OperatorNamespace :: "string + string"

definition RenderManifest ::
    "('r, 't) Kustomize \<Rightarrow> 'r Renderer \<Rightarrow> string \<Rightarrow> OGXServer \<Rightarrow> NetworkPolicyPeer option \<Rightarrow> bool \<Rightarrow> string + 'r list" where
  "RenderManifest kz rd manifestPath inst peer praxis =
     (let finalManifestPath = (if rd_Exists rd (joinPath manifestPath ''kustomization.yaml'') then manifestPath
                               else joinPath manifestPath ''default'')
      in ebind (mapErr (\<lambda>e. ''failed to run kustomize: '' @ e) (rd_Run rd finalManifestPath))
           (applyPlugins kz (rd_OperatorNamespace rd) inst peer praxis))"

text \<open>
  \<open>ManifestContext\<close>.  The pod and container specifications and the autoscaler's are their JSON
  values (the conversion to unstructured data); the budget's values are an integer or a string.
\<close>

record ManifestContext =
  mc_ResolvedImage :: string
  mc_ConfigMapHash :: string
  mc_CABundleHash :: string
  mc_SecretHash :: string
  mc_ContainerSpec :: ymap
  mc_PodSpec :: ymap
  mc_PodDisruptionBudgetSpec :: "PodDisruptionBudgetSpec option"
  mc_HPASpec :: "ymap option"
  mc_PraxisPeer :: "NetworkPolicyPeer option"
  mc_PraxisMode :: bool

definition praxisPeerFromContext :: "ManifestContext option \<Rightarrow> NetworkPolicyPeer option" where
  "praxisPeerFromContext ctx = (case ctx of None \<Rightarrow> None | Some c \<Rightarrow> mc_PraxisPeer c)"

definition praxisModeFromContext :: "ManifestContext option \<Rightarrow> bool" where
  "praxisModeFromContext ctx = (case ctx of None \<Rightarrow> True | Some c \<Rightarrow> mc_PraxisMode c)"

definition getDeploymentTemplateSpec :: "ymap \<Rightarrow> string + ymap" where
  "getDeploymentTemplateSpec data =
     (case asMap (mfield data ''spec'') of
        None \<Rightarrow> Inl ''failed to find deployment spec''
      | Some spec \<Rightarrow>
          (case asMap (mfield spec ''template'') of
             None \<Rightarrow> Inl ''failed to find deployment template''
           | Some tmpl \<Rightarrow>
               (case asMap (mfield tmpl ''spec'') of
                  None \<Rightarrow> Inl ''failed to find deployment template spec''
                | Some templateSpec \<Rightarrow> Inr templateSpec)))"

text \<open>
  The nested maps of the source are shared, so a change of the inner map is visible through the
  outer one: \<open>onTemplate\<close> rebuilds the path to the pod template.
\<close>

definition onTemplate :: "(ymap \<Rightarrow> ymap) \<Rightarrow> ymap \<Rightarrow> ymap" where
  "onTemplate f data =
     (case asMap (mfield data ''spec'') of None \<Rightarrow> data
      | Some spec \<Rightarrow>
          (case asMap (mfield spec ''template'') of None \<Rightarrow> data
           | Some tmpl \<Rightarrow> mput ''spec'' (YMap (mput ''template'' (YMap (f tmpl)) spec)) data))"

definition putNonEmpty :: "string \<Rightarrow> string \<Rightarrow> ymap \<Rightarrow> ymap" where
  "putNonEmpty k v m = (if v \<noteq> [] then mput k (YStr v) m else m)"

definition addConfigMapAnnotations :: "ManifestContext \<Rightarrow> ymap \<Rightarrow> string + ymap" where
  "addConfigMapAnnotations ctx data =
     (case asMap (mfield data ''spec'') of
        None \<Rightarrow> Inl ''failed to find deployment spec in data''
      | Some spec \<Rightarrow>
          (case asMap (mfield spec ''template'') of
             None \<Rightarrow> Inl ''failed to find deployment template in spec''
           | Some _ \<Rightarrow>
               Inr (onTemplate (\<lambda>tmpl.
                 let templateMeta = (case asMap (mfield tmpl ''metadata'') of Some m \<Rightarrow> m | None \<Rightarrow> mempty);
                     annotations = (case asMap (mfield templateMeta ''annotations'') of Some a \<Rightarrow> a | None \<Rightarrow> mempty);
                     annotations' = putNonEmpty ''secret.hash/referenced'' (mc_SecretHash ctx)
                       (putNonEmpty ''configmap.hash/ca-bundle'' (mc_CABundleHash ctx)
                       (putNonEmpty ''configmap.hash/user-config'' (mc_ConfigMapHash ctx) annotations))
                 in mput ''metadata'' (YMap (mput ''annotations'' (YMap annotations') templateMeta)) tmpl) data)))"

definition updateDeploymentSpec :: "('r, 't) Kustomize \<Rightarrow> ManifestContext \<Rightarrow> 'r \<Rightarrow> string + 'r" where
  "updateDeploymentSpec kz ctx res =
     ebind (parseResourceYAML kz res) (\<lambda>data.
     ebind (getDeploymentTemplateSpec data) (\<lambda>templateSpec.
     ebind (addConfigMapAnnotations ctx
              (onTemplate (mput ''spec'' (YMap (mcopy (mc_PodSpec ctx) templateSpec))) data)) (\<lambda>data'.
     updateResourceFromData kz res data')))"

definition setOrDelete :: "string \<Rightarrow> yaml option \<Rightarrow> ymap \<Rightarrow> ymap" where
  "setOrDelete k v m = (case v of Some x \<Rightarrow> mput k x m | None \<Rightarrow> mdel k m)"

definition updatePodDisruptionBudget :: "('r, 't) Kustomize \<Rightarrow> ManifestContext \<Rightarrow> 'r \<Rightarrow> string + 'r" where
  "updatePodDisruptionBudget kz ctx res =
     (case mc_PodDisruptionBudgetSpec ctx of
        None \<Rightarrow> Inr res
      | Some pdb \<Rightarrow>
          ebind (parseResourceYAML kz res) (\<lambda>data.
            case asMap (mfield data ''spec'') of
              None \<Rightarrow> Inl ''failed to find PDB spec in data''
            | Some spec \<Rightarrow>
                updateResourceFromData kz res (mput ''spec'' (YMap
                  (setOrDelete ''maxUnavailable'' (pdb_MaxUnavailable pdb)
                    (setOrDelete ''minAvailable'' (pdb_MinAvailable pdb) spec))) data)))"

definition updateHorizontalPodAutoscaler :: "('r, 't) Kustomize \<Rightarrow> ManifestContext \<Rightarrow> 'r \<Rightarrow> string + 'r" where
  "updateHorizontalPodAutoscaler kz ctx res =
     (case mc_HPASpec ctx of
        None \<Rightarrow> Inr res
      | Some spec \<Rightarrow>
          ebind (parseResourceYAML kz res) (\<lambda>data.
            updateResourceFromData kz res (mput ''spec'' (YMap spec) data)))"

definition withContext :: "('r, 't) Kustomize \<Rightarrow> ManifestContext \<Rightarrow> 'r \<Rightarrow> string + 'r" where
  "withContext kz ctx res =
     (if kz_Kind kz res = ''Deployment''
      then mapErr (\<lambda>e. ''failed to update Deployment: '' @ e) (updateDeploymentSpec kz ctx res)
      else if kz_Kind kz res = ''PodDisruptionBudget''
      then mapErr (\<lambda>e. ''failed to update PodDisruptionBudget: '' @ e) (updatePodDisruptionBudget kz ctx res)
      else if kz_Kind kz res = ''HorizontalPodAutoscaler''
      then mapErr (\<lambda>e. ''failed to update HorizontalPodAutoscaler: '' @ e) (updateHorizontalPodAutoscaler kz ctx res)
      else Inr res)"

definition RenderManifestWithContext ::
    "('r, 't) Kustomize \<Rightarrow> 'r Renderer \<Rightarrow> string \<Rightarrow> OGXServer \<Rightarrow> ManifestContext option \<Rightarrow> string + 'r list" where
  "RenderManifestWithContext kz rd manifestsPath inst ctx =
     ebind (mapErr (\<lambda>e. ''failed to render base manifests: '' @ e)
       (RenderManifest kz rd manifestsPath inst (praxisPeerFromContext ctx) (praxisModeFromContext ctx))) (\<lambda>rs.
     case ctx of None \<Rightarrow> Inr rs | Some c \<Rightarrow> traverse (map (withContext kz c) rs))"

text \<open>\<open>resmap.Append\<close> rejects a resource whose identity is already there: the argument \<open>append\<close>.\<close>

fun filterLoop ::
    "('r, 't) Kustomize \<Rightarrow> ('r list \<Rightarrow> 'r \<Rightarrow> string option) \<Rightarrow> string list \<Rightarrow> 'r list \<Rightarrow> 'r list \<Rightarrow> string + 'r list" where
  "filterLoop kz conflict kinds acc [] = Inr acc"
| "filterLoop kz conflict kinds acc (res # rs) =
     (if kz_Kind kz res \<in> set kinds then filterLoop kz conflict kinds acc rs
      else case conflict acc res of
             Some e \<Rightarrow> Inl (''failed to append resource while filtering '' @ kz_Kind kz res @ ''/'' @ kz_Name kz res @ '': '' @ e)
           | None \<Rightarrow> filterLoop kz conflict kinds (acc @ [res]) rs)"

definition FilterExcludeKinds ::
    "('r, 't) Kustomize \<Rightarrow> ('r list \<Rightarrow> 'r \<Rightarrow> string option) \<Rightarrow> 'r list \<Rightarrow> string list \<Rightarrow> string + 'r list" where
  "FilterExcludeKinds kz conflict rs kinds = filterLoop kz conflict kinds [] rs"

section \<open>What reaches the pods\<close>

lemma putNonEmpty_mget: "mget (putNonEmpty k v m) k' = (if k' = k \<and> v \<noteq> [] then Some (YStr v) else mget m k')"
  by (simp add: putNonEmpty_def)

lemma asMap_mfield: "asMap (mfield d k) = Some m \<longleftrightarrow> mget d k = Some (YMap m)"
  by simp

lemma updateDeploymentSpec_shape:
  assumes "updatesData kz" "updateDeploymentSpec kz ctx r = Inr r'"
  obtains d spec tmpl ts tm an where "content kz r = Some d" "mget d ''spec'' = Some (YMap spec)"
    "mget spec ''template'' = Some (YMap tmpl)" "mget tmpl ''spec'' = Some (YMap ts)"
    "asMap (mfield tmpl ''metadata'') = Some tm \<or> (asMap (mfield tmpl ''metadata'') = None \<and> tm = mempty)"
    "content kz r' = Some (mput ''spec'' (YMap (mput ''template'' (YMap (mput ''metadata'' (YMap (mput ''annotations''
       (YMap (putNonEmpty ''secret.hash/referenced'' (mc_SecretHash ctx)
          (putNonEmpty ''configmap.hash/ca-bundle'' (mc_CABundleHash ctx)
          (putNonEmpty ''configmap.hash/user-config'' (mc_ConfigMapHash ctx) an)))) tm))
       (mput ''spec'' (YMap (mcopy (mc_PodSpec ctx) ts)) tmpl))) spec)) d)"
proof -
  obtain d ts d' where d: "content kz r = Some d" "getDeploymentTemplateSpec d = Inr ts"
    "addConfigMapAnnotations ctx (onTemplate (mput ''spec'' (YMap (mcopy (mc_PodSpec ctx) ts))) d) = Inr d'"
    "updateResourceFromData kz r d' = Inr r'"
    using assms(2) by (auto simp: updateDeploymentSpec_def parseResourceYAML_def ebind_Inr_iff)
  obtain spec tmpl where s: "mget d ''spec'' = Some (YMap spec)" "mget spec ''template'' = Some (YMap tmpl)"
    "mget tmpl ''spec'' = Some (YMap ts)"
    using d(2) by (auto simp: getDeploymentTemplateSpec_def split: option.splits)
  have on: "onTemplate f d = mput ''spec'' (YMap (mput ''template'' (YMap (f tmpl)) spec)) d" for f
    using s by (simp add: onTemplate_def mfield_def)
  define tm where "tm = (case asMap (mfield tmpl ''metadata'') of Some m \<Rightarrow> m | None \<Rightarrow> mempty)"
  define an where "an = (case asMap (mfield tm ''annotations'') of Some a \<Rightarrow> a | None \<Rightarrow> mempty)"
  have "content kz r' = Some d'"
    using d(4) updatesData_YMap [OF assms(1)] by (simp add: updateResourceFromData_def)
  moreover have "mput k v (mput k v' m) = mput k v m" for k v v' and m :: ymap
    by (induction k v' m rule: mput.induct) auto
  ultimately have "content kz r' = Some (mput ''spec'' (YMap (mput ''template'' (YMap (mput ''metadata'' (YMap (mput ''annotations''
       (YMap (putNonEmpty ''secret.hash/referenced'' (mc_SecretHash ctx)
          (putNonEmpty ''configmap.hash/ca-bundle'' (mc_CABundleHash ctx)
          (putNonEmpty ''configmap.hash/user-config'' (mc_ConfigMapHash ctx) an)))) tm))
       (mput ''spec'' (YMap (mcopy (mc_PodSpec ctx) ts)) tmpl))) spec)) d)"
    using d(3) unfolding on
    by (simp add: addConfigMapAnnotations_def onTemplate_def mfield_def [of "mput _ _ _"] Let_def tm_def an_def)
  moreover have "asMap (mfield tmpl ''metadata'') = Some tm \<or> (asMap (mfield tmpl ''metadata'') = None \<and> tm = mempty)"
    by (cases "asMap (mfield tmpl ''metadata'')") (simp_all only: tm_def option.case refl simp_thms)
  ultimately show thesis using that [OF d(1) s] by blast
qed

definition hashAnnotation :: "('r, 't) Kustomize \<Rightarrow> 'r \<Rightarrow> string \<Rightarrow> string \<Rightarrow> bool" where
  "hashAnnotation kz r key hash \<longleftrightarrow>
     hash = [] \<or> has kz r [''spec'', ''template'', ''metadata'', ''annotations'', key] (YStr hash)"

definition podTemplate :: "('r, 't) Kustomize \<Rightarrow> OGXServer \<Rightarrow> ManifestContext \<Rightarrow> 'r \<Rightarrow> bool" where
  "podTemplate kz inst c r \<longleftrightarrow>
     (\<forall>k v. mget (mc_PodSpec c) k = Some v \<longrightarrow> has kz r [''spec'', ''template'', ''spec'', k] v)
     \<and> hashAnnotation kz r ''configmap.hash/user-config'' (mc_ConfigMapHash c)
     \<and> hashAnnotation kz r ''configmap.hash/ca-bundle'' (mc_CABundleHash c)
     \<and> hashAnnotation kz r ''secret.hash/referenced'' (mc_SecretHash c)
     \<and> has kz r [''spec'', ''selector'', ''matchLabels'', instanceLabel] (YStr (meta_Name (srv_ObjectMeta inst)))
     \<and> has kz r [''spec'', ''template'', ''metadata'', ''labels'', instanceLabel] (YStr (meta_Name (srv_ObjectMeta inst)))"

lemma has_via: "has kz r ts v \<Longrightarrow> content kz r = Some d \<Longrightarrow> ptrGet ts (YMap d) = Some v"
  by (simp add: has_def)

lemma ptrIndex_labels [simp]: "ptrIndex ''labels'' l = None"
  by (simp add: ptrIndex_def isDigit_def less_eq_char_def)

lemma deployment_template:
  assumes "updatesData kz" "wf_map (mc_PodSpec c)" "rendered kz inst ''Deployment'' r"
    "updateDeploymentSpec kz c r = Inr r'"
  shows "podTemplate kz inst c r'"
proof -
  let ?n = "YStr (meta_Name (srv_ObjectMeta inst))"
  obtain d spec tmpl ts tm an where s: "content kz r = Some d" "mget d ''spec'' = Some (YMap spec)"
    "mget spec ''template'' = Some (YMap tmpl)" "mget tmpl ''spec'' = Some (YMap ts)"
    and tm: "asMap (mfield tmpl ''metadata'') = Some tm \<or> (asMap (mfield tmpl ''metadata'') = None \<and> tm = mempty)"
    and d': "content kz r' = Some (mput ''spec'' (YMap (mput ''template'' (YMap (mput ''metadata'' (YMap (mput ''annotations''
       (YMap (putNonEmpty ''secret.hash/referenced'' (mc_SecretHash c)
          (putNonEmpty ''configmap.hash/ca-bundle'' (mc_CABundleHash c)
          (putNonEmpty ''configmap.hash/user-config'' (mc_ConfigMapHash c) an)))) tm))
       (mput ''spec'' (YMap (mcopy (mc_PodSpec c) ts)) tmpl))) spec)) d)"
    using updateDeploymentSpec_shape [OF assms(1,4)] by metis
  have sel: "ptrGet [''selector'', ''matchLabels'', instanceLabel] (YMap spec) = Some ?n"
    and lab: "ptrGet [''metadata'', ''labels'', instanceLabel] (YMap tmpl) = Some ?n"
    using assms(3) s by (auto simp: rendered_def has_def Let_def)
  obtain tm' where m: "mget tmpl ''metadata'' = Some (YMap tm')"
    using lab by (auto split: option.splits yaml.splits)
  then have "tm = tm'" using tm by (auto simp: mfield_def)
  then have lab': "ptrGet [''labels'', instanceLabel] (YMap tm) = Some ?n" using lab m by simp
  show ?thesis
    using sel lab' d' assms(2)
    by (auto simp: podTemplate_def hashAnnotation_def has_def putNonEmpty_mget mget_mcopy)
qed

lemma withContext_kind:
  assumes "updatesData kz" "readsContent kz" "withContext kz c r = Inr r'"
  shows "kz_Kind kz r' = kz_Kind kz r"
proof -
  have "r' = r \<or> (\<exists>d spec. content kz r = Some d \<and> content kz r' = Some (mput ''spec'' spec d))"
    using assms(3) updatesData_YMap [OF assms(1)]
    by (auto simp: withContext_def updatePodDisruptionBudget_def updateHorizontalPodAutoscaler_def parseResourceYAML_def
        updateResourceFromData_def ebind_Inr_iff split: if_splits option.splits elim!: updateDeploymentSpec_shape [OF assms(1)], blast)
  then show ?thesis by (auto simp: readsContentD(1) [OF assms(2)] textAt_def)
qed

lemma filterLoop_result:
  "filterLoop kz conflict kinds acc rs = Inr rs' \<Longrightarrow> rs' = acc @ filter (\<lambda>r. kz_Kind kz r \<notin> set kinds) rs"
  by (induction kz conflict kinds acc rs rule: filterLoop.induct) (auto split: if_splits option.splits)

lemma rendered_templates:
  assumes "updatesData kz" "readsContent kz" "rfc6901 kz" "meta_Name (srv_ObjectMeta inst) \<noteq> []"
    and "wf_map (mc_PodSpec c)"
    and "RenderManifestWithContext kz rd manifestsPath inst (Some c) = Inr rs"
  shows "list_all (\<lambda>r. kz_Kind kz r = ''Deployment'' \<longrightarrow> podTemplate kz inst c r) rs"
proof -
  obtain rs0 rs1 where r: "applyPlugins kz (rd_OperatorNamespace rd) inst (mc_PraxisPeer c) (mc_PraxisMode c) rs0 = Inr rs1"
    "traverse (map (withContext kz c) rs1) = Inr rs"
    using assms(6) by (auto simp: RenderManifestWithContext_def RenderManifest_def ebind_Inr_iff Let_def
        praxisPeerFromContext_def praxisModeFromContext_def)
  have rendered: "\<And>r. r \<in> set rs1 \<Longrightarrow> \<exists>k. rendered kz inst k r"
    using plugins_rendered [OF assms(1-4) r(1)] by (metis in_set_conv_nth list_all2_conv_all_nth)
  have "list_all2 (\<lambda>r r'. kz_Kind kz r' = ''Deployment'' \<longrightarrow> podTemplate kz inst c r') rs1 rs"
    using r(2)
  proof (rule traverse_map_list_all2, goal_cases)
    case (1 r r')
    obtain k where k: "rendered kz inst k r" using rendered 1(1) by blast
    then have "kz_Kind kz r = k" by (simp add: rendered_def Let_def)
    then show ?case
      using withContext_kind [OF assms(1,2) 1(2)] 1(2) k deployment_template [OF assms(1,5), of inst r r']
      by (auto simp: withContext_def)
  qed
  then show ?thesis
    by (metis (no_types, lifting) list_all2_conv_all_nth list_all_length)
qed

lemma filtered_kinds: "FilterExcludeKinds kz conflict rs kinds = Inr rs' \<Longrightarrow> rs' = filter (\<lambda>r. kz_Kind kz r \<notin> set kinds) rs"
  using filterLoop_result by (fastforce simp: FilterExcludeKinds_def)

section \<open>Properties\<close>

text \<open>
  The computed pod specification and the hashes of the mounted configuration, CA bundle and
  Secrets reach the pod template of every rendered Deployment, so that a change of any of them
  restarts the pods; the template still carries the label the Deployment selects by.  Filtering
  kinds afterwards keeps the order and drops exactly the listed kinds.
\<close>

theorem configuration_reaches_the_pods:
  assumes "updatesData kz" "readsContent kz" "rfc6901 kz" "meta_Name (srv_ObjectMeta inst) \<noteq> []"
    and "wf_map (mc_PodSpec c)"
    and "RenderManifestWithContext kz rd manifestsPath inst (Some c) = Inr rs"
    and "FilterExcludeKinds kz conflict rs kinds = Inr rs'"
  shows "list_all (\<lambda>r. kz_Kind kz r = ''Deployment'' \<longrightarrow> podTemplate kz inst c r) rs'
    \<and> rs' = filter (\<lambda>r. kz_Kind kz r \<notin> set kinds) rs"
  using rendered_templates [OF assms(1-6)] filtered_kinds [OF assms(7)] by (auto simp: list_all_iff)

section \<open>Examples\<close>

definition exRenderer :: "ymap Renderer" where
  "exRenderer = \<lparr>rd_Exists = (\<lambda>p. p = ''/manifests/ogx/kustomization.yaml''), rd_Run = (\<lambda>p. Inr exManifests),
     rd_OperatorNamespace = Inr ''ops''\<rparr>"

definition exContext :: ManifestContext where
  "exContext = \<lparr>mc_ResolvedImage = ''ogx:1'', mc_ConfigMapHash = ''abc'', mc_CABundleHash = [], mc_SecretHash = [],
     mc_ContainerSpec = mempty, mc_PodSpec = mlit [(''containers'', YList [YStr ''ogx''])],
     mc_PodDisruptionBudgetSpec = None, mc_HPASpec = None, mc_PraxisPeer = None, mc_PraxisMode = True\<rparr>"

theorem configuration_reaches_the_pods_witness:
  "\<exists>svc dep. RenderManifestWithContext docKustomize exRenderer ''/manifests/ogx/'' exNetServer (Some exContext) = Inr [svc, dep]
     \<and> FilterExcludeKinds docKustomize (\<lambda>acc r. None) [svc, dep] [''Service''] = Inr [dep]
     \<and> has docKustomize dep [''spec'', ''template'', ''metadata'', ''annotations'', ''configmap.hash/user-config''] (YStr ''abc'')"
proof -
  let ?r = "RenderManifestWithContext docKustomize exRenderer ''/manifests/ogx/'' exNetServer (Some exContext)"
  have ok: "case ?r of Inr [svc, dep] \<Rightarrow> textAt svc ''kind'' = ''Service'' \<and> textAt dep ''kind'' = ''Deployment'' | _ \<Rightarrow> False"
    by code_simp
  then obtain svc dep where r: "?r = Inr [svc, dep]" "textAt svc ''kind'' = ''Service''" "textAt dep ''kind'' = ''Deployment''"
    by (auto split: sum.splits list.splits)
  have f: "FilterExcludeKinds docKustomize (\<lambda>acc r. None) [svc, dep] [''Service''] = Inr [dep]"
    using r by (simp add: FilterExcludeKinds_def)
  have "meta_Name (srv_ObjectMeta exNetServer) \<noteq> []" "wf_map (mc_PodSpec exContext)"
    by (simp_all add: exNetServer_def exContext_def)
  note pods = configuration_reaches_the_pods [OF doc_updates doc_reads doc_rfc6901 this r(1) f]
  then show ?thesis
    using r f by (simp add: podTemplate_def hashAnnotation_def exContext_def)
qed

end
