(* ===== verification/Guarded_Writes.thy ===== *)
theory Guarded_Writes
  imports Prelude
begin

text \<open>
  Safety of components that write to a shared state: the states that are reached from a given one when
  every write is allowed by something that was read in a state reached before.  The locale
  \<open>write_embedding\<close> carries the writes of a component over to those of a larger one.
\<close>

inductive guarded :: "('w \<Rightarrow> 'v \<Rightarrow> bool) \<Rightarrow> ('v \<Rightarrow> 'w \<Rightarrow> 'w) \<Rightarrow> 'w \<Rightarrow> 'w \<Rightarrow> bool" for allowed perf w0 where
  begins: "guarded allowed perf w0 w0"
| writes: "guarded allowed perf w0 w \<Longrightarrow> guarded allowed perf w0 seen \<Longrightarrow> allowed seen v
    \<Longrightarrow> guarded allowed perf w0 (perf v w)"

declare guarded.begins [simp, intro]

lemma guarded_trans: "guarded allowed perf w1 w2 \<Longrightarrow> guarded allowed perf w w1 \<Longrightarrow> guarded allowed perf w w2"
  by (induction rule: guarded.induct) (auto intro: guarded.writes)

lemma guarded_one: "allowed w v \<Longrightarrow> guarded allowed perf w (perf v w)"
  by (rule guarded.writes [OF guarded.begins guarded.begins])

lemma guarded_all:
  "list_all (allowed w) vs \<Longrightarrow> guarded allowed perf w w' \<Longrightarrow> guarded allowed perf w (fold perf vs w')"
  by (induction vs arbitrary: w') (auto intro: guarded.writes)

locale write_embedding =
  fixes allowed :: "'w \<Rightarrow> 'v \<Rightarrow> bool" and perf :: "'v \<Rightarrow> 'w \<Rightarrow> 'w"
    and allowed' :: "'w \<Rightarrow> 'u \<Rightarrow> bool" and perf' :: "'u \<Rightarrow> 'w \<Rightarrow> 'w"
    and embed :: "'v \<Rightarrow> 'u"
  assumes allowed_embed: "allowed w v \<Longrightarrow> allowed' w (embed v)"
    and perf_embed: "perf' (embed v) w = perf v w"
begin

lemma lifts: "guarded allowed perf w w' \<Longrightarrow> guarded allowed' perf' w w'"
proof (induction rule: guarded.induct)
  case (writes w1 seen v)
  have "guarded allowed' perf' w (perf' (embed v) w1)"
    by (rule guarded.writes [OF writes.IH allowed_embed [OF writes.hyps(3)]])
  then show ?case by (simp add: perf_embed)
qed simp

lemma lifts_one: "allowed w v \<Longrightarrow> guarded allowed' perf' w (perf v w)"
  by (rule lifts [OF guarded_one])

end

end
