(* ===== verification/Digest_Eval.thy ===== *)
theory Digest_Eval
  imports Digest
begin

text \<open>
  Evaluation of SHA-256 by proof.  The word operations of theory \<open>Digest\<close> are slow to evaluate
  symbolically; here the same computation runs on integer numerals.
\<close>

section \<open>Evaluation on integers\<close>

text \<open>
  The same rounds on integers, kept below \<open>2 ^ 32\<close> by truncation: numerals evaluate much faster
  than words, and the lemmas below show that both compute the same digest.
\<close>

fun wordState :: "int \<times> int \<times> int \<times> int \<times> int \<times> int \<times> int \<times> int \<Rightarrow> sha_state" where
  "wordState (a, b, c, d, e, f, g, h) =
     Sha (word_of_int a) (word_of_int b) (word_of_int c) (word_of_int d)
         (word_of_int e) (word_of_int f) (word_of_int g) (word_of_int h)"

definition rotI :: "nat \<Rightarrow> int \<Rightarrow> int" where
  "rotI n x = (x div 2 ^ n) XOR (x mod 2 ^ n * 2 ^ (32 - n))"

definition cut32 :: "int \<Rightarrow> int" where
  "cut32 x = x mod 4294967296"

lemma cut32_take_bit: "cut32 x = take_bit 32 x"
  by (simp add: cut32_def take_bit_eq_mod)

lemma word_of_cut32 [simp]: "(word_of_int (cut32 x) :: w32) = word_of_int x"
  by (rule bit_word_eqI) (simp add: cut32_take_bit bit_simps)

lemma word_of_int_bits:
  "(word_of_int (x XOR y) :: w32) = word_of_int x XOR word_of_int y"
  "(word_of_int (x AND y) :: w32) = word_of_int x AND word_of_int y"
  by (rule bit_word_eqI; simp add: bit_simps)+

lemma drop_bit_word_of_int:
  "0 \<le> x \<Longrightarrow> x < 4294967296 \<Longrightarrow> (drop_bit n (word_of_int x) :: w32) = word_of_int (x div 2 ^ n)"
proof -
  assume "0 \<le> x" "x < 4294967296"
  then have "take_bit 32 x = x" by (simp add: take_bit_int_eq_self)
  then have "\<not> bit x i" if "32 \<le> i" for i using that by (metis bit_take_bit_iff not_le)
  then show ?thesis
    by (intro bit_word_eqI) (auto simp: bit_simps simp flip: drop_bit_eq_div; metis not_le add.commute)
qed

lemma rotr32_word:
  assumes "0 \<le> x" "x < 4294967296" "n \<le> 32"
  shows "rotr32 n (word_of_int x) = word_of_int (rotI n x)"
proof -
  have "take_bit 32 x = x" using assms by (simp add: take_bit_int_eq_self)
  then have z: "\<not> bit x i" if "32 \<le> i" for i using that by (metis bit_take_bit_iff not_le)
  have "rotI n x = drop_bit n x XOR push_bit (32 - n) (take_bit n x)"
    by (simp add: rotI_def drop_bit_eq_div push_bit_eq_mult take_bit_eq_mod)
  then show ?thesis
    using assms(3) z unfolding rotr32_def
    by (intro bit_word_eqI) (auto simp: bit_simps)
qed

definition inRange :: "int \<Rightarrow> bool" where
  "inRange x \<longleftrightarrow> 0 \<le> x \<and> x < 4294967296"

lemma inRange_cut32 [simp]: "inRange (cut32 x)"
  by (simp add: inRange_def cut32_def)

definition sigma0I :: "int \<Rightarrow> int" where
  "sigma0I x = rotI 7 x XOR rotI 18 x XOR x div 8"

definition sigma1I :: "int \<Rightarrow> int" where
  "sigma1I x = rotI 17 x XOR rotI 19 x XOR x div 1024"

definition bigSigma0I :: "int \<Rightarrow> int" where
  "bigSigma0I x = rotI 2 x XOR rotI 13 x XOR rotI 22 x"

definition bigSigma1I :: "int \<Rightarrow> int" where
  "bigSigma1I x = rotI 6 x XOR rotI 11 x XOR rotI 25 x"

lemma sigma_of_int:
  assumes "inRange x"
  shows "sigma0 (word_of_int x) = word_of_int (sigma0I x)" "sigma1 (word_of_int x) = word_of_int (sigma1I x)"
    "Sigma0 (word_of_int x) = word_of_int (bigSigma0I x)" "Sigma1 (word_of_int x) = word_of_int (bigSigma1I x)"
  using assms drop_bit_word_of_int [of x 3] drop_bit_word_of_int [of x 10]
  by (simp_all add: sigma0_def sigma1_def Sigma0_def Sigma1_def sigma0I_def sigma1I_def bigSigma0I_def
      bigSigma1I_def rotr32_word word_of_int_bits inRange_def)

fun scheduleI :: "nat \<Rightarrow> int list \<Rightarrow> int list" where
  "scheduleI 0 ws = ws"
| "scheduleI (Suc n) ws =
     scheduleI n (cut32 (sigma1I (ws ! 1) + ws ! 6 + sigma0I (ws ! 14) + ws ! 15) # ws)"

fun roundI :: "int \<times> int \<Rightarrow> int \<times> int \<times> int \<times> int \<times> int \<times> int \<times> int \<times> int
    \<Rightarrow> int \<times> int \<times> int \<times> int \<times> int \<times> int \<times> int \<times> int" where
  "roundI (k, w) (a, b, c, d, e, f, g, h) =
     (let t1 = h + bigSigma1I e + (g XOR (e AND (f XOR g))) + k + w;
          t2 = bigSigma0I a + ((a AND (b XOR c)) XOR (b AND c))
      in (cut32 (t1 + t2), a, b, c, cut32 (d + t1), e, f, g))"

fun stateInRange :: "int \<times> int \<times> int \<times> int \<times> int \<times> int \<times> int \<times> int \<Rightarrow> bool" where
  "stateInRange (a, b, c, d, e, f, g, h) = list_all inRange [a, b, c, d, e, f, g, h]"

lemma schedule_of_int:
  "16 \<le> length ws \<Longrightarrow> list_all inRange ws \<Longrightarrow>
     schedule n (map word_of_int ws) = map word_of_int (scheduleI n ws) \<and> list_all inRange (scheduleI n ws)"
proof (induction n arbitrary: ws)
  case (Suc n)
  have r: "inRange (ws ! 1)" "inRange (ws ! 14)" using Suc.prems by (auto simp: list_all_length)
  show ?case using Suc.IH [of "cut32 (sigma1I (ws ! 1) + ws ! 6 + sigma0I (ws ! 14) + ws ! 15) # ws"] Suc.prems
    using r by (simp add: sigma_of_int)
qed simp

lemma choice_majority:
  "((e :: w32) AND f) XOR (NOT e AND g) = g XOR (e AND (f XOR g))"
  "((a :: w32) AND b) XOR (a AND c) XOR (b AND c) = (a AND (b XOR c)) XOR (b AND c)"
  by (rule bit_word_eqI; auto simp: bit_simps)+

lemma round_of_int:
  "stateInRange s \<Longrightarrow>
     shaRound (word_of_int k, word_of_int w) (wordState s) = wordState (roundI (k, w) s) \<and> stateInRange (roundI (k, w) s)"
  by (cases s rule: stateInRange.cases) (simp add: Let_def sigma_of_int choice_majority word_of_int_bits)

lemma rounds_of_int:
  "stateInRange s \<Longrightarrow>
     fold shaRound (map (map_prod word_of_int word_of_int) kws) (wordState s) = wordState (fold roundI kws s)
     \<and> stateInRange (fold roundI kws s)"
proof (induction kws arbitrary: s)
  case (Cons kw kws)
  obtain k w where kw: "kw = (k, w)" by fastforce
  show ?case using round_of_int [OF Cons.prems, of k w] Cons.IH [of "roundI (k, w) s"] by (simp add: kw)
qed simp

definition sha256_KI :: "int list" where
  "sha256_KI = map uint sha256_K"

definition compressI :: "int list \<Rightarrow> int \<times> int \<times> int \<times> int \<times> int \<times> int \<times> int \<times> int" where
  "compressI block = fold roundI (zip sha256_KI (rev (scheduleI 48 (rev block))))
     (1779033703, 3144134277, 1013904242, 2773480762, 1359893119, 2600822924, 528734635, 1541459225)"

fun toWordsI :: "int list \<Rightarrow> int list" where
  "toWordsI (a # b # c # d # bs) = (((a * 256 + b) * 256 + c) * 256 + d) # toWordsI bs"
| "toWordsI _ = []"

lemma toWords_of_int: "toWords bs = map word_of_int (toWordsI bs)"
  by (induction bs rule: toWords.induct) simp_all

lemma toWordsI_range:
  "list_all (\<lambda>b. 0 \<le> b \<and> b < 256) bs \<Longrightarrow> list_all inRange (toWordsI bs)"
  by (induction bs rule: toWordsI.induct) (auto simp: inRange_def)

lemma length_toWordsI: "length (toWordsI bs) = length bs div 4"
  by (induction bs rule: toWordsI.induct) auto

lemma compress_of_int:
  assumes "16 \<le> length block" "list_all inRange block"
  shows "compress (map word_of_int block) sha256_init = addState sha256_init (wordState (compressI block))"
proof -
  let ?st = "(1779033703, 3144134277, 1013904242, 2773480762, 1359893119, 2600822924, 528734635, 1541459225)"
  have init: "sha256_init = wordState ?st" "stateInRange ?st"
    by (simp_all add: sha256_init_def inRange_def)
  have k: "sha256_K = map word_of_int sha256_KI"
    by (simp add: sha256_KI_def comp_def)
  have sch: "schedule 48 (rev (map word_of_int block)) = map word_of_int (scheduleI 48 (rev block))"
    using schedule_of_int [of "rev block" 48] assms by (simp add: rev_map)
  have z: "zip sha256_K (rev (schedule 48 (rev (map word_of_int block))))
      = map (map_prod word_of_int word_of_int) (zip sha256_KI (rev (scheduleI 48 (rev block))))"
    unfolding sch k by (simp add: rev_map zip_map_map map_prod_def split_def)
  show ?thesis
    unfolding compress_def z compressI_def using rounds_of_int [OF init(2)] init(1) by metis
qed

text \<open>A message of one block: the digest in integer arithmetic.\<close>

fun digestI :: "int \<times> int \<times> int \<times> int \<times> int \<times> int \<times> int \<times> int \<Rightarrow> int list" where
  "digestI (a, b, c, d, e, f, g, h) =
     map cut32 [1779033703 + a, 3144134277 + b, 1013904242 + c, 2773480762 + d,
                1359893119 + e, 2600822924 + f, 528734635 + g, 1541459225 + h]"

lemma stateBytes_digestI:
  "stateBytes (addState sha256_init (wordState st)) = concat (map (beBytes 4) (digestI st))"
proof -
  have u: "uint (word_of_int x + word_of_int y :: w32) = cut32 (x + y)" for x y
    by (simp add: cut32_def uint_word_of_int flip: of_int_add)
  show ?thesis
    by (cases st rule: digestI.cases) (simp add: sha256_init_def u [of "numeral _", simplified])
qed

lemma shaPad_short: "length bs < 56 \<Longrightarrow> length (shaPad bs) = 64"
proof -
  assume l: "length bs < 56"
  then have e: "119 - length bs = 64 + (55 - length bs)" by simp
  have "(119 - length bs) mod 64 = 55 - length bs" unfolding e mod_add_self1 using l by simp
  then show "length (shaPad bs) = 64" using l by (simp add: shaPad_def)
qed

lemma shaPad_bytes:
  "list_all (\<lambda>b. 0 \<le> b \<and> b < 256) bs \<Longrightarrow> list_all (\<lambda>b. 0 \<le> b \<and> b < 256) (shaPad bs)"
  by (auto simp: shaPad_def list_all_iff dest: beBytes_byte)

lemma sha256Sum_one_block:
  assumes "length s < 56"
  shows "sha256Sum s = concat (map (beBytes 4) (digestI (compressI (toWordsI (shaPad (map of_char s))))))"
proof -
  let ?bs = "map of_char s :: int list"
  let ?ws = "toWordsI (shaPad ?bs)"
  have "of_char c < (256 :: int)" "0 \<le> (of_char c :: int)" for c :: char
    by (cases c; simp add: of_char_def horner_sum_simps; auto)+
  then have "list_all (\<lambda>b. 0 \<le> b \<and> b < 256) ?bs" by (simp add: list_all_iff)
  then have r: "list_all inRange ?ws" by (intro toWordsI_range shaPad_bytes)
  have l: "length ?ws = 16" using shaPad_short [of ?bs] assms by (simp add: length_toWordsI)
  then have "blocks (map word_of_int ?ws) = [map word_of_int ?ws]"
    by (subst blocks.simps) (simp add: blocks.simps)
  then show ?thesis
    using compress_of_int [OF _ r] l by (simp add: sha256Sum_def toWords_of_int stateBytes_digestI)
qed

text \<open>Published test vectors (the first eight bytes), and the values the examples use.\<close>

lemma sha256Sum_abc: "take 8 (sha256Sum ''abc'') = [186, 120, 22, 191, 143, 1, 207, 234]"
  by (subst sha256Sum_one_block) (simp, code_simp)

lemma sha256Sum_examples:
  "take 8 (sha256Sum ''postgres://ogx'') = [232, 134, 165, 195, 14, 29, 175, 252]"
  "take 8 (sha256Sum ''postgres://praxis'') = [239, 98, 152, 233, 5, 108, 18, 225]"
  by (subst sha256Sum_one_block, simp, code_simp)+

end
