(* ===== verification/Status_Conditions.thy ===== *)
theory Status_Conditions
  imports Api_Server
begin

text \<open>
  The condition list of an \<open>OGXServer\<close> status (\<open>controllers/status.go\<close>).  \<open>SetCondition\<close> and its
  wrappers update the list in place; here they map a status to the updated status.  The clock
  reading \<open>metav1.Now()\<close> of a setter is its argument \<open>now\<close>.  The locale \<open>condition_register\<close> is
  the contract the migration and preflight code relies on; \<open>SetCondition\<close> and \<open>GetCondition\<close>
  implement it.
\<close>

section \<open>Condition types\<close>

definition ConditionTypeDeploymentReady :: string where
  "ConditionTypeDeploymentReady = ''DeploymentReady''"

definition ConditionTypeHealthCheck :: string where
  "ConditionTypeHealthCheck = ''HealthCheck''"

definition ConditionTypeStorageReady :: string where
  "ConditionTypeStorageReady = ''StorageReady''"

definition ConditionTypeServiceReady :: string where
  "ConditionTypeServiceReady = ''ServiceReady''"

definition ConditionTypeConfigGenerated :: string where
  "ConditionTypeConfigGenerated = ''ConfigGenerated''"

definition ConditionTypeStorageAdopted :: string where
  "ConditionTypeStorageAdopted = ''StorageAdopted''"

definition ConditionTypeNetworkingAdopted :: string where
  "ConditionTypeNetworkingAdopted = ''NetworkingAdopted''"

definition ConditionTypeAdoptionConfigInvalid :: string where
  "ConditionTypeAdoptionConfigInvalid = ''AdoptionConfigInvalid''"

definition ConditionTypePraxisReachable :: string where
  "ConditionTypePraxisReachable = ''PraxisReachable''"

definition ConditionTypeTLSConfigured :: string where
  "ConditionTypeTLSConfigured = ''TLSConfigured''"

definition ConditionTypeMigrationPreflightReady :: string where
  "ConditionTypeMigrationPreflightReady = ''MigrationPreflightReady''"

definition ConditionTypeMigrationJobSucceeded :: string where
  "ConditionTypeMigrationJobSucceeded = ''MigrationJobSucceeded''"

definition ConditionTypeMigrationValidated :: string where
  "ConditionTypeMigrationValidated = ''MigrationValidated''"

definition ConditionTypePraxisCutoverReady :: string where
  "ConditionTypePraxisCutoverReady = ''PraxisCutoverReady''"

definition ConditionTypeSoftRollbackAvailable :: string where
  "ConditionTypeSoftRollbackAvailable = ''SoftRollbackAvailable''"

section \<open>Condition reasons\<close>

definition ReasonDeploymentReady :: string where
  "ReasonDeploymentReady = ''DeploymentReady''"

definition ReasonDeploymentFailed :: string where
  "ReasonDeploymentFailed = ''DeploymentFailed''"

definition ReasonDeploymentPending :: string where
  "ReasonDeploymentPending = ''DeploymentPending''"

definition ReasonHealthCheckPassed :: string where
  "ReasonHealthCheckPassed = ''HealthCheckPassed''"

definition ReasonHealthCheckFailed :: string where
  "ReasonHealthCheckFailed = ''HealthCheckFailed''"

definition ReasonStorageReady :: string where
  "ReasonStorageReady = ''StorageReady''"

definition ReasonStorageFailed :: string where
  "ReasonStorageFailed = ''StorageFailed''"

definition ReasonServiceReady :: string where
  "ReasonServiceReady = ''ServiceReady''"

definition ReasonServiceFailed :: string where
  "ReasonServiceFailed = ''ServiceFailed''"

definition ReasonStorageAdopted :: string where
  "ReasonStorageAdopted = ''StorageAdopted''"

definition ReasonNetworkingAdopted :: string where
  "ReasonNetworkingAdopted = ''NetworkingAdopted''"

definition ReasonAdoptionConfigInvalid :: string where
  "ReasonAdoptionConfigInvalid = ''AdoptionConfigInvalid''"

definition ReasonPraxisReachable :: string where
  "ReasonPraxisReachable = ''PraxisPodsReady''"

definition ReasonPraxisUnreachable :: string where
  "ReasonPraxisUnreachable = ''NoReadyPraxisPods''"

definition ReasonPraxisSelectorInvalid :: string where
  "ReasonPraxisSelectorInvalid = ''PraxisSelectorInvalid''"

definition ReasonTLSConfigured :: string where
  "ReasonTLSConfigured = ''TLSSecretFound''"

definition ReasonTLSSecretMissing :: string where
  "ReasonTLSSecretMissing = ''TLSSecretMissing''"

definition ReasonTLSNotConfigured :: string where
  "ReasonTLSNotConfigured = ''TLSSecretNotSet''"

definition ReasonMigrationPreflightPassed :: string where
  "ReasonMigrationPreflightPassed = ''MigrationPreflightPassed''"

definition ReasonMigrationPreflightFailed :: string where
  "ReasonMigrationPreflightFailed = ''MigrationPreflightFailed''"

definition ReasonMigrationNotRequested :: string where
  "ReasonMigrationNotRequested = ''MigrationNotRequested''"

definition ReasonMigrationJobRunning :: string where
  "ReasonMigrationJobRunning = ''MigrationJobRunning''"

definition ReasonMigrationJobSucceeded :: string where
  "ReasonMigrationJobSucceeded = ''MigrationJobSucceeded''"

definition ReasonMigrationJobFailed :: string where
  "ReasonMigrationJobFailed = ''MigrationJobFailed''"

definition ReasonMigrationJobPending :: string where
  "ReasonMigrationJobPending = ''MigrationJobPending''"

definition ReasonMigrationValidated :: string where
  "ReasonMigrationValidated = ''MigrationValidated''"

definition ReasonMigrationValidationPending :: string where
  "ReasonMigrationValidationPending = ''MigrationValidationPending''"

definition ReasonMigrationValidationFailed :: string where
  "ReasonMigrationValidationFailed = ''MigrationValidationFailed''"

definition ReasonPraxisCutoverReady :: string where
  "ReasonPraxisCutoverReady = ''PraxisCutoverReady''"

definition ReasonPraxisCutoverNotReady :: string where
  "ReasonPraxisCutoverNotReady = ''PraxisCutoverNotReady''"

definition ReasonSoftRollbackOnly :: string where
  "ReasonSoftRollbackOnly = ''SoftRollbackOnly''"

section \<open>Condition messages\<close>

definition MessageDeploymentReady :: string where
  "MessageDeploymentReady = ''Deployment is ready''"

definition MessageDeploymentFailed :: string where
  "MessageDeploymentFailed = ''Deployment failed''"

definition MessageDeploymentPending :: string where
  "MessageDeploymentPending = ''Deployment is pending''"

definition MessageHealthCheckPassed :: string where
  "MessageHealthCheckPassed = ''Health check passed''"

definition MessageHealthCheckFailed :: string where
  "MessageHealthCheckFailed = ''Health check failed''"

definition MessageStorageReady :: string where
  "MessageStorageReady = ''Storage is ready''"

definition MessageStorageFailed :: string where
  "MessageStorageFailed = ''Storage failed''"

definition MessageServiceReady :: string where
  "MessageServiceReady = ''Service is ready''"

definition MessageServiceFailed :: string where
  "MessageServiceFailed = ''Service failed''"

lemmas condition_type_defs =
  ConditionTypeDeploymentReady_def ConditionTypeHealthCheck_def ConditionTypeStorageReady_def
  ConditionTypeServiceReady_def ConditionTypeConfigGenerated_def ConditionTypeStorageAdopted_def
  ConditionTypeNetworkingAdopted_def ConditionTypeAdoptionConfigInvalid_def
  ConditionTypePraxisReachable_def ConditionTypeTLSConfigured_def
  ConditionTypeMigrationPreflightReady_def ConditionTypeMigrationJobSucceeded_def
  ConditionTypeMigrationValidated_def ConditionTypePraxisCutoverReady_def
  ConditionTypeSoftRollbackAvailable_def

lemmas condition_reason_defs =
  ReasonDeploymentReady_def ReasonDeploymentFailed_def ReasonDeploymentPending_def
  ReasonHealthCheckPassed_def ReasonHealthCheckFailed_def ReasonStorageReady_def
  ReasonStorageFailed_def ReasonServiceReady_def ReasonServiceFailed_def ReasonStorageAdopted_def
  ReasonNetworkingAdopted_def ReasonAdoptionConfigInvalid_def ReasonPraxisReachable_def
  ReasonPraxisUnreachable_def ReasonPraxisSelectorInvalid_def ReasonTLSConfigured_def
  ReasonTLSSecretMissing_def ReasonTLSNotConfigured_def ReasonMigrationPreflightPassed_def
  ReasonMigrationPreflightFailed_def ReasonMigrationNotRequested_def ReasonMigrationJobRunning_def
  ReasonMigrationJobSucceeded_def ReasonMigrationJobFailed_def ReasonMigrationJobPending_def
  ReasonMigrationValidated_def ReasonMigrationValidationPending_def
  ReasonMigrationValidationFailed_def ReasonPraxisCutoverReady_def ReasonPraxisCutoverNotReady_def
  ReasonSoftRollbackOnly_def

section \<open>Reading and setting a condition\<close>

fun setConditionLoop :: "Condition \<Rightarrow> Condition list \<Rightarrow> Condition list" where
  "setConditionLoop c [] = [c]"
| "setConditionLoop c (e # cs) =
     (if cond_Type e \<noteq> cond_Type c then e # setConditionLoop c cs
      else if cond_Status e = cond_Status c \<and> cond_Reason e = cond_Reason c \<and> cond_Message e = cond_Message c
           then e # cs
      else if cond_Status e = cond_Status c
           then c\<lparr>cond_LastTransitionTime := cond_LastTransitionTime e\<rparr> # cs
      else c # cs)"

definition SetCondition :: "OGXServerStatus \<Rightarrow> Condition \<Rightarrow> OGXServerStatus" where
  "SetCondition status c = status\<lparr>status_Conditions := setConditionLoop c (status_Conditions status)\<rparr>"

fun getConditionLoop :: "Condition list \<Rightarrow> string \<Rightarrow> Condition option" where
  "getConditionLoop [] ty = None"
| "getConditionLoop (e # cs) ty = (if cond_Type e = ty then Some e else getConditionLoop cs ty)"

definition GetCondition :: "OGXServerStatus \<Rightarrow> string \<Rightarrow> Condition option" where
  "GetCondition status ty = getConditionLoop (status_Conditions status) ty"

definition IsConditionTrue :: "OGXServerStatus \<Rightarrow> string \<Rightarrow> bool" where
  "IsConditionTrue status ty =
     (case GetCondition status ty of None \<Rightarrow> False | Some c \<Rightarrow> cond_Status c = ConditionTrue)"

definition IsConditionFalse :: "OGXServerStatus \<Rightarrow> string \<Rightarrow> bool" where
  "IsConditionFalse status ty =
     (case GetCondition status ty of None \<Rightarrow> False | Some c \<Rightarrow> cond_Status c = ConditionFalse)"

section \<open>The setters\<close>

text \<open>The \<open>metav1.Condition\<close> literal of a setter, with \<open>ObservedGeneration\<close> left at zero.\<close>

definition newCondition :: "int \<Rightarrow> string \<Rightarrow> bool \<Rightarrow> string \<Rightarrow> string \<Rightarrow> Condition" where
  "newCondition now ty ok reason message =
     \<lparr>cond_Type = ty, cond_Status = (if ok then ConditionTrue else ConditionFalse),
      cond_ObservedGeneration = 0, cond_LastTransitionTime = now,
      cond_Reason = reason, cond_Message = message\<rparr>"

definition SetDeploymentReadyCondition :: "int \<Rightarrow> bool \<Rightarrow> string \<Rightarrow> OGXServerStatus \<Rightarrow> OGXServerStatus" where
  "SetDeploymentReadyCondition now ok message status =
     SetCondition status (newCondition now ConditionTypeDeploymentReady ok
       (if ok then ReasonDeploymentReady else ReasonDeploymentFailed) (if ok then MessageDeploymentReady else message))"

definition SetHealthCheckCondition :: "int \<Rightarrow> bool \<Rightarrow> string \<Rightarrow> OGXServerStatus \<Rightarrow> OGXServerStatus" where
  "SetHealthCheckCondition now ok message status =
     SetCondition status (newCondition now ConditionTypeHealthCheck ok
       (if ok then ReasonHealthCheckPassed else ReasonHealthCheckFailed) (if ok then MessageHealthCheckPassed else message))"

definition SetStorageReadyCondition :: "int \<Rightarrow> bool \<Rightarrow> string \<Rightarrow> OGXServerStatus \<Rightarrow> OGXServerStatus" where
  "SetStorageReadyCondition now ok message status =
     SetCondition status (newCondition now ConditionTypeStorageReady ok
       (if ok then ReasonStorageReady else ReasonStorageFailed) (if ok then MessageStorageReady else message))"

definition SetServiceReadyCondition :: "int \<Rightarrow> bool \<Rightarrow> string \<Rightarrow> OGXServerStatus \<Rightarrow> OGXServerStatus" where
  "SetServiceReadyCondition now ok message status =
     SetCondition status (newCondition now ConditionTypeServiceReady ok
       (if ok then ReasonServiceReady else ReasonServiceFailed) (if ok then MessageServiceReady else message))"

definition SoftRollbackWarningMessage :: string where
  "SoftRollbackWarningMessage =
     ''Soft rollback only restores the pre-enablement OGX Responses/Conversations serving posture. Responses/Conversations writes made through Praxis after cutover do not flow back to OGX, ABAC flattening is not restored, and data loss is possible.''"

definition SetPraxisReachableCondition :: "int \<Rightarrow> bool \<Rightarrow> string \<Rightarrow> string \<Rightarrow> OGXServerStatus \<Rightarrow> OGXServerStatus" where
  "SetPraxisReachableCondition now ok reason message status =
     SetCondition status (newCondition now ConditionTypePraxisReachable ok reason message)"

definition SetTLSConfiguredCondition :: "int \<Rightarrow> bool \<Rightarrow> string \<Rightarrow> string \<Rightarrow> OGXServerStatus \<Rightarrow> OGXServerStatus" where
  "SetTLSConfiguredCondition now ok reason message status =
     SetCondition status (newCondition now ConditionTypeTLSConfigured ok reason message)"

definition SetMigrationPreflightReadyCondition :: "int \<Rightarrow> bool \<Rightarrow> string \<Rightarrow> string \<Rightarrow> OGXServerStatus \<Rightarrow> OGXServerStatus" where
  "SetMigrationPreflightReadyCondition now ok reason message status =
     SetCondition status (newCondition now ConditionTypeMigrationPreflightReady ok reason message)"

definition SetMigrationJobSucceededCondition :: "int \<Rightarrow> bool \<Rightarrow> string \<Rightarrow> string \<Rightarrow> OGXServerStatus \<Rightarrow> OGXServerStatus" where
  "SetMigrationJobSucceededCondition now ok reason message status =
     SetCondition status (newCondition now ConditionTypeMigrationJobSucceeded ok reason message)"

definition SetMigrationValidatedCondition :: "int \<Rightarrow> bool \<Rightarrow> string \<Rightarrow> string \<Rightarrow> OGXServerStatus \<Rightarrow> OGXServerStatus" where
  "SetMigrationValidatedCondition now ok reason message status =
     SetCondition status (newCondition now ConditionTypeMigrationValidated ok reason message)"

definition SetPraxisCutoverReadyCondition :: "int \<Rightarrow> bool \<Rightarrow> string \<Rightarrow> string \<Rightarrow> OGXServerStatus \<Rightarrow> OGXServerStatus" where
  "SetPraxisCutoverReadyCondition now ok reason message status =
     SetCondition status (newCondition now ConditionTypePraxisCutoverReady ok reason message)"

definition SetSoftRollbackAvailableCondition :: "int \<Rightarrow> bool \<Rightarrow> string \<Rightarrow> string \<Rightarrow> OGXServerStatus \<Rightarrow> OGXServerStatus" where
  "SetSoftRollbackAvailableCondition now ok reason message status =
     SetCondition status (newCondition now ConditionTypeSoftRollbackAvailable ok reason message)"

definition setConfigGeneratedCondition :: "int \<Rightarrow> OGXServer \<Rightarrow> bool \<Rightarrow> string \<Rightarrow> string \<Rightarrow> OGXServer" where
  "setConfigGeneratedCondition now inst success reason message =
     inst\<lparr>srv_Status :=
       SetCondition (srv_Status inst) (newCondition now ConditionTypeConfigGenerated success reason message)\<rparr>"

lemmas setter_defs =
  SetDeploymentReadyCondition_def SetHealthCheckCondition_def SetStorageReadyCondition_def
  SetServiceReadyCondition_def SetPraxisReachableCondition_def SetTLSConfiguredCondition_def
  SetMigrationPreflightReadyCondition_def SetMigrationJobSucceededCondition_def
  SetMigrationValidatedCondition_def SetPraxisCutoverReadyCondition_def
  SetSoftRollbackAvailableCondition_def

section \<open>The contract\<close>

text \<open>What a register holds for a type after one more report of it.\<close>

definition refreshCondition :: "Condition option \<Rightarrow> Condition \<Rightarrow> Condition" where
  "refreshCondition old c =
     (case old of None \<Rightarrow> c
      | Some e \<Rightarrow>
          if cond_Status e = cond_Status c \<and> cond_Reason e = cond_Reason c \<and> cond_Message e = cond_Message c then e
          else if cond_Status e = cond_Status c then c\<lparr>cond_LastTransitionTime := cond_LastTransitionTime e\<rparr>
          else c)"

lemma refreshCondition_fields [simp]:
  "cond_Status (refreshCondition old c) = cond_Status c"
  "cond_Reason (refreshCondition old c) = cond_Reason c"
  "cond_Message (refreshCondition old c) = cond_Message c"
  by (auto simp: refreshCondition_def split: option.splits)

lemma refreshCondition_time:
  "cond_LastTransitionTime (refreshCondition old c) =
     (case old of None \<Rightarrow> cond_LastTransitionTime c
      | Some e \<Rightarrow> if cond_Status e = cond_Status c then cond_LastTransitionTime e
                 else cond_LastTransitionTime c)"
  by (auto simp: refreshCondition_def split: option.splits)

locale condition_register =
  fixes get :: "'s \<Rightarrow> string \<Rightarrow> Condition option"
    and put :: "'s \<Rightarrow> Condition \<Rightarrow> 's"
  assumes get_put:
    "get (put s c) ty = (if ty = cond_Type c then Some (refreshCondition (get s ty) c) else get s ty)"
begin

lemma get_put_other: "ty \<noteq> cond_Type c \<Longrightarrow> get (put s c) ty = get s ty"
  by (simp add: get_put)

lemma get_put_same: "get (put s c) (cond_Type c) = Some (refreshCondition (get s (cond_Type c)) c)"
  by (simp add: get_put)

lemma put_unchanged:
  assumes "get s (cond_Type c) = Some e" "cond_Status e = cond_Status c"
    "cond_Reason e = cond_Reason c" "cond_Message e = cond_Message c"
  shows "get (put s c) ty = get s ty"
  using assms by (simp add: get_put refreshCondition_def)

lemma get_puts:
  "get (foldl put s cs) ty =
     foldl (\<lambda>old c. Some (refreshCondition old c)) (get s ty) (filter (\<lambda>c. cond_Type c = ty) cs)"
  by (induction cs arbitrary: s) (auto simp: get_put)

text \<open>
  The reports of a type split into an earlier part and a last run of equal status: the register
  holds the last report, dated at the first report of that run.
\<close>

lemma last_run:
  assumes "get s ty = None"
  shows "hs = filter (\<lambda>c. cond_Type c = ty) cs \<Longrightarrow> hs \<noteq> [] \<Longrightarrow>
    \<exists>pre run c. hs = pre @ run \<and> run \<noteq> [] \<and> get (foldl put s cs) ty = Some c
      \<and> cond_Status c = cond_Status (last hs) \<and> cond_Reason c = cond_Reason (last hs)
      \<and> cond_Message c = cond_Message (last hs)
      \<and> cond_LastTransitionTime c = cond_LastTransitionTime (hd run)
      \<and> (\<forall>r \<in> set run. cond_Status r = cond_Status c)
      \<and> (pre = [] \<or> cond_Status (last pre) \<noteq> cond_Status c)"
proof (induction cs arbitrary: hs rule: rev_induct)
  case Nil
  then show ?case by simp
next
  case (snoc x cs)
  let ?hs = "filter (\<lambda>c. cond_Type c = ty) cs" and ?s = "foldl put s cs"
  show ?case
  proof (cases "cond_Type x = ty")
    case False
    then show ?thesis using snoc by (simp add: get_put)
  next
    case True
    then have hs: "hs = ?hs @ [x]" using snoc.prems by simp
    have g: "get (foldl put s (cs @ [x])) ty = Some (refreshCondition (get ?s ty) x)"
      using True by (simp add: get_put)
    show ?thesis
    proof (cases "?hs = []")
      case True
      then have "get ?s ty = None" using assms by (simp add: get_puts)
      then show ?thesis using True hs g
        by (intro exI [of _ "[]"] exI [of _ "[x]"] exI [of _ x]) (simp add: refreshCondition_def)
    next
      case False
      obtain pre run c where
        ih: "?hs = pre @ run" "run \<noteq> []" "get ?s ty = Some c"
          "cond_LastTransitionTime c = cond_LastTransitionTime (hd run)"
          "\<forall>r \<in> set run. cond_Status r = cond_Status c" "pre = [] \<or> cond_Status (last pre) \<noteq> cond_Status c"
        using snoc.IH [OF refl False] by (elim exE conjE) (rule that)
      show ?thesis
      proof (cases "cond_Status x = cond_Status c")
        case True
        then show ?thesis using ih hs g
          by (intro exI [of _ pre] exI [of _ "run @ [x]"] exI [of _ "refreshCondition (Some c) x"])
             (auto simp: refreshCondition_time)
      next
        case ne: False
        then show ?thesis using ih hs g
          by (intro exI [of _ "pre @ run"] exI [of _ "[x]"] exI [of _ "refreshCondition (Some c) x"])
             (auto simp: refreshCondition_time)
      qed
    qed
  qed
qed

end

lemma getConditionLoop_set:
  "getConditionLoop (setConditionLoop c cs) ty =
     (if ty = cond_Type c then Some (refreshCondition (getConditionLoop cs ty) c) else getConditionLoop cs ty)"
  by (induction cs) (auto simp: refreshCondition_def)

interpretation sc: condition_register GetCondition SetCondition
  by unfold_locales (simp add: GetCondition_def SetCondition_def getConditionLoop_set)

lemma newCondition_simps [simp]:
  "cond_Type (newCondition now ty ok reason message) = ty"
  "cond_Status (newCondition now ty ok reason message) = (if ok then ConditionTrue else ConditionFalse)"
  "cond_Reason (newCondition now ty ok reason message) = reason"
  "cond_Message (newCondition now ty ok reason message) = message"
  "cond_LastTransitionTime (newCondition now ty ok reason message) = now"
  by (simp_all add: newCondition_def)

lemma IsConditionTrue_set [simp]:
  "IsConditionTrue (SetCondition s c) ty =
     (if ty = cond_Type c then cond_Status c = ConditionTrue else IsConditionTrue s ty)"
  by (simp add: IsConditionTrue_def sc.get_put)

lemma IsConditionFalse_set [simp]:
  "IsConditionFalse (SetCondition s c) ty =
     (if ty = cond_Type c then cond_Status c = ConditionFalse else IsConditionFalse s ty)"
  by (simp add: IsConditionFalse_def sc.get_put)

lemma SetCondition_frame [simp]:
  "status_Phase (SetCondition s c) = status_Phase s"
  "status_Version (SetCondition s c) = status_Version s"
  "status_DistributionConfig (SetCondition s c) = status_DistributionConfig s"
  "status_ResolvedDistribution (SetCondition s c) = status_ResolvedDistribution s"
  "status_ConfigGeneration (SetCondition s c) = status_ConfigGeneration s"
  "status_Migration (SetCondition s c) = status_Migration s"
  "status_AvailableReplicas (SetCondition s c) = status_AvailableReplicas s"
  "status_ServiceURL (SetCondition s c) = status_ServiceURL s"
  "status_ExternalURL (SetCondition s c) = status_ExternalURL s"
  by (simp_all add: SetCondition_def)

lemma GetCondition_migration_update [simp]:
  "GetCondition (s\<lparr>status_Migration := m\<rparr>) ty = GetCondition s ty"
  "IsConditionTrue (s\<lparr>status_Migration := m\<rparr>) ty = IsConditionTrue s ty"
  "IsConditionFalse (s\<lparr>status_Migration := m\<rparr>) ty = IsConditionFalse s ty"
  by (simp_all add: GetCondition_def IsConditionTrue_def IsConditionFalse_def)

lemma condition_types_set:
  "map cond_Type (setConditionLoop c cs) =
     (if cond_Type c \<in> set (map cond_Type cs) then map cond_Type cs
      else map cond_Type cs @ [cond_Type c])"
  by (induction cs) auto

lemma getConditionLoop_type: "getConditionLoop cs ty = Some c \<Longrightarrow> cond_Type c = ty \<and> c \<in> set cs"
  by (induction cs) (auto split: if_splits)

lemma getConditionLoop_None: "getConditionLoop cs ty = None \<longleftrightarrow> ty \<notin> set (map cond_Type cs)"
  by (induction cs) auto

lemma GetCondition_type: "GetCondition s ty = Some c \<Longrightarrow> cond_Type c = ty"
  using getConditionLoop_type by (auto simp: GetCondition_def)

section \<open>Properties\<close>

text \<open>
  One \<open>SetCondition\<close>: afterwards the type holds the reported status, reason and message; its
  transition time is the old one when the status did not change and the reported one otherwise;
  every other type, and every other field of the status, is untouched; a type is appended only
  when it was absent, so types stay unique; and a second report of the same outcome at a later
  time changes nothing.
\<close>

theorem set_condition_correct:
  "(\<exists>n. GetCondition (SetCondition s c) (cond_Type c) = Some n
        \<and> cond_Status n = cond_Status c \<and> cond_Reason n = cond_Reason c \<and> cond_Message n = cond_Message c
        \<and> cond_LastTransitionTime n =
            (case GetCondition s (cond_Type c) of
               None \<Rightarrow> cond_LastTransitionTime c
             | Some e \<Rightarrow> if cond_Status e = cond_Status c then cond_LastTransitionTime e
                        else cond_LastTransitionTime c))
   \<and> (\<forall>ty. ty = cond_Type c \<or> GetCondition (SetCondition s c) ty = GetCondition s ty)
   \<and> status_Migration (SetCondition s c) = status_Migration s
   \<and> status_Phase (SetCondition s c) = status_Phase s
   \<and> map cond_Type (status_Conditions (SetCondition s c)) =
       (if GetCondition s (cond_Type c) = None
        then map cond_Type (status_Conditions s) @ [cond_Type c]
        else map cond_Type (status_Conditions s))
   \<and> SetCondition (SetCondition s c) (c\<lparr>cond_LastTransitionTime := later\<rparr>) = SetCondition s c"
proof (intro conjI)
  show "\<exists>n. GetCondition (SetCondition s c) (cond_Type c) = Some n
        \<and> cond_Status n = cond_Status c \<and> cond_Reason n = cond_Reason c \<and> cond_Message n = cond_Message c
        \<and> cond_LastTransitionTime n =
            (case GetCondition s (cond_Type c) of
               None \<Rightarrow> cond_LastTransitionTime c
             | Some e \<Rightarrow> if cond_Status e = cond_Status c then cond_LastTransitionTime e
                        else cond_LastTransitionTime c)"
    by (simp add: sc.get_put_same refreshCondition_time)
  have "setConditionLoop (c\<lparr>cond_LastTransitionTime := later\<rparr>) (setConditionLoop c cs)
      = setConditionLoop c cs" for cs
    by (induction cs) auto
  then show "SetCondition (SetCondition s c) (c\<lparr>cond_LastTransitionTime := later\<rparr>) = SetCondition s c"
    by (simp add: SetCondition_def)
  show "\<forall>ty. ty = cond_Type c \<or> GetCondition (SetCondition s c) ty = GetCondition s ty"
    by (simp add: sc.get_put)
  show "map cond_Type (status_Conditions (SetCondition s c)) =
       (if GetCondition s (cond_Type c) = None
        then map cond_Type (status_Conditions s) @ [cond_Type c]
        else map cond_Type (status_Conditions s))"
    by (simp add: SetCondition_def GetCondition_def getConditionLoop_None condition_types_set)
qed simp_all

text \<open>
  (C35) Over any sequence of reports, to any mixture of types, the condition of a type that was
  absent at the start carries the last report's status, reason and message, and its
  \<open>LastTransitionTime\<close> is the time of the first report of the last run with that status: the
  moment the status last changed, however often it was reported since.
\<close>

theorem transition_time_is_last_change:
  assumes "GetCondition s ty = None" "hs = filter (\<lambda>c. cond_Type c = ty) cs" "hs \<noteq> []"
  shows "\<exists>pre run c. hs = pre @ run \<and> run \<noteq> [] \<and> GetCondition (foldl SetCondition s cs) ty = Some c
      \<and> cond_Status c = cond_Status (last hs) \<and> cond_Reason c = cond_Reason (last hs)
      \<and> cond_Message c = cond_Message (last hs)
      \<and> cond_LastTransitionTime c = cond_LastTransitionTime (hd run)
      \<and> (\<forall>r \<in> set run. cond_Status r = cond_Status c)
      \<and> (pre = [] \<or> cond_Status (last pre) \<noteq> cond_Status c)"
  using sc.last_run [OF assms] .

definition emptyStatus :: OGXServerStatus where
  "emptyStatus =
     \<lparr>status_Phase = PhaseUnset,
      status_Version = \<lparr>ver_OperatorVersion = [], ver_ServerVersion = [], ver_LastUpdated = 0\<rparr>,
      status_DistributionConfig =
        \<lparr>dcfg_ActiveDistribution = [], dcfg_Providers = [], dcfg_AvailableDistributions = []\<rparr>,
      status_ResolvedDistribution = None, status_ConfigGeneration = None, status_Migration = None,
      status_Conditions = [], status_AvailableReplicas = 0, status_ServiceURL = [],
      status_ExternalURL = None\<rparr>"

definition exReports :: "Condition list" where
  "exReports =
     [newCondition 1 ''Ready'' False ''Pending'' ''a'', newCondition 2 ''Ready'' True ''Up'' ''b'',
      newCondition 3 ''Other'' False ''X'' ''c'', newCondition 4 ''Ready'' True ''Up'' ''d'']"

theorem transition_time_is_last_change_witness:
  "GetCondition (foldl SetCondition emptyStatus exReports) ''Ready'' =
     Some ((newCondition 4 ''Ready'' True ''Up'' ''d'')\<lparr>cond_LastTransitionTime := 2\<rparr>)"
  using transition_time_is_last_change
    [of emptyStatus "''Ready''" "filter (\<lambda>c. cond_Type c = ''Ready'') exReports" exReports]
  by (simp add: exReports_def emptyStatus_def GetCondition_def SetCondition_def newCondition_def)

end
