(* ===== verification/Migration_Job.thy ===== *)
theory Migration_Job
  imports Kube_Client Go_Quote Digest_Eval Status_Conditions Secrets
begin

text \<open>
  The Praxis migration Job (\<open>controllers/migration_job.go\<close>, first half): the preflight checks, the
  attempt key and the Job object.  Functions that read the cluster take its state \<open>w\<close>; a Go
  \<open>error\<close> is its text.
\<close>

definition migrationJobNameSuffix :: string where
  "migrationJobNameSuffix = ''-praxis-migration''"

definition migrationAttemptAnnotation :: string where
  "migrationAttemptAnnotation = ''ogx.io/migration-attempt''"

definition praxisDatabaseURLEnv :: string where
  "praxisDatabaseURLEnv = ''PRAXIS_DATABASE_URL''"

definition nsOf :: "OGXServer \<Rightarrow> string" where
  "nsOf inst = meta_Namespace (srv_ObjectMeta inst)"

definition nameOf :: "OGXServer \<Rightarrow> string" where
  "nameOf inst = meta_Name (srv_ObjectMeta inst)"

section \<open>The command line\<close>

definition shellQuote :: "string \<Rightarrow> string" where
  "shellQuote v = [CHR 0x27] @ replaceAll [CHR 0x27] [CHR 0x27, CHR 0x22, CHR 0x27, CHR 0x22, CHR 0x27] v @ [CHR 0x27]"

definition migrationJobShell :: "MigrationJobSpec option \<Rightarrow> string" where
  "migrationJobShell spec =
     (let flags = (case spec of None \<Rightarrow> []
        | Some mj \<Rightarrow>
            (if mj_FallbackTenant mj \<noteq> [] then '' --fallback-tenant '' @ shellQuote (mj_FallbackTenant mj) else [])
            @ (if mj_FallbackOwnerSubject mj \<noteq> []
               then '' --fallback-owner-subject '' @ shellQuote (mj_FallbackOwnerSubject mj) else []));
        cfg = '' '' @ [CHR 0x22] @ ''$OGX_CONFIG'' @ [CHR 0x22]
      in ''set -eu; '' @ ''ogx migrate praxis --dry-run'' @ flags @ cfg @ '' && ''
         @ ''ogx migrate praxis'' @ flags @ cfg)"

section \<open>Preflight\<close>

definition migrationSourceSecretRef :: "OGXServer \<Rightarrow> string + SecretKeyRef" where
  "migrationSourceSecretRef inst =
     (case spec_Storage (srv_Spec inst) of
        None \<Rightarrow> Inl ''failed to pass migration preflight: spec.storage.sql must be configured''
      | Some st \<Rightarrow>
          (case stg_SQL st of
             None \<Rightarrow> Inl ''failed to pass migration preflight: spec.storage.sql must be configured''
           | Some sql \<Rightarrow>
               if sql_Type sql \<noteq> ''postgres''
               then Inl ''failed to pass migration preflight: migration requires spec.storage.sql.type=postgres''
               else (case sql_ConnectionString sql of
                       None \<Rightarrow> Inl ''failed to pass migration preflight: spec.storage.sql.connectionString is required''
                     | Some ref \<Rightarrow> Inr ref)))"

definition migrationTargetSecretRef :: "OGXServer \<Rightarrow> SecretKeyRef option" where
  "migrationTargetSecretRef inst =
     (case spec_PraxisMode (srv_Spec inst) of None \<Rightarrow> None
      | Some pm \<Rightarrow> (case pm_MigrationJob pm of None \<Rightarrow> None | Some mj \<Rightarrow> mj_TargetConnectionString mj))"

definition migrationJobSpec :: "OGXServer \<Rightarrow> MigrationJobSpec option" where
  "migrationJobSpec inst =
     (case spec_PraxisMode (srv_Spec inst) of None \<Rightarrow> None | Some pm \<Rightarrow> pm_MigrationJob pm)"

definition requireMigrationTargetSecretRef :: "OGXServer \<Rightarrow> string + SecretKeyRef" where
  "requireMigrationTargetSecretRef inst =
     (case migrationTargetSecretRef inst of
        None \<Rightarrow> Inl ''failed to pass migration preflight: spec.praxisMode.migrationJob.targetConnectionString is required''
      | Some ref \<Rightarrow> Inr ref)"

definition watchLabelHint :: string where
  "watchLabelHint = '' (must exist and carry label '' @ WatchLabelKey @ ''='' @ WatchLabelValue @ '')''"

definition ensureSecretKeyExists ::
    "'w OGXServerReconciler \<Rightarrow> 'w \<Rightarrow> string \<Rightarrow> SecretKeyRef \<Rightarrow> string option" where
  "ensureSecretKeyExists r w ns ref =
     (let q = goQuote (kb_IsPrint (rc_Kube r)) in
      case kb_GetSecret (rc_Kube r) w ns (skr_Name ref) of
        Inl (NotFound _) \<Rightarrow> Some (''failed to find Secret '' @ q (skr_Name ref) @ watchLabelHint)
      | Inl e \<Rightarrow> Some (''failed to get Secret '' @ q (skr_Name ref) @ '': '' @ apiText e)
      | Inr secret \<Rightarrow>
          if mget (sec_Labels secret) WatchLabelKey \<noteq> Some WatchLabelValue
          then Some (''failed to find Secret '' @ q (skr_Name ref) @ watchLabelHint)
          else if mget (sec_Data secret) (skr_Key ref) = None
          then Some (''failed to find key '' @ q (skr_Key ref) @ '' in Secret '' @ q (skr_Name ref))
          else None)"

definition ensureConfigMapKeyExists ::
    "'w OGXServerReconciler \<Rightarrow> 'w \<Rightarrow> string \<Rightarrow> runtimeConfigRef \<Rightarrow> string option" where
  "ensureConfigMapKeyExists r w ns rcfg =
     (let q = goQuote (kb_IsPrint (rc_Kube r)) in
      case kb_GetConfigMap (rc_Kube r) w ns (rcr_ConfigMapName rcfg) of
        Inl (NotFound _) \<Rightarrow> Some (''failed to find ConfigMap '' @ q (rcr_ConfigMapName rcfg) @ watchLabelHint)
      | Inl e \<Rightarrow> Some (''failed to get ConfigMap '' @ q (rcr_ConfigMapName rcfg) @ '': '' @ apiText e)
      | Inr cm \<Rightarrow>
          if mget (cm_Data cm) (rcr_ConfigMapKey rcfg) = None
             \<and> mget (cm_BinaryData cm) (rcr_ConfigMapKey rcfg) = None
          then Some (''failed to find key '' @ q (rcr_ConfigMapKey rcfg)
                     @ '' in ConfigMap '' @ q (rcr_ConfigMapName rcfg))
          else None)"

definition fingerprintBytes :: "string \<Rightarrow> string" where
  "fingerprintBytes b = hexEncode (take 8 (sha256Sum b))"

text \<open>Indexing a Go map with an absent key gives the zero value, here the empty byte string.\<close>

definition orEmpty :: "string option \<Rightarrow> string" where
  "orEmpty v = (case v of None \<Rightarrow> [] | Some s \<Rightarrow> s)"

definition secretKeyFingerprint ::
    "'w OGXServerReconciler \<Rightarrow> 'w \<Rightarrow> string \<Rightarrow> SecretKeyRef \<Rightarrow> string + string" where
  "secretKeyFingerprint r w ns ref =
     (case kb_GetSecret (rc_Kube r) w ns (skr_Name ref) of
        Inl e \<Rightarrow> Inl (''failed to fingerprint Secret '' @ goQuote (kb_IsPrint (rc_Kube r)) (skr_Name ref)
                     @ '': '' @ apiText e)
      | Inr secret \<Rightarrow> Inr (fingerprintBytes (orEmpty (mget (sec_Data secret) (skr_Key ref)))))"

definition configMapKeyFingerprint ::
    "'w OGXServerReconciler \<Rightarrow> 'w \<Rightarrow> string \<Rightarrow> runtimeConfigRef \<Rightarrow> string + string" where
  "configMapKeyFingerprint r w ns rcfg =
     (case kb_GetConfigMap (rc_Kube r) w ns (rcr_ConfigMapName rcfg) of
        Inl e \<Rightarrow> Inl (''failed to fingerprint ConfigMap ''
                     @ goQuote (kb_IsPrint (rc_Kube r)) (rcr_ConfigMapName rcfg) @ '': '' @ apiText e)
      | Inr cm \<Rightarrow>
          (case mget (cm_BinaryData cm) (rcr_ConfigMapKey rcfg) of
             Some raw \<Rightarrow> Inr (fingerprintBytes raw)
           | None \<Rightarrow> Inr (fingerprintBytes (orEmpty (mget (cm_Data cm) (rcr_ConfigMapKey rcfg))))))"

definition ensureDistinctMigrationDatabases ::
    "'w OGXServerReconciler \<Rightarrow> 'w \<Rightarrow> string \<Rightarrow> SecretKeyRef \<Rightarrow> SecretKeyRef \<Rightarrow> string option" where
  "ensureDistinctMigrationDatabases r w ns src dst =
     (if skr_Name src = skr_Name dst \<and> skr_Key src = skr_Key dst
      then Some ''failed to pass migration preflight: targetConnectionString must not reference the same Secret key as spec.storage.sql.connectionString''
      else case secretKeyFingerprint r w ns src of
             Inl e \<Rightarrow> Some (''failed to pass migration preflight for OGX DB secret: '' @ e)
           | Inr srcFP \<Rightarrow>
               (case secretKeyFingerprint r w ns dst of
                  Inl e \<Rightarrow> Some (''failed to pass migration preflight for Praxis DB secret: '' @ e)
                | Inr dstFP \<Rightarrow>
                    if srcFP = dstFP
                    then Some ''failed to pass migration preflight: OGX and Praxis connection strings must not be the same database''
                    else None))"

definition ensureMigrationRuntimeConfig ::
    "'w OGXServerReconciler \<Rightarrow> 'w \<Rightarrow> string \<Rightarrow> runtimeConfigRef option \<Rightarrow> string option" where
  "ensureMigrationRuntimeConfig r w ns rcfg =
     (case rcfg of None \<Rightarrow> None
      | Some c \<Rightarrow>
          (case ensureConfigMapKeyExists r w ns c of
             None \<Rightarrow> None
           | Some e \<Rightarrow> Some (''failed to pass migration preflight for runtime config: '' @ e)))"

definition ensureMigrationCABundle :: "'w OGXServerReconciler \<Rightarrow> 'w \<Rightarrow> OGXServer \<Rightarrow> string option" where
  "ensureMigrationCABundle r w inst =
     (if \<not> hasAnyCABundle r w inst then None
      else let caName = getManagedCABundleConfigMapName inst in
        case kb_GetConfigMap (rc_Kube r) w (nsOf inst) caName of
          Inl (NotFound _) \<Rightarrow>
            Some (''failed to pass migration preflight: CA bundle ConfigMap ''
                  @ goQuote (kb_IsPrint (rc_Kube r)) caName @ '' is required when TLS trust is configured'')
        | Inl e \<Rightarrow> Some (''failed to pass migration preflight for CA bundle ConfigMap: '' @ apiText e)
        | Inr _ \<Rightarrow> None)"

definition wrapErr :: "string \<Rightarrow> string option \<Rightarrow> string option" where
  "wrapErr prefix e = map_option (\<lambda>t. prefix @ t) e"

text \<open>The first failing check of a sequence of checks, as the chain of early returns has it.\<close>

definition orElse :: "string option \<Rightarrow> string option \<Rightarrow> string option" where
  "orElse e f = (case e of None \<Rightarrow> f | Some t \<Rightarrow> Some t)"

definition runMigrationPreflight ::
    "'w OGXServerReconciler \<Rightarrow> 'w \<Rightarrow> OGXServer \<Rightarrow> runtimeConfigRef option \<Rightarrow> string option" where
  "runMigrationPreflight r w inst rcfg =
     (case migrationSourceSecretRef inst of
        Inl e \<Rightarrow> Some e
      | Inr src \<Rightarrow>
          orElse (wrapErr ''failed to pass migration preflight for OGX DB secret: ''
                    (ensureSecretKeyExists r w (nsOf inst) src))
          (case requireMigrationTargetSecretRef inst of
             Inl e \<Rightarrow> Some e
           | Inr dst \<Rightarrow>
               orElse (wrapErr ''failed to pass migration preflight for Praxis DB secret: ''
                         (ensureSecretKeyExists r w (nsOf inst) dst))
               (orElse (ensureDistinctMigrationDatabases r w (nsOf inst) src dst)
               (orElse (ensureMigrationRuntimeConfig r w (nsOf inst) rcfg)
               (orElse (ensureMigrationCABundle r w inst)
               (case resolveImage r (spec_Distribution (srv_Spec inst)) of
                  Inl e \<Rightarrow> Some (''failed to pass migration preflight: '' @ e)
                | Inr _ \<Rightarrow> None))))))"

section \<open>The attempt key\<close>

text \<open>The \<open>append*\<close> functions write to a \<open>strings.Builder\<close>; here they return the text they write.\<close>

definition appendSecretAttemptKey ::
    "'w OGXServerReconciler \<Rightarrow> 'w \<Rightarrow> string \<Rightarrow> SecretKeyRef \<Rightarrow> string + string" where
  "appendSecretAttemptKey r w ns ref =
     ebind (secretKeyFingerprint r w ns ref) (\<lambda>fp. Inr (skr_Name ref @ ''/'' @ skr_Key ref @ ''@'' @ fp))"

definition appendMigrationSourceAttemptKey ::
    "'w OGXServerReconciler \<Rightarrow> 'w \<Rightarrow> OGXServer \<Rightarrow> string + string" where
  "appendMigrationSourceAttemptKey r w inst =
     (case spec_Storage (srv_Spec inst) of None \<Rightarrow> Inr []
      | Some st \<Rightarrow>
          (case stg_SQL st of None \<Rightarrow> Inr []
           | Some sql \<Rightarrow>
               (case sql_ConnectionString sql of None \<Rightarrow> Inr []
                | Some ref \<Rightarrow> appendSecretAttemptKey r w (nsOf inst) ref)))"

definition appendMigrationTargetAttemptKey ::
    "'w OGXServerReconciler \<Rightarrow> 'w \<Rightarrow> OGXServer \<Rightarrow> string + string" where
  "appendMigrationTargetAttemptKey r w inst =
     (case migrationTargetSecretRef inst of None \<Rightarrow> Inr []
      | Some ref \<Rightarrow> appendSecretAttemptKey r w (nsOf inst) ref)"

definition appendMigrationConfigAttemptKey ::
    "'w OGXServerReconciler \<Rightarrow> 'w \<Rightarrow> string \<Rightarrow> runtimeConfigRef option \<Rightarrow> string + string" where
  "appendMigrationConfigAttemptKey r w ns rcfg =
     (case rcfg of None \<Rightarrow> Inr ogxConfigPath
      | Some c \<Rightarrow> ebind (configMapKeyFingerprint r w ns c) (\<lambda>fp.
          Inr (rcr_ConfigMapName c @ ''/'' @ rcr_ConfigMapKey c @ ''@'' @ fp)))"

definition appendMigrationFallbackAttemptKey :: "(nat \<Rightarrow> bool) \<Rightarrow> OGXServer \<Rightarrow> string" where
  "appendMigrationFallbackAttemptKey isPrint inst =
     (case migrationJobSpec inst of None \<Rightarrow> []
      | Some mj \<Rightarrow>
          (if mj_FallbackTenant mj \<noteq> []
           then '';fallbackTenant='' @ goQuote isPrint (mj_FallbackTenant mj) else [])
          @ (if mj_FallbackOwnerSubject mj \<noteq> []
             then '';fallbackOwnerSubject='' @ goQuote isPrint (mj_FallbackOwnerSubject mj) else []))"

definition migrationAttemptText ::
    "'w OGXServerReconciler \<Rightarrow> 'w \<Rightarrow> OGXServer \<Rightarrow> runtimeConfigRef option \<Rightarrow> string + string" where
  "migrationAttemptText r w inst rcfg =
     ebind (appendMigrationSourceAttemptKey r w inst) (\<lambda>src.
     ebind (appendMigrationTargetAttemptKey r w inst) (\<lambda>dst.
     ebind (appendMigrationConfigAttemptKey r w (nsOf inst) rcfg) (\<lambda>cfg.
     ebind (case resolveImage r (spec_Distribution (srv_Spec inst)) of
              Inl e \<Rightarrow> Inl (''failed to resolve migration image for attempt key: '' @ e)
            | Inr img \<Rightarrow> Inr img) (\<lambda>img.
       Inr (''src='' @ src @ '';dst='' @ dst @ '';cfg='' @ cfg @ '';image='' @ img
            @ appendMigrationFallbackAttemptKey (kb_IsPrint (rc_Kube r)) inst)))))"

definition migrationAttemptKey ::
    "'w OGXServerReconciler \<Rightarrow> 'w \<Rightarrow> OGXServer \<Rightarrow> runtimeConfigRef option \<Rightarrow> string + string" where
  "migrationAttemptKey r w inst rcfg =
     ebind (migrationAttemptText r w inst rcfg) (\<lambda>t. Inr (fingerprintBytes t))"

section \<open>The Job object\<close>

definition migrationJobName :: "string \<Rightarrow> string" where
  "migrationJobName instanceName = instanceName @ migrationJobNameSuffix"

definition plainEnv :: "string \<Rightarrow> string \<Rightarrow> EnvVar" where
  "plainEnv n v = \<lparr>env_Name = n, env_Value = v, env_ValueFrom = None\<rparr>"

definition migrationJobEnv :: "OGXServer \<Rightarrow> EnvVar list" where
  "migrationJobEnv inst =
     CollectSecretRefs (srv_Spec inst)
     @ [plainEnv ''OGX_CONFIG'' ogxConfigPath, plainEnv ''RUN_CONFIG_PATH'' ogxConfigPath]
     @ (case migrationTargetSecretRef inst of None \<Rightarrow> []
        | Some ref \<Rightarrow>
            [\<lparr>env_Name = praxisDatabaseURLEnv, env_Value = [],
              env_ValueFrom = Some (SecretSource \<lparr>sks_Name = skr_Name ref, sks_Key = skr_Key ref\<rparr>)\<rparr>])"

definition migrationJobPodInputs ::
    "'w OGXServerReconciler \<Rightarrow> 'w \<Rightarrow> OGXServer \<Rightarrow> runtimeConfigRef option \<Rightarrow> string \<Rightarrow> Container \<times> Volume list" where
  "migrationJobPodInputs r w inst rcfg img =
     (let c0 = \<lparr>ctr_Name = ''ogx-praxis-migration'', ctr_Image = img,
                ctr_ImagePullPolicy = ''IfNotPresent'', ctr_Command = [''/bin/sh'', ''-c''],
                ctr_Args = [migrationJobShell (migrationJobSpec inst)],
                ctr_Env = migrationJobEnv inst, ctr_VolumeMounts = [], ctr_Resources = noResources,
                ctr_Ports = [], ctr_StartupProbe = None, ctr_SecurityContext = None\<rparr>;
          (c1, v1) = (case rcfg of None \<Rightarrow> (c0, [])
             | Some c \<Rightarrow>
                 (c0\<lparr>ctr_VolumeMounts := ctr_VolumeMounts c0 @ [readOnlyMount ''user-config'' ''/etc/ogx/'']\<rparr>,
                  [configMapKeyVolume ''user-config'' (rcr_ConfigMapName c) (rcr_ConfigMapKey c) ''config.yaml'']))
      in if hasAnyCABundle r w inst
         then (c1\<lparr>ctr_Env := ctr_Env c1 @ [plainEnv ''SSL_CERT_FILE'' ManagedCABundleFilePath],
                  ctr_VolumeMounts := ctr_VolumeMounts c1 @ [readOnlyMount CABundleVolumeName ManagedCABundleMountPath]\<rparr>,
               v1 @ [createCABundleVolume (getManagedCABundleConfigMapName inst)])
         else (c1, v1))"

definition newMigrationJob :: "OGXServer \<Rightarrow> string \<Rightarrow> string \<Rightarrow> Container \<Rightarrow> Volume list \<Rightarrow> Job" where
  "newMigrationJob inst jobName attemptKey container volumes =
     (let labels = mlit [(''app.kubernetes.io/managed-by'', ''ogx-operator''),
                         (''app.kubernetes.io/component'', ''praxis-migration''),
                         (''app'', ''ogx''), (''app.kubernetes.io/instance'', nameOf inst)]
      in \<lparr>job_ObjectMeta =
            \<lparr>meta_Name = jobName, meta_Namespace = nsOf inst, meta_UID = [], meta_Generation = 0,
             meta_ResourceVersion = [], meta_Labels = labels,
             meta_Annotations = mlit [(migrationAttemptAnnotation, attemptKey)],
             meta_OwnerReferences = [], meta_DeletionTimestamp = None\<rparr>,
          job_Spec =
            \<lparr>jsp_BackoffLimit = Some 2, jsp_Completions = Some 1, jsp_Parallelism = Some 1,
             jsp_ActiveDeadlineSeconds = Some 3600, jsp_TemplateLabels = labels,
             jsp_TemplateSpec =
               \<lparr>pod_RestartPolicy = ''OnFailure'', pod_Containers = [container], pod_Volumes = volumes,
                pod_SecurityContext = None, pod_ServiceAccountName = [], pod_TopologySpreadConstraints = [],
                pod_Affinity = None, pod_ResourceClaims = []\<rparr>\<rparr>,
          job_Status = \<lparr>jst_Conditions = [], jst_Active = 0\<rparr>\<rparr>)"

definition applyMigrationPodDefaults :: "OGXServer \<Rightarrow> PodSpec \<Rightarrow> PodSpec" where
  "applyMigrationPodDefaults inst ps =
     (let ps1 = configurePodOverrides inst (ps\<lparr>pod_SecurityContext :=
                  Some \<lparr>psc_RunAsNonRoot = Some True, psc_SeccompProfile = Some ''RuntimeDefault''\<rparr>\<rparr>)
      in case spec_Workload (srv_Spec inst) of None \<Rightarrow> ps1
         | Some wl \<Rightarrow>
             (case wl_Resources wl of None \<Rightarrow> ps1
              | Some res \<Rightarrow>
                  ps1\<lparr>pod_Containers :=
                    (case pod_Containers ps1 of [] \<Rightarrow> [] | c # cs \<Rightarrow> c\<lparr>ctr_Resources := res\<rparr> # cs)\<rparr>))"

definition buildMigrationJob ::
    "'w OGXServerReconciler \<Rightarrow> 'w \<Rightarrow> OGXServer \<Rightarrow> runtimeConfigRef option \<Rightarrow> string \<Rightarrow> string \<Rightarrow> string + Job" where
  "buildMigrationJob r w inst rcfg jobName attemptKey =
     (case resolveImage r (spec_Distribution (srv_Spec inst)) of
        Inl e \<Rightarrow> Inl (''failed to resolve migration Job image: '' @ e)
      | Inr img \<Rightarrow>
          (let (container, volumes) = migrationJobPodInputs r w inst rcfg img;
               job0 = newMigrationJob inst jobName attemptKey container volumes;
               job = job0\<lparr>job_Spec := (job_Spec job0)\<lparr>jsp_TemplateSpec :=
                       applyMigrationPodDefaults inst (jsp_TemplateSpec (job_Spec job0))\<rparr>\<rparr>
           in case kb_SetControllerReference (rc_Kube r) (srv_ObjectMeta inst) job of
                Inl e \<Rightarrow> Inl (''failed to set owner reference on migration Job: '' @ e)
              | Inr job' \<Rightarrow> Inr job'))"


section \<open>The command line is the intended one\<close>

text \<open>
  Reference definition: how a POSIX shell splits the command text into operators and words, for the
  quoting and operators that occur in it.  A word is a list of pieces: literal characters and
  parameter expansions.  Text outside this subset gives \<open>None\<close>.
\<close>

datatype piece = Lit char | Var string

datatype token = Word "piece list" | Operator string

datatype quoting = Unquoted | SingleQuoted | DoubleQuoted

definition wordChar :: "char \<Rightarrow> bool" where
  "wordChar c \<longleftrightarrow> isAsciiLower c \<or> isAsciiUpper c \<or> isDigit c \<or> c \<in> set ''-_./=:,+@%''"

definition identChar :: "char \<Rightarrow> bool" where
  "identChar c \<longleftrightarrow> isAsciiLower c \<or> isAsciiUpper c \<or> isDigit c \<or> c = CHR ''_''"

definition flush :: "piece list option \<Rightarrow> token list" where
  "flush cur = (case cur of None \<Rightarrow> [] | Some ps \<Rightarrow> [Word ps])"

definition grow :: "piece list option \<Rightarrow> piece list \<Rightarrow> piece list option" where
  "grow cur ps = Some ((case cur of None \<Rightarrow> [] | Some qs \<Rightarrow> qs) @ ps)"

function shellLex :: "quoting \<Rightarrow> piece list option \<Rightarrow> string \<Rightarrow> token list option" where
  "shellLex Unquoted cur [] = Some (flush cur)"
| "shellLex Unquoted cur (c # cs) =
     (if c = CHR '' '' then map_option (\<lambda>ts. flush cur @ ts) (shellLex Unquoted None cs)
      else if c = CHR '';'' then map_option (\<lambda>ts. flush cur @ Operator '';'' # ts) (shellLex Unquoted None cs)
      else if c = CHR ''&'' \<and> take 1 cs = ''&''
           then map_option (\<lambda>ts. flush cur @ Operator ''&&'' # ts) (shellLex Unquoted None (drop 1 cs))
      else if c = CHR 0x27 then shellLex SingleQuoted (grow cur []) cs
      else if c = CHR 0x22 then shellLex DoubleQuoted (grow cur []) cs
      else if wordChar c then shellLex Unquoted (grow cur [Lit c]) cs
      else None)"
| "shellLex SingleQuoted cur [] = None"
| "shellLex SingleQuoted cur (c # cs) =
     (if c = CHR 0x27 then shellLex Unquoted cur cs else shellLex SingleQuoted (grow cur [Lit c]) cs)"
| "shellLex DoubleQuoted cur [] = None"
| "shellLex DoubleQuoted cur (c # cs) =
     (if c = CHR 0x22 then shellLex Unquoted cur cs
      else if c = CHR ''$'' then
        (if takeWhile identChar cs = [] then None
         else shellLex DoubleQuoted (grow cur [Var (takeWhile identChar cs)]) (dropWhile identChar cs))
      else if c = CHR 0x5C \<or> c = CHR 0x60 then None
      else shellLex DoubleQuoted (grow cur [Lit c]) cs)"
  by pat_completeness auto
termination
  by (relation "measure (\<lambda>(q, cur, s). length s)") (auto simp: less_Suc_eq_le length_dropWhile_le)

lemma grow_grow [simp]: "grow (grow cur ps) qs = grow cur (ps @ qs)"
  by (simp add: grow_def)

lemma replaceAll_char:
  "replaceAll [q] new (c # cs) = (if c = q then new else [c]) @ replaceAll [q] new cs"
  by (subst replaceAll.simps) (auto simp: hasPrefix_def)

lemma shellLex_quoted:
  "shellLex SingleQuoted cur
     (replaceAll [CHR 0x27] [CHR 0x27, CHR 0x22, CHR 0x27, CHR 0x22, CHR 0x27] v @ CHR 0x27 # rest)
   = shellLex Unquoted (case v of [] \<Rightarrow> cur | _ \<Rightarrow> grow cur (map Lit v)) rest"
proof (induction v arbitrary: cur)
  case Nil
  then show ?case by simp
next
  case (Cons c v)
  then show ?case by (auto simp: replaceAll_char grow_def split: list.split)
qed

lemma shellLex_shellQuote:
  "shellLex Unquoted cur (shellQuote v @ rest) = shellLex Unquoted (grow cur (map Lit v)) rest"
  by (auto simp: shellQuote_def shellLex_quoted split: list.split)

lemma shellLex_words:
  "list_all wordChar s \<Longrightarrow> s \<noteq> [] \<Longrightarrow>
     shellLex Unquoted cur (s @ rest) = shellLex Unquoted (grow cur (map Lit s)) rest"
proof (induction s arbitrary: cur)
  case (Cons c s)
  have "wordChar c" using Cons.prems by simp
  then have "c \<noteq> CHR '' ''" "c \<noteq> CHR '';''" "c \<noteq> CHR ''&''" "c \<noteq> CHR 0x27" "c \<noteq> CHR 0x22"
    by (auto simp: wordChar_def isAsciiLower_def isAsciiUpper_def isDigit_def)
  then show ?case using Cons \<open>wordChar c\<close> by (cases "s = []") simp_all
qed simp


definition wordOf :: "string \<Rightarrow> token" where
  "wordOf s = Word (map Lit s)"

definition migrateCommand :: "MigrationJobSpec \<Rightarrow> string list \<Rightarrow> token list" where
  "migrateCommand mj extra =
     map wordOf ([''ogx'', ''migrate'', ''praxis''] @ extra
       @ (if mj_FallbackTenant mj = [] then [] else [''--fallback-tenant'', mj_FallbackTenant mj])
       @ (if mj_FallbackOwnerSubject mj = [] then [] else [''--fallback-owner-subject'', mj_FallbackOwnerSubject mj]))
     @ [Word [Var ''OGX_CONFIG'']]"

definition migrationFlags :: "MigrationJobSpec \<Rightarrow> string" where
  "migrationFlags mj =
     (if mj_FallbackTenant mj \<noteq> [] then '' --fallback-tenant '' @ shellQuote (mj_FallbackTenant mj) else [])
     @ (if mj_FallbackOwnerSubject mj \<noteq> []
        then '' --fallback-owner-subject '' @ shellQuote (mj_FallbackOwnerSubject mj) else [])"

lemmas char_class_defs = wordChar_def identChar_def isAsciiLower_def isAsciiUpper_def isDigit_def less_eq_char_def

lemma shellLex_flags:
  "shellLex Unquoted cur (migrationFlags mj @ '' '' @ [CHR 0x22] @ ''$OGX_CONFIG'' @ [CHR 0x22] @ rest) =
   map_option (\<lambda>ts. flush cur
     @ map wordOf ((if mj_FallbackTenant mj = [] then [] else [''--fallback-tenant'', mj_FallbackTenant mj])
       @ (if mj_FallbackOwnerSubject mj = [] then [] else [''--fallback-owner-subject'', mj_FallbackOwnerSubject mj]))
     @ ts) (shellLex Unquoted (Some [Var ''OGX_CONFIG'']) rest)"
  by (simp add: migrationFlags_def shellLex_shellQuote char_class_defs grow_def flush_def wordOf_def
      option.map_comp comp_def)

text \<open>
  (C37) The shell command of the migration Job, read as a shell reads it, is the dry run followed,
  only when it succeeded, by the migration, each with the fallback values as single literal
  arguments whatever characters they contain, and the configuration path as last argument.
\<close>

theorem migration_command_is_intended:
  "shellLex Unquoted None (migrationJobShell (Some mj)) =
     Some ([wordOf ''set'', wordOf ''-eu'', Operator '';''] @ migrateCommand mj [''--dry-run'']
           @ [Operator ''&&''] @ migrateCommand mj [])"
proof -
  have shell: "migrationJobShell (Some mj) =
      ''set -eu; ogx migrate praxis --dry-run'' @ migrationFlags mj @ '' '' @ [CHR 0x22] @ ''$OGX_CONFIG''
      @ [CHR 0x22] @ '' && ogx migrate praxis'' @ migrationFlags mj @ '' '' @ [CHR 0x22] @ ''$OGX_CONFIG''
      @ [CHR 0x22] @ []"
    by (simp add: migrationJobShell_def migrationFlags_def Let_def)
  have p1: "shellLex Unquoted None (''set -eu; ogx migrate praxis --dry-run'' @ rest) =
      map_option (\<lambda>ts. [wordOf ''set'', wordOf ''-eu'', Operator '';'', wordOf ''ogx'', wordOf ''migrate'',
        wordOf ''praxis''] @ ts) (shellLex Unquoted (Some (map Lit ''--dry-run'')) rest)" for rest
    by (simp add: char_class_defs grow_def flush_def wordOf_def option.map_comp comp_def)
  have p2: "shellLex Unquoted (Some [Var ''OGX_CONFIG'']) ('' && ogx migrate praxis'' @ rest) =
      map_option (\<lambda>ts. [Word [Var ''OGX_CONFIG''], Operator ''&&'', wordOf ''ogx'', wordOf ''migrate''] @ ts)
        (shellLex Unquoted (Some (map Lit ''praxis'')) rest)" for rest
    by (simp add: char_class_defs grow_def flush_def wordOf_def option.map_comp comp_def)
  show ?thesis
    unfolding shell p1 shellLex_flags p2
    by (simp add: migrateCommand_def flush_def wordOf_def)
qed


section \<open>What the preflight guarantees\<close>

definition connectionString ::
    "'w OGXServerReconciler \<Rightarrow> 'w \<Rightarrow> string \<Rightarrow> SecretKeyRef \<Rightarrow> string option" where
  "connectionString r w ns ref =
     (case kb_GetSecret (rc_Kube r) w ns (skr_Name ref) of
        Inl _ \<Rightarrow> None
      | Inr s \<Rightarrow> if mget (sec_Labels s) WatchLabelKey = Some WatchLabelValue
                 then mget (sec_Data s) (skr_Key ref) else None)"

definition runtimeConfigPresent ::
    "'w OGXServerReconciler \<Rightarrow> 'w \<Rightarrow> string \<Rightarrow> runtimeConfigRef option \<Rightarrow> bool" where
  "runtimeConfigPresent r w ns rcfg =
     (case rcfg of None \<Rightarrow> True
      | Some c \<Rightarrow>
          (case kb_GetConfigMap (rc_Kube r) w ns (rcr_ConfigMapName c) of
             Inl _ \<Rightarrow> False
           | Inr cm \<Rightarrow> mget (cm_Data cm) (rcr_ConfigMapKey c) \<noteq> None
                      \<or> mget (cm_BinaryData cm) (rcr_ConfigMapKey c) \<noteq> None))"

definition caBundlePresent :: "'w OGXServerReconciler \<Rightarrow> 'w \<Rightarrow> OGXServer \<Rightarrow> bool" where
  "caBundlePresent r w inst =
     (hasAnyCABundle r w inst \<longrightarrow>
        (\<exists>cm. kb_GetConfigMap (rc_Kube r) w (nsOf inst) (getManagedCABundleConfigMapName inst) = Inr cm))"

lemma orElse_None [simp]: "orElse e f = None \<longleftrightarrow> e = None \<and> f = None"
  by (simp add: orElse_def split: option.splits)

lemma wrapErr_None [simp]: "wrapErr p e = None \<longleftrightarrow> e = None"
  by (simp add: wrapErr_def)

lemma ensureSecretKeyExists_None:
  "ensureSecretKeyExists r w ns ref = None \<longleftrightarrow> (\<exists>v. connectionString r w ns ref = Some v)"
  by (auto simp: ensureSecretKeyExists_def connectionString_def Let_def
      split: sum.splits api_error.splits if_splits)

lemma secretKeyFingerprint_present:
  "connectionString r w ns ref = Some v \<Longrightarrow> secretKeyFingerprint r w ns ref = Inr (fingerprintBytes v)"
  by (auto simp: connectionString_def secretKeyFingerprint_def orEmpty_def
      split: sum.splits if_splits)

lemma ensureMigrationRuntimeConfig_None:
  "ensureMigrationRuntimeConfig r w ns rcfg = None \<longleftrightarrow> runtimeConfigPresent r w ns rcfg"
  by (auto simp: ensureMigrationRuntimeConfig_def ensureConfigMapKeyExists_def runtimeConfigPresent_def Let_def
      split: option.splits sum.splits api_error.splits if_splits)

lemma ensureMigrationCABundle_None:
  "ensureMigrationCABundle r w inst = None \<longleftrightarrow> caBundlePresent r w inst"
  by (auto simp: ensureMigrationCABundle_def caBundlePresent_def Let_def
      split: sum.splits api_error.splits)

lemma migrationSourceSecretRef_Inr:
  "migrationSourceSecretRef inst = Inr src \<longleftrightarrow>
     (\<exists>st sql. spec_Storage (srv_Spec inst) = Some st \<and> stg_SQL st = Some sql
        \<and> sql_Type sql = ''postgres'' \<and> sql_ConnectionString sql = Some src)"
  by (auto simp: migrationSourceSecretRef_def split: option.splits)

lemma ensureDistinct_None:
  assumes "connectionString r w ns src = Some u" "connectionString r w ns dst = Some v"
  shows "ensureDistinctMigrationDatabases r w ns src dst = None \<longleftrightarrow>
     (skr_Name src \<noteq> skr_Name dst \<or> skr_Key src \<noteq> skr_Key dst) \<and> fingerprintBytes u \<noteq> fingerprintBytes v"
  using secretKeyFingerprint_present [OF assms(1)] secretKeyFingerprint_present [OF assms(2)]
  by (simp add: ensureDistinctMigrationDatabases_def)

lemma runMigrationPreflight_None:
  "runMigrationPreflight r w inst rcfg = None \<longleftrightarrow>
     (\<exists>src dst u v img. migrationSourceSecretRef inst = Inr src
        \<and> migrationTargetSecretRef inst = Some dst
        \<and> connectionString r w (nsOf inst) src = Some u
        \<and> connectionString r w (nsOf inst) dst = Some v
        \<and> (skr_Name src \<noteq> skr_Name dst \<or> skr_Key src \<noteq> skr_Key dst)
        \<and> fingerprintBytes u \<noteq> fingerprintBytes v
        \<and> runtimeConfigPresent r w (nsOf inst) rcfg
        \<and> caBundlePresent r w inst
        \<and> resolveImage r (spec_Distribution (srv_Spec inst)) = Inr img)"
  (is "?L \<longleftrightarrow> ?R")
proof (cases "migrationSourceSecretRef inst")
  case (Inl e)
  then show ?thesis by (simp add: runMigrationPreflight_def)
next
  case src: (Inr src)
  show ?thesis
  proof (cases "migrationTargetSecretRef inst")
    case None
    then show ?thesis using src
      by (simp add: runMigrationPreflight_def requireMigrationTargetSecretRef_def)
  next
    case (Some dst)
    then have "?L \<longleftrightarrow> (\<exists>u. connectionString r w (nsOf inst) src = Some u)
        \<and> (\<exists>v. connectionString r w (nsOf inst) dst = Some v)
        \<and> ensureDistinctMigrationDatabases r w (nsOf inst) src dst = None
        \<and> runtimeConfigPresent r w (nsOf inst) rcfg \<and> caBundlePresent r w inst
        \<and> (\<exists>img. resolveImage r (spec_Distribution (srv_Spec inst)) = Inr img)"
      using src
      by (simp add: runMigrationPreflight_def requireMigrationTargetSecretRef_def
          ensureSecretKeyExists_None ensureMigrationRuntimeConfig_None ensureMigrationCABundle_None
          split: sum.split)
    also have "\<dots> \<longleftrightarrow> ?R"
      using src Some by (auto simp: ensureDistinct_None)
    finally show ?thesis .
  qed
qed

lemma runMigrationPreflight_NoneI:
  "migrationSourceSecretRef inst = Inr src \<Longrightarrow> migrationTargetSecretRef inst = Some dst \<Longrightarrow>
   connectionString r w (nsOf inst) src = Some u \<Longrightarrow> connectionString r w (nsOf inst) dst = Some v \<Longrightarrow>
   skr_Name src \<noteq> skr_Name dst \<or> skr_Key src \<noteq> skr_Key dst \<Longrightarrow>
   fingerprintBytes u \<noteq> fingerprintBytes v \<Longrightarrow> runtimeConfigPresent r w (nsOf inst) rcfg \<Longrightarrow>
   caBundlePresent r w inst \<Longrightarrow> resolveImage r (spec_Distribution (srv_Spec inst)) = Inr img \<Longrightarrow>
   runMigrationPreflight r w inst rcfg = None"
  unfolding runMigrationPreflight_None by blast

text \<open>
  (C36) The preflight passes exactly when the OGX database is a postgres connection string in a watched
  Secret, the Praxis database another one, their contents differ (their fingerprints do), the
  runtime config key exists when one is used, the managed CA bundle exists when one is needed, and
  the image resolves.  In particular the two connection strings of a run that passed are different.
\<close>

theorem preflight_is_exact:
  "(runMigrationPreflight r w inst rcfg = None \<longleftrightarrow>
     (\<exists>st sql src dst u v img.
        spec_Storage (srv_Spec inst) = Some st \<and> stg_SQL st = Some sql \<and> sql_Type sql = ''postgres''
        \<and> sql_ConnectionString sql = Some src \<and> migrationTargetSecretRef inst = Some dst
        \<and> connectionString r w (nsOf inst) src = Some u \<and> connectionString r w (nsOf inst) dst = Some v
        \<and> (skr_Name src, skr_Key src) \<noteq> (skr_Name dst, skr_Key dst)
        \<and> u \<noteq> v \<and> fingerprintBytes u \<noteq> fingerprintBytes v
        \<and> runtimeConfigPresent r w (nsOf inst) rcfg \<and> caBundlePresent r w inst
        \<and> resolveImage r (spec_Distribution (srv_Spec inst)) = Inr img))"
  unfolding runMigrationPreflight_None migrationSourceSecretRef_Inr prod.inject de_Morgan_conj by blast

text \<open>After a passed preflight the attempt key is always computed, and it is sixteen hex digits.\<close>

lemma fingerprintBytes_shape: "length (fingerprintBytes b) = 16 \<and> list_all isHexChar (fingerprintBytes b)"
  using sha256Sum_length [of b] sha256Sum_bytes [of _ b]
  by (auto simp: fingerprintBytes_def intro!: hexEncode_chars dest: in_set_takeD)

lemma migrationAttemptKey_after_preflight:
  assumes "runMigrationPreflight r w inst rcfg = None"
  shows "\<exists>k. migrationAttemptKey r w inst rcfg = Inr k \<and> length k = 16 \<and> list_all isHexChar k"
proof -
  obtain st sql src dst u v img where p:
    "spec_Storage (srv_Spec inst) = Some st" "stg_SQL st = Some sql" "sql_ConnectionString sql = Some src"
    "migrationTargetSecretRef inst = Some dst" "connectionString r w (nsOf inst) src = Some u"
    "connectionString r w (nsOf inst) dst = Some v" "runtimeConfigPresent r w (nsOf inst) rcfg"
    "resolveImage r (spec_Distribution (srv_Spec inst)) = Inr img"
    using assms unfolding runMigrationPreflight_None migrationSourceSecretRef_Inr by blast
  have "\<exists>t. migrationAttemptText r w inst rcfg = Inr t"
    using p secretKeyFingerprint_present [OF p(5)] secretKeyFingerprint_present [OF p(6)]
    by (auto simp: migrationAttemptText_def appendMigrationSourceAttemptKey_def
        appendMigrationTargetAttemptKey_def appendMigrationConfigAttemptKey_def
        appendSecretAttemptKey_def configMapKeyFingerprint_def runtimeConfigPresent_def
        split: option.splits sum.splits)
  then show ?thesis using fingerprintBytes_shape by (auto simp: migrationAttemptKey_def)
qed


section \<open>The Job object\<close>

text \<open>
  What is relied on of \<open>controllerutil.SetControllerReference\<close> and \<open>metav1.IsControlledBy\<close>: the
  former changes only the owner references, and makes the instance the controller.
\<close>

definition setsController :: "'w Kube \<Rightarrow> bool" where
  "setsController kb \<longleftrightarrow>
     (\<forall>owner job job'. kb_SetControllerReference kb owner job = Inr job' \<longrightarrow>
        (\<exists>refs. job' = job\<lparr>job_ObjectMeta := (job_ObjectMeta job)\<lparr>meta_OwnerReferences := refs\<rparr>\<rparr>)
        \<and> kb_IsControlledBy kb job' owner)"

lemma collected_name_scoped:
  "e \<in> set (CollectSecretRefs s) \<Longrightarrow> \<exists>a b. env_Name e = envVarPrefix @ ''_'' @ a @ ''_'' @ b"
  using okEnv_raw [of s] by (auto simp: set_CollectSecretRefs list_all_iff okEnv_def dest!: find_Some_name)

lemma scoped_name_neq:
  "envVarPrefix @ ''_'' @ a @ ''_'' @ b \<noteq> ''OGX_CONFIG''"
  "envVarPrefix @ ''_'' @ a @ ''_'' @ b \<noteq> ''RUN_CONFIG_PATH''"
  "envVarPrefix @ ''_'' @ a @ ''_'' @ b \<noteq> ''SSL_CERT_FILE''"
  "envVarPrefix @ ''_'' @ a @ ''_'' @ b \<noteq> praxisDatabaseURLEnv"
proof -
  have "CHR ''_'' \<in> set (a @ ''_'' @ b)" by simp
  moreover have "CHR ''_'' \<notin> set ''CONFIG''" by simp
  ultimately have "a @ ''_'' @ b \<noteq> ''CONFIG''" by metis
  then show "envVarPrefix @ ''_'' @ a @ ''_'' @ b \<noteq> ''OGX_CONFIG''" by (simp add: envVarPrefix_def)
qed (simp_all add: envVarPrefix_def praxisDatabaseURLEnv_def)

lemma migrationJobEnv_distinct:
  "distinct (map env_Name (migrationJobEnv inst)) \<and> ''SSL_CERT_FILE'' \<notin> set (map env_Name (migrationJobEnv inst))"
proof -
  let ?c = "CollectSecretRefs (srv_Spec inst)"
  have "distinct (map env_Name ?c)"
    using CollectSecretRefs_sorted [of "srv_Spec inst"] by (simp add: strict_sorted_iff)
  moreover have "n \<notin> set (map env_Name ?c)"
    if "n \<in> {''OGX_CONFIG'', ''RUN_CONFIG_PATH'', ''SSL_CERT_FILE'', praxisDatabaseURLEnv}" for n
    using collected_name_scoped [of _ "srv_Spec inst"] scoped_name_neq that by (auto; metis)
  ultimately show ?thesis
    by (auto simp: migrationJobEnv_def plainEnv_def praxisDatabaseURLEnv_def split: option.split)
qed

lemma jobContainer_env:
  "map env_Name (ctr_Env (fst (migrationJobPodInputs r w inst rcfg img))) =
     map env_Name (migrationJobEnv inst) @ (if hasAnyCABundle r w inst then [''SSL_CERT_FILE''] else [])"
  "set (migrationJobEnv inst) \<subseteq> set (ctr_Env (fst (migrationJobPodInputs r w inst rcfg img)))"
  "ctr_Image (fst (migrationJobPodInputs r w inst rcfg img)) = img"
  "ctr_Command (fst (migrationJobPodInputs r w inst rcfg img)) = [''/bin/sh'', ''-c'']"
  "ctr_Args (fst (migrationJobPodInputs r w inst rcfg img)) = [migrationJobShell (migrationJobSpec inst)]"
  by (auto simp: migrationJobPodInputs_def plainEnv_def Let_def split: option.split)

lemma applyMigrationPodDefaults_simps:
  assumes "pod_Containers ps = [c]"
  shows "\<exists>c'. pod_Containers (applyMigrationPodDefaults inst ps) = [c']
      \<and> ctr_Env c' = ctr_Env c \<and> ctr_Image c' = ctr_Image c \<and> ctr_Command c' = ctr_Command c
      \<and> ctr_Args c' = ctr_Args c \<and> ctr_Name c' = ctr_Name c"
    "pod_RestartPolicy (applyMigrationPodDefaults inst ps) = pod_RestartPolicy ps"
    "set (pod_Volumes ps) \<subseteq> set (pod_Volumes (applyMigrationPodDefaults inst ps))"
  using assms
  by (auto simp: applyMigrationPodDefaults_def configurePodOverrides_def Let_def split: option.splits)

lemma migration_job_props:
  assumes "setsController (rc_Kube r)" "buildMigrationJob r w inst rcfg jobName key = Inr job"
  shows "\<exists>img c. resolveImage r (spec_Distribution (srv_Spec inst)) = Inr img
     \<and> meta_Name (job_ObjectMeta job) = jobName \<and> meta_Namespace (job_ObjectMeta job) = nsOf inst
     \<and> mget (meta_Annotations (job_ObjectMeta job)) migrationAttemptAnnotation = Some key
     \<and> kb_IsControlledBy (rc_Kube r) job (srv_ObjectMeta inst)
     \<and> meta_DeletionTimestamp (job_ObjectMeta job) = None
     \<and> jsp_Completions (job_Spec job) = Some 1 \<and> jsp_Parallelism (job_Spec job) = Some 1
     \<and> pod_Containers (jsp_TemplateSpec (job_Spec job)) = [c]
     \<and> ctr_Image c = img \<and> ctr_Command c = [''/bin/sh'', ''-c'']
     \<and> ctr_Args c = [migrationJobShell (migrationJobSpec inst)]
     \<and> set (CollectSecretRefs (srv_Spec inst)) \<subseteq> set (ctr_Env c)
     \<and> set (migrationJobEnv inst) \<subseteq> set (ctr_Env c)
     \<and> distinct (map env_Name (ctr_Env c))"
proof -
  obtain img where img: "resolveImage r (spec_Distribution (srv_Spec inst)) = Inr img"
    using assms(2) by (cases "resolveImage r (spec_Distribution (srv_Spec inst))") (simp_all add: buildMigrationJob_def)
  obtain c vs where cv: "migrationJobPodInputs r w inst rcfg img = (c, vs)" by fastforce
  define job0 where "job0 = newMigrationJob inst jobName key c vs"
  define job1 where "job1 = job0\<lparr>job_Spec := (job_Spec job0)\<lparr>jsp_TemplateSpec :=
      applyMigrationPodDefaults inst (jsp_TemplateSpec (job_Spec job0))\<rparr>\<rparr>"
  have "kb_SetControllerReference (rc_Kube r) (srv_ObjectMeta inst) job1 = Inr job"
    using assms(2) img cv by (auto simp: buildMigrationJob_def job0_def job1_def Let_def split: sum.splits)
  then obtain refs where job: "job = job1\<lparr>job_ObjectMeta := (job_ObjectMeta job1)\<lparr>meta_OwnerReferences := refs\<rparr>\<rparr>"
    and ctl: "kb_IsControlledBy (rc_Kube r) job (srv_ObjectMeta inst)"
    using assms(1) unfolding setsController_def by blast
  have "pod_Containers (jsp_TemplateSpec (job_Spec job0)) = [c]"
    by (simp add: job0_def newMigrationJob_def Let_def)
  then obtain c' where c': "pod_Containers (jsp_TemplateSpec (job_Spec job)) = [c']" "ctr_Env c' = ctr_Env c"
      "ctr_Image c' = ctr_Image c" "ctr_Command c' = ctr_Command c" "ctr_Args c' = ctr_Args c"
    using applyMigrationPodDefaults_simps(1) [of "jsp_TemplateSpec (job_Spec job0)" c inst]
    by (auto simp: job job1_def)
  have env: "distinct (map env_Name (ctr_Env c))" "set (migrationJobEnv inst) \<subseteq> set (ctr_Env c)"
    using jobContainer_env [where r = r and w = w and inst = inst and rcfg = rcfg and img = img] migrationJobEnv_distinct [of inst] cv by auto
  have sub: "set (CollectSecretRefs (srv_Spec inst)) \<subseteq> set (migrationJobEnv inst)"
    by (auto simp: migrationJobEnv_def)
  show ?thesis
    using img ctl c' env subset_trans [OF sub env(2)] jobContainer_env(3-5) [where r = r and w = w and inst = inst and rcfg = rcfg and img = img] cv
    by (intro exI [of _ img] exI [of _ c'])
       (simp_all add: job job1_def job0_def newMigrationJob_def Let_def mlit_def)
qed

text \<open>
  The migration Job: named after the instance, in its namespace, controlled by it, annotated
  with the attempt key, run to completion once by one container that executes the migration command
  on the resolved image.  Its environment holds every secret of the spec and the Praxis connection
  string, and no two entries have the same name, so none shadows another.
\<close>

theorem migration_job_is_built:
  assumes "setsController (rc_Kube r)" "buildMigrationJob r w inst rcfg jobName key = Inr job"
  shows "\<exists>img c. resolveImage r (spec_Distribution (srv_Spec inst)) = Inr img
     \<and> meta_Name (job_ObjectMeta job) = jobName \<and> meta_Namespace (job_ObjectMeta job) = nsOf inst
     \<and> mget (meta_Annotations (job_ObjectMeta job)) migrationAttemptAnnotation = Some key
     \<and> kb_IsControlledBy (rc_Kube r) job (srv_ObjectMeta inst)
     \<and> meta_DeletionTimestamp (job_ObjectMeta job) = None
     \<and> jsp_Completions (job_Spec job) = Some 1 \<and> jsp_Parallelism (job_Spec job) = Some 1
     \<and> pod_Containers (jsp_TemplateSpec (job_Spec job)) = [c]
     \<and> ctr_Image c = img \<and> ctr_Command c = [''/bin/sh'', ''-c'']
     \<and> ctr_Args c = [migrationJobShell (migrationJobSpec inst)]
     \<and> set (CollectSecretRefs (srv_Spec inst)) \<subseteq> set (ctr_Env c)
     \<and> set (migrationJobEnv inst) \<subseteq> set (ctr_Env c)
     \<and> distinct (map env_Name (ctr_Env c))"
  by (rule migration_job_props [OF assms])


section \<open>An in-memory API server\<close>

text \<open>
  An instance of the interface, for examples: objects in association lists keyed by namespace and
  name.  A created Job has no status; a deletion with foreground propagation marks the object, which
  the server removes later.
\<close>

record Store =
  sto_Secrets :: "((string \<times> string) \<times> Secret) list"
  sto_ConfigMaps :: "((string \<times> string) \<times> ConfigMap) list"
  sto_Jobs :: "((string \<times> string) \<times> Job) list"

definition storeGet :: "((string \<times> string) \<times> 'a) list \<Rightarrow> string \<Rightarrow> string \<Rightarrow> api_error + 'a" where
  "storeGet xs ns n = (case map_of xs (ns, n) of None \<Rightarrow> Inl (NotFound ''not found'') | Some x \<Rightarrow> Inr x)"

definition jobKey :: "Job \<Rightarrow> string \<times> string" where
  "jobKey job = (meta_Namespace (job_ObjectMeta job), meta_Name (job_ObjectMeta job))"

definition storeDeleteJob :: "Store \<Rightarrow> Job \<Rightarrow> api_error option \<times> Store" where
  "storeDeleteJob w job =
     (case map_of (sto_Jobs w) (jobKey job) of
        None \<Rightarrow> (Some (NotFound ''not found''), w)
      | Some j \<Rightarrow> (None, w\<lparr>sto_Jobs :=
          (jobKey job, j\<lparr>job_ObjectMeta := (job_ObjectMeta j)\<lparr>meta_DeletionTimestamp := Some 0\<rparr>\<rparr>) # sto_Jobs w\<rparr>))"

definition storeCreateJob :: "Store \<Rightarrow> Job \<Rightarrow> (api_error + Job) \<times> Store" where
  "storeCreateJob w job =
     (case map_of (sto_Jobs w) (jobKey job) of
        Some _ \<Rightarrow> (Inl (AlreadyExists ''already exists''), w)
      | None \<Rightarrow>
          (let created = job\<lparr>job_Status := \<lparr>jst_Conditions = [], jst_Active = 0\<rparr>\<rparr>
           in (Inr created, w\<lparr>sto_Jobs := (jobKey job, created) # sto_Jobs w\<rparr>)))"

definition controllerRef :: "ObjectMeta \<Rightarrow> OwnerReference" where
  "controllerRef owner =
     \<lparr>owner_APIVersion = ''ogx.io/v1beta1'', owner_Kind = ''OGXServer'', owner_Name = meta_Name owner, owner_UID = meta_UID owner,
      owner_Controller = Some True\<rparr>"

definition storeSetController :: "ObjectMeta \<Rightarrow> Job \<Rightarrow> string + Job" where
  "storeSetController owner job =
     (if list_ex (\<lambda>o'. owner_Controller o' = Some True) (meta_OwnerReferences (job_ObjectMeta job))
      then Inl ''already owned''
      else Inr (job\<lparr>job_ObjectMeta := (job_ObjectMeta job)\<lparr>meta_OwnerReferences :=
                  controllerRef owner # meta_OwnerReferences (job_ObjectMeta job)\<rparr>\<rparr>))"

definition storeIsControlledBy :: "Job \<Rightarrow> ObjectMeta \<Rightarrow> bool" where
  "storeIsControlledBy job owner \<longleftrightarrow>
     (case find (\<lambda>o'. owner_Controller o' = Some True) (meta_OwnerReferences (job_ObjectMeta job)) of
        None \<Rightarrow> False | Some o' \<Rightarrow> owner_UID o' = meta_UID owner)"

definition storeKube :: "Store Kube" where
  "storeKube =
     \<lparr>kb_GetSecret = (\<lambda>w. storeGet (sto_Secrets w)),
      kb_GetConfigMap = (\<lambda>w. storeGet (sto_ConfigMaps w)),
      kb_GetJob = (\<lambda>w. storeGet (sto_Jobs w)), kb_ReadJob = None,
      kb_DeleteJob = storeDeleteJob, kb_CreateJob = storeCreateJob,
      kb_SetControllerReference = storeSetController, kb_IsControlledBy = storeIsControlledBy,
      kb_ParseSelector = (\<lambda>s. None), kb_ListPods = (\<lambda>w ns s. Inr []), kb_IsPrint = (\<lambda>c. True)\<rparr>"

lemma setsController_store: "setsController storeKube"
  by (auto simp: setsController_def storeKube_def storeSetController_def storeIsControlledBy_def controllerRef_def
      split: if_splits)

definition exReconciler :: "Store OGXServerReconciler" where
  "exReconciler =
     \<lparr>rc_Kube = storeKube, rc_HasRecorder = True,
      rc_DistributionImages = [(''starter'', ''quay.io/ogx/starter:test'')], rc_ImageMappingOverrides = []\<rparr>"

definition exMigrationSpec :: "bool \<Rightarrow> OGXServerSpec" where
  "exMigrationSpec enabled =
     \<lparr>spec_Distribution = \<lparr>dist_Name = [], dist_Image = ''quay.io/ogx/demo:test''\<rparr>,
      spec_Providers = None, spec_Resources = None,
      spec_Storage = Some \<lparr>stg_KV = None, stg_SQL = Some \<lparr>sql_Type = ''postgres'',
        sql_ConnectionString = Some \<lparr>skr_Name = ''pg-secret'', skr_Key = ''conn''\<rparr>\<rparr>\<rparr>,
      spec_DisabledAPIs = [], spec_RegistryRefreshIntervalSeconds = None, spec_Network = None,
      spec_TLS = None, spec_Workload = None, spec_Monitoring = None, spec_BaseConfig = None,
      spec_OverrideConfig = None,
      spec_PraxisMode = Some \<lparr>pm_Enabled = Some enabled, pm_PraxisSelector = None,
        pm_MigrationJob = Some \<lparr>mj_Enabled = None,
          mj_TargetConnectionString = Some \<lparr>skr_Name = ''praxis-pg'', skr_Key = ''url''\<rparr>,
          mj_FallbackTenant = [], mj_FallbackOwnerSubject = []\<rparr>\<rparr>\<rparr>"

definition exInstance :: "bool \<Rightarrow> OGXServer" where
  "exInstance enabled =
     \<lparr>srv_ObjectMeta = \<lparr>meta_Name = ''demo'', meta_Namespace = ''ogx'', meta_UID = ''a1b2'',
        meta_Generation = 3, meta_ResourceVersion = [], meta_Labels = [], meta_Annotations = [],
        meta_OwnerReferences = [], meta_DeletionTimestamp = None\<rparr>,
      srv_Spec = exMigrationSpec enabled, srv_Status = emptyStatus\<rparr>"

definition exSecret :: "string \<Rightarrow> string \<Rightarrow> Secret" where
  "exSecret k v = \<lparr>sec_Labels = [(''ogx.io/watch'', ''true'')], sec_Data = [(k, v)]\<rparr>"

definition exStore :: Store where
  "exStore = \<lparr>sto_Secrets = [((''ogx'', ''pg-secret''), exSecret ''conn'' ''postgres://ogx''),
                          ((''ogx'', ''praxis-pg''), exSecret ''url'' ''postgres://praxis'')],
              sto_ConfigMaps = [], sto_Jobs = []\<rparr>"

lemma exBuildJob:
  assumes "spec_Distribution (srv_Spec inst) = \<lparr>dist_Name = [], dist_Image = ''quay.io/ogx/demo:test''\<rparr>"
  shows "\<exists>job. buildMigrationJob exReconciler w inst rcfg n k = Inr job"
proof -
  have "meta_OwnerReferences (job_ObjectMeta (newMigrationJob i n k c v)) = []" for i n c v
    by (simp add: newMigrationJob_def Let_def)
  then show ?thesis
    by (simp add: buildMigrationJob_def resolveImage_def assms exReconciler_def storeKube_def
        storeSetController_def Let_def split: prod.split)
qed

lemma exInstance_distribution:
  "spec_Distribution (srv_Spec (exInstance b)) = \<lparr>dist_Name = [], dist_Image = ''quay.io/ogx/demo:test''\<rparr>"
  by (simp add: exInstance_def exMigrationSpec_def)

theorem migration_job_is_built_witness:
  "\<exists>job c. buildMigrationJob exReconciler exStore (exInstance True) None ''demo-praxis-migration'' ''k'' = Inr job
     \<and> pod_Containers (jsp_TemplateSpec (job_Spec job)) = [c]
     \<and> set (migrationJobEnv (exInstance True)) \<subseteq> set (ctr_Env c)
     \<and> distinct (map env_Name (ctr_Env c))"
proof -
  obtain job where job: "buildMigrationJob exReconciler exStore (exInstance True) None ''demo-praxis-migration'' ''k'' = Inr job"
    using exBuildJob [OF exInstance_distribution] by blast
  have "setsController (rc_Kube exReconciler)"
    using setsController_store by (simp add: exReconciler_def)
  from migration_job_is_built [OF this job] show ?thesis
    using job by (elim exE conjE) (intro exI conjI)
qed


lemma exFingerprints: "fingerprintBytes ''postgres://ogx'' \<noteq> fingerprintBytes ''postgres://praxis''"
  by (simp add: fingerprintBytes_def sha256Sum_examples hexDigit_def hexDigits_def)

lemma exPreflight: "runMigrationPreflight exReconciler w (exInstance b) None = None"
  if "sto_Secrets w = sto_Secrets exStore" "sto_ConfigMaps w = []"
proof -
  let ?src = "\<lparr>skr_Name = ''pg-secret'', skr_Key = ''conn''\<rparr>" and ?dst = "\<lparr>skr_Name = ''praxis-pg'', skr_Key = ''url''\<rparr>"
  have "migrationSourceSecretRef (exInstance b) = Inr ?src" "migrationTargetSecretRef (exInstance b) = Some ?dst"
    by (simp_all add: exInstance_def exMigrationSpec_def migrationSourceSecretRef_def migrationTargetSecretRef_def)
  moreover have "connectionString exReconciler w (nsOf (exInstance b)) ?src = Some ''postgres://ogx''"
    "connectionString exReconciler w (nsOf (exInstance b)) ?dst = Some ''postgres://praxis''"
    using that by (simp_all add: connectionString_def exReconciler_def storeKube_def storeGet_def exStore_def
        exSecret_def exInstance_def nsOf_def WatchLabelKey_def WatchLabelValue_def mget_def)
  moreover have "runtimeConfigPresent exReconciler w (nsOf (exInstance b)) None" by (simp add: runtimeConfigPresent_def)
  moreover have "caBundlePresent exReconciler w (exInstance b)"
    using that by (simp add: caBundlePresent_def hasAnyCABundle_def detectODHTrustedCABundle_def exReconciler_def
        storeKube_def storeGet_def exInstance_def exMigrationSpec_def)
  moreover have "resolveImage exReconciler (spec_Distribution (srv_Spec (exInstance b))) = Inr ''quay.io/ogx/demo:test''"
    by (simp add: resolveImage_def exInstance_def exMigrationSpec_def)
  ultimately show ?thesis
    using exFingerprints by (intro runMigrationPreflight_NoneI [of _ ?src ?dst]) simp_all
qed

end
