(* ===== verification/Pod_Spec.thy ===== *)
theory Pod_Spec
  imports Migration_Job Render
begin

text \<open>
  The pod, disruption budget and autoscaler that the controller computes for an instance
  (\<open>controllers/resource_helper.go\<close>).  A resource quantity is its text; whether one is zero is asked
  of the quantity library, the argument \<open>isZero\<close>.
\<close>

section \<open>Ports and probes\<close>

definition getContainerPort :: "OGXServer \<Rightarrow> int" where
  "getContainerPort inst =
     (case spec_Network (srv_Spec inst) of
        Some n \<Rightarrow> if net_Port n \<noteq> 0 then net_Port n else DefaultServerPort
      | None \<Rightarrow> DefaultServerPort)"

definition startupProbeInitialDelaySeconds :: int where
  "startupProbeInitialDelaySeconds = 15"

definition startupProbeTimeoutSeconds :: int where
  "startupProbeTimeoutSeconds = 30"

definition startupProbeFailureThreshold :: int where
  "startupProbeFailureThreshold = 3"

definition startupProbeSuccessThreshold :: int where
  "startupProbeSuccessThreshold = 1"

definition getStartupProbe :: "OGXServer \<Rightarrow> Probe" where
  "getStartupProbe inst =
     \<lparr>pr_Path = ''/v1/health'', pr_Port = getContainerPort inst,
      pr_InitialDelaySeconds = startupProbeInitialDelaySeconds, pr_TimeoutSeconds = startupProbeTimeoutSeconds,
      pr_FailureThreshold = startupProbeFailureThreshold, pr_SuccessThreshold = startupProbeSuccessThreshold\<rparr>"

definition isMonitoringDisabled :: "OGXServer \<Rightarrow> bool" where
  "isMonitoringDisabled inst \<longleftrightarrow>
     (case spec_Monitoring (srv_Spec inst) of None \<Rightarrow> False | Some m \<Rightarrow> mon_Enabled m = Some False)"

definition getMetricsPort :: "OGXServer \<Rightarrow> int" where
  "getMetricsPort inst =
     (case spec_Monitoring (srv_Spec inst) of
        None \<Rightarrow> defaultMetricsPort
      | Some m \<Rightarrow> (case mon_MetricsPort m of Some p \<Rightarrow> p | None \<Rightarrow> defaultMetricsPort))"

section \<open>Resources\<close>

definition getEffectiveWorkers :: "OGXServer \<Rightarrow> int \<times> bool" where
  "getEffectiveWorkers inst =
     (case spec_Workload (srv_Spec inst) of
        None \<Rightarrow> (1, False)
      | Some wl \<Rightarrow> (case wl_Workers wl of
            None \<Rightarrow> (1, False)
          | Some n \<Rightarrow> if n > 0 then (n, True) else (1, False)))"

definition DefaultServerMemoryRequest :: string where
  "DefaultServerMemoryRequest = ''1Gi''"

text \<open>A missing or zero entry gets the default.\<close>

definition ensureEntry :: "(string \<Rightarrow> bool) \<Rightarrow> string \<Rightarrow> string \<Rightarrow> string gomap \<Rightarrow> string gomap" where
  "ensureEntry isZero k dflt m =
     (case mget m k of
        None \<Rightarrow> mput k dflt m
      | Some q \<Rightarrow> if isZero q then mput k dflt m else m)"

definition ensureRequests :: "(string \<Rightarrow> bool) \<Rightarrow> int \<Rightarrow> ResourceRequirements \<Rightarrow> ResourceRequirements" where
  "ensureRequests isZero workers res =
     res\<lparr>rr_Requests := ensureEntry isZero ''memory'' DefaultServerMemoryRequest
           (ensureEntry isZero ''cpu'' (showInt workers) (rr_Requests res))\<rparr>"

text \<open>Reading an absent key of a Go map gives the zero quantity, whose text is \<open>0\<close>.\<close>

definition quantityOf :: "string gomap \<Rightarrow> string \<Rightarrow> string" where
  "quantityOf m k = (case mget m k of Some q \<Rightarrow> q | None \<Rightarrow> ''0'')"

definition ensureLimitsMatchRequests :: "(string \<Rightarrow> bool) \<Rightarrow> ResourceRequirements \<Rightarrow> ResourceRequirements" where
  "ensureLimitsMatchRequests isZero res =
     res\<lparr>rr_Limits := ensureEntry isZero ''memory'' (quantityOf (rr_Requests res) ''memory'')
           (ensureEntry isZero ''cpu'' (quantityOf (rr_Requests res) ''cpu'') (rr_Limits res))\<rparr>"

definition resolveContainerResources :: "(string \<Rightarrow> bool) \<Rightarrow> OGXServer \<Rightarrow> int \<Rightarrow> bool \<Rightarrow> ResourceRequirements" where
  "resolveContainerResources isZero inst workers workersSet =
     (let res = (case spec_Workload (srv_Spec inst) of None \<Rightarrow> noResources
                 | Some wl \<Rightarrow> (case wl_Resources wl of None \<Rightarrow> noResources | Some rs \<Rightarrow> rs));
          res' = ensureRequests isZero workers res
      in if workersSet then ensureLimitsMatchRequests isZero res' else res')"

section \<open>The container\<close>

definition DefaultMountPath :: string where
  "DefaultMountPath = ''/.ogx''"

definition getMountPath :: "OGXServer \<Rightarrow> string" where
  "getMountPath inst =
     (case spec_Workload (srv_Spec inst) of None \<Rightarrow> DefaultMountPath
      | Some wl \<Rightarrow> (case wl_Storage wl of None \<Rightarrow> DefaultMountPath
          | Some st \<Rightarrow> if pvc_MountPath st \<noteq> [] then pvc_MountPath st else DefaultMountPath))"

text \<open>The variables before the user's overrides, in the order of the source.\<close>

definition operatorEnv ::
    "'w OGXServerReconciler \<Rightarrow> 'w \<Rightarrow> OGXServer \<Rightarrow> runtimeConfigRef option \<Rightarrow> EnvVar list \<Rightarrow> EnvVar list" where
  "operatorEnv r w inst rcfg secretEnvVars =
     [plainEnv ''HF_HOME'' (getMountPath inst)]
     @ (if hasAnyCABundle r w inst then [plainEnv ''SSL_CERT_FILE'' ManagedCABundleFilePath] else [])
     @ [plainEnv ''OGX_WORKERS'' (showInt (fst (getEffectiveWorkers inst))),
        plainEnv ''OGX_PORT'' (showInt (getContainerPort inst))]
     @ (if rcfg \<noteq> None then [plainEnv ''RUN_CONFIG_PATH'' ogxConfigPath, plainEnv ''OGX_CONFIG'' ogxConfigPath] else [])
     @ (case spec_RegistryRefreshIntervalSeconds (srv_Spec inst) of None \<Rightarrow> []
        | Some n \<Rightarrow> [plainEnv ''OGX_REGISTRY_REFRESH_INTERVAL_SECONDS'' (showInt n)])
     @ (if \<not> isMonitoringDisabled inst
        then [plainEnv ''OGX_METRICS_ENDPOINT_ENABLED'' ''1'', plainEnv ''OGX_METRICS_HOST'' ''0.0.0.0'',
              plainEnv ''OGX_METRICS_PORT'' (showInt (getMetricsPort inst))]
        else [])
     @ secretEnvVars"

definition applyEnvOverrides :: "OGXServer \<Rightarrow> EnvVar list \<Rightarrow> EnvVar list" where
  "applyEnvOverrides inst env =
     (case overridesOf inst of
        None \<Rightarrow> env
      | Some ov \<Rightarrow> filter (\<lambda>e. env_Name e \<notin> set (map env_Name (wo_Env ov))) env @ wo_Env ov)"

definition configureContainerEnvironment ::
    "'w OGXServerReconciler \<Rightarrow> 'w \<Rightarrow> OGXServer \<Rightarrow> runtimeConfigRef option \<Rightarrow> EnvVar list \<Rightarrow> Container \<Rightarrow> Container" where
  "configureContainerEnvironment r w inst rcfg secretEnvVars c =
     c\<lparr>ctr_Env := applyEnvOverrides inst (ctr_Env c @ operatorEnv r w inst rcfg secretEnvVars)\<rparr>"

definition plainMount :: "string \<Rightarrow> string \<Rightarrow> yaml" where
  "plainMount volName at = YMap (mlit [(''name'', YStr volName), (''mountPath'', YStr at)])"

definition configureContainerMounts ::
    "'w OGXServerReconciler \<Rightarrow> 'w \<Rightarrow> OGXServer \<Rightarrow> runtimeConfigRef option \<Rightarrow> Container \<Rightarrow> Container" where
  "configureContainerMounts r w inst rcfg c =
     c\<lparr>ctr_VolumeMounts := ctr_VolumeMounts c @ [plainMount ''ogx-storage'' (getMountPath inst)]
         @ (if rcfg \<noteq> None then [readOnlyMount ''user-config'' ''/etc/ogx/''] else [])
         @ (if hasAnyCABundle r w inst then [readOnlyMount CABundleVolumeName ManagedCABundleMountPath] else [])\<rparr>"

definition configureContainerCommands :: "OGXServer \<Rightarrow> Container \<Rightarrow> Container" where
  "configureContainerCommands inst c =
     (case overridesOf inst of
        None \<Rightarrow> c
      | Some ov \<Rightarrow>
          c\<lparr>ctr_Command := (if wo_Command ov \<noteq> [] then wo_Command ov else ctr_Command c),
            ctr_Args := (if wo_Args ov \<noteq> [] then wo_Args ov else ctr_Args c)\<rparr>)"

definition buildContainerSpec ::
    "(string \<Rightarrow> bool) \<Rightarrow> 'w OGXServerReconciler \<Rightarrow> 'w \<Rightarrow> OGXServer \<Rightarrow> string \<Rightarrow> runtimeConfigRef option \<Rightarrow> EnvVar list \<Rightarrow> Container" where
  "buildContainerSpec isZero r w inst img rcfg secretEnvVars =
     (let (workers, workersSet) = getEffectiveWorkers inst;
          ports = \<lparr>cp_Name = [], cp_ContainerPort = getContainerPort inst\<rparr>
            # (if \<not> isMonitoringDisabled inst then [\<lparr>cp_Name = ''metrics'', cp_ContainerPort = getMetricsPort inst\<rparr>] else []);
          container = \<lparr>ctr_Name = ''ogx'', ctr_Image = img, ctr_ImagePullPolicy = [], ctr_Command = [], ctr_Args = [],
             ctr_Env = [], ctr_VolumeMounts = [], ctr_Resources = resolveContainerResources isZero inst workers workersSet,
             ctr_Ports = ports, ctr_StartupProbe = Some (getStartupProbe inst),
             ctr_SecurityContext = Some \<lparr>sc_RunAsNonRoot = Some True, sc_AllowPrivilegeEscalation = Some False,
               sc_SeccompProfile = Some ''RuntimeDefault'', sc_CapabilitiesDrop = [''ALL'']\<rparr>\<rparr>
      in configureContainerCommands inst
           (configureContainerMounts r w inst rcfg
             (configureContainerEnvironment r w inst rcfg secretEnvVars container)))"

section \<open>The pod\<close>

definition configureStorage :: "OGXServer \<Rightarrow> string \<Rightarrow> PodSpec \<Rightarrow> PodSpec" where
  "configureStorage inst effectivePVCName ps =
     ps\<lparr>pod_Volumes := pod_Volumes ps @
        [if (case spec_Workload (srv_Spec inst) of None \<Rightarrow> False | Some wl \<Rightarrow> wl_Storage wl \<noteq> None)
         then (emptyVolume ''ogx-storage'')\<lparr>vol_PersistentVolumeClaim :=
                Some (YMap (mlit [(''claimName'', YStr effectivePVCName)]))\<rparr>
         else (emptyVolume ''ogx-storage'')\<lparr>vol_EmptyDir := Some (YMap mempty)\<rparr>]\<rparr>"

definition configureTLSCABundle :: "'w OGXServerReconciler \<Rightarrow> 'w \<Rightarrow> OGXServer \<Rightarrow> PodSpec \<Rightarrow> PodSpec" where
  "configureTLSCABundle r w inst ps =
     (if \<not> hasAnyCABundle r w inst then ps
      else ps\<lparr>pod_Volumes := pod_Volumes ps @ [createCABundleVolume (getManagedCABundleConfigMapName inst)]\<rparr>)"

definition configureRuntimeConfigVolume :: "runtimeConfigRef option \<Rightarrow> PodSpec \<Rightarrow> PodSpec" where
  "configureRuntimeConfigVolume rcfg ps =
     (case rcfg of None \<Rightarrow> ps
      | Some c \<Rightarrow> ps\<lparr>pod_Volumes := pod_Volumes ps
          @ [configMapKeyVolume ''user-config'' (rcr_ConfigMapName c) (rcr_ConfigMapKey c) ''config.yaml'']\<rparr>)"

definition defaultInstanceLabelSelector :: "OGXServer \<Rightarrow> LabelSelector" where
  "defaultInstanceLabelSelector inst =
     \<lparr>ls_MatchLabels = mlit [(''app.kubernetes.io/instance'', meta_Name (srv_ObjectMeta inst))], ls_MatchExpressions = []\<rparr>"

definition newTopologySpreadConstraint :: "LabelSelector \<Rightarrow> string \<Rightarrow> yaml" where
  "newTopologySpreadConstraint selector topologyKey =
     YMap (mlit [(''maxSkew'', YInt 1), (''topologyKey'', YStr topologyKey), (''whenUnsatisfiable'', YStr ''ScheduleAnyway''),
                 (''labelSelector'', jsonLabelSelector selector)])"

definition defaultTopologySpreadConstraints :: "OGXServer \<Rightarrow> yaml list" where
  "defaultTopologySpreadConstraints inst =
     map (newTopologySpreadConstraint (defaultInstanceLabelSelector inst))
       [''topology.kubernetes.io/region'', ''topology.kubernetes.io/zone'', ''kubernetes.io/hostname'']"

definition ensureDefaultPodAntiAffinity :: "OGXServer \<Rightarrow> PodSpec \<Rightarrow> PodSpec" where
  "ensureDefaultPodAntiAffinity inst ps =
     (let term = YMap (mlit [(''labelSelector'', jsonLabelSelector (defaultInstanceLabelSelector inst)),
                            (''topologyKey'', YStr ''kubernetes.io/hostname'')]);
          antiAffinity = YMap (mlit [(''preferredDuringSchedulingIgnoredDuringExecution'',
             YList [YMap (mlit [(''weight'', YInt 100), (''podAffinityTerm'', term)])])]);
          aff = (case pod_Affinity ps of Some a \<Rightarrow> a | None \<Rightarrow> \<lparr>aff_PodAntiAffinity = None\<rparr>)
      in if aff_PodAntiAffinity aff \<noteq> None then ps
         else ps\<lparr>pod_Affinity := Some (aff\<lparr>aff_PodAntiAffinity := Some antiAffinity\<rparr>)\<rparr>)"

definition configurePodScheduling :: "OGXServer \<Rightarrow> PodSpec \<Rightarrow> PodSpec" where
  "configurePodScheduling inst ps =
     (let user = (case spec_Workload (srv_Spec inst) of None \<Rightarrow> [] | Some wl \<Rightarrow> wl_TopologySpreadConstraints wl);
          ps1 = (if user \<noteq> [] then ps\<lparr>pod_TopologySpreadConstraints := user\<rparr>
                 else if GetEffectiveReplicas inst > 1
                 then ps\<lparr>pod_TopologySpreadConstraints := defaultTopologySpreadConstraints inst\<rparr>
                 else ps)
      in if GetEffectiveReplicas inst > 1 then ensureDefaultPodAntiAffinity inst ps1 else ps1)"

definition configureResourceClaims :: "OGXServer \<Rightarrow> PodSpec \<Rightarrow> PodSpec" where
  "configureResourceClaims inst ps =
     (case spec_Workload (srv_Spec inst) of None \<Rightarrow> ps
      | Some wl \<Rightarrow> if wl_ResourceClaims wl = [] then ps else ps\<lparr>pod_ResourceClaims := wl_ResourceClaims wl\<rparr>)"

definition configurePodStorage ::
    "'w OGXServerReconciler \<Rightarrow> 'w \<Rightarrow> OGXServer \<Rightarrow> runtimeConfigRef option \<Rightarrow> Container \<Rightarrow> string \<Rightarrow> PodSpec" where
  "configurePodStorage r w inst rcfg container effectivePVCName =
     configureResourceClaims inst
       (configurePodScheduling inst
         (configurePodOverrides inst
           (configureRuntimeConfigVolume rcfg
             (configureTLSCABundle r w inst
               (configureStorage inst effectivePVCName
                 \<lparr>pod_RestartPolicy = [], pod_Containers = [container], pod_Volumes = [],
                  pod_SecurityContext = Some \<lparr>psc_RunAsNonRoot = Some True, psc_SeccompProfile = Some ''RuntimeDefault''\<rparr>,
                  pod_ServiceAccountName = [], pod_TopologySpreadConstraints = [], pod_Affinity = None,
                  pod_ResourceClaims = []\<rparr>)))))"

section \<open>Distribution, disruption budget and autoscaler\<close>

text \<open>\<open>r.ClusterInfo == nil\<close> is not modelled: the reconciler is built with it.\<close>

definition validateDistribution :: "'w OGXServerReconciler \<Rightarrow> OGXServer \<Rightarrow> string option" where
  "validateDistribution r inst =
     (let name = dist_Name (spec_Distribution (srv_Spec inst)) in
      if name \<noteq> [] \<and> mget (rc_DistributionImages r) name = None
      then Some (''failed to validate distribution: '' @ name @ ''. Distribution name not supported'')
      else None)"

definition needsPodDisruptionBudget :: "OGXServer \<Rightarrow> bool" where
  "needsPodDisruptionBudget inst \<longleftrightarrow>
     (case spec_Workload (srv_Spec inst) of None \<Rightarrow> False | Some wl \<Rightarrow> wl_PodDisruptionBudget wl \<noteq> None)
     \<or> GetEffectiveReplicas inst > 1"

definition buildPodDisruptionBudgetSpec :: "OGXServer \<Rightarrow> PodDisruptionBudgetSpec option" where
  "buildPodDisruptionBudgetSpec inst =
     (if \<not> needsPodDisruptionBudget inst then None
      else case (case spec_Workload (srv_Spec inst) of None \<Rightarrow> None | Some wl \<Rightarrow> wl_PodDisruptionBudget wl) of
             Some p \<Rightarrow> Some \<lparr>pdb_MinAvailable = pdb_MinAvailable p, pdb_MaxUnavailable = pdb_MaxUnavailable p\<rparr>
           | None \<Rightarrow> Some \<lparr>pdb_MinAvailable = None, pdb_MaxUnavailable = Some (YInt 1)\<rparr>)"

record MetricSpec =
  ms_Name :: string
  ms_AverageUtilization :: int

record HorizontalPodAutoscalerSpec =
  hpa_TargetAPIVersion :: string
  hpa_TargetKind :: string
  hpa_TargetName :: string
  hpa_MinReplicas :: int
  hpa_MaxReplicas :: int
  hpa_Metrics :: "MetricSpec list"

definition resolveMinReplicas :: "int option \<Rightarrow> int \<Rightarrow> int" where
  "resolveMinReplicas v defaultVal =
     (let resolved = (if defaultVal > 1 then defaultVal else 1)
      in case v of None \<Rightarrow> resolved | Some n \<Rightarrow> if n > resolved then n else resolved)"

definition defaultHPACPUUtilization :: int where
  "defaultHPACPUUtilization = 80"

definition buildHPAMetrics :: "AutoscalingSpec \<Rightarrow> MetricSpec list" where
  "buildHPAMetrics auto =
     (let metrics =
        (case as_TargetCPUUtilizationPercentage auto of None \<Rightarrow> []
         | Some n \<Rightarrow> [\<lparr>ms_Name = ''cpu'', ms_AverageUtilization = n\<rparr>])
        @ (case as_TargetMemoryUtilizationPercentage auto of None \<Rightarrow> []
           | Some n \<Rightarrow> [\<lparr>ms_Name = ''memory'', ms_AverageUtilization = n\<rparr>])
      in if metrics = [] then [\<lparr>ms_Name = ''cpu'', ms_AverageUtilization = defaultHPACPUUtilization\<rparr>] else metrics)"

definition buildHPASpec :: "OGXServer \<Rightarrow> HorizontalPodAutoscalerSpec option" where
  "buildHPASpec inst =
     (case (case spec_Workload (srv_Spec inst) of None \<Rightarrow> None | Some wl \<Rightarrow> wl_Autoscaling wl) of
        None \<Rightarrow> None
      | Some auto \<Rightarrow>
          if as_MaxReplicas auto = 0 then None
          else Some \<lparr>hpa_TargetAPIVersion = ''apps/v1'', hpa_TargetKind = ''Deployment'',
                     hpa_TargetName = meta_Name (srv_ObjectMeta inst),
                     hpa_MinReplicas = resolveMinReplicas (as_MinReplicas auto) (GetEffectiveReplicas inst),
                     hpa_MaxReplicas = as_MaxReplicas auto, hpa_Metrics = buildHPAMetrics auto\<rparr>)"

section \<open>Properties\<close>

definition mountedVolume :: "yaml \<Rightarrow> string" where
  "mountedVolume m = (case asMap m of None \<Rightarrow> [] | Some d \<Rightarrow> (case asStr (mfield d ''name'') of None \<Rightarrow> [] | Some n \<Rightarrow> n))"

definition hardened :: "Container \<Rightarrow> bool" where
  "hardened c \<longleftrightarrow>
     (case ctr_SecurityContext c of None \<Rightarrow> False
      | Some sc \<Rightarrow> sc_RunAsNonRoot sc = Some True \<and> sc_AllowPrivilegeEscalation sc = Some False
          \<and> sc_SeccompProfile sc = Some ''RuntimeDefault'' \<and> ''ALL'' \<in> set (sc_CapabilitiesDrop sc))"

definition hasQuantity :: "(string \<Rightarrow> bool) \<Rightarrow> string gomap \<Rightarrow> string \<Rightarrow> bool" where
  "hasQuantity isZero m k \<longleftrightarrow> (case mget m k of None \<Rightarrow> False | Some q \<Rightarrow> \<not> isZero q)"

lemma ensureEntry_has:
  "\<not> isZero d \<Longrightarrow> hasQuantity isZero (ensureEntry isZero k d m) k"
  "hasQuantity isZero m k' \<Longrightarrow> \<not> isZero d \<Longrightarrow> hasQuantity isZero (ensureEntry isZero k d m) k'"
  by (auto simp: ensureEntry_def hasQuantity_def split: option.splits)

lemma ensureRequests_has:
  assumes "\<not> isZero DefaultServerMemoryRequest" "\<not> isZero (showInt workers)"
  shows "hasQuantity isZero (rr_Requests (ensureRequests isZero workers res)) ''cpu''"
    "hasQuantity isZero (rr_Requests (ensureRequests isZero workers res)) ''memory''"
  using assms by (simp_all add: ensureRequests_def ensureEntry_has)

lemma ensureLimits_has:
  assumes "hasQuantity isZero (rr_Requests res) ''cpu''" "hasQuantity isZero (rr_Requests res) ''memory''"
  shows "hasQuantity isZero (rr_Limits (ensureLimitsMatchRequests isZero res)) ''cpu''"
    "hasQuantity isZero (rr_Limits (ensureLimitsMatchRequests isZero res)) ''memory''"
    "rr_Requests (ensureLimitsMatchRequests isZero res) = rr_Requests res"
  using assms
  by (auto simp: ensureLimitsMatchRequests_def quantityOf_def hasQuantity_def [of _ "rr_Requests res"]
      split: option.splits intro!: ensureEntry_has)

lemma workers_positive: "fst (getEffectiveWorkers inst) > 0"
  by (simp add: getEffectiveWorkers_def split: option.split)

lemma resources_has:
  assumes "\<not> isZero DefaultServerMemoryRequest" "\<And>n. n > 0 \<Longrightarrow> \<not> isZero (showInt n)"
    and "getEffectiveWorkers inst = (workers, workersSet)"
  shows "hasQuantity isZero (rr_Requests (resolveContainerResources isZero inst workers workersSet)) ''cpu''"
    "hasQuantity isZero (rr_Requests (resolveContainerResources isZero inst workers workersSet)) ''memory''"
    "workersSet \<Longrightarrow> hasQuantity isZero (rr_Limits (resolveContainerResources isZero inst workers workersSet)) ''cpu''
       \<and> hasQuantity isZero (rr_Limits (resolveContainerResources isZero inst workers workersSet)) ''memory''"
proof -
  have "\<not> isZero (showInt workers)" using assms(2) workers_positive [of inst] assms(3) by simp
  note has = ensureRequests_has [OF assms(1) this]
  show "hasQuantity isZero (rr_Requests (resolveContainerResources isZero inst workers workersSet)) ''cpu''"
    "hasQuantity isZero (rr_Requests (resolveContainerResources isZero inst workers workersSet)) ''memory''"
    "workersSet \<Longrightarrow> hasQuantity isZero (rr_Limits (resolveContainerResources isZero inst workers workersSet)) ''cpu''
       \<and> hasQuantity isZero (rr_Limits (resolveContainerResources isZero inst workers workersSet)) ''memory''"
    by (simp_all add: resolveContainerResources_def Let_def has ensureLimits_has [OF has])
qed

lemma configurePodOverrides_simps:
  "pod_Containers ps = [c] \<Longrightarrow> pod_Containers (configurePodOverrides inst ps)
     = [c\<lparr>ctr_VolumeMounts := ctr_VolumeMounts c @ (case overridesOf inst of None \<Rightarrow> [] | Some ov \<Rightarrow> wo_VolumeMounts ov)\<rparr>]"
  "pod_Volumes (configurePodOverrides inst ps)
     = pod_Volumes ps @ (case overridesOf inst of None \<Rightarrow> [] | Some ov \<Rightarrow> wo_Volumes ov)"
  "pod_SecurityContext (configurePodOverrides inst ps) = pod_SecurityContext ps"
  by (auto simp: configurePodOverrides_def Let_def split: option.split)

lemma scheduling_simps:
  "pod_Containers (configurePodScheduling inst ps) = pod_Containers ps"
  "pod_Volumes (configurePodScheduling inst ps) = pod_Volumes ps"
  "pod_SecurityContext (configurePodScheduling inst ps) = pod_SecurityContext ps"
  "pod_Containers (configureResourceClaims inst ps) = pod_Containers ps"
  "pod_Volumes (configureResourceClaims inst ps) = pod_Volumes ps"
  "pod_SecurityContext (configureResourceClaims inst ps) = pod_SecurityContext ps"
  by (auto simp: configurePodScheduling_def ensureDefaultPodAntiAffinity_def configureResourceClaims_def Let_def split: option.split)

lemma configurePodStorage_simps:
  "pod_Containers (configurePodStorage r w inst rcfg c pvc)
     = [c\<lparr>ctr_VolumeMounts := ctr_VolumeMounts c @ (case overridesOf inst of None \<Rightarrow> [] | Some ov \<Rightarrow> wo_VolumeMounts ov)\<rparr>]"
  "pod_SecurityContext (configurePodStorage r w inst rcfg c pvc)
     = Some \<lparr>psc_RunAsNonRoot = Some True, psc_SeccompProfile = Some ''RuntimeDefault''\<rparr>"
  by (simp_all add: configurePodStorage_def scheduling_simps configurePodOverrides_simps
      configureRuntimeConfigVolume_def configureTLSCABundle_def configureStorage_def split: option.split)

lemma pod_volumes:
  "\<exists>st. vol_Name st = ''ogx-storage'' \<and> pod_Volumes (configurePodStorage r w inst rcfg c pvc) =
     [st] @ (if hasAnyCABundle r w inst then [createCABundleVolume (getManagedCABundleConfigMapName inst)] else [])
     @ (case rcfg of None \<Rightarrow> [] | Some rc \<Rightarrow> [configMapKeyVolume ''user-config'' (rcr_ConfigMapName rc) (rcr_ConfigMapKey rc) ''config.yaml''])
     @ (case overridesOf inst of None \<Rightarrow> [] | Some ov \<Rightarrow> wo_Volumes ov)"
  by (auto simp: configurePodStorage_def scheduling_simps configurePodOverrides_simps emptyVolume_def
      configureRuntimeConfigVolume_def configureTLSCABundle_def configureStorage_def split: option.split)

lemma container_simps:
  "ctr_SecurityContext (buildContainerSpec isZero r w inst img rcfg env) =
     Some \<lparr>sc_RunAsNonRoot = Some True, sc_AllowPrivilegeEscalation = Some False, sc_SeccompProfile = Some ''RuntimeDefault'', sc_CapabilitiesDrop = [''ALL'']\<rparr>"
  "ctr_Env (buildContainerSpec isZero r w inst img rcfg env) = applyEnvOverrides inst (operatorEnv r w inst rcfg env)"
  "ctr_Image (buildContainerSpec isZero r w inst img rcfg env) = img"
  "ctr_StartupProbe (buildContainerSpec isZero r w inst img rcfg env) = Some (getStartupProbe inst)"
  "ctr_Resources (buildContainerSpec isZero r w inst img rcfg env)
     = resolveContainerResources isZero inst (fst (getEffectiveWorkers inst)) (snd (getEffectiveWorkers inst))"
  "map cp_ContainerPort (ctr_Ports (buildContainerSpec isZero r w inst img rcfg env))
     = getContainerPort inst # (if isMonitoringDisabled inst then [] else [getMetricsPort inst])"
  "ctr_VolumeMounts (buildContainerSpec isZero r w inst img rcfg env) = [plainMount ''ogx-storage'' (getMountPath inst)]
         @ (if rcfg \<noteq> None then [readOnlyMount ''user-config'' ''/etc/ogx/''] else [])
         @ (if hasAnyCABundle r w inst then [readOnlyMount CABundleVolumeName ManagedCABundleMountPath] else [])"
  by (simp_all add: buildContainerSpec_def configureContainerCommands_def configureContainerMounts_def
      configureContainerEnvironment_def Let_def case_prod_beta split: option.split)

lemma mount_names [simp]:
  "mountedVolume (plainMount v at) = v" "mountedVolume (readOnlyMount v at) = v"
  by (simp_all add: mountedVolume_def plainMount_def readOnlyMount_def mlit_def)

definition userMounts :: "OGXServer \<Rightarrow> yaml list" where
  "userMounts inst = (case overridesOf inst of None \<Rightarrow> [] | Some ov \<Rightarrow> wo_VolumeMounts ov)"

definition userEnv :: "OGXServer \<Rightarrow> EnvVar list" where
  "userEnv inst = (case overridesOf inst of None \<Rightarrow> [] | Some ov \<Rightarrow> wo_Env ov)"

text \<open>The pod of an instance, as \<open>buildManifestContext\<close> composes it.\<close>

definition serverPod ::
    "(string \<Rightarrow> bool) \<Rightarrow> 'w OGXServerReconciler \<Rightarrow> 'w \<Rightarrow> OGXServer \<Rightarrow> string \<Rightarrow> runtimeConfigRef option \<Rightarrow> EnvVar list \<Rightarrow> string \<Rightarrow> PodSpec" where
  "serverPod isZero r w inst img rcfg env pvc =
     configurePodStorage r w inst rcfg (buildContainerSpec isZero r w inst img rcfg env) pvc"

definition mountsConfig :: "runtimeConfigRef option \<Rightarrow> Container \<Rightarrow> PodSpec \<Rightarrow> bool" where
  "mountsConfig rcfg c ps =
     (case rcfg of None \<Rightarrow> True
      | Some rc \<Rightarrow> readOnlyMount ''user-config'' ''/etc/ogx/'' \<in> set (ctr_VolumeMounts c)
          \<and> configMapKeyVolume ''user-config'' (rcr_ConfigMapName rc) (rcr_ConfigMapKey rc) ''config.yaml'' \<in> set (pod_Volumes ps))"

text \<open>
  (C7) Every pod the operator renders is complete and hardened, whatever the user overrides: it has
  one container, which runs without root, privilege escalation and capabilities under the runtime's
  seccomp profile; it listens and is probed on the port that the Service targets; it requests CPU
  and memory, as utilization targets need, and with an explicit number of workers it also limits
  them; every mount the operator adds has its volume; and with a runtime configuration exactly that
  key of that ConfigMap is mounted where \<open>OGX_CONFIG\<close> points.
\<close>

theorem pods_are_complete_and_hardened:
  assumes zero: "\<not> isZero ''1Gi''" "\<And>n. n > 0 \<Longrightarrow> \<not> isZero (showInt n)"
  shows "\<exists>c. pod_Containers (serverPod isZero r w inst img rcfg env pvc) = [c]
     \<and> hardened c \<and> ctr_Image c = img
     \<and> pod_SecurityContext (serverPod isZero r w inst img rcfg env pvc)
         = Some \<lparr>psc_RunAsNonRoot = Some True, psc_SeccompProfile = Some ''RuntimeDefault''\<rparr>
     \<and> GetServicePort inst \<in> set (map cp_ContainerPort (ctr_Ports c))
     \<and> map_option pr_Port (ctr_StartupProbe c) = Some (GetServicePort inst)
     \<and> hasQuantity isZero (rr_Requests (ctr_Resources c)) ''cpu'' \<and> hasQuantity isZero (rr_Requests (ctr_Resources c)) ''memory''
     \<and> (snd (getEffectiveWorkers inst) \<longrightarrow>
          hasQuantity isZero (rr_Limits (ctr_Resources c)) ''cpu'' \<and> hasQuantity isZero (rr_Limits (ctr_Resources c)) ''memory'')
     \<and> (\<forall>m \<in> set (ctr_VolumeMounts c). m \<in> set (userMounts inst)
          \<or> mountedVolume m \<in> vol_Name ` set (pod_Volumes (serverPod isZero r w inst img rcfg env pvc)))
     \<and> mountsConfig rcfg c (serverPod isZero r w inst img rcfg env pvc)"
proof -
  let ?c = "buildContainerSpec isZero r w inst img rcfg env" and ?ps = "serverPod isZero r w inst img rcfg env pvc"
  have port: "getContainerPort inst = GetServicePort inst"
    by (simp add: getContainerPort_def GetServicePort_def)
  obtain n ws where wk: "getEffectiveWorkers inst = (n, ws)" by force
  have res: "hasQuantity isZero (rr_Requests (ctr_Resources ?c)) ''cpu''" "hasQuantity isZero (rr_Requests (ctr_Resources ?c)) ''memory''"
    "snd (getEffectiveWorkers inst) \<Longrightarrow>
       hasQuantity isZero (rr_Limits (ctr_Resources ?c)) ''cpu'' \<and> hasQuantity isZero (rr_Limits (ctr_Resources ?c)) ''memory''"
    using resources_has [OF zero(1) [folded DefaultServerMemoryRequest_def] zero(2) wk] by (simp_all add: container_simps wk)
  obtain st where st: "vol_Name st = ''ogx-storage''" and vols: "pod_Volumes ?ps = [st]
     @ (if hasAnyCABundle r w inst then [createCABundleVolume (getManagedCABundleConfigMapName inst)] else [])
     @ (case rcfg of None \<Rightarrow> [] | Some rc \<Rightarrow> [configMapKeyVolume ''user-config'' (rcr_ConfigMapName rc) (rcr_ConfigMapKey rc) ''config.yaml''])
     @ (case overridesOf inst of None \<Rightarrow> [] | Some ov \<Rightarrow> wo_Volumes ov)"
    using pod_volumes [of r w inst rcfg ?c pvc] unfolding serverPod_def by blast
  have names: "vol_Name (createCABundleVolume n) = CABundleVolumeName" "vol_Name (configMapKeyVolume v a b d) = v" for n v a b d
    by (simp_all add: createCABundleVolume_def configMapKeyVolume_def emptyVolume_def)
  have mounts: "\<forall>m \<in> set (ctr_VolumeMounts ?c). mountedVolume m \<in> vol_Name ` set (pod_Volumes ?ps)"
    by (auto simp: container_simps vols st names)
  have cfg: "mountsConfig rcfg ?c ?ps"
    using vols by (auto simp: mountsConfig_def container_simps split: option.split)
  show ?thesis
  proof (intro exI conjI)
    show "pod_Containers ?ps = [?c\<lparr>ctr_VolumeMounts := ctr_VolumeMounts ?c @ userMounts inst\<rparr>]"
      by (simp add: serverPod_def configurePodStorage_simps userMounts_def)
  qed (use res mounts cfg port in \<open>auto simp: hardened_def container_simps serverPod_def [symmetric] mountsConfig_def
      configurePodStorage_simps [of r w inst rcfg ?c pvc, folded serverPod_def] getStartupProbe_def split: option.split\<close>)
qed

lemma showInt_positive: "n > 0 \<Longrightarrow> showInt n \<noteq> ''0''"
proof
  assume "n > 0" "showInt n = ''0''"
  then have "readNat (showNat (nat n)) = 0" by (simp add: showInt_def readNat_def digitVal_def)
  with \<open>n > 0\<close> show False by (simp add: readNat_showNat)
qed

theorem pods_are_complete_and_hardened_witness:
  "\<exists>c. pod_Containers (serverPod (\<lambda>q. q = ''0'') exReconciler exStore exNetServer ''img''
         (Some \<lparr>rcr_ConfigMapName = ''demo-config'', rcr_ConfigMapKey = ''config.yaml'', rcr_Generated = True\<rparr>) [] ''demo-pvc'') = [c]
     \<and> hardened c \<and> map_option pr_Port (ctr_StartupProbe c) = Some (GetServicePort exNetServer)"
  using pods_are_complete_and_hardened [of "\<lambda>q. q = ''0''" exReconciler exStore exNetServer "''img''"
      "Some \<lparr>rcr_ConfigMapName = ''demo-config'', rcr_ConfigMapKey = ''config.yaml'', rcr_Generated = True\<rparr>" "[]" "''demo-pvc''"]
    showInt_positive by auto

text \<open>
  (C28) The environment of the server is exact, variable by variable: a name the user sets has
  exactly the user's entries, every other name exactly the operator's; a secret of the spec
  is therefore there, taken from its own Secret, unless the user overrides its variable.
\<close>

theorem server_environment_is_exact:
  "filter (\<lambda>e. env_Name e = n) (ctr_Env (buildContainerSpec isZero r w inst img rcfg env))
     = (if n \<in> set (map env_Name (userEnv inst)) then filter (\<lambda>e. env_Name e = n) (userEnv inst)
        else filter (\<lambda>e. env_Name e = n) (operatorEnv r w inst rcfg env))
   \<and> set env \<subseteq> set (ctr_Env (buildContainerSpec isZero r w inst img rcfg env))
       \<union> {e. env_Name e \<in> set (map env_Name (userEnv inst))}"
proof
  let ?op = "operatorEnv r w inst rcfg env" and ?u = "userEnv inst"
  have env: "ctr_Env (buildContainerSpec isZero r w inst img rcfg env) = filter (\<lambda>e. env_Name e \<notin> set (map env_Name ?u)) ?op @ ?u"
    by (cases "overridesOf inst") (simp_all add: container_simps applyEnvOverrides_def userEnv_def)
  show "filter (\<lambda>e. env_Name e = n) (ctr_Env (buildContainerSpec isZero r w inst img rcfg env))
     = (if n \<in> set (map env_Name ?u) then filter (\<lambda>e. env_Name e = n) ?u else filter (\<lambda>e. env_Name e = n) ?op)"
  proof (cases "n \<in> set (map env_Name ?u)")
    case True
    then show ?thesis unfolding env by (auto simp: filter_empty_conv)
  next
    case False
    then have "filter (\<lambda>e. env_Name e = n) ?u = []" by (auto simp: filter_empty_conv)
    moreover have "filter (\<lambda>e. env_Name e \<notin> set (map env_Name ?u) \<and> env_Name e = n) ?op = filter (\<lambda>e. env_Name e = n) ?op"
      using False by (intro filter_cong) auto
    ultimately show ?thesis unfolding env using False by (simp add: conj_commute)
  qed
  have "set env \<subseteq> set ?op" by (auto simp: operatorEnv_def)
  then show "set env \<subseteq> set (ctr_Env (buildContainerSpec isZero r w inst img rcfg env)) \<union> {e. env_Name e \<in> set (map env_Name ?u)}"
    unfolding env by auto
qed

text \<open>A custom provider \<open>metrics\<close> with a secret field \<open>port\<close>, monitoring left at its default.\<close>

definition exMetricsProvider :: CustomProvider where
  "exMetricsProvider =
     \<lparr>custom_RoutedProviderBase = \<lparr>rpb_ID = ''metrics''\<rparr>, custom_Type = ''remote::metrics'',
      custom_SecretRefs = mlit [(''port'', \<lparr>skr_Name = ''s'', skr_Key = ''k''\<rparr>)], custom_Settings = None\<rparr>"

definition exMetricsServer :: OGXServer where
  "exMetricsServer = exNetServer\<lparr>srv_Spec := (srv_Spec exNetServer)\<lparr>spec_Providers :=
     Some \<lparr>ps_Inference = None, ps_VectorIo = None, ps_ToolRuntime = None, ps_Files = None,
       ps_Batches = Some \<lparr>bat_Remote = Some \<lparr>batR_Custom = [exMetricsProvider]\<rparr>, bat_Inline = None\<rparr>,
       ps_Responses = None, ps_FileProcessors = None\<rparr>\<rparr>\<rparr>"

text \<open>
  A secret variable can shadow the operator's own: the spec with a custom provider \<open>metrics\<close>
  and its secret \<open>port\<close> passes the validation of variable names, and the container gets two entries
  named \<open>OGX_METRICS_PORT\<close>, the operator's and, after it and hence in force, the secret's.  The metrics
  endpoint then listens elsewhere than the Service and the NetworkPolicy say.
\<close>

theorem secret_shadows_operator_variable:
  "ValidateSecretRefEnvVarNames (srv_Spec exMetricsServer) = None
   \<and> map env_ValueFrom (filter (\<lambda>e. env_Name e = ''OGX_METRICS_PORT'')
       (ctr_Env (buildContainerSpec isZero r w exMetricsServer img rcfg (CollectSecretRefs (srv_Spec exMetricsServer)))))
     = [None, Some (SecretSource \<lparr>sks_Name = ''s'', sks_Key = ''k''\<rparr>)]"
proof
  show "ValidateSecretRefEnvVarNames (srv_Spec exMetricsServer) = None" by code_simp
  have refs: "CollectSecretRefs (srv_Spec exMetricsServer)
      = [\<lparr>env_Name = ''OGX_METRICS_PORT'', env_Value = [], env_ValueFrom = Some (SecretSource \<lparr>sks_Name = ''s'', sks_Key = ''k''\<rparr>)\<rparr>]"
    by code_simp
  have [simp]: "overridesOf exMetricsServer = None" "isMonitoringDisabled exMetricsServer = False"
    "spec_RegistryRefreshIntervalSeconds (srv_Spec exMetricsServer) = None"
    by (simp_all add: exMetricsServer_def exNetServer_def overridesOf_def isMonitoringDisabled_def)
  show "map env_ValueFrom (filter (\<lambda>e. env_Name e = ''OGX_METRICS_PORT'')
       (ctr_Env (buildContainerSpec isZero r w exMetricsServer img rcfg (CollectSecretRefs (srv_Spec exMetricsServer)))))
     = [None, Some (SecretSource \<lparr>sks_Name = ''s'', sks_Key = ''k''\<rparr>)]"
    by (simp add: container_simps applyEnvOverrides_def operatorEnv_def refs plainEnv_def)
qed


definition exScaledServer :: OGXServer where
  "exScaledServer = exNetServer\<lparr>srv_Spec := (srv_Spec exNetServer)\<lparr>spec_Workload :=
     Some \<lparr>wl_Replicas = Some 3, wl_Workers = None, wl_Resources = None, wl_ResourceClaims = [],
       wl_Autoscaling = Some \<lparr>as_MinReplicas = None, as_MaxReplicas = 2, as_TargetCPUUtilizationPercentage = None,
         as_TargetMemoryUtilizationPercentage = None\<rparr>,
       wl_Storage = None, wl_PodDisruptionBudget = None, wl_TopologySpreadConstraints = [], wl_Overrides = None\<rparr>\<rparr>\<rparr>"


end
