(* ===== verification/Apply_Resources.thy ===== *)
theory Apply_Resources
  imports Kube_Client
begin

text \<open>
  Applying rendered resources to the cluster (\<open>pkg/deploy/kustomizer.go\<close> and
  \<open>pkg/compare/comparison.go\<close>).  An unstructured object is a value of an arbitrary type \<open>'o\<close>; its
  accessors and typed conversions, and the API server's operations, are the fields of \<open>Cluster\<close>.
\<close>

section \<open>The interface\<close>

record GVK =
  gvk_Group :: string
  gvk_Version :: string
  gvk_Kind :: string

text \<open>What the full-replacement check reads of a Deployment.\<close>

record DeploymentView =
  dv_Volumes :: "string list"
  dv_StrategyType :: string
  dv_HasRollingUpdate :: bool

text \<open>
  \<open>uo_NestedString o path\<close> is the string at a path, empty when there is none, as the code uses it;
  \<open>uo_PodVolumes\<close> is the slice \<open>spec.template.spec.volumes\<close> when it is found.  \<open>cl_Apply\<close> is the forced
  server-side apply with the operator's field owner; \<open>cl_Delete\<close> takes the UID and resource version
  preconditions.
\<close>

record ('w, 'o) Cluster =
  uo_Kind :: "'o \<Rightarrow> string"
  uo_Name :: "'o \<Rightarrow> string"
  uo_Namespace :: "'o \<Rightarrow> string"
  uo_UID :: "'o \<Rightarrow> string"
  uo_ResourceVersion :: "'o \<Rightarrow> string"
  uo_SetResourceVersion :: "string \<Rightarrow> 'o \<Rightarrow> 'o"
  uo_OwnerUIDs :: "'o \<Rightarrow> string list"
  uo_GVK :: "'o \<Rightarrow> GVK"
  uo_HasMap :: "'o \<Rightarrow> string \<Rightarrow> bool"
  uo_NestedString :: "'o \<Rightarrow> string list \<Rightarrow> string"
  uo_PodVolumes :: "'o \<Rightarrow> yaml list option"
  uo_AsDeployment :: "'o \<Rightarrow> string + DeploymentView"
  uo_AsService :: "'o \<Rightarrow> string option"
  cl_Get :: "'w \<Rightarrow> 'o \<Rightarrow> api_error + 'o"
  cl_GetService :: "'w \<Rightarrow> string \<Rightarrow> string \<Rightarrow> api_error option"
  cl_GetClusterRole :: "'w \<Rightarrow> string \<Rightarrow> api_error option"
  cl_GetCRD :: "'w \<Rightarrow> string \<Rightarrow> api_error option"
  cl_Create :: "'w \<Rightarrow> 'o \<Rightarrow> api_error option \<times> 'w"
  cl_Update :: "'w \<Rightarrow> 'o \<Rightarrow> api_error option \<times> 'w"
  cl_Apply :: "'w \<Rightarrow> 'o \<Rightarrow> 'o \<Rightarrow> api_error option \<times> 'w"
  cl_Delete :: "'w \<Rightarrow> 'o \<Rightarrow> string \<Rightarrow> string \<Rightarrow> api_error option \<times> 'w"
  cl_SetControllerReference :: "ObjectMeta \<Rightarrow> 'o \<Rightarrow> string + 'o"
  cl_IsControlledBy :: "'o \<Rightarrow> ObjectMeta \<Rightarrow> bool"
  cl_IsRootScoped :: "GVK \<Rightarrow> string + bool"

text \<open>A rendered resource as the code reads it: kind, name, namespace, GVK and the decoded object.\<close>

record 'o Rendered =
  rr_Kind :: string
  rr_Name :: string
  rr_Namespace :: string
  rr_GVK :: GVK
  rr_Object :: "string + 'o"

section \<open>Creating\<close>

definition OGXServerKind :: string where
  "OGXServerKind = ''OGXServer''"

definition isClusterScoped :: "('w, 'o) Cluster \<Rightarrow> GVK \<Rightarrow> string + bool" where
  "isClusterScoped cl gvk =
     mapErr (\<lambda>e. ''failed to get REST mapping for GVK '' @ gvk_Group gvk @ ''/'' @ gvk_Version gvk @ '', Kind=''
       @ gvk_Kind gvk @ '': '' @ e) (cl_IsRootScoped cl gvk)"

definition createResource ::
    "('w, 'o) Cluster \<Rightarrow> ObjectMeta \<Rightarrow> GVK \<Rightarrow> 'o \<Rightarrow> 'w \<Rightarrow> api_error option \<times> 'w" where
  "createResource cl owner gvk obj w =
     (case isClusterScoped cl gvk of
        Inl e \<Rightarrow> (Some (OtherAPIError (''failed to determine resource scope: '' @ e)), w)
      | Inr scoped \<Rightarrow>
          if scoped \<or> gvk_Kind gvk = ''PersistentVolumeClaim'' then cl_Create cl w obj
          else (case cl_SetControllerReference cl owner obj of
                  Inl e \<Rightarrow> (Some (OtherAPIError (''failed to set controller reference for '' @ gvk_Kind gvk @ '': '' @ e)), w)
                | Inr obj' \<Rightarrow> cl_Create cl w obj'))"

section \<open>Patching\<close>

definition ownedByInstance :: "('w, 'o) Cluster \<Rightarrow> 'o \<Rightarrow> ObjectMeta \<Rightarrow> bool" where
  "ownedByInstance cl existing owner = list_ex (\<lambda>uid. uid = meta_UID owner) (uo_OwnerUIDs cl existing)"

definition roleRefIdentity :: "('w, 'o) Cluster \<Rightarrow> 'o \<Rightarrow> string" where
  "roleRefIdentity cl obj =
     uo_NestedString cl obj [''roleRef'', ''apiGroup''] @ ''/'' @ uo_NestedString cl obj [''roleRef'', ''kind''] @ ''/''
     @ uo_NestedString cl obj [''roleRef'', ''name'']"

definition roleRefChanged :: "('w, 'o) Cluster \<Rightarrow> 'o \<Rightarrow> 'o \<Rightarrow> bool" where
  "roleRefChanged cl desired existing \<longleftrightarrow> roleRefIdentity cl desired \<noteq> roleRefIdentity cl existing"

definition replaceOwnedRoleBinding ::
    "('w, 'o) Cluster \<Rightarrow> ObjectMeta \<Rightarrow> 'o \<Rightarrow> 'o \<Rightarrow> 'w \<Rightarrow> string option \<times> 'w" where
  "replaceOwnedRoleBinding cl owner desired existing w =
     (let key = uo_Namespace cl existing @ ''/'' @ uo_Name cl existing;
          create = (\<lambda>w. case createResource cl owner (uo_GVK cl desired) desired w of
            (None, w') \<Rightarrow> (None, w')
          | (Some (AlreadyExists e), w') \<Rightarrow>
              (Some (''failed to replace RoleBinding '' @ key @ '': deletion still in progress: '' @ e), w')
          | (Some e, w') \<Rightarrow> (Some (''failed to create replacement RoleBinding '' @ key @ '': '' @ apiText e), w'))
      in case cl_Delete cl w existing (uo_UID cl existing) (uo_ResourceVersion cl existing) of
           (None, w1) \<Rightarrow> create w1
         | (Some (NotFound _), w1) \<Rightarrow> create w1
         | (Some e, w1) \<Rightarrow> (Some (''failed to delete RoleBinding '' @ key @ '' for replacement: '' @ apiText e), w1))"

text \<open>The outcome is \<open>None\<close> when the object was not handled.\<close>

definition replaceRoleBindingOnRoleRefChange ::
    "('w, 'o) Cluster \<Rightarrow> ObjectMeta \<Rightarrow> 'o \<Rightarrow> 'o \<Rightarrow> 'w \<Rightarrow> (string option \<times> 'w) option" where
  "replaceRoleBindingOnRoleRefChange cl owner desired existing w =
     (if uo_Kind cl existing \<noteq> ''RoleBinding'' \<or> \<not> roleRefChanged cl desired existing then None
      else if \<not> cl_IsControlledBy cl existing owner then Some (None, w)
      else Some (replaceOwnedRoleBinding cl owner desired existing w))"

definition hasLegacyCABundleVolumes :: "('w, 'o) Cluster \<Rightarrow> 'o \<Rightarrow> bool" where
  "hasLegacyCABundleVolumes cl deployment =
     (case uo_PodVolumes cl deployment of
        None \<Rightarrow> False
      | Some volumes \<Rightarrow>
          list_ex (\<lambda>vol. case asMap vol of None \<Rightarrow> False
            | Some m \<Rightarrow>
                (let name = (case asStr (mfield m ''name'') of Some s \<Rightarrow> s | None \<Rightarrow> [])
                 in (name = ''ca-bundle'' \<and> mget m ''emptyDir'' \<noteq> None) \<or> name = ''ca-bundle-source'')) volumes)"

definition hasVolume :: "string list \<Rightarrow> string \<Rightarrow> bool" where
  "hasVolume volumes name = list_ex (\<lambda>v. v = name) volumes"

definition hasStaleUserConfigVolume :: "DeploymentView \<Rightarrow> DeploymentView \<Rightarrow> bool" where
  "hasStaleUserConfigVolume desired existing \<longleftrightarrow>
     hasVolume (dv_Volumes existing) ''user-config'' \<and> \<not> hasVolume (dv_Volumes desired) ''user-config''"

definition deploymentNeedsFullReplacement :: "('w, 'o) Cluster \<Rightarrow> 'o \<Rightarrow> 'o \<Rightarrow> string" where
  "deploymentNeedsFullReplacement cl desired existing =
     (if hasLegacyCABundleVolumes cl existing then ''legacy CA bundle volumes detected''
      else case uo_AsDeployment cl existing of
        Inl _ \<Rightarrow> []
      | Inr existingDep \<Rightarrow>
          (case uo_AsDeployment cl desired of
             Inl _ \<Rightarrow> []
           | Inr desiredDep \<Rightarrow>
               if hasStaleUserConfigVolume desiredDep existingDep then ''stale user-config volume detected''
               else if dv_StrategyType desiredDep = ''Recreate'' \<and> dv_HasRollingUpdate existingDep
               then ''incompatible rollingUpdate strategy detected''
               else []))"

text \<open>The comparison with the live Service only logs; its errors stop the patch.\<close>

definition CheckAndLogServiceChanges :: "('w, 'o) Cluster \<Rightarrow> 'w \<Rightarrow> 'o \<Rightarrow> string option" where
  "CheckAndLogServiceChanges cl w desired =
     (case cl_GetService cl w (uo_Namespace cl desired) (uo_Name cl desired) of
        Some (NotFound _) \<Rightarrow> None
      | Some e \<Rightarrow> Some (''failed to fetch existing service for comparison: '' @ apiText e)
      | None \<Rightarrow>
          (case uo_AsService cl desired of
             Some e \<Rightarrow> Some (''failed to convert desired unstructured object to Service: '' @ e)
           | None \<Rightarrow> None))"

definition outcome :: "api_error option \<times> 'w \<Rightarrow> string option \<times> 'w" where
  "outcome r = (map_option apiText (fst r), snd r)"

definition applyResourcePatch :: "('w, 'o) Cluster \<Rightarrow> 'o \<Rightarrow> 'o \<Rightarrow> 'w \<Rightarrow> string option \<times> 'w" where
  "applyResourcePatch cl desired existing w =
     (if uo_Kind cl existing = ''PersistentVolumeClaim'' then (None, w)
      else if uo_Kind cl existing = ''Service'' \<and> CheckAndLogServiceChanges cl w desired \<noteq> None
      then (map_option (\<lambda>e. ''failed to validate resource mutations while patching: '' @ e)
              (CheckAndLogServiceChanges cl w desired), w)
      else if uo_Kind cl existing = ''Deployment'' \<and> deploymentNeedsFullReplacement cl desired existing \<noteq> []
      then outcome (cl_Update cl w (uo_SetResourceVersion cl (uo_ResourceVersion cl existing) desired))
      else outcome (cl_Apply cl w existing desired))"

definition patchResource :: "('w, 'o) Cluster \<Rightarrow> ObjectMeta \<Rightarrow> 'o \<Rightarrow> 'o \<Rightarrow> 'w \<Rightarrow> string option \<times> 'w" where
  "patchResource cl owner desired existing w =
     (if \<not> ownedByInstance cl existing owner then (None, w)
      else case replaceRoleBindingOnRoleRefChange cl owner desired existing w of
             Some r \<Rightarrow> r
           | None \<Rightarrow> applyResourcePatch cl desired existing w)"

section \<open>Managing\<close>

definition CheckClusterRoleExists :: "('w, 'o) Cluster \<Rightarrow> 'w \<Rightarrow> 'o \<Rightarrow> string + bool" where
  "CheckClusterRoleExists cl w crb =
     (if \<not> uo_HasMap cl crb ''roleRef'' then Inr False
      else let roleName = uo_NestedString cl crb [''roleRef'', ''name'']
           in if roleName = [] then Inr False
              else case cl_GetClusterRole cl w roleName of
                     Some (NotFound _) \<Rightarrow> Inr True
                   | Some e \<Rightarrow> Inl (apiText e)
                   | None \<Rightarrow> Inr False)"

definition manageResource :: "('w, 'o) Cluster \<Rightarrow> OGXServer \<Rightarrow> 'o Rendered \<Rightarrow> 'w \<Rightarrow> string option \<times> 'w" where
  "manageResource cl inst res w =
     (let owner = srv_ObjectMeta inst in
      if rr_Kind res = OGXServerKind \<and> rr_Name res = meta_Name owner \<and> rr_Namespace res = meta_Namespace owner
      then (None, w)
      else case rr_Object res of
        Inl e \<Rightarrow> (Some (''failed to unmarshal resource: '' @ e), w)
      | Inr u \<Rightarrow>
          (case (if uo_Kind cl u = ''RoleBinding'' then CheckClusterRoleExists cl w u else Inr False) of
             Inl e \<Rightarrow> (Some (''failed to check ClusterRole existence: '' @ e), w)
           | Inr True \<Rightarrow> (None, w)
           | Inr False \<Rightarrow>
               (case cl_Get cl w u of
                  Inl (NotFound _) \<Rightarrow> outcome (createResource cl owner (rr_GVK res) u w)
                | Inl e \<Rightarrow> (Some (''failed to get resource: '' @ apiText e), w)
                | Inr found \<Rightarrow> patchResource cl owner u found w)))"

fun ApplyResources :: "('w, 'o) Cluster \<Rightarrow> OGXServer \<Rightarrow> 'o Rendered list \<Rightarrow> 'w \<Rightarrow> string option \<times> 'w" where
  "ApplyResources cl inst [] w = (None, w)"
| "ApplyResources cl inst (res # rs) w =
     (case manageResource cl inst res w of
        (Some e, w') \<Rightarrow> (Some (''failed to manage resource '' @ rr_Kind res @ ''/'' @ rr_Name res @ '': '' @ e), w')
      | (None, w') \<Rightarrow> ApplyResources cl inst rs w')"

definition CheckCRDExists :: "('w, 'o) Cluster \<Rightarrow> 'w \<Rightarrow> string \<Rightarrow> string + bool" where
  "CheckCRDExists cl w crdName =
     (case cl_GetCRD cl w crdName of
        None \<Rightarrow> Inr True
      | Some (NotFound _) \<Rightarrow> Inr False
      | Some e \<Rightarrow> Inl (apiText e))"

fun crdLoop :: "('w, 'o) Cluster \<Rightarrow> 'w \<Rightarrow> string list \<Rightarrow> string + bool" where
  "crdLoop cl w [] = Inr True"
| "crdLoop cl w (crd # crds) =
     (case CheckCRDExists cl w crd of
        Inl e \<Rightarrow> Inl (''failed to check CRD '' @ crd @ '': '' @ e)
      | Inr False \<Rightarrow> Inr False
      | Inr True \<Rightarrow> crdLoop cl w crds)"

definition MonitoringCRDsAvailable :: "('w, 'o) Cluster \<Rightarrow> 'w \<Rightarrow> string + bool" where
  "MonitoringCRDsAvailable cl w =
     crdLoop cl w [''servicemonitors.monitoring.coreos.com'', ''prometheusrules.monitoring.coreos.com'']"

section \<open>Which writes are made\<close>

datatype 'o cluster_write = KCreate 'o | KUpdate 'o | KApply 'o 'o | KDelete 'o "string" "string"

fun perform :: "('w, 'o) Cluster \<Rightarrow> 'o cluster_write \<Rightarrow> 'w \<Rightarrow> 'w" where
  "perform cl (KCreate o') w = snd (cl_Create cl w o')"
| "perform cl (KUpdate o') w = snd (cl_Update cl w o')"
| "perform cl (KApply old new) w = snd (cl_Apply cl w old new)"
| "perform cl (KDelete o' uid rv) w = snd (cl_Delete cl w o' uid rv)"

text \<open>
  An object as it is created: with the instance as its controller, except for claims on persistent
  volumes and cluster-scoped objects.
\<close>

definition asCreated :: "('w, 'o) Cluster \<Rightarrow> ObjectMeta \<Rightarrow> GVK \<Rightarrow> 'o \<Rightarrow> 'o \<Rightarrow> bool" where
  "asCreated cl owner gvk u new \<longleftrightarrow>
     (if cl_IsRootScoped cl gvk = Inr True \<or> gvk_Kind gvk = ''PersistentVolumeClaim'' then new = u
      else cl_SetControllerReference cl owner u = Inr new)"

definition allowedWrites :: "('w, 'o) Cluster \<Rightarrow> ObjectMeta \<Rightarrow> 'o Rendered \<Rightarrow> 'w \<Rightarrow> 'o cluster_write list \<Rightarrow> bool" where
  "allowedWrites cl owner res w wrs \<longleftrightarrow>
     wrs = [] \<or> (\<exists>u. rr_Object res = Inr u \<and>
       (case cl_Get cl w u of
          Inl e \<Rightarrow> (\<exists>t new. e = NotFound t \<and> wrs = [KCreate new] \<and> asCreated cl owner (rr_GVK res) u new)
        | Inr old \<Rightarrow>
            meta_UID owner \<in> set (uo_OwnerUIDs cl old) \<and> uo_Kind cl old \<noteq> ''PersistentVolumeClaim''
            \<and> (wrs = [KApply old u]
               \<or> wrs = [KUpdate (uo_SetResourceVersion cl (uo_ResourceVersion cl old) u)]
               \<or> (uo_Kind cl old = ''RoleBinding'' \<and> cl_IsControlledBy cl old owner
                  \<and> roleRefIdentity cl u \<noteq> roleRefIdentity cl old
                  \<and> (\<exists>new. asCreated cl owner (uo_GVK cl u) u new
                        \<and> wrs = [KDelete old (uo_UID cl old) (uo_ResourceVersion cl old), KCreate new]
                     \<or> wrs = [KDelete old (uo_UID cl old) (uo_ResourceVersion cl old)])))))"

fun safeRun :: "('w, 'o) Cluster \<Rightarrow> ObjectMeta \<Rightarrow> 'o Rendered list \<Rightarrow> 'w \<Rightarrow> 'w \<Rightarrow> bool" where
  "safeRun cl owner [] w w' \<longleftrightarrow> w' = w"
| "safeRun cl owner (res # rs) w w' \<longleftrightarrow>
     (\<exists>wrs. allowedWrites cl owner res w wrs
        \<and> (w' = fold (perform cl) wrs w \<or> safeRun cl owner rs (fold (perform cl) wrs w) w'))"

lemma createResource_write:
  "\<exists>wrs. snd (createResource cl owner gvk u w) = fold (perform cl) wrs w
     \<and> (wrs = [] \<or> (\<exists>new. wrs = [KCreate new] \<and> asCreated cl owner gvk u new))"
proof -
  have "snd (createResource cl owner gvk u w) = w
      \<or> (\<exists>new. snd (createResource cl owner gvk u w) = snd (cl_Create cl w new) \<and> asCreated cl owner gvk u new)"
    by (auto simp: createResource_def isClusterScoped_def asCreated_def mapErr_def split: sum.splits)
  then show ?thesis
  proof
    assume "snd (createResource cl owner gvk u w) = w"
    then show ?thesis by (intro exI [of _ "[]"]) simp
  next
    assume "\<exists>new. snd (createResource cl owner gvk u w) = snd (cl_Create cl w new) \<and> asCreated cl owner gvk u new"
    then obtain new where "snd (createResource cl owner gvk u w) = snd (cl_Create cl w new)" "asCreated cl owner gvk u new"
      by blast
    then show ?thesis by (intro exI [of _ "[KCreate new]"]) simp
  qed
qed

lemma replace_write:
  fixes cl :: "('w, 'o) Cluster"
  shows "\<exists>wrs. snd (replaceOwnedRoleBinding cl owner u old w) = fold (perform cl) wrs w
     \<and> (wrs = [KDelete old (uo_UID cl old) (uo_ResourceVersion cl old)]
        \<or> (\<exists>new. asCreated cl owner (uo_GVK cl u) u new
             \<and> wrs = [KDelete old (uo_UID cl old) (uo_ResourceVersion cl old), KCreate new]))"
proof -
  let ?del = "KDelete old (uo_UID cl old) (uo_ResourceVersion cl old)"
  let ?w1 = "perform cl ?del w"
  have "snd (replaceOwnedRoleBinding cl owner u old w) = ?w1
      \<or> snd (replaceOwnedRoleBinding cl owner u old w) = snd (createResource cl owner (uo_GVK cl u) u ?w1)"
    by (auto simp: replaceOwnedRoleBinding_def Let_def split: prod.split option.split api_error.split)
  then show ?thesis
  proof
    assume "snd (replaceOwnedRoleBinding cl owner u old w) = ?w1"
    then show ?thesis by (intro exI [of _ "[?del]"]) simp
  next
    assume c: "snd (replaceOwnedRoleBinding cl owner u old w) = snd (createResource cl owner (uo_GVK cl u) u ?w1)"
    obtain wrs where "snd (createResource cl owner (uo_GVK cl u) u ?w1) = fold (perform cl) wrs ?w1"
      "wrs = [] \<or> (\<exists>new. wrs = [KCreate new] \<and> asCreated cl owner (uo_GVK cl u) u new)"
      using createResource_write [of cl owner "uo_GVK cl u" u ?w1] by blast
    then show ?thesis using c by (intro exI [of _ "?del # wrs"]) auto
  qed
qed

lemma patch_cases:
  fixes cl :: "('w, 'o) Cluster"
  defines "after \<equiv> \<lambda>owner u old w. snd (patchResource cl owner u old w)"
  shows "after owner u old w = w
    \<or> (ownedByInstance cl old owner
       \<and> (uo_Kind cl old = ''RoleBinding'' \<and> roleRefChanged cl u old \<and> cl_IsControlledBy cl old owner
            \<and> after owner u old w = snd (replaceOwnedRoleBinding cl owner u old w)
          \<or> uo_Kind cl old \<noteq> ''PersistentVolumeClaim''
            \<and> (after owner u old w = perform cl (KUpdate (uo_SetResourceVersion cl (uo_ResourceVersion cl old) u)) w
               \<or> after owner u old w = perform cl (KApply old u) w)))"
  by (cases "ownedByInstance cl old owner"; cases "uo_Kind cl old = ''RoleBinding'' \<and> roleRefChanged cl u old")
     (auto simp: after_def patchResource_def replaceRoleBindingOnRoleRefChange_def applyResourcePatch_def outcome_def)

lemma patch_write:
  fixes cl :: "('w, 'o) Cluster"
  shows "\<exists>wrs. snd (patchResource cl owner u old w) = fold (perform cl) wrs w
     \<and> (rr_Object res = Inr u \<longrightarrow> cl_Get cl w u = Inr old \<longrightarrow> allowedWrites cl owner res w wrs)"
proof -
  consider (none) "snd (patchResource cl owner u old w) = w"
    | (replace) "uo_Kind cl old = ''RoleBinding''" "roleRefChanged cl u old" "cl_IsControlledBy cl old owner"
        "ownedByInstance cl old owner" "snd (patchResource cl owner u old w) = snd (replaceOwnedRoleBinding cl owner u old w)"
    | (upd) "ownedByInstance cl old owner" "uo_Kind cl old \<noteq> ''PersistentVolumeClaim''"
        "snd (patchResource cl owner u old w) = perform cl (KUpdate (uo_SetResourceVersion cl (uo_ResourceVersion cl old) u)) w"
    | (app) "ownedByInstance cl old owner" "uo_Kind cl old \<noteq> ''PersistentVolumeClaim''"
        "snd (patchResource cl owner u old w) = perform cl (KApply old u) w"
    using patch_cases [of cl owner u old w] by blast
  then show ?thesis
  proof cases
    case none
    then show ?thesis by (intro exI [of _ "[]"]) (simp add: allowedWrites_def)
  next
    case replace
    obtain wrs where w: "snd (replaceOwnedRoleBinding cl owner u old w) = fold (perform cl) wrs w"
      "wrs = [KDelete old (uo_UID cl old) (uo_ResourceVersion cl old)]
        \<or> (\<exists>new. asCreated cl owner (uo_GVK cl u) u new
             \<and> wrs = [KDelete old (uo_UID cl old) (uo_ResourceVersion cl old), KCreate new])"
      using replace_write [of cl owner u old w] by blast
    have "rr_Object res = Inr u \<longrightarrow> cl_Get cl w u = Inr old \<longrightarrow> allowedWrites cl owner res w wrs"
      using w(2) replace(1-4)
      by (auto simp: allowedWrites_def ownedByInstance_def roleRefChanged_def list_ex_iff)
    then show ?thesis using w(1) replace(5) by auto
  next
    case upd
    then show ?thesis
      by (intro exI [of _ "[KUpdate (uo_SetResourceVersion cl (uo_ResourceVersion cl old) u)]"])
         (auto simp: allowedWrites_def ownedByInstance_def list_ex_iff)
  next
    case app
    then show ?thesis
      by (intro exI [of _ "[KApply old u]"]) (auto simp: allowedWrites_def ownedByInstance_def list_ex_iff)
  qed
qed

lemma manage_cases:
  "snd (manageResource cl inst res w) = w
   \<or> (\<exists>u. rr_Object res = Inr u \<and>
        ((\<exists>t. cl_Get cl w u = Inl (NotFound t)
            \<and> snd (manageResource cl inst res w) = snd (createResource cl (srv_ObjectMeta inst) (rr_GVK res) u w))
         \<or> (\<exists>old. cl_Get cl w u = Inr old
            \<and> snd (manageResource cl inst res w) = snd (patchResource cl (srv_ObjectMeta inst) u old w))))"
  unfolding manageResource_def Let_def
  by (auto simp: outcome_def split: if_split sum.split bool.split api_error.split)

lemma manage_write:
  "\<exists>wrs. snd (manageResource cl inst res w) = fold (perform cl) wrs w \<and> allowedWrites cl (srv_ObjectMeta inst) res w wrs"
proof -
  consider (none) "snd (manageResource cl inst res w) = w"
    | (create) u t where "rr_Object res = Inr u" "cl_Get cl w u = Inl (NotFound t)"
        "snd (manageResource cl inst res w) = snd (createResource cl (srv_ObjectMeta inst) (rr_GVK res) u w)"
    | (patch) u old where "rr_Object res = Inr u" "cl_Get cl w u = Inr old"
        "snd (manageResource cl inst res w) = snd (patchResource cl (srv_ObjectMeta inst) u old w)"
    using manage_cases [of cl inst res w] by blast
  then show ?thesis
  proof cases
    case none
    then show ?thesis by (intro exI [of _ "[]"]) (simp add: allowedWrites_def)
  next
    case create
    then show ?thesis
      using createResource_write [of cl "srv_ObjectMeta inst" "rr_GVK res" u w] by (auto simp: allowedWrites_def)
  next
    case patch
    then show ?thesis using patch_write [of cl "srv_ObjectMeta inst" u old w res] by auto
  qed
qed

lemma apply_safeRun: "safeRun cl (srv_ObjectMeta inst) rs w (snd (ApplyResources cl inst rs w))"
proof (induction rs arbitrary: w)
  case (Cons res rs)
  obtain wrs where w: "snd (manageResource cl inst res w) = fold (perform cl) wrs w"
    "allowedWrites cl (srv_ObjectMeta inst) res w wrs"
    using manage_write [of cl inst res w] by blast
  show ?case
    using w Cons.IH [of "fold (perform cl) wrs w"]
    by (cases "manageResource cl inst res w") (auto split: option.split)
qed simp

section \<open>Properties\<close>

text \<open>
  (C5) Applying the rendered resources never takes over what belongs to someone else.  For each
  resource in turn, until one fails, the writes are: none; the creation of an object that
  does not exist, with the instance as its controller unless it is cluster-scoped or a claim
  on a persistent volume (so that deleting the instance keeps the data); or, on an existing object
  that the instance owns and that is not such a claim, one server-side apply, one full update, or
  the replacement of a RoleBinding the instance controls and whose immutable role reference changed,
  deleted under its UID and resource version.
\<close>

theorem apply_writes_are_safe:
  "safeRun cl (srv_ObjectMeta inst) rs w (snd (ApplyResources cl inst rs w))"
  by (rule apply_safeRun)

lemma monitoring_available_iff:
  "MonitoringCRDsAvailable cl w = Inr True \<longleftrightarrow>
     cl_GetCRD cl w ''servicemonitors.monitoring.coreos.com'' = None
     \<and> cl_GetCRD cl w ''prometheusrules.monitoring.coreos.com'' = None"
  by (auto simp: MonitoringCRDsAvailable_def CheckCRDExists_def split: option.splits api_error.splits)

end
