(* ===== verification/Oci_Cache.thy ===== *)
theory Oci_Cache
  imports Go_Strings
begin

text \<open>
  The LRU cache of resolved base configurations (\<open>ociConfigCache\<close> in \<open>pkg/config/resolver.go\<close>).  The Go
  value is a map from keys to elements of a \<open>container/list\<close>, whose elements hold pointers to
  mutable entries; the model keeps that sharing explicit: elements are addresses into a heap of
  entries, the map and the recency list both hold addresses.  An operation returns \<open>None\<close> where the
  code would panic.  Each method runs under the cache's mutex, so an operation is one atomic step.
\<close>

section \<open>The cache\<close>

record ociCacheEntry =
  ce_key :: string
  ce_data :: string

record ociConfigCache =
  cc_items :: "nat gomap"
  cc_order :: "nat list"
  cc_heap :: "nat \<Rightarrow> ociCacheEntry option"
  cc_next :: nat

definition maxOCICacheEntries :: nat where
  "maxOCICacheEntries = 64"

definition newOCIConfigCache :: ociConfigCache where
  "newOCIConfigCache = \<lparr> cc_items = mempty, cc_order = [], cc_heap = (\<lambda>_. None), cc_next = 0 \<rparr>"

definition cacheEntry :: "ociConfigCache \<Rightarrow> nat \<Rightarrow> ociCacheEntry option" where
  "cacheEntry c elem = cc_heap c elem"

definition moveToFront :: "nat \<Rightarrow> nat list \<Rightarrow> nat list" where
  "moveToFront e l = (if e \<in> set l then e # remove1 e l else l)"

definition cacheGet :: "string \<Rightarrow> ociConfigCache \<Rightarrow> (ociConfigCache \<times> string option) option" where
  "cacheGet key c =
     (case mget (cc_items c) key of
        None \<Rightarrow> Some (c, None)
      | Some elem \<Rightarrow>
          (let c = c\<lparr> cc_order := moveToFront elem (cc_order c) \<rparr>
           in case cacheEntry c elem of
                None \<Rightarrow> None
              | Some entry \<Rightarrow> Some (c, Some (ce_data entry))))"

definition cacheEvict :: "ociConfigCache \<Rightarrow> ociConfigCache option" where
  "cacheEvict c =
     (if length (cc_items c) \<ge> maxOCICacheEntries then
        (if cc_order c = [] then None
         else let oldest = last (cc_order c)
              in case cacheEntry c oldest of
                   None \<Rightarrow> None
                 | Some oldestEntry \<Rightarrow>
                     Some (c\<lparr> cc_order := remove1 oldest (cc_order c),
                              cc_items := mdel (ce_key oldestEntry) (cc_items c) \<rparr>))
      else Some c)"

definition cacheSet :: "string \<Rightarrow> string \<Rightarrow> ociConfigCache \<Rightarrow> ociConfigCache option" where
  "cacheSet key data c =
     (case mget (cc_items c) key of
        Some elem \<Rightarrow>
          (let c = c\<lparr> cc_order := moveToFront elem (cc_order c) \<rparr>
           in case cacheEntry c elem of
                None \<Rightarrow> None
              | Some entry \<Rightarrow> Some (c\<lparr> cc_heap := (cc_heap c)(elem \<mapsto> entry\<lparr> ce_data := data \<rparr>) \<rparr>))
      | None \<Rightarrow>
          (case cacheEvict c of
             None \<Rightarrow> None
           | Some c \<Rightarrow>
               (let elem = cc_next c
                in Some (c\<lparr> cc_heap := (cc_heap c)(elem \<mapsto> \<lparr> ce_key = key, ce_data = data \<rparr>),
                            cc_next := Suc elem,
                            cc_order := elem # cc_order c,
                            cc_items := mput key elem (cc_items c) \<rparr>))))"

section \<open>Abstract specification: a recency list\<close>

type_synonym lru = "(string \<times> string) list"

definition lruGet :: "string \<Rightarrow> lru \<Rightarrow> lru \<times> string option" where
  "lruGet k l = (case map_of l k of None \<Rightarrow> (l, None)
     | Some d \<Rightarrow> ((k, d) # filter (\<lambda>x. fst x \<noteq> k) l, Some d))"

definition lruSet :: "string \<Rightarrow> string \<Rightarrow> lru \<Rightarrow> lru" where
  "lruSet k d l =
     (if k \<in> fst ` set l then (k, d) # filter (\<lambda>x. fst x \<noteq> k) l
      else (k, d) # (if length l \<ge> maxOCICacheEntries then butlast l else l))"

definition entryPair :: "ociConfigCache \<Rightarrow> nat \<Rightarrow> string \<times> string" where
  "entryPair c e = (ce_key (the (cc_heap c e)), ce_data (the (cc_heap c e)))"

definition absCache :: "ociConfigCache \<Rightarrow> lru" where
  "absCache c = map (entryPair c) (cc_order c)"

definition cacheInv :: "ociConfigCache \<Rightarrow> bool" where
  "cacheInv c \<longleftrightarrow>
     wf_map (cc_items c) \<and> distinct (cc_order c) \<and> set (map snd (cc_items c)) = set (cc_order c)
     \<and> (\<forall>(k, e) \<in> set (cc_items c). \<exists>d. cc_heap c e = Some \<lparr> ce_key = k, ce_data = d \<rparr>)
     \<and> length (cc_items c) \<le> maxOCICacheEntries
     \<and> (\<forall>e \<in> set (cc_order c). e < cc_next c)"

section \<open>Consequences of the invariant\<close>

lemma cacheInv_new: "cacheInv newOCIConfigCache"
  by (simp add: cacheInv_def newOCIConfigCache_def mempty_def)

lemma cacheInv_item:
  assumes "cacheInv c" "mget (cc_items c) k = Some e"
  obtains d where "e \<in> set (cc_order c)" "cc_heap c e = Some \<lparr> ce_key = k, ce_data = d \<rparr>"
    "entryPair c e = (k, d)"
proof -
  have m: "(k, e) \<in> set (cc_items c)"
    using assms wf_map_mget_iff [of "cc_items c" k e] by (simp add: cacheInv_def)
  then have "e \<in> set (map snd (cc_items c))" by force
  moreover obtain d where "cc_heap c e = Some \<lparr> ce_key = k, ce_data = d \<rparr>"
    using assms(1) m by (fastforce simp: cacheInv_def)
  ultimately show thesis using assms(1) by (intro that [of d]) (auto simp: cacheInv_def entryPair_def)
qed

lemma cacheInv_elem:
  assumes "cacheInv c" "e \<in> set (cc_order c)"
  obtains k d where "mget (cc_items c) k = Some e" "cc_heap c e = Some \<lparr> ce_key = k, ce_data = d \<rparr>"
    "entryPair c e = (k, d)"
proof -
  have "e \<in> set (map snd (cc_items c))" using assms by (simp add: cacheInv_def)
  then obtain k where m: "(k, e) \<in> set (cc_items c)" by auto
  then have "mget (cc_items c) k = Some e"
    using assms(1) wf_map_mget_iff [of "cc_items c" k e] by (simp add: cacheInv_def)
  with cacheInv_item [OF assms(1) this] that show thesis by metis
qed

lemma cacheInv_inj:
  assumes "cacheInv c" "e \<in> set (cc_order c)" "e' \<in> set (cc_order c)" "fst (entryPair c e) = fst (entryPair c e')"
  shows "e = e'"
proof -
  obtain k d where "mget (cc_items c) k = Some e" "entryPair c e = (k, d)"
    using cacheInv_elem [OF assms(1,2)] by metis
  moreover obtain k' d' where "mget (cc_items c) k' = Some e'" "entryPair c e' = (k', d')"
    using cacheInv_elem [OF assms(1,3)] by metis
  ultimately show ?thesis using assms(4) by auto
qed

lemma abs_distinct: "cacheInv c \<Longrightarrow> distinct (map fst (absCache c))"
  using cacheInv_inj by (auto simp: absCache_def distinct_map inj_on_def cacheInv_def o_def)

lemma abs_lookup:
  assumes "cacheInv c"
  shows "map_of (absCache c) k = map_option (\<lambda>e. snd (entryPair c e)) (mget (cc_items c) k)"
proof (cases "mget (cc_items c) k")
  case None
  have "k \<notin> fst ` set (absCache c)"
  proof
    assume "k \<in> fst ` set (absCache c)"
    then obtain e where "e \<in> set (cc_order c)" "fst (entryPair c e) = k" by (auto simp: absCache_def)
    with None show False using cacheInv_elem [OF assms] by (metis fst_conv option.distinct(1))
  qed
  with None show ?thesis by (simp add: map_of_eq_None_iff)
next
  case (Some e)
  then obtain d where "e \<in> set (cc_order c)" "entryPair c e = (k, d)" using cacheInv_item [OF assms] by metis
  then have "(k, d) \<in> set (absCache c)" by (force simp: absCache_def)
  then show ?thesis using Some abs_distinct [OF assms] \<open>entryPair c e = (k, d)\<close> by simp
qed

lemma length_items:
  assumes "cacheInv c" shows "length (cc_order c) = length (cc_items c)"
proof -
  have "distinct (map snd (cc_items c))"
  proof (rule distinct_map [THEN iffD2], intro conjI inj_onI)
    show "distinct (cc_items c)"
      using assms wf_map_distinct [of "cc_items c"] by (auto simp: cacheInv_def mkeys_def distinct_map)
    fix x y assume xy: "x \<in> set (cc_items c)" "y \<in> set (cc_items c)" "snd x = snd y"
    have "mget (cc_items c) (fst x) = Some (snd x)" "mget (cc_items c) (fst y) = Some (snd y)"
      using xy(1,2) assms wf_map_mget_iff [of "cc_items c"] by (simp_all add: cacheInv_def)
    then obtain d d' where "cc_heap c (snd x) = Some \<lparr> ce_key = fst x, ce_data = d \<rparr>"
      "cc_heap c (snd y) = Some \<lparr> ce_key = fst y, ce_data = d' \<rparr>"
      using cacheInv_item [OF assms] by metis
    with xy(3) show "x = y" by (simp add: prod_eq_iff)
  qed
  moreover have "set (map snd (cc_items c)) = set (cc_order c)" "distinct (cc_order c)"
    using assms by (auto simp: cacheInv_def)
  ultimately show ?thesis by (metis distinct_card length_map)
qed

lemma filter_entry:
  assumes "cacheInv c" "e \<in> set (cc_order c)" "entryPair c e = (k, d)"
  shows "map (entryPair c) (remove1 e (cc_order c)) = filter (\<lambda>x. fst x \<noteq> k) (absCache c)"
proof -
  have d: "distinct (cc_order c)" using assms(1) by (simp add: cacheInv_def)
  have "filter (\<lambda>x. fst x \<noteq> k) (absCache c) = map (entryPair c) (filter (\<lambda>e'. fst (entryPair c e') \<noteq> k) (cc_order c))"
    by (simp add: absCache_def filter_map o_def)
  also have "filter (\<lambda>e'. fst (entryPair c e') \<noteq> k) (cc_order c) = filter (\<lambda>e'. e \<noteq> e') (cc_order c)"
  proof (rule filter_cong [OF refl])
    fix e' assume "e' \<in> set (cc_order c)"
    then show "fst (entryPair c e') \<noteq> k \<longleftrightarrow> e \<noteq> e'"
      using cacheInv_inj [OF assms(1) _ assms(2), of e'] assms(3) by (metis fst_conv)
  qed
  also have "\<dots> = remove1 e (cc_order c)"
    using d by (simp add: distinct_remove1_removeAll removeAll_filter_not_eq)
  finally show ?thesis by (rule sym)
qed

section \<open>Refinement of the recency list\<close>

lemma set_moveToFront [simp]: "set (moveToFront e l) = set l"
  by (auto simp: moveToFront_def dest: in_set_remove1 [THEN iffD1]) (metis in_set_remove1 set_remove1_subset subsetD)+

lemma distinct_moveToFront [simp]: "distinct l \<Longrightarrow> distinct (moveToFront e l)"
  by (auto simp: moveToFront_def)

lemma cacheInv_reorder:
  "cacheInv c \<Longrightarrow> cacheInv (c\<lparr> cc_order := moveToFront e (cc_order c) \<rparr>)"
  by (simp add: cacheInv_def)

lemma entryPair_order [simp]: "entryPair (c\<lparr> cc_order := l \<rparr>) = entryPair c"
  by (simp add: entryPair_def fun_eq_iff)

lemma cacheGet_refines:
  assumes "cacheInv c"
  shows "\<exists>c'. cacheGet k c = Some (c', snd (lruGet k (absCache c)))
     \<and> absCache c' = fst (lruGet k (absCache c)) \<and> cacheInv c'"
proof (cases "mget (cc_items c) k")
  case None
  with assms show ?thesis by (simp add: cacheGet_def lruGet_def abs_lookup)
next
  case (Some e)
  then obtain d where e: "e \<in> set (cc_order c)" "cc_heap c e = Some \<lparr> ce_key = k, ce_data = d \<rparr>"
    "entryPair c e = (k, d)" using cacheInv_item [OF assms] by metis
  have "absCache (c\<lparr> cc_order := moveToFront e (cc_order c) \<rparr>) = (k, d) # filter (\<lambda>x. fst x \<noteq> k) (absCache c)"
    using e filter_entry [OF assms e(1,3)] by (simp add: absCache_def moveToFront_def)
  then show ?thesis
    using Some e assms by (simp add: cacheGet_def cacheEntry_def lruGet_def abs_lookup cacheInv_reorder)
qed

lemma cacheSet_existing:
  assumes "cacheInv c" "mget (cc_items c) k = Some e"
  shows "\<exists>c'. cacheSet k data c = Some c' \<and> cacheInv c'
     \<and> absCache c' = (k, data) # filter (\<lambda>x. fst x \<noteq> k) (absCache c)"
proof -
  obtain d where e: "e \<in> set (cc_order c)" "cc_heap c e = Some \<lparr> ce_key = k, ce_data = d \<rparr>"
    "entryPair c e = (k, d)" using cacheInv_item [OF assms] by metis
  define c' where "c' = c\<lparr> cc_order := moveToFront e (cc_order c),
     cc_heap := (cc_heap c)(e \<mapsto> \<lparr> ce_key = k, ce_data = data \<rparr>) \<rparr>"
  have set: "cacheSet k data c = Some c'"
    using assms(2) e(2) by (simp add: cacheSet_def cacheEntry_def c'_def)
  have "\<exists>d'. cc_heap c' e' = Some \<lparr> ce_key = k', ce_data = d' \<rparr>" if m: "(k', e') \<in> set (cc_items c)" for k' e'
  proof -
    have "mget (cc_items c) k' = Some e'"
      using m assms(1) wf_map_mget_iff [of "cc_items c" k' e'] by (simp add: cacheInv_def)
    then obtain d' where "cc_heap c e' = Some \<lparr> ce_key = k', ce_data = d' \<rparr>" using cacheInv_item [OF assms(1)] by metis
    then show ?thesis using e(2) by (cases "e' = e") (simp_all add: c'_def)
  qed
  moreover have "cc_items c' = cc_items c" "cc_next c' = cc_next c"
    "cc_order c' = moveToFront e (cc_order c)" by (simp_all add: c'_def)
  ultimately have inv: "cacheInv c'" using assms(1) by (auto simp: cacheInv_def)
  have "entryPair c' e' = entryPair c e'" if "e' \<noteq> e" for e' using that by (simp add: c'_def entryPair_def)
  moreover have "e \<notin> set (remove1 e (cc_order c))" using assms(1) by (simp add: cacheInv_def)
  ultimately have "map (entryPair c') (remove1 e (cc_order c)) = map (entryPair c) (remove1 e (cc_order c))"
    by (intro map_cong) (blast, metis)
  then have "absCache c' = (k, data) # filter (\<lambda>x. fst x \<noteq> k) (absCache c)"
    using e filter_entry [OF assms(1) e(1,3)]
    by (simp add: absCache_def c'_def moveToFront_def) (simp add: entryPair_def)
  with set inv show ?thesis by blast
qed

lemma cacheEvict_refines:
  assumes "cacheInv c" "mget (cc_items c) k = None"
  shows "\<exists>c'. cacheEvict c = Some c' \<and> cacheInv c' \<and> mget (cc_items c') k = None
     \<and> length (cc_items c') < maxOCICacheEntries
     \<and> absCache c' = (if length (absCache c) \<ge> maxOCICacheEntries then butlast (absCache c) else absCache c)"
proof (cases "length (cc_items c) \<ge> maxOCICacheEntries")
  case False
  with assms length_items [OF assms(1)] show ?thesis by (simp add: cacheEvict_def absCache_def)
next
  case True
  then have ne: "cc_order c \<noteq> []" using length_items [OF assms(1)] by (auto simp: maxOCICacheEntries_def)
  then have last: "last (cc_order c) \<in> set (cc_order c)" by simp
  obtain ok d where o: "mget (cc_items c) ok = Some (last (cc_order c))"
    "cc_heap c (last (cc_order c)) = Some \<lparr> ce_key = ok, ce_data = d \<rparr>"
    using cacheInv_elem [OF assms(1) last] by metis
  define c' where "c' = c\<lparr> cc_order := remove1 (last (cc_order c)) (cc_order c), cc_items := mdel ok (cc_items c) \<rparr>"
  have dist: "distinct (cc_order c)" and wf: "wf_map (cc_items c)" using assms(1) by (auto simp: cacheInv_def)
  have rem: "remove1 (last (cc_order c)) (cc_order c) = butlast (cc_order c)"
  proof -
    define b l where "b = butlast (cc_order c)" and "l = last (cc_order c)"
    have o: "cc_order c = b @ [l]" using ne by (simp add: b_def l_def)
    then have "l \<notin> set b" using dist by simp
    then have "remove1 l (b @ [l]) = b" by (simp add: remove1_append)
    then show ?thesis by (simp add: o)
  qed
  have ev: "cacheEvict c = Some c'" using True ne o by (simp add: cacheEvict_def cacheEntry_def c'_def Let_def)
  have items: "set (cc_items c') = {(k, e) \<in> set (cc_items c). k \<noteq> ok}" by (auto simp: c'_def mdel_def)
  have "snd ` set (cc_items c') = set (cc_order c) - {last (cc_order c)}"
  proof (rule set_eqI, rule iffI)
    fix e assume "e \<in> snd ` set (cc_items c')"
    then obtain k' where k': "(k', e) \<in> set (cc_items c)" "k' \<noteq> ok" by (auto simp: items)
    then have g: "mget (cc_items c) k' = Some e" using wf by (simp add: wf_map_mget_iff)
    then obtain d' where "e \<in> set (cc_order c)" "cc_heap c e = Some \<lparr> ce_key = k', ce_data = d' \<rparr>"
      using cacheInv_item [OF assms(1)] by metis
    with o(2) k'(2) show "e \<in> set (cc_order c) - {last (cc_order c)}" by auto
  next
    fix e assume e: "e \<in> set (cc_order c) - {last (cc_order c)}"
    then obtain k' where "mget (cc_items c) k' = Some e" using cacheInv_elem [OF assms(1)] by (metis DiffD1)
    moreover from this have "k' \<noteq> ok" using o(1) e by auto
    ultimately show "e \<in> snd ` set (cc_items c')" using wf by (force simp: items wf_map_mget_iff)
  qed
  moreover have "set (remove1 (last (cc_order c)) (cc_order c)) = set (cc_order c) - {last (cc_order c)}"
    using dist by simp
  moreover have lt: "length (cc_items c') < length (cc_items c)"
  proof -
    have "(ok, last (cc_order c)) \<in> set (cc_items c)" using o(1) wf by (simp add: wf_map_mget_iff)
    then show ?thesis unfolding c'_def mdel_def by (auto intro: length_filter_less)
  qed
  moreover have "wf_map (cc_items c')" using wf by (simp add: c'_def)
  moreover have "cc_order c' = butlast (cc_order c)" "cc_heap c' = cc_heap c" "cc_next c' = cc_next c"
    by (simp_all add: c'_def rem)
  ultimately have inv: "cacheInv c'"
    using assms(1) items dist by (auto simp: cacheInv_def rem distinct_butlast dest: in_set_butlastD)
  have "absCache c' = butlast (absCache c)"
  proof -
    have "entryPair c' = entryPair c" by (simp add: c'_def entryPair_def fun_eq_iff)
    moreover have "cc_order c' = butlast (cc_order c)" by (simp add: c'_def rem)
    ultimately show ?thesis by (simp add: absCache_def map_butlast)
  qed
  moreover have "mget (cc_items c') k = None" using assms(2) by (simp add: c'_def)
  moreover have "length (absCache c) \<ge> maxOCICacheEntries" using True length_items [OF assms(1)] by (simp add: absCache_def)
  moreover have "length (cc_items c') < maxOCICacheEntries" using lt assms(1) by (simp add: cacheInv_def)
  ultimately show ?thesis using ev inv by auto
qed

lemma cacheSet_refines:
  assumes "cacheInv c"
  shows "\<exists>c'. cacheSet k data c = Some c' \<and> cacheInv c' \<and> absCache c' = lruSet k data (absCache c)"
proof (cases "mget (cc_items c) k")
  case (Some e)
  then have "map_of (absCache c) k \<noteq> None" using abs_lookup [OF assms] by simp
  then have "k \<in> fst ` set (absCache c)" by (simp add: map_of_eq_None_iff)
  with cacheSet_existing [OF assms Some] show ?thesis by (simp add: lruSet_def)
next
  case None
  then have "map_of (absCache c) k = None" using abs_lookup [OF assms] by simp
  then have nk: "k \<notin> fst ` set (absCache c)" by (simp add: map_of_eq_None_iff)
  obtain c1 where c1: "cacheEvict c = Some c1" "cacheInv c1" "mget (cc_items c1) k = None"
    "length (cc_items c1) < maxOCICacheEntries"
    "absCache c1 = (if length (absCache c) \<ge> maxOCICacheEntries then butlast (absCache c) else absCache c)"
    using cacheEvict_refines [OF assms None] by blast
  define n where "n = cc_next c1"
  define c' where "c' = c1\<lparr> cc_heap := (cc_heap c1)(n \<mapsto> \<lparr> ce_key = k, ce_data = data \<rparr>),
     cc_next := Suc n, cc_order := n # cc_order c1, cc_items := mput k n (cc_items c1) \<rparr>"
  have set: "cacheSet k data c = Some c'" using None c1(1) by (simp add: cacheSet_def c'_def n_def Let_def)
  have fresh: "n \<notin> set (cc_order c1)" using c1(2) by (auto simp: cacheInv_def n_def)
  have nk1: "k \<notin> set (mkeys (cc_items c1))" using c1(3) mget_in_mkeys [of "cc_items c1" k] by simp
  have put: "set (mput k n m) = insert (k, n) (set m) \<and> length (mput k n m) = Suc (length m)"
    if "k \<notin> set (mkeys m)" for m using that by (induction k n m rule: mput.induct) auto
  have "\<exists>d. cc_heap c' e = Some \<lparr> ce_key = k', ce_data = d \<rparr>" if m: "(k', e) \<in> set (cc_items c1)" for k' e
  proof -
    have "mget (cc_items c1) k' = Some e" using m c1(2) wf_map_mget_iff [of "cc_items c1" k' e] by (simp add: cacheInv_def)
    then obtain d where "e \<in> set (cc_order c1)" "cc_heap c1 e = Some \<lparr> ce_key = k', ce_data = d \<rparr>"
      using cacheInv_item [OF c1(2)] by metis
    then show ?thesis using fresh by (auto simp: c'_def)
  qed
  moreover have "cc_heap c' n = Some \<lparr> ce_key = k, ce_data = data \<rparr>" by (simp add: c'_def)
  moreover have "cc_items c' = mput k n (cc_items c1)" "cc_order c' = n # cc_order c1" "cc_next c' = Suc n"
    by (simp_all add: c'_def)
  ultimately have inv: "cacheInv c'"
    using c1(2,4) fresh put [OF nk1] n_def by (auto simp: cacheInv_def less_Suc_eq)
  have "map (entryPair c') (cc_order c1) = map (entryPair c1) (cc_order c1)"
    using fresh by (intro map_cong) (auto simp: entryPair_def c'_def)
  then have "absCache c' = (k, data) # absCache c1"
    by (simp add: absCache_def c'_def) (simp add: entryPair_def)
  with set inv c1(5) nk show ?thesis by (simp add: lruSet_def)
qed

section \<open>The contract of a bounded cache\<close>

text \<open>What the resolver relies on: operations never fail on a valid cache, a stored value is found
  again, and an operation never invents or alters the value of another key (it may forget it).\<close>

locale bounded_cache =
  fixes inv :: "'c \<Rightarrow> bool"
    and lookup :: "'c \<Rightarrow> string \<Rightarrow> string option"
    and get :: "string \<Rightarrow> 'c \<Rightarrow> ('c \<times> string option) option"
    and store :: "string \<Rightarrow> string \<Rightarrow> 'c \<Rightarrow> 'c option"
  assumes get_law: "inv c \<Longrightarrow> \<exists>c'. get k c = Some (c', lookup c k) \<and> inv c' \<and> lookup c' = lookup c"
    and store_law: "inv c \<Longrightarrow> \<exists>c'. store k d c = Some c' \<and> inv c' \<and> lookup c' k = Some d
      \<and> (\<forall>k'. k' \<noteq> k \<longrightarrow> lookup c' k' = lookup c k' \<or> lookup c' k' = None)"
begin

text \<open>Every stored pair satisfies a property that holds of every pair that is ever stored.\<close>

definition only :: "(string \<Rightarrow> string \<Rightarrow> bool) \<Rightarrow> 'c \<Rightarrow> bool" where
  "only P c \<longleftrightarrow> inv c \<and> (\<forall>k d. lookup c k = Some d \<longrightarrow> P k d)"

lemma get_only:
  assumes "only P c" "get k c = Some (c', r)"
  shows "only P c'" "r = lookup c k"
  using assms get_law [of c k] by (auto simp: only_def)

lemma store_only:
  assumes "only P c" "P k d" "store k d c = Some c'"
  shows "only P c'" "lookup c' k = Some d"
proof -
  have c: "inv c'" "lookup c' k = Some d"
    and other: "\<And>k'. k' \<noteq> k \<Longrightarrow> lookup c' k' = lookup c k' \<or> lookup c' k' = None"
    using assms store_law [of c k d] by (auto simp: only_def)
  show "lookup c' k = Some d" by (rule c(2))
  have "P k' d'" if "lookup c' k' = Some d'" for k' d'
    using that c(2) other [of k'] assms(1,2) by (cases "k' = k") (auto simp: only_def)
  with c(1) show "only P c'" by (simp add: only_def)
qed

lemma ops_total:
  assumes "only P c"
  shows "get k c \<noteq> None" "store k d c \<noteq> None"
  using assms get_law [of c k] store_law [of c k d] by (auto simp: only_def)

end

definition cacheLookup :: "ociConfigCache \<Rightarrow> string \<Rightarrow> string option" where
  "cacheLookup c k = map_of (absCache c) k"

lemma map_of_move: "map_of ((k, d) # filter (\<lambda>x. fst x \<noteq> k) l) k' = (if k' = k then Some d else map_of l k')"
  by (induction l) auto

lemma map_of_butlast: "distinct (map fst l) \<Longrightarrow> map_of (butlast l) k = map_of l k \<or> map_of (butlast l) k = None"
proof (induction l)
  case (Cons x l)
  then show ?case by (cases x) auto
qed simp

lemma lruSet_lookup:
  assumes "distinct (map fst l)"
  shows "map_of (lruSet k d l) k = Some d"
    and "k' \<noteq> k \<Longrightarrow> map_of (lruSet k d l) k' = map_of l k' \<or> map_of (lruSet k d l) k' = None"
proof -
  show "map_of (lruSet k d l) k = Some d" by (simp add: lruSet_def)
  assume "k' \<noteq> k"
  then show "map_of (lruSet k d l) k' = map_of l k' \<or> map_of (lruSet k d l) k' = None"
    using map_of_move [of k d l k'] map_of_butlast [OF assms, of k'] by (simp add: lruSet_def)
qed

interpretation oci: bounded_cache cacheInv cacheLookup cacheGet cacheSet
proof
  fix c :: ociConfigCache and k
  assume c: "cacheInv c"
  have "map_of (fst (lruGet k (absCache c))) = map_of (absCache c)"
    using map_of_move [of k _ "absCache c"] by (auto simp: lruGet_def fun_eq_iff split: option.split)
  moreover have "snd (lruGet k (absCache c)) = cacheLookup c k"
    by (simp add: lruGet_def cacheLookup_def split: option.split)
  ultimately show "\<exists>c'. cacheGet k c = Some (c', cacheLookup c k) \<and> cacheInv c' \<and> cacheLookup c' = cacheLookup c"
    using cacheGet_refines [OF c, of k] by (auto simp: cacheLookup_def fun_eq_iff)
next
  fix c :: ociConfigCache and k d
  assume c: "cacheInv c"
  obtain c' where c': "cacheSet k d c = Some c'" "cacheInv c'" "absCache c' = lruSet k d (absCache c)"
    using cacheSet_refines [OF c] by blast
  show "\<exists>c'. cacheSet k d c = Some c' \<and> cacheInv c' \<and> cacheLookup c' k = Some d
      \<and> (\<forall>k'. k' \<noteq> k \<longrightarrow> cacheLookup c' k' = cacheLookup c k' \<or> cacheLookup c' k' = None)"
    using c' lruSet_lookup [OF abs_distinct [OF c]] by (intro exI [of _ c']) (simp add: cacheLookup_def)
qed

section \<open>Properties\<close>

inductive cacheReach :: "ociConfigCache \<Rightarrow> bool" where
  new: "cacheReach newOCIConfigCache"
| get: "cacheReach c \<Longrightarrow> cacheGet k c = Some (c', r) \<Longrightarrow> cacheReach c'"
| set: "cacheReach c \<Longrightarrow> cacheSet k d c = Some c' \<Longrightarrow> cacheReach c'"

lemma cacheReach_inv: "cacheReach c \<Longrightarrow> cacheInv c"
proof (induction rule: cacheReach.induct)
  case (get c k c' r)
  then show ?case using cacheGet_refines [of c k] by auto
next
  case (set c k d c')
  then show ?case using cacheSet_refines [of c k d] by auto
qed (rule cacheInv_new)

text \<open>
  (C33) The cache is a correct LRU cache.  Every state reached from the empty cache by gets and sets
  satisfies the representation invariant (the key map and the recency list agree, at most 64
  entries), no operation panics, and each operation is the corresponding operation of the abstract
  recency list: a hit moves the entry to the front, a set replaces or inserts at the front, and
  inserting into a full cache drops the least recently used entry.
\<close>

theorem oci_cache_is_lru:
  assumes "cacheReach c"
  shows "cacheInv c \<and> length (cc_items c) \<le> 64
     \<and> (\<exists>c'. cacheGet k c = Some (c', snd (lruGet k (absCache c))) \<and> absCache c' = fst (lruGet k (absCache c)))
     \<and> (\<exists>c'. cacheSet k d c = Some c' \<and> absCache c' = lruSet k d (absCache c))"
proof -
  have "cacheInv c" using assms by (rule cacheReach_inv)
  then show ?thesis
    using cacheGet_refines [of c k] cacheSet_refines [of c k d]
    by (auto simp: cacheInv_def [of c] maxOCICacheEntries_def)
qed

theorem oci_cache_is_lru_witness:
  "\<exists>c. cacheSet ''img@sha256:1'' ''v1'' newOCIConfigCache = Some c \<and> cacheInv c
     \<and> (\<exists>c'. cacheGet ''img@sha256:1'' c = Some (c', Some ''v1''))"
proof -
  obtain c where c: "cacheSet ''img@sha256:1'' ''v1'' newOCIConfigCache = Some c"
    "absCache c = lruSet ''img@sha256:1'' ''v1'' (absCache newOCIConfigCache)"
    using oci_cache_is_lru [OF cacheReach.new] by blast
  have "absCache c = [(''img@sha256:1'', ''v1'')]"
    unfolding c(2) by (simp add: lruSet_def absCache_def newOCIConfigCache_def maxOCICacheEntries_def)
  then show ?thesis
    using oci_cache_is_lru [OF cacheReach.set [OF cacheReach.new c(1)], where k = "''img@sha256:1''"] c(1)
    by (auto simp: lruGet_def)
qed

end
