(* ===== verification/Base64.thy ===== *)
theory Base64
  imports Go_Strings
begin

text \<open>
  \<open>base64.StdEncoding.DecodeString\<close>, by which the resolver reads the configuration stored in an image
  label: line breaks are skipped, the text must consist of complete four-character groups, and
  only the last group may be padded.  \<open>b64Encode\<close> is the RFC 4648 encoder that wrote the label; it is
  not part of the operator and serves to state that decoding inverts it.
\<close>

definition b64Alphabet :: string where
  "b64Alphabet = ''ABCDEFGHIJKLMNOPQRSTUVWXYZabcdefghijklmnopqrstuvwxyz0123456789+/''"

definition b64Value :: "char \<Rightarrow> nat option" where
  "b64Value c = map_of (zip b64Alphabet [0..<64]) c"

definition b64Byte :: "nat \<Rightarrow> char" where
  "b64Byte n = char_of n"

fun b64Groups :: "string \<Rightarrow> string option" where
  "b64Groups [] = Some []"
| "b64Groups (a # b # c # d # rest) =
     (case (b64Value a, b64Value b) of
        (Some va, Some vb) \<Rightarrow>
          if d = CHR ''='' then
            if rest \<noteq> [] then None
            else if c = CHR ''='' then Some [b64Byte (va * 4 + vb div 16)]
            else (case b64Value c of None \<Rightarrow> None
                  | Some vc \<Rightarrow> Some [b64Byte (va * 4 + vb div 16), b64Byte (vb mod 16 * 16 + vc div 4)])
          else (case (b64Value c, b64Value d, b64Groups rest) of
                  (Some vc, Some vd, Some out) \<Rightarrow>
                    Some (b64Byte (va * 4 + vb div 16) # b64Byte (vb mod 16 * 16 + vc div 4)
                          # b64Byte (vc mod 4 * 64 + vd) # out)
                | _ \<Rightarrow> None)
      | _ \<Rightarrow> None)"
| "b64Groups _ = None"

definition base64Decode :: "string \<Rightarrow> string option" where
  "base64Decode s = b64Groups (filter (\<lambda>c. c \<noteq> CHR 0x0A \<and> c \<noteq> CHR 0x0D) s)"

definition b64Char :: "nat \<Rightarrow> char" where
  "b64Char v = b64Alphabet ! v"

fun b64Encode :: "string \<Rightarrow> string" where
  "b64Encode [] = []"
| "b64Encode [x] = (let a = of_char x in
     [b64Char (a div 4), b64Char (a mod 4 * 16), CHR ''='', CHR ''=''])"
| "b64Encode [x, y] = (let a = of_char x; b = of_char y in
     [b64Char (a div 4), b64Char (a mod 4 * 16 + b div 16), b64Char (b mod 16 * 4), CHR ''=''])"
| "b64Encode (x # y # z # s) = (let a = of_char x; b = of_char y; c = of_char z in
     b64Char (a div 4) # b64Char (a mod 4 * 16 + b div 16) # b64Char (b mod 16 * 4 + c div 64)
     # b64Char (c mod 64) # b64Encode s)"

lemma length_b64Alphabet [simp]: "length b64Alphabet = 64"
  by (simp add: b64Alphabet_def)

lemma distinct_b64Alphabet: "distinct b64Alphabet"
  by (simp add: b64Alphabet_def)

lemma b64Value_b64Char [simp]: "v < 64 \<Longrightarrow> b64Value (b64Char v) = Some v"
  unfolding b64Value_def b64Char_def
  by (subst map_of_zip_nth) (simp_all add: distinct_b64Alphabet)

lemma b64Char_in: "v < 64 \<Longrightarrow> b64Char v \<in> set b64Alphabet"
  unfolding b64Char_def by (rule nth_mem) simp

lemma b64Alphabet_plain: "c \<in> set b64Alphabet \<Longrightarrow> c \<noteq> CHR ''='' \<and> c \<noteq> CHR 0x0A \<and> c \<noteq> CHR 0x0D"
  by (auto simp: b64Alphabet_def)

lemma b64Char_plain [simp]:
  assumes "v < 64" shows "b64Char v \<noteq> CHR ''=''" "b64Char v \<noteq> CHR 0x0A" "b64Char v \<noteq> CHR 0x0D"
  using b64Alphabet_plain [OF b64Char_in [OF assms]] by auto

lemma of_char_byte [simp]: "(of_char c :: nat) < 256"
  by (rule nat_of_char_less_256)

lemma sextets:
  assumes "a < 256" "b < 256" "c < (256 :: nat)"
  shows "a div 4 < 64" "a mod 4 * 16 + b div 16 < 64" "b mod 16 * 4 + c div 64 < 64" "c mod 64 < 64"
    "a mod 4 * 16 < 64" "b mod 16 * 4 < 64"
    "a div 4 * 4 + (a mod 4 * 16 + b div 16) div 16 = a"
    "(a mod 4 * 16 + b div 16) mod 16 * 16 + (b mod 16 * 4 + c div 64) div 4 = b"
    "(b mod 16 * 4 + c div 64) mod 4 * 64 + c mod 64 = c"
  using assms by (auto simp: less_mult_imp_div_less)

lemma byte_parts:
  assumes "b < (256 :: nat)"
  shows "b div 16 div 16 = 0" "b div 16 mod 16 = b div 16" "b div 64 div 4 = 0" "b div 64 mod 4 = b div 64"
  using assms by (auto simp: div_mult2_eq [symmetric] less_mult_imp_div_less)

lemma b64Encode_plain: "list_all (\<lambda>c. c \<noteq> CHR 0x0A \<and> c \<noteq> CHR 0x0D) (b64Encode s)"
proof (induction s rule: b64Encode.induct)
  case (2 x)
  note bounds = sextets [OF of_char_byte [of x] of_char_byte of_char_byte]
  show ?case by (simp add: Let_def bounds)
next
  case (3 x y)
  note bounds = sextets [OF of_char_byte [of x] of_char_byte [of y] of_char_byte]
  show ?case by (simp add: Let_def bounds)
next
  case (4 x y z s)
  note bounds = sextets [OF of_char_byte [of x] of_char_byte [of y] of_char_byte [of z]]
  show ?case using 4 by (simp add: Let_def bounds)
qed simp

lemma b64Groups_b64Encode: "b64Groups (b64Encode s) = Some s"
proof (induction s rule: b64Encode.induct)
  case (2 x)
  note bounds = sextets [OF of_char_byte [of x] of_char_byte of_char_byte]
  have "of_char x div 4 * 4 + of_char x mod 4 * 16 div 16 = (of_char x :: nat)" by simp
  then show ?case by (simp add: Let_def bounds b64Byte_def)
next
  case (3 x y)
  note bounds = sextets [OF of_char_byte [of x] of_char_byte [of y], of 0]
  show ?case using bounds by (simp add: Let_def b64Byte_def)
next
  case (4 x y z s)
  note bounds = sextets [OF of_char_byte [of x] of_char_byte [of y] of_char_byte [of z]]
  show ?case
    using 4 by (simp add: Let_def bounds b64Byte_def byte_parts [OF of_char_byte [of y]]
      byte_parts [OF of_char_byte [of z]] div_mult_mod_eq mod_div_mult_eq add.assoc [symmetric])
qed simp

text \<open>Decoding inverts encoding, also when the encoded text is folded into lines.\<close>

lemma base64Decode_folded:
  assumes "filter (\<lambda>c. c \<noteq> CHR 0x0A \<and> c \<noteq> CHR 0x0D) t = b64Encode s"
  shows "base64Decode t = Some s"
  by (simp add: base64Decode_def assms b64Groups_b64Encode)

lemma base64Decode_b64Encode: "base64Decode (b64Encode s) = Some s"
proof (rule base64Decode_folded)
  show "filter (\<lambda>c. c \<noteq> CHR 0x0A \<and> c \<noteq> CHR 0x0D) (b64Encode s) = b64Encode s"
    using b64Encode_plain [of s] by (simp add: filter_id_conv list_all_iff)
qed

end
