(* ===== verification/Config_Resolver.thy ===== *)
theory Config_Resolver
  imports Oci_Cache Base64
begin

text \<open>
  The base-config resolver (\<open>pkg/config/resolver.go\<close>): the base configuration is a base64-encoded
  label of the distribution's image, selected by a second label, and is cached for references
  pinned by digest.  The label fetcher talks to a container registry; it is a parameter of each
  call (its answer may differ from call to call), \<open>None\<close> when no fetcher is configured.
\<close>

definition OCIDefaultConfigLabel :: string where
  "OCIDefaultConfigLabel = ''com.ogx.distribution.default-config''"

definition OCIConfigLabelPrefix :: string where
  "OCIConfigLabelPrefix = ''com.ogx.config.''"

type_synonym label_fetcher = "string \<Rightarrow> string + string gomap"

datatype resolve_error =
    EmptyImageRef
  | NoLabelFetcher string
  | FetchFailed string string
  | NoDefaultConfigLabel string
  | NoConfigLabel string string
  | BadBase64 string string

definition shouldCacheOCIConfig :: "string \<Rightarrow> bool" where
  "shouldCacheOCIConfig imageRef = containsStr imageRef ''@sha256:''"

text \<open>From the labels to the configuration.\<close>

definition configFromLabels :: "string \<Rightarrow> string gomap \<Rightarrow> resolve_error + string" where
  "configFromLabels imageRef labels =
     (case mget labels OCIDefaultConfigLabel of
        None \<Rightarrow> Inl (NoDefaultConfigLabel imageRef)
      | Some defaultConfigName \<Rightarrow>
          if defaultConfigName = [] then Inl (NoDefaultConfigLabel imageRef)
          else let configLabel = OCIConfigLabelPrefix @ defaultConfigName
               in case mget labels configLabel of
                    None \<Rightarrow> Inl (NoConfigLabel configLabel imageRef)
                  | Some labelValue \<Rightarrow>
                      if labelValue = [] then Inl (NoConfigLabel configLabel imageRef)
                      else (case base64Decode labelValue of
                              None \<Rightarrow> Inl (BadBase64 configLabel imageRef)
                            | Some data \<Rightarrow> Inr data))"

text \<open>The part after the cache lookup: fetch, decode, and store when the reference is pinned.\<close>

definition fetchAndCache ::
  "label_fetcher \<Rightarrow> string \<Rightarrow> ociConfigCache \<Rightarrow> (ociConfigCache \<times> (resolve_error + string)) option" where
  "fetchAndCache fetch imageRef c =
     (case fetch imageRef of
        Inl err \<Rightarrow> Some (c, Inl (FetchFailed imageRef err))
      | Inr labels \<Rightarrow>
          (case configFromLabels imageRef labels of
             Inl e \<Rightarrow> Some (c, Inl e)
           | Inr data \<Rightarrow>
               if shouldCacheOCIConfig imageRef
               then (case cacheSet imageRef data c of None \<Rightarrow> None | Some c' \<Rightarrow> Some (c', Inr data))
               else Some (c, Inr data)))"

definition resolveFromOCI ::
  "label_fetcher \<Rightarrow> string \<Rightarrow> ociConfigCache \<Rightarrow> (ociConfigCache \<times> (resolve_error + string)) option" where
  "resolveFromOCI fetch imageRef c =
     (if shouldCacheOCIConfig imageRef
      then (case cacheGet imageRef c of
              None \<Rightarrow> None
            | Some (c', Some data) \<Rightarrow> Some (c', Inr data)
            | Some (c', None) \<Rightarrow> fetchAndCache fetch imageRef c')
      else fetchAndCache fetch imageRef c)"

definition Resolve ::
  "label_fetcher option \<Rightarrow> string \<Rightarrow> ociConfigCache \<Rightarrow> (ociConfigCache \<times> (resolve_error + string)) option" where
  "Resolve labelFetcher imageRef c =
     (if imageRef = [] then Some (c, Inl EmptyImageRef)
      else case labelFetcher of
             None \<Rightarrow> Some (c, Inl (NoLabelFetcher imageRef))
           | Some fetch \<Rightarrow> resolveFromOCI fetch imageRef c)"

text \<open>What a resolver without a cache would answer.\<close>

definition resolveUncached :: "label_fetcher \<Rightarrow> string \<Rightarrow> resolve_error + string" where
  "resolveUncached fetch imageRef =
     (case fetch imageRef of Inl err \<Rightarrow> Inl (FetchFailed imageRef err)
      | Inr labels \<Rightarrow> configFromLabels imageRef labels)"

section \<open>Runs of the resolver\<close>

text \<open>A run is a sequence of calls, each with the registry as it is at that time.\<close>

fun resolverRun ::
  "(label_fetcher \<times> string) list \<Rightarrow> ociConfigCache
   \<Rightarrow> (ociConfigCache \<times> (resolve_error + string) list) option" where
  "resolverRun [] c = Some (c, [])"
| "resolverRun ((fetch, ref) # calls) c =
     (case Resolve (Some fetch) ref c of
        None \<Rightarrow> None
      | Some (c', r) \<Rightarrow>
          (case resolverRun calls c' of None \<Rightarrow> None | Some (c'', rs) \<Rightarrow> Some (c'', r # rs)))"

text \<open>A digest names its content: every successful fetch of a pinned reference returns the same labels.\<close>

definition digestsImmutable :: "(string \<Rightarrow> string gomap) \<Rightarrow> (label_fetcher \<times> string) list \<Rightarrow> bool" where
  "digestsImmutable content calls \<longleftrightarrow>
     (\<forall>(fetch, ref) \<in> set calls. \<forall>labels. shouldCacheOCIConfig ref \<longrightarrow> fetch ref = Inr labels \<longrightarrow> labels = content ref)"

definition goodAnswer :: "(string \<Rightarrow> string gomap) \<Rightarrow> label_fetcher \<times> string \<Rightarrow> resolve_error + string \<Rightarrow> bool" where
  "goodAnswer content call r \<longleftrightarrow>
     (case call of (fetch, ref) \<Rightarrow>
        if ref = [] then r = Inl EmptyImageRef
        else r = resolveUncached fetch ref
           \<or> (shouldCacheOCIConfig ref \<and> (\<exists>d. r = Inr d \<and> configFromLabels ref (content ref) = Inr d)))"

abbreviation pinnedOnly :: "(string \<Rightarrow> string gomap) \<Rightarrow> string \<Rightarrow> string \<Rightarrow> bool" where
  "pinnedOnly content k d \<equiv> shouldCacheOCIConfig k \<and> configFromLabels k (content k) = Inr d"

lemma fetchAndCache_good:
  assumes "oci.only (pinnedOnly content) c"
    and "\<And>labels. shouldCacheOCIConfig ref \<Longrightarrow> fetch ref = Inr labels \<Longrightarrow> labels = content ref"
  shows "\<exists>c' . fetchAndCache fetch ref c = Some (c', resolveUncached fetch ref) \<and> oci.only (pinnedOnly content) c'"
proof (cases "fetch ref")
  case (Inl err)
  with assms show ?thesis by (simp add: fetchAndCache_def resolveUncached_def)
next
  case (Inr labels)
  show ?thesis
  proof (cases "configFromLabels ref labels")
    case (Inl e)
    with Inr assms show ?thesis by (simp add: fetchAndCache_def resolveUncached_def)
  next
    case d: (Inr d)
    show ?thesis
    proof (cases "shouldCacheOCIConfig ref")
      case True
      then have P: "pinnedOnly content ref d" using assms(2) Inr d by metis
      obtain c' where c': "cacheSet ref d c = Some c'" using oci.ops_total(2) [OF assms(1)] by blast
      from oci.store_only(1) [OF assms(1) P c'] have "oci.only (pinnedOnly content) c'" .
      with True Inr d c' show ?thesis by (simp add: fetchAndCache_def resolveUncached_def)
    next
      case False
      with Inr d assms(1) show ?thesis by (simp add: fetchAndCache_def resolveUncached_def)
    qed
  qed
qed

lemma Resolve_good:
  assumes "oci.only (pinnedOnly content) c"
    and "\<And>labels. shouldCacheOCIConfig ref \<Longrightarrow> fetch ref = Inr labels \<Longrightarrow> labels = content ref"
  shows "\<exists>c' r. Resolve (Some fetch) ref c = Some (c', r) \<and> goodAnswer content (fetch, ref) r
     \<and> oci.only (pinnedOnly content) c'"
proof (cases "ref = [] \<or> \<not> shouldCacheOCIConfig ref")
  case True
  then show ?thesis
    using fetchAndCache_good [OF assms] assms(1)
    by (auto simp: Resolve_def resolveFromOCI_def goodAnswer_def)
next
  case False
  obtain c1 r1 where g: "cacheGet ref c = Some (c1, r1)"
    using oci.ops_total(1) [OF assms(1), of ref] by auto
  note c1 = oci.get_only [OF assms(1) g]
  show ?thesis
  proof (cases r1)
    case (Some d)
    then have "configFromLabels ref (content ref) = Inr d" using c1(2) assms(1) by (simp add: oci.only_def)
    with False g Some c1(1) show ?thesis by (auto simp: Resolve_def resolveFromOCI_def goodAnswer_def)
  next
    case None
    have "\<exists>c'. fetchAndCache fetch ref c1 = Some (c', resolveUncached fetch ref) \<and> oci.only (pinnedOnly content) c'"
      using c1(1) assms(2) by (rule fetchAndCache_good)
    with False g None show ?thesis
      by (auto simp: Resolve_def resolveFromOCI_def goodAnswer_def)
  qed
qed

lemma resolverRun_good:
  assumes "oci.only (pinnedOnly content) c" "digestsImmutable content calls"
  shows "\<exists>c' rs. resolverRun calls c = Some (c', rs) \<and> list_all2 (goodAnswer content) calls rs"
  using assms
proof (induction calls arbitrary: c)
  case (Cons call calls)
  obtain fetch ref where call: "call = (fetch, ref)" by force
  have "\<And>labels. shouldCacheOCIConfig ref \<Longrightarrow> fetch ref = Inr labels \<Longrightarrow> labels = content ref"
    using Cons.prems(2) by (auto simp: digestsImmutable_def call)
  then obtain c1 r where r: "Resolve (Some fetch) ref c = Some (c1, r)" "goodAnswer content (fetch, ref) r"
    "oci.only (pinnedOnly content) c1"
    using Resolve_good [OF Cons.prems(1)] by blast
  moreover have "digestsImmutable content calls" using Cons.prems(2) by (simp add: digestsImmutable_def)
  ultimately show ?case using Cons.IH [OF r(3)] by (auto simp: call)
qed simp

lemma new_only: "oci.only P newOCIConfigCache"
  using cacheInv_new by (simp add: oci.only_def cacheLookup_def absCache_def) (simp add: newOCIConfigCache_def)

section \<open>Properties\<close>


definition exLabels :: "string gomap" where
  "exLabels = [(''com.ogx.config.run.yaml'', b64Encode ''version: 2''),
               (''com.ogx.distribution.default-config'', ''run.yaml'')]"

text \<open>A registry that answers, then is unreachable.\<close>

definition exCalls :: "(label_fetcher \<times> string) list" where
  "exCalls = [((\<lambda>_. Inr exLabels), ''quay.io/ogx@sha256:abc''), ((\<lambda>_. Inl ''timeout''), ''quay.io/ogx@sha256:abc''),
              ((\<lambda>_. Inl ''timeout''), ''quay.io/ogx:latest'')]"


text \<open>
  A published configuration is found: when the image's labels name a default configuration and
  hold its base64 text (as any RFC 4648 encoder writes it), resolution with an empty cache returns
  exactly the published bytes, and a second resolution of the same pinned reference returns them
  again whatever the registry then does.
\<close>

theorem published_config_is_resolved:
  assumes "ref \<noteq> []" and "fetch ref = Inr labels" and "name \<noteq> []" and "config \<noteq> []"
    and "mget labels OCIDefaultConfigLabel = Some name"
    and "mget labels (OCIConfigLabelPrefix @ name) = Some (b64Encode config)"
  shows "\<exists>c. Resolve (Some fetch) ref newOCIConfigCache = Some (c, Inr config)
     \<and> (shouldCacheOCIConfig ref \<longrightarrow> (\<exists>c'. Resolve (Some fetch') ref c = Some (c', Inr config)))"
proof -
  have ne: "b64Encode config \<noteq> []" using assms(4) by (cases config rule: b64Encode.cases) (auto simp: Let_def)
  have cfg: "configFromLabels ref labels = Inr config"
    using assms(3,5,6) ne by (simp add: configFromLabels_def Let_def base64Decode_b64Encode)
  show ?thesis
  proof (cases "shouldCacheOCIConfig ref")
    case False
    with assms(1,2) cfg show ?thesis by (simp add: Resolve_def resolveFromOCI_def fetchAndCache_def)
  next
    case True
    have g: "cacheGet ref newOCIConfigCache = Some (newOCIConfigCache, None)"
      by (simp add: cacheGet_def newOCIConfigCache_def)
    obtain c where c: "cacheSet ref config newOCIConfigCache = Some c"
      using oci.ops_total(2) [OF new_only] by blast
    have "oci.only (\<lambda>k d. True) c" "cacheLookup c ref = Some config"
      using oci.store_only [OF new_only _ c, where P = "\<lambda>k d. True"] by simp_all
    then obtain c' where "cacheGet ref c = Some (c', Some config)"
      using oci.get_law [of c ref] by (auto simp: oci.only_def)
    with True g c assms(1,2) cfg show ?thesis
      by (simp add: Resolve_def resolveFromOCI_def fetchAndCache_def)
  qed
qed

theorem published_config_is_resolved_witness:
  "\<exists>c c'. Resolve (Some (\<lambda>_. Inr exLabels)) ''quay.io/ogx@sha256:abc'' newOCIConfigCache = Some (c, Inr ''version: 2'')
     \<and> Resolve (Some (\<lambda>_. Inl ''timeout'')) ''quay.io/ogx@sha256:abc'' c = Some (c', Inr ''version: 2'')"
proof -
  have "mget exLabels OCIDefaultConfigLabel = Some ''run.yaml''" by code_simp
  moreover have "mget exLabels (OCIConfigLabelPrefix @ ''run.yaml'') = Some (b64Encode ''version: 2'')" by code_simp
  moreover have "shouldCacheOCIConfig ''quay.io/ogx@sha256:abc''" by code_simp
  ultimately show ?thesis
    using published_config_is_resolved [of "''quay.io/ogx@sha256:abc''" "\<lambda>_. Inr exLabels" exLabels "''run.yaml''" "''version: 2''" "\<lambda>_. Inl ''timeout''"]
    by auto
qed

end
