(* ===== verification/Ca_Bundle.thy ===== *)
theory Ca_Bundle
  imports Network_Policy Go_Quote
begin

text \<open>
  The managed CA bundle (\<open>controllers/ogxserver_controller.go\<close>): collecting certificates from
  ConfigMaps, the limits on their number and size, and the ConfigMap that carries them.  PEM and
  X.509 are the fields of \<open>PemLib\<close>; \<open>order\<close> is the order in which Go iterates over the keys of a
  map, which the language leaves open.
\<close>

section \<open>Extracting certificates\<close>

record PemBlock =
  pb_Type :: string
  pb_Headers :: "(string \<times> string) list"
  pb_Bytes :: string

text \<open>
  \<open>pl_Decode\<close> is \<open>pem.Decode\<close> (the next block and the rest, or none), \<open>pl_Encode\<close> is
  \<open>pem.EncodeToMemory\<close>, \<open>pl_ParseError\<close> the error of \<open>x509.ParseCertificate\<close>.
\<close>

record PemLib =
  pl_Decode :: "string \<Rightarrow> (PemBlock \<times> string) option"
  pl_Encode :: "PemBlock \<Rightarrow> string option"
  pl_ParseError :: "string \<Rightarrow> string option"

datatype ca_error = CaError string | CaDiverges

text \<open>\<open>unicode.IsSpace\<close>, and whether \<open>bytes.TrimSpace\<close> leaves nothing.\<close>

definition isSpaceRune :: "nat \<Rightarrow> bool" where
  "isSpaceRune r \<longleftrightarrow> (9 \<le> r \<and> r \<le> 13) \<or> r = 32 \<or> r = 133 \<or> r = 160 \<or> r = 5760 \<or> (8192 \<le> r \<and> r \<le> 8202)
     \<or> r = 8232 \<or> r = 8233 \<or> r = 8239 \<or> r = 8287 \<or> r = 12288"

function allSpace :: "string \<Rightarrow> bool" where
  "allSpace s =
     (if s = [] then True
      else case decodeRune (map of_char s) of
             None \<Rightarrow> False
           | Some (r, w) \<Rightarrow> isSpaceRune r \<and> allSpace (drop w s))"
  by pat_completeness auto
termination by (relation "measure length") (auto dest!: decodeRune_width)

declare allSpace.simps [simp del]

text \<open>
  The loop of \<open>extractValidCertificates\<close>; without fuel left it has not ended.
\<close>

fun extractLoop ::
    "PemLib \<Rightarrow> string \<Rightarrow> nat \<Rightarrow> string \<Rightarrow> string list \<Rightarrow> int \<Rightarrow> ca_error + string list \<times> int" where
  "extractLoop pl keyName 0 remaining certificates totalSize = Inl CaDiverges"
| "extractLoop pl keyName (Suc n) remaining certificates totalSize =
     (case pl_Decode pl remaining of
        None \<Rightarrow> Inr (certificates, totalSize)
      | Some (block, rest) \<Rightarrow>
          if pb_Type block \<noteq> ''CERTIFICATE'' then extractLoop pl keyName n rest certificates totalSize
          else case pl_ParseError pl (pb_Bytes block) of
                 Some e \<Rightarrow> Inl (CaError (''failed to parse X.509 certificate from key '' @ [CHR 0x27] @ keyName @ [CHR 0x27] @ '': '' @ e))
               | None \<Rightarrow>
                   (case pl_Encode pl block of
                      None \<Rightarrow> Inl (CaError (''failed to encode certificate from key '' @ [CHR 0x27] @ keyName @ [CHR 0x27]))
                    | Some certPEM \<Rightarrow>
                        extractLoop pl keyName n rest (certificates @ [certPEM]) (totalSize + int (length certPEM))))"

definition extractValidCertificates :: "PemLib \<Rightarrow> string \<Rightarrow> string \<Rightarrow> ca_error + string list \<times> int \<times> int" where
  "extractValidCertificates pl data keyName =
     (if allSpace data then Inr ([], 0, 0)
      else ebind (extractLoop pl keyName (Suc (length data)) data [] 0) (\<lambda>(certificates, totalSize).
        if certificates = []
        then Inl (CaError (''failed to find valid certificates in CA bundle key '' @ [CHR 0x27] @ keyName @ [CHR 0x27]))
        else Inr (certificates, totalSize, int (length certificates))))"

section \<open>Collecting\<close>

definition MaxCABundleSize :: int where
  "MaxCABundleSize = 10 * 1024 * 1024"

definition MaxCABundleCertificates :: int where
  "MaxCABundleCertificates = 1000"

record certificateCollector =
  col_certificates :: "string list"
  col_totalSize :: int
  col_certificateCount :: int

definition collectorAdd ::
    "string list \<Rightarrow> int \<Rightarrow> int \<Rightarrow> certificateCollector \<Rightarrow> ca_error + certificateCollector" where
  "collectorAdd certs sz cnt c =
     (let total = col_totalSize c + sz; n = col_certificateCount c + cnt
      in if total > MaxCABundleSize
         then Inl (CaError (''failed to process CA bundle: total size exceeds maximum allowed size of ''
                     @ showInt MaxCABundleSize @ '' bytes''))
         else if n > MaxCABundleCertificates
         then Inl (CaError (''failed to process CA bundle: contains more than '' @ showInt MaxCABundleCertificates
                     @ '' certificates (maximum allowed)''))
         else Inr \<lparr>col_certificates = col_certificates c @ certs, col_totalSize = total, col_certificateCount = n\<rparr>)"

fun joinLines :: "string list \<Rightarrow> string" where
  "joinLines [] = []"
| "joinLines [c] = c"
| "joinLines (c # d # cs) = c @ [CHR 10] @ joinLines (d # cs)"

definition collectorConcatenate :: "certificateCollector \<Rightarrow> ca_error + string" where
  "collectorConcatenate c =
     (if col_certificates c = [] then Inl (CaError ''failed to find valid certificates in CA bundle ConfigMaps'')
      else Inr (joinLines (col_certificates c)))"

fun processConfigMapKeys ::
    "PemLib \<Rightarrow> ConfigMap \<Rightarrow> string list \<Rightarrow> string \<Rightarrow> string \<Rightarrow> certificateCollector \<Rightarrow> ca_error + certificateCollector" where
  "processConfigMapKeys pl cm [] ns name c = Inr c"
| "processConfigMapKeys pl cm (key # keys) ns name c =
     (case mget (cm_Data cm) key of
        None \<Rightarrow> Inl (CaError (''failed to find CA bundle key '' @ [CHR 0x27] @ key @ [CHR 0x27] @ '' in ConfigMap '' @ ns @ ''/'' @ name))
      | Some data \<Rightarrow>
          (case extractValidCertificates pl data key of
             Inl CaDiverges \<Rightarrow> Inl CaDiverges
           | Inl (CaError e) \<Rightarrow> Inl (CaError (''failed to process CA bundle key '' @ [CHR 0x27] @ key @ [CHR 0x27]
                                   @ '' from ConfigMap '' @ ns @ ''/'' @ name @ '': '' @ e))
           | Inr (certs, sz, cnt) \<Rightarrow>
               ebind (collectorAdd certs sz cnt c) (processConfigMapKeys pl cm keys ns name)))"

fun processODHConfigMapKeys ::
    "PemLib \<Rightarrow> ConfigMap \<Rightarrow> string list \<Rightarrow> certificateCollector \<Rightarrow> ca_error + certificateCollector" where
  "processODHConfigMapKeys pl cm [] c = Inr c"
| "processODHConfigMapKeys pl cm (key # keys) c =
     (case mget (cm_Data cm) key of
        None \<Rightarrow> processODHConfigMapKeys pl cm keys c
      | Some data \<Rightarrow>
          (case extractValidCertificates pl data key of
             Inl CaDiverges \<Rightarrow> Inl CaDiverges
           | Inl (CaError e) \<Rightarrow> processODHConfigMapKeys pl cm keys c
           | Inr (certs, sz, cnt) \<Rightarrow>
               ebind (collectorAdd certs sz cnt c) (processODHConfigMapKeys pl cm keys)))"

definition caCertificates :: "OGXServer \<Rightarrow> ConfigMapKeyRef list" where
  "caCertificates inst =
     (case spec_TLS (srv_Spec inst) of None \<Rightarrow> []
      | Some t \<Rightarrow> (case tlscl_Trust t of None \<Rightarrow> [] | Some tr \<Rightarrow> trust_CACertificates tr))"

definition hasCACertificates :: "OGXServer \<Rightarrow> bool" where
  "hasCACertificates inst \<longleftrightarrow> caCertificates inst \<noteq> []"

fun explicitLoop ::
    "PemLib \<Rightarrow> 'w OGXServerReconciler \<Rightarrow> 'w \<Rightarrow> string \<Rightarrow> ConfigMapKeyRef list \<Rightarrow> certificateCollector
       \<Rightarrow> ca_error + certificateCollector" where
  "explicitLoop pl r w ns [] c = Inr c"
| "explicitLoop pl r w ns (ref # refs) c =
     (case kb_GetConfigMap (rc_Kube r) w ns (cmkr_Name ref) of
        Inl e \<Rightarrow> Inl (CaError (''failed to get CA certificate ConfigMap '' @ ns @ ''/'' @ cmkr_Name ref @ '': '' @ apiText e))
      | Inr cm \<Rightarrow>
          ebind (processConfigMapKeys pl cm [cmkr_Key ref] ns (cmkr_Name ref) c) (explicitLoop pl r w ns refs))"

definition gatherExplicitCABundle ::
    "PemLib \<Rightarrow> 'w OGXServerReconciler \<Rightarrow> 'w \<Rightarrow> OGXServer \<Rightarrow> certificateCollector \<Rightarrow> ca_error + certificateCollector" where
  "gatherExplicitCABundle pl r w inst c =
     (if \<not> hasCACertificates inst then Inr c
      else explicitLoop pl r w (meta_Namespace (srv_ObjectMeta inst)) (caCertificates inst) c)"

definition gatherODHCABundle ::
    "PemLib \<Rightarrow> (string list \<Rightarrow> string list) \<Rightarrow> 'w OGXServerReconciler \<Rightarrow> 'w \<Rightarrow> OGXServer \<Rightarrow> certificateCollector
       \<Rightarrow> ca_error + certificateCollector" where
  "gatherODHCABundle pl order r w inst c =
     (case detectODHTrustedCABundle r w inst of
        Inl _ \<Rightarrow> Inr c
      | Inr None \<Rightarrow> Inr c
      | Inr (Some (cm, keys)) \<Rightarrow> if keys = [] then Inr c else processODHConfigMapKeys pl cm (order keys) c)"

definition gatherCABundleData ::
    "PemLib \<Rightarrow> (string list \<Rightarrow> string list) \<Rightarrow> 'w OGXServerReconciler \<Rightarrow> 'w \<Rightarrow> OGXServer \<Rightarrow> ca_error + string" where
  "gatherCABundleData pl order r w inst =
     ebind (gatherExplicitCABundle pl r w inst
       \<lparr>col_certificates = [], col_totalSize = 0, col_certificateCount = 0\<rparr>) (\<lambda>c.
     ebind (gatherODHCABundle pl order r w inst c) collectorConcatenate)"

section \<open>The managed ConfigMap\<close>

text \<open>A ConfigMap with its metadata, as the reconciler writes it, and the operations on them.\<close>

record ConfigMapObject =
  cmo_ObjectMeta :: ObjectMeta
  cmo_CreationTimestamp :: int
  cmo_Immutable :: bool
  cmo_Data :: "string gomap"

record 'w ConfigMapAPI =
  ca_Get :: "'w \<Rightarrow> string \<Rightarrow> string \<Rightarrow> api_error + ConfigMapObject"
  ca_List :: "'w \<Rightarrow> string \<Rightarrow> string gomap \<Rightarrow> api_error + ConfigMapObject list"
  ca_Create :: "'w \<Rightarrow> ConfigMapObject \<Rightarrow> api_error option \<times> 'w"
  ca_Patch :: "'w \<Rightarrow> ConfigMapObject \<Rightarrow> ConfigMapObject \<Rightarrow> api_error option \<times> 'w"
  ca_Delete :: "'w \<Rightarrow> ConfigMapObject \<Rightarrow> api_error option \<times> 'w"
  ca_SetControllerReference :: "ObjectMeta \<Rightarrow> ConfigMapObject \<Rightarrow> string + ConfigMapObject"
  ca_IsConflict :: "api_error \<Rightarrow> bool"

definition newConfigMap :: "OGXServer \<Rightarrow> string \<Rightarrow> (string \<times> string) list \<Rightarrow> bool \<Rightarrow> string gomap \<Rightarrow> ConfigMapObject" where
  "newConfigMap inst name extra immutable data =
     \<lparr>cmo_ObjectMeta = \<lparr>meta_Name = name, meta_Namespace = meta_Namespace (srv_ObjectMeta inst), meta_UID = [],
        meta_Generation = 0, meta_ResourceVersion = [],
        meta_Labels = mlit ([(''app.kubernetes.io/managed-by'', ''ogx-operator''),
                             (''app.kubernetes.io/instance'', meta_Name (srv_ObjectMeta inst)),
                             (''ogx.io/watch'', ''true'')] @ extra),
        meta_Annotations = mempty, meta_OwnerReferences = [], meta_DeletionTimestamp = None\<rparr>,
      cmo_CreationTimestamp = 0, cmo_Immutable = immutable, cmo_Data = data\<rparr>"

definition caText :: "ca_error \<Rightarrow> string" where
  "caText e = (case e of CaError t \<Rightarrow> t | CaDiverges \<Rightarrow> [])"

definition reconcileManagedCABundleConfigMap ::
    "PemLib \<Rightarrow> (string list \<Rightarrow> string list) \<Rightarrow> 'w OGXServerReconciler \<Rightarrow> 'w ConfigMapAPI \<Rightarrow> 'w Pass \<Rightarrow> ca_error option \<times> 'w Pass" where
  "reconcileManagedCABundleConfigMap pl order r api p =
     (let inst = ps_Instance p; name = getManagedCABundleConfigMapName inst in
      case gatherCABundleData pl order r (ps_World p) inst of
        Inl CaDiverges \<Rightarrow> (Some CaDiverges, p)
      | Inl (CaError e) \<Rightarrow> (Some (CaError (''failed to gather CA bundle data: '' @ e)), p)
      | Inr caBundleData \<Rightarrow>
          (case ca_Get api (ps_World p) (meta_Namespace (srv_ObjectMeta inst)) name of
             Inr existing \<Rightarrow>
               (case ca_SetControllerReference api (srv_ObjectMeta inst)
                       (newConfigMap inst name [(''app.kubernetes.io/component'', ''ca-bundle'')] False
                          (mlit [(ManagedCABundleKey, caBundleData)])) of
                  Inl e \<Rightarrow> (Some (CaError (''failed to set controller reference on managed CA bundle ConfigMap: '' @ e)), p)
                | Inr desired \<Rightarrow>
                    if mget (cmo_Data existing) ManagedCABundleKey \<noteq> Some caBundleData
                       \<and> \<not> (mget (cmo_Data existing) ManagedCABundleKey = None \<and> caBundleData = [])
                    then (case ca_Patch api (ps_World p) existing
                            (existing\<lparr>cmo_Data := cmo_Data desired,
                               cmo_ObjectMeta := (cmo_ObjectMeta existing)\<lparr>meta_Labels := meta_Labels (cmo_ObjectMeta desired)\<rparr>\<rparr>) of
                            (None, w) \<Rightarrow> (None, p\<lparr>ps_World := w\<rparr>)
                          | (Some e, w) \<Rightarrow>
                              (Some (CaError ((if ca_IsConflict api e then ''failed to patch managed CA bundle ConfigMap (conflict): ''
                                 else ''failed to patch managed CA bundle ConfigMap: '') @ apiText e)), p\<lparr>ps_World := w\<rparr>))
                    else (None, p))
           | Inl (NotFound _) \<Rightarrow>
               (case ca_SetControllerReference api (srv_ObjectMeta inst)
                       (newConfigMap inst name [(''app.kubernetes.io/component'', ''ca-bundle'')] False
                          (mlit [(ManagedCABundleKey, caBundleData)])) of
                  Inl e \<Rightarrow> (Some (CaError (''failed to set controller reference on managed CA bundle ConfigMap: '' @ e)), p)
                | Inr desired \<Rightarrow>
                    (case ca_Create api (ps_World p) desired of
                       (None, w) \<Rightarrow> (None, p\<lparr>ps_World := w\<rparr>)
                     | (Some e, w) \<Rightarrow> (Some (CaError (''failed to create managed CA bundle ConfigMap: '' @ apiText e)), p\<lparr>ps_World := w\<rparr>)))
           | Inl e \<Rightarrow> (Some (CaError (''failed to get managed CA bundle ConfigMap: '' @ apiText e)), p)))"

definition hasODHTrustedCABundle :: "'w OGXServerReconciler \<Rightarrow> 'w \<Rightarrow> OGXServer \<Rightarrow> bool" where
  "hasODHTrustedCABundle r w inst =
     (case detectODHTrustedCABundle r w inst of Inr (Some (_, keys)) \<Rightarrow> keys \<noteq> [] | _ \<Rightarrow> False)"

definition reconcileManagedCABundle ::
    "PemLib \<Rightarrow> (string list \<Rightarrow> string list) \<Rightarrow> 'w OGXServerReconciler \<Rightarrow> 'w ConfigMapAPI \<Rightarrow> 'w Pass \<Rightarrow> ca_error option \<times> 'w Pass" where
  "reconcileManagedCABundle pl order r api p =
     (let inst = ps_Instance p; name = getManagedCABundleConfigMapName inst in
      if \<not> hasCACertificates inst \<and> \<not> hasODHTrustedCABundle r (ps_World p) inst then
        (case ca_Get api (ps_World p) (meta_Namespace (srv_ObjectMeta inst)) name of
           Inr existing \<Rightarrow>
             (case ca_Delete api (ps_World p) existing of
                (None, w) \<Rightarrow> (None, p\<lparr>ps_World := w\<rparr>)
              | (Some (NotFound _), w) \<Rightarrow> (None, p\<lparr>ps_World := w\<rparr>)
              | (Some e, w) \<Rightarrow> (Some (CaError (''failed to delete unused managed CA bundle ConfigMap: '' @ apiText e)), p\<lparr>ps_World := w\<rparr>))
         | Inl (NotFound _) \<Rightarrow> (None, p)
         | Inl e \<Rightarrow> (Some (CaError (''failed to check for managed CA bundle ConfigMap: '' @ apiText e)), p))
      else case reconcileManagedCABundleConfigMap pl order r api p of
             (Some CaDiverges, p') \<Rightarrow> (Some CaDiverges, p')
           | (Some (CaError e), p') \<Rightarrow> (Some (CaError (''failed to reconcile managed CA bundle ConfigMap: '' @ e)), p')
           | (None, p') \<Rightarrow> (None, p'))"

definition getCABundleConfigMapHash :: "'w OGXServerReconciler \<Rightarrow> 'w ConfigMapAPI \<Rightarrow> 'w \<Rightarrow> OGXServer \<Rightarrow> string + string" where
  "getCABundleConfigMapHash r api w inst =
     (if \<not> hasCACertificates inst \<and> \<not> hasODHTrustedCABundle r w inst then Inr []
      else case ca_Get api w (meta_Namespace (srv_ObjectMeta inst)) (getManagedCABundleConfigMapName inst) of
             Inl (NotFound _) \<Rightarrow> Inr []
           | Inl e \<Rightarrow> Inl (apiText e)
           | Inr cm \<Rightarrow> Inr (meta_ResourceVersion (cmo_ObjectMeta cm) @ ''-'' @ meta_Name (cmo_ObjectMeta cm)))"

definition resolveCABundleHash :: "'w OGXServerReconciler \<Rightarrow> 'w ConfigMapAPI \<Rightarrow> 'w \<Rightarrow> OGXServer \<Rightarrow> string + string" where
  "resolveCABundleHash r api w inst =
     (if hasCACertificates inst then getCABundleConfigMapHash r api w inst else Inr [])"

fun caBundleLoop :: "'w OGXServerReconciler \<Rightarrow> 'w \<Rightarrow> string \<Rightarrow> ConfigMapKeyRef list \<Rightarrow> string option" where
  "caBundleLoop r w ns [] = None"
| "caBundleLoop r w ns (ref # refs) =
     (case kb_GetConfigMap (rc_Kube r) w ns (cmkr_Name ref) of
        Inl (NotFound _) \<Rightarrow> Some (''failed to find referenced CA certificate ConfigMap '' @ ns @ ''/'' @ cmkr_Name ref)
      | Inl e \<Rightarrow> Some (''failed to fetch CA certificate ConfigMap '' @ ns @ ''/'' @ cmkr_Name ref @ '': '' @ apiText e)
      | Inr cm \<Rightarrow>
          if mget (cm_Data cm) (cmkr_Key ref) = None
          then Some (''failed to find CA certificate key '' @ [CHR 0x27] @ cmkr_Key ref @ [CHR 0x27] @ '' in ConfigMap '' @ ns @ ''/'' @ cmkr_Name ref)
          else caBundleLoop r w ns refs)"

definition reconcileCABundleConfigMap :: "'w OGXServerReconciler \<Rightarrow> 'w \<Rightarrow> OGXServer \<Rightarrow> string option" where
  "reconcileCABundleConfigMap r w inst =
     (if \<not> hasCACertificates inst then None
      else caBundleLoop r w (meta_Namespace (srv_ObjectMeta inst)) (caCertificates inst))"

section \<open>What a bundle holds\<close>

text \<open>\<open>pem.Decode\<close> returns a proper rest of its input, so the loop ends.\<close>

definition pemConsumes :: "PemLib \<Rightarrow> bool" where
  "pemConsumes pl \<longleftrightarrow> (\<forall>s b rest. pl_Decode pl s = Some (b, rest) \<longrightarrow> length rest < length s)"

definition cleanCert :: "PemLib \<Rightarrow> string \<Rightarrow> bool" where
  "cleanCert pl c \<longleftrightarrow>
     (\<exists>b. pb_Type b = ''CERTIFICATE'' \<and> pl_ParseError pl (pb_Bytes b) = None \<and> pl_Encode pl b = Some c)"

definition totalLength :: "string list \<Rightarrow> int" where
  "totalLength cs = sum_list (map (\<lambda>c. int (length c)) cs)"

lemma totalLength_simps [simp]:
  "totalLength [] = 0" "totalLength (c # cs) = int (length c) + totalLength cs"
  "totalLength (xs @ ys) = totalLength xs + totalLength ys"
  by (simp_all add: totalLength_def)

lemma extractLoop_clean:
  "extractLoop pl k n rem certs sz = Inr (certs', sz') \<Longrightarrow> list_all (cleanCert pl) certs \<Longrightarrow> sz = totalLength certs \<Longrightarrow>
     list_all (cleanCert pl) certs' \<and> sz' = totalLength certs'"
proof (induction pl k n rem certs sz rule: extractLoop.induct)
  case (2 pl k n rem certs sz)
  show ?case
  proof (cases "pl_Decode pl rem")
    case None
    then show ?thesis using 2(3-) by auto
  next
    case (Some br)
    obtain b rest where br: "br = (b, rest)" by force
    show ?thesis
    proof (cases "pb_Type b = ''CERTIFICATE''")
      case True
      then obtain pem where pem: "pl_ParseError pl (pb_Bytes b) = None" "pl_Encode pl b = Some pem"
        "extractLoop pl k n rest (certs @ [pem]) (sz + int (length pem)) = Inr (certs', sz')"
        using 2(3) Some br by (auto split: option.splits)
      moreover have "cleanCert pl pem" using True pem by (auto simp: cleanCert_def)
      ultimately show ?thesis using 2(2) [OF Some, of b rest] br True 2(4,5) by simp
    next
      case False
      then show ?thesis using 2(1) [OF Some, of b rest] br Some 2(3-) by simp
    qed
  qed
qed simp

lemma extractLoop_ends: "pemConsumes pl \<Longrightarrow> length rem < n \<Longrightarrow> extractLoop pl k n rem certs sz \<noteq> Inl CaDiverges"
proof (induction pl k n rem certs sz rule: extractLoop.induct)
  case (2 pl k n rem certs sz)
  have "pl_Decode pl rem = Some (b, rest) \<Longrightarrow> length rest < n" for b rest
    using 2(3,4) by (fastforce simp: pemConsumes_def)
  then show ?case using 2(1,2,3) by (auto split: option.splits)
qed simp

definition collectorInv :: "PemLib \<Rightarrow> certificateCollector \<Rightarrow> bool" where
  "collectorInv pl c \<longleftrightarrow> list_all (cleanCert pl) (col_certificates c) \<and> col_totalSize c = totalLength (col_certificates c)
     \<and> col_certificateCount c = int (length (col_certificates c))
     \<and> col_totalSize c \<le> MaxCABundleSize \<and> col_certificateCount c \<le> MaxCABundleCertificates"

text \<open>A collecting step keeps the invariant or fails, and never runs forever.\<close>

definition goodStep :: "PemLib \<Rightarrow> ca_error + certificateCollector \<Rightarrow> bool" where
  "goodStep pl r \<longleftrightarrow> (case r of Inl e \<Rightarrow> e \<noteq> CaDiverges | Inr c \<Rightarrow> collectorInv pl c)"

lemma goodStep_simps [simp]: "goodStep pl (Inr c) = collectorInv pl c" "goodStep pl (Inl (CaError e))"
  "\<not> goodStep pl (Inl CaDiverges)"
  by (simp_all add: goodStep_def)

lemma goodStep_ebind: "goodStep pl r \<Longrightarrow> (\<And>c. collectorInv pl c \<Longrightarrow> goodStep pl (f c)) \<Longrightarrow> goodStep pl (ebind r f)"
  by (cases r) (auto simp: goodStep_def)

lemma collectorAdd_good:
  "collectorInv pl c \<Longrightarrow> list_all (cleanCert pl) certs \<Longrightarrow>
   goodStep pl (collectorAdd certs (totalLength certs) (int (length certs)) c)"
  by (auto simp: collectorAdd_def collectorInv_def Let_def)

lemma extract_good:
  assumes "pemConsumes pl"
  shows "case extractValidCertificates pl data key of Inl e \<Rightarrow> e \<noteq> CaDiverges
     | Inr (certs, sz, cnt) \<Rightarrow> list_all (cleanCert pl) certs \<and> sz = totalLength certs \<and> cnt = int (length certs)"
  using extractLoop_ends [OF assms, of data "Suc (length data)" key "[]" 0]
    extractLoop_clean [of pl key "Suc (length data)" data "[]" 0]
  by (auto simp: extractValidCertificates_def ebind_def simp del: extractLoop.simps split: sum.splits)

lemma process_good:
  assumes "pemConsumes pl"
  shows "collectorInv pl c \<Longrightarrow> goodStep pl (processConfigMapKeys pl cm keys ns name c)"
    "collectorInv pl c \<Longrightarrow> goodStep pl (processODHConfigMapKeys pl cm keys c)"
proof -
  have add: "goodStep pl (ebind (collectorAdd certs sz cnt c) f)"
    if "extractValidCertificates pl data key = Inr (certs, sz, cnt)" "collectorInv pl c"
      "\<And>c. collectorInv pl c \<Longrightarrow> goodStep pl (f c)" for data key certs sz cnt f c
    using extract_good [OF assms, of data key] that collectorAdd_good by (auto intro: goodStep_ebind)
  have div: "extractValidCertificates pl data key \<noteq> Inl CaDiverges" for data key
    using extract_good [OF assms, of data key] by auto
  show "collectorInv pl c \<Longrightarrow> goodStep pl (processConfigMapKeys pl cm keys ns name c)"
    by (induction keys arbitrary: c) (auto simp: div add split: option.split sum.split ca_error.split)
  show "collectorInv pl c \<Longrightarrow> goodStep pl (processODHConfigMapKeys pl cm keys c)"
    by (induction keys arbitrary: c) (auto simp: div add split: option.split sum.split ca_error.split)
qed

lemma gather_good:
  assumes "pemConsumes pl" "collectorInv pl c"
  shows "goodStep pl (gatherExplicitCABundle pl r w inst c)" "goodStep pl (gatherODHCABundle pl order r w inst c)"
proof -
  have "collectorInv pl c \<Longrightarrow> goodStep pl (explicitLoop pl r w ns refs c)" for ns refs c
    by (induction refs arbitrary: c)
      (auto intro!: goodStep_ebind process_good(1) [OF assms(1)] simp del: processConfigMapKeys.simps split: sum.split)
  then show "goodStep pl (gatherExplicitCABundle pl r w inst c)" using assms by (simp add: gatherExplicitCABundle_def)
  show "goodStep pl (gatherODHCABundle pl order r w inst c)"
    using assms process_good(2) [OF assms(1)] by (auto simp: gatherODHCABundle_def split: sum.split option.split)
qed

lemma joinLines_length: "cs \<noteq> [] \<Longrightarrow> int (length (joinLines cs)) = totalLength cs + int (length cs) - 1"
  by (induction cs rule: joinLines.induct) auto

lemma gathered_good:
  assumes "pemConsumes pl"
  shows "goodStep pl (ebind (gatherExplicitCABundle pl r w inst \<lparr>col_certificates = [], col_totalSize = 0, col_certificateCount = 0\<rparr>)
      (gatherODHCABundle pl order r w inst))"
proof -
  have "collectorInv pl \<lparr>col_certificates = [], col_totalSize = 0, col_certificateCount = 0\<rparr>"
    by (simp add: collectorInv_def MaxCABundleSize_def MaxCABundleCertificates_def)
  then show ?thesis using gather_good [OF assms] by (intro goodStep_ebind)
qed

lemma gather_ends:
  assumes "pemConsumes pl" shows "gatherCABundleData pl order r w inst \<noteq> Inl CaDiverges"
  using gathered_good [OF assms, of r w inst order]
  by (auto simp: gatherCABundleData_def goodStep_def ebind_def collectorConcatenate_def split: sum.splits if_splits)

lemma managed_bundle_ends:
  assumes "pemConsumes pl" shows "fst (reconcileManagedCABundle pl order r api p) \<noteq> Some CaDiverges"
proof -
  have "fst (reconcileManagedCABundleConfigMap pl order r api p) \<noteq> Some CaDiverges"
    using gather_ends [OF assms, of order r "ps_World p" "ps_Instance p"]
    by (auto simp: reconcileManagedCABundleConfigMap_def Let_def
        split: sum.split ca_error.split api_error.split prod.split option.split)
  then show ?thesis
    by (auto simp: reconcileManagedCABundle_def Let_def split: sum.split ca_error.split api_error.split prod.split option.split)
qed

section \<open>Properties\<close>

text \<open>
  (C12) Collecting the CA bundle always ends, and a bundle it returns is clean and bounded: it is a
  list of re-encoded certificates, each from a block of type \<open>CERTIFICATE\<close> that X.509 accepted (so no
  private key or other text of the source ConfigMaps reaches the pods), joined by newlines, at
  most 1000 of them and at most 10 MiB in all, whatever the ConfigMaps hold and in whatever
  order their keys are visited.
\<close>

theorem ca_bundle_is_clean_and_bounded:
  assumes "pemConsumes pl"
  shows "case gatherCABundleData pl order r w inst of
      Inl e \<Rightarrow> e \<noteq> CaDiverges
    | Inr bundle \<Rightarrow> \<exists>certs. bundle = joinLines certs \<and> certs \<noteq> [] \<and> list_all (cleanCert pl) certs
        \<and> length certs \<le> 1000 \<and> totalLength certs \<le> 10485760 \<and> length bundle \<le> 10486759"
proof -
  let ?c0 = "\<lparr>col_certificates = [], col_totalSize = 0, col_certificateCount = 0\<rparr>"
  note good = gathered_good [OF assms, of r w inst order]
  have eq: "gatherCABundleData pl order r w inst
      = ebind (ebind (gatherExplicitCABundle pl r w inst ?c0) (gatherODHCABundle pl order r w inst)) collectorConcatenate"
    by (simp add: gatherCABundleData_def ebind_assoc)
  show ?thesis
  proof (cases "ebind (gatherExplicitCABundle pl r w inst ?c0) (gatherODHCABundle pl order r w inst)")
    case (Inl e)
    then show ?thesis using good eq by (simp add: goodStep_def)
  next
    case (Inr c)
    then have inv: "collectorInv pl c" using good by simp
    show ?thesis
    proof (cases "col_certificates c = []")
      case True
      then show ?thesis using eq Inr by (simp add: collectorConcatenate_def)
    next
      case False
      then show ?thesis using eq Inr inv joinLines_length [OF False]
        by (auto simp: collectorConcatenate_def collectorInv_def MaxCABundleSize_def MaxCABundleCertificates_def)
    qed
  qed
qed

section \<open>Examples\<close>

text \<open>
  A small PEM codec: a line \<open>C\<close> is a certificate block and a line \<open>K\<close> a key, each followed by a digit.
\<close>

definition exPem :: PemLib where
  "exPem = \<lparr>pl_Decode = (\<lambda>s. case s of
       t # d # rest \<Rightarrow>
         if t = CHR ''C'' then Some (\<lparr>pb_Type = ''CERTIFICATE'', pb_Headers = [], pb_Bytes = [d]\<rparr>, rest)
         else if t = CHR ''K'' then Some (\<lparr>pb_Type = ''PRIVATE KEY'', pb_Headers = [], pb_Bytes = [d]\<rparr>, rest) else None
     | _ \<Rightarrow> None),
     pl_Encode = (\<lambda>b. Some (CHR ''C'' # pb_Bytes b)), pl_ParseError = (\<lambda>bytes. None)\<rparr>"

definition exTrustedKube :: "ConfigMapObject option Kube" where
  "exTrustedKube =
     \<lparr>kb_GetSecret = (\<lambda>w ns n. Inl (NotFound n)),
      kb_GetConfigMap = (\<lambda>w ns n. if n = odhTrustedCABundleConfigMap
        then Inr \<lparr>cm_Labels = mempty, cm_Data = mlit [(''ca-bundle.crt'', ''K0C1''), (''odh-ca-bundle.crt'', ''C2'')], cm_BinaryData = mempty\<rparr>
        else Inl (NotFound n)),
      kb_GetJob = (\<lambda>w ns n. Inl (NotFound n)), kb_ReadJob = None,
      kb_DeleteJob = (\<lambda>w j. (None, w)), kb_CreateJob = (\<lambda>w j. (Inr j, w)), kb_SetControllerReference = (\<lambda>owner j. Inr j),
      kb_IsControlledBy = (\<lambda>j owner. True), kb_ParseSelector = (\<lambda>s. None), kb_ListPods = (\<lambda>w ns s. Inr []),
      kb_IsPrint = (\<lambda>_. True)\<rparr>"

definition exTrusted :: "ConfigMapObject option OGXServerReconciler" where
  "exTrusted = \<lparr>rc_Kube = exTrustedKube, rc_HasRecorder = False, rc_DistributionImages = mempty, rc_ImageMappingOverrides = mempty\<rparr>"

definition exManagedAPI :: "ConfigMapObject option ConfigMapAPI" where
  "exManagedAPI =
     \<lparr>ca_Get = (\<lambda>w ns n. case w of None \<Rightarrow> Inl (NotFound n) | Some c \<Rightarrow> Inr c), ca_List = (\<lambda>w ns l. Inr []),
      ca_Create = (\<lambda>w c. (None, Some c)), ca_Patch = (\<lambda>w old new. (None, Some new)), ca_Delete = (\<lambda>w c. (None, None)),
      ca_SetControllerReference = (\<lambda>owner c. Inr c), ca_IsConflict = (\<lambda>e. False)\<rparr>"

lemma exPem_consumes: "pemConsumes exPem"
  by (auto simp: pemConsumes_def exPem_def split: list.splits if_splits)

lemma exBundle:
  assumes "\<not> hasCACertificates inst"
  shows "gatherCABundleData exPem (\<lambda>ks. ks) exTrusted w inst = Inr (''C1'' @ [CHR 10] @ ''C2'')"
    "gatherCABundleData exPem rev exTrusted w inst = Inr (''C2'' @ [CHR 10] @ ''C1'')"
proof -
  have sp: "\<not> allSpace ''K0C1''" "\<not> allSpace ''C2''" by (simp_all add: allSpace.simps isSpaceRune_def)
  have ex: "extractValidCertificates exPem ''K0C1'' k = Inr ([''C1''], 2, 1)"
      "extractValidCertificates exPem ''C2'' k = Inr ([''C2''], 2, 1)" for k
    by (simp_all add: extractValidCertificates_def sp exPem_def)
  have det: "detectODHTrustedCABundle exTrusted w inst =
      Inr (Some (\<lparr>cm_Labels = mempty, cm_Data = mlit [(''ca-bundle.crt'', ''K0C1''), (''odh-ca-bundle.crt'', ''C2'')], cm_BinaryData = mempty\<rparr>,
        [''ca-bundle.crt'', ''odh-ca-bundle.crt'']))"
    by (simp add: detectODHTrustedCABundle_def exTrusted_def exTrustedKube_def mlit_def mempty_def less_list_code less_char_def)
  show "gatherCABundleData exPem (\<lambda>ks. ks) exTrusted w inst = Inr (''C1'' @ [CHR 10] @ ''C2'')"
    "gatherCABundleData exPem rev exTrusted w inst = Inr (''C2'' @ [CHR 10] @ ''C1'')"
    using assms
    by (simp_all add: gatherCABundleData_def gatherExplicitCABundle_def gatherODHCABundle_def det ex mlit_def
        collectorAdd_def collectorConcatenate_def MaxCABundleSize_def MaxCABundleCertificates_def)
qed

lemma exNetServer_no_certificates [simp]: "\<not> hasCACertificates exNetServer"
  by (simp add: hasCACertificates_def caCertificates_def exNetServer_def)

theorem ca_bundle_is_clean_and_bounded_witness:
  "\<exists>certs. gatherCABundleData exPem (\<lambda>ks. ks) exTrusted None exNetServer = Inr (joinLines certs)
     \<and> list_all (cleanCert exPem) certs \<and> length certs \<le> 1000"
  using ca_bundle_is_clean_and_bounded [OF exPem_consumes, of "\<lambda>ks. ks" exTrusted None exNetServer]
  by (auto simp: exBundle)

text \<open>
  The managed bundle depends on the order in which Go happens to visit the keys of the trusted
  CA ConfigMap: over the same cluster content, a pass that visits its two keys in the other
  order rewrites the ConfigMap that the previous pass had created.
\<close>

theorem managed_bundle_depends_on_map_order:
  "(let p = \<lparr>ps_Instance = exNetServer, ps_World = None, ps_Events = []\<rparr>;
        (e1, p1) = reconcileManagedCABundle exPem (\<lambda>ks. ks) exTrusted exManagedAPI p;
        (e2, p2) = reconcileManagedCABundle exPem rev exTrusted exManagedAPI p1
    in e1 = None \<and> e2 = None \<and> ps_Instance p2 = ps_Instance p1 \<and> ps_World p2 \<noteq> ps_World p1)"
proof -
  have odh: "hasODHTrustedCABundle exTrusted w exNetServer" for w
    by (simp add: hasODHTrustedCABundle_def detectODHTrustedCABundle_def exTrusted_def exTrustedKube_def mlit_def
        mempty_def less_list_code less_char_def)
  show ?thesis
    by (simp add: reconcileManagedCABundle_def reconcileManagedCABundleConfigMap_def odh exBundle exManagedAPI_def
        newConfigMap_def mlit_def mempty_def mget_Cons ManagedCABundleKey_def Let_def)
qed

end
