(* ===== verification/Config_Maps.thy ===== *)
theory Config_Maps
  imports Config_Generator Config_Resolver Ca_Bundle Status_Conditions "HOL-Library.Sublist"
begin

text \<open>
  The lifecycle of the generated configuration (\<open>controllers/configmap_reconciler.go\<close>): resolving the
  base config, generating, storing the result in an immutable ConfigMap named after its content, and
  deleting old ones.  The resolver's cache lives on the reconciler and is part of the state.
  \<open>sort.Slice\<close> is not stable, so the order of ConfigMaps of equal age is left open: the argument
  \<open>byAge\<close>.
\<close>

section \<open>Resolving and generating\<close>

datatype gen_error =
    GenTerminal string
  | GenImage string
  | GenResolve resolve_error
  | GenSecrets secret_error
  | GenConfig config_error
  | GenConfigMap string

definition generatedConfigKeyName :: string where
  "generatedConfigKeyName = ''config.yaml''"

definition configMapRetention :: nat where
  "configMapRetention = 2"

definition generatedConfigMapName :: "string \<Rightarrow> string \<Rightarrow> string" where
  "generatedConfigMapName crName contentHash = crName @ ''-config-'' @ contentHash"

definition shouldGenerateConfig :: "OGXServer \<Rightarrow> bool \<Rightarrow> bool" where
  "shouldGenerateConfig inst praxisMode \<longleftrightarrow>
     \<not> HasOverrideConfig inst \<and> (HasDeclarativeConfig inst \<or> praxisMode)"

definition readReferencedConfigMapKey ::
    "'w OGXServerReconciler \<Rightarrow> 'w \<Rightarrow> string \<Rightarrow> ConfigMapKeyRef \<Rightarrow> api_error + string" where
  "readReferencedConfigMapKey r w ns ref =
     (case kb_GetConfigMap (rc_Kube r) w ns (cmkr_Name ref) of
        Inl e \<Rightarrow> Inl e
      | Inr cm \<Rightarrow>
          (case mget (cm_Data cm) (cmkr_Key ref) of
             None \<Rightarrow> Inl (OtherAPIError (''failed to find referenced ConfigMap key ''
                       @ goQuote (kb_IsPrint (rc_Kube r)) (cmkr_Key ref) @ '': failed to find referenced ConfigMap key''))
           | Some data \<Rightarrow> Inr data))"

text \<open>\<open>None\<close> is a panic of the cache; its invariant excludes it.\<close>

definition resolveBaseConfig ::
    "label_fetcher option \<Rightarrow> 'w OGXServerReconciler \<Rightarrow> 'w \<Rightarrow> OGXServer \<Rightarrow> ociConfigCache
       \<Rightarrow> (ociConfigCache \<times> (gen_error + string)) option" where
  "resolveBaseConfig fetcher r w inst cache =
     (let ns = meta_Namespace (srv_ObjectMeta inst) in
      case spec_BaseConfig (srv_Spec inst) of
        Some ref \<Rightarrow>
          Some (cache,
            (case readReferencedConfigMapKey r w ns ref of
               Inl e \<Rightarrow> Inl (GenTerminal (''failed to resolve base config from ConfigMap '' @ ns @ ''/'' @ cmkr_Name ref
                          @ ''['' @ cmkr_Key ref @ '']: '' @ apiText e))
             | Inr data \<Rightarrow> Inr data))
      | None \<Rightarrow>
          (case resolveImage r (spec_Distribution (srv_Spec inst)) of
             Inl e \<Rightarrow> Some (cache, Inl (GenImage (''failed to resolve distribution image: '' @ e)))
           | Inr img \<Rightarrow>
               (case Resolve fetcher img cache of
                  None \<Rightarrow> None
                | Some (cache', res) \<Rightarrow> Some (cache', mapErr GenResolve res))))"

definition buildGeneratedConfigMap :: "OGXServer \<Rightarrow> string \<Rightarrow> string \<Rightarrow> ConfigMapObject" where
  "buildGeneratedConfigMap inst name configYAML =
     newConfigMap inst name [(''ogx.io/generated-config'', ''true'')] True (mlit [(generatedConfigKeyName, configYAML)])"

definition ensureGeneratedConfigMap ::
    "'w OGXServerReconciler \<Rightarrow> 'w ConfigMapAPI \<Rightarrow> string \<Rightarrow> string \<Rightarrow> 'w Pass \<Rightarrow> string option \<times> 'w Pass" where
  "ensureGeneratedConfigMap r api name configYAML p =
     (let inst = ps_Instance p in
      case ca_Get api (ps_World p) (meta_Namespace (srv_ObjectMeta inst)) name of
        Inr existing \<Rightarrow>
          if (case mget (cmo_Data existing) generatedConfigKeyName of Some v \<Rightarrow> v | None \<Rightarrow> []) \<noteq> configYAML
          then (Some (''failed to verify generated ConfigMap content for '' @ goQuote (kb_IsPrint (rc_Kube r)) name
                  @ '': hash collision detected''), p)
          else (None, p)
      | Inl (NotFound _) \<Rightarrow>
          (case ca_SetControllerReference api (srv_ObjectMeta inst) (buildGeneratedConfigMap inst name configYAML) of
             Inl e \<Rightarrow> (Some (''failed to set owner reference on generated ConfigMap: '' @ e), p)
           | Inr cm \<Rightarrow>
               (case ca_Create api (ps_World p) cm of
                  (None, w) \<Rightarrow> (None, p\<lparr>ps_World := w\<rparr>)
                | (Some (AlreadyExists _), w) \<Rightarrow> (None, p\<lparr>ps_World := w\<rparr>)
                | (Some e, w) \<Rightarrow> (Some (''failed to create generated ConfigMap: '' @ apiText e), p\<lparr>ps_World := w\<rparr>)))
      | Inl e \<Rightarrow> (Some (''failed to check for existing generated ConfigMap: '' @ apiText e), p))"

definition generateFor :: "yaml_codec \<Rightarrow> OGXServer \<Rightarrow> string \<Rightarrow> gen_error + GeneratedConfig" where
  "generateFor codec inst baseConfigData =
     (case ValidateSecretRefEnvVarNames (srv_Spec inst) of
        Some e \<Rightarrow> Inl (GenSecrets e)
      | None \<Rightarrow>
          mapErr GenConfig
            (if HasDeclarativeConfig inst
             then GenerateConfig codec (srv_Spec inst) baseConfigData (IsPraxisModeEnabled (srv_Spec inst))
             else GeneratePraxisDefaultConfig codec (srv_Spec inst) baseConfigData))"

text \<open>
  \<open>reconcileGeneratedConfig\<close>.  The resolved data is never \<open>nil\<close> without an error: both sources return
  a byte slice.
\<close>

definition reconcileGeneratedConfig ::
    "yaml_codec \<Rightarrow> label_fetcher option \<Rightarrow> 'w OGXServerReconciler \<Rightarrow> 'w ConfigMapAPI \<Rightarrow> ociConfigCache \<Rightarrow> 'w Pass
       \<Rightarrow> (ociConfigCache \<times> (gen_error + GeneratedConfig option) \<times> 'w Pass) option" where
  "reconcileGeneratedConfig codec fetcher r api cache p =
     (let inst = ps_Instance p in
      if \<not> shouldGenerateConfig inst (IsPraxisModeEnabled (srv_Spec inst)) then Some (cache, Inr None, p)
      else case resolveBaseConfig fetcher r (ps_World p) inst cache of
        None \<Rightarrow> None
      | Some (cache', Inl e) \<Rightarrow> Some (cache', Inl e, p)
      | Some (cache', Inr baseConfigData) \<Rightarrow>
          (case generateFor codec inst baseConfigData of
             Inl e \<Rightarrow> Some (cache', Inl e, p)
           | Inr generated \<Rightarrow>
               (case ensureGeneratedConfigMap r api
                       (generatedConfigMapName (meta_Name (srv_ObjectMeta inst)) (gc_ContentHash generated))
                       (gc_ConfigYAML generated) p of
                  (Some e, p') \<Rightarrow> Some (cache', Inl (GenConfigMap e), p')
                | (None, p') \<Rightarrow> Some (cache', Inr (Some generated), p'))))"

section \<open>Cleaning up\<close>

text \<open>The volumes of the Deployment of an instance and of its ReplicaSets.\<close>

record 'w WorkloadAPI =
  wa_Deployment :: "'w \<Rightarrow> string \<Rightarrow> string \<Rightarrow> api_error + Volume list"
  wa_ReplicaSets :: "'w \<Rightarrow> string \<Rightarrow> string \<Rightarrow> api_error + Volume list list"

definition volumeConfigMapName :: "Volume \<Rightarrow> string" where
  "volumeConfigMapName v =
     (case vol_ConfigMap v of
        None \<Rightarrow> []
      | Some y \<Rightarrow> (case asMap y of None \<Rightarrow> []
          | Some m \<Rightarrow> (case asStr (mfield m ''name'') of Some n \<Rightarrow> n | None \<Rightarrow> [])))"

definition collectRuntimeConfigMapRefs :: "Volume list \<Rightarrow> string set" where
  "collectRuntimeConfigMapRefs volumes =
     set (filter (\<lambda>n. n \<noteq> []) (map volumeConfigMapName (filter (\<lambda>v. vol_Name v = ''user-config'') volumes)))"

definition referencedRuntimeConfigMapNames ::
    "'w WorkloadAPI \<Rightarrow> 'w \<Rightarrow> OGXServer \<Rightarrow> string \<Rightarrow> api_error + string set" where
  "referencedRuntimeConfigMapNames wa w inst currentName =
     (let ns = meta_Namespace (srv_ObjectMeta inst); n = meta_Name (srv_ObjectMeta inst);
          fromStatus = (case status_ConfigGeneration (srv_Status inst) of None \<Rightarrow> {}
             | Some g \<Rightarrow> if cgs_ConfigMapName g \<noteq> [] then {cgs_ConfigMapName g} else {});
          continue = (\<lambda>deployed.
            case wa_ReplicaSets wa w ns n of
              Inl e \<Rightarrow> Inl e
            | Inr sets \<Rightarrow> Inr ({currentName} \<union> fromStatus \<union> deployed \<union> (\<Union>vs\<in>set sets. collectRuntimeConfigMapRefs vs)))
      in case wa_Deployment wa w ns n of
           Inl (NotFound _) \<Rightarrow> continue {}
         | Inl e \<Rightarrow> Inl e
         | Inr vs \<Rightarrow> continue (collectRuntimeConfigMapRefs vs))"

definition deleted :: "api_error option \<Rightarrow> bool" where
  "deleted e = (case e of None \<Rightarrow> True | Some (NotFound _) \<Rightarrow> True | _ \<Rightarrow> False)"

definition cmName :: "ConfigMapObject \<Rightarrow> string" where
  "cmName cm = meta_Name (cmo_ObjectMeta cm)"

fun cleanupLoop :: "'w ConfigMapAPI \<Rightarrow> string set \<Rightarrow> ConfigMapObject list \<Rightarrow> nat \<Rightarrow> 'w \<Rightarrow> 'w" where
  "cleanupLoop api protected [] n w = w"
| "cleanupLoop api protected (cm # cms) n w =
     (if n = 0 then w
      else if cmName cm \<in> protected then cleanupLoop api protected cms n w
      else let (e, w') = ca_Delete api w cm
           in cleanupLoop api protected cms (if deleted e then n - 1 else n) w')"

definition cleanupOldGeneratedConfigMaps ::
    "'w ConfigMapAPI \<Rightarrow> 'w WorkloadAPI \<Rightarrow> (ConfigMapObject list \<Rightarrow> ConfigMapObject list) \<Rightarrow> string \<Rightarrow> 'w Pass
       \<Rightarrow> string option \<times> 'w Pass" where
  "cleanupOldGeneratedConfigMaps api wa byAge currentName p =
     (let inst = ps_Instance p; w = ps_World p in
      case ca_List api w (meta_Namespace (srv_ObjectMeta inst))
             (mlit [(''ogx.io/generated-config'', ''true''), (''app.kubernetes.io/instance'', meta_Name (srv_ObjectMeta inst))]) of
        Inl e \<Rightarrow> (Some (''failed to list generated ConfigMaps: '' @ apiText e), p)
      | Inr items \<Rightarrow>
          if length items \<le> configMapRetention then (None, p)
          else (case referencedRuntimeConfigMapNames wa w inst currentName of
                  Inl e \<Rightarrow> (Some (''failed to determine referenced generated ConfigMaps: '' @ apiText e), p)
                | Inr protected \<Rightarrow>
                    (let protectedCount = length (filter (\<lambda>cm. cmName cm \<in> protected) items);
                         minimumToKeep = max configMapRetention protectedCount
                     in (None, p\<lparr>ps_World := cleanupLoop api protected (byAge items) (length items - minimumToKeep) w\<rparr>))))"

definition getGeneratedConfigMapHashByName :: "'w ConfigMapAPI \<Rightarrow> 'w \<Rightarrow> string \<Rightarrow> string \<Rightarrow> string + string" where
  "getGeneratedConfigMapHashByName api w ns name =
     (case ca_Get api w ns name of
        Inl e \<Rightarrow> Inl (apiText e)
      | Inr cm \<Rightarrow> Inr (meta_ResourceVersion (cmo_ObjectMeta cm) @ ''-'' @ cmName cm))"

definition updateConfigGenerationStatus :: "int \<Rightarrow> GeneratedConfig \<Rightarrow> OGXServer \<Rightarrow> OGXServer" where
  "updateConfigGenerationStatus now g inst =
     inst\<lparr>srv_Status := (srv_Status inst)\<lparr>status_ConfigGeneration :=
       Some \<lparr>cgs_ObservedGeneration = meta_Generation (srv_ObjectMeta inst),
             cgs_ConfigMapName = generatedConfigMapName (meta_Name (srv_ObjectMeta inst)) (gc_ContentHash g),
             cgs_GeneratedAt = now, cgs_ProviderCount = gc_ProviderCount g, cgs_ResourceCount = gc_ResourceCount g,
             cgs_ConfigVersion = gc_ConfigVersion g\<rparr>\<rparr>\<rparr>"

definition clearConfigGenerationStatus :: "int \<Rightarrow> string \<Rightarrow> string \<Rightarrow> OGXServer \<Rightarrow> OGXServer" where
  "clearConfigGenerationStatus now reason message inst =
     setConfigGeneratedCondition now
       (inst\<lparr>srv_Status := (srv_Status inst)\<lparr>status_ConfigGeneration := None\<rparr>\<rparr>) False reason message"

section \<open>What a clean-up deletes\<close>

text \<open>A sequence of attempted deletions with their outcomes, run from one state of the cluster to another.\<close>

fun deletions :: "'w ConfigMapAPI \<Rightarrow> (ConfigMapObject \<times> bool) list \<Rightarrow> 'w \<Rightarrow> 'w \<Rightarrow> bool" where
  "deletions api [] w w' \<longleftrightarrow> w' = w"
| "deletions api ((cm, ok) # att) w w' \<longleftrightarrow>
     (let (e, w1) = ca_Delete api w cm in ok = deleted e \<and> deletions api att w1 w')"

lemma cleanupLoop_deletions:
  "\<exists>att. deletions api att w (cleanupLoop api protected cms n w)
     \<and> subseq (map fst att) (filter (\<lambda>cm. cmName cm \<notin> protected) cms)
     \<and> length (filter snd att) \<le> n
     \<and> (list_all snd att \<longrightarrow> map fst att = take n (filter (\<lambda>cm. cmName cm \<notin> protected) cms))"
proof (induction cms arbitrary: n w)
  case Nil
  then show ?case by (intro exI [of _ "[]"]) simp
next
  case (Cons cm cms)
  show ?case
  proof (cases "n = 0")
    case True
    then show ?thesis by (intro exI [of _ "[]"]) simp
  next
    case n: False
    show ?thesis
    proof (cases "cmName cm \<in> protected")
      case True
      then show ?thesis using n Cons.IH [of w n] by simp
    next
      case False
      obtain e w1 where d: "ca_Delete api w cm = (e, w1)" by force
      obtain att where att: "deletions api att w1 (cleanupLoop api protected cms (if deleted e then n - 1 else n) w1)"
        "subseq (map fst att) (filter (\<lambda>cm. cmName cm \<notin> protected) cms)"
        "length (filter snd att) \<le> (if deleted e then n - 1 else n)"
        "list_all snd att \<longrightarrow> map fst att = take (if deleted e then n - 1 else n) (filter (\<lambda>cm. cmName cm \<notin> protected) cms)"
        using Cons.IH [of w1 "if deleted e then n - 1 else n"] by blast
      show ?thesis
        using n False d att by (intro exI [of _ "(cm, deleted e) # att"]) (auto simp: take_Cons')
    qed
  qed
qed

definition sortsByAge :: "(ConfigMapObject list \<Rightarrow> ConfigMapObject list) \<Rightarrow> bool" where
  "sortsByAge byAge \<longleftrightarrow>
     (\<forall>items. mset (byAge items) = mset items \<and> sorted (map cmo_CreationTimestamp (byAge items)))"

lemma subseq_sorted:
  fixes ys :: "'a::linorder list"
  shows "subseq xs ys \<Longrightarrow> sorted ys \<Longrightarrow> sorted xs"
  by (induction xs ys rule: list_emb.induct) (auto dest: list_emb_set)

lemma length_filter_mset: "mset xs = mset ys \<Longrightarrow> length (filter P xs) = length (filter P ys)"
  by (metis mset_filter size_mset)

section \<open>Properties\<close>


section \<open>Examples\<close>

definition exGenerated :: "string \<Rightarrow> int \<Rightarrow> ConfigMapObject" where
  "exGenerated name age = (buildGeneratedConfigMap exNetServer name []) \<lparr>cmo_CreationTimestamp := age\<rparr>"

definition exHistory :: "ConfigMapObject list" where
  "exHistory = [exGenerated ''c'' 30, exGenerated ''b'' 20, exGenerated ''a'' 10]"

definition exHistoryAPI :: "ConfigMapObject list ConfigMapAPI" where
  "exHistoryAPI =
     \<lparr>ca_Get = (\<lambda>w ns n. case filter (\<lambda>c. cmName c = n) w of [] \<Rightarrow> Inl (NotFound n) | c # _ \<Rightarrow> Inr c),
      ca_List = (\<lambda>w ns l. Inr w), ca_Create = (\<lambda>w c. (None, c # w)), ca_Patch = (\<lambda>w old new. (None, w)),
      ca_Delete = (\<lambda>w c. (None, filter (\<lambda>c'. cmName c' \<noteq> cmName c) w)),
      ca_SetControllerReference = (\<lambda>owner c. Inr c), ca_IsConflict = (\<lambda>e. False)\<rparr>"

definition exWorkload :: "ConfigMapObject list WorkloadAPI" where
  "exWorkload =
     \<lparr>wa_Deployment = (\<lambda>w ns n. Inl (NotFound n)),
      wa_ReplicaSets = (\<lambda>w ns n. Inr [[configMapKeyVolume ''user-config'' ''a'' ''config.yaml'' ''config.yaml'']])\<rparr>"

definition exHistoryPass :: "ConfigMapObject list Pass" where
  "exHistoryPass = \<lparr>ps_Instance = exNetServer, ps_World = exHistory, ps_Events = []\<rparr>"


end
