(* ===== verification/Adoption.thy ===== *)
theory Adoption
  imports Network_Policy Status_Conditions Go_Quote
begin

text \<open>
  Adoption of the resources of a legacy LlamaStackDistribution (\<open>controllers/legacy_adoption.go\<close>).
  Claims on persistent volumes, Services and Ingresses are their metadata with, for a Service, its
  selector; the API server's operations on them are the fields of \<open>AdoptAPI\<close>.  A pass reads the
  clock once.
\<close>

section \<open>The interface\<close>

record AdoptObject =
  ao_Meta :: ObjectMeta
  ao_Selector :: "string gomap"

text \<open>
  \<open>ad_Scale\<close> is the merge patch that sets the replicas of a Deployment to zero; \<open>ad_Replicas\<close> reads them;
  \<open>ad_CountPods\<close> counts the pods with the instance label; \<open>ad_Adopted*\<close> list the objects of a namespace
  that carry the adopted-from label, for claims also with the instance label.
\<close>

record 'w AdoptAPI =
  ad_GetPVC :: "'w \<Rightarrow> string \<Rightarrow> string \<Rightarrow> api_error + AdoptObject"
  ad_UpdatePVC :: "'w \<Rightarrow> AdoptObject \<Rightarrow> api_error option \<times> 'w"
  ad_Replicas :: "'w \<Rightarrow> string \<Rightarrow> string \<Rightarrow> api_error + int option"
  ad_Scale :: "'w \<Rightarrow> string \<Rightarrow> string \<Rightarrow> api_error option \<times> 'w"
  ad_CountPods :: "'w \<Rightarrow> string \<Rightarrow> string \<Rightarrow> api_error + nat"
  ad_GetService :: "'w \<Rightarrow> string \<Rightarrow> string \<Rightarrow> api_error + AdoptObject"
  ad_UpdateService :: "'w \<Rightarrow> AdoptObject \<Rightarrow> api_error option \<times> 'w"
  ad_DeleteService :: "'w \<Rightarrow> AdoptObject \<Rightarrow> api_error option \<times> 'w"
  ad_AdoptedServices :: "'w \<Rightarrow> string \<Rightarrow> api_error + AdoptObject list"
  ad_GetIngress :: "'w \<Rightarrow> string \<Rightarrow> string \<Rightarrow> api_error + AdoptObject"
  ad_UpdateIngress :: "'w \<Rightarrow> AdoptObject \<Rightarrow> api_error option \<times> 'w"
  ad_DeleteIngress :: "'w \<Rightarrow> AdoptObject \<Rightarrow> api_error option \<times> 'w"
  ad_AdoptedIngresses :: "'w \<Rightarrow> string \<Rightarrow> api_error + AdoptObject list"
  ad_AdoptedPVCs :: "'w \<Rightarrow> string \<Rightarrow> string \<Rightarrow> api_error + string list"
  ad_GetControllerOf :: "ObjectMeta \<Rightarrow> OwnerReference option"
  ad_IsControlledBy :: "ObjectMeta \<Rightarrow> ObjectMeta \<Rightarrow> bool"
  ad_SetControllerReference :: "ObjectMeta \<Rightarrow> ObjectMeta \<Rightarrow> string + ObjectMeta"
  ad_FormatTime :: "int \<Rightarrow> string"
  ad_IsPrint :: "nat \<Rightarrow> bool"

definition AdoptedFromLabel :: string where
  "AdoptedFromLabel = ''ogx.io/adopted-from''"

definition AdoptedAtAnnotation :: string where
  "AdoptedAtAnnotation = ''ogx.io/adopted-at''"

definition instanceLabelKey :: string where
  "instanceLabelKey = ''app.kubernetes.io/instance''"

text \<open>\<open>adoptionResult\<close>: the delay in seconds when a requeue is wanted.\<close>

type_synonym adoptionResult = "int option"

section \<open>Conditions\<close>

definition SetStorageAdoptedCondition :: "int \<Rightarrow> bool \<Rightarrow> string \<Rightarrow> OGXServerStatus \<Rightarrow> OGXServerStatus" where
  "SetStorageAdoptedCondition now adopted message status =
     SetCondition status (newCondition now ConditionTypeStorageAdopted adopted ReasonStorageAdopted message)"

definition SetNetworkingAdoptedCondition :: "int \<Rightarrow> bool \<Rightarrow> string \<Rightarrow> OGXServerStatus \<Rightarrow> OGXServerStatus" where
  "SetNetworkingAdoptedCondition now adopted message status =
     SetCondition status (newCondition now ConditionTypeNetworkingAdopted adopted ReasonNetworkingAdopted message)"

definition SetAdoptionConfigInvalidCondition :: "int \<Rightarrow> string \<Rightarrow> OGXServerStatus \<Rightarrow> OGXServerStatus" where
  "SetAdoptionConfigInvalidCondition now message status =
     SetCondition status (newCondition now ConditionTypeAdoptionConfigInvalid True ReasonAdoptionConfigInvalid message)"

definition clearAdoptionConfigInvalidCondition :: "int \<Rightarrow> OGXServerStatus \<Rightarrow> OGXServerStatus" where
  "clearAdoptionConfigInvalidCondition now status =
     (case GetCondition status ConditionTypeAdoptionConfigInvalid of
        None \<Rightarrow> status
      | Some c \<Rightarrow>
          if cond_Status c = ConditionFalse then status
          else SetCondition status (newCondition now ConditionTypeAdoptionConfigInvalid False ''AnnotationsValid''
                 ''Adoption annotations are valid''))"

section \<open>Validation\<close>

definition adoptionErrorText :: "'w AdoptAPI \<Rightarrow> adoption_error \<Rightarrow> string" where
  "adoptionErrorText api e =
     ''failed to validate adoption annotation: value '' @
     (case e of
        AdoptionEmpty \<Rightarrow> ''must not be empty''
      | AdoptionTooLong v \<Rightarrow> goQuote (ad_IsPrint api) v @ '' exceeds 63 characters''
      | AdoptionNotDNSLabel v \<Rightarrow> goQuote (ad_IsPrint api) v @ '' is not a valid RFC 1123 DNS label'')"

definition validateAdoptionSource ::
    "'w AdoptAPI \<Rightarrow> int \<Rightarrow> string \<Rightarrow> string \<Rightarrow> string \<Rightarrow> OGXServerStatus \<Rightarrow> bool \<times> OGXServerStatus" where
  "validateAdoptionSource api now annotationName value instanceName status =
     (if value = [] then (True, status)
      else if value = instanceName
      then (False, SetAdoptionConfigInvalidCondition now (annotationName @ '': value '' @ goQuote (ad_IsPrint api) value
              @ '' must not equal the CR name; same-name adoption causes resource conflicts'') status)
      else case ValidateAdoptionAnnotation value of
             Some e \<Rightarrow> (False, SetAdoptionConfigInvalidCondition now (annotationName @ '': '' @ adoptionErrorText api e) status)
           | None \<Rightarrow> (True, status))"

definition validateAdoptionSources ::
    "'w AdoptAPI \<Rightarrow> int \<Rightarrow> string \<Rightarrow> string \<Rightarrow> string \<Rightarrow> OGXServerStatus \<Rightarrow> bool \<times> OGXServerStatus" where
  "validateAdoptionSources api now instanceName storageSource networkingSource status =
     (case validateAdoptionSource api now ''adopt-storage'' storageSource instanceName status of
        (False, s) \<Rightarrow> (False, s)
      | (True, s) \<Rightarrow> validateAdoptionSource api now ''adopt-networking'' networkingSource instanceName s)"

section \<open>Ownership\<close>

definition isExpectedLegacyOwnerRef :: "OwnerReference \<Rightarrow> string \<Rightarrow> bool" where
  "isExpectedLegacyOwnerRef ref legacyName \<longleftrightarrow>
     owner_APIVersion ref = ''llamastack.io/v1alpha1'' \<and> owner_Kind ref = ''LlamaStackDistribution'' \<and> owner_Name ref = legacyName"

text \<open>The check and the stripping that both transfers share in the source.\<close>

definition unexpectedOwner :: "'w AdoptAPI \<Rightarrow> ObjectMeta \<Rightarrow> string \<Rightarrow> string option" where
  "unexpectedOwner api m legacySource =
     (case ad_GetControllerOf api m of
        None \<Rightarrow> None
      | Some ref \<Rightarrow>
          if isExpectedLegacyOwnerRef ref legacySource then None
          else Some (''failed to adopt '' @ meta_Name m @ '': unexpected controller owner '' @ owner_APIVersion ref @ ''/''
                 @ owner_Kind ref @ '' '' @ goQuote (ad_IsPrint api) (owner_Name ref)))"

definition stripController :: "ObjectMeta \<Rightarrow> ObjectMeta" where
  "stripController m = m\<lparr>meta_OwnerReferences := filter (\<lambda>ref. owner_Controller ref \<noteq> Some True) (meta_OwnerReferences m)\<rparr>"

definition detachAndLabelPVC ::
    "'w AdoptAPI \<Rightarrow> int \<Rightarrow> string \<Rightarrow> AdoptObject \<Rightarrow> string \<Rightarrow> 'w \<Rightarrow> string option \<times> 'w" where
  "detachAndLabelPVC api now instanceName pvc legacySource w =
     (case unexpectedOwner api (ao_Meta pvc) legacySource of
        Some e \<Rightarrow> (Some e, w)
      | None \<Rightarrow>
          (let m = stripController (ao_Meta pvc);
               m' = m\<lparr>meta_Labels := mput instanceLabelKey instanceName (mput AdoptedFromLabel legacySource (meta_Labels m)),
                      meta_Annotations := mput AdoptedAtAnnotation (ad_FormatTime api now) (meta_Annotations m)\<rparr>
           in case ad_UpdatePVC api w (pvc\<lparr>ao_Meta := m'\<rparr>) of
                (None, w') \<Rightarrow> (None, w')
              | (Some e, w') \<Rightarrow> (Some (''failed to update '' @ meta_Name m @ '' after adoption: '' @ apiText e), w')))"

definition transferOwnership ::
    "'w AdoptAPI \<Rightarrow> ('w \<Rightarrow> AdoptObject \<Rightarrow> api_error option \<times> 'w) \<Rightarrow> int \<Rightarrow> ObjectMeta \<Rightarrow> AdoptObject \<Rightarrow> string \<Rightarrow> 'w
       \<Rightarrow> string option \<times> 'w" where
  "transferOwnership api update now owner obj legacySource w =
     (let name = meta_Name (ao_Meta obj) in
      case unexpectedOwner api (ao_Meta obj) legacySource of
        Some e \<Rightarrow> (Some e, w)
      | None \<Rightarrow>
          (let m = stripController (ao_Meta obj);
               m' = m\<lparr>meta_Labels := mput AdoptedFromLabel legacySource (meta_Labels m),
                      meta_Annotations := mput AdoptedAtAnnotation (ad_FormatTime api now) (meta_Annotations m)\<rparr>
           in case ad_SetControllerReference api owner m' of
                Inl e \<Rightarrow> (Some (''failed to set controller reference on '' @ name @ '': '' @ e), w)
              | Inr m'' \<Rightarrow>
                  (case update w (obj\<lparr>ao_Meta := m''\<rparr>) of
                     (None, w') \<Rightarrow> (None, w')
                   | (Some e, w') \<Rightarrow> (Some (''failed to update '' @ name @ '' after ownership transfer: '' @ apiText e), w'))))"

section \<open>Storage\<close>

definition scaleDownLegacyDeployment :: "'w AdoptAPI \<Rightarrow> string \<Rightarrow> string \<Rightarrow> 'w \<Rightarrow> (string + bool) \<times> 'w" where
  "scaleDownLegacyDeployment api ns legacyName w =
     (case ad_Replicas api w ns legacyName of
        Inl (NotFound _) \<Rightarrow> (Inr False, w)
      | Inl e \<Rightarrow> (Inl (''failed to get legacy Deployment '' @ legacyName @ '': '' @ apiText e), w)
      | Inr replicas \<Rightarrow>
          (case (if replicas \<noteq> Some 0 then ad_Scale api w ns legacyName else (None, w)) of
             (Some e, w') \<Rightarrow> (Inl (''failed to scale down legacy Deployment '' @ legacyName @ '': '' @ apiText e), w')
           | (None, w') \<Rightarrow>
               (case ad_CountPods api w' ns legacyName of
                  Inl e \<Rightarrow> (Inl (''failed to list pods for legacy Deployment '' @ legacyName @ '': '' @ apiText e), w')
                | Inr n \<Rightarrow> (Inr (n > 0), w'))))"

definition adoptStorage ::
    "'w AdoptAPI \<Rightarrow> int \<Rightarrow> string \<Rightarrow> 'w Pass \<Rightarrow> (string + adoptionResult) \<times> 'w Pass" where
  "adoptStorage api now legacyName p =
     (let inst = ps_Instance p; ns = meta_Namespace (srv_ObjectMeta inst); pvcName = legacyName @ ''-pvc'';
          adopted = withStatus (SetStorageAdoptedCondition now True (''PVC '' @ pvcName @ '' adopted'')) in
      case ad_GetPVC api (ps_World p) ns pvcName of
        Inl (NotFound _) \<Rightarrow> (Inr None, p)
      | Inl e \<Rightarrow> (Inl (''failed to get legacy PVC '' @ pvcName @ '': '' @ apiText e), p)
      | Inr pvc \<Rightarrow>
          if mget (meta_Labels (ao_Meta pvc)) AdoptedFromLabel = Some legacyName then (Inr None, adopted p)
          else (case scaleDownLegacyDeployment api ns legacyName (ps_World p) of
                  (Inl e, w) \<Rightarrow> (Inl e, p\<lparr>ps_World := w\<rparr>)
                | (Inr True, w) \<Rightarrow> (Inr (Some 5), p\<lparr>ps_World := w\<rparr>)
                | (Inr False, w) \<Rightarrow>
                    (case detachAndLabelPVC api now (meta_Name (srv_ObjectMeta inst)) pvc legacyName w of
                       (Some e, w') \<Rightarrow> (Inl e, p\<lparr>ps_World := w'\<rparr>)
                     | (None, w') \<Rightarrow> (Inr None, adopted (p\<lparr>ps_World := w'\<rparr>)))))"

definition adoptStorageSource ::
    "'w AdoptAPI \<Rightarrow> int \<Rightarrow> string \<Rightarrow> 'w Pass \<Rightarrow> (string + adoptionResult) \<times> 'w Pass" where
  "adoptStorageSource api now storageSource p =
     (if storageSource = [] then (Inr None, p)
      else case adoptStorage api now storageSource p of
             (Inl e, p') \<Rightarrow> (Inl (''failed to adopt storage from '' @ goQuote (ad_IsPrint api) storageSource @ '': '' @ e), p')
           | (Inr res, p') \<Rightarrow> (Inr res, p'))"

section \<open>Networking\<close>

definition adoptLegacyService :: "'w AdoptAPI \<Rightarrow> int \<Rightarrow> string \<Rightarrow> 'w Pass \<Rightarrow> (string + bool) \<times> 'w Pass" where
  "adoptLegacyService api now legacyName p =
     (let inst = ps_Instance p; serviceName = legacyName @ ''-service'' in
      case ad_GetService api (ps_World p) (meta_Namespace (srv_ObjectMeta inst)) serviceName of
        Inl (NotFound _) \<Rightarrow> (Inr False, p)
      | Inl e \<Rightarrow> (Inl (''failed to get legacy Service '' @ serviceName @ '': '' @ apiText e), p)
      | Inr svc \<Rightarrow>
          if ad_IsControlledBy api (ao_Meta svc) (srv_ObjectMeta inst) then (Inr True, p)
          else (case transferOwnership api (ad_UpdateService api) now (srv_ObjectMeta inst)
                       (svc\<lparr>ao_Selector := mlit [(''app'', ''ogx''), (instanceLabelKey, meta_Name (srv_ObjectMeta inst))]\<rparr>)
                       legacyName (ps_World p) of
                  (Some e, w) \<Rightarrow> (Inl e, p\<lparr>ps_World := w\<rparr>)
                | (None, w) \<Rightarrow> (Inr True, p\<lparr>ps_World := w\<rparr>)))"

definition adoptLegacyIngress :: "'w AdoptAPI \<Rightarrow> int \<Rightarrow> string \<Rightarrow> 'w Pass \<Rightarrow> (string + bool) \<times> 'w Pass" where
  "adoptLegacyIngress api now legacyName p =
     (let inst = ps_Instance p; ingressName = legacyName @ ''-ingress'' in
      case ad_GetIngress api (ps_World p) (meta_Namespace (srv_ObjectMeta inst)) ingressName of
        Inl (NotFound _) \<Rightarrow> (Inr False, p)
      | Inl e \<Rightarrow> (Inl (''failed to get legacy Ingress '' @ ingressName @ '': '' @ apiText e), p)
      | Inr ing \<Rightarrow>
          if ad_IsControlledBy api (ao_Meta ing) (srv_ObjectMeta inst) then (Inr True, p)
          else (case transferOwnership api (ad_UpdateIngress api) now (srv_ObjectMeta inst) ing legacyName (ps_World p) of
                  (Some e, w) \<Rightarrow> (Inl e, p\<lparr>ps_World := w\<rparr>)
                | (None, w) \<Rightarrow> (Inr True, p\<lparr>ps_World := w\<rparr>)))"

definition adoptNetworking :: "'w AdoptAPI \<Rightarrow> int \<Rightarrow> string \<Rightarrow> 'w Pass \<Rightarrow> string option \<times> 'w Pass" where
  "adoptNetworking api now legacyName p =
     (case adoptLegacyService api now legacyName p of
        (Inl e, p1) \<Rightarrow> (Some e, p1)
      | (Inr serviceAdopted, p1) \<Rightarrow>
          (case adoptLegacyIngress api now legacyName p1 of
             (Inl e, p2) \<Rightarrow> (Some e, p2)
           | (Inr ingressAdopted, p2) \<Rightarrow>
               (None, if serviceAdopted \<or> ingressAdopted
                      then withStatus (SetNetworkingAdoptedCondition now True (''Networking adopted from '' @ legacyName)) p2
                      else p2)))"

definition adoptNetworkingSource :: "'w AdoptAPI \<Rightarrow> int \<Rightarrow> string \<Rightarrow> 'w Pass \<Rightarrow> string option \<times> 'w Pass" where
  "adoptNetworkingSource api now networkingSource p =
     (if networkingSource = [] then (None, p)
      else case adoptNetworking api now networkingSource p of
             (Some e, p') \<Rightarrow> (Some (''failed to adopt networking from '' @ goQuote (ad_IsPrint api) networkingSource @ '': '' @ e), p')
           | (None, p') \<Rightarrow> (None, p'))"

definition adoptLegacyResources :: "'w AdoptAPI \<Rightarrow> int \<Rightarrow> 'w Pass \<Rightarrow> (string + adoptionResult) \<times> 'w Pass" where
  "adoptLegacyResources api now p =
     (let inst = ps_Instance p; storageSource = GetAdoptStorageSource inst; networkingSource = GetAdoptNetworkingSource inst;
          (valid, s) = validateAdoptionSources api now (meta_Name (srv_ObjectMeta inst)) storageSource networkingSource (srv_Status inst)
      in if storageSource = [] \<and> networkingSource = [] then (Inr None, withStatus (clearAdoptionConfigInvalidCondition now) p)
         else if \<not> valid then (Inr None, withStatus (\<lambda>_. s) p)
         else case adoptStorageSource api now storageSource (withStatus (\<lambda>_. clearAdoptionConfigInvalidCondition now s) p) of
                (Inl e, p1) \<Rightarrow> (Inl e, p1)
              | (Inr res, p1) \<Rightarrow>
                  (case adoptNetworkingSource api now networkingSource p1 of
                     (Some e, p2) \<Rightarrow> (Inl e, p2)
                   | (None, p2) \<Rightarrow> (Inr res, p2)))"

section \<open>Cleaning up\<close>

definition shouldDeleteAdoptedResource :: "'w AdoptAPI \<Rightarrow> OGXServer \<Rightarrow> ObjectMeta \<Rightarrow> bool" where
  "shouldDeleteAdoptedResource api inst m \<longleftrightarrow>
     ad_IsControlledBy api m (srv_ObjectMeta inst) \<and> mget (meta_Labels m) AdoptedFromLabel \<noteq> None"

fun deleteAdopted ::
    "'w AdoptAPI \<Rightarrow> ('w \<Rightarrow> AdoptObject \<Rightarrow> api_error option \<times> 'w) \<Rightarrow> string \<Rightarrow> OGXServer \<Rightarrow> AdoptObject list \<Rightarrow> 'w
       \<Rightarrow> string option \<times> 'w" where
  "deleteAdopted api del what inst [] w = (None, w)"
| "deleteAdopted api del what inst (obj # objs) w =
     (if \<not> shouldDeleteAdoptedResource api inst (ao_Meta obj) then deleteAdopted api del what inst objs w
      else case del w obj of
             (None, w') \<Rightarrow> deleteAdopted api del what inst objs w'
           | (Some (NotFound _), w') \<Rightarrow> deleteAdopted api del what inst objs w'
           | (Some e, w') \<Rightarrow> (Some (''failed to delete adopted '' @ what @ '' '' @ meta_Name (ao_Meta obj) @ '': '' @ apiText e), w'))"

definition cleanupAdoptedServices :: "'w AdoptAPI \<Rightarrow> OGXServer \<Rightarrow> 'w \<Rightarrow> string option \<times> 'w" where
  "cleanupAdoptedServices api inst w =
     (case ad_AdoptedServices api w (meta_Namespace (srv_ObjectMeta inst)) of
        Inl e \<Rightarrow> (Some (''failed to list services for adoption cleanup: '' @ apiText e), w)
      | Inr items \<Rightarrow> deleteAdopted api (ad_DeleteService api) ''Service'' inst items w)"

definition cleanupAdoptedIngresses :: "'w AdoptAPI \<Rightarrow> OGXServer \<Rightarrow> 'w \<Rightarrow> string option \<times> 'w" where
  "cleanupAdoptedIngresses api inst w =
     (case ad_AdoptedIngresses api w (meta_Namespace (srv_ObjectMeta inst)) of
        Inl e \<Rightarrow> (Some (''failed to list ingresses for adoption cleanup: '' @ apiText e), w)
      | Inr items \<Rightarrow> deleteAdopted api (ad_DeleteIngress api) ''Ingress'' inst items w)"

definition cleanupAdoptedNetworking :: "'w AdoptAPI \<Rightarrow> int \<Rightarrow> 'w Pass \<Rightarrow> string option \<times> 'w Pass" where
  "cleanupAdoptedNetworking api now p =
     (let inst = ps_Instance p in
      if GetAdoptNetworkingSource inst \<noteq> [] then (None, p)
      else if \<not> IsConditionTrue (srv_Status inst) ConditionTypeNetworkingAdopted then (None, p)
      else case cleanupAdoptedServices api inst (ps_World p) of
             (Some e, w) \<Rightarrow> (Some e, p\<lparr>ps_World := w\<rparr>)
           | (None, w) \<Rightarrow>
               (case cleanupAdoptedIngresses api inst w of
                  (Some e, w') \<Rightarrow> (Some e, p\<lparr>ps_World := w'\<rparr>)
                | (None, w') \<Rightarrow>
                    (None, withStatus (SetNetworkingAdoptedCondition now False ''Adoption annotation removed'') (p\<lparr>ps_World := w'\<rparr>))))"

section \<open>The claim in use\<close>

text \<open>More than one adopted claim is a terminal error (\<open>PVCTerminal\<close>).\<close>

datatype pvc_error = PVCListFailed string | PVCTerminal string

fun sprintStrings :: "string list \<Rightarrow> string" where
  "sprintStrings [] = []"
| "sprintStrings [x] = x"
| "sprintStrings (x # y # zs) = x @ '' '' @ sprintStrings (y # zs)"

definition resolveEffectivePVCName :: "'w AdoptAPI \<Rightarrow> int \<Rightarrow> 'w Pass \<Rightarrow> (pvc_error + string) \<times> 'w Pass" where
  "resolveEffectivePVCName api now p =
     (let inst = ps_Instance p; src = GetAdoptStorageSource inst; name = meta_Name (srv_ObjectMeta inst) in
      if src \<noteq> [] \<and> ValidateAdoptionAnnotation src = None then (Inr (src @ ''-pvc''), p)
      else case ad_AdoptedPVCs api (ps_World p) (meta_Namespace (srv_ObjectMeta inst)) name of
             Inl e \<Rightarrow> (Inl (PVCListFailed (''failed to list adopted PVCs: '' @ apiText e)), p)
           | Inr [] \<Rightarrow> (Inr (name @ ''-pvc''), p)
           | Inr [n] \<Rightarrow> (Inr n, p)
           | Inr names \<Rightarrow>
               (let msg = ''multiple adopted PVCs found for instance '' @ goQuote (ad_IsPrint api) name @ '': [''
                      @ sprintStrings names @ '']; remove the '' @ AdoptedFromLabel @ '' label from all but one''
                in (Inl (PVCTerminal msg), withStatus (SetAdoptionConfigInvalidCondition now msg) p)))"

section \<open>Which writes adoption makes\<close>

datatype adopt_write = AScale "string" "string" | APVC AdoptObject | AService AdoptObject | AIngress AdoptObject

fun performAdopt :: "'w AdoptAPI \<Rightarrow> adopt_write \<Rightarrow> 'w \<Rightarrow> 'w" where
  "performAdopt api (AScale ns n) w = snd (ad_Scale api w ns n)"
| "performAdopt api (APVC o') w = snd (ad_UpdatePVC api w o')"
| "performAdopt api (AService o') w = snd (ad_UpdateService api w o')"
| "performAdopt api (AIngress o') w = snd (ad_UpdateIngress api w o')"

text \<open>An object that adoption may take: without a controller, or controlled by the named legacy resource.\<close>

definition adoptable :: "'w AdoptAPI \<Rightarrow> AdoptObject \<Rightarrow> string \<Rightarrow> bool" where
  "adoptable api obj src \<longleftrightarrow>
     (case ad_GetControllerOf api (ao_Meta obj) of None \<Rightarrow> True | Some ref \<Rightarrow> isExpectedLegacyOwnerRef ref src)"

definition allowedAdopt :: "'w AdoptAPI \<Rightarrow> OGXServer \<Rightarrow> 'w \<Rightarrow> adopt_write \<Rightarrow> bool" where
  "allowedAdopt api inst w wr \<longleftrightarrow>
     (let ns = meta_Namespace (srv_ObjectMeta inst); st = GetAdoptStorageSource inst; nw = GetAdoptNetworkingSource inst in
      case wr of
        AScale ns' n \<Rightarrow> ns' = ns \<and> n = st \<and> st \<noteq> [] \<and> st \<noteq> meta_Name (srv_ObjectMeta inst)
      | APVC new \<Rightarrow>
          (case ad_GetPVC api w ns (st @ ''-pvc'') of
             Inl _ \<Rightarrow> False
           | Inr pvc \<Rightarrow> adoptable api pvc st
               \<and> list_all (\<lambda>ref. owner_Controller ref \<noteq> Some True) (meta_OwnerReferences (ao_Meta new))
               \<and> meta_Name (ao_Meta new) = meta_Name (ao_Meta pvc))
      | AService new \<Rightarrow>
          (case ad_GetService api w ns (nw @ ''-service'') of
             Inl _ \<Rightarrow> False
           | Inr svc \<Rightarrow> adoptable api svc nw
               \<and> mget (ao_Selector new) instanceLabelKey = Some (meta_Name (srv_ObjectMeta inst)))
      | AIngress new \<Rightarrow>
          (case ad_GetIngress api w ns (nw @ ''-ingress'') of
             Inl _ \<Rightarrow> False
           | Inr ing \<Rightarrow> adoptable api ing nw))"

text \<open>
  The states that a pass started in \<open>w0\<close> can reach: every write is allowed by what was read at a
  state of the same pass.
\<close>

inductive runsAdopt :: "'w AdoptAPI \<Rightarrow> OGXServer \<Rightarrow> 'w \<Rightarrow> 'w \<Rightarrow> bool" for api inst w0 where
  begins: "runsAdopt api inst w0 w0"
| writes: "runsAdopt api inst w0 w \<Longrightarrow> runsAdopt api inst w0 w_read \<Longrightarrow> allowedAdopt api inst w_read wr
    \<Longrightarrow> runsAdopt api inst w0 (performAdopt api wr w)"

declare runsAdopt.begins [simp, intro]

lemma runsAdopt_trans: "runsAdopt api inst w1 w2 \<Longrightarrow> runsAdopt api inst w w1 \<Longrightarrow> runsAdopt api inst w w2"
  by (induction rule: runsAdopt.induct) (auto intro: runsAdopt.writes)

lemma unexpectedOwner_None: "unexpectedOwner api (ao_Meta obj) src = None \<longleftrightarrow> adoptable api obj src"
  by (auto simp: unexpectedOwner_def adoptable_def split: option.split)

lemma detach_write:
  assumes "ad_GetPVC api w0 (meta_Namespace (srv_ObjectMeta inst)) (GetAdoptStorageSource inst @ ''-pvc'') = Inr pvc"
    and w: "runsAdopt api inst w0 w"
  shows "runsAdopt api inst w0 (snd (detachAndLabelPVC api now n pvc (GetAdoptStorageSource inst) w))"
proof (cases "adoptable api pvc (GetAdoptStorageSource inst)")
  case True
  define m where "m = stripController (ao_Meta pvc)"
  define new where "new = pvc\<lparr>ao_Meta := m\<lparr>meta_Labels := mput instanceLabelKey n (mput AdoptedFromLabel (GetAdoptStorageSource inst) (meta_Labels m)),
      meta_Annotations := mput AdoptedAtAnnotation (ad_FormatTime api now) (meta_Annotations m)\<rparr>\<rparr>"
  have "snd (detachAndLabelPVC api now n pvc (GetAdoptStorageSource inst) w) = performAdopt api (APVC new) w"
    using True [folded unexpectedOwner_None]
    by (auto simp: detachAndLabelPVC_def new_def m_def Let_def split: prod.split option.split)
  moreover have "allowedAdopt api inst w0 (APVC new)"
    using assms True by (auto simp: allowedAdopt_def new_def m_def stripController_def Let_def list_all_iff)
  ultimately show ?thesis using runsAdopt.writes [OF w runsAdopt.begins] by metis
next
  case False
  then obtain e where "unexpectedOwner api (ao_Meta pvc) (GetAdoptStorageSource inst) = Some e"
    using unexpectedOwner_None by (metis not_None_eq)
  then show ?thesis using w by (simp add: detachAndLabelPVC_def)
qed

lemma scale_write:
  assumes "GetAdoptStorageSource inst \<noteq> []" "GetAdoptStorageSource inst \<noteq> meta_Name (srv_ObjectMeta inst)"
  shows "runsAdopt api inst w (snd (scaleDownLegacyDeployment api (meta_Namespace (srv_ObjectMeta inst)) (GetAdoptStorageSource inst) w))"
proof -
  let ?w = "snd (scaleDownLegacyDeployment api (meta_Namespace (srv_ObjectMeta inst)) (GetAdoptStorageSource inst) w)"
  have "?w = w \<or> ?w = performAdopt api (AScale (meta_Namespace (srv_ObjectMeta inst)) (GetAdoptStorageSource inst)) w"
    by (auto simp: scaleDownLegacyDeployment_def split: sum.split api_error.split prod.split option.split)
  moreover have "allowedAdopt api inst w (AScale (meta_Namespace (srv_ObjectMeta inst)) (GetAdoptStorageSource inst))"
    using assms by (simp add: allowedAdopt_def)
  ultimately show ?thesis using runsAdopt.writes [OF runsAdopt.begins runsAdopt.begins] runsAdopt.begins by metis
qed

lemma transfer_write:
  assumes "\<And>m. adoptable api obj src \<Longrightarrow> allowedAdopt api inst w (wr (obj\<lparr>ao_Meta := m\<rparr>))"
    and "\<And>new. snd (update w new) = performAdopt api (wr new) w"
  shows "runsAdopt api inst w (snd (transferOwnership api update now owner obj src w))"
proof -
  have "snd (transferOwnership api update now owner obj src w) = w
      \<or> (adoptable api obj src \<and> (\<exists>m. snd (transferOwnership api update now owner obj src w) = snd (update w (obj\<lparr>ao_Meta := m\<rparr>))))"
    unfolding unexpectedOwner_None [symmetric]
    by (cases "unexpectedOwner api (ao_Meta obj) src")
      (auto simp: transferOwnership_def Let_def split: option.split sum.split prod.split, (metis sndI)+)
  then show ?thesis using assms runsAdopt.writes [OF runsAdopt.begins runsAdopt.begins] runsAdopt.begins by metis
qed

text \<open>A step of the pass that changes the cluster by allowed writes and keeps what the writes depend on.\<close>

definition adoptStep :: "'w AdoptAPI \<Rightarrow> 'w Pass \<Rightarrow> 'w Pass \<Rightarrow> bool" where
  "adoptStep api p p' \<longleftrightarrow> runsAdopt api (ps_Instance p) (ps_World p) (ps_World p')
     \<and> srv_ObjectMeta (ps_Instance p') = srv_ObjectMeta (ps_Instance p)"

lemma source_meta: "srv_ObjectMeta i = srv_ObjectMeta j \<Longrightarrow>
    GetAdoptStorageSource i = GetAdoptStorageSource j \<and> GetAdoptNetworkingSource i = GetAdoptNetworkingSource j"
  by (simp add: GetAdoptStorageSource_def GetAdoptNetworkingSource_def annotationOf_def)

lemma allowedAdopt_meta:
  assumes "srv_ObjectMeta i = srv_ObjectMeta j"
  shows "allowedAdopt api i w wr = allowedAdopt api j w wr"
  unfolding allowedAdopt_def assms source_meta [OF assms, THEN conjunct1] source_meta [OF assms, THEN conjunct2] ..

lemma runsAdopt_meta:
  assumes "runsAdopt api i w w'" "srv_ObjectMeta i = srv_ObjectMeta j"
  shows "runsAdopt api j w w'"
  using assms(1)
proof (induction rule: runsAdopt.induct)
  case (writes w1 w2 wr)
  show ?case by (rule runsAdopt.writes [OF writes.IH writes.hyps(3) [unfolded allowedAdopt_meta [OF assms(2)]]])
qed (rule runsAdopt.begins)

lemma adoptStep_trans: "adoptStep api p p1 \<Longrightarrow> adoptStep api p1 p2 \<Longrightarrow> adoptStep api p p2"
  using runsAdopt_meta [of api "ps_Instance p1" "ps_World p1" "ps_World p2" "ps_Instance p"]
  by (auto simp: adoptStep_def intro: runsAdopt_trans)

lemma adoptStep_refl [simp, intro]: "adoptStep api p p" "adoptStep api p (withStatus f p)"
  by (simp_all add: adoptStep_def withStatus_def)

lemma adoptStep_world:
  "runsAdopt api (ps_Instance p) (ps_World p) w \<Longrightarrow> adoptStep api p (p\<lparr>ps_World := w\<rparr>) \<and> adoptStep api p (withStatus f (p\<lparr>ps_World := w\<rparr>))"
  by (simp add: adoptStep_def withStatus_def)

lemma adoptStorage_step:
  assumes "GetAdoptStorageSource (ps_Instance p) \<noteq> []"
    "GetAdoptStorageSource (ps_Instance p) \<noteq> meta_Name (srv_ObjectMeta (ps_Instance p))"
  shows "adoptStep api p (snd (adoptStorage api now (GetAdoptStorageSource (ps_Instance p)) p))"
proof (cases "ad_GetPVC api (ps_World p) (meta_Namespace (srv_ObjectMeta (ps_Instance p))) (GetAdoptStorageSource (ps_Instance p) @ ''-pvc'')")
  case (Inl e)
  then show ?thesis by (cases e) (simp_all add: adoptStorage_def Let_def)
next
  case (Inr pvc)
  obtain res w where s: "scaleDownLegacyDeployment api (meta_Namespace (srv_ObjectMeta (ps_Instance p)))
      (GetAdoptStorageSource (ps_Instance p)) (ps_World p) = (res, w)" by force
  have w: "runsAdopt api (ps_Instance p) (ps_World p) w" using scale_write [OF assms, of api "ps_World p"] s by simp
  obtain eo w' where d: "detachAndLabelPVC api now (meta_Name (srv_ObjectMeta (ps_Instance p))) pvc
      (GetAdoptStorageSource (ps_Instance p)) w = (eo, w')" by force
  have w': "runsAdopt api (ps_Instance p) (ps_World p) w'"
    using detach_write [OF Inr w, of now "meta_Name (srv_ObjectMeta (ps_Instance p))"] d by simp
  show ?thesis
    using Inr s d adoptStep_world [OF w] adoptStep_world [OF w']
    by (auto simp: adoptStorage_def Let_def split: sum.split bool.split option.split)
qed

lemma adoptService_step: "adoptStep api p (snd (adoptLegacyService api now (GetAdoptNetworkingSource (ps_Instance p)) p))"
proof (cases "ad_GetService api (ps_World p) (meta_Namespace (srv_ObjectMeta (ps_Instance p))) (GetAdoptNetworkingSource (ps_Instance p) @ ''-service'')")
  case (Inl e)
  then show ?thesis by (cases e) (simp_all add: adoptLegacyService_def Let_def)
next
  case (Inr svc)
  let ?svc = "svc\<lparr>ao_Selector := mlit [(''app'', ''ogx''), (instanceLabelKey, meta_Name (srv_ObjectMeta (ps_Instance p)))]\<rparr>"
  have "allowedAdopt api (ps_Instance p) (ps_World p) (AService (?svc\<lparr>ao_Meta := m\<rparr>))" if "adoptable api ?svc (GetAdoptNetworkingSource (ps_Instance p))" for m
    using Inr that by (auto simp: allowedAdopt_def adoptable_def mlit_def Let_def)
  then have t: "runsAdopt api (ps_Instance p) (ps_World p) (snd (transferOwnership api (ad_UpdateService api) now
      (srv_ObjectMeta (ps_Instance p)) ?svc (GetAdoptNetworkingSource (ps_Instance p)) (ps_World p)))"
    by (intro transfer_write [where wr = AService]) auto
  then show ?thesis
    using Inr adoptStep_world by (fastforce simp: adoptLegacyService_def Let_def split: prod.split option.split)
qed

lemma adoptIngress_step: "adoptStep api p (snd (adoptLegacyIngress api now (GetAdoptNetworkingSource (ps_Instance p)) p))"
proof (cases "ad_GetIngress api (ps_World p) (meta_Namespace (srv_ObjectMeta (ps_Instance p))) (GetAdoptNetworkingSource (ps_Instance p) @ ''-ingress'')")
  case (Inl e)
  then show ?thesis by (cases e) (simp_all add: adoptLegacyIngress_def Let_def)
next
  case (Inr ing)
  have "allowedAdopt api (ps_Instance p) (ps_World p) (AIngress (ing\<lparr>ao_Meta := m\<rparr>))" if "adoptable api ing (GetAdoptNetworkingSource (ps_Instance p))" for m
    using Inr that by (auto simp: allowedAdopt_def Let_def)
  then have t: "runsAdopt api (ps_Instance p) (ps_World p) (snd (transferOwnership api (ad_UpdateIngress api) now
      (srv_ObjectMeta (ps_Instance p)) ing (GetAdoptNetworkingSource (ps_Instance p)) (ps_World p)))"
    by (intro transfer_write [where wr = AIngress]) auto
  then show ?thesis
    using Inr adoptStep_world by (fastforce simp: adoptLegacyIngress_def Let_def split: prod.split option.split)
qed

lemma adoptNetworking_step: "adoptStep api p (snd (adoptNetworking api now (GetAdoptNetworkingSource (ps_Instance p)) p))"
proof -
  let ?nw = "GetAdoptNetworkingSource (ps_Instance p)"
  obtain r1 p1 where s: "adoptLegacyService api now ?nw p = (r1, p1)" by force
  then have p1: "adoptStep api p p1" using adoptService_step [of api p now] by simp
  then have "GetAdoptNetworkingSource (ps_Instance p1) = ?nw" using source_meta by (metis adoptStep_def)
  obtain r2 p2 where i: "adoptLegacyIngress api now ?nw p1 = (r2, p2)" by force
  then have p2: "adoptStep api p p2"
    using adoptIngress_step [of api p1 now] adoptStep_trans [OF p1] \<open>GetAdoptNetworkingSource (ps_Instance p1) = ?nw\<close> by simp
  show ?thesis using s i p1 p2 adoptStep_trans [OF p2 adoptStep_refl(2)]
    by (auto simp: adoptNetworking_def split: sum.split)
qed

text \<open>A source that a pass may act on: none at all, or a DNS label other than the instance's own name.\<close>

definition usableSource :: "OGXServer \<Rightarrow> string \<Rightarrow> bool" where
  "usableSource inst src \<longleftrightarrow>
     src = [] \<or> (src \<noteq> meta_Name (srv_ObjectMeta inst) \<and> ValidateAdoptionAnnotation src = None)"

text \<open>A claim controlled by a StatefulSet, next to a running Deployment of the annotated name; the world is the replicas.\<close>

definition exForeignPVC :: AdoptObject where
  "exForeignPVC = \<lparr>ao_Meta = \<lparr>meta_Name = ''old-pvc'', meta_Namespace = ''ns'', meta_UID = [], meta_Generation = 0, meta_ResourceVersion = [],
      meta_Labels = mempty, meta_Annotations = mempty,
      meta_OwnerReferences = [\<lparr>owner_APIVersion = ''apps/v1'', owner_Kind = ''StatefulSet'', owner_Name = ''db'', owner_UID = [], owner_Controller = Some True\<rparr>], meta_DeletionTimestamp = None\<rparr>, ao_Selector = mempty\<rparr>"

definition exAdoptAPI :: "int AdoptAPI" where
  "exAdoptAPI =
     \<lparr>ad_GetPVC = (\<lambda>w ns n. if n = ''old-pvc'' then Inr exForeignPVC else Inl (NotFound n)), ad_UpdatePVC = (\<lambda>w _. (None, w)),
      ad_Replicas = (\<lambda>w ns n. Inr (Some w)), ad_Scale = (\<lambda>w ns n. (None, 0)), ad_CountPods = (\<lambda>w ns n. Inr (nat w)),
      ad_GetService = (\<lambda>w ns n. Inl (NotFound n)), ad_UpdateService = (\<lambda>w _. (None, w)), ad_DeleteService = (\<lambda>w _. (None, w)),
      ad_AdoptedServices = (\<lambda>w _. Inr []), ad_GetIngress = (\<lambda>w ns n. Inl (NotFound n)), ad_UpdateIngress = (\<lambda>w _. (None, w)),
      ad_DeleteIngress = (\<lambda>w _. (None, w)), ad_AdoptedIngresses = (\<lambda>w _. Inr []), ad_AdoptedPVCs = (\<lambda>w _ _. Inr []),
      ad_GetControllerOf = (\<lambda>m. find (\<lambda>ref. owner_Controller ref = Some True) (meta_OwnerReferences m)),
      ad_IsControlledBy = (\<lambda>m o'. False), ad_SetControllerReference = (\<lambda>o' m. Inr m), ad_FormatTime = (\<lambda>_. []), ad_IsPrint = (\<lambda>_. True)\<rparr>"

lemma adoption_step:
  "adoptStep api p (snd (adoptLegacyResources api now p))
   \<and> (ps_World (snd (adoptLegacyResources api now p)) = ps_World p
      \<or> usableSource (ps_Instance p) (GetAdoptStorageSource (ps_Instance p))
        \<and> usableSource (ps_Instance p) (GetAdoptNetworkingSource (ps_Instance p)))"
proof -
  let ?inst = "ps_Instance p"
  let ?st = "GetAdoptStorageSource ?inst" and ?nw = "GetAdoptNetworkingSource ?inst" and ?n = "meta_Name (srv_ObjectMeta ?inst)"
  obtain valid s where v: "validateAdoptionSources api now ?n ?st ?nw (srv_Status ?inst) = (valid, s)" by force
  have ok: "usableSource ?inst ?st" "usableSource ?inst ?nw" if valid
    using v that unfolding usableSource_def
    by (auto simp: validateAdoptionSources_def validateAdoptionSource_def split: if_splits option.splits prod.splits bool.splits)
  let ?p0 = "withStatus (\<lambda>_. clearAdoptionConfigInvalidCondition now s) p"
  have p0: "adoptStep api p ?p0" "srv_ObjectMeta (ps_Instance ?p0) = srv_ObjectMeta ?inst" "ps_World ?p0 = ps_World p"
    by (rule adoptStep_refl(2)) (simp_all add: withStatus_def)
  note src0 = source_meta [OF p0(2)]
  obtain r1 p1 where s1: "adoptStorageSource api now ?st ?p0 = (r1, p1)" by force
  have p1: "adoptStep api p p1" if valid
  proof (cases "?st = []")
    case False
    then have "adoptStep api ?p0 (snd (adoptStorage api now ?st ?p0))"
      using adoptStorage_step [of ?p0 api now] ok(1) [OF that] src0 p0(2) by (simp add: usableSource_def)
    then show ?thesis using s1 False adoptStep_trans [OF p0(1)]
      by (auto simp: adoptStorageSource_def split: prod.splits sum.splits)
  qed (use s1 p0 in \<open>auto simp: adoptStorageSource_def\<close>)
  obtain r2 p2 where s2: "adoptNetworkingSource api now ?nw p1 = (r2, p2)" by force
  have p2: "adoptStep api p p2" if valid
  proof (cases "?nw = []")
    case False
    have "GetAdoptNetworkingSource (ps_Instance p1) = ?nw" using p1 [OF that] source_meta by (metis adoptStep_def)
    then have "adoptStep api p1 (snd (adoptNetworking api now ?nw p1))" using adoptNetworking_step [of api p1 now] by simp
    then show ?thesis using s2 False adoptStep_trans [OF p1 [OF that]]
      by (auto simp: adoptNetworkingSource_def split: prod.splits option.splits)
  qed (use s2 p1 that in \<open>auto simp: adoptNetworkingSource_def\<close>)
  have "adoptStep api p (snd (adoptLegacyResources api now p))"
    using v s1 s2 p1 p2 by (auto simp: adoptLegacyResources_def Let_def split: sum.split option.split)
  moreover have "ps_World (snd (adoptLegacyResources api now p)) = ps_World p" if "\<not> valid \<or> (?st = [] \<and> ?nw = [])"
    using v that by (auto simp: adoptLegacyResources_def Let_def withStatus_def)
  ultimately show ?thesis using ok by blast
qed

section \<open>Properties\<close>


text \<open>
  (C40) The Deployment is scaled down before the controller of the claim is looked at: for a claim that
  belongs to somebody else the pass fails, and the Deployment of that name stays at zero.
\<close>

theorem adoption_scales_before_ownership_check:
  assumes "ad_GetPVC api (ps_World p) (meta_Namespace (srv_ObjectMeta (ps_Instance p))) (src @ ''-pvc'') = Inr pvc"
    and "mget (meta_Labels (ao_Meta pvc)) AdoptedFromLabel \<noteq> Some src"
    and "ad_Replicas api (ps_World p) (meta_Namespace (srv_ObjectMeta (ps_Instance p))) src = Inr (Some (1 + int n))"
    and "ad_Scale api (ps_World p) (meta_Namespace (srv_ObjectMeta (ps_Instance p))) src = (None, w)"
    and "ad_CountPods api w (meta_Namespace (srv_ObjectMeta (ps_Instance p))) src = Inr 0"
    and "\<not> adoptable api pvc src"
  shows "\<exists>e. adoptStorage api now src p = (Inl e, p\<lparr>ps_World := w\<rparr>)"
proof -
  obtain e where "unexpectedOwner api (ao_Meta pvc) src = Some e"
    using assms(6) unexpectedOwner_None by (metis not_None_eq)
  with assms show ?thesis
    by (simp add: adoptStorage_def scaleDownLegacyDeployment_def detachAndLabelPVC_def)
qed

theorem adoption_scales_before_ownership_check_witness:
  "\<exists>e. adoptStorage exAdoptAPI 0 ''old'' \<lparr>ps_Instance = exNetServer, ps_World = 2, ps_Events = []\<rparr>
     = (Inl e, \<lparr>ps_Instance = exNetServer, ps_World = 0, ps_Events = []\<rparr>)"
  using adoption_scales_before_ownership_check [of exAdoptAPI "\<lparr>ps_Instance = exNetServer, ps_World = 2, ps_Events = []\<rparr>" "''old''" exForeignPVC 1 0 0]
  by (simp add: exAdoptAPI_def exForeignPVC_def adoptable_def isExpectedLegacyOwnerRef_def mempty_def)

end
