(* ===== verification/Ingress.thy ===== *)
theory Ingress
  imports Network_Policy
begin

text \<open>
  External access (\<open>controllers/network_resources.go\<close>): building, creating, updating and removing the
  Ingress of an instance.  The API server's operations on Ingress objects are the fields of
  \<open>IngressAPI\<close>.
\<close>

record IngressRule =
  igr_Host :: string
  igr_Path :: string
  igr_PathType :: string
  igr_ServiceName :: string
  igr_ServicePort :: int

record IngressTLS =
  igt_Hosts :: "string list"
  igt_SecretName :: string

record LoadBalancerIngress =
  lbi_Hostname :: string
  lbi_IP :: string

record Ingress =
  ing_ObjectMeta :: ObjectMeta
  ing_TLS :: "IngressTLS list"
  ing_Rules :: "IngressRule list"
  ing_LoadBalancer :: "LoadBalancerIngress list"

record 'w IngressAPI =
  ia_Get :: "'w \<Rightarrow> string \<Rightarrow> string \<Rightarrow> api_error + Ingress"
  ia_Create :: "'w \<Rightarrow> Ingress \<Rightarrow> api_error option \<times> 'w"
  ia_Update :: "'w \<Rightarrow> Ingress \<Rightarrow> api_error option \<times> 'w"
  ia_Delete :: "'w \<Rightarrow> Ingress \<Rightarrow> api_error option \<times> 'w"
  ia_SetControllerReference :: "ObjectMeta \<Rightarrow> Ingress \<Rightarrow> string + Ingress"
  ia_IsControlledBy :: "Ingress \<Rightarrow> ObjectMeta \<Rightarrow> bool"
  ia_HasRecorder :: bool

definition IngressNameSuffix :: string where
  "IngressNameSuffix = ''-ingress''"

definition ingressName :: "OGXServer \<Rightarrow> string" where
  "ingressName inst = meta_Name (srv_ObjectMeta inst) @ IngressNameSuffix"

definition externalAccess :: "OGXServer \<Rightarrow> ExternalAccessConfig option" where
  "externalAccess inst = (case spec_Network (srv_Spec inst) of None \<Rightarrow> None | Some n \<Rightarrow> net_ExternalAccess n)"

definition externalAccessRequested :: "OGXServer \<Rightarrow> bool" where
  "externalAccessRequested inst = (case externalAccess inst of None \<Rightarrow> False | Some ea \<Rightarrow> ea_Enabled ea)"

definition externalAccessIsSafeToExpose :: "OGXServer \<Rightarrow> bool" where
  "externalAccessIsSafeToExpose inst =
     (if \<not> externalAccessRequested inst then False
      else case externalAccess inst of None \<Rightarrow> False
           | Some ea \<Rightarrow> ea_Hostname ea \<noteq> [] \<and>
               (case ea_TLS ea of None \<Rightarrow> False | Some t \<Rightarrow> tls_SecretName t \<noteq> []))"

definition buildIngress :: "'w IngressAPI \<Rightarrow> OGXServer \<Rightarrow> string + Ingress" where
  "buildIngress api inst =
     (if \<not> externalAccessIsSafeToExpose inst
      then Inl ''failed to build Ingress: hostname and TLS secretName are required''
      else case externalAccess inst of None \<Rightarrow> Inl []
        | Some ea \<Rightarrow>
          (let host = ea_Hostname ea;
               secret = (case ea_TLS ea of None \<Rightarrow> [] | Some t \<Rightarrow> tls_SecretName t);
               ing = \<lparr>ing_ObjectMeta =
                        \<lparr>meta_Name = ingressName inst, meta_Namespace = meta_Namespace (srv_ObjectMeta inst),
                         meta_UID = [], meta_Generation = 0, meta_ResourceVersion = [],
                         meta_Labels = mlit [(''app.kubernetes.io/managed-by'', ''ogx-operator''),
                                             (''app.kubernetes.io/instance'', meta_Name (srv_ObjectMeta inst))],
                         meta_Annotations = mempty, meta_OwnerReferences = [], meta_DeletionTimestamp = None\<rparr>,
                      ing_TLS = [\<lparr>igt_Hosts = [host], igt_SecretName = secret\<rparr>],
                      ing_Rules = [\<lparr>igr_Host = host, igr_Path = ''/'', igr_PathType = ''Prefix'',
                                    igr_ServiceName = GetServiceName inst, igr_ServicePort = GetServicePort inst\<rparr>],
                      ing_LoadBalancer = []\<rparr>
           in case ia_SetControllerReference api (srv_ObjectMeta inst) ing of
                Inl e \<Rightarrow> Inl (''failed to set controller reference: '' @ e)
              | Inr ing' \<Rightarrow> Inr ing'))"

definition getIngress :: "'w IngressAPI \<Rightarrow> 'w \<Rightarrow> OGXServer \<Rightarrow> api_error + Ingress" where
  "getIngress api w inst = ia_Get api w (meta_Namespace (srv_ObjectMeta inst)) (ingressName inst)"

definition deleteIngressObject :: "'w IngressAPI \<Rightarrow> Ingress \<Rightarrow> 'w Pass \<Rightarrow> string option \<times> 'w Pass" where
  "deleteIngressObject api ing p =
     (case ia_Delete api (ps_World p) ing of
        (None, w) \<Rightarrow> (None, p\<lparr>ps_World := w\<rparr>)
      | (Some (NotFound _), w) \<Rightarrow> (None, p\<lparr>ps_World := w\<rparr>)
      | (Some e, w) \<Rightarrow> (Some (''failed to delete Ingress: '' @ apiText e), p\<lparr>ps_World := w\<rparr>))"

definition enforceInternalOnlyIngress :: "'w IngressAPI \<Rightarrow> 'w Pass \<Rightarrow> string option \<times> 'w Pass" where
  "enforceInternalOnlyIngress api p =
     (case getIngress api (ps_World p) (ps_Instance p) of
        Inl (NotFound _) \<Rightarrow> (None, p)
      | Inl e \<Rightarrow> (Some (''failed to get Ingress: '' @ apiText e), p)
      | Inr existing \<Rightarrow>
          if \<not> ia_IsControlledBy api existing (srv_ObjectMeta (ps_Instance p)) then (None, p)
          else deleteIngressObject api existing p)"

text \<open>\<open>existing\<close> is the Ingress that was read, when there is one.\<close>

definition handleDisabledIngress :: "'w IngressAPI \<Rightarrow> Ingress option \<Rightarrow> 'w Pass \<Rightarrow> string option \<times> 'w Pass" where
  "handleDisabledIngress api existing p =
     (case existing of
        None \<Rightarrow> (None, p)
      | Some ing \<Rightarrow>
          if \<not> ia_IsControlledBy api ing (srv_ObjectMeta (ps_Instance p)) then (None, p)
          else deleteIngressObject api ing p)"

definition handleEnabledIngress ::
    "'w IngressAPI \<Rightarrow> Ingress option \<Rightarrow> 'w Pass \<Rightarrow> string option \<times> 'w Pass" where
  "handleEnabledIngress api existing p =
     (case buildIngress api (ps_Instance p) of
        Inl e \<Rightarrow> (Some e, p)
      | Inr ing \<Rightarrow>
          (case existing of
             None \<Rightarrow>
               (case ia_Create api (ps_World p) ing of
                  (None, w) \<Rightarrow> (None, p\<lparr>ps_World := w\<rparr>)
                | (Some e, w) \<Rightarrow> (Some (''failed to create Ingress: '' @ apiText e), p\<lparr>ps_World := w\<rparr>))
           | Some old \<Rightarrow>
               if \<not> ia_IsControlledBy api old (srv_ObjectMeta (ps_Instance p)) then (None, p)
               else (case ia_Update api (ps_World p)
                       (ing\<lparr>ing_ObjectMeta := (ing_ObjectMeta ing)
                             \<lparr>meta_ResourceVersion := meta_ResourceVersion (ing_ObjectMeta old)\<rparr>\<rparr>) of
                       (None, w) \<Rightarrow> (None, p\<lparr>ps_World := w\<rparr>)
                     | (Some e, w) \<Rightarrow> (Some (''failed to update Ingress: '' @ apiText e), p\<lparr>ps_World := w\<rparr>))))"

definition ReasonInsecureExternalAccess :: string where
  "ReasonInsecureExternalAccess = ''InsecureExternalAccess''"

definition warnInsecureExternalAccess :: "'w IngressAPI \<Rightarrow> 'w Pass \<Rightarrow> 'w Pass" where
  "warnInsecureExternalAccess api p =
     (if \<not> ia_HasRecorder api then p
      else p\<lparr>ps_Events := ps_Events p @ [\<lparr>ev_Type = ''Warning'', ev_Reason = ReasonInsecureExternalAccess,
        ev_Message = ''external access is enabled but hostname and TLS secretName are required; skipping Ingress creation and removing operator-owned Ingress''\<rparr>]\<rparr>)"

definition reconcileLegacyIngress :: "'w IngressAPI \<Rightarrow> 'w Pass \<Rightarrow> string option \<times> 'w Pass" where
  "reconcileLegacyIngress api p =
     (let inst = ps_Instance p;
          continue = (\<lambda>existing.
            if \<not> externalAccessRequested inst \<or> \<not> externalAccessIsSafeToExpose inst
            then handleDisabledIngress api existing
                   (if externalAccessRequested inst then warnInsecureExternalAccess api p else p)
            else handleEnabledIngress api existing p)
      in case getIngress api (ps_World p) inst of
           Inr ing \<Rightarrow> continue (Some ing)
         | Inl (NotFound _) \<Rightarrow> continue None
         | Inl e \<Rightarrow> (Some (''failed to get Ingress: '' @ apiText e), p))"

definition reconcileIngress :: "'w IngressAPI \<Rightarrow> 'w Pass \<Rightarrow> string option \<times> 'w Pass" where
  "reconcileIngress api p =
     (if IsPraxisModeEnabled (srv_Spec (ps_Instance p)) then enforceInternalOnlyIngress api p
      else reconcileLegacyIngress api p)"

definition cleanupUnsafeOwnedIngress :: "'w IngressAPI \<Rightarrow> 'w Pass \<Rightarrow> string option \<times> 'w Pass" where
  "cleanupUnsafeOwnedIngress api p =
     (let inst = ps_Instance p in
      if IsPraxisModeEnabled (srv_Spec inst) then (None, p)
      else if \<not> externalAccessRequested inst \<or> externalAccessIsSafeToExpose inst then (None, p)
      else let p1 = warnInsecureExternalAccess api p in
        case getIngress api (ps_World p1) inst of
          Inr ing \<Rightarrow> handleDisabledIngress api (Some ing) p1
        | Inl (NotFound _) \<Rightarrow> handleDisabledIngress api None p1
        | Inl e \<Rightarrow> (Some (''failed to get Ingress: '' @ apiText e), p1))"

section \<open>The external URL\<close>

text \<open>\<open>url.URL.String\<close> with scheme and host only: bytes that a host may not contain are escaped.\<close>

definition hostByte :: "char \<Rightarrow> bool" where
  "hostByte c \<longleftrightarrow> isAsciiLower c \<or> isAsciiUpper c \<or> isDigit c
     \<or> c \<in> set ''-_.~!$&()*+,;=:[]<>'' \<or> c = CHR 0x27 \<or> c = CHR 0x22"

definition upperHex :: "nat \<Rightarrow> char" where
  "upperHex n = ''0123456789ABCDEF'' ! n"

definition escapeHost :: "string \<Rightarrow> string" where
  "escapeHost host =
     concat (map (\<lambda>c. if hostByte c then [c]
        else [CHR ''%'', upperHex (of_char c div 16), upperHex (of_char c mod 16)]) host)"

definition buildURLString :: "string \<Rightarrow> string" where
  "buildURLString host = ''https://'' @ escapeHost host"

definition getIngressURL :: "'w IngressAPI \<Rightarrow> 'w \<Rightarrow> OGXServer \<Rightarrow> string option" where
  "getIngressURL api w inst =
     (if \<not> externalAccessRequested inst then None
      else case getIngress api w inst of
        Inl _ \<Rightarrow> Some []
      | Inr ing \<Rightarrow>
          (let fromRules = (case ing_Rules ing of
                 r # _ \<Rightarrow> if igr_Host r \<noteq> [] then Some (buildURLString (igr_Host r)) else Some []
               | [] \<Rightarrow> Some [])
           in case ing_LoadBalancer ing of
                lb # _ \<Rightarrow> if lbi_Hostname lb \<noteq> [] then Some (buildURLString (lbi_Hostname lb))
                         else if lbi_IP lb \<noteq> [] then Some (buildURLString (lbi_IP lb)) else fromRules
              | [] \<Rightarrow> fromRules))"

section \<open>Which writes a pass makes\<close>

datatype ingress_write = NoWrite | WCreate Ingress | WUpdate Ingress | WDelete Ingress

fun performWrite :: "'w IngressAPI \<Rightarrow> ingress_write \<Rightarrow> 'w \<Rightarrow> 'w" where
  "performWrite api NoWrite w = w"
| "performWrite api (WCreate i) w = snd (ia_Create api w i)"
| "performWrite api (WUpdate i) w = snd (ia_Update api w i)"
| "performWrite api (WDelete i) w = snd (ia_Delete api w i)"

text \<open>An Ingress that serves one host over TLS with a named Secret, and routes to the instance.\<close>

definition secureIngress :: "OGXServer \<Rightarrow> Ingress \<Rightarrow> bool" where
  "secureIngress inst i \<longleftrightarrow>
     (case (ing_TLS i, ing_Rules i) of
        ([t], [r]) \<Rightarrow> igr_Host r \<noteq> [] \<and> igt_Hosts t = [igr_Host r] \<and> igt_SecretName t \<noteq> []
          \<and> igr_ServiceName r = GetServiceName inst \<and> igr_ServicePort r = GetServicePort inst
      | _ \<Rightarrow> False)"

text \<open>What is relied on of \<open>SetControllerReference\<close>: it changes the metadata only.\<close>

definition setsOwnerOnly :: "'w IngressAPI \<Rightarrow> bool" where
  "setsOwnerOnly api \<longleftrightarrow>
     (\<forall>owner i i'. ia_SetControllerReference api owner i = Inr i' \<longrightarrow>
        ing_TLS i' = ing_TLS i \<and> ing_Rules i' = ing_Rules i)"

lemma buildIngress_secure:
  "setsOwnerOnly api \<Longrightarrow> buildIngress api inst = Inr i \<Longrightarrow>
     secureIngress inst i \<and> secureIngress inst (i\<lparr>ing_ObjectMeta := m\<rparr>) \<and> externalAccessIsSafeToExpose inst"
  by (auto simp: buildIngress_def secureIngress_def setsOwnerOnly_def externalAccessIsSafeToExpose_def Let_def
      split: if_splits option.splits sum.splits)

lemma deleteIngressObject_world:
  "ps_World (snd (deleteIngressObject api i p)) = performWrite api (WDelete i) (ps_World p)"
  by (auto simp: deleteIngressObject_def split: prod.split option.split api_error.split)

definition allowedWrite :: "'w IngressAPI \<Rightarrow> OGXServer \<Rightarrow> 'w \<Rightarrow> ingress_write \<Rightarrow> bool" where
  "allowedWrite api inst w wr \<longleftrightarrow>
     (case wr of
        NoWrite \<Rightarrow> True
      | WCreate i \<Rightarrow> secureIngress inst i \<and> externalAccessIsSafeToExpose inst
          \<and> (\<exists>t. getIngress api w inst = Inl (NotFound t))
      | WUpdate i \<Rightarrow> secureIngress inst i \<and> externalAccessIsSafeToExpose inst
          \<and> (\<exists>old. getIngress api w inst = Inr old \<and> ia_IsControlledBy api old (srv_ObjectMeta inst))
      | WDelete i \<Rightarrow> getIngress api w inst = Inr i \<and> ia_IsControlledBy api i (srv_ObjectMeta inst)
          \<and> (IsPraxisModeEnabled (srv_Spec inst) \<or> \<not> externalAccessIsSafeToExpose inst))"

lemma warn_simps [simp]:
  "ps_World (warnInsecureExternalAccess api p) = ps_World p"
  "ps_Instance (warnInsecureExternalAccess api p) = ps_Instance p"
  by (simp_all add: warnInsecureExternalAccess_def)

lemma handleDisabled_write:
  assumes "\<forall>i. ex = Some i \<longrightarrow> getIngress api (ps_World p) (ps_Instance p) = Inr i"
    and "IsPraxisModeEnabled (srv_Spec (ps_Instance p)) \<or> \<not> externalAccessIsSafeToExpose (ps_Instance p)"
  shows "\<exists>wr. ps_World (snd (handleDisabledIngress api ex p)) = performWrite api wr (ps_World p)
    \<and> allowedWrite api (ps_Instance p) (ps_World p) wr"
proof (cases "\<exists>i. ex = Some i \<and> ia_IsControlledBy api i (srv_ObjectMeta (ps_Instance p))")
  case True
  then obtain i where i: "ex = Some i" "ia_IsControlledBy api i (srv_ObjectMeta (ps_Instance p))" by blast
  then show ?thesis using assms
    by (intro exI [of _ "WDelete i"]) (simp add: handleDisabledIngress_def deleteIngressObject_world allowedWrite_def)
next
  case False
  then show ?thesis
    by (intro exI [of _ NoWrite]) (auto simp: handleDisabledIngress_def allowedWrite_def split: option.split)
qed

lemma handleEnabled_write:
  assumes "setsOwnerOnly api" "\<not> IsPraxisModeEnabled (srv_Spec (ps_Instance p))"
    and "ex = None \<Longrightarrow> \<exists>t. getIngress api (ps_World p) (ps_Instance p) = Inl (NotFound t)"
    and "\<And>i. ex = Some i \<Longrightarrow> getIngress api (ps_World p) (ps_Instance p) = Inr i"
  shows "\<exists>wr. ps_World (snd (handleEnabledIngress api ex p)) = performWrite api wr (ps_World p)
    \<and> allowedWrite api (ps_Instance p) (ps_World p) wr"
proof (cases "buildIngress api (ps_Instance p)")
  case (Inl e)
  then show ?thesis by (intro exI [of _ NoWrite]) (simp add: handleEnabledIngress_def allowedWrite_def)
next
  case (Inr ing)
  note sec = buildIngress_secure [OF assms(1) Inr]
  show ?thesis
  proof (cases ex)
    case None
    then show ?thesis using Inr sec assms(3)
      by (intro exI [of _ "WCreate ing"])
         (auto simp: handleEnabledIngress_def allowedWrite_def split: prod.split option.split)
  next
    case (Some old)
    show ?thesis
    proof (cases "ia_IsControlledBy api old (srv_ObjectMeta (ps_Instance p))")
      case True
      let ?i = "ing\<lparr>ing_ObjectMeta := (ing_ObjectMeta ing)\<lparr>meta_ResourceVersion := meta_ResourceVersion (ing_ObjectMeta old)\<rparr>\<rparr>"
      show ?thesis using Inr Some True sec assms(4)
        by (intro exI [of _ "WUpdate ?i"])
           (auto simp: handleEnabledIngress_def allowedWrite_def split: prod.split option.split)
    next
      case False
      then show ?thesis using Inr Some
        by (intro exI [of _ NoWrite]) (simp add: handleEnabledIngress_def allowedWrite_def)
    qed
  qed
qed

lemma ingress_write:
  assumes "setsOwnerOnly api" "reconcileIngress api p = (eo, p')"
  shows "\<exists>wr. ps_World p' = performWrite api wr (ps_World p)
    \<and> allowedWrite api (ps_Instance p) (ps_World p) wr
    \<and> (IsPraxisModeEnabled (srv_Spec (ps_Instance p)) \<longrightarrow> wr = NoWrite \<or> (\<exists>i. wr = WDelete i))"
proof (cases "IsPraxisModeEnabled (srv_Spec (ps_Instance p))")
  case True
  show ?thesis
  proof (cases "\<exists>i. getIngress api (ps_World p) (ps_Instance p) = Inr i
      \<and> ia_IsControlledBy api i (srv_ObjectMeta (ps_Instance p))")
    case del: True
    then obtain i where i: "getIngress api (ps_World p) (ps_Instance p) = Inr i"
      "ia_IsControlledBy api i (srv_ObjectMeta (ps_Instance p))" by blast
    then have "p' = snd (deleteIngressObject api i p)"
      using assms(2) True by (simp add: reconcileIngress_def enforceInternalOnlyIngress_def)
    then show ?thesis using i True
      by (intro exI [of _ "WDelete i"]) (simp add: deleteIngressObject_world allowedWrite_def)
  next
    case False
    then have "p' = p"
      using assms(2) True
      by (auto simp: reconcileIngress_def enforceInternalOnlyIngress_def split: sum.splits api_error.splits)
    then show ?thesis by (intro exI [of _ NoWrite]) (simp add: allowedWrite_def)
  qed
next
  case False
  let ?go = "\<lambda>ex. if \<not> externalAccessRequested (ps_Instance p) \<or> \<not> externalAccessIsSafeToExpose (ps_Instance p)
      then handleDisabledIngress api ex (if externalAccessRequested (ps_Instance p) then warnInsecureExternalAccess api p else p)
      else handleEnabledIngress api ex p"
  have unsafe: "\<not> externalAccessRequested (ps_Instance p) \<or> \<not> externalAccessIsSafeToExpose (ps_Instance p)
      \<Longrightarrow> \<not> externalAccessIsSafeToExpose (ps_Instance p)"
    by (auto simp: externalAccessIsSafeToExpose_def)
  have go: "\<exists>wr. ps_World (snd (?go ex)) = performWrite api wr (ps_World p)
      \<and> allowedWrite api (ps_Instance p) (ps_World p) wr"
    if "ex = None \<Longrightarrow> \<exists>t. getIngress api (ps_World p) (ps_Instance p) = Inl (NotFound t)"
      "\<And>i. ex = Some i \<Longrightarrow> getIngress api (ps_World p) (ps_Instance p) = Inr i" for ex
    using handleDisabled_write [of ex api p] handleDisabled_write [of ex api "warnInsecureExternalAccess api p"]
      handleEnabled_write [OF assms(1) False, of ex] that unsafe by auto
  have "reconcileLegacyIngress api p = (eo, p')" using assms(2) False by (simp add: reconcileIngress_def)
  then consider (some) i where "getIngress api (ps_World p) (ps_Instance p) = Inr i" "?go (Some i) = (eo, p')"
    | (none) t where "getIngress api (ps_World p) (ps_Instance p) = Inl (NotFound t)" "?go None = (eo, p')"
    | (err) "p' = p"
    unfolding reconcileLegacyIngress_def Let_def by (auto split: sum.splits api_error.splits)
  then show ?thesis
  proof cases
    case some
    then show ?thesis using go [of "Some i"] False by auto
  next
    case none
    then show ?thesis using go [of None] False by auto
  next
    case err
    then show ?thesis using False by (intro exI [of _ NoWrite]) (simp add: allowedWrite_def)
  qed
qed

section \<open>Properties\<close>


text \<open>A cluster with room for one Ingress, and an instance that asks for external access.\<close>

definition exIngressAPI :: "Ingress option IngressAPI" where
  "exIngressAPI =
     \<lparr>ia_Get = (\<lambda>w ns n. case w of None \<Rightarrow> Inl (NotFound n) | Some i \<Rightarrow> Inr i),
      ia_Create = (\<lambda>w i. (None, Some i)), ia_Update = (\<lambda>w i. (None, Some i)), ia_Delete = (\<lambda>w i. (None, None)),
      ia_SetControllerReference = (\<lambda>owner i. Inr i),
      ia_IsControlledBy = (\<lambda>i owner. meta_Name (ing_ObjectMeta i) = meta_Name owner @ IngressNameSuffix),
      ia_HasRecorder = True\<rparr>"

definition exExposedServer :: OGXServer where
  "exExposedServer = exNetServer\<lparr>srv_Spec := (srv_Spec exNetServer)\<lparr>spec_Network :=
     Some \<lparr>net_Port = 8321, net_TLS = None,
       net_ExternalAccess = Some \<lparr>ea_Enabled = True, ea_Hostname = ''ogx.example.com'',
         ea_TLS = Some \<lparr>tls_SecretName = ''tls''\<rparr>\<rparr>, net_Policy = None\<rparr>\<rparr>\<rparr>"

definition exIngressPass :: "Ingress option Pass" where
  "exIngressPass = \<lparr>ps_Instance = exExposedServer, ps_World = None, ps_Events = []\<rparr>"


end
