(* ===== verification/Manifest_Context.thy ===== *)
theory Manifest_Context
  imports Pod_Spec Render Apply_Resources Config_Maps Adoption Ingress
begin

text \<open>
  What a reconciliation pass renders and applies (\<open>controllers/ogxserver_controller.go\<close>): the manifest
  context with its configuration hashes, the kinds of resources an instance does without, their
  removal, and the rendering, filtering and applying of the rest.
\<close>

section \<open>Interfaces\<close>

text \<open>
  The objects of the kinds that can be excluded are seen through their metadata: \<open>oa_Get\<close> and
  \<open>oa_Delete\<close> take the kind; \<open>oa_IsNoMatch\<close> is \<open>apimeta.IsNoMatchError\<close>.
\<close>

record 'w OwnedAPI =
  oa_Get :: "'w \<Rightarrow> string \<Rightarrow> string \<Rightarrow> string \<Rightarrow> api_error + ObjectMeta"
  oa_Delete :: "'w \<Rightarrow> string \<Rightarrow> ObjectMeta \<Rightarrow> api_error option \<times> 'w"
  oa_IsControlledBy :: "ObjectMeta \<Rightarrow> ObjectMeta \<Rightarrow> bool"
  oa_IsNoMatch :: "api_error \<Rightarrow> bool"

text \<open>
  Everything a pass is given: the reconciler's own fields, the parts of the API server, and the
  libraries.  \<open>op_Rendered\<close> reads a kustomize resource as the object to apply; \<open>op_PodJSON\<close> and
  \<open>op_HPAJSON\<close> are the conversions to unstructured data; \<open>op_KeyOrder\<close> and \<open>op_ByAge\<close> are the orders that
  Go leaves open (map iteration, unstable sorting); \<open>op_GenText\<close> is the text of a generation error.
\<close>

record ('w, 'o, 'r, 't) Operator =
  op_R :: "'w OGXServerReconciler"
  op_Ingress :: "'w IngressAPI"
  op_ConfigMaps :: "'w ConfigMapAPI"
  op_Workload :: "'w WorkloadAPI"
  op_Adopt :: "'w AdoptAPI"
  op_Owned :: "'w OwnedAPI"
  op_Cluster :: "('w, 'o) Cluster"
  op_Kustomize :: "('r, 't) Kustomize"
  op_Renderer :: "'r Renderer"
  op_Rendered :: "'r \<Rightarrow> 'o Rendered"
  op_Conflict :: "'r list \<Rightarrow> 'r \<Rightarrow> string option"
  op_Pem :: PemLib
  op_KeyOrder :: "string list \<Rightarrow> string list"
  op_ByAge :: "ConfigMapObject list \<Rightarrow> ConfigMapObject list"
  op_Codec :: yaml_codec
  op_Fetcher :: "label_fetcher option"
  op_IsZero :: "string \<Rightarrow> bool"
  op_PodJSON :: "PodSpec \<Rightarrow> string + ymap"
  op_HPAJSON :: "HorizontalPodAutoscalerSpec \<Rightarrow> ymap"
  op_GenText :: "gen_error \<Rightarrow> string"

text \<open>
  The errors of a pass: the two sentinels that \<open>handleSentinelErrors\<close> recognizes through any
  wrapping, every other error by its text, and a step that does not return.
\<close>

datatype reconcile_error = RequeueAfter int | Terminal string | Failure string | NoReturn

section \<open>Configuration hashes\<close>

definition getConfigMapHash :: "'w ConfigMapAPI \<Rightarrow> 'w \<Rightarrow> OGXServer \<Rightarrow> string + string" where
  "getConfigMapHash api w inst =
     (if \<not> HasOverrideConfig inst then Inr []
      else case spec_OverrideConfig (srv_Spec inst) of
        None \<Rightarrow> Inr []
      | Some ref \<Rightarrow>
          (case ca_Get api w (meta_Namespace (srv_ObjectMeta inst)) (cmkr_Name ref) of
             Inl e \<Rightarrow> Inl (apiText e)
           | Inr cm \<Rightarrow> Inr (meta_ResourceVersion (cmo_ObjectMeta cm) @ ''-'' @ meta_Name (cmo_ObjectMeta cm))))"

definition resolveConfigMapHash :: "'w ConfigMapAPI \<Rightarrow> 'w \<Rightarrow> OGXServer \<Rightarrow> runtimeConfigRef option \<Rightarrow> string + string" where
  "resolveConfigMapHash api w inst rcfg =
     (case rcfg of
        None \<Rightarrow> Inr []
      | Some c \<Rightarrow>
          if \<not> rcr_Generated c then getConfigMapHash api w inst
          else getGeneratedConfigMapHashByName api w (meta_Namespace (srv_ObjectMeta inst)) (rcr_ConfigMapName c))"

fun secretEntries :: "'w OGXServerReconciler \<Rightarrow> 'w \<Rightarrow> string \<Rightarrow> EnvVar list \<Rightarrow> string + string list" where
  "secretEntries r w ns [] = Inr []"
| "secretEntries r w ns (env # envs) =
     (case env_SecretKeyRef env of
        None \<Rightarrow> secretEntries r w ns envs
      | Some sel \<Rightarrow>
          (case kb_GetSecret (rc_Kube r) w ns (sks_Name sel) of
             Inl e \<Rightarrow> Inl (''failed to resolve secret '' @ ns @ ''/'' @ sks_Name sel @ '' for env '' @ env_Name env @ '': '' @ apiText e)
           | Inr secret \<Rightarrow>
               ebind (secretEntries r w ns envs) (\<lambda>entries.
                 Inr ((env_Name env @ ''='' @ sks_Name sel @ ''/'' @ sks_Key sel @ ''@''
                       @ fingerprintBytes (orEmpty (mget (sec_Data secret) (sks_Key sel)))) # entries))))"

definition resolveSecretRefsHash ::
    "'w OGXServerReconciler \<Rightarrow> 'w \<Rightarrow> OGXServer \<Rightarrow> runtimeConfigRef option \<Rightarrow> EnvVar list \<Rightarrow> string + string" where
  "resolveSecretRefsHash r w inst rcfg envVars =
     (if (case rcfg of None \<Rightarrow> True | Some c \<Rightarrow> \<not> rcr_Generated c) \<or> envVars = [] then Inr []
      else ebind (secretEntries r w (meta_Namespace (srv_ObjectMeta inst)) envVars) (\<lambda>entries.
        if entries = [] then Inr [] else Inr (fingerprintBytes (joinWith ''|'' (sort entries)))))"

section \<open>The manifest context\<close>

text \<open>The variables of the secrets of a generated configuration.\<close>

definition secretVariables :: "OGXServer \<Rightarrow> runtimeConfigRef option \<Rightarrow> EnvVar list" where
  "secretVariables inst rcfg =
     (if (case rcfg of None \<Rightarrow> False | Some c \<Rightarrow> rcr_Generated c) then CollectSecretRefs (srv_Spec inst) else [])"

definition buildManifestContext ::
    "('w, 'o, 'r, 't) Operator \<Rightarrow> 'w \<Rightarrow> OGXServer \<Rightarrow> runtimeConfigRef option \<Rightarrow> string \<Rightarrow> string + ManifestContext" where
  "buildManifestContext op w inst rcfg effectivePVCName =
     (let r = op_R op in
      case validateDistribution r inst of
        Some e \<Rightarrow> Inl e
      | None \<Rightarrow>
          ebind (resolveImage r (spec_Distribution (srv_Spec inst))) (\<lambda>resolvedImage.
            let secretEnvVars = secretVariables inst rcfg;
                container = buildContainerSpec (op_IsZero op) r w inst resolvedImage rcfg secretEnvVars;
                podSpec = configurePodStorage r w inst rcfg container effectivePVCName
            in ebind (resolveConfigMapHash (op_ConfigMaps op) w inst rcfg) (\<lambda>configMapHash.
               ebind (resolveCABundleHash r (op_ConfigMaps op) w inst) (\<lambda>caBundleHash.
               ebind (resolveSecretRefsHash r w inst rcfg secretEnvVars) (\<lambda>secretHash.
               ebind (mapErr (\<lambda>e. ''failed to convert pod spec to map: '' @ e) (op_PodJSON op podSpec)) (\<lambda>podSpecMap.
                 Inr \<lparr>mc_ResolvedImage = resolvedImage, mc_ConfigMapHash = configMapHash, mc_CABundleHash = caBundleHash,
                      mc_SecretHash = secretHash, mc_ContainerSpec = mempty, mc_PodSpec = podSpecMap,
                      mc_PodDisruptionBudgetSpec = buildPodDisruptionBudgetSpec inst,
                      mc_HPASpec = map_option (op_HPAJSON op) (buildHPASpec inst),
                      mc_PraxisPeer = Some (BuildPraxisPeer inst),
                      mc_PraxisMode = IsPraxisModeEnabled (srv_Spec inst)\<rparr>))))))"

section \<open>Excluded kinds\<close>

definition shouldExcludePVC :: "OGXServer \<Rightarrow> string \<Rightarrow> bool" where
  "shouldExcludePVC inst effectivePVCName \<longleftrightarrow>
     effectivePVCName \<noteq> meta_Name (srv_ObjectMeta inst) @ ''-pvc''
     \<or> (case spec_Workload (srv_Spec inst) of None \<Rightarrow> True | Some wl \<Rightarrow> wl_Storage wl = None)"

definition policyDisabled :: "OGXServer \<Rightarrow> bool" where
  "policyDisabled inst \<longleftrightarrow>
     (case spec_Network (srv_Spec inst) of None \<Rightarrow> False
      | Some n \<Rightarrow> (case net_Policy n of None \<Rightarrow> False | Some np \<Rightarrow> np_Enabled np = Some False))"

definition determineKindsToExclude :: "OGXServer \<Rightarrow> string \<Rightarrow> string list" where
  "determineKindsToExclude inst effectivePVCName =
     (if shouldExcludePVC inst effectivePVCName then [''PersistentVolumeClaim''] else [])
     @ (if policyDisabled inst then [''NetworkPolicy''] else [])
     @ (if \<not> needsPodDisruptionBudget inst then [''PodDisruptionBudget''] else [])
     @ (if (case spec_Workload (srv_Spec inst) of None \<Rightarrow> True | Some wl \<Rightarrow> wl_Autoscaling wl = None)
        then [''HorizontalPodAutoscaler''] else [])
     @ (if isMonitoringDisabled inst then [''PrometheusRule'', ''ServiceMonitor''] else [])"

text \<open>The five removals differ in the kind, the name and whether a missing API is ignored.\<close>

definition deleteIfExists ::
    "'w OwnedAPI \<Rightarrow> bool \<Rightarrow> string \<Rightarrow> string \<Rightarrow> OGXServer \<Rightarrow> 'w \<Rightarrow> string option \<times> 'w" where
  "deleteIfExists api ignoreNoMatch kind ending inst w =
     (case oa_Get api w kind (meta_Namespace (srv_ObjectMeta inst)) (meta_Name (srv_ObjectMeta inst) @ ending) of
        Inl e \<Rightarrow>
          if (case e of NotFound _ \<Rightarrow> True | _ \<Rightarrow> False) \<or> (ignoreNoMatch \<and> oa_IsNoMatch api e) then (None, w)
          else (Some (''failed to get '' @ kind @ '': '' @ apiText e), w)
      | Inr m \<Rightarrow>
          if \<not> oa_IsControlledBy api m (srv_ObjectMeta inst) then (None, w)
          else (case oa_Delete api w kind m of
                  (None, w') \<Rightarrow> (None, w')
                | (Some e, w') \<Rightarrow> (Some (''failed to delete '' @ kind @ '': '' @ apiText e), w')))"

definition deleteNetworkPolicyIfExists :: "'w OwnedAPI \<Rightarrow> OGXServer \<Rightarrow> 'w \<Rightarrow> string option \<times> 'w" where
  "deleteNetworkPolicyIfExists api = deleteIfExists api False ''NetworkPolicy'' ''-network-policy''"

definition deletePodDisruptionBudgetIfExists :: "'w OwnedAPI \<Rightarrow> OGXServer \<Rightarrow> 'w \<Rightarrow> string option \<times> 'w" where
  "deletePodDisruptionBudgetIfExists api = deleteIfExists api False ''PodDisruptionBudget'' ''-pdb''"

definition deleteHorizontalPodAutoscalerIfExists :: "'w OwnedAPI \<Rightarrow> OGXServer \<Rightarrow> 'w \<Rightarrow> string option \<times> 'w" where
  "deleteHorizontalPodAutoscalerIfExists api = deleteIfExists api False ''HorizontalPodAutoscaler'' ''-hpa''"

definition deletePrometheusRuleIfExists :: "'w OwnedAPI \<Rightarrow> OGXServer \<Rightarrow> 'w \<Rightarrow> string option \<times> 'w" where
  "deletePrometheusRuleIfExists api = deleteIfExists api True ''PrometheusRule'' ''-prometheus-rules''"

definition deleteServiceMonitorIfExists :: "'w OwnedAPI \<Rightarrow> OGXServer \<Rightarrow> 'w \<Rightarrow> string option \<times> 'w" where
  "deleteServiceMonitorIfExists api = deleteIfExists api True ''ServiceMonitor'' ''-service-monitor''"

text \<open>Running fallible steps on the cluster one after the other, up to the first error.\<close>

fun runSteps :: "('w \<Rightarrow> 'e option \<times> 'w) list \<Rightarrow> 'w \<Rightarrow> 'e option \<times> 'w" where
  "runSteps [] w = (None, w)"
| "runSteps (f # fs) w = (case f w of (Some e, w') \<Rightarrow> (Some e, w') | (None, w') \<Rightarrow> runSteps fs w')"

definition onlyIf :: "bool \<Rightarrow> ('w \<Rightarrow> 'e option \<times> 'w) \<Rightarrow> ('w \<Rightarrow> 'e option \<times> 'w)" where
  "onlyIf b f = (if b then f else (\<lambda>w. (None, w)))"

definition deleteMonitoringResourcesIfExcluded ::
    "('w, 'o) Cluster \<Rightarrow> 'w OwnedAPI \<Rightarrow> OGXServer \<Rightarrow> string list \<Rightarrow> 'w \<Rightarrow> string option \<times> 'w" where
  "deleteMonitoringResourcesIfExcluded cl api inst kinds w =
     (case MonitoringCRDsAvailable cl w of
        Inl e \<Rightarrow> (Some (''failed to check monitoring CRD availability: '' @ e), w)
      | Inr False \<Rightarrow> (None, w)
      | Inr True \<Rightarrow>
          runSteps [onlyIf (''PrometheusRule'' \<in> set kinds) (deletePrometheusRuleIfExists api inst),
                    onlyIf (''ServiceMonitor'' \<in> set kinds) (deleteServiceMonitorIfExists api inst)] w)"

definition deleteExcludedResources ::
    "('w, 'o) Cluster \<Rightarrow> 'w OwnedAPI \<Rightarrow> OGXServer \<Rightarrow> string list \<Rightarrow> 'w \<Rightarrow> string option \<times> 'w" where
  "deleteExcludedResources cl api inst kinds w =
     runSteps [onlyIf (''NetworkPolicy'' \<in> set kinds) (deleteNetworkPolicyIfExists api inst),
               onlyIf (''PodDisruptionBudget'' \<in> set kinds) (deletePodDisruptionBudgetIfExists api inst),
               onlyIf (''HorizontalPodAutoscaler'' \<in> set kinds) (deleteHorizontalPodAutoscalerIfExists api inst),
               deleteMonitoringResourcesIfExcluded cl api inst kinds] w"

section \<open>Reconciling the manifests\<close>

definition manifestsBasePath :: string where
  "manifestsBasePath = ''manifests/base''"

text \<open>The resources that remain to be applied, and the kinds that were excluded.\<close>

definition manifestResources ::
    "('w, 'o, 'r, 't) Operator \<Rightarrow> 'w \<Rightarrow> OGXServer \<Rightarrow> runtimeConfigRef option \<Rightarrow> string \<Rightarrow> string + 'r list \<times> string list" where
  "manifestResources op w inst rcfg effectivePVCName =
     ebind (mapErr (\<lambda>e. ''failed to build manifest context: '' @ e) (buildManifestContext op w inst rcfg effectivePVCName)) (\<lambda>manifestCtx.
     ebind (mapErr (\<lambda>e. ''failed to render manifests: '' @ e)
              (RenderManifestWithContext (op_Kustomize op) (op_Renderer op) manifestsBasePath inst (Some manifestCtx))) (\<lambda>resMap.
       let kinds = determineKindsToExclude inst effectivePVCName in
       ebind (if ''PrometheusRule'' \<in> set kinds then Inr kinds
              else mapErr (\<lambda>e. ''failed to check monitoring CRD availability: '' @ e)
                     (ebind (MonitoringCRDsAvailable (op_Cluster op) w) (\<lambda>available.
                        Inr (if available then kinds else kinds @ [''PrometheusRule'', ''ServiceMonitor''])))) (\<lambda>kindsToExclude.
       ebind (mapErr (\<lambda>e. ''failed to filter manifests: '' @ e)
                (FilterExcludeKinds (op_Kustomize op) (op_Conflict op) resMap kindsToExclude)) (\<lambda>filtered.
         Inr (filtered, kindsToExclude)))))"

definition reconcileAllManifestResources ::
    "('w, 'o, 'r, 't) Operator \<Rightarrow> int \<Rightarrow> runtimeConfigRef option \<Rightarrow> 'w Pass \<Rightarrow> reconcile_error option \<times> 'w Pass" where
  "reconcileAllManifestResources op now rcfg p =
     (case resolveEffectivePVCName (op_Adopt op) now p of
        (Inl (PVCTerminal e), p1) \<Rightarrow> (Some (Terminal (''failed to resolve effective PVC name: '' @ e)), p1)
      | (Inl (PVCListFailed e), p1) \<Rightarrow> (Some (Failure (''failed to resolve effective PVC name: '' @ e)), p1)
      | (Inr effectivePVCName, p1) \<Rightarrow>
          (let inst = ps_Instance p1 in
           case manifestResources op (ps_World p1) inst rcfg effectivePVCName of
             Inl e \<Rightarrow> (Some (Failure e), p1)
           | Inr (filtered, kindsToExclude) \<Rightarrow>
               (case deleteExcludedResources (op_Cluster op) (op_Owned op) inst kindsToExclude (ps_World p1) of
                  (Some e, w1) \<Rightarrow> (Some (Failure (''failed to delete excluded resources: '' @ e)), p1\<lparr>ps_World := w1\<rparr>)
                | (None, w1) \<Rightarrow>
                    (case ApplyResources (op_Cluster op) inst (map (op_Rendered op) filtered) w1 of
                       (Some e, w2) \<Rightarrow> (Some (Failure (''failed to apply manifests: '' @ e)), p1\<lparr>ps_World := w2\<rparr>)
                     | (None, w2) \<Rightarrow> (None, p1\<lparr>ps_World := w2\<rparr>)))))"

section \<open>What reaches the cluster\<close>

text \<open>A manifest context that carries the pod of the instance and the hashes of what it reads.\<close>

definition contextFor ::
    "('w, 'o, 'r, 't) Operator \<Rightarrow> 'w \<Rightarrow> OGXServer \<Rightarrow> runtimeConfigRef option \<Rightarrow> string \<Rightarrow> ManifestContext \<Rightarrow> bool" where
  "contextFor op w inst rcfg pvc c \<longleftrightarrow>
     (\<exists>img. resolveImage (op_R op) (spec_Distribution (srv_Spec inst)) = Inr img
        \<and> op_PodJSON op (serverPod (op_IsZero op) (op_R op) w inst img rcfg (secretVariables inst rcfg) pvc) = Inr (mc_PodSpec c))
     \<and> resolveConfigMapHash (op_ConfigMaps op) w inst rcfg = Inr (mc_ConfigMapHash c)
     \<and> resolveCABundleHash (op_R op) (op_ConfigMaps op) w inst = Inr (mc_CABundleHash c)
     \<and> resolveSecretRefsHash (op_R op) w inst rcfg (secretVariables inst rcfg) = Inr (mc_SecretHash c)"

text \<open>The conversion of a pod to unstructured data yields maps with distinct keys.\<close>

definition podsAreMaps :: "('w, 'o, 'r, 't) Operator \<Rightarrow> bool" where
  "podsAreMaps op \<longleftrightarrow> (\<forall>p m. op_PodJSON op p = Inr m \<longrightarrow> wf_map m)"

lemma buildManifestContext_for:
  "buildManifestContext op w inst rcfg pvc = Inr c \<Longrightarrow> contextFor op w inst rcfg pvc c"
  by (auto simp: buildManifestContext_def contextFor_def serverPod_def Let_def ebind_Inr_iff split: option.splits)

definition optionalKinds :: "string list" where
  "optionalKinds = [''PersistentVolumeClaim'', ''NetworkPolicy'', ''PodDisruptionBudget'', ''HorizontalPodAutoscaler'',
     ''PrometheusRule'', ''ServiceMonitor'']"

lemma excluded_kinds:
  "set (determineKindsToExclude inst pvc) \<subseteq> set optionalKinds" "{''PrometheusRule'', ''ServiceMonitor''} \<subseteq> set optionalKinds"
  by (auto simp: determineKindsToExclude_def optionalKinds_def)

lemma manifestResources_parts:
  assumes "manifestResources op w inst rcfg pvc = Inr (rs, kinds)"
  obtains c rs0 where "contextFor op w inst rcfg pvc c"
    "RenderManifestWithContext (op_Kustomize op) (op_Renderer op) manifestsBasePath inst (Some c) = Inr rs0"
    "rs = filter (\<lambda>r. kz_Kind (op_Kustomize op) r \<notin> set kinds) rs0"
    "set (determineKindsToExclude inst pvc) \<subseteq> set kinds"
    "set kinds \<subseteq> set (determineKindsToExclude inst pvc) \<union> {''PrometheusRule'', ''ServiceMonitor''}"
proof -
  obtain c rs0 where c: "buildManifestContext op w inst rcfg pvc = Inr c"
    and r: "RenderManifestWithContext (op_Kustomize op) (op_Renderer op) manifestsBasePath inst (Some c) = Inr rs0"
    and f: "FilterExcludeKinds (op_Kustomize op) (op_Conflict op) rs0 kinds = Inr rs"
    and k: "kinds = determineKindsToExclude inst pvc \<or> kinds = determineKindsToExclude inst pvc @ [''PrometheusRule'', ''ServiceMonitor'']"
    using assms by (auto simp: manifestResources_def ebind_Inr_iff Let_def split: if_splits)
  from k have "set (determineKindsToExclude inst pvc) \<subseteq> set kinds"
    "set kinds \<subseteq> set (determineKindsToExclude inst pvc) \<union> {''PrometheusRule'', ''ServiceMonitor''}" by auto
  with that [OF buildManifestContext_for [OF c] r filtered_kinds [OF f]] show thesis .
qed

section \<open>Properties\<close>


section \<open>Examples\<close>

text \<open>
  A small cluster to run the operator on: one instance and the objects that were applied.
\<close>

record SimWorld =
  sim_Server :: OGXServer
  sim_Objects :: "ymap list"

definition sameObject :: "ymap \<Rightarrow> ymap \<Rightarrow> bool" where
  "sameObject a b \<longleftrightarrow> textAt a ''kind'' = textAt b ''kind'' \<and> kz_Name docKustomize a = kz_Name docKustomize b"

definition simCluster :: "(SimWorld, ymap) Cluster" where
  "simCluster = \<lparr>uo_Kind = (\<lambda>o'. textAt o' ''kind''), uo_Name = kz_Name docKustomize, uo_Namespace = (\<lambda>_. ''ogx''),
     uo_UID = (\<lambda>_. []), uo_ResourceVersion = (\<lambda>_. []), uo_SetResourceVersion = (\<lambda>_ o'. o'), uo_OwnerUIDs = (\<lambda>_. []),
     uo_GVK = (\<lambda>o'. \<lparr>gvk_Group = [], gvk_Version = ''v1'', gvk_Kind = textAt o' ''kind''\<rparr>), uo_HasMap = (\<lambda>_ _. False),
     uo_NestedString = (\<lambda>_ _. []), uo_PodVolumes = (\<lambda>_. None), uo_AsDeployment = (\<lambda>_. Inl []), uo_AsService = (\<lambda>_. None),
     cl_Get = (\<lambda>w o'. case find (sameObject o') (sim_Objects w) of None \<Rightarrow> Inl (NotFound []) | Some x \<Rightarrow> Inr x),
     cl_GetService = (\<lambda>_ _ _. Some (NotFound [])), cl_GetClusterRole = (\<lambda>_ _. None), cl_GetCRD = (\<lambda>_ _. Some (NotFound [])),
     cl_Create = (\<lambda>w o'. (None, w\<lparr>sim_Objects := sim_Objects w @ [o']\<rparr>)), cl_Update = (\<lambda>w _. (None, w)),
     cl_Apply = (\<lambda>w _ _. (None, w)), cl_Delete = (\<lambda>w _ _ _. (None, w)), cl_SetControllerReference = (\<lambda>_ o'. Inr o'),
     cl_IsControlledBy = (\<lambda>_ _. False), cl_IsRootScoped = (\<lambda>_. Inr False)\<rparr>"

definition simKube :: "SimWorld Kube" where
  "simKube = \<lparr>kb_GetSecret = (\<lambda>_ _ n. Inl (NotFound n)), kb_GetConfigMap = (\<lambda>_ _ n. Inl (NotFound n)),
     kb_GetJob = (\<lambda>_ _ n. Inl (NotFound n)), kb_ReadJob = None, kb_DeleteJob = (\<lambda>w _. (None, w)), kb_CreateJob = (\<lambda>w j. (Inr j, w)),
     kb_SetControllerReference = (\<lambda>_ j. Inr j), kb_IsControlledBy = (\<lambda>_ _. False), kb_ParseSelector = (\<lambda>_. None),
     kb_ListPods = (\<lambda>_ _ _. Inr []), kb_IsPrint = (\<lambda>_. True)\<rparr>"

definition simReconciler :: "SimWorld OGXServerReconciler" where
  "simReconciler = \<lparr>rc_Kube = simKube, rc_HasRecorder = True, rc_DistributionImages = mlit [(''starter'', ''ogx:1'')],
     rc_ImageMappingOverrides = mempty\<rparr>"

definition simIngress :: "SimWorld IngressAPI" where
  "simIngress = \<lparr>ia_Get = (\<lambda>_ _ n. Inl (NotFound n)), ia_Create = (\<lambda>w _. (None, w)), ia_Update = (\<lambda>w _. (None, w)),
     ia_Delete = (\<lambda>w _. (None, w)), ia_SetControllerReference = (\<lambda>_ i. Inr i), ia_IsControlledBy = (\<lambda>_ _. False), ia_HasRecorder = True\<rparr>"

definition simConfigMaps :: "SimWorld ConfigMapAPI" where
  "simConfigMaps = \<lparr>ca_Get = (\<lambda>_ _ n. Inl (NotFound n)), ca_List = (\<lambda>_ _ _. Inr []), ca_Create = (\<lambda>w _. (None, w)),
     ca_Patch = (\<lambda>w _ _. (None, w)), ca_Delete = (\<lambda>w _. (None, w)), ca_SetControllerReference = (\<lambda>_ c. Inr c), ca_IsConflict = (\<lambda>_. False)\<rparr>"

definition simAdopt :: "SimWorld AdoptAPI" where
  "simAdopt = \<lparr>ad_GetPVC = (\<lambda>_ _ n. Inl (NotFound n)), ad_UpdatePVC = (\<lambda>w _. (None, w)), ad_Replicas = (\<lambda>_ _ n. Inl (NotFound n)),
     ad_Scale = (\<lambda>w _ _. (None, w)), ad_CountPods = (\<lambda>_ _ _. Inr 0), ad_GetService = (\<lambda>_ _ n. Inl (NotFound n)),
     ad_UpdateService = (\<lambda>w _. (None, w)), ad_DeleteService = (\<lambda>w _. (None, w)), ad_AdoptedServices = (\<lambda>_ _. Inr []),
     ad_GetIngress = (\<lambda>_ _ n. Inl (NotFound n)), ad_UpdateIngress = (\<lambda>w _. (None, w)), ad_DeleteIngress = (\<lambda>w _. (None, w)),
     ad_AdoptedIngresses = (\<lambda>_ _. Inr []), ad_AdoptedPVCs = (\<lambda>_ _ _. Inr []), ad_GetControllerOf = (\<lambda>_. None),
     ad_IsControlledBy = (\<lambda>_ _. False), ad_SetControllerReference = (\<lambda>_ m. Inr m), ad_FormatTime = (\<lambda>_. []), ad_IsPrint = (\<lambda>_. True)\<rparr>"

definition simOperator :: "(SimWorld, ymap, ymap, ymap) Operator" where
  "simOperator = \<lparr>op_R = simReconciler, op_Ingress = simIngress, op_ConfigMaps = simConfigMaps,
     op_Workload = \<lparr>wa_Deployment = (\<lambda>_ _ n. Inl (NotFound n)), wa_ReplicaSets = (\<lambda>_ _ _. Inr [])\<rparr>, op_Adopt = simAdopt,
     op_Owned = \<lparr>oa_Get = (\<lambda>_ _ _ n. Inl (NotFound n)), oa_Delete = (\<lambda>w _ _. (None, w)), oa_IsControlledBy = (\<lambda>_ _. False), oa_IsNoMatch = (\<lambda>_. False)\<rparr>,
     op_Cluster = simCluster, op_Kustomize = docKustomize,
     op_Renderer = \<lparr>rd_Exists = (\<lambda>_. True), rd_Run = (\<lambda>_. Inr exManifests), rd_OperatorNamespace = Inr ''ops''\<rparr>,
     op_Rendered = (\<lambda>r. \<lparr>rr_Kind = textAt r ''kind'', rr_Name = kz_Name docKustomize r, rr_Namespace = ''ogx'',
        rr_GVK = \<lparr>gvk_Group = [], gvk_Version = ''v1'', gvk_Kind = textAt r ''kind''\<rparr>, rr_Object = Inr r\<rparr>),
     op_Conflict = (\<lambda>_ _. None), op_Pem = exPem, op_KeyOrder = (\<lambda>ks. ks), op_ByAge = (\<lambda>cms. cms),
     op_Codec = \<lparr>yc_unmarshalBase = (\<lambda>_. None), yc_unmarshalMap = (\<lambda>_. None), yc_marshal = (\<lambda>_. None)\<rparr>,
     op_Fetcher = None, op_IsZero = (\<lambda>q. q = ''0''), op_PodJSON = (\<lambda>p. Inr (mlit [(''containers'', YList (map (\<lambda>c. YStr (ctr_Image c)) (pod_Containers p)))])),
     op_HPAJSON = (\<lambda>_. mempty), op_GenText = (\<lambda>_. [])\<rparr>"

definition simWorld :: SimWorld where
  "simWorld = \<lparr>sim_Server = exNetServer, sim_Objects = []\<rparr>"

lemma sim_laws:
  "updatesData (op_Kustomize simOperator)" "readsContent (op_Kustomize simOperator)" "rfc6901 (op_Kustomize simOperator)"
  "podsAreMaps simOperator"
  using doc_updates doc_reads doc_rfc6901 by (auto simp: simOperator_def podsAreMaps_def)

definition simContext :: ManifestContext where
  "simContext = \<lparr>mc_ResolvedImage = ''ogx:1'', mc_ConfigMapHash = [], mc_CABundleHash = [], mc_SecretHash = [],
     mc_ContainerSpec = mempty, mc_PodSpec = mlit [(''containers'', YList [YStr ''ogx:1''])], mc_PodDisruptionBudgetSpec = None,
     mc_HPASpec = None, mc_PraxisPeer = Some (BuildPraxisPeer exNetServer), mc_PraxisMode = False\<rparr>"

lemma exNet_simps:
  "spec_Distribution (srv_Spec exNetServer) = \<lparr>dist_Name = ''starter'', dist_Image = []\<rparr>"
  "spec_Workload (srv_Spec exNetServer) = None" "spec_PraxisMode (srv_Spec exNetServer) = None"
  "spec_TLS (srv_Spec exNetServer) = None" "spec_Network (srv_Spec exNetServer) = None" "spec_Monitoring (srv_Spec exNetServer) = None"
  "meta_Name (srv_ObjectMeta exNetServer) = ''demo''"
  by (simp_all add: exNetServer_def)

lemma sim_context: "buildManifestContext simOperator simWorld exNetServer None pvc = Inr simContext"
  by (simp add: buildManifestContext_def Let_def simOperator_def simReconciler_def exNet_simps validateDistribution_def resolveImage_def
      resolveConfigMapHash_def resolveCABundleHash_def hasCACertificates_def caCertificates_def resolveSecretRefsHash_def configurePodStorage_simps container_simps
      buildPodDisruptionBudgetSpec_def needsPodDisruptionBudget_def GetEffectiveReplicas_def buildHPASpec_def IsPraxisModeEnabled_def
      simContext_def)

lemma sim_rendered:
  "case RenderManifestWithContext docKustomize (op_Renderer simOperator) manifestsBasePath exNetServer (Some simContext) of
     Inr [svc, dep] \<Rightarrow> textAt svc ''kind'' = ''Service'' \<and> textAt dep ''kind'' = ''Deployment'' | _ \<Rightarrow> False"
  unfolding simOperator_def Operator.simps
  by code_simp


end
