(* ===== verification/Praxis_Preflight.thy ===== *)
theory Praxis_Preflight
  imports Network_Policy Status_Conditions Go_Quote
begin

text \<open>
  The Praxis readiness conditions (\<open>controllers/praxis_preflight.go\<close>): is a Ready Praxis pod reachable
  through the selector, and is the serving TLS Secret present.
\<close>

definition resolvePraxisPodSelector :: "OGXServer \<Rightarrow> string \<times> LabelSelector" where
  "resolvePraxisPodSelector inst =
     (case (case spec_PraxisMode (srv_Spec inst) of None \<Rightarrow> None | Some pm \<Rightarrow> pm_PraxisSelector pm) of
        Some sel \<Rightarrow> (psel_Namespace sel, psel_PodSelector sel)
      | None \<Rightarrow>
          (DefaultPraxisNamespace,
           \<lparr>ls_MatchLabels = [(DefaultPraxisPodLabelKey, DefaultPraxisPodLabelValue)], ls_MatchExpressions = []\<rparr>))"

definition isPodReady :: "Pod \<Rightarrow> bool" where
  "isPodReady pod =
     (if p_DeletionTimestamp pod \<noteq> None \<or> p_Phase pod \<noteq> ''Running'' then False
      else case find (\<lambda>c. pc_Type c = ''Ready'') (p_Conditions pod) of
             Some c \<Rightarrow> pc_Status c = ConditionTrue
           | None \<Rightarrow> False)"

definition updatePraxisReachableCondition :: "'w Kube \<Rightarrow> int \<Rightarrow> 'w Pass \<Rightarrow> 'w Pass" where
  "updatePraxisReachableCondition kb now p =
     (let (ns, selector) = resolvePraxisPodSelector (ps_Instance p); q = goQuote (kb_IsPrint kb) in
      case kb_ParseSelector kb selector of
        Some e \<Rightarrow> withStatus (SetPraxisReachableCondition now False ReasonPraxisSelectorInvalid
                    (''Invalid spec.praxisMode.praxisSelector: '' @ e)) p
      | None \<Rightarrow>
          (case kb_ListPods kb (ps_World p) ns selector of
             Inl e \<Rightarrow> withStatus (SetPraxisReachableCondition now False ReasonPraxisUnreachable
                        (''Failed to list Praxis pods in namespace '' @ q ns @ '': '' @ apiText e)) p
           | Inr pods \<Rightarrow>
               (let readyCount = length (filter isPodReady pods) in
                if readyCount = 0
                then withStatus (SetPraxisReachableCondition now False ReasonPraxisUnreachable
                       (''No Ready Praxis pods match the selector in namespace '' @ q ns
                        @ ''; OGX is internal-only and has no valid path until Praxis is available'')) p
                else withStatus (SetPraxisReachableCondition now True ReasonPraxisReachable
                       (showNat readyCount @ '' Ready Praxis pod(s) match the selector in namespace '' @ q ns)) p)))"

definition tlsSecretName :: "OGXServer \<Rightarrow> string" where
  "tlsSecretName inst =
     (case spec_Network (srv_Spec inst) of None \<Rightarrow> []
      | Some n \<Rightarrow> (case net_TLS n of None \<Rightarrow> [] | Some t \<Rightarrow> tls_SecretName t))"

definition updateTLSConfiguredCondition :: "'w Kube \<Rightarrow> int \<Rightarrow> 'w Pass \<Rightarrow> 'w Pass" where
  "updateTLSConfiguredCondition kb now p =
     (let inst = ps_Instance p; secretName = tlsSecretName inst; ns = meta_Namespace (srv_ObjectMeta inst);
          q = goQuote (kb_IsPrint kb) in
      if secretName = []
      then withStatus (SetTLSConfiguredCondition now False ReasonTLSNotConfigured
             ''spec.network.tls.secretName is not set; Praxis-fronted OGX is expected to serve its internal endpoint over TLS'') p
      else case kb_GetSecret kb (ps_World p) ns secretName of
             Inl (NotFound _) \<Rightarrow>
               withStatus (SetTLSConfiguredCondition now False ReasonTLSSecretMissing
                 (''TLS Secret '' @ q secretName @ '' not found in namespace '' @ q ns
                  @ '' (it must exist and carry the label '' @ WatchLabelKey @ ''='' @ WatchLabelValue
                  @ '' to be detected by the operator)'')) p
           | Inl e \<Rightarrow>
               withStatus (SetTLSConfiguredCondition now False ReasonTLSSecretMissing
                 (''Failed to get TLS Secret '' @ q secretName @ '' in namespace '' @ q ns @ '': '' @ apiText e)) p
           | Inr _ \<Rightarrow>
               withStatus (SetTLSConfiguredCondition now True ReasonTLSConfigured
                 (''TLS Secret '' @ q secretName @ '' found'')) p)"

definition updatePraxisPreflightStatus :: "'w Kube \<Rightarrow> int \<Rightarrow> 'w Pass \<Rightarrow> 'w Pass" where
  "updatePraxisPreflightStatus kb now p =
     updateTLSConfiguredCondition kb now (updatePraxisReachableCondition kb now p)"

lemma preflight_types_distinct [simp]:
  "ConditionTypePraxisReachable \<noteq> ConditionTypeTLSConfigured"
  "ConditionTypeTLSConfigured \<noteq> ConditionTypePraxisReachable"
  by (simp_all add: condition_type_defs)

lemma reachable_frame [simp]:
  "ps_World (updatePraxisReachableCondition kb now p) = ps_World p"
  "srv_Spec (ps_Instance (updatePraxisReachableCondition kb now p)) = srv_Spec (ps_Instance p)"
  "srv_ObjectMeta (ps_Instance (updatePraxisReachableCondition kb now p)) = srv_ObjectMeta (ps_Instance p)"
  by (auto simp: updatePraxisReachableCondition_def Let_def split: prod.split option.split sum.split)

lemma reachable_condition:
  "IsConditionTrue (statusOf (updatePraxisReachableCondition kb now p)) ConditionTypePraxisReachable \<longleftrightarrow>
     kb_ParseSelector kb (snd (resolvePraxisPodSelector (ps_Instance p))) = None
     \<and> (\<exists>pods pod. kb_ListPods kb (ps_World p) (fst (resolvePraxisPodSelector (ps_Instance p)))
            (snd (resolvePraxisPodSelector (ps_Instance p))) = Inr pods \<and> pod \<in> set pods \<and> isPodReady pod)"
  by (auto simp: updatePraxisReachableCondition_def SetPraxisReachableCondition_def filter_empty_conv Let_def
      split: prod.split option.split sum.split)

lemma tls_conditions:
  "IsConditionTrue (statusOf (updateTLSConfiguredCondition kb now p)) ConditionTypeTLSConfigured \<longleftrightarrow>
     tlsSecretName (ps_Instance p) \<noteq> []
     \<and> (\<exists>s. kb_GetSecret kb (ps_World p) (meta_Namespace (srv_ObjectMeta (ps_Instance p)))
             (tlsSecretName (ps_Instance p)) = Inr s)"
  "IsConditionTrue (statusOf (updateTLSConfiguredCondition kb now p)) ConditionTypePraxisReachable
     = IsConditionTrue (statusOf p) ConditionTypePraxisReachable"
  by (auto simp: updateTLSConfiguredCondition_def SetTLSConfiguredCondition_def Let_def
      split: sum.split api_error.split)

text \<open>
  (C22) After the Praxis preflight, \<open>PraxisReachable\<close> is true exactly when the selector is valid and
  selects a Ready pod, and \<open>TLSConfigured\<close> exactly when a serving Secret is named and can be read;
  the pods are looked up with the same namespace and pod selector that the NetworkPolicy peer
  admits; the cluster is not changed.
\<close>

theorem praxis_preflight_is_exact:
  "(IsConditionTrue (statusOf (updatePraxisPreflightStatus kb now p)) ConditionTypePraxisReachable \<longleftrightarrow>
      (\<exists>ns sel pods pod.
         peer_PodSelector (BuildPraxisPeer (ps_Instance p)) = Some sel
         \<and> peer_NamespaceSelector (BuildPraxisPeer (ps_Instance p)) =
             Some \<lparr>ls_MatchLabels = [(DefaultNamespaceNameLabel, ns)], ls_MatchExpressions = []\<rparr>
         \<and> kb_ParseSelector kb sel = None
         \<and> kb_ListPods kb (ps_World p) ns sel = Inr pods \<and> pod \<in> set pods \<and> isPodReady pod))
   \<and> (IsConditionTrue (statusOf (updatePraxisPreflightStatus kb now p)) ConditionTypeTLSConfigured \<longleftrightarrow>
      (\<exists>s. tlsSecretName (ps_Instance p) \<noteq> []
         \<and> kb_GetSecret kb (ps_World p) (meta_Namespace (srv_ObjectMeta (ps_Instance p)))
             (tlsSecretName (ps_Instance p)) = Inr s))
   \<and> ps_World (updatePraxisPreflightStatus kb now p) = ps_World p"
proof -
  obtain ns sel where r: "resolvePraxisPodSelector (ps_Instance p) = (ns, sel)" by fastforce
  then have peer: "peer_PodSelector (BuildPraxisPeer (ps_Instance p)) = Some sel"
    "peer_NamespaceSelector (BuildPraxisPeer (ps_Instance p)) =
       Some \<lparr>ls_MatchLabels = [(DefaultNamespaceNameLabel, ns)], ls_MatchExpressions = []\<rparr>"
    by (auto simp: resolvePraxisPodSelector_def BuildPraxisPeer_def defaultPraxisPeer_def split: option.splits)
  have tls: "tlsSecretName (ps_Instance (updatePraxisReachableCondition kb now p)) = tlsSecretName (ps_Instance p)"
    by (simp add: tlsSecretName_def)
  have w: "ps_World (updateTLSConfiguredCondition kb now q) = ps_World q" for q
    by (auto simp: updateTLSConfiguredCondition_def Let_def split: sum.split api_error.split)
  show ?thesis
    unfolding updatePraxisPreflightStatus_def tls_conditions reachable_condition tls
    using r peer by (auto simp: w)
qed

end
