(* ===== verification/Server_Status.thy ===== *)
theory Server_Status
  imports Adoption Ingress Praxis_Preflight
begin

text \<open>
  Reporting the state of an instance (\<open>controllers/ogxserver_controller.go\<close>): readiness of the
  Deployment, the claim and the Service, the providers and version the running server reports, and
  the write of the status with its retries.
\<close>

section \<open>Interface\<close>

text \<open>
  \<open>sa_HTTP\<close> is a GET request: the error of the transport, or the status code with the body or the error of
  reading it.  \<open>sa_ParseProviders\<close> and \<open>sa_ParseVersion\<close> decode the JSON bodies.  \<open>sa_GetServer\<close> and
  \<open>sa_UpdateStatus\<close> read the custom resource and update its status subresource.
\<close>

record 'w StatusAPI =
  sa_ReadyReplicas :: "'w \<Rightarrow> string \<Rightarrow> string \<Rightarrow> api_error + int"
  sa_PVCPhase :: "'w \<Rightarrow> string \<Rightarrow> string \<Rightarrow> api_error + string"
  sa_Service :: "'w \<Rightarrow> string \<Rightarrow> string \<Rightarrow> api_error option"
  sa_HTTP :: "'w \<Rightarrow> string \<Rightarrow> string + int \<times> (string + string)"
  sa_ParseProviders :: "string \<Rightarrow> string + ProviderInfo list"
  sa_ParseVersion :: "string \<Rightarrow> string + string"
  sa_OperatorVersion :: string
  sa_GetServer :: "'w \<Rightarrow> string \<Rightarrow> string \<Rightarrow> api_error + OGXServer"
  sa_UpdateStatus :: "'w \<Rightarrow> OGXServer \<Rightarrow> api_error option \<times> 'w"
  sa_IsConflict :: "api_error \<Rightarrow> bool"

section \<open>What the server reports\<close>

definition getServerURL :: "OGXServer \<Rightarrow> string \<Rightarrow> string" where
  "getServerURL inst at =
     ''http://'' @ escapeHost (GetServiceName inst @ ''.'' @ meta_Namespace (srv_ObjectMeta inst) @ ''.svc.cluster.local:''
       @ showInt (GetServicePort inst)) @ at"

text \<open>The request that both queries share; \<open>what\<close> is the endpoint's name in the messages.\<close>

definition queryServer :: "'w StatusAPI \<Rightarrow> 'w \<Rightarrow> string \<Rightarrow> string \<Rightarrow> (string \<Rightarrow> string + 'a) \<Rightarrow> string + 'a" where
  "queryServer api w url what parse =
     (case sa_HTTP api w url of
        Inl e \<Rightarrow> Inl (''failed to make '' @ what @ '' request: '' @ e)
      | Inr (code, body) \<Rightarrow>
          if code \<noteq> 200 then Inl (''failed to query '' @ what @ '' endpoint: returned status code '' @ showInt code)
          else ebind (mapErr (\<lambda>e. ''failed to read '' @ what @ '' response: '' @ e) body) (\<lambda>b.
            mapErr (\<lambda>e. ''failed to unmarshal '' @ what @ '' response: '' @ e) (parse b)))"

definition getProviderInfo :: "'w StatusAPI \<Rightarrow> 'w \<Rightarrow> OGXServer \<Rightarrow> string + ProviderInfo list" where
  "getProviderInfo api w inst =
     queryServer api w (getServerURL inst ''/v1/providers'') ''providers'' (sa_ParseProviders api)"

definition getVersionInfo :: "'w StatusAPI \<Rightarrow> 'w \<Rightarrow> OGXServer \<Rightarrow> string + string" where
  "getVersionInfo api w inst =
     queryServer api w (getServerURL inst ''/v1/version'') ''version'' (sa_ParseVersion api)"

section \<open>The parts of the status\<close>

definition setPhase :: "OGXServerPhase \<Rightarrow> OGXServerStatus \<Rightarrow> OGXServerStatus" where
  "setPhase ph st = st\<lparr>status_Phase := ph\<rparr>"

definition updateDeploymentStatus :: "'w StatusAPI \<Rightarrow> int \<Rightarrow> 'w Pass \<Rightarrow> (string + bool) \<times> 'w Pass" where
  "updateDeploymentStatus api now p =
     (let inst = ps_Instance p; want = GetEffectiveReplicas inst;
          report = (\<lambda>ph ok message n. withStatus (\<lambda>st. (SetDeploymentReadyCondition now ok message (setPhase ph st))\<lparr>status_AvailableReplicas := n\<rparr>) p)
      in case sa_ReadyReplicas api (ps_World p) (meta_Namespace (srv_ObjectMeta inst)) (meta_Name (srv_ObjectMeta inst)) of
           Inl (NotFound _) \<Rightarrow> (Inr False, report PhasePending False MessageDeploymentPending 0)
         | Inl e \<Rightarrow> (Inl (''failed to fetch deployment for status: '' @ apiText e), p)
         | Inr ready \<Rightarrow>
             if ready = 0 then (Inr False, report PhaseInitializing False MessageDeploymentPending ready)
             else if ready < want
             then (Inr False, report PhaseInitializing False
                     (''Deployment is scaling: '' @ showInt ready @ ''/'' @ showInt want @ '' replicas ready'') ready)
             else if ready > want
             then (Inr False, report PhaseInitializing False
                     (''Deployment is scaling down: '' @ showInt ready @ ''/'' @ showInt want @ '' replicas ready'') ready)
             else (Inr True, report PhaseReady True MessageDeploymentReady ready))"

definition pvcErrorText :: "pvc_error \<Rightarrow> string" where
  "pvcErrorText e = (case e of PVCListFailed t \<Rightarrow> t | PVCTerminal t \<Rightarrow> t)"

definition updateStorageStatus :: "'w StatusAPI \<Rightarrow> 'w AdoptAPI \<Rightarrow> int \<Rightarrow> 'w Pass \<Rightarrow> 'w Pass" where
  "updateStorageStatus api ad now p =
     (if (case spec_Workload (srv_Spec (ps_Instance p)) of None \<Rightarrow> True | Some wl \<Rightarrow> wl_Storage wl = None) then p
      else case resolveEffectivePVCName ad now p of
        (Inl e, p1) \<Rightarrow> withStatus (SetStorageReadyCondition now False (''Failed to resolve PVC name: '' @ pvcErrorText e)) p1
      | (Inr pvcName, p1) \<Rightarrow>
          (case sa_PVCPhase api (ps_World p1) (meta_Namespace (srv_ObjectMeta (ps_Instance p1))) pvcName of
             Inl e \<Rightarrow> withStatus (SetStorageReadyCondition now False (''Failed to get PVC: '' @ apiText e)) p1
           | Inr phase \<Rightarrow>
               if phase = ''Bound'' then withStatus (SetStorageReadyCondition now True MessageStorageReady) p1
               else withStatus (SetStorageReadyCondition now False (''PVC is not bound: '' @ phase)) p1))"

definition updateServiceStatus :: "'w StatusAPI \<Rightarrow> 'w IngressAPI \<Rightarrow> int \<Rightarrow> 'w Pass \<Rightarrow> 'w Pass" where
  "updateServiceStatus api ig now p =
     (let inst = ps_Instance p in
      case sa_Service api (ps_World p) (meta_Namespace (srv_ObjectMeta inst)) (meta_Name (srv_ObjectMeta inst) @ ''-service'') of
        Some e \<Rightarrow> withStatus (SetServiceReadyCondition now False (''Failed to get Service: '' @ apiText e)) p
      | None \<Rightarrow>
          withStatus (\<lambda>st. SetServiceReadyCondition now True MessageServiceReady
            (st\<lparr>status_ServiceURL := getServerURL inst [],
                status_ExternalURL := (if IsPraxisModeEnabled (srv_Spec inst) then None else getIngressURL ig (ps_World p) inst)\<rparr>)) p)"

definition updateDistributionConfig :: "'w OGXServerReconciler \<Rightarrow> 'w Pass \<Rightarrow> 'w Pass" where
  "updateDistributionConfig r p =
     (let d = spec_Distribution (srv_Spec (ps_Instance p)) in
      withStatus (\<lambda>st. st\<lparr>status_DistributionConfig := (status_DistributionConfig st)
        \<lparr>dcfg_AvailableDistributions := rc_DistributionImages r,
         dcfg_ActiveDistribution := (if dist_Name d \<noteq> [] then dist_Name d else if dist_Image d \<noteq> [] then ''custom'' else [])\<rparr>\<rparr>) p)"

definition setProviders :: "ProviderInfo list \<Rightarrow> OGXServerStatus \<Rightarrow> OGXServerStatus" where
  "setProviders ps st = st\<lparr>status_DistributionConfig := (status_DistributionConfig st)\<lparr>dcfg_Providers := ps\<rparr>\<rparr>"

definition setServerVersion :: "string \<Rightarrow> OGXServerStatus \<Rightarrow> OGXServerStatus" where
  "setServerVersion v st = st\<lparr>status_Version := (status_Version st)\<lparr>ver_ServerVersion := v\<rparr>\<rparr>"

text \<open>What \<open>updateStatus\<close> does once the Deployment's readiness is known.\<close>

definition reportHealth :: "'w StatusAPI \<Rightarrow> int \<Rightarrow> bool \<Rightarrow> 'w Pass \<Rightarrow> 'w Pass" where
  "reportHealth api now deploymentReady p =
     (if deploymentReady then
        withStatus (\<lambda>st. SetHealthCheckCondition now True MessageHealthCheckPassed
          ((case getVersionInfo api (ps_World p) (ps_Instance p) of Inl _ \<Rightarrow> (\<lambda>s. s) | Inr v \<Rightarrow> setServerVersion v)
            (setProviders (case getProviderInfo api (ps_World p) (ps_Instance p) of Inl _ \<Rightarrow> [] | Inr ps \<Rightarrow> ps)
              (setPhase PhaseReady st)))) p
      else withStatus (\<lambda>st. setProviders [] (SetHealthCheckCondition now False ''Deployment not ready'' st)) p)"

section \<open>Writing the status\<close>

text \<open>\<open>retry.RetryOnConflict\<close>: after a conflict the operation is run again, at most \<open>n\<close> more times.\<close>

fun retryOnConflict :: "(api_error \<Rightarrow> bool) \<Rightarrow> nat \<Rightarrow> ('w \<Rightarrow> api_error option \<times> 'w) \<Rightarrow> 'w \<Rightarrow> api_error option \<times> 'w" where
  "retryOnConflict isConflict 0 f w = f w"
| "retryOnConflict isConflict (Suc n) f w =
     (case f w of
        (None, w') \<Rightarrow> (None, w')
      | (Some e, w') \<Rightarrow> if isConflict e then retryOnConflict isConflict n f w' else (Some e, w'))"

text \<open>\<open>retry.DefaultRetry\<close> makes five attempts in all.\<close>

definition writeStatus :: "'w StatusAPI \<Rightarrow> OGXServer \<Rightarrow> 'w \<Rightarrow> api_error option \<times> 'w" where
  "writeStatus api inst =
     retryOnConflict (sa_IsConflict api) 4 (\<lambda>w.
       case sa_GetServer api w (meta_Namespace (srv_ObjectMeta inst)) (meta_Name (srv_ObjectMeta inst)) of
         Inl e \<Rightarrow> (Some e, w)
       | Inr latest \<Rightarrow> sa_UpdateStatus api w (latest\<lparr>srv_Status := srv_Status inst\<rparr>))"

text \<open>The reports between the check of the Deployment and the health of the server.\<close>

definition reportParts :: "'w StatusAPI \<Rightarrow> 'w IngressAPI \<Rightarrow> 'w AdoptAPI \<Rightarrow> 'w OGXServerReconciler \<Rightarrow> int \<Rightarrow> 'w Pass \<Rightarrow> 'w Pass" where
  "reportParts api ig ad r now p =
     (let p2 = updateDistributionConfig r (updateServiceStatus api ig now (updateStorageStatus api ad now p))
      in if IsPraxisModeEnabled (srv_Spec (ps_Instance p2)) then updatePraxisPreflightStatus (rc_Kube r) now p2 else p2)"

definition refreshStatus ::
    "'w StatusAPI \<Rightarrow> 'w IngressAPI \<Rightarrow> 'w AdoptAPI \<Rightarrow> 'w OGXServerReconciler \<Rightarrow> int \<Rightarrow> 'w Pass \<Rightarrow> string option \<times> 'w Pass" where
  "refreshStatus api ig ad r now p =
     (case updateDeploymentStatus api now p of
        (Inl e, p1) \<Rightarrow> (Some e, p1)
      | (Inr deploymentReady, p1) \<Rightarrow>
          (None, reportHealth api now deploymentReady (reportParts api ig ad r now p1)))"

text \<open>The status up to the write: a reconciliation error overrides every other check.\<close>

definition prepareStatus ::
    "'w StatusAPI \<Rightarrow> 'w IngressAPI \<Rightarrow> 'w AdoptAPI \<Rightarrow> 'w OGXServerReconciler \<Rightarrow> int \<Rightarrow> string option \<Rightarrow> 'w Pass \<Rightarrow> string option \<times> 'w Pass" where
  "prepareStatus api ig ad r now reconcileErr p =
     (let p0 = withStatus (\<lambda>st. st\<lparr>status_Version := (status_Version st)\<lparr>ver_OperatorVersion := sa_OperatorVersion api\<rparr>\<rparr>) p
      in case reconcileErr of
           Some e \<Rightarrow> (None, withStatus (\<lambda>st. SetDeploymentReadyCondition now False (''Resource reconciliation failed: '' @ e)
                        (setPhase PhaseFailed st)) p0)
         | None \<Rightarrow> refreshStatus api ig ad r now p0)"

definition updateStatus ::
    "'w StatusAPI \<Rightarrow> 'w IngressAPI \<Rightarrow> 'w AdoptAPI \<Rightarrow> 'w OGXServerReconciler \<Rightarrow> int \<Rightarrow> string option \<Rightarrow> 'w Pass \<Rightarrow> string option \<times> 'w Pass" where
  "updateStatus api ig ad r now reconcileErr p =
     (case prepareStatus api ig ad r now reconcileErr p of
        (Some e, p1) \<Rightarrow> (Some e, p1)
      | (None, p1) \<Rightarrow>
          (let p2 = withStatus (\<lambda>st. st\<lparr>status_Version := (status_Version st)\<lparr>ver_LastUpdated := now\<rparr>\<rparr>) p1
           in case writeStatus api (ps_Instance p2) (ps_World p2) of
                (None, w) \<Rightarrow> (None, p2\<lparr>ps_World := w\<rparr>)
              | (Some e, w) \<Rightarrow> (Some (''failed to update status: '' @ apiText e), p2\<lparr>ps_World := w\<rparr>)))"

section \<open>What each report leaves alone\<close>

text \<open>A report keeps the cluster, the instance and everything in the status but conditions of the types \<open>ty\<close> and the addresses.\<close>

definition reportsOnly :: "string set \<Rightarrow> 'w Pass \<Rightarrow> 'w Pass \<Rightarrow> bool" where
  "reportsOnly types p p' \<longleftrightarrow>
     ps_World p' = ps_World p
     \<and> srv_Spec (ps_Instance p') = srv_Spec (ps_Instance p)
     \<and> srv_ObjectMeta (ps_Instance p') = srv_ObjectMeta (ps_Instance p)
     \<and> status_Phase (statusOf p') = status_Phase (statusOf p)
     \<and> status_AvailableReplicas (statusOf p') = status_AvailableReplicas (statusOf p)
     \<and> status_Migration (statusOf p') = status_Migration (statusOf p)
     \<and> status_ConfigGeneration (statusOf p') = status_ConfigGeneration (statusOf p)
     \<and> (\<forall>ty. ty \<notin> types \<longrightarrow> GetCondition (statusOf p') ty = GetCondition (statusOf p) ty)"

lemma reportsOnly_refl [simp, intro]: "reportsOnly T p p"
  by (simp add: reportsOnly_def)

lemma reportsOnly_trans: "reportsOnly S p p1 \<Longrightarrow> reportsOnly T p1 p2 \<Longrightarrow> reportsOnly (S \<union> T) p p2"
  by (auto simp: reportsOnly_def)

lemma reportsOnly_mono: "reportsOnly S p p' \<Longrightarrow> S \<subseteq> T \<Longrightarrow> reportsOnly T p p'"
  by (auto simp: reportsOnly_def)

lemma reportsOnly_withStatus:
  "reportsOnly T p (withStatus f p) \<longleftrightarrow>
     status_Phase (f (statusOf p)) = status_Phase (statusOf p)
     \<and> status_AvailableReplicas (f (statusOf p)) = status_AvailableReplicas (statusOf p)
     \<and> status_Migration (f (statusOf p)) = status_Migration (statusOf p)
     \<and> status_ConfigGeneration (f (statusOf p)) = status_ConfigGeneration (statusOf p)
     \<and> (\<forall>ty. ty \<notin> T \<longrightarrow> GetCondition (f (statusOf p)) ty = GetCondition (statusOf p) ty)"
  by (simp add: reportsOnly_def)

lemmas report_simps = reportsOnly_withStatus setter_defs SetAdoptionConfigInvalidCondition_def sc.get_put

lemma GetCondition_urls [simp]:
  "GetCondition (st\<lparr>status_ServiceURL := u\<rparr>) ty = GetCondition st ty"
  "GetCondition (st\<lparr>status_ExternalURL := x\<rparr>) ty = GetCondition st ty"
  "GetCondition (st\<lparr>status_DistributionConfig := d\<rparr>) ty = GetCondition st ty"
  "GetCondition (st\<lparr>status_Version := v\<rparr>) ty = GetCondition st ty"
  "GetCondition (st\<lparr>status_Phase := ph\<rparr>) ty = GetCondition st ty"
  "GetCondition (st\<lparr>status_AvailableReplicas := n\<rparr>) ty = GetCondition st ty"
  by (simp_all add: GetCondition_def)

lemma resolvePVC_reports: "reportsOnly {ConditionTypeAdoptionConfigInvalid} p (snd (resolveEffectivePVCName ad now p))"
  by (simp add: resolveEffectivePVCName_def Let_def report_simps split: sum.split list.split)

lemma storage_reports:
  "reportsOnly {ConditionTypeAdoptionConfigInvalid, ConditionTypeStorageReady} p (updateStorageStatus api ad now p)"
proof -
  obtain e p1 where r: "resolveEffectivePVCName ad now p = (e, p1)" by fastforce
  then have "reportsOnly {ConditionTypeAdoptionConfigInvalid} p p1" using resolvePVC_reports [of p ad now] by simp
  moreover have "reportsOnly {ConditionTypeStorageReady} p1 (withStatus (SetStorageReadyCondition now ok message) p1)" for ok message
    by (simp add: report_simps)
  ultimately have "reportsOnly ({ConditionTypeAdoptionConfigInvalid} \<union> {ConditionTypeStorageReady}) p
      (withStatus (SetStorageReadyCondition now ok message) p1)" for ok message
    by (rule reportsOnly_trans)
  then show ?thesis
    using r by (simp add: updateStorageStatus_def insert_commute split: sum.split)
qed

lemma service_reports: "reportsOnly {ConditionTypeServiceReady} p (updateServiceStatus api ig now p)"
  by (simp add: updateServiceStatus_def Let_def report_simps split: option.split)

lemma distribution_reports: "reportsOnly {} p (updateDistributionConfig r p)"
  by (simp add: updateDistributionConfig_def Let_def report_simps)

lemma preflight_reports:
  "reportsOnly {ConditionTypePraxisReachable, ConditionTypeTLSConfigured} p (updatePraxisPreflightStatus kb now p)"
proof -
  have r: "reportsOnly {ConditionTypePraxisReachable} p (updatePraxisReachableCondition kb now p)"
    by (simp add: updatePraxisReachableCondition_def Let_def report_simps split: prod.split option.split sum.split)
  have t: "reportsOnly {ConditionTypeTLSConfigured} q (updateTLSConfiguredCondition kb now q)" for q
    by (simp add: updateTLSConfiguredCondition_def Let_def report_simps split: sum.split api_error.split)
  show ?thesis
    using reportsOnly_trans [OF r t] by (simp add: updatePraxisPreflightStatus_def insert_commute)
qed

definition partTypes :: "string set" where
  "partTypes = {ConditionTypeAdoptionConfigInvalid, ConditionTypeStorageReady, ConditionTypeServiceReady,
     ConditionTypePraxisReachable, ConditionTypeTLSConfigured}"

lemma parts_report: "reportsOnly partTypes p (reportParts api ig ad r now p)"
proof -
  let ?p2 = "updateDistributionConfig r (updateServiceStatus api ig now (updateStorageStatus api ad now p))"
  have "reportsOnly ({ConditionTypeAdoptionConfigInvalid, ConditionTypeStorageReady} \<union> {ConditionTypeServiceReady} \<union> {}) p ?p2"
    by (rule reportsOnly_trans [OF reportsOnly_trans [OF storage_reports service_reports] distribution_reports])
  note 2 = this and 3 = reportsOnly_trans [OF this preflight_reports]
  show ?thesis
    using reportsOnly_mono [OF 2, of partTypes] reportsOnly_mono [OF 3, of partTypes]
    by (simp add: reportParts_def partTypes_def Let_def)
qed

lemma urls_kept:
  "status_ServiceURL (statusOf (updateDistributionConfig r p)) = status_ServiceURL (statusOf p)"
  "status_ExternalURL (statusOf (updateDistributionConfig r p)) = status_ExternalURL (statusOf p)"
  "status_ServiceURL (statusOf (updatePraxisPreflightStatus kb now p)) = status_ServiceURL (statusOf p)"
  "status_ExternalURL (statusOf (updatePraxisPreflightStatus kb now p)) = status_ExternalURL (statusOf p)"
  by (simp_all add: updateDistributionConfig_def Let_def updatePraxisPreflightStatus_def updateTLSConfiguredCondition_def
      updatePraxisReachableCondition_def setter_defs split: prod.split option.split sum.split api_error.split)

lemma part_urls:
  assumes "sa_Service api (ps_World p) (meta_Namespace (srv_ObjectMeta (ps_Instance p)))
      (meta_Name (srv_ObjectMeta (ps_Instance p)) @ ''-service'') = None"
  shows "status_ServiceURL (statusOf (reportParts api ig ad r now p)) = getServerURL (ps_Instance p) []"
    "status_ExternalURL (statusOf (reportParts api ig ad r now p)) =
       (if IsPraxisModeEnabled (srv_Spec (ps_Instance p)) then None else getIngressURL ig (ps_World p) (ps_Instance p))"
proof -
  let ?p1 = "updateStorageStatus api ad now p"
  have 1: "ps_World ?p1 = ps_World p" "srv_Spec (ps_Instance ?p1) = srv_Spec (ps_Instance p)"
    "srv_ObjectMeta (ps_Instance ?p1) = srv_ObjectMeta (ps_Instance p)"
    using storage_reports [of p api ad now] by (simp_all add: reportsOnly_def)
  then have "getServerURL (ps_Instance ?p1) [] = getServerURL (ps_Instance p) []"
    "getIngressURL ig (ps_World p) (ps_Instance ?p1) = getIngressURL ig (ps_World p) (ps_Instance p)"
    by (simp_all add: getServerURL_def GetServiceName_def GetServicePort_def getIngressURL_def externalAccessRequested_def externalAccess_def
        getIngress_def ingressName_def)
  then show "status_ServiceURL (statusOf (reportParts api ig ad r now p)) = getServerURL (ps_Instance p) []"
    "status_ExternalURL (statusOf (reportParts api ig ad r now p)) =
       (if IsPraxisModeEnabled (srv_Spec (ps_Instance p)) then None else getIngressURL ig (ps_World p) (ps_Instance p))"
    using 1 assms by (simp_all add: reportParts_def Let_def urls_kept updateServiceStatus_def SetServiceReadyCondition_def)
qed

section \<open>Readiness\<close>

lemma serverURL_cong:
  "srv_ObjectMeta i = srv_ObjectMeta j \<Longrightarrow> srv_Spec i = srv_Spec j \<Longrightarrow> getServerURL i at = getServerURL j at"
  by (simp add: getServerURL_def GetServiceName_def GetServicePort_def)

definition reportedStatus ::
    "'w StatusAPI \<Rightarrow> 'w IngressAPI \<Rightarrow> 'w Pass \<Rightarrow> OGXServerPhase \<Rightarrow> int \<Rightarrow> OGXServerStatus \<Rightarrow> bool" where
  "reportedStatus api ig p ph k st \<longleftrightarrow>
     (let inst = ps_Instance p; w = ps_World p; m = srv_ObjectMeta inst in
      status_Phase st = ph \<and> status_AvailableReplicas st = k
      \<and> IsConditionTrue st ConditionTypeDeploymentReady = (ph = PhaseReady)
      \<and> IsConditionTrue st ConditionTypeHealthCheck = (ph = PhaseReady)
      \<and> dcfg_Providers (status_DistributionConfig st) =
          (if ph = PhaseReady then (case getProviderInfo api w inst of Inl _ \<Rightarrow> [] | Inr ps \<Rightarrow> ps) else [])
      \<and> (case sa_Service api w (meta_Namespace m) (meta_Name m @ ''-service'') of
           None \<Rightarrow> status_ServiceURL st = getServerURL inst []
             \<and> status_ExternalURL st = (if IsPraxisModeEnabled (srv_Spec inst) then None else getIngressURL ig w inst)
         | Some _ \<Rightarrow> True)
      \<and> status_Migration st = status_Migration (statusOf p)
      \<and> status_ConfigGeneration st = status_ConfigGeneration (statusOf p))"

text \<open>The Deployment's report, with the phase it finds.\<close>

definition observedPhase :: "int \<Rightarrow> int \<Rightarrow> OGXServerPhase" where
  "observedPhase ready want = (if ready = want \<and> ready \<noteq> 0 then PhaseReady else PhaseInitializing)"

definition deploymentReport :: "OGXServerPhase \<Rightarrow> int \<Rightarrow> 'w Pass \<Rightarrow> 'w Pass \<Rightarrow> bool" where
  "deploymentReport ph k p p' \<longleftrightarrow>
     ps_World p' = ps_World p
     \<and> srv_Spec (ps_Instance p') = srv_Spec (ps_Instance p)
     \<and> srv_ObjectMeta (ps_Instance p') = srv_ObjectMeta (ps_Instance p)
     \<and> status_Phase (statusOf p') = ph \<and> status_AvailableReplicas (statusOf p') = k
     \<and> IsConditionTrue (statusOf p') ConditionTypeDeploymentReady = (ph = PhaseReady)
     \<and> status_Migration (statusOf p') = status_Migration (statusOf p)
     \<and> status_ConfigGeneration (statusOf p') = status_ConfigGeneration (statusOf p)"

lemma IsConditionTrue_fields [simp]:
  "IsConditionTrue (st\<lparr>status_DistributionConfig := d\<rparr>) ty = IsConditionTrue st ty"
  "IsConditionTrue (st\<lparr>status_Version := v\<rparr>) ty = IsConditionTrue st ty"
  "IsConditionTrue (st\<lparr>status_Phase := ph\<rparr>) ty = IsConditionTrue st ty"
  "IsConditionTrue (st\<lparr>status_AvailableReplicas := n\<rparr>) ty = IsConditionTrue st ty"
  by (simp_all add: IsConditionTrue_def)

lemma deployment_reported:
  assumes "sa_ReadyReplicas api (ps_World p) (meta_Namespace (srv_ObjectMeta (ps_Instance p)))
      (meta_Name (srv_ObjectMeta (ps_Instance p))) = ready"
  shows "case updateDeploymentStatus api now p of
      (Inr b, p') \<Rightarrow> (\<exists>ph k. (case ready of Inr n \<Rightarrow> ph = observedPhase n (GetEffectiveReplicas (ps_Instance p)) \<and> k = n
           | Inl (NotFound _) \<Rightarrow> ph = PhasePending \<and> k = 0 | Inl _ \<Rightarrow> False)
         \<and> b = (ph = PhaseReady) \<and> deploymentReport ph k p p')
    | (Inl e, p') \<Rightarrow> p' = p \<and> (case ready of Inr _ \<Rightarrow> False | Inl (NotFound _) \<Rightarrow> False | Inl _ \<Rightarrow> True)"
  by (simp add: updateDeploymentStatus_def assms Let_def deploymentReport_def observedPhase_def setPhase_def
      SetDeploymentReadyCondition_def split: sum.split api_error.split)

lemma parts_not_ready: "ConditionTypeDeploymentReady \<notin> partTypes" "ConditionTypeHealthCheck \<notin> partTypes"
  by (simp_all add: partTypes_def condition_type_defs)

lemma health_reported:
  assumes "deploymentReport ph k p p1" "p3 = reportParts api ig ad r now p1"
  shows "reportedStatus api ig p ph k (statusOf (reportHealth api now (ph = PhaseReady) p3))"
proof -
  note d = assms(1) [unfolded deploymentReport_def]
  have parts: "reportsOnly partTypes p1 p3" unfolding assms(2) by (rule parts_report)
  then have ready: "IsConditionTrue (statusOf p3) ConditionTypeDeploymentReady = (ph = PhaseReady)"
    using d parts_not_ready by (simp add: reportsOnly_def IsConditionTrue_def)
  have info: "getProviderInfo api (ps_World p) (ps_Instance p3) = getProviderInfo api (ps_World p) (ps_Instance p)"
    using d parts serverURL_cong [of "ps_Instance p3" "ps_Instance p"] by (simp add: reportsOnly_def getProviderInfo_def)
  have urls: "case sa_Service api (ps_World p) (meta_Namespace (srv_ObjectMeta (ps_Instance p)))
        (meta_Name (srv_ObjectMeta (ps_Instance p)) @ ''-service'') of
      None \<Rightarrow> status_ServiceURL (statusOf p3) = getServerURL (ps_Instance p) []
        \<and> status_ExternalURL (statusOf p3) =
            (if IsPraxisModeEnabled (srv_Spec (ps_Instance p)) then None else getIngressURL ig (ps_World p) (ps_Instance p))
    | Some _ \<Rightarrow> True"
    using d part_urls [of api p1 ig ad r now] serverURL_cong [of "ps_Instance p1" "ps_Instance p"]
    by (simp add: assms(2) getIngressURL_def externalAccessRequested_def externalAccess_def getIngress_def ingressName_def
        split: option.split)
  show ?thesis
    using d parts ready urls
    by (simp add: reportedStatus_def Let_def reportHealth_def info SetHealthCheckCondition_def setProviders_def
        setServerVersion_def setPhase_def reportsOnly_def condition_type_defs split: option.splits sum.split)
qed

lemma reported_status_irrelevant:
  "ps_World p = ps_World q \<Longrightarrow> srv_Spec (ps_Instance p) = srv_Spec (ps_Instance q) \<Longrightarrow> srv_ObjectMeta (ps_Instance p) = srv_ObjectMeta (ps_Instance q)
   \<Longrightarrow> status_Migration (statusOf p) = status_Migration (statusOf q) \<Longrightarrow> status_ConfigGeneration (statusOf p) = status_ConfigGeneration (statusOf q)
   \<Longrightarrow> reportedStatus api ig p ph k st = reportedStatus api ig q ph k st"
  using serverURL_cong [of "ps_Instance p" "ps_Instance q"]
  by (simp add: reportedStatus_def Let_def getProviderInfo_def getIngressURL_def externalAccessRequested_def externalAccess_def
      getIngress_def ingressName_def split: option.split)

lemma reported_version [simp]:
  "reportedStatus api ig p ph k (st\<lparr>status_Version := v\<rparr>) = reportedStatus api ig p ph k st"
  by (simp add: reportedStatus_def Let_def split: option.split)

section \<open>The write\<close>

text \<open>The state after \<open>n\<close> attempts.\<close>

primrec attempts :: "('w \<Rightarrow> 'e \<times> 'w) \<Rightarrow> nat \<Rightarrow> 'w \<Rightarrow> 'w" where
  "attempts f 0 w = w"
| "attempts f (Suc n) w = attempts f n (snd (f w))"

text \<open>The retries end with the attempt after \<open>k\<close> conflicts, which is the last one allowed or has no conflict.\<close>

lemma retry_attempts:
  "\<exists>k\<le>n. retryOnConflict isConflict n f w = f (attempts f k w)
     \<and> (\<forall>j<k. \<exists>e. fst (f (attempts f j w)) = Some e \<and> isConflict e)
     \<and> (k = n \<or> (case fst (f (attempts f k w)) of None \<Rightarrow> True | Some e \<Rightarrow> \<not> isConflict e))"
proof (induction n arbitrary: w)
  case 0
  then show ?case by simp
next
  case (Suc n)
  obtain o1 w1 where f: "f w = (o1, w1)" by fastforce
  show ?case
  proof (cases "\<exists>e. o1 = Some e \<and> isConflict e")
    case True
    obtain k where "k \<le> n" "retryOnConflict isConflict n f w1 = f (attempts f k w1)"
      "\<forall>j<k. \<exists>e. fst (f (attempts f j w1)) = Some e \<and> isConflict e"
      "k = n \<or> (case fst (f (attempts f k w1)) of None \<Rightarrow> True | Some e \<Rightarrow> \<not> isConflict e)"
      using Suc.IH [of w1] by blast
    then show ?thesis
      using True f by (intro exI [of _ "Suc k"]) (auto simp: less_Suc_eq_0_disj)
  next
    case False
    then show ?thesis using f by (intro exI [of _ 0]) (auto split: option.split)
  qed
qed

lemma updateStatus_written:
  assumes "prepareStatus api ig ad r now err p = (None, p1)"
  shows "statusOf (snd (updateStatus api ig ad r now err p)) =
      (statusOf p1)\<lparr>status_Version := (status_Version (statusOf p1))\<lparr>ver_LastUpdated := now\<rparr>\<rparr>"
  using assms by (simp add: updateStatus_def Let_def statusOf_def withStatus_def split: prod.split option.split)

lemma prepare_failed:
  "prepareStatus api ig ad r now (Some e) p = (None, withStatus (\<lambda>st. SetCondition
     (st\<lparr>status_Version := (status_Version st)\<lparr>ver_OperatorVersion := sa_OperatorVersion api\<rparr>, status_Phase := PhaseFailed\<rparr>)
     (newCondition now ConditionTypeDeploymentReady False ReasonDeploymentFailed (''Resource reconciliation failed: '' @ e))) p)"
  by (simp add: prepareStatus_def Let_def withStatus_def SetDeploymentReadyCondition_def setPhase_def)

lemma prepare_reported:
  assumes "sa_ReadyReplicas api (ps_World p) (meta_Namespace (srv_ObjectMeta (ps_Instance p)))
      (meta_Name (srv_ObjectMeta (ps_Instance p))) = ready"
  shows "case prepareStatus api ig ad r now None p of
      (None, p') \<Rightarrow> (case ready of
          Inr n \<Rightarrow> reportedStatus api ig p (observedPhase n (GetEffectiveReplicas (ps_Instance p))) n (statusOf p')
        | Inl (NotFound _) \<Rightarrow> reportedStatus api ig p PhasePending 0 (statusOf p')
        | Inl _ \<Rightarrow> False)
    | (Some e, p') \<Rightarrow> ps_World p' = ps_World p \<and> (case ready of Inr _ \<Rightarrow> False | Inl (NotFound _) \<Rightarrow> False | Inl _ \<Rightarrow> True)"
proof -
  let ?p0 = "withStatus (\<lambda>st. st\<lparr>status_Version := (status_Version st)\<lparr>ver_OperatorVersion := sa_OperatorVersion api\<rparr>\<rparr>) p"
  have want: "GetEffectiveReplicas (ps_Instance ?p0) = GetEffectiveReplicas (ps_Instance p)"
    by (simp add: GetEffectiveReplicas_def)
  have p: "reportedStatus api ig ?p0 ph k st = reportedStatus api ig p ph k st" for ph k st
    by (rule reported_status_irrelevant) simp_all
  obtain b p1 where u: "updateDeploymentStatus api now ?p0 = (b, p1)" by fastforce
  have ready: "sa_ReadyReplicas api (ps_World ?p0) (meta_Namespace (srv_ObjectMeta (ps_Instance ?p0)))
      (meta_Name (srv_ObjectMeta (ps_Instance ?p0))) = ready" using assms by simp
  note d = deployment_reported [OF ready, of now, unfolded want u prod.case]
  show ?thesis
  proof (cases b)
    case (Inl e)
    then show ?thesis using d u by (simp add: prepareStatus_def Let_def refreshStatus_def)
  next
    case (Inr rdy)
    then obtain ph k where *: "case ready of Inr n \<Rightarrow> ph = observedPhase n (GetEffectiveReplicas (ps_Instance p)) \<and> k = n
         | Inl (NotFound _) \<Rightarrow> ph = PhasePending \<and> k = 0 | Inl _ \<Rightarrow> False" "rdy = (ph = PhaseReady)" "deploymentReport ph k ?p0 p1"
      using d by auto
    have "reportedStatus api ig ?p0 ph k (statusOf (reportHealth api now (ph = PhaseReady) (reportParts api ig ad r now p1)))"
      by (rule health_reported [OF *(3) refl])
    then show ?thesis using * u Inr p by (simp add: prepareStatus_def Let_def refreshStatus_def split: sum.splits api_error.splits)
  qed
qed

section \<open>Properties\<close>


end
