(* ===== verification/Migration.thy ===== *)
theory Migration
  imports Migration_Job
begin

text \<open>
  The Praxis migration state machine (\<open>controllers/migration_job.go\<close>, second half).  A handler takes the
  reconciliation pass (the instance with its status, the cluster state, the events emitted so far)
  and returns an error, if any, and the pass afterwards: status changes made before an error stay,
  as they do in Go.  One clock reading \<open>now\<close> serves a whole pass.  Log calls are left out.
\<close>

section \<open>Reading the Job\<close>

definition getMigrationJob ::
    "'w OGXServerReconciler \<Rightarrow> 'w \<Rightarrow> string \<Rightarrow> string \<Rightarrow> string + Job option" where
  "getMigrationJob r w ns n =
     (case (case kb_ReadJob (rc_Kube r) of Some rd \<Rightarrow> rd w ns n | None \<Rightarrow> kb_GetJob (rc_Kube r) w ns n) of
        Inr job \<Rightarrow> Inr (Some job)
      | Inl (NotFound _) \<Rightarrow> Inr None
      | Inl e \<Rightarrow> Inl (''failed to get migration Job '' @ ns @ ''/'' @ n @ '': '' @ apiText e))"

definition attemptOf :: "Job \<Rightarrow> string" where
  "attemptOf job = orEmpty (mget (meta_Annotations (job_ObjectMeta job)) migrationAttemptAnnotation)"

definition jobDeleting :: "Job \<Rightarrow> bool" where
  "jobDeleting job \<longleftrightarrow> meta_DeletionTimestamp (job_ObjectMeta job) \<noteq> None"

definition jobName :: "Job \<Rightarrow> string" where
  "jobName job = meta_Name (job_ObjectMeta job)"

definition jobHasCondition :: "Job \<Rightarrow> string \<Rightarrow> bool" where
  "jobHasCondition job ty =
     list_ex (\<lambda>c. jc_Type c = ty \<and> jc_Status c = ConditionTrue) (jst_Conditions (job_Status job))"

definition migrationJobIsCurrent :: "Job option \<Rightarrow> string \<Rightarrow> bool" where
  "migrationJobIsCurrent j key =
     (case j of None \<Rightarrow> False | Some job \<Rightarrow> \<not> jobDeleting job \<and> attemptOf job = key)"

definition migrationAttemptAlreadySucceeded :: "OGXServer \<Rightarrow> string \<Rightarrow> bool" where
  "migrationAttemptAlreadySucceeded inst key =
     (case status_Migration (srv_Status inst) of None \<Rightarrow> False
      | Some m \<Rightarrow> mig_Phase m = MigrationPhaseValidated \<and> mig_AttemptKey m = key)"

definition migrationAlreadyValidated :: "OGXServer \<Rightarrow> bool" where
  "migrationAlreadyValidated inst =
     (case status_Migration (srv_Status inst) of None \<Rightarrow> False
      | Some m \<Rightarrow> mig_Phase m = MigrationPhaseValidated)"

definition assertOwnedMigrationJob :: "'w OGXServerReconciler \<Rightarrow> OGXServer \<Rightarrow> Job \<Rightarrow> string option" where
  "assertOwnedMigrationJob r inst job =
     (if kb_IsControlledBy (rc_Kube r) job (srv_ObjectMeta inst) then None
      else Some (''failed to reconcile migration Job '' @ meta_Namespace (job_ObjectMeta job) @ ''/''
                 @ jobName job @ '': Job is not owned by OGXServer '' @ nsOf inst @ ''/'' @ nameOf inst))"

section \<open>Creating and deleting the Job\<close>

definition emitMigrationEvent ::
    "'w OGXServerReconciler \<Rightarrow> string \<Rightarrow> string \<Rightarrow> string \<Rightarrow> 'w Pass \<Rightarrow> 'w Pass" where
  "emitMigrationEvent r ty reason message p =
     (if rc_HasRecorder r
      then p\<lparr>ps_Events := ps_Events p @ [\<lparr>ev_Type = ty, ev_Reason = reason, ev_Message = message\<rparr>]\<rparr>
      else p)"

definition deleteMigrationJobObject ::
    "'w OGXServerReconciler \<Rightarrow> Job \<Rightarrow> 'w Pass \<Rightarrow> string option \<times> 'w Pass" where
  "deleteMigrationJobObject r job p =
     (case kb_DeleteJob (rc_Kube r) (ps_World p) job of
        (None, w) \<Rightarrow> (None, p\<lparr>ps_World := w\<rparr>)
      | (Some (NotFound _), w) \<Rightarrow> (None, p\<lparr>ps_World := w\<rparr>)
      | (Some e, w) \<Rightarrow>
          (Some (''failed to delete migration Job '' @ meta_Namespace (job_ObjectMeta job) @ ''/''
                 @ jobName job @ '': '' @ apiText e), p\<lparr>ps_World := w\<rparr>))"

definition deleteMigrationJob :: "'w OGXServerReconciler \<Rightarrow> 'w Pass \<Rightarrow> string option \<times> 'w Pass" where
  "deleteMigrationJob r p =
     (let inst = ps_Instance p in
      case getMigrationJob r (ps_World p) (nsOf inst) (migrationJobName (nameOf inst)) of
        Inl e \<Rightarrow> (Some e, p)
      | Inr None \<Rightarrow> (None, p)
      | Inr (Some job) \<Rightarrow>
          if jobDeleting job then (None, p)
          else (case assertOwnedMigrationJob r inst job of
                  Some e \<Rightarrow> (Some e, p)
                | None \<Rightarrow> deleteMigrationJobObject r job p))"

definition replaceStaleMigrationJob ::
    "'w OGXServerReconciler \<Rightarrow> Job \<Rightarrow> 'w Pass \<Rightarrow> string option \<times> 'w Pass" where
  "replaceStaleMigrationJob r job p = deleteMigrationJobObject r job p"

definition reconcileExistingMigrationJob ::
    "'w OGXServerReconciler \<Rightarrow> Job \<Rightarrow> string \<Rightarrow> 'w Pass \<Rightarrow> (string + Job option) \<times> 'w Pass" where
  "reconcileExistingMigrationJob r job key p =
     (case assertOwnedMigrationJob r (ps_Instance p) job of
        Some e \<Rightarrow> (Inl e, p)
      | None \<Rightarrow>
          if jobDeleting job then (Inr (Some job), p)
          else if attemptOf job \<noteq> key then
            (if jobHasCondition job JobComplete then (Inr (Some job), p)
             else (case replaceStaleMigrationJob r job p of
                     (Some e, p') \<Rightarrow> (Inl e, p')
                   | (None, p') \<Rightarrow> (Inr (Some job), p')))
          else (Inr (Some job), p))"

definition createMigrationJob ::
    "'w OGXServerReconciler \<Rightarrow> runtimeConfigRef option \<Rightarrow> string \<Rightarrow> string \<Rightarrow> 'w Pass
       \<Rightarrow> (string + Job option) \<times> 'w Pass" where
  "createMigrationJob r rcfg n key p =
     (let inst = ps_Instance p; ns = nsOf inst in
      case buildMigrationJob r (ps_World p) inst rcfg n key of
        Inl e \<Rightarrow> (Inl e, p)
      | Inr job \<Rightarrow>
          (case kb_CreateJob (rc_Kube r) (ps_World p) job of
             (Inl (AlreadyExists _), w) \<Rightarrow>
               (case getMigrationJob r w ns n of
                  Inl e \<Rightarrow> (Inl e, p\<lparr>ps_World := w\<rparr>)
                | Inr None \<Rightarrow>
                    (Inl (''failed to create migration Job '' @ ns @ ''/'' @ n
                          @ '': already exists but could not be read''), p\<lparr>ps_World := w\<rparr>)
                | Inr (Some existing) \<Rightarrow>
                    (case assertOwnedMigrationJob r inst existing of
                       Some e \<Rightarrow> (Inl e, p\<lparr>ps_World := w\<rparr>)
                     | None \<Rightarrow> (Inr (Some existing), p\<lparr>ps_World := w\<rparr>)))
           | (Inl e, w) \<Rightarrow>
               (Inl (''failed to create migration Job '' @ ns @ ''/'' @ n @ '': '' @ apiText e), p\<lparr>ps_World := w\<rparr>)
           | (Inr created, w) \<Rightarrow>
               (Inr (Some created),
                emitMigrationEvent r ''Normal'' ReasonMigrationJobPending
                  (''Created migration Job '' @ goQuote (kb_IsPrint (rc_Kube r)) n @ '' for attempt '' @ key)
                  (p\<lparr>ps_World := w\<rparr>))))"

definition ensureMigrationJob ::
    "'w OGXServerReconciler \<Rightarrow> runtimeConfigRef option \<Rightarrow> string \<Rightarrow> 'w Pass
       \<Rightarrow> (string + Job option) \<times> 'w Pass" where
  "ensureMigrationJob r rcfg key p =
     (let inst = ps_Instance p; n = migrationJobName (nameOf inst) in
      case getMigrationJob r (ps_World p) (nsOf inst) n of
        Inl e \<Rightarrow> (Inl e, p)
      | Inr (Some existing) \<Rightarrow> reconcileExistingMigrationJob r existing key p
      | Inr None \<Rightarrow>
          if migrationAttemptAlreadySucceeded inst key then (Inr None, p)
          else if migrationAlreadyValidated inst then (Inr None, p)
          else createMigrationJob r rcfg n key p)"

section \<open>Recording the outcome in the status\<close>

definition setMigration :: "MigrationStatus \<Rightarrow> OGXServerStatus \<Rightarrow> OGXServerStatus" where
  "setMigration m s = s\<lparr>status_Migration := Some m\<rparr>"

definition zeroMigrationStatus :: MigrationStatus where
  "zeroMigrationStatus =
     \<lparr>mig_Phase = MigrationPhaseUnset, mig_ObservedGeneration = 0, mig_AttemptKey = [], mig_JobName = [],
      mig_Message = [], mig_SoftRollbackWarning = []\<rparr>"

definition setSoftRollback :: "int \<Rightarrow> OGXServerStatus \<Rightarrow> OGXServerStatus" where
  "setSoftRollback now = SetSoftRollbackAvailableCondition now True ReasonSoftRollbackOnly SoftRollbackWarningMessage"

definition cutoverBlocked :: string where
  "cutoverBlocked = ''Cutover is blocked until the migration Job completes successfully''"

definition ensureSoftRollbackWarning :: "int \<Rightarrow> OGXServerStatus \<Rightarrow> OGXServerStatus" where
  "ensureSoftRollbackWarning now s =
     (let m = (case status_Migration s of None \<Rightarrow> zeroMigrationStatus | Some m \<Rightarrow> m)
      in setSoftRollback now (setMigration (m\<lparr>mig_SoftRollbackWarning := SoftRollbackWarningMessage\<rparr>) s))"

definition applyPreflightFailure :: "int \<Rightarrow> int \<Rightarrow> string \<Rightarrow> OGXServerStatus \<Rightarrow> OGXServerStatus" where
  "applyPreflightFailure now gen msg s =
     setSoftRollback now
     (SetPraxisCutoverReadyCondition now False ReasonPraxisCutoverNotReady cutoverBlocked
     (SetMigrationValidatedCondition now False ReasonMigrationValidationPending msg
     (SetMigrationJobSucceededCondition now False ReasonMigrationPreflightFailed msg
     (SetMigrationPreflightReadyCondition now False ReasonMigrationPreflightFailed msg
     (setMigration
        \<lparr>mig_Phase = MigrationPhasePreflightFailed, mig_ObservedGeneration = gen, mig_AttemptKey = [],
         mig_JobName = [], mig_Message = msg, mig_SoftRollbackWarning = SoftRollbackWarningMessage\<rparr> s)))))"

definition markMigrationWaiting ::
    "int \<Rightarrow> OGXServer \<Rightarrow> Job option \<Rightarrow> string \<Rightarrow> string \<Rightarrow> OGXServerStatus \<Rightarrow> OGXServerStatus" where
  "markMigrationWaiting now inst j key msg s =
     setSoftRollback now
     (SetPraxisCutoverReadyCondition now False ReasonPraxisCutoverNotReady cutoverBlocked
     (SetMigrationValidatedCondition now False ReasonMigrationValidationPending msg
     (SetMigrationJobSucceededCondition now False ReasonMigrationJobPending msg
     (setMigration
        \<lparr>mig_Phase = MigrationPhaseRunning,
         mig_ObservedGeneration = meta_Generation (srv_ObjectMeta inst), mig_AttemptKey = key,
         mig_JobName = (case j of None \<Rightarrow> migrationJobName (nameOf inst) | Some job \<Rightarrow> jobName job),
         mig_Message = msg, mig_SoftRollbackWarning = SoftRollbackWarningMessage\<rparr> s))))"

definition applyMigrationJobComplete ::
    "'w OGXServerReconciler \<Rightarrow> int \<Rightarrow> MigrationStatus \<Rightarrow> Job \<Rightarrow> 'w Pass \<Rightarrow> MigrationStatus \<times> 'w Pass" where
  "applyMigrationJobComplete r now m job p =
     (let alreadyReady = (IsConditionTrue (statusOf p) ConditionTypePraxisCutoverReady
            \<and> (case GetCondition (statusOf p) ConditionTypePraxisCutoverReady of
                 None \<Rightarrow> False | Some c \<Rightarrow> cond_Reason c = ReasonPraxisCutoverReady));
          msg = ''Migration Job '' @ goQuote (kb_IsPrint (rc_Kube r)) (jobName job) @ '' completed'';
          p1 = withStatus (\<lambda>s.
                 SetPraxisCutoverReadyCondition now True ReasonPraxisCutoverReady
                   ''Migration Job completed; cutover may proceed''
                 (SetMigrationValidatedCondition now True ReasonMigrationValidated msg
                 (SetMigrationJobSucceededCondition now True ReasonMigrationJobSucceeded msg s))) p
      in (m\<lparr>mig_Phase := MigrationPhaseValidated, mig_Message := msg\<rparr>,
          if alreadyReady then p1 else emitMigrationEvent r ''Normal'' ReasonPraxisCutoverReady msg p1))"

text \<open>The loop over the Job's conditions: what the first true \<open>Failed\<close> condition adds to the message.\<close>

definition failedConditionText :: "Job \<Rightarrow> string" where
  "failedConditionText job =
     (case find (\<lambda>c. jc_Type c = JobFailed \<and> jc_Status c = ConditionTrue) (jst_Conditions (job_Status job)) of
        None \<Rightarrow> []
      | Some c \<Rightarrow> (if jc_Reason c \<noteq> [] then '': '' @ jc_Reason c else [])
                 @ (if jc_Message c \<noteq> [] then '' ('' @ jc_Message c @ '')'' else []))"

definition applyMigrationJobFailed ::
    "'w OGXServerReconciler \<Rightarrow> int \<Rightarrow> MigrationStatus \<Rightarrow> Job \<Rightarrow> 'w Pass \<Rightarrow> MigrationStatus \<times> 'w Pass" where
  "applyMigrationJobFailed r now m job p =
     (let msg = ''Migration Job '' @ goQuote (kb_IsPrint (rc_Kube r)) (jobName job) @ '' failed''
            @ failedConditionText job @ ''; inspect logs with '' @ [CHR 0x60] @ ''oc logs job/'' @ jobName job
            @ [CHR 0x60] @ ''. Delete the Job to retry'';
          alreadyFailed = GetCondition (statusOf p) ConditionTypeMigrationJobSucceeded;
          p1 = withStatus (\<lambda>s.
                 SetPraxisCutoverReadyCondition now False ReasonPraxisCutoverNotReady
                   ''Cutover is blocked because the migration Job did not succeed''
                 (SetMigrationValidatedCondition now False ReasonMigrationValidationFailed msg
                 (SetMigrationJobSucceededCondition now False ReasonMigrationJobFailed msg s))) p
      in (m\<lparr>mig_Phase := MigrationPhaseFailed, mig_Message := msg\<rparr>,
          if (case alreadyFailed of None \<Rightarrow> True | Some c \<Rightarrow> cond_Reason c \<noteq> ReasonMigrationJobFailed)
          then emitMigrationEvent r ''Warning'' ReasonMigrationJobFailed msg p1 else p1))"

text \<open>The two cases of a Job that has neither completed nor failed differ in reason and message.\<close>

definition applyMigrationJobRunning ::
    "int \<Rightarrow> string \<Rightarrow> string \<Rightarrow> MigrationStatus \<Rightarrow> 'w Pass \<Rightarrow> MigrationStatus \<times> 'w Pass" where
  "applyMigrationJobRunning now reason msg m p =
     (m\<lparr>mig_Phase := MigrationPhaseRunning, mig_Message := msg\<rparr>,
      withStatus (\<lambda>s.
        SetPraxisCutoverReadyCondition now False ReasonPraxisCutoverNotReady cutoverBlocked
        (SetMigrationValidatedCondition now False ReasonMigrationValidationPending msg
        (SetMigrationJobSucceededCondition now False reason msg s))) p)"

definition observeMigrationJob ::
    "'w OGXServerReconciler \<Rightarrow> int \<Rightarrow> Job \<Rightarrow> string \<Rightarrow> 'w Pass \<Rightarrow> 'w Pass" where
  "observeMigrationJob r now job key p =
     (let m = \<lparr>mig_Phase = MigrationPhaseUnset,
               mig_ObservedGeneration = meta_Generation (srv_ObjectMeta (ps_Instance p)),
               mig_AttemptKey = key, mig_JobName = jobName job, mig_Message = [],
               mig_SoftRollbackWarning = SoftRollbackWarningMessage\<rparr>;
          q = goQuote (kb_IsPrint (rc_Kube r)) (jobName job);
          p0 = withStatus (setSoftRollback now) p;
          (m', p') =
            (if jobHasCondition job JobComplete then applyMigrationJobComplete r now m job p0
             else if jobHasCondition job JobFailed then applyMigrationJobFailed r now m job p0
             else if jst_Active (job_Status job) > 0
             then applyMigrationJobRunning now ReasonMigrationJobRunning
                    (''Migration Job '' @ q @ '' is active'') m p0
             else applyMigrationJobRunning now ReasonMigrationJobPending
                    (''Migration Job '' @ q @ '' created; waiting for completion'') m p0)
      in withStatus (setMigration m') p')"

section \<open>The handlers\<close>

definition reconciler_isMigrationRequested :: "OGXServer \<Rightarrow> bool" where
  "reconciler_isMigrationRequested inst =
     (if \<not> IsPraxisModeEnabled (srv_Spec inst) then False
      else case spec_PraxisMode (srv_Spec inst) of None \<Rightarrow> False
           | Some pm \<Rightarrow> (case pm_MigrationJob pm of None \<Rightarrow> False
                        | Some mj \<Rightarrow> (case mj_Enabled mj of None \<Rightarrow> True | Some b \<Rightarrow> b)))"

definition hasMigrationHistory :: "OGXServerStatus \<Rightarrow> bool" where
  "hasMigrationHistory s \<longleftrightarrow>
     (case status_Migration s of None \<Rightarrow> False
      | Some m \<Rightarrow> mig_SoftRollbackWarning m \<noteq> [] \<or> mig_JobName m \<noteq> [] \<or> mig_AttemptKey m \<noteq> []
                 \<or> (mig_Phase m \<noteq> MigrationPhaseUnset \<and> mig_Phase m \<noteq> MigrationPhasePending))
     \<or> list_ex (\<lambda>c. cond_Type c \<in> {ConditionTypeMigrationPreflightReady, ConditionTypeMigrationJobSucceeded,
           ConditionTypeMigrationValidated, ConditionTypePraxisCutoverReady, ConditionTypeSoftRollbackAvailable})
         (status_Conditions s)"

definition warnSoftRollbackOnPraxisDisable :: "int \<Rightarrow> OGXServerStatus \<Rightarrow> OGXServerStatus" where
  "warnSoftRollbackOnPraxisDisable now s =
     (case status_Migration s of None \<Rightarrow> s
      | Some m \<Rightarrow> setSoftRollback now
                   (setMigration (m\<lparr>mig_SoftRollbackWarning := SoftRollbackWarningMessage\<rparr>) s))"

definition clearMigrationState :: "int \<Rightarrow> string \<Rightarrow> OGXServerStatus \<Rightarrow> OGXServerStatus" where
  "clearMigrationState now msg s =
     (let priorWarning = (case status_Migration s of None \<Rightarrow> [] | Some m \<Rightarrow> mig_SoftRollbackWarning m);
          validated = (case status_Migration s of None \<Rightarrow> False | Some m \<Rightarrow> mig_Phase m = MigrationPhaseValidated);
          priorKey = (case status_Migration s of None \<Rightarrow> [] | Some m \<Rightarrow> if validated then mig_AttemptKey m else []);
          s1 = SetPraxisCutoverReadyCondition now False ReasonPraxisCutoverNotReady msg
               (SetMigrationValidatedCondition now False ReasonMigrationNotRequested msg
               (SetMigrationJobSucceededCondition now False ReasonMigrationNotRequested msg
               (SetMigrationPreflightReadyCondition now False ReasonMigrationNotRequested msg
               (setMigration
                  \<lparr>mig_Phase = (if validated then MigrationPhaseValidated else MigrationPhasePending),
                   mig_ObservedGeneration = 0, mig_AttemptKey = priorKey, mig_JobName = [],
                   mig_Message = msg, mig_SoftRollbackWarning = priorWarning\<rparr> s))))
      in if priorWarning = [] then SetSoftRollbackAvailableCondition now False ReasonMigrationNotRequested msg s1
         else s1)"

definition notOptedIn :: string where
  "notOptedIn = ''Migration is not opted in (requires praxisMode.enabled and praxisMode.migrationJob)''"

definition handleMigrationNotRequested ::
    "'w OGXServerReconciler \<Rightarrow> int \<Rightarrow> 'w Pass \<Rightarrow> string option \<times> 'w Pass" where
  "handleMigrationNotRequested r now p =
     (case deleteMigrationJob r p of
        (Some e, p1) \<Rightarrow> (Some e, p1)
      | (None, p1) \<Rightarrow>
          if \<not> hasMigrationHistory (statusOf p1) then (None, p1)
          else (None, withStatus (\<lambda>s. clearMigrationState now notOptedIn (warnSoftRollbackOnPraxisDisable now s)) p1))"

definition waitingMessage :: string where
  "waitingMessage = ''Waiting for the previous migration Job to finish terminating before starting a new attempt''"

definition reconcileMigration ::
    "'w OGXServerReconciler \<Rightarrow> int \<Rightarrow> runtimeConfigRef option \<Rightarrow> 'w Pass \<Rightarrow> string option \<times> 'w Pass" where
  "reconcileMigration r now rcfg p =
     (if \<not> reconciler_isMigrationRequested (ps_Instance p) then handleMigrationNotRequested r now p
      else let p1 = withStatus (ensureSoftRollbackWarning now) p in
        case runMigrationPreflight r (ps_World p1) (ps_Instance p1) rcfg of
          Some e \<Rightarrow>
            (None, emitMigrationEvent r ''Warning'' ReasonMigrationPreflightFailed e
              (withStatus (applyPreflightFailure now (meta_Generation (srv_ObjectMeta (ps_Instance p1))) e) p1))
        | None \<Rightarrow>
            (let p2 = withStatus (SetMigrationPreflightReadyCondition now True ReasonMigrationPreflightPassed
                        ''Migration preflight checks passed'') p1 in
             case migrationAttemptKey r (ps_World p2) (ps_Instance p2) rcfg of
               Inl e \<Rightarrow> (Some e, p2)
             | Inr key \<Rightarrow>
                 (case ensureMigrationJob r rcfg key p2 of
                    (Inl e, p3) \<Rightarrow> (Some e, p3)
                  | (Inr None, p3) \<Rightarrow> (None, p3)
                  | (Inr (Some job), p3) \<Rightarrow>
                      if \<not> migrationJobIsCurrent (Some job) key then
                        (if \<not> jobDeleting job \<and> jobHasCondition job JobComplete
                         then (None, observeMigrationJob r now job (attemptOf job) p3)
                         else (None, withStatus (markMigrationWaiting now (ps_Instance p3) (Some job) key waitingMessage) p3))
                      else (None, observeMigrationJob r now job key p3))))"

definition migrationNeedsRequeue :: "OGXServer \<Rightarrow> bool" where
  "migrationNeedsRequeue inst =
     (case status_Migration (srv_Status inst) of None \<Rightarrow> False
      | Some m \<Rightarrow> mig_Phase m = MigrationPhaseRunning)"


section \<open>Effects of the handlers on the conditions\<close>

lemma migration_types_distinct [simp]:
  "ConditionTypeMigrationPreflightReady \<noteq> ConditionTypeMigrationJobSucceeded"
  "ConditionTypeMigrationPreflightReady \<noteq> ConditionTypeMigrationValidated"
  "ConditionTypeMigrationPreflightReady \<noteq> ConditionTypePraxisCutoverReady"
  "ConditionTypeMigrationPreflightReady \<noteq> ConditionTypeSoftRollbackAvailable"
  "ConditionTypeMigrationJobSucceeded \<noteq> ConditionTypeMigrationPreflightReady"
  "ConditionTypeMigrationJobSucceeded \<noteq> ConditionTypeMigrationValidated"
  "ConditionTypeMigrationJobSucceeded \<noteq> ConditionTypePraxisCutoverReady"
  "ConditionTypeMigrationJobSucceeded \<noteq> ConditionTypeSoftRollbackAvailable"
  "ConditionTypeMigrationValidated \<noteq> ConditionTypeMigrationPreflightReady"
  "ConditionTypeMigrationValidated \<noteq> ConditionTypeMigrationJobSucceeded"
  "ConditionTypeMigrationValidated \<noteq> ConditionTypePraxisCutoverReady"
  "ConditionTypeMigrationValidated \<noteq> ConditionTypeSoftRollbackAvailable"
  "ConditionTypePraxisCutoverReady \<noteq> ConditionTypeMigrationPreflightReady"
  "ConditionTypePraxisCutoverReady \<noteq> ConditionTypeMigrationJobSucceeded"
  "ConditionTypePraxisCutoverReady \<noteq> ConditionTypeMigrationValidated"
  "ConditionTypePraxisCutoverReady \<noteq> ConditionTypeSoftRollbackAvailable"
  "ConditionTypeSoftRollbackAvailable \<noteq> ConditionTypeMigrationPreflightReady"
  "ConditionTypeSoftRollbackAvailable \<noteq> ConditionTypeMigrationJobSucceeded"
  "ConditionTypeSoftRollbackAvailable \<noteq> ConditionTypeMigrationValidated"
  "ConditionTypeSoftRollbackAvailable \<noteq> ConditionTypePraxisCutoverReady"
  by (simp_all add: condition_type_defs)

lemmas migration_setters =
  SetMigrationPreflightReadyCondition_def SetMigrationJobSucceededCondition_def
  SetMigrationValidatedCondition_def SetPraxisCutoverReadyCondition_def
  SetSoftRollbackAvailableCondition_def setSoftRollback_def

definition cutoverReady :: "OGXServerStatus \<Rightarrow> bool" where
  "cutoverReady s = IsConditionTrue s ConditionTypePraxisCutoverReady"

text \<open>
  The consistency of a status: cutover is only reported ready together with a validated phase and
  the true conditions it rests on.
\<close>

definition migrationConsistent :: "OGXServerStatus \<Rightarrow> bool" where
  "migrationConsistent s =
     (cutoverReady s \<longrightarrow>
        IsConditionTrue s ConditionTypeMigrationValidated \<and> IsConditionTrue s ConditionTypeMigrationJobSucceeded
        \<and> (\<exists>m. status_Migration s = Some m \<and> mig_Phase m = MigrationPhaseValidated))"

lemma emit_simps [simp]:
  "statusOf (emitMigrationEvent r ty reason msg p) = statusOf p"
  "ps_World (emitMigrationEvent r ty reason msg p) = ps_World p"
  "ps_Instance (emitMigrationEvent r ty reason msg p) = ps_Instance p"
  "ps_Events (emitMigrationEvent r ty reason msg p) = ps_Events p @
     (if rc_HasRecorder r then [\<lparr>ev_Type = ty, ev_Reason = reason, ev_Message = msg\<rparr>] else [])"
  by (simp_all add: emitMigrationEvent_def statusOf_def)

lemma setMigration_simps [simp]:
  "status_Migration (setMigration m s) = Some m"
  "IsConditionTrue (setMigration m s) ty = IsConditionTrue s ty"
  "GetCondition (setMigration m s) ty = GetCondition s ty"
  by (simp_all add: setMigration_def)

lemma softRollback_keeps [simp]:
  "cutoverReady (ensureSoftRollbackWarning now s) = cutoverReady s"
  "cutoverReady (warnSoftRollbackOnPraxisDisable now s) = cutoverReady s"
  "cutoverReady (setSoftRollback now s) = cutoverReady s"
  "migrationConsistent (setSoftRollback now s) = migrationConsistent s"
  "migrationConsistent (ensureSoftRollbackWarning now s) = migrationConsistent s"
  "status_Migration (setSoftRollback now s) = status_Migration s"
  by (auto simp: ensureSoftRollbackWarning_def warnSoftRollbackOnPraxisDisable_def cutoverReady_def
      migrationConsistent_def migration_setters zeroMigrationStatus_def Let_def split: option.splits)

lemma preflightReady_keeps [simp]:
  "cutoverReady (SetMigrationPreflightReadyCondition now b reason msg s) = cutoverReady s"
  "migrationConsistent (SetMigrationPreflightReadyCondition now b reason msg s) = migrationConsistent s"
  "status_Migration (SetMigrationPreflightReadyCondition now b reason msg s) = status_Migration s"
  by (simp_all add: cutoverReady_def migrationConsistent_def migration_setters)

lemma blocking_updates [simp]:
  "\<not> cutoverReady (applyPreflightFailure now gen msg s)"
  "\<not> cutoverReady (markMigrationWaiting now inst j key msg s)"
  "\<not> cutoverReady (clearMigrationState now msg s)"
  by (simp_all add: applyPreflightFailure_def markMigrationWaiting_def clearMigrationState_def
      cutoverReady_def migration_setters Let_def)

lemma blocked_consistent: "\<not> cutoverReady s \<Longrightarrow> migrationConsistent s"
  by (simp add: migrationConsistent_def)

section \<open>Observing a Job\<close>

definition jobPhase :: "Job \<Rightarrow> MigrationPhase" where
  "jobPhase job =
     (if jobHasCondition job JobComplete then MigrationPhaseValidated
      else if jobHasCondition job JobFailed then MigrationPhaseFailed
      else MigrationPhaseRunning)"

lemma observe_world [simp]: "ps_World (observeMigrationJob r now job key p) = ps_World p"
  by (auto simp: observeMigrationJob_def applyMigrationJobComplete_def applyMigrationJobFailed_def
      applyMigrationJobRunning_def Let_def)

lemma observe_migration:
  "\<exists>m. status_Migration (statusOf (observeMigrationJob r now job key p)) = Some m
     \<and> mig_Phase m = jobPhase job \<and> mig_AttemptKey m = key \<and> mig_JobName m = jobName job
     \<and> mig_ObservedGeneration m = meta_Generation (srv_ObjectMeta (ps_Instance p))
     \<and> mig_SoftRollbackWarning m = SoftRollbackWarningMessage"
  by (auto simp: observeMigrationJob_def applyMigrationJobComplete_def applyMigrationJobFailed_def
      applyMigrationJobRunning_def jobPhase_def Let_def)

lemma observe_conditions:
  "cutoverReady (statusOf (observeMigrationJob r now job key p)) = jobHasCondition job JobComplete"
  "IsConditionTrue (statusOf (observeMigrationJob r now job key p)) ConditionTypeMigrationValidated
     = jobHasCondition job JobComplete"
  "IsConditionTrue (statusOf (observeMigrationJob r now job key p)) ConditionTypeMigrationJobSucceeded
     = jobHasCondition job JobComplete"
  by (auto simp: observeMigrationJob_def applyMigrationJobComplete_def applyMigrationJobFailed_def
      applyMigrationJobRunning_def cutoverReady_def migration_setters Let_def)

lemma observe_consistent: "migrationConsistent (statusOf (observeMigrationJob r now job key p))"
  using observe_migration [of r now job key p]
  by (auto simp: migrationConsistent_def observe_conditions jobPhase_def)

section \<open>Which Job is returned\<close>

definition ownedJob :: "'w OGXServerReconciler \<Rightarrow> OGXServer \<Rightarrow> Job \<Rightarrow> bool" where
  "ownedJob r inst job = kb_IsControlledBy (rc_Kube r) job (srv_ObjectMeta inst)"

lemma assertOwned_None [simp]: "assertOwnedMigrationJob r inst job = None \<longleftrightarrow> ownedJob r inst job"
  by (simp add: assertOwnedMigrationJob_def ownedJob_def)

lemma assertOwned_foreign: "\<not> ownedJob r inst job \<Longrightarrow> \<exists>e. assertOwnedMigrationJob r inst job = Some e"
  by (simp add: assertOwnedMigrationJob_def ownedJob_def)

definition readJob :: "'w OGXServerReconciler \<Rightarrow> 'w \<Rightarrow> OGXServer \<Rightarrow> string + Job option" where
  "readJob r w inst = getMigrationJob r w (nsOf inst) (migrationJobName (nameOf inst))"

lemma deleteObject_status [simp]:
  "statusOf (snd (deleteMigrationJobObject r job p)) = statusOf p"
  "srv_Spec (ps_Instance (snd (deleteMigrationJobObject r job p))) = srv_Spec (ps_Instance p)"
  "srv_ObjectMeta (ps_Instance (snd (deleteMigrationJobObject r job p))) = srv_ObjectMeta (ps_Instance p)"
  by (auto simp: deleteMigrationJobObject_def statusOf_def split: prod.splits option.splits api_error.splits)

lemma deleteMigrationJob_status [simp]: "statusOf (snd (deleteMigrationJob r p)) = statusOf p"
  by (auto simp: deleteMigrationJob_def Let_def split: sum.splits option.splits)

lemma existing_status: "statusOf (snd (reconcileExistingMigrationJob r job key p)) = statusOf p"
  using deleteObject_status(1) [of r job p]
  by (cases "deleteMigrationJobObject r job p")
     (auto simp: reconcileExistingMigrationJob_def replaceStaleMigrationJob_def split: option.splits)

lemma create_status: "statusOf (snd (createMigrationJob r rcfg n key p)) = statusOf p"
  by (auto simp: createMigrationJob_def Let_def statusOf_def emitMigrationEvent_def
      split: option.splits prod.splits sum.splits api_error.splits)

lemma ensure_status: "statusOf (snd (ensureMigrationJob r rcfg key p)) = statusOf p"
  by (auto simp: ensureMigrationJob_def Let_def existing_status create_status split: sum.splits option.splits)

lemma existing_returns:
  "reconcileExistingMigrationJob r job key p = (Inr jo, p') \<Longrightarrow> jo = Some job \<and> ownedJob r (ps_Instance p) job"
  by (auto simp: reconcileExistingMigrationJob_def split: option.splits prod.splits if_splits)

lemma create_returns:
  assumes "createMigrationJob r rcfg n key p = (Inr jo, p')"
  shows "\<exists>job. jo = Some job \<and>
     ((getMigrationJob r (ps_World p') (nsOf (ps_Instance p)) n = Inr (Some job) \<and> ownedJob r (ps_Instance p) job)
      \<or> (\<exists>new w. kb_CreateJob (rc_Kube r) (ps_World p) new = (Inr job, w)))"
  using assms
  by (auto simp: createMigrationJob_def Let_def split: sum.splits prod.splits api_error.splits option.splits)

text \<open>What is relied on of the API server: a Job it has just created has no status yet.\<close>

definition createsFresh :: "'w Kube \<Rightarrow> bool" where
  "createsFresh kb \<longleftrightarrow>
     (\<forall>w job job' w'. kb_CreateJob kb w job = (Inr job', w') \<longrightarrow> jst_Conditions (job_Status job') = [])"

lemma ensure_complete_job:
  assumes "createsFresh (rc_Kube r)" "ensureMigrationJob r rcfg key p = (Inr (Some job), p')"
    and "jobHasCondition job JobComplete"
  shows "ownedJob r (ps_Instance p) job \<and>
    (readJob r (ps_World p) (ps_Instance p) = Inr (Some job) \<or> readJob r (ps_World p') (ps_Instance p) = Inr (Some job))"
proof (cases "readJob r (ps_World p) (ps_Instance p)")
  case (Inl e)
  then show ?thesis using assms(2) by (simp add: ensureMigrationJob_def readJob_def Let_def)
next
  case (Inr jo)
  show ?thesis
  proof (cases jo)
    case None
    then have "createMigrationJob r rcfg (migrationJobName (nameOf (ps_Instance p))) key p = (Inr (Some job), p')"
      using Inr assms(2) by (auto simp: ensureMigrationJob_def readJob_def Let_def split: if_splits)
    moreover have "kb_CreateJob (rc_Kube r) (ps_World p) new \<noteq> (Inr job, w)" for new w
      using assms(1,3) by (fastforce simp: createsFresh_def jobHasCondition_def)
    ultimately show ?thesis using create_returns [of r rcfg _ key p "Some job" p'] by (auto simp: readJob_def)
  next
    case (Some ex)
    then have "reconcileExistingMigrationJob r ex key p = (Inr (Some job), p')"
      using Inr assms(2) by (simp add: ensureMigrationJob_def readJob_def Let_def)
    then show ?thesis using existing_returns [of r ex key p "Some job" p'] Inr Some by auto
  qed
qed


section \<open>One pass\<close>

text \<open>The checks and the attempt key do not read the status.\<close>

lemma status_irrelevant_basic [simp]:
  "nsOf (inst\<lparr>srv_Status := s\<rparr>) = nsOf inst"
  "nameOf (inst\<lparr>srv_Status := s\<rparr>) = nameOf inst"
  "migrationSourceSecretRef (inst\<lparr>srv_Status := s\<rparr>) = migrationSourceSecretRef inst"
  "migrationTargetSecretRef (inst\<lparr>srv_Status := s\<rparr>) = migrationTargetSecretRef inst"
  "migrationJobSpec (inst\<lparr>srv_Status := s\<rparr>) = migrationJobSpec inst"
  "getManagedCABundleConfigMapName (inst\<lparr>srv_Status := s\<rparr>) = getManagedCABundleConfigMapName inst"
  "detectODHTrustedCABundle r w (inst\<lparr>srv_Status := s\<rparr>) = detectODHTrustedCABundle r w inst"
  by (simp_all add: nsOf_def nameOf_def migrationSourceSecretRef_def migrationTargetSecretRef_def
      migrationJobSpec_def getManagedCABundleConfigMapName_def detectODHTrustedCABundle_def
      split: sum.split api_error.split)

lemma status_irrelevant_derived [simp]:
  "hasAnyCABundle r w (inst\<lparr>srv_Status := s\<rparr>) = hasAnyCABundle r w inst"
  "requireMigrationTargetSecretRef (inst\<lparr>srv_Status := s\<rparr>) = requireMigrationTargetSecretRef inst"
  "appendMigrationSourceAttemptKey r w (inst\<lparr>srv_Status := s\<rparr>) = appendMigrationSourceAttemptKey r w inst"
  "appendMigrationTargetAttemptKey r w (inst\<lparr>srv_Status := s\<rparr>) = appendMigrationTargetAttemptKey r w inst"
  "appendMigrationFallbackAttemptKey q (inst\<lparr>srv_Status := s\<rparr>) = appendMigrationFallbackAttemptKey q inst"
  "reconciler_isMigrationRequested (inst\<lparr>srv_Status := s\<rparr>) = reconciler_isMigrationRequested inst"
  "ownedJob r (inst\<lparr>srv_Status := s\<rparr>) job = ownedJob r inst job"
  "readJob r w (inst\<lparr>srv_Status := s\<rparr>) = readJob r w inst"
  by (simp_all add: hasAnyCABundle_def requireMigrationTargetSecretRef_def
      appendMigrationSourceAttemptKey_def appendMigrationTargetAttemptKey_def
      appendMigrationFallbackAttemptKey_def reconciler_isMigrationRequested_def ownedJob_def readJob_def
      split: option.split)

lemma status_irrelevant [simp]:
  "runMigrationPreflight r w (inst\<lparr>srv_Status := s\<rparr>) rcfg = runMigrationPreflight r w inst rcfg"
  "migrationAttemptKey r w (inst\<lparr>srv_Status := s\<rparr>) rcfg = migrationAttemptKey r w inst rcfg"
proof -
  have "ensureMigrationCABundle r w (inst\<lparr>srv_Status := s\<rparr>) = ensureMigrationCABundle r w inst"
    by (simp add: ensureMigrationCABundle_def Let_def)
  then show "runMigrationPreflight r w (inst\<lparr>srv_Status := s\<rparr>) rcfg = runMigrationPreflight r w inst rcfg"
    by (simp add: runMigrationPreflight_def split: sum.split)
  show "migrationAttemptKey r w (inst\<lparr>srv_Status := s\<rparr>) rcfg = migrationAttemptKey r w inst rcfg"
    by (simp add: migrationAttemptKey_def migrationAttemptText_def)
qed

text \<open>The pass once the preflight has been recorded as passed.\<close>

definition preparedPass :: "int \<Rightarrow> 'w Pass \<Rightarrow> 'w Pass" where
  "preparedPass now p =
     withStatus (SetMigrationPreflightReadyCondition now True ReasonMigrationPreflightPassed
        ''Migration preflight checks passed'') (withStatus (ensureSoftRollbackWarning now) p)"

lemma preparedPass_simps [simp]:
  "ps_World (preparedPass now p) = ps_World p"
  "cutoverReady (statusOf (preparedPass now p)) = cutoverReady (statusOf p)"
  "migrationConsistent (statusOf (preparedPass now p)) = migrationConsistent (statusOf p)"
  "ownedJob r (ps_Instance (preparedPass now p)) job = ownedJob r (ps_Instance p) job"
  "readJob r w (ps_Instance (preparedPass now p)) = readJob r w (ps_Instance p)"
  "srv_ObjectMeta (ps_Instance (preparedPass now p)) = srv_ObjectMeta (ps_Instance p)"
  by (simp_all add: preparedPass_def) (simp_all add: withStatus_def)

lemma preparedPass_migration:
  "status_Migration (statusOf (preparedPass now p)) =
     Some ((case status_Migration (statusOf p) of None \<Rightarrow> zeroMigrationStatus | Some m \<Rightarrow> m)
       \<lparr>mig_SoftRollbackWarning := SoftRollbackWarningMessage\<rparr>)"
  by (simp add: preparedPass_def ensureSoftRollbackWarning_def Let_def)

lemma preparedPass_validated:
  "migrationAlreadyValidated (ps_Instance (preparedPass now p)) = migrationAlreadyValidated (ps_Instance p)"
  using preparedPass_migration [of now p]
  by (simp add: migrationAlreadyValidated_def statusOf_def zeroMigrationStatus_def split: option.splits)

lemma reconcile_preflight_failed:
  assumes "reconciler_isMigrationRequested (ps_Instance p)"
    and "runMigrationPreflight r (ps_World p) (ps_Instance p) rcfg = Some e"
  shows "reconcileMigration r now rcfg p =
    (None, emitMigrationEvent r ''Warning'' ReasonMigrationPreflightFailed e
       (withStatus (\<lambda>s. applyPreflightFailure now (meta_Generation (srv_ObjectMeta (ps_Instance p))) e
          (ensureSoftRollbackWarning now s)) p))"
  using assms by (simp add: reconcileMigration_def Let_def withStatus_def)

lemma reconcile_preflight_passed:
  assumes "reconciler_isMigrationRequested (ps_Instance p)"
    and "runMigrationPreflight r (ps_World p) (ps_Instance p) rcfg = None"
    and "migrationAttemptKey r (ps_World p) (ps_Instance p) rcfg = Inr key"
  shows "reconcileMigration r now rcfg p =
    (case ensureMigrationJob r rcfg key (preparedPass now p) of
       (Inl e, p3) \<Rightarrow> (Some e, p3)
     | (Inr None, p3) \<Rightarrow> (None, p3)
     | (Inr (Some job), p3) \<Rightarrow>
         if migrationJobIsCurrent (Some job) key then (None, observeMigrationJob r now job key p3)
         else if \<not> jobDeleting job \<and> jobHasCondition job JobComplete
         then (None, observeMigrationJob r now job (attemptOf job) p3)
         else (None, withStatus (markMigrationWaiting now (ps_Instance p3) (Some job) key waitingMessage) p3))"
  using assms unfolding reconcileMigration_def preparedPass_def withStatus_def Let_def
  by (auto split: prod.split sum.split option.split)

text \<open>A live, completed Job that the instance owns, as the reconciler reads it.\<close>

definition completedJobAt :: "'w OGXServerReconciler \<Rightarrow> OGXServer \<Rightarrow> 'w \<Rightarrow> bool" where
  "completedJobAt r inst w =
     (\<exists>job. readJob r w inst = Inr (Some job) \<and> ownedJob r inst job \<and> jobHasCondition job JobComplete
        \<and> \<not> jobDeleting job)"

lemma notRequested_cutover:
  assumes "handleMigrationNotRequested r now p = (eo, p')"
  shows "cutoverReady (statusOf p') \<longrightarrow> statusOf p' = statusOf p"
proof -
  obtain e p1 where del: "deleteMigrationJob r p = (e, p1)" by fastforce
  then have "statusOf p1 = statusOf p" using deleteMigrationJob_status [of r p] by simp
  then show ?thesis
    using assms del by (auto simp: handleMigrationNotRequested_def split: option.splits if_splits)
qed

lemma pass_cutover:
  assumes fresh: "createsFresh (rc_Kube r)" and pass: "reconcileMigration r now rcfg p = (eo, p')"
    and cons: "migrationConsistent (statusOf p)"
  shows "migrationConsistent (statusOf p') \<and>
    (cutoverReady (statusOf p') \<longrightarrow>
       cutoverReady (statusOf p) \<or> completedJobAt r (ps_Instance p) (ps_World p)
       \<or> completedJobAt r (ps_Instance p) (ps_World p'))"
proof (cases "reconciler_isMigrationRequested (ps_Instance p)")
  case False
  then have "handleMigrationNotRequested r now p = (eo, p')" using pass by (simp add: reconcileMigration_def)
  from notRequested_cutover [OF this] show ?thesis
    using cons by (cases "cutoverReady (statusOf p')") (simp_all add: blocked_consistent)
next
  case req: True
  show ?thesis
  proof (cases "runMigrationPreflight r (ps_World p) (ps_Instance p) rcfg")
    case (Some e)
    then show ?thesis
      using pass reconcile_preflight_failed [OF req Some] by (auto simp: blocked_consistent)
  next
    case None
    obtain key where key: "migrationAttemptKey r (ps_World p) (ps_Instance p) rcfg = Inr key"
      using migrationAttemptKey_after_preflight [OF None] by blast
    let ?p2 = "preparedPass now p"
    obtain res p3 where ens: "ensureMigrationJob r rcfg key ?p2 = (res, p3)" by fastforce
    have st: "statusOf p3 = statusOf ?p2" using ensure_status [of r rcfg key ?p2] ens by simp
    have job: "completedJobAt r (ps_Instance p) (ps_World p) \<or> completedJobAt r (ps_Instance p) (ps_World p3)"
      if "res = Inr (Some job)" "jobHasCondition job JobComplete" "\<not> jobDeleting job" for job
      using ensure_complete_job [OF fresh, of rcfg key ?p2 job p3] ens that by (auto simp: completedJobAt_def)
    show ?thesis
      using pass ens st cons job unfolding reconcile_preflight_passed [OF req None key]
      by (auto simp: blocked_consistent observe_consistent observe_conditions migrationJobIsCurrent_def
          split: sum.splits option.splits if_splits)
  qed
qed


section \<open>Runs\<close>

text \<open>
  The runs of the reconciler for one instance.  Between passes anybody may edit the spec and the
  cluster may change in any way; the status is written by passes only.  The flag of a state
  records that a live, completed migration Job owned by the instance has been read by some pass.
\<close>

inductive migrationRun :: "'w OGXServerReconciler \<Rightarrow> OGXServer \<Rightarrow> 'w \<Rightarrow> bool \<Rightarrow> bool"
  for r :: "'w OGXServerReconciler" where
  start: "\<not> cutoverReady (srv_Status inst) \<Longrightarrow> migrationRun r inst w False"
| environment:
    "migrationRun r inst w seen \<Longrightarrow> srv_Status inst' = srv_Status inst \<Longrightarrow> migrationRun r inst' w' seen"
| pass:
    "migrationRun r inst w seen \<Longrightarrow>
     reconcileMigration r now rcfg \<lparr>ps_Instance = inst, ps_World = w, ps_Events = evs\<rparr> = (eo, p') \<Longrightarrow>
     migrationRun r (ps_Instance p') (ps_World p')
       (seen \<or> completedJobAt r inst w \<or> completedJobAt r inst (ps_World p'))"

inductive_cases migrationRun_cases: "migrationRun r inst w seen"

lemma migrationRun_invariant:
  assumes "createsFresh (rc_Kube r)" "migrationRun r inst w seen"
  shows "migrationConsistent (srv_Status inst) \<and> (cutoverReady (srv_Status inst) \<longrightarrow> seen)"
  using assms(2)
proof (induction rule: migrationRun.induct)
  case (pass inst w seen now rcfg evs eo p')
  then show ?case using pass_cutover [OF assms(1) pass.hyps(2)] by (auto simp: statusOf_def)
qed (auto simp: blocked_consistent)

section \<open>Properties\<close>

text \<open>
  (C31) The cutover gate: in every run, with any edits of the spec and any behaviour of the cluster
  between passes, \<open>PraxisCutoverReady\<close> is true only after some pass has read a completed migration
  Job that the instance owns and that is not being deleted; and whenever it is true the status is
  consistent: \<open>MigrationValidated\<close> and \<open>MigrationJobSucceeded\<close> are true and the phase is Validated.
\<close>

theorem cutover_only_after_completed_job:
  assumes "createsFresh (rc_Kube r)" "migrationRun r inst w seen" "cutoverReady (srv_Status inst)"
  shows "seen \<and> IsConditionTrue (srv_Status inst) ConditionTypeMigrationValidated
    \<and> IsConditionTrue (srv_Status inst) ConditionTypeMigrationJobSucceeded
    \<and> (\<exists>m. status_Migration (srv_Status inst) = Some m \<and> mig_Phase m = MigrationPhaseValidated)"
  using migrationRun_invariant [OF assms(1,2)] assms(3) by (simp add: migrationConsistent_def)

text \<open>
  A failed preflight: the pass succeeds without touching the cluster, the phase becomes
  PreflightFailed for the current generation with the check's error, cutover is blocked, and a
  warning event is emitted when there is a recorder.
\<close>

theorem preflight_failure_blocks:
  assumes "reconciler_isMigrationRequested (ps_Instance p)"
    and "runMigrationPreflight r (ps_World p) (ps_Instance p) rcfg = Some e"
    and "reconcileMigration r now rcfg p = (eo, p')"
  shows "eo = None \<and> ps_World p' = ps_World p \<and> \<not> cutoverReady (statusOf p')
    \<and> \<not> migrationNeedsRequeue (ps_Instance p')
    \<and> (\<exists>m. status_Migration (statusOf p') = Some m \<and> mig_Phase m = MigrationPhasePreflightFailed
         \<and> mig_Message m = e \<and> mig_ObservedGeneration m = meta_Generation (srv_ObjectMeta (ps_Instance p)))
    \<and> ps_Events p' = ps_Events p @
        (if rc_HasRecorder r
         then [\<lparr>ev_Type = ''Warning'', ev_Reason = ReasonMigrationPreflightFailed, ev_Message = e\<rparr>] else [])"
proof -
  let ?s = "applyPreflightFailure now (meta_Generation (srv_ObjectMeta (ps_Instance p))) e
      (ensureSoftRollbackWarning now (statusOf p))"
  have m: "status_Migration ?s = Some \<lparr>mig_Phase = MigrationPhasePreflightFailed,
      mig_ObservedGeneration = meta_Generation (srv_ObjectMeta (ps_Instance p)), mig_AttemptKey = [],
      mig_JobName = [], mig_Message = e, mig_SoftRollbackWarning = SoftRollbackWarningMessage\<rparr>"
    by (simp add: applyPreflightFailure_def migration_setters)
  have res: "eo = None" and p': "p' = emitMigrationEvent r ''Warning'' ReasonMigrationPreflightFailed e
      (withStatus (\<lambda>s. applyPreflightFailure now (meta_Generation (srv_ObjectMeta (ps_Instance p))) e
        (ensureSoftRollbackWarning now s)) p)"
    using reconcile_preflight_failed [OF assms(1,2)] assms(3) by simp_all
  have st: "srv_Status (ps_Instance p') = ?s" by (simp add: p' flip: statusOf_def)
  show ?thesis
    using res m st
    by (auto simp: p' migrationNeedsRequeue_def)
qed

text \<open>
  Somebody else's Job is left alone: when a Job of the migration Job's name exists that the
  instance does not control, no pass, requested or not, changes the cluster, and cutover is not
  newly reported ready.  A requested pass that reaches the Job reports an error.
\<close>

theorem foreign_job_is_untouched:
  assumes "readJob r (ps_World p) (ps_Instance p) = Inr (Some job)" "\<not> ownedJob r (ps_Instance p) job"
    and "reconcileMigration r now rcfg p = (eo, p')"
  shows "ps_World p' = ps_World p \<and> (cutoverReady (statusOf p') \<longrightarrow> cutoverReady (statusOf p))
    \<and> (reconciler_isMigrationRequested (ps_Instance p)
       \<and> runMigrationPreflight r (ps_World p) (ps_Instance p) rcfg = None \<longrightarrow> eo \<noteq> None)"
proof (cases "reconciler_isMigrationRequested (ps_Instance p)")
  case False
  then have h: "handleMigrationNotRequested r now p = (eo, p')" using assms(3) by (simp add: reconcileMigration_def)
  have "snd (deleteMigrationJob r p) = p"
    using assms(1,2) assertOwned_None [of r "ps_Instance p" job]
    by (auto simp: deleteMigrationJob_def readJob_def Let_def split: option.split)
  then have "ps_World p' = ps_World p"
    using h by (cases "deleteMigrationJob r p") (auto simp: handleMigrationNotRequested_def split: option.splits if_splits)
  then show ?thesis using notRequested_cutover [OF h] False by auto
next
  case req: True
  show ?thesis
  proof (cases "runMigrationPreflight r (ps_World p) (ps_Instance p) rcfg")
    case (Some e)
    then show ?thesis using reconcile_preflight_failed [OF req Some] assms(3) by auto
  next
    case None
    obtain key where key: "migrationAttemptKey r (ps_World p) (ps_Instance p) rcfg = Inr key"
      using migrationAttemptKey_after_preflight [OF None] by blast
    let ?p2 = "preparedPass now p"
    have "readJob r (ps_World ?p2) (ps_Instance ?p2) = Inr (Some job)" "\<not> ownedJob r (ps_Instance ?p2) job"
      using assms(1,2) by simp_all
    then obtain e where "ensureMigrationJob r rcfg key ?p2 = (Inl e, ?p2)"
      using assertOwned_foreign [of r "ps_Instance ?p2" job]
      by (auto simp: ensureMigrationJob_def readJob_def reconcileExistingMigrationJob_def Let_def)
    then show ?thesis using reconcile_preflight_passed [OF req None key] assms(3) by auto
  qed
qed


lemma deleteObject_result:
  assumes "kb_DeleteJob (rc_Kube r) (ps_World p) job = (err, w')"
  shows "\<exists>de. deleteMigrationJobObject r job p = (de, p\<lparr>ps_World := w'\<rparr>)
    \<and> (de = None \<longleftrightarrow> err = None \<or> (\<exists>t. err = Some (NotFound t)))"
proof (cases err)
  case None
  then show ?thesis using assms by (simp add: deleteMigrationJobObject_def)
next
  case (Some e)
  then show ?thesis using assms by (cases e) (simp_all add: deleteMigrationJobObject_def)
qed

lemma ensure_existing:
  assumes "readJob r (ps_World p) (ps_Instance p) = Inr (Some job)" "ownedJob r (ps_Instance p) job"
    and "jobDeleting job \<or> attemptOf job = key \<or> jobHasCondition job JobComplete"
  shows "ensureMigrationJob r rcfg key p = (Inr (Some job), p)"
  using assms by (auto simp: ensureMigrationJob_def readJob_def reconcileExistingMigrationJob_def Let_def
      split: option.split dest: assertOwned_None [THEN iffD2])

lemma ensure_absent_validated:
  assumes "readJob r (ps_World p) (ps_Instance p) = Inr None" "migrationAlreadyValidated (ps_Instance p)"
  shows "ensureMigrationJob r rcfg key p = (Inr None, p)"
  using assms by (simp add: ensureMigrationJob_def readJob_def Let_def)

lemma ensure_absent:
  assumes "readJob r (ps_World p) (ps_Instance p) = Inr None" "\<not> migrationAlreadyValidated (ps_Instance p)"
  shows "ensureMigrationJob r rcfg key p =
    createMigrationJob r rcfg (migrationJobName (nameOf (ps_Instance p))) key p"
  using assms by (auto simp: ensureMigrationJob_def readJob_def migrationAlreadyValidated_def
      migrationAttemptAlreadySucceeded_def Let_def split: option.splits)

text \<open>
  A requested pass that passed the preflight and reads a live Job of its own, either of the
  current attempt or completed in an earlier one, succeeds, leaves the cluster alone and records
  the Job: complete is Validated, failed is Failed, anything else Running; cutover is ready exactly
  when the Job completed, and the instance is queued again exactly while the Job may still change.
\<close>

theorem job_outcome_is_recorded:
  assumes "reconciler_isMigrationRequested (ps_Instance p)"
    and "runMigrationPreflight r (ps_World p) (ps_Instance p) rcfg = None"
    and "migrationAttemptKey r (ps_World p) (ps_Instance p) rcfg = Inr key"
    and "readJob r (ps_World p) (ps_Instance p) = Inr (Some job)" "ownedJob r (ps_Instance p) job"
    and "\<not> jobDeleting job" "attemptOf job = key \<or> jobHasCondition job JobComplete"
    and "reconcileMigration r now rcfg p = (eo, p')"
  shows "eo = None \<and> ps_World p' = ps_World p
    \<and> (\<exists>m. status_Migration (statusOf p') = Some m \<and> mig_Phase m = jobPhase job
         \<and> mig_AttemptKey m = attemptOf job \<and> mig_JobName m = jobName job
         \<and> mig_ObservedGeneration m = meta_Generation (srv_ObjectMeta (ps_Instance p)))
    \<and> (cutoverReady (statusOf p') \<longleftrightarrow> jobHasCondition job JobComplete)
    \<and> (migrationNeedsRequeue (ps_Instance p') \<longleftrightarrow>
         \<not> jobHasCondition job JobComplete \<and> \<not> jobHasCondition job JobFailed)"
proof -
  let ?p2 = "preparedPass now p"
  have "ensureMigrationJob r rcfg key ?p2 = (Inr (Some job), ?p2)"
    using ensure_existing [of r ?p2 job key rcfg] assms(4,5,7) by auto
  then have eq: "eo = None" "p' = observeMigrationJob r now job (attemptOf job) ?p2"
    using reconcile_preflight_passed [OF assms(1-3)] assms(6-8)
    by (auto simp: migrationJobIsCurrent_def split: if_splits)
  obtain m where m: "status_Migration (statusOf p') = Some m" "mig_Phase m = jobPhase job"
      "mig_AttemptKey m = attemptOf job" "mig_JobName m = jobName job"
      "mig_ObservedGeneration m = meta_Generation (srv_ObjectMeta (ps_Instance p))"
    using observe_migration [of r now job "attemptOf job" ?p2] unfolding eq(2) by auto
  then have "migrationNeedsRequeue (ps_Instance p') \<longleftrightarrow> jobPhase job = MigrationPhaseRunning"
    by (simp add: migrationNeedsRequeue_def statusOf_def)
  then show ?thesis using eq m by (auto simp: observe_conditions jobPhase_def)
qed

text \<open>
  A live Job of an earlier attempt that has not completed is replaced: exactly that Job is
  deleted, nothing is created in the same pass, and if the deletion went through (or found nothing)
  the phase is Running for the new attempt with cutover blocked and another pass queued; otherwise
  the pass reports the error and leaves phase and cutover as they were.
\<close>

theorem stale_job_is_replaced:
  assumes "reconciler_isMigrationRequested (ps_Instance p)"
    and "runMigrationPreflight r (ps_World p) (ps_Instance p) rcfg = None"
    and "migrationAttemptKey r (ps_World p) (ps_Instance p) rcfg = Inr key"
    and "readJob r (ps_World p) (ps_Instance p) = Inr (Some job)" "ownedJob r (ps_Instance p) job"
    and "\<not> jobDeleting job" "attemptOf job \<noteq> key" "\<not> jobHasCondition job JobComplete"
    and "kb_DeleteJob (rc_Kube r) (ps_World p) job = (err, w')"
    and "reconcileMigration r now rcfg p = (eo, p')"
  shows "ps_World p' = w' \<and>
    (if err = None \<or> (\<exists>t. err = Some (NotFound t))
     then eo = None \<and> \<not> cutoverReady (statusOf p') \<and> migrationNeedsRequeue (ps_Instance p')
       \<and> (\<exists>m. status_Migration (statusOf p') = Some m \<and> mig_AttemptKey m = key)
     else eo \<noteq> None \<and> cutoverReady (statusOf p') = cutoverReady (statusOf p)
       \<and> migrationAlreadyValidated (ps_Instance p') = migrationAlreadyValidated (ps_Instance p))"
proof -
  let ?p2 = "preparedPass now p"
  have own: "assertOwnedMigrationJob r (ps_Instance ?p2) job = None" using assms(5) by simp
  have rd: "readJob r (ps_World ?p2) (ps_Instance ?p2) = Inr (Some job)" using assms(4) by simp
  obtain de where del: "deleteMigrationJobObject r job ?p2 = (de, ?p2\<lparr>ps_World := w'\<rparr>)"
    and de: "de = None \<longleftrightarrow> err = None \<or> (\<exists>t. err = Some (NotFound t))"
    using deleteObject_result [of r ?p2 job err w'] assms(9) by auto
  have ens: "ensureMigrationJob r rcfg key ?p2 =
      (case de of Some e \<Rightarrow> (Inl e, ?p2\<lparr>ps_World := w'\<rparr>) | None \<Rightarrow> (Inr (Some job), ?p2\<lparr>ps_World := w'\<rparr>))"
    using rd own del assms(6-8)
    by (simp add: ensureMigrationJob_def readJob_def reconcileExistingMigrationJob_def
        replaceStaleMigrationJob_def Let_def del: assertOwned_None split: option.split)
  have wait: "status_Migration (markMigrationWaiting now inst (Some job) key msg s) = Some
      \<lparr>mig_Phase = MigrationPhaseRunning, mig_ObservedGeneration = meta_Generation (srv_ObjectMeta inst),
       mig_AttemptKey = key, mig_JobName = jobName job, mig_Message = msg,
       mig_SoftRollbackWarning = SoftRollbackWarningMessage\<rparr>" for inst msg s
    by (simp add: markMigrationWaiting_def migration_setters)
  show ?thesis
  proof (cases de)
    case None
    then have res: "eo = None" "p' = withStatus (markMigrationWaiting now (ps_Instance ?p2) (Some job) key waitingMessage)
        (?p2\<lparr>ps_World := w'\<rparr>)"
      using reconcile_preflight_passed [OF assms(1-3), of now] ens assms(6-8,10)
      by (auto simp: migrationJobIsCurrent_def)
    have "migrationNeedsRequeue (ps_Instance p')"
      using wait by (simp add: res(2) migrationNeedsRequeue_def flip: statusOf_def)
    then show ?thesis using res None de wait by simp
  next
    case (Some e)
    then have res: "eo = Some e" "p' = ?p2\<lparr>ps_World := w'\<rparr>"
      using reconcile_preflight_passed [OF assms(1-3), of now] ens assms(10) by auto
    have "statusOf p' = statusOf ?p2" by (simp add: res(2) statusOf_def)
    then show ?thesis using res Some de preparedPass_validated [of now p] by auto
  qed
qed


text \<open>
  The start of a migration: requested, preflight passed, no Job yet and no validated attempt.
  The pass creates the Job built for the current attempt and nothing else; the phase is Running,
  another pass is queued, cutover stays blocked.  Once the phase is Validated and the Job is gone,
  a pass changes nothing in the cluster and keeps phase and cutover.
\<close>

theorem migration_starts_once:
  assumes "reconciler_isMigrationRequested (ps_Instance p)"
    and "runMigrationPreflight r (ps_World p) (ps_Instance p) rcfg = None"
    and "migrationAttemptKey r (ps_World p) (ps_Instance p) rcfg = Inr key"
    and "readJob r (ps_World p) (ps_Instance p) = Inr None"
    and "buildMigrationJob r (ps_World p) (ps_Instance (preparedPass now p)) rcfg
           (migrationJobName (nameOf (ps_Instance p))) key = Inr job"
    and "kb_CreateJob (rc_Kube r) (ps_World p) job = (Inr created, w')"
    and "attemptOf created = key" "\<not> jobDeleting created" "jst_Conditions (job_Status created) = []"
    and "reconcileMigration r now rcfg p = (eo, p')"
  shows "eo = None \<and>
    (if migrationAlreadyValidated (ps_Instance p)
     then ps_World p' = ps_World p \<and> migrationAlreadyValidated (ps_Instance p')
       \<and> cutoverReady (statusOf p') = cutoverReady (statusOf p)
     else ps_World p' = w' \<and> migrationNeedsRequeue (ps_Instance p') \<and> \<not> cutoverReady (statusOf p')
       \<and> (\<exists>m. status_Migration (statusOf p') = Some m \<and> mig_AttemptKey m = key))"
proof -
  let ?p2 = "preparedPass now p"
  have rd: "readJob r (ps_World ?p2) (ps_Instance ?p2) = Inr None" using assms(4) by simp
  have nm: "nameOf (ps_Instance ?p2) = nameOf (ps_Instance p)" by (simp add: nameOf_def)
  show ?thesis
  proof (cases "migrationAlreadyValidated (ps_Instance p)")
    case True
    then have "ensureMigrationJob r rcfg key ?p2 = (Inr None, ?p2)"
      using ensure_absent_validated [OF rd] preparedPass_validated [of now p] by simp
    then show ?thesis
      using reconcile_preflight_passed [OF assms(1-3), of now] assms(10) True preparedPass_validated [of now p] by auto
  next
    case False
    then obtain p3 where ens: "ensureMigrationJob r rcfg key ?p2 = (Inr (Some created), p3)"
      and w3: "ps_World p3 = w'"
      using ensure_absent [OF rd, of rcfg key] preparedPass_validated [of now p] assms(5,6) nm
      by (simp add: createMigrationJob_def Let_def)
    have res: "eo = None" "p' = observeMigrationJob r now created key p3"
      using reconcile_preflight_passed [OF assms(1-3), of now] ens assms(7,8,10)
      by (auto simp: migrationJobIsCurrent_def)
    have "\<not> jobHasCondition created ty" for ty using assms(9) by (simp add: jobHasCondition_def)
    then have "jobPhase created = MigrationPhaseRunning" "\<not> cutoverReady (statusOf p')"
      by (simp_all add: jobPhase_def observe_conditions res(2))
    then show ?thesis using res w3 False observe_migration [of r now created key p3]
      by (auto simp: migrationNeedsRequeue_def statusOf_def)
  qed
qed



text \<open>
  A validated migration is forgotten by one failed preflight, also a transient one such as a
  failed read of a Secret: if the succeeded Job has been removed, the next pass with a passing
  preflight creates the Job again, and the migration runs a second time.
\<close>

theorem preflight_failure_forgets_validation:
  assumes "reconciler_isMigrationRequested (ps_Instance p)" "migrationAlreadyValidated (ps_Instance p)"
    and "runMigrationPreflight r (ps_World p) (ps_Instance p) rcfg = Some e"
    and "reconcileMigration r t1 rcfg p = (eo, p1)"
    and "srv_Status (ps_Instance q) = srv_Status (ps_Instance p1)"
    and "reconciler_isMigrationRequested (ps_Instance q)"
    and "runMigrationPreflight r (ps_World q) (ps_Instance q) rcfg = None"
    and "migrationAttemptKey r (ps_World q) (ps_Instance q) rcfg = Inr key"
    and "readJob r (ps_World q) (ps_Instance q) = Inr None"
    and "buildMigrationJob r (ps_World q) (ps_Instance (preparedPass t2 q)) rcfg
           (migrationJobName (nameOf (ps_Instance q))) key = Inr job"
    and "kb_CreateJob (rc_Kube r) (ps_World q) job = (Inr created, w')"
    and "reconcileMigration r t2 rcfg q = (eo', q')"
  shows "eo = None \<and> \<not> migrationAlreadyValidated (ps_Instance p1) \<and> eo' = None \<and> ps_World q' = w'"
proof -
  have res: "eo = None" and p1: "statusOf p1 = applyPreflightFailure t1
      (meta_Generation (srv_ObjectMeta (ps_Instance p))) e (ensureSoftRollbackWarning t1 (statusOf p))"
    using reconcile_preflight_failed [OF assms(1,3), of t1] assms(4) by simp_all
  have nv: "\<not> migrationAlreadyValidated (ps_Instance p1)"
    unfolding migrationAlreadyValidated_def statusOf_def [symmetric] p1
    by (simp add: applyPreflightFailure_def migration_setters)
  then have "\<not> migrationAlreadyValidated (ps_Instance q)"
    using assms(5) by (simp add: migrationAlreadyValidated_def)
  then have nv2: "\<not> migrationAlreadyValidated (ps_Instance (preparedPass t2 q))"
    using preparedPass_validated [of t2 q] by simp
  have nm: "nameOf (ps_Instance (preparedPass t2 q)) = nameOf (ps_Instance q)" by (simp add: nameOf_def)
  obtain p3 where ens: "ensureMigrationJob r rcfg key (preparedPass t2 q) = (Inr (Some created), p3)"
    and w3: "ps_World p3 = w'"
    using ensure_absent [of r "preparedPass t2 q" rcfg key] nv2 assms(9-11) nm
    by (simp add: createMigrationJob_def Let_def)
  then have "eo' = None \<and> ps_World q' = w'"
    using reconcile_preflight_passed [OF assms(6-8), of t2] assms(12) w3 by (auto split: if_splits)
  then show ?thesis using res nv by simp
qed

section \<open>Examples\<close>

text \<open>Passes of an instance against the in-memory API server.\<close>

definition exJob :: "string \<Rightarrow> OwnerReference list \<Rightarrow> JobCondition list \<Rightarrow> Job" where
  "exJob key owners conds =
     (let job = newMigrationJob (exInstance True) ''demo-praxis-migration'' key
            (fst (migrationJobPodInputs exReconciler exStore (exInstance True) None ''img'')) []
      in job\<lparr>job_ObjectMeta := (job_ObjectMeta job)\<lparr>meta_OwnerReferences := owners\<rparr>,
             job_Status := \<lparr>jst_Conditions = conds, jst_Active = 0\<rparr>\<rparr>)"

definition exOwner :: "OwnerReference list" where
  "exOwner = [controllerRef (srv_ObjectMeta (exInstance True))]"

definition exComplete :: "JobCondition list" where
  "exComplete = [\<lparr>jc_Type = ''Complete'', jc_Status = ConditionTrue, jc_Reason = [], jc_Message = []\<rparr>]"

definition exWorld :: "Job list \<Rightarrow> Store" where
  "exWorld jobs = exStore\<lparr>sto_Jobs := map (\<lambda>j. ((''ogx'', ''demo-praxis-migration''), j)) jobs\<rparr>"

definition exPass :: "OGXServer \<Rightarrow> Store \<Rightarrow> Store Pass" where
  "exPass inst w = \<lparr>ps_Instance = inst, ps_World = w, ps_Events = []\<rparr>"

lemma exPass_simps [simp]:
  "ps_Instance (exPass inst w) = inst" "ps_World (exPass inst w) = w" "statusOf (exPass inst w) = srv_Status inst"
  by (simp_all add: exPass_def statusOf_def)

lemma exWorld_preflight [simp]: "runMigrationPreflight exReconciler (exWorld jobs) (exInstance b) None = None"
  by (rule exPreflight) (simp_all add: exWorld_def exStore_def)

lemma exWorld_read [simp]:
  "readJob exReconciler (exWorld []) (exInstance b) = Inr None"
  "readJob exReconciler (exWorld (j # js)) (exInstance b) = Inr (Some j)"
  by (simp_all add: readJob_def getMigrationJob_def exReconciler_def storeKube_def storeGet_def exWorld_def exStore_def
      exInstance_def nsOf_def nameOf_def migrationJobName_def migrationJobNameSuffix_def)

lemma exJob_simps [simp]:
  "attemptOf (exJob key owners conds) = key" "\<not> jobDeleting (exJob key owners conds)"
  "jobHasCondition (exJob key owners conds) ty = list_ex (\<lambda>c. jc_Type c = ty \<and> jc_Status c = ConditionTrue) conds"
  "ownedJob exReconciler (exInstance b) (exJob key exOwner conds)"
  "\<not> ownedJob exReconciler (exInstance b) (exJob key [] conds)"
  by (simp_all add: exJob_def newMigrationJob_def attemptOf_def jobDeleting_def jobHasCondition_def ownedJob_def
      exReconciler_def storeKube_def storeIsControlledBy_def exOwner_def controllerRef_def exInstance_def orEmpty_def
      mlit_def Let_def)

lemma exRequested [simp]: "reconciler_isMigrationRequested (exInstance b) = b"
  by (simp add: reconciler_isMigrationRequested_def IsPraxisModeEnabled_def exInstance_def exMigrationSpec_def)

lemma exInstance_status [simp]: "srv_Status (exInstance b) = emptyStatus"
  by (simp add: exInstance_def)

lemma emptyStatus_blocked [simp]: "\<not> cutoverReady emptyStatus" "status_Migration emptyStatus = None"
  by (simp_all add: cutoverReady_def IsConditionTrue_def GetCondition_def emptyStatus_def)

lemma exComplete_simps [simp]: "list_ex (\<lambda>c. jc_Type c = JobComplete \<and> jc_Status c = ConditionTrue) exComplete"
  by (simp add: exComplete_def JobComplete_def)

lemma exKey: "\<exists>key. \<forall>jobs b. migrationAttemptKey exReconciler (exWorld jobs) (exInstance b) None = Inr key"
proof -
  have "migrationAttemptKey exReconciler (exWorld jobs) (exInstance b) None
      = migrationAttemptKey exReconciler (exWorld []) (exInstance True) None" for jobs b
    by (simp add: migrationAttemptKey_def migrationAttemptText_def appendMigrationSourceAttemptKey_def
        appendMigrationTargetAttemptKey_def appendMigrationConfigAttemptKey_def appendMigrationFallbackAttemptKey_def
        appendSecretAttemptKey_def secretKeyFingerprint_def migrationTargetSecretRef_def migrationJobSpec_def
        exInstance_def exMigrationSpec_def nsOf_def exWorld_def exReconciler_def storeKube_def)
  then show ?thesis using migrationAttemptKey_after_preflight [OF exWorld_preflight [of "[]" True]] by metis
qed

lemma createsFresh_store: "createsFresh (rc_Kube exReconciler)"
  by (auto simp: createsFresh_def exReconciler_def storeKube_def storeCreateJob_def Let_def split: option.splits)

theorem job_outcome_is_recorded_witness:
  "\<exists>key p'. reconcileMigration exReconciler 7 None (exPass (exInstance True) (exWorld [exJob key exOwner exComplete]))
       = (None, p') \<and> cutoverReady (statusOf p') \<and> \<not> migrationNeedsRequeue (ps_Instance p')"
proof -
  obtain key where key: "\<forall>jobs b. migrationAttemptKey exReconciler (exWorld jobs) (exInstance b) None = Inr key"
    using exKey by blast
  let ?p = "exPass (exInstance True) (exWorld [exJob key exOwner exComplete])"
  obtain eo p' where r: "reconcileMigration exReconciler 7 None ?p = (eo, p')" by fastforce
  show ?thesis
    using job_outcome_is_recorded [of ?p exReconciler None key "exJob key exOwner exComplete" 7 eo p'] key r by auto
qed

theorem cutover_only_after_completed_job_witness:
  "\<exists>inst w. migrationRun exReconciler inst w True \<and> cutoverReady (srv_Status inst)
     \<and> IsConditionTrue (srv_Status inst) ConditionTypeMigrationValidated"
proof -
  let ?w = "exWorld [exJob [] exOwner exComplete]"
  obtain eo p' where r: "reconcileMigration exReconciler 7 None (exPass (exInstance True) ?w) = (eo, p')" by fastforce
  obtain key where key: "\<forall>jobs b. migrationAttemptKey exReconciler (exWorld jobs) (exInstance b) None = Inr key"
    using exKey by blast
  have "ensureMigrationJob exReconciler None key (preparedPass 7 (exPass (exInstance True) ?w)) =
      (Inr (Some (exJob [] exOwner exComplete)), preparedPass 7 (exPass (exInstance True) ?w))"
    by (rule ensure_existing) simp_all
  then have cut: "cutoverReady (statusOf p')"
    using r reconcile_preflight_passed [of "exPass (exInstance True) ?w" exReconciler None key 7] key
    by (auto simp: migrationJobIsCurrent_def observe_conditions split: if_splits)
  have seen: "completedJobAt exReconciler (exInstance True) ?w" by (simp add: completedJobAt_def)
  have "migrationRun exReconciler (exInstance True) ?w False" by (rule migrationRun.start) simp
  from migrationRun.pass [OF this r [unfolded exPass_def]]
  have run: "migrationRun exReconciler (ps_Instance p') (ps_World p') True" using seen by simp
  then show ?thesis
    using cutover_only_after_completed_job [OF createsFresh_store run] cut by (auto simp: statusOf_def)
qed

theorem preflight_failure_blocks_witness:
  "\<exists>p'. reconcileMigration exReconciler 7 None (exPass (exInstance True) (exStore\<lparr>sto_Secrets := []\<rparr>)) = (None, p')
     \<and> ps_World p' = exStore\<lparr>sto_Secrets := []\<rparr> \<and> \<not> cutoverReady (statusOf p')"
proof -
  let ?p = "exPass (exInstance True) (exStore\<lparr>sto_Secrets := []\<rparr>)"
  obtain eo p' where r: "reconcileMigration exReconciler 7 None ?p = (eo, p')" by fastforce
  have "runMigrationPreflight exReconciler (exStore\<lparr>sto_Secrets := []\<rparr>) (exInstance True) None \<noteq> None"
    unfolding runMigrationPreflight_None
    by (simp add: connectionString_def exReconciler_def storeKube_def storeGet_def)
  then obtain e where "runMigrationPreflight exReconciler (ps_World ?p) (ps_Instance ?p) None = Some e" by auto
  from preflight_failure_blocks [OF _ this r] show ?thesis using r by auto
qed

theorem foreign_job_is_untouched_witness:
  "\<exists>e p'. reconcileMigration exReconciler 7 None (exPass (exInstance True) (exWorld [exJob [] [] []])) = (Some e, p')
     \<and> ps_World p' = exWorld [exJob [] [] []]"
proof -
  let ?p = "exPass (exInstance True) (exWorld [exJob [] [] []])"
  obtain eo p' where r: "reconcileMigration exReconciler 7 None ?p = (eo, p')" by fastforce
  show ?thesis
    using foreign_job_is_untouched [of exReconciler ?p "exJob [] [] []" 7 None eo p'] r by auto
qed

theorem stale_job_is_replaced_witness:
  "\<exists>p'. reconcileMigration exReconciler 7 None (exPass (exInstance True) (exWorld [exJob [] exOwner []])) = (None, p')
     \<and> migrationNeedsRequeue (ps_Instance p') \<and> \<not> cutoverReady (statusOf p')
     \<and> ps_World p' = snd (storeDeleteJob (exWorld [exJob [] exOwner []]) (exJob [] exOwner []))"
proof -
  let ?j = "exJob [] exOwner []" and ?w = "exWorld [exJob [] exOwner []]"
  let ?p = "exPass (exInstance True) ?w"
  obtain eo p' where r: "reconcileMigration exReconciler 7 None ?p = (eo, p')" by fastforce
  obtain key where key: "\<forall>jobs b. migrationAttemptKey exReconciler (exWorld jobs) (exInstance b) None = Inr key"
    using exKey by blast
  then have ne: "attemptOf ?j \<noteq> key"
    using migrationAttemptKey_after_preflight [OF exWorld_preflight [of "[]" True]] by auto
  have "jobKey ?j = (''ogx'', ''demo-praxis-migration'')"
    by (simp add: jobKey_def exJob_def newMigrationJob_def exInstance_def nsOf_def Let_def)
  then have "fst (storeDeleteJob ?w ?j) = None" by (simp add: storeDeleteJob_def exWorld_def)
  then have d: "kb_DeleteJob (rc_Kube exReconciler) ?w ?j = (None, snd (storeDeleteJob ?w ?j))"
    by (simp add: exReconciler_def storeKube_def prod_eq_iff)
  show ?thesis
    using stale_job_is_replaced [of ?p exReconciler None key ?j None "snd (storeDeleteJob ?w ?j)" 7 eo p'] key ne d r
    by auto
qed

lemma exCreate:
  assumes "srv_Spec (ps_Instance q) = srv_Spec (exInstance True)"
  shows "\<exists>job w'. buildMigrationJob exReconciler (exWorld []) (ps_Instance q) None n key = Inr job
    \<and> kb_CreateJob (rc_Kube exReconciler) (exWorld []) job
        = (Inr (job\<lparr>job_Status := \<lparr>jst_Conditions = [], jst_Active = 0\<rparr>\<rparr>), w') \<and> sto_Jobs w' \<noteq> []
    \<and> attemptOf job = key \<and> \<not> jobDeleting job"
proof -
  obtain job where job: "buildMigrationJob exReconciler (exWorld []) (ps_Instance q) None n key = Inr job"
    using exBuildJob [of "ps_Instance q"] exInstance_distribution [of True] unfolding assms by blast
  have "setsController (rc_Kube exReconciler)" using setsController_store by (simp add: exReconciler_def)
  from migration_job_props [OF this job] have "attemptOf job = key \<and> \<not> jobDeleting job"
    by (auto simp: attemptOf_def jobDeleting_def orEmpty_def)
  then show ?thesis using job
    by (auto simp: exReconciler_def storeKube_def storeCreateJob_def exWorld_def Let_def)
qed

theorem migration_starts_once_witness:
  "\<exists>p' m. reconcileMigration exReconciler 7 None (exPass (exInstance True) (exWorld [])) = (None, p')
     \<and> migrationNeedsRequeue (ps_Instance p') \<and> \<not> cutoverReady (statusOf p')
     \<and> status_Migration (statusOf p') = Some m \<and> length (mig_AttemptKey m) = 16"
proof -
  let ?p = "exPass (exInstance True) (exWorld [])"
  obtain eo p' where r: "reconcileMigration exReconciler 7 None ?p = (eo, p')" by fastforce
  obtain key where key: "\<forall>jobs b. migrationAttemptKey exReconciler (exWorld jobs) (exInstance b) None = Inr key"
    using exKey by blast
  have len: "length key = 16"
    using migrationAttemptKey_after_preflight [OF exWorld_preflight [of "[]" True]] key by auto
  have sp: "srv_Spec (ps_Instance (preparedPass 7 ?p)) = srv_Spec (exInstance True)" by (simp add: preparedPass_def)
  obtain job w' where job: "buildMigrationJob exReconciler (exWorld []) (ps_Instance (preparedPass 7 ?p)) None
      (migrationJobName (nameOf (exInstance True))) key = Inr job" "attemptOf job = key" "\<not> jobDeleting job"
    and create: "kb_CreateJob (rc_Kube exReconciler) (exWorld []) job
        = (Inr (job\<lparr>job_Status := \<lparr>jst_Conditions = [], jst_Active = 0\<rparr>\<rparr>), w')"
    using exCreate [of "preparedPass 7 ?p"] sp by blast
  let ?created = "job\<lparr>job_Status := \<lparr>jst_Conditions = [], jst_Active = 0\<rparr>\<rparr>"
  have "attemptOf ?created = key" "\<not> jobDeleting ?created" "jst_Conditions (job_Status ?created) = []"
    using job by (simp_all add: attemptOf_def jobDeleting_def)
  then show ?thesis
    using migration_starts_once [of ?p exReconciler None key 7 job ?created w' eo p'] key r job create len
    by (auto simp: migrationAlreadyValidated_def)
qed

definition exValidated :: "OGXServer" where
  "exValidated = (exInstance False)\<lparr>srv_Status := setMigration
     (zeroMigrationStatus\<lparr>mig_Phase := MigrationPhaseValidated, mig_AttemptKey := ''k''\<rparr>) emptyStatus\<rparr>"


theorem preflight_failure_forgets_validation_witness:
  "\<exists>p1 q'. reconcileMigration exReconciler 7 None
         (exPass ((exInstance True)\<lparr>srv_Status := srv_Status exValidated\<rparr>) (exStore\<lparr>sto_Secrets := []\<rparr>)) = (None, p1)
     \<and> reconcileMigration exReconciler 8 None
         (exPass ((exInstance True)\<lparr>srv_Status := srv_Status (ps_Instance p1)\<rparr>) (exWorld [])) = (None, q')
     \<and> sto_Jobs (ps_World q') \<noteq> []"
proof -
  let ?p = "exPass ((exInstance True)\<lparr>srv_Status := srv_Status exValidated\<rparr>) (exStore\<lparr>sto_Secrets := []\<rparr>)"
  obtain eo p1 where p1: "reconcileMigration exReconciler 7 None ?p = (eo, p1)" by fastforce
  let ?q = "exPass ((exInstance True)\<lparr>srv_Status := srv_Status (ps_Instance p1)\<rparr>) (exWorld [])"
  obtain eo' q' where q: "reconcileMigration exReconciler 8 None ?q = (eo', q')" by fastforce
  have "runMigrationPreflight exReconciler (exStore\<lparr>sto_Secrets := []\<rparr>) (exInstance True) None \<noteq> None"
    unfolding runMigrationPreflight_None
    by (simp add: connectionString_def exReconciler_def storeKube_def storeGet_def)
  then obtain e where e: "runMigrationPreflight exReconciler (ps_World ?p) (ps_Instance ?p) None = Some e" by auto
  obtain key where key: "\<forall>jobs b. migrationAttemptKey exReconciler (exWorld jobs) (exInstance b) None = Inr key"
    using exKey by blast
  have sp: "srv_Spec (ps_Instance (preparedPass 8 ?q)) = srv_Spec (exInstance True)" by (simp add: preparedPass_def)
  obtain job w' where job: "buildMigrationJob exReconciler (exWorld []) (ps_Instance (preparedPass 8 ?q)) None
      (migrationJobName (nameOf (ps_Instance ?q))) key = Inr job"
    and create: "kb_CreateJob (rc_Kube exReconciler) (exWorld []) job
        = (Inr (job\<lparr>job_Status := \<lparr>jst_Conditions = [], jst_Active = 0\<rparr>\<rparr>), w')" and w': "sto_Jobs w' \<noteq> []"
    using exCreate [of "preparedPass 8 ?q"] sp by blast
  have v: "migrationAlreadyValidated (ps_Instance ?p)" by (simp add: migrationAlreadyValidated_def exValidated_def)
  show ?thesis
    using preflight_failure_forgets_validation [OF _ v e p1, of ?q key 8 job _ w' eo' q'] key p1 q job create w'
    by auto
qed

end
