(* ===== verification/Reconciler.thy ===== *)
theory Reconciler
  imports Manifest_Context Server_Status Migration
begin

text \<open>
  The reconciliation loop (\<open>controllers/ogxserver_controller.go\<close>): the operator configuration, the
  ConfigMaps of an instance, the sequence of a pass, its sentinel errors, the status and the delay
  until the next pass.
\<close>

section \<open>The operator configuration\<close>

definition operatorConfigData :: string where
  "operatorConfigData = ''ogx-operator-config''"

text \<open>\<open>unmarshal\<close> is the YAML decoder at type \<open>map[string]string\<close>, \<open>valid\<close> is \<open>name.ParseReference\<close>.\<close>

definition ParseImageMappingOverrides :: "(string \<Rightarrow> string gomap option) \<Rightarrow> (string \<Rightarrow> bool) \<Rightarrow> string gomap \<Rightarrow> string gomap" where
  "ParseImageMappingOverrides unmarshal valid data =
     (case mget data ''image-overrides'' of
        None \<Rightarrow> mempty
      | Some text \<Rightarrow>
          (case unmarshal text of
             None \<Rightarrow> mempty
           | Some overrides \<Rightarrow> fold (\<lambda>(version, img) m. if valid img then mput version img m else m) overrides mempty))"

text \<open>What the reconciler keeps between passes.\<close>

record ReconcilerState =
  rs_ImageMappingOverrides :: "string gomap"
  rs_operatorNamespace :: string
  rs_cache :: ociConfigCache

text \<open>A controller: the operator's environment, the status interface and the parsers of its configuration.\<close>

record ('w, 'o, 'r, 't) Controller =
  ct_Op :: "('w, 'o, 'r, 't) Operator"
  ct_Status :: "'w StatusAPI"
  ct_Unmarshal :: "string \<Rightarrow> string gomap option"
  ct_ValidImage :: "string \<Rightarrow> bool"

definition refreshOperatorConfig :: "('w, 'o, 'r, 't) Controller \<Rightarrow> 'w \<Rightarrow> ReconcilerState \<Rightarrow> ReconcilerState" where
  "refreshOperatorConfig ct w st =
     (let load = (\<lambda>st. case kb_GetConfigMap (rc_Kube (op_R (ct_Op ct))) w (rs_operatorNamespace st) operatorConfigData of
            Inl _ \<Rightarrow> st
          | Inr cm \<Rightarrow> st\<lparr>rs_ImageMappingOverrides :=
              ParseImageMappingOverrides (ct_Unmarshal ct) (ct_ValidImage ct) (cm_Data cm)\<rparr>)
      in if rs_operatorNamespace st \<noteq> [] then load st
         else case rd_OperatorNamespace (op_Renderer (ct_Op ct)) of
                Inl _ \<Rightarrow> st
              | Inr ns \<Rightarrow> load (st\<lparr>rs_operatorNamespace := ns\<rparr>))"

text \<open>The environment of a pass, with the image overrides in force.\<close>

definition withOverrides :: "ReconcilerState \<Rightarrow> ('w, 'o, 'r, 't) Operator \<Rightarrow> ('w, 'o, 'r, 't) Operator" where
  "withOverrides st op = op\<lparr>op_R := (op_R op)\<lparr>rc_ImageMappingOverrides := rs_ImageMappingOverrides st\<rparr>\<rparr>"

section \<open>ConfigMaps\<close>

definition reconcileBaseConfigMap :: "'w OGXServerReconciler \<Rightarrow> 'w \<Rightarrow> OGXServer \<Rightarrow> string option" where
  "reconcileBaseConfigMap r w inst =
     (let ns = meta_Namespace (srv_ObjectMeta inst) in
      case spec_BaseConfig (srv_Spec inst) of
        None \<Rightarrow> None
      | Some ref \<Rightarrow>
          (case kb_GetConfigMap (rc_Kube r) w ns (cmkr_Name ref) of
             Inl (NotFound _) \<Rightarrow> Some (''failed to find referenced base ConfigMap '' @ ns @ ''/'' @ cmkr_Name ref)
           | Inl e \<Rightarrow> Some (''failed to fetch base ConfigMap '' @ ns @ ''/'' @ cmkr_Name ref @ '': '' @ apiText e)
           | Inr cm \<Rightarrow>
               if mget (cm_Data cm) (cmkr_Key ref) = None
               then Some (''failed to find base ConfigMap key '' @ [CHR 0x27] @ cmkr_Key ref @ [CHR 0x27] @ '' in ConfigMap '' @ ns @ ''/'' @ cmkr_Name ref)
               else None))"

definition reconcileOverrideConfigMap :: "'w OGXServerReconciler \<Rightarrow> 'w \<Rightarrow> OGXServer \<Rightarrow> string option" where
  "reconcileOverrideConfigMap r w inst =
     (let ns = meta_Namespace (srv_ObjectMeta inst) in
      if \<not> HasOverrideConfig inst then None
      else case spec_OverrideConfig (srv_Spec inst) of
        None \<Rightarrow> None
      | Some ref \<Rightarrow>
          (case kb_GetConfigMap (rc_Kube r) w ns (cmkr_Name ref) of
             Inl (NotFound _) \<Rightarrow> Some (''failed to find referenced ConfigMap '' @ ns @ ''/'' @ cmkr_Name ref)
           | Inl e \<Rightarrow> Some (''failed to fetch ConfigMap '' @ ns @ ''/'' @ cmkr_Name ref @ '': '' @ apiText e)
           | Inr cm \<Rightarrow>
               if mget (cm_Data cm) (cmkr_Key ref) = None
               then Some (''failed to find override ConfigMap key '' @ [CHR 0x27] @ cmkr_Key ref @ [CHR 0x27] @ '' in ConfigMap '' @ ns @ ''/'' @ cmkr_Name ref)
               else None))"

definition reconcileOverrideAndCABundleConfigMaps :: "'w OGXServerReconciler \<Rightarrow> 'w \<Rightarrow> OGXServer \<Rightarrow> string option" where
  "reconcileOverrideAndCABundleConfigMaps r w inst =
     orElse (wrapErr ''failed to reconcile base ConfigMap: '' (reconcileBaseConfigMap r w inst))
     (orElse (wrapErr ''failed to reconcile override ConfigMap: '' (reconcileOverrideConfigMap r w inst))
     (wrapErr ''failed to reconcile CA bundle ConfigMap: '' (reconcileCABundleConfigMap r w inst)))"

definition generationError :: "('w, 'o, 'r, 't) Operator \<Rightarrow> gen_error \<Rightarrow> reconcile_error" where
  "generationError op e =
     (case e of
        GenTerminal t \<Rightarrow> Terminal (''failed to reconcile generated config: '' @ t)
      | _ \<Rightarrow> Failure (''failed to reconcile generated config: '' @ op_GenText op e))"

definition reconcileConfigMaps ::
    "('w, 'o, 'r, 't) Operator \<Rightarrow> ociConfigCache \<Rightarrow> 'w Pass
       \<Rightarrow> ociConfigCache \<times> (reconcile_error + GeneratedConfig option) \<times> 'w Pass" where
  "reconcileConfigMaps op cache p =
     (case reconcileOverrideAndCABundleConfigMaps (op_R op) (ps_World p) (ps_Instance p) of
        Some e \<Rightarrow> (cache, Inl (Failure e), p)
      | None \<Rightarrow>
          (case reconcileGeneratedConfig (op_Codec op) (op_Fetcher op) (op_R op) (op_ConfigMaps op) cache p of
             None \<Rightarrow> (cache, Inl NoReturn, p)
           | Some (cache', Inl e, p1) \<Rightarrow> (cache', Inl (generationError op e), p1)
           | Some (cache', Inr generated, p1) \<Rightarrow>
               (case reconcileManagedCABundle (op_Pem op) (op_KeyOrder op) (op_R op) (op_ConfigMaps op) p1 of
                  (Some CaDiverges, p2) \<Rightarrow> (cache', Inl NoReturn, p2)
                | (Some (CaError e), p2) \<Rightarrow> (cache', Inl (Failure e), p2)
                | (None, p2) \<Rightarrow> (cache', Inr generated, p2))))"

section \<open>A pass\<close>

definition errorText :: "reconcile_error \<Rightarrow> string" where
  "errorText e = (case e of RequeueAfter n \<Rightarrow> ''requeue after '' @ showInt n @ ''s'' | Terminal t \<Rightarrow> t | Failure t \<Rightarrow> t | NoReturn \<Rightarrow> [])"

definition withInstance :: "(OGXServer \<Rightarrow> OGXServer) \<Rightarrow> 'w Pass \<Rightarrow> 'w Pass" where
  "withInstance f p = p\<lparr>ps_Instance := f (ps_Instance p)\<rparr>"

definition pendingConfigMap :: "OGXServer \<Rightarrow> GeneratedConfig option \<Rightarrow> string" where
  "pendingConfigMap inst generated =
     (case generated of None \<Rightarrow> [] | Some g \<Rightarrow> generatedConfigMapName (meta_Name (srv_ObjectMeta inst)) (gc_ContentHash g))"

text \<open>The bookkeeping after the manifests were applied; a failed clean-up is only logged.\<close>

definition recordGeneration :: "('w, 'o, 'r, 't) Operator \<Rightarrow> int \<Rightarrow> GeneratedConfig option \<Rightarrow> 'w Pass \<Rightarrow> 'w Pass" where
  "recordGeneration op now generated p =
     (case generated of
        None \<Rightarrow> withInstance (clearConfigGenerationStatus now ''ConfigGenerationInactive'' ''Declarative config generation is not active'') p
      | Some g \<Rightarrow>
          snd (cleanupOldGeneratedConfigMaps (op_ConfigMaps op) (op_Workload op) (op_ByAge op) (pendingConfigMap (ps_Instance p) generated)
            (withInstance (\<lambda>i. updateConfigGenerationStatus now g
               (setConfigGeneratedCondition now i True ''ConfigGenerationSucceeded''
                 (''Generated config.yaml with '' @ showInt (gc_ProviderCount g) @ '' providers and ''
                   @ showInt (gc_ResourceCount g) @ '' resources''))) p)))"

definition generationFailed :: "int \<Rightarrow> bool \<Rightarrow> reconcile_error \<Rightarrow> 'w Pass \<Rightarrow> 'w Pass" where
  "generationFailed now relevant e p =
     (if relevant then withInstance (\<lambda>i. setConfigGeneratedCondition now i False ''ConfigGenerationFailed'' (errorText e)) p else p)"

text \<open>The steps after the manifests: Ingress, clean-up of adopted networking, migration.\<close>

definition reconcileNetworkAndMigration ::
    "('w, 'o, 'r, 't) Operator \<Rightarrow> int \<Rightarrow> runtimeConfigRef option \<Rightarrow> 'w Pass \<Rightarrow> reconcile_error option \<times> 'w Pass" where
  "reconcileNetworkAndMigration op now rcfg p =
     (case reconcileIngress (op_Ingress op) p of
        (Some e, p1) \<Rightarrow> (Some (Failure (''failed to reconcile Ingress: '' @ e)), p1)
      | (None, p1) \<Rightarrow>
          (case cleanupAdoptedNetworking (op_Adopt op) now p1 of
             (Some e, p2) \<Rightarrow> (Some (Failure (''failed to clean up adopted networking: '' @ e)), p2)
           | (None, p2) \<Rightarrow>
               (case reconcileMigration (op_R op) now rcfg p2 of
                  (Some e, p3) \<Rightarrow> (Some (Failure (''failed to reconcile Praxis migration: '' @ e)), p3)
                | (None, p3) \<Rightarrow> (None, p3))))"

text \<open>From the generated configuration on.\<close>

definition reconcileWorkload ::
    "('w, 'o, 'r, 't) Operator \<Rightarrow> int \<Rightarrow> GeneratedConfig option \<Rightarrow> 'w Pass \<Rightarrow> reconcile_error option \<times> 'w Pass" where
  "reconcileWorkload op now generated p =
     (let rcfg = resolveRuntimeConfigRef (ps_Instance p) (pendingConfigMap (ps_Instance p) generated) in
      case reconcileAllManifestResources op now rcfg p of
        (Some e, p1) \<Rightarrow> (Some e, generationFailed now (generated \<noteq> None) e p1)
      | (None, p1) \<Rightarrow> reconcileNetworkAndMigration op now rcfg (recordGeneration op now generated p1))"

definition reconcileResources ::
    "('w, 'o, 'r, 't) Operator \<Rightarrow> int \<Rightarrow> ociConfigCache \<Rightarrow> 'w Pass \<Rightarrow> ociConfigCache \<times> reconcile_error option \<times> 'w Pass" where
  "reconcileResources op now cache p =
     (case adoptLegacyResources (op_Adopt op) now p of
        (Inl e, p1) \<Rightarrow> (cache, Some (Failure (''failed to adopt legacy resources: '' @ e)), p1)
      | (Inr (Some after), p1) \<Rightarrow> (cache, Some (RequeueAfter after), p1)
      | (Inr None, p1) \<Rightarrow>
          (case cleanupUnsafeOwnedIngress (op_Ingress op) p1 of
             (Some e, p2) \<Rightarrow> (cache, Some (Failure (''failed to clean up unsafe Ingress: '' @ e)), p2)
           | (None, p2) \<Rightarrow>
               (case reconcileConfigMaps op cache p2 of
                  (cache', Inl e, p3) \<Rightarrow>
                    (cache', Some e, generationFailed now
                       (HasDeclarativeConfig (ps_Instance p3) \<or> status_ConfigGeneration (srv_Status (ps_Instance p3)) \<noteq> None) e p3)
                | (cache', Inr generated, p3) \<Rightarrow> (cache', reconcileWorkload op now generated p3))))"

section \<open>Reconcile\<close>

text \<open>\<open>ctrl.Result\<close> with the error: no error and no delay means that the controller waits for the next event.\<close>

record ReconcileResult =
  rr_RequeueAfter :: "int option"
  rr_Error :: "string option"

definition fetchInstance :: "'w StatusAPI \<Rightarrow> 'w \<Rightarrow> string \<Rightarrow> string \<Rightarrow> string + OGXServer option" where
  "fetchInstance api w ns n =
     (case sa_GetServer api w ns n of
        Inl (NotFound _) \<Rightarrow> Inr None
      | Inl e \<Rightarrow> Inl (''failed to fetch OGXServer: '' @ apiText e)
      | Inr inst \<Rightarrow> Inr (Some inst))"

text \<open>A sentinel error ends the pass; a failure of its status update is only logged.\<close>

definition handleSentinelErrors ::
    "('w, 'o, 'r, 't) Controller \<Rightarrow> int \<Rightarrow> reconcile_error option \<Rightarrow> 'w Pass \<Rightarrow> (ReconcileResult \<times> 'w Pass) option" where
  "handleSentinelErrors ct now err p =
     (let op = ct_Op ct; update = snd (updateStatus (ct_Status ct) (op_Ingress op) (op_Adopt op) (op_R op) now None p) in
      case err of
        Some (RequeueAfter n) \<Rightarrow> Some (\<lparr>rr_RequeueAfter = Some n, rr_Error = None\<rparr>, update)
      | Some (Terminal _) \<Rightarrow> Some (\<lparr>rr_RequeueAfter = None, rr_Error = None\<rparr>, update)
      | _ \<Rightarrow> None)"

text \<open>The end of a pass; \<open>None\<close> is a pass that does not return.\<close>

definition finishReconcile ::
    "('w, 'o, 'r, 't) Controller \<Rightarrow> int \<Rightarrow> reconcile_error option \<Rightarrow> 'w Pass \<Rightarrow> (ReconcileResult \<times> 'w Pass) option" where
  "finishReconcile ct now err p =
     (case handleSentinelErrors ct now err p of
        Some r \<Rightarrow> Some r
      | None \<Rightarrow>
          if err = Some NoReturn then None
          else let op = ct_Op ct in
            case updateStatus (ct_Status ct) (op_Ingress op) (op_Adopt op) (op_R op) now (map_option errorText err) p of
              (Some statusErr, p') \<Rightarrow>
                Some (\<lparr>rr_RequeueAfter = None, rr_Error = Some (case err of Some e \<Rightarrow> errorText e | None \<Rightarrow> statusErr)\<rparr>, p')
            | (None, p') \<Rightarrow>
                (case err of
                   Some e \<Rightarrow> Some (\<lparr>rr_RequeueAfter = None, rr_Error = Some (errorText e)\<rparr>, p')
                 | None \<Rightarrow>
                     Some (\<lparr>rr_RequeueAfter = Some
                        (if status_Phase (srv_Status (ps_Instance p')) = PhaseInitializing then 10
                         else if migrationNeedsRequeue (ps_Instance p') then 15 else 300), rr_Error = None\<rparr>, p')))"

definition Reconcile ::
    "('w, 'o, 'r, 't) Controller \<Rightarrow> int \<Rightarrow> string \<Rightarrow> string \<Rightarrow> ReconcilerState \<Rightarrow> 'w
       \<Rightarrow> (ReconcileResult \<times> ReconcilerState \<times> 'w) option" where
  "Reconcile ct now ns n st w =
     (let st1 = refreshOperatorConfig ct w st;
          ct1 = ct\<lparr>ct_Op := withOverrides st1 (ct_Op ct)\<rparr>
      in case fetchInstance (ct_Status ct) w ns n of
           Inl e \<Rightarrow> Some (\<lparr>rr_RequeueAfter = None, rr_Error = Some e\<rparr>, st1, w)
         | Inr None \<Rightarrow> Some (\<lparr>rr_RequeueAfter = None, rr_Error = None\<rparr>, st1, w)
         | Inr (Some inst) \<Rightarrow>
             (let (cache, err, p) = reconcileResources (ct_Op ct1) now (rs_cache st1) \<lparr>ps_Instance = inst, ps_World = w, ps_Events = []\<rparr>
              in map_option (\<lambda>(res, p'). (res, st1\<lparr>rs_cache := cache\<rparr>, ps_World p')) (finishReconcile ct1 now err p)))"

section \<open>A pass returns\<close>

lemma Resolve_inv:
  assumes "cacheInv c"
  shows "\<exists>c' res. Resolve fetcher ref c = Some (c', res) \<and> cacheInv c'"
proof -
  have fetch: "\<exists>c' res. fetchAndCache f ref c = Some (c', res) \<and> cacheInv c'" if "cacheInv c" for f c
  proof -
    have "\<exists>c'. cacheSet ref d c = Some c' \<and> cacheInv c'" for d using cacheSet_refines [OF that] by blast
    then show ?thesis using that
      by (auto simp: fetchAndCache_def split: sum.split option.split) (metis option.distinct(1) option.inject)+
  qed
  obtain c1 r1 where "cacheGet ref c = Some (c1, r1)" "cacheInv c1" using cacheGet_refines [OF assms, of ref] by auto
  then show ?thesis
    using fetch assms by (auto simp: Resolve_def resolveFromOCI_def split: option.split)
qed

lemma resolveBaseConfig_inv:
  "cacheInv c \<Longrightarrow> \<exists>c' res. resolveBaseConfig fetcher r w inst c = Some (c', res) \<and> cacheInv c'"
proof (cases "spec_BaseConfig (srv_Spec inst)")
  case None
  assume "cacheInv c"
  show ?thesis
  proof (cases "resolveImage r (spec_Distribution (srv_Spec inst))")
    case (Inr img)
    then show ?thesis using Resolve_inv [OF \<open>cacheInv c\<close>, of fetcher img] None by (auto simp: resolveBaseConfig_def)
  qed (use None \<open>cacheInv c\<close> in \<open>simp add: resolveBaseConfig_def\<close>)
qed (simp add: resolveBaseConfig_def Let_def)

lemma generatedConfig_inv:
  "cacheInv c \<Longrightarrow> \<exists>c' res p'. reconcileGeneratedConfig codec fetcher r api c p = Some (c', res, p') \<and> cacheInv c'"
  using resolveBaseConfig_inv [of c fetcher r "ps_World p" "ps_Instance p"]
  by (auto simp: reconcileGeneratedConfig_def Let_def split: sum.split prod.split option.split)

lemma configMaps_return:
  assumes "pemConsumes (op_Pem op)" "cacheInv c"
  shows "\<exists>c' res p'. reconcileConfigMaps op c p = (c', res, p') \<and> cacheInv c' \<and> res \<noteq> Inl NoReturn"
proof -
  obtain c' res p1 where g: "reconcileGeneratedConfig (op_Codec op) (op_Fetcher op) (op_R op) (op_ConfigMaps op) c p = Some (c', res, p1)"
    "cacheInv c'" using generatedConfig_inv [OF assms(2)] by blast
  show ?thesis
    using g assms(2) managed_bundle_ends [OF assms(1), of "op_KeyOrder op" "op_R op" "op_ConfigMaps op" p1]
    by (auto simp: reconcileConfigMaps_def generationError_def split: option.split sum.split prod.split ca_error.split gen_error.split)
qed

lemma manifests_return: "fst (reconcileAllManifestResources op now rcfg p) \<noteq> Some NoReturn"
  by (auto simp: reconcileAllManifestResources_def Let_def split: prod.split sum.split pvc_error.split option.split)

lemma network_returns: "fst (reconcileNetworkAndMigration op now rcfg p) \<noteq> Some NoReturn"
  by (auto simp: reconcileNetworkAndMigration_def split: prod.split option.split)

lemma workload_returns: "fst (reconcileWorkload op now generated p) \<noteq> Some NoReturn"
proof -
  obtain res p1 where m: "reconcileAllManifestResources op now (resolveRuntimeConfigRef (ps_Instance p) (pendingConfigMap (ps_Instance p) generated)) p = (res, p1)"
    by force
  then have "res \<noteq> Some NoReturn" using manifests_return by (metis fst_conv)
  then show ?thesis using m by (auto simp: reconcileWorkload_def Let_def network_returns split: option.split)
qed

lemma resources_return:
  assumes "pemConsumes (op_Pem op)" "cacheInv c"
  shows "\<exists>c' err p'. reconcileResources op now c p = (c', err, p') \<and> cacheInv c' \<and> err \<noteq> Some NoReturn"
proof -
  obtain a p1 where a: "adoptLegacyResources (op_Adopt op) now p = (a, p1)" by force
  obtain u p2 where u: "cleanupUnsafeOwnedIngress (op_Ingress op) p1 = (u, p2)" by force
  obtain c' res p3 where m: "reconcileConfigMaps op c p2 = (c', res, p3)" "cacheInv c'" "res \<noteq> Inl NoReturn"
    using configMaps_return [OF assms] by blast
  have "\<exists>err p'. reconcileWorkload op now g p3 = (err, p') \<and> err \<noteq> Some NoReturn" for g
    using workload_returns [of op now g p3] by (cases "reconcileWorkload op now g p3") simp
  then show ?thesis
    using a u m assms(2) by (auto simp: reconcileResources_def split: sum.split option.split)
qed

section \<open>Runs of the controller\<close>

text \<open>The states of a controller that starts with an empty cache: passes for any instance, with other clients acting in between.\<close>

inductive controllerRun :: "('w, 'o, 'r, 't) Controller \<Rightarrow> ReconcilerState \<Rightarrow> 'w \<Rightarrow> bool" for ct where
  begins: "rs_cache st = newOCIConfigCache \<Longrightarrow> controllerRun ct st w"
| others: "controllerRun ct st w \<Longrightarrow> controllerRun ct st w'"
| passes: "controllerRun ct st w \<Longrightarrow> Reconcile ct now ns n st w = Some (res, st', w') \<Longrightarrow> controllerRun ct st' w'"

lemma refresh_cache [simp]: "rs_cache (refreshOperatorConfig ct w st) = rs_cache st"
  by (simp add: refreshOperatorConfig_def Let_def split: sum.split)

lemma withOverrides_frame [simp]:
  "op_Pem (withOverrides st op) = op_Pem op" "op_Adopt (withOverrides st op) = op_Adopt op"
  "op_Ingress (withOverrides st op) = op_Ingress op" "rc_Kube (op_R (withOverrides st op)) = rc_Kube (op_R op)"
  by (simp_all add: withOverrides_def)

lemma Reconcile_returns:
  assumes "pemConsumes (op_Pem (ct_Op ct))" "cacheInv (rs_cache st)"
  shows "\<exists>res st' w'. Reconcile ct now ns n st w = Some (res, st', w') \<and> cacheInv (rs_cache st')"
proof -
  let ?st = "refreshOperatorConfig ct w st"
  let ?op = "withOverrides ?st (ct_Op ct)"
  have ret: "\<exists>c' err p'. reconcileResources ?op now (rs_cache st) p = (c', err, p') \<and> cacheInv c' \<and> err \<noteq> Some NoReturn" for p
    using assms by (intro resources_return) simp_all
  have fin: "\<exists>r. finishReconcile ct' now err p = Some r" if "err \<noteq> Some NoReturn" for ct' :: "('a, 'b, 'c, 'd) Controller" and err p
    using that by (auto simp: finishReconcile_def Let_def split: option.split prod.split)
  show ?thesis
  proof (cases "fetchInstance (ct_Status ct) w ns n")
    case (Inr o')
    show ?thesis
    proof (cases o')
      case (Some inst)
      let ?p = "\<lparr>ps_Instance = inst, ps_World = w, ps_Events = []\<rparr>"
      obtain c' err p where r: "reconcileResources ?op now (rs_cache st) ?p = (c', err, p)" "cacheInv c'" "err \<noteq> Some NoReturn"
        using ret by blast
      then obtain res p' where "finishReconcile (ct\<lparr>ct_Op := ?op\<rparr>) now err p = Some (res, p')" using fin by fastforce
      then show ?thesis using Inr Some r by (simp add: Reconcile_def Let_def)
    qed (use Inr assms in \<open>simp add: Reconcile_def Let_def\<close>)
  qed (use assms in \<open>simp add: Reconcile_def Let_def\<close>)
qed

lemma controllerRun_inv:
  "controllerRun ct st w \<Longrightarrow> pemConsumes (op_Pem (ct_Op ct)) \<Longrightarrow> cacheInv (rs_cache st)"
proof (induction rule: controllerRun.induct)
  case (begins st w)
  then show ?case by (simp add: cacheInv_new)
next
  case (passes st w now ns n res st' w')
  then show ?case using Reconcile_returns [of ct st now ns n w] by auto
qed

section \<open>The instance during a pass\<close>

text \<open>No step changes the spec or the metadata of the instance.\<close>

definition sameInstance :: "'w Pass \<Rightarrow> 'w Pass \<Rightarrow> bool" where
  "sameInstance p p' \<longleftrightarrow> srv_Spec (ps_Instance p') = srv_Spec (ps_Instance p)
     \<and> srv_ObjectMeta (ps_Instance p') = srv_ObjectMeta (ps_Instance p)"

lemma sameInstance_refl [simp]: "sameInstance p p"
  by (simp add: sameInstance_def)

lemma sameInstance_trans: "sameInstance p p1 \<Longrightarrow> sameInstance p1 p2 \<Longrightarrow> sameInstance p p2"
  by (simp add: sameInstance_def)

lemma sameInstance_update [simp]:
  "sameInstance p (withStatus f p1) = sameInstance p p1" "sameInstance p (p1\<lparr>ps_World := w\<rparr>) = sameInstance p p1"
  "sameInstance p (p1\<lparr>ps_Events := ev\<rparr>) = sameInstance p p1"
  by (simp_all add: sameInstance_def)

lemma adoptStorage_same: "sameInstance p (snd (adoptStorageSource api now src p))"
  by (simp add: adoptStorageSource_def adoptStorage_def Let_def split: prod.split sum.split api_error.split option.split bool.split)

lemma adoptNetworking_same: "sameInstance p (snd (adoptNetworkingSource api now src p))"
proof -
  have s: "sameInstance p (snd (adoptLegacyService api now n p))" for n and p :: "'a Pass"
    by (simp add: adoptLegacyService_def Let_def split: prod.split sum.split api_error.split option.split)
  have i: "sameInstance p (snd (adoptLegacyIngress api now n p))" for n and p :: "'a Pass"
    by (simp add: adoptLegacyIngress_def Let_def split: prod.split sum.split api_error.split option.split)
  obtain r1 p1 where 1: "adoptLegacyService api now src p = (r1, p1)" by force
  obtain r2 p2 where 2: "adoptLegacyIngress api now src p1 = (r2, p2)" by force
  show ?thesis
    using 1 2 s [of p src] i [of p1 src] sameInstance_trans [of p p1 p2]
    by (auto simp: adoptNetworkingSource_def adoptNetworking_def split: sum.split prod.split)
qed

lemma adopt_same: "sameInstance p (snd (adoptLegacyResources api now p))"
proof -
  obtain valid s where v: "validateAdoptionSources api now (meta_Name (srv_ObjectMeta (ps_Instance p))) (GetAdoptStorageSource (ps_Instance p))
      (GetAdoptNetworkingSource (ps_Instance p)) (srv_Status (ps_Instance p)) = (valid, s)" by force
  let ?p0 = "withStatus (\<lambda>_. clearAdoptionConfigInvalidCondition now s) p"
  obtain r1 p1 where 1: "adoptStorageSource api now (GetAdoptStorageSource (ps_Instance p)) ?p0 = (r1, p1)" by force
  obtain r2 p2 where 2: "adoptNetworkingSource api now (GetAdoptNetworkingSource (ps_Instance p)) p1 = (r2, p2)" by force
  have "sameInstance p p1" using adoptStorage_same [of ?p0 api now "GetAdoptStorageSource (ps_Instance p)"] 1
    by (simp add: sameInstance_def)
  moreover from this have "sameInstance p p2"
    using adoptNetworking_same [of p1 api now "GetAdoptNetworkingSource (ps_Instance p)"] 2 sameInstance_trans by fastforce
  ultimately show ?thesis
    using v 1 2 by (auto simp: adoptLegacyResources_def Let_def split: sum.split option.split)
qed

lemma unsafe_same: "sameInstance p (snd (cleanupUnsafeOwnedIngress api p))"
  by (auto simp: cleanupUnsafeOwnedIngress_def deleteIngressObject_def enforceInternalOnlyIngress_def handleDisabledIngress_def
      Let_def sameInstance_def split: prod.split sum.split api_error.split option.split)

lemma generated_same:
  "reconcileGeneratedConfig codec fetcher r api c p = Some (c', res, p') \<Longrightarrow> sameInstance p p'"
  by (auto simp: reconcileGeneratedConfig_def ensureGeneratedConfigMap_def Let_def
      split: if_splits prod.splits sum.splits api_error.splits option.splits)

lemma managed_same: "sameInstance p (snd (reconcileManagedCABundle pl order r api p))"
proof -
  have "sameInstance p (snd (reconcileManagedCABundleConfigMap pl order r api p))"
    by (simp add: reconcileManagedCABundleConfigMap_def Let_def split: prod.split sum.split api_error.split option.split ca_error.split)
  then show ?thesis
    by (auto simp: reconcileManagedCABundle_def Let_def split: prod.split sum.split api_error.split option.split ca_error.split)
qed

lemma configMaps_same: "reconcileConfigMaps op c p = (c', res, p') \<Longrightarrow> sameInstance p p'"
proof -
  assume r: "reconcileConfigMaps op c p = (c', res, p')"
  have "sameInstance p1 (snd (reconcileManagedCABundle (op_Pem op) (op_KeyOrder op) (op_R op) (op_ConfigMaps op) p1))" for p1
    by (rule managed_same)
  then show ?thesis
    using r generated_same [of "op_Codec op" "op_Fetcher op" "op_R op" "op_ConfigMaps op" c p] sameInstance_trans [of p]
    by (auto simp: reconcileConfigMaps_def split: option.splits sum.splits prod.splits ca_error.splits) (metis snd_conv)+
qed

section \<open>How a pass ends\<close>

text \<open>The two ways a pass can end without being repeated: several adopted claims, or a base ConfigMap that vanishes.\<close>

lemma adoption_requeue: "fst (adoptLegacyResources api now p) = Inr (Some d) \<Longrightarrow> d = 5"
  by (auto simp: adoptLegacyResources_def adoptStorageSource_def adoptStorage_def Let_def
      split: prod.splits if_splits sum.splits api_error.splits option.splits bool.splits)

definition severalAdopted :: "'w AdoptAPI \<Rightarrow> OGXServer \<Rightarrow> bool" where
  "severalAdopted api inst \<longleftrightarrow>
     (\<exists>w names. ad_AdoptedPVCs api w (meta_Namespace (srv_ObjectMeta inst)) (meta_Name (srv_ObjectMeta inst)) = Inr names
        \<and> length names \<ge> 2)"

lemma terminal_pvc:
  assumes "fst (resolveEffectivePVCName ad now p) = Inl (PVCTerminal t)"
  shows "severalAdopted ad (ps_Instance p)"
proof -
  let ?m = "srv_ObjectMeta (ps_Instance p)"
  obtain x y zs where "ad_AdoptedPVCs ad (ps_World p) (meta_Namespace ?m) (meta_Name ?m) = Inr (x # y # zs)"
    using assms by (auto simp: resolveEffectivePVCName_def Let_def split: if_splits sum.splits list.splits)
  then show ?thesis unfolding severalAdopted_def by fastforce
qed

lemma terminal_manifests:
  "fst (reconcileAllManifestResources op now rcfg p) = Some (Terminal t) \<Longrightarrow> severalAdopted (op_Adopt op) (ps_Instance p)"
  using terminal_pvc [of "op_Adopt op" now p]
  by (auto simp: reconcileAllManifestResources_def Let_def split: prod.splits sum.splits pvc_error.splits option.splits)

lemma workload_errors:
  "fst (reconcileWorkload op now g p) = Some e \<Longrightarrow>
     (\<exists>t. e = Failure t) \<or> (\<exists>t. e = Terminal t \<and> severalAdopted (op_Adopt op) (ps_Instance p))"
proof -
  assume e: "fst (reconcileWorkload op now g p) = Some e"
  let ?rcfg = "resolveRuntimeConfigRef (ps_Instance p) (pendingConfigMap (ps_Instance p) g)"
  obtain res p1 where m: "reconcileAllManifestResources op now ?rcfg p = (res, p1)" by force
  have "\<forall>d. res \<noteq> Some (RequeueAfter d)" "res \<noteq> Some NoReturn"
    using m manifests_return [of op now ?rcfg p]
    by (auto simp: reconcileAllManifestResources_def Let_def split: prod.splits sum.splits pvc_error.splits option.splits)
  moreover have "fst (reconcileNetworkAndMigration op now ?rcfg q) = Some e \<Longrightarrow> \<exists>t. e = Failure t" for q
    by (auto simp: reconcileNetworkAndMigration_def split: prod.splits option.splits)
  ultimately show ?thesis
    using e m terminal_manifests [of op now ?rcfg p]
    by (cases res; cases e) (auto simp: reconcileWorkload_def Let_def)
qed

text \<open>After the base ConfigMap was validated, resolving it cannot fail: both read the same key.\<close>

lemma base_resolved:
  assumes "reconcileOverrideAndCABundleConfigMaps r w inst = None"
  shows "resolveBaseConfig fetcher r w inst c \<noteq> Some (c', Inl (GenTerminal t))"
  using assms
  by (auto simp: reconcileOverrideAndCABundleConfigMaps_def orElse_def wrapErr_def reconcileBaseConfigMap_def resolveBaseConfig_def
      readReferencedConfigMapKey_def Let_def mapErr_def split: option.splits sum.splits api_error.splits if_splits)

lemma generated_errors:
  assumes "reconcileOverrideAndCABundleConfigMaps r (ps_World p) (ps_Instance p) = None"
  shows "reconcileGeneratedConfig codec fetcher r api c p \<noteq> Some (c', Inl (GenTerminal t), p')"
proof -
  have "generateFor codec (ps_Instance p) d \<noteq> Inl (GenTerminal t)" for d
    by (auto simp: generateFor_def mapErr_def split: option.split sum.split)
  then show ?thesis
    using base_resolved [OF assms, of fetcher c c' t]
    by (auto simp: reconcileGeneratedConfig_def Let_def split: option.split sum.split prod.split)
qed

lemma configMaps_errors:
  assumes "reconcileConfigMaps op c p = (c', Inl e, p')"
  shows "e = NoReturn \<or> (\<exists>t. e = Failure t)"
proof (cases "reconcileOverrideAndCABundleConfigMaps (op_R op) (ps_World p) (ps_Instance p)")
  case None
  note g = generated_errors [OF this, of "op_Codec op" "op_Fetcher op" "op_ConfigMaps op" c]
  show ?thesis
  proof (cases "reconcileGeneratedConfig (op_Codec op) (op_Fetcher op) (op_R op) (op_ConfigMaps op) c p")
    case (Some x)
    obtain c1 res p1 where x: "x = (c1, res, p1)" by (rule prod_cases3)
    show ?thesis
    proof (cases res)
      case (Inl ge)
      then show ?thesis using assms None Some x g [of c1 _ p1] by (cases ge) (auto simp: reconcileConfigMaps_def generationError_def)
    next
      case (Inr gen)
      then show ?thesis using assms None Some x
        by (auto simp: reconcileConfigMaps_def split: prod.splits option.splits ca_error.splits)
    qed
  qed (use assms None in \<open>simp add: reconcileConfigMaps_def\<close>)
qed (use assms in \<open>auto simp: reconcileConfigMaps_def\<close>)

lemma severalAdopted_same: "sameInstance p p' \<Longrightarrow> severalAdopted ad (ps_Instance p') = severalAdopted ad (ps_Instance p)"
  by (simp add: severalAdopted_def sameInstance_def)

lemma resources_errors:
  assumes "fst (snd (reconcileResources op now c p)) = Some e"
  shows "e = NoReturn \<or> (\<exists>t. e = Failure t) \<or> e = RequeueAfter 5
    \<or> (\<exists>t. e = Terminal t \<and> severalAdopted (op_Adopt op) (ps_Instance p))"
proof -
  obtain a p1 where a: "adoptLegacyResources (op_Adopt op) now p = (a, p1)" by force
  obtain u p2 where u: "cleanupUnsafeOwnedIngress (op_Ingress op) p1 = (u, p2)" by force
  obtain c' res p3 where m: "reconcileConfigMaps op c p2 = (c', res, p3)" by (rule prod_cases3)
  have "sameInstance p p3"
    using adopt_same [of p "op_Adopt op" now] unsafe_same [of p1 "op_Ingress op"] configMaps_same [OF m] a u
    by (auto simp: sameInstance_def)
  then show ?thesis
    using assms a u m adoption_requeue [of "op_Adopt op" now p] configMaps_errors [of op c p2 c' _ p3] workload_errors [of op now _ p3 e]
    by (auto simp: reconcileResources_def severalAdopted_same split: sum.splits option.splits)
qed

lemma finish_cases:
  assumes "finishReconcile ct now err p = Some (res, p')"
  shows "case err of
      Some (RequeueAfter d) \<Rightarrow> rr_RequeueAfter res = Some d \<and> rr_Error res = None
    | Some (Terminal t) \<Rightarrow> rr_RequeueAfter res = None \<and> rr_Error res = None
    | Some (Failure t) \<Rightarrow> rr_Error res = Some t
    | Some NoReturn \<Rightarrow> False
    | None \<Rightarrow> rr_Error res \<noteq> None \<or> rr_RequeueAfter res \<in> {Some 10, Some 15, Some 300}"
proof (cases err)
  case None
  then show ?thesis
    using assms by (auto simp: finishReconcile_def handleSentinelErrors_def Let_def split: prod.splits option.splits if_splits)
next
  case (Some e)
  then show ?thesis
    using assms by (cases e) (auto simp: finishReconcile_def handleSentinelErrors_def errorText_def Let_def split: prod.splits option.splits)
qed

section \<open>Properties\<close>

text \<open>
  (C8) The controller never hangs or panics in its own loops: in every state of every run, whatever
  other clients do in between, every pass over any instance returns a result, and the image cache
  that it keeps stays consistent and holds at most 64 entries.
\<close>

theorem every_pass_returns:
  assumes "pemConsumes (op_Pem (ct_Op ct))" "controllerRun ct st w"
  shows "\<exists>res st' w'. Reconcile ct now ns n st w = Some (res, st', w')
    \<and> controllerRun ct st' w' \<and> cacheInv (rs_cache st') \<and> length (cc_items (rs_cache st')) \<le> 64"
proof -
  obtain res st' w' where r: "Reconcile ct now ns n st w = Some (res, st', w')" "cacheInv (rs_cache st')"
    using Reconcile_returns [OF assms(1) controllerRun_inv [OF assms(2,1)]] by blast
  then show ?thesis
    using controllerRun.passes [OF assms(2) r(1)] by (auto simp: cacheInv_def [of "rs_cache st'"] maxOCICacheEntries_def)
qed


section \<open>Examples\<close>

text \<open>The controller on the small cluster, with one ready replica as soon as there is a Deployment.\<close>

definition simStatus :: "SimWorld StatusAPI" where
  "simStatus = \<lparr>sa_ReadyReplicas = (\<lambda>w _ n. if \<exists>o'\<in>set (sim_Objects w). textAt o' ''kind'' = ''Deployment'' then Inr 1 else Inl (NotFound n)),
     sa_PVCPhase = (\<lambda>_ _ n. Inl (NotFound n)), sa_Service = (\<lambda>_ _ _. None), sa_HTTP = (\<lambda>_ _. Inl ''refused''),
     sa_ParseProviders = (\<lambda>_. Inr []), sa_ParseVersion = (\<lambda>v. Inr v), sa_OperatorVersion = ''1'',
     sa_GetServer = (\<lambda>w ns n. if n = meta_Name (srv_ObjectMeta (sim_Server w)) then Inr (sim_Server w) else Inl (NotFound n)),
     sa_UpdateStatus = (\<lambda>w s. (None, w\<lparr>sim_Server := s\<rparr>)), sa_IsConflict = (\<lambda>_. False)\<rparr>"

definition simController :: "(SimWorld, ymap, ymap, ymap) Controller" where
  "simController = \<lparr>ct_Op = simOperator, ct_Status = simStatus, ct_Unmarshal = (\<lambda>_. None), ct_ValidImage = (\<lambda>_. True)\<rparr>"

definition simStart :: ReconcilerState where
  "simStart = \<lparr>rs_ImageMappingOverrides = mempty, rs_operatorNamespace = [], rs_cache = newOCIConfigCache\<rparr>"

lemma sim_consumes: "pemConsumes (op_Pem (ct_Op simController))"
  by (simp add: simController_def simOperator_def exPem_consumes)

theorem every_pass_returns_witness:
  "\<exists>res st' w'. Reconcile simController 7 ''ogx'' ''demo'' simStart simWorld = Some (res, st', w')
     \<and> length (cc_items (rs_cache st')) \<le> 64"
proof -
  have "controllerRun simController simStart simWorld"
    by (rule controllerRun.begins) (simp add: simStart_def)
  from every_pass_returns [OF sim_consumes this] show ?thesis by blast
qed


end
