(* ===== verification/Pass_Safety.thy ===== *)
theory Pass_Safety
  imports Guarded_Writes Reconciler
begin

text \<open>
  Which writes a whole reconciliation pass makes.  \<open>pass_write\<close> lists every kind of write of the
  controller, \<open>authorisedFor\<close> says when it is allowed, and the lemmas show for one step of a pass after
  the other that it makes authorised writes only.
\<close>

section \<open>Writes\<close>

datatype 'o pass_write =
    WAdopt adopt_write
  | WIngress ingress_write
  | WCreateConfigMap ConfigMapObject
  | WPatchConfigMap ConfigMapObject ConfigMapObject
  | WDeleteConfigMap ConfigMapObject
  | WDeleteOwned string ObjectMeta
  | WManifest "'o cluster_write"
  | WDeleteAdoptedService AdoptObject
  | WDeleteAdoptedIngress AdoptObject
  | WCreateJob Job
  | WDeleteJob Job
  | WStatus OGXServer

fun performPass :: "('w, 'o, 'r, 't) Controller \<Rightarrow> 'o pass_write \<Rightarrow> 'w \<Rightarrow> 'w" where
  "performPass ct (WAdopt v) w = performAdopt (op_Adopt (ct_Op ct)) v w"
| "performPass ct (WIngress v) w = performWrite (op_Ingress (ct_Op ct)) v w"
| "performPass ct (WCreateConfigMap cm) w = snd (ca_Create (op_ConfigMaps (ct_Op ct)) w cm)"
| "performPass ct (WPatchConfigMap old cm) w = snd (ca_Patch (op_ConfigMaps (ct_Op ct)) w old cm)"
| "performPass ct (WDeleteConfigMap cm) w = snd (ca_Delete (op_ConfigMaps (ct_Op ct)) w cm)"
| "performPass ct (WDeleteOwned kind m) w = snd (oa_Delete (op_Owned (ct_Op ct)) w kind m)"
| "performPass ct (WManifest v) w = perform (op_Cluster (ct_Op ct)) v w"
| "performPass ct (WDeleteAdoptedService s) w = snd (ad_DeleteService (op_Adopt (ct_Op ct)) w s)"
| "performPass ct (WDeleteAdoptedIngress i) w = snd (ad_DeleteIngress (op_Adopt (ct_Op ct)) w i)"
| "performPass ct (WCreateJob j) w = snd (kb_CreateJob (rc_Kube (op_R (ct_Op ct))) w j)"
| "performPass ct (WDeleteJob j) w = snd (kb_DeleteJob (rc_Kube (op_R (ct_Op ct))) w j)"
| "performPass ct (WStatus s) w = snd (sa_UpdateStatus (ct_Status ct) w s)"

text \<open>The ConfigMaps that belong to an instance: its CA bundle and its generated configurations.\<close>

definition ownConfigMapName :: "OGXServer \<Rightarrow> string \<Rightarrow> bool" where
  "ownConfigMapName inst name \<longleftrightarrow>
     name = getManagedCABundleConfigMapName inst \<or> (\<exists>h. name = generatedConfigMapName (meta_Name (srv_ObjectMeta inst)) h)"

text \<open>A generated ConfigMap of the instance that neither a workload nor the status uses.\<close>

definition unusedConfigMap :: "('w, 'o, 'r, 't) Operator \<Rightarrow> OGXServer \<Rightarrow> 'w \<Rightarrow> ConfigMapObject \<Rightarrow> bool" where
  "unusedConfigMap op inst w cm \<longleftrightarrow>
     (\<exists>items current used.
        ca_List (op_ConfigMaps op) w (meta_Namespace (srv_ObjectMeta inst))
          (mlit [(''ogx.io/generated-config'', ''true''), (''app.kubernetes.io/instance'', meta_Name (srv_ObjectMeta inst))]) = Inr items
        \<and> cm \<in> set (op_ByAge op items)
        \<and> referencedRuntimeConfigMapNames (op_Workload op) w inst current = Inr used \<and> cmName cm \<notin> used)"

definition allowedManifest :: "('w, 'o) Cluster \<Rightarrow> ObjectMeta \<Rightarrow> 'o Rendered list \<Rightarrow> 'w \<Rightarrow> 'o cluster_write \<Rightarrow> bool" where
  "allowedManifest cl owner rs w v \<longleftrightarrow> (\<exists>res \<in> set rs. \<exists>wrs. allowedWrites cl owner res w wrs \<and> v \<in> set wrs)"

text \<open>A write for one of the resources that are rendered for the instance.\<close>

definition renderedManifest :: "('w, 'o, 'r, 't) Controller \<Rightarrow> OGXServer \<Rightarrow> 'w \<Rightarrow> 'o cluster_write \<Rightarrow> bool" where
  "renderedManifest ct inst w v \<longleftrightarrow>
     (\<exists>w0 rcfg pvc rs kinds. manifestResources (ct_Op ct) w0 inst rcfg pvc = Inr (rs, kinds)
        \<and> allowedManifest (op_Cluster (ct_Op ct)) (srv_ObjectMeta inst) (map (op_Rendered (ct_Op ct)) rs) w v)"

definition authorisedFor :: "('w, 'o, 'r, 't) Controller \<Rightarrow> OGXServer \<Rightarrow> 'w \<Rightarrow> 'o pass_write \<Rightarrow> bool" where
  "authorisedFor ct inst w v \<longleftrightarrow>
     (let op = ct_Op ct; m = srv_ObjectMeta inst; ns = meta_Namespace m; cas = op_ConfigMaps op in
      case v of
        WAdopt a \<Rightarrow> allowedAdopt (op_Adopt op) inst w a
      | WIngress i \<Rightarrow> allowedWrite (op_Ingress op) inst w i
          \<and> (IsPraxisModeEnabled (srv_Spec inst) \<longrightarrow> i = NoWrite \<or> (\<exists>j. i = WDelete j))
      | WCreateConfigMap cm \<Rightarrow>
          (\<exists>name extra immutable data. ownConfigMapName inst name
             \<and> ca_SetControllerReference cas m (newConfigMap inst name extra immutable data) = Inr cm
             \<and> (\<exists>t. ca_Get cas w ns name = Inl (NotFound t)))
      | WPatchConfigMap old cm \<Rightarrow>
          ca_Get cas w ns (getManagedCABundleConfigMapName inst) = Inr old
          \<and> (\<exists>labels data. cm = old\<lparr>cmo_Data := data, cmo_ObjectMeta := (cmo_ObjectMeta old)\<lparr>meta_Labels := labels\<rparr>\<rparr>)
      | WDeleteConfigMap cm \<Rightarrow> ca_Get cas w ns (getManagedCABundleConfigMapName inst) = Inr cm \<or> unusedConfigMap op inst w cm
      | WDeleteOwned kind o' \<Rightarrow>
          kind \<in> set optionalKinds \<and> kind \<noteq> ''PersistentVolumeClaim''
          \<and> (\<exists>name. oa_Get (op_Owned op) w kind ns name = Inr o') \<and> oa_IsControlledBy (op_Owned op) o' m
      | WManifest k \<Rightarrow> renderedManifest ct inst w k
      | WDeleteAdoptedService s \<Rightarrow>
          (\<exists>items. ad_AdoptedServices (op_Adopt op) w ns = Inr items \<and> s \<in> set items)
          \<and> shouldDeleteAdoptedResource (op_Adopt op) inst (ao_Meta s)
      | WDeleteAdoptedIngress i \<Rightarrow>
          (\<exists>items. ad_AdoptedIngresses (op_Adopt op) w ns = Inr items \<and> i \<in> set items)
          \<and> shouldDeleteAdoptedResource (op_Adopt op) inst (ao_Meta i)
      | WCreateJob j \<Rightarrow>
          reconciler_isMigrationRequested inst
          \<and> getMigrationJob (op_R op) w (nsOf inst) (migrationJobName (nameOf inst)) = Inr None
          \<and> (\<exists>rcfg key. buildMigrationJob (op_R op) w inst rcfg (migrationJobName (nameOf inst)) key = Inr j)
      | WDeleteJob j \<Rightarrow>
          getMigrationJob (op_R op) w (nsOf inst) (migrationJobName (nameOf inst)) = Inr (Some j)
          \<and> kb_IsControlledBy (rc_Kube (op_R op)) j m
      | WStatus s \<Rightarrow>
          (\<exists>latest st. sa_GetServer (ct_Status ct) w ns (meta_Name m) = Inr latest \<and> s = latest\<lparr>srv_Status := st\<rparr>))"

text \<open>The status of the instance changes during the pass; what is authorised is judged at any status.\<close>

definition authorised :: "('w, 'o, 'r, 't) Controller \<Rightarrow> OGXServer \<Rightarrow> 'w \<Rightarrow> 'o pass_write \<Rightarrow> bool" where
  "authorised ct inst w v \<longleftrightarrow> (\<exists>st. authorisedFor ct (inst\<lparr>srv_Status := st\<rparr>) w v)"

lemma authorisedI: "authorisedFor ct inst w v \<Longrightarrow> authorised ct inst w v"
  unfolding authorised_def by (rule exI [of _ "srv_Status inst"]) simp

lemma authorised_same:
  assumes "sameInstance p p'"
  shows "authorised ct (ps_Instance p') = authorised ct (ps_Instance p)"
proof -
  have "(ps_Instance p')\<lparr>srv_Status := st\<rparr> = (ps_Instance p)\<lparr>srv_Status := st\<rparr>" for st
    using assms by (simp add: sameInstance_def)
  then show ?thesis by (simp add: authorised_def fun_eq_iff)
qed

section \<open>Steps\<close>

definition passStep :: "('w, 'o, 'r, 't) Controller \<Rightarrow> 'w Pass \<Rightarrow> 'w Pass \<Rightarrow> bool" where
  "passStep ct p p' \<longleftrightarrow> sameInstance p p'
     \<and> guarded (authorised ct (ps_Instance p)) (performPass ct) (ps_World p) (ps_World p')"

lemma passStep_trans: "passStep ct p p1 \<Longrightarrow> passStep ct p1 p2 \<Longrightarrow> passStep ct p p2"
  unfolding passStep_def using sameInstance_trans authorised_same guarded_trans by metis

lemma passStep_refl [simp, intro]: "passStep ct p p"
  by (simp add: passStep_def)

lemma passStep_status: "sameInstance p p' \<Longrightarrow> ps_World p' = ps_World p \<Longrightarrow> passStep ct p p'"
  by (simp add: passStep_def)

lemma passStep_one:
  assumes "sameInstance p p'" "authorisedFor ct (ps_Instance p) (ps_World p) v" "ps_World p' = performPass ct v (ps_World p)"
  shows "passStep ct p p'"
  using assms guarded_one [of "authorised ct (ps_Instance p)", OF authorisedI [OF assms(2)], of "performPass ct"]
  by (simp add: passStep_def)

text \<open>A step whose outcome is the given cluster.\<close>

lemma passStep_world:
  "guarded (authorised ct (ps_Instance p)) (performPass ct) (ps_World p) w \<Longrightarrow> passStep ct p (p\<lparr>ps_World := w\<rparr>)"
  by (simp add: passStep_def)

section \<open>Adoption and Ingress\<close>

interpretation adoption_writes: write_embedding "allowedAdopt (op_Adopt (ct_Op ct)) inst" "performAdopt (op_Adopt (ct_Op ct))"
    "authorised ct inst" "performPass ct" WAdopt for ct :: "('w, 'o, 'r, 't) Controller" and inst
  by unfold_locales (auto intro: authorisedI simp: authorisedFor_def)

lemma runsAdopt_guarded: "runsAdopt api inst w w' \<Longrightarrow> guarded (allowedAdopt api inst) (performAdopt api) w w'"
  by (induction rule: runsAdopt.induct) (auto intro: guarded.writes)

lemma adopt_pass: "passStep ct p (snd (adoptLegacyResources (op_Adopt (ct_Op ct)) now p))"
  using adoption_step [of "op_Adopt (ct_Op ct)" p now] adopt_same [of p "op_Adopt (ct_Op ct)" now]
  by (auto simp: passStep_def adoptStep_def intro: adoption_writes.lifts runsAdopt_guarded)

lemma unsafe_pass: "passStep ct p (snd (cleanupUnsafeOwnedIngress (op_Ingress (ct_Op ct)) p))"
proof -
  let ?api = "op_Ingress (ct_Op ct)" and ?p' = "snd (cleanupUnsafeOwnedIngress (op_Ingress (ct_Op ct)) p)"
  let ?q = "warnInsecureExternalAccess ?api p"
  show ?thesis
  proof (cases "IsPraxisModeEnabled (srv_Spec (ps_Instance p)) \<or> \<not> externalAccessRequested (ps_Instance p)
      \<or> externalAccessIsSafeToExpose (ps_Instance p)")
    case True
    then show ?thesis by (auto simp: cleanupUnsafeOwnedIngress_def Let_def)
  next
    case False
    have "ps_World ?p' = ps_World p \<or> (\<exists>ex. ?p' = snd (handleDisabledIngress ?api ex ?q)
        \<and> (\<forall>i. ex = Some i \<longrightarrow> getIngress ?api (ps_World p) (ps_Instance p) = Inr i))"
      using False by (auto simp: cleanupUnsafeOwnedIngress_def Let_def split: sum.split api_error.split)
    then show ?thesis
    proof
      assume "ps_World ?p' = ps_World p"
      then show ?thesis using unsafe_same by (rule passStep_status [rotated])
    next
      assume "\<exists>ex. ?p' = snd (handleDisabledIngress ?api ex ?q) \<and> (\<forall>i. ex = Some i \<longrightarrow> getIngress ?api (ps_World p) (ps_Instance p) = Inr i)"
      then obtain ex where "?p' = snd (handleDisabledIngress ?api ex ?q)" "\<forall>i. ex = Some i \<longrightarrow> getIngress ?api (ps_World p) (ps_Instance p) = Inr i"
        by blast
      then obtain wr where "ps_World ?p' = performWrite ?api wr (ps_World p)" "allowedWrite ?api (ps_Instance p) (ps_World p) wr"
        using handleDisabled_write [of ex ?api ?q] False by auto
      then show ?thesis
        using False by (intro passStep_one [OF unsafe_same, of _ _ "WIngress wr"]) (auto simp: authorisedFor_def)
    qed
  qed
qed

lemma ingress_same: "sameInstance p (snd (reconcileIngress api p))"
  by (auto simp: reconcileIngress_def reconcileLegacyIngress_def enforceInternalOnlyIngress_def handleDisabledIngress_def handleEnabledIngress_def
      deleteIngressObject_def Let_def sameInstance_def split: prod.split sum.split api_error.split option.split)

lemma ingress_pass:
  assumes "setsOwnerOnly (op_Ingress (ct_Op ct))"
  shows "passStep ct p (snd (reconcileIngress (op_Ingress (ct_Op ct)) p))"
proof -
  obtain eo p' where r: "reconcileIngress (op_Ingress (ct_Op ct)) p = (eo, p')" by force
  from ingress_write [OF assms r] obtain wr where "ps_World p' = performWrite (op_Ingress (ct_Op ct)) wr (ps_World p)"
    "allowedWrite (op_Ingress (ct_Op ct)) (ps_Instance p) (ps_World p) wr"
    "IsPraxisModeEnabled (srv_Spec (ps_Instance p)) \<longrightarrow> wr = NoWrite \<or> (\<exists>i. wr = WDelete i)" by blast
  then show ?thesis using r ingress_same [of p "op_Ingress (ct_Op ct)"]
    by (intro passStep_one [of _ _ _ "WIngress wr"]) (auto simp: authorisedFor_def)
qed

section \<open>ConfigMaps\<close>

lemma generated_pass:
  assumes "reconcileGeneratedConfig codec fetcher r (op_ConfigMaps (ct_Op ct)) c p = Some (c', res, p')"
  shows "passStep ct p p'"
proof -
  let ?api = "op_ConfigMaps (ct_Op ct)" and ?inst = "ps_Instance p"
  note same = generated_same [OF assms]
  have "ps_World p' = ps_World p \<or> (\<exists>h data cm.
      ca_SetControllerReference ?api (srv_ObjectMeta ?inst) (buildGeneratedConfigMap ?inst (generatedConfigMapName (meta_Name (srv_ObjectMeta ?inst)) h) data) = Inr cm
      \<and> (\<exists>t. ca_Get ?api (ps_World p) (meta_Namespace (srv_ObjectMeta ?inst)) (generatedConfigMapName (meta_Name (srv_ObjectMeta ?inst)) h) = Inl (NotFound t))
      \<and> ps_World p' = snd (ca_Create ?api (ps_World p) cm))"
    using assms by (auto simp: reconcileGeneratedConfig_def ensureGeneratedConfigMap_def Let_def
        split: if_splits prod.splits sum.splits api_error.splits option.splits; metis sndI)
  then show ?thesis
  proof (elim disjE exE conjE)
    assume "ps_World p' = ps_World p"
    with same show ?thesis by (rule passStep_status)
  next
    fix h data cm t
    let ?n = "generatedConfigMapName (meta_Name (srv_ObjectMeta ?inst)) h"
    assume "ca_SetControllerReference ?api (srv_ObjectMeta ?inst) (buildGeneratedConfigMap ?inst ?n data) = Inr cm"
      "ps_World p' = snd (ca_Create ?api (ps_World p) cm)" "ca_Get ?api (ps_World p) (meta_Namespace (srv_ObjectMeta ?inst)) ?n = Inl (NotFound t)"
    then show ?thesis
      by (intro passStep_one [OF same, of _ "WCreateConfigMap cm"])
        (auto simp: authorisedFor_def ownConfigMapName_def buildGeneratedConfigMap_def Let_def)
  qed
qed

text \<open>The cluster after one request, whatever its outcome.\<close>

lemma written:
  "ps_World (snd (case x of (None, w) \<Rightarrow> (a, p\<lparr>ps_World := w\<rparr>) | (Some e, w) \<Rightarrow> (f e, p\<lparr>ps_World := w\<rparr>))) = snd x"
  by (simp split: prod.split option.split)

lemma managed_write:
  fixes p :: "'w Pass" and api :: "'w ConfigMapAPI" and pl order r
  defines "inst \<equiv> ps_Instance p" and "w' \<equiv> ps_World (snd (reconcileManagedCABundle pl order r api p))"
  defines "ns \<equiv> meta_Namespace (srv_ObjectMeta inst)" and "n \<equiv> getManagedCABundleConfigMapName inst"
  shows "w' = ps_World p
    \<or> (\<exists>cm. ca_Get api (ps_World p) ns n = Inr cm \<and> w' = snd (ca_Delete api (ps_World p) cm))
    \<or> (\<exists>old labels data. ca_Get api (ps_World p) ns n = Inr old
         \<and> w' = snd (ca_Patch api (ps_World p) old (old\<lparr>cmo_Data := data, cmo_ObjectMeta := (cmo_ObjectMeta old)\<lparr>meta_Labels := labels\<rparr>\<rparr>)))
    \<or> (\<exists>extra data cm t. ca_Get api (ps_World p) ns n = Inl (NotFound t)
         \<and> ca_SetControllerReference api (srv_ObjectMeta inst) (newConfigMap inst n extra False data) = Inr cm
         \<and> w' = snd (ca_Create api (ps_World p) cm))"
proof (cases "\<not> hasCACertificates inst \<and> \<not> hasODHTrustedCABundle r (ps_World p) inst")
  case True
  then show ?thesis
    by (auto simp: reconcileManagedCABundle_def w'_def inst_def ns_def n_def Let_def split: prod.split sum.split api_error.split option.split; metis sndI)
next
  case False
  then have eq: "w' = ps_World (snd (reconcileManagedCABundleConfigMap pl order r api p))"
    by (auto simp: w'_def reconcileManagedCABundle_def inst_def Let_def split: prod.split option.split ca_error.split)
  note def' = reconcileManagedCABundleConfigMap_def [of pl order r api p, unfolded Let_def, folded inst_def, folded n_def ns_def]
  show ?thesis
  proof (cases "gatherCABundleData pl order r (ps_World p) inst")
    case (Inl e)
    then show ?thesis by (cases e) (simp_all add: eq def')
  next
    case gathered: (Inr data)
    define new where "new = newConfigMap inst n [(''app.kubernetes.io/component'', ''ca-bundle'')] False (mlit [(ManagedCABundleKey, data)])"
    note def'' = eq [unfolded def' gathered sum.case, folded new_def]
    show ?thesis
    proof (cases "ca_SetControllerReference api (srv_ObjectMeta inst) new")
      case (Inl e)
      then have "w' = ps_World p" unfolding def'' by (auto split: sum.split api_error.split)
      then show ?thesis ..
    next
      case set: (Inr desired)
      show ?thesis
      proof (cases "ca_Get api (ps_World p) ns n")
        case (Inl e)
        then have "w' = ps_World p \<or> w' = snd (ca_Create api (ps_World p) desired) \<and> (\<exists>t. e = NotFound t)"
          unfolding def'' set by (cases e) (auto simp: written)
        then show ?thesis using Inl set unfolding new_def by blast
      next
        case (Inr old)
        then have "w' = ps_World p \<or> w' = snd (ca_Patch api (ps_World p) old (old\<lparr>cmo_Data := cmo_Data desired,
            cmo_ObjectMeta := (cmo_ObjectMeta old)\<lparr>meta_Labels := meta_Labels (cmo_ObjectMeta desired)\<rparr>\<rparr>))"
          unfolding def'' set by (auto simp: written)
        then show ?thesis using Inr by blast
      qed
    qed
  qed
qed

lemma managed_pass: "passStep ct p (snd (reconcileManagedCABundle pl order r (op_ConfigMaps (ct_Op ct)) p))"
proof -
  let ?api = "op_ConfigMaps (ct_Op ct)"
  note same = managed_same [of p pl order r ?api]
  note wr = managed_write [of pl order r ?api p]
  then show ?thesis
  proof (elim disjE exE conjE)
    assume "ps_World (snd (reconcileManagedCABundle pl order r ?api p)) = ps_World p"
    with same show ?thesis by (rule passStep_status)
  next
    fix cm assume "ca_Get ?api (ps_World p) (meta_Namespace (srv_ObjectMeta (ps_Instance p))) (getManagedCABundleConfigMapName (ps_Instance p)) = Inr cm"
      "ps_World (snd (reconcileManagedCABundle pl order r ?api p)) = snd (ca_Delete ?api (ps_World p) cm)"
    then show ?thesis by (intro passStep_one [OF same, of _ "WDeleteConfigMap cm"]) (auto simp: authorisedFor_def Let_def)
  next
    fix old labels data assume "ca_Get ?api (ps_World p) (meta_Namespace (srv_ObjectMeta (ps_Instance p))) (getManagedCABundleConfigMapName (ps_Instance p)) = Inr old"
      "ps_World (snd (reconcileManagedCABundle pl order r ?api p)) = snd (ca_Patch ?api (ps_World p) old
         (old\<lparr>cmo_Data := data, cmo_ObjectMeta := (cmo_ObjectMeta old)\<lparr>meta_Labels := labels\<rparr>\<rparr>))"
    then show ?thesis
      by (intro passStep_one [OF same, of _ "WPatchConfigMap old (old\<lparr>cmo_Data := data, cmo_ObjectMeta := (cmo_ObjectMeta old)\<lparr>meta_Labels := labels\<rparr>\<rparr>)"])
        (auto simp: authorisedFor_def Let_def)
  next
    fix extra data cm t assume "ca_Get ?api (ps_World p) (meta_Namespace (srv_ObjectMeta (ps_Instance p))) (getManagedCABundleConfigMapName (ps_Instance p)) = Inl (NotFound t)"
      "ca_SetControllerReference ?api (srv_ObjectMeta (ps_Instance p)) (newConfigMap (ps_Instance p) (getManagedCABundleConfigMapName (ps_Instance p)) extra False data) = Inr cm"
      "ps_World (snd (reconcileManagedCABundle pl order r ?api p)) = snd (ca_Create ?api (ps_World p) cm)"
    then show ?thesis by (intro passStep_one [OF same, of _ "WCreateConfigMap cm"]) (auto simp: authorisedFor_def ownConfigMapName_def Let_def)
  qed
qed

lemma configMaps_pass: "passStep ct p (snd (snd (reconcileConfigMaps (ct_Op ct) c p)))"
proof (cases "reconcileOverrideAndCABundleConfigMaps (op_R (ct_Op ct)) (ps_World p) (ps_Instance p)")
  case None
  let ?op = "ct_Op ct"
  show ?thesis
  proof (cases "reconcileGeneratedConfig (op_Codec ?op) (op_Fetcher ?op) (op_R ?op) (op_ConfigMaps ?op) c p")
    case (Some x)
    obtain c1 res p1 where x: "x = (c1, res, p1)" by (rule prod_cases3)
    obtain e p2 where m: "reconcileManagedCABundle (op_Pem ?op) (op_KeyOrder ?op) (op_R ?op) (op_ConfigMaps ?op) p1 = (e, p2)" by force
    have 1: "passStep ct p p1" using generated_pass Some x by blast
    have "passStep ct p1 p2" using managed_pass [of ct p1 "op_Pem ?op" "op_KeyOrder ?op" "op_R ?op"] m by simp
    note 2 = passStep_trans [OF 1 this]
    show ?thesis using None Some x m 1 2
      by (cases res) (auto simp: reconcileConfigMaps_def split: option.split ca_error.split)
  qed (use None in \<open>simp add: reconcileConfigMaps_def\<close>)
qed (simp add: reconcileConfigMaps_def)

section \<open>Manifests\<close>

lemma runSteps_guarded:
  "(\<And>f w. f \<in> set fs \<Longrightarrow> guarded allowed perf w (snd (f w))) \<Longrightarrow> guarded allowed perf w (snd (runSteps fs w))"
proof (induction fs arbitrary: w)
  case (Cons f fs)
  obtain e w1 where f: "f w = (e, w1)" by force
  then have "guarded allowed perf w w1" using Cons.prems [of f w] by simp
  moreover have "guarded allowed perf w1 (snd (runSteps fs w1))" using Cons by simp
  ultimately show ?case using f by (auto split: option.split intro: guarded_trans)
qed simp

lemma deleteIfExists_guarded:
  assumes "kind \<in> set optionalKinds" "kind \<noteq> ''PersistentVolumeClaim''"
  shows "guarded (authorised ct inst) (performPass ct) w (snd (deleteIfExists (op_Owned (ct_Op ct)) ignore kind ending inst w))"
proof -
  let ?api = "op_Owned (ct_Op ct)" and ?n = "meta_Name (srv_ObjectMeta inst) @ ending" and ?ns = "meta_Namespace (srv_ObjectMeta inst)"
  let ?w = "snd (deleteIfExists ?api ignore kind ending inst w)"
  have "?w = w \<or> (\<exists>m. oa_Get ?api w kind ?ns ?n = Inr m \<and> oa_IsControlledBy ?api m (srv_ObjectMeta inst) \<and> ?w = snd (oa_Delete ?api w kind m))"
    by (auto simp: deleteIfExists_def split: sum.split prod.split option.split)
  then show ?thesis
  proof (elim disjE exE conjE)
    fix m assume m: "oa_Get ?api w kind ?ns ?n = Inr m" "oa_IsControlledBy ?api m (srv_ObjectMeta inst)" "?w = snd (oa_Delete ?api w kind m)"
    then have "authorised ct inst w (WDeleteOwned kind m)" using assms by (intro authorisedI) (auto simp: authorisedFor_def Let_def)
    from guarded_one [of "authorised ct inst", OF this, of "performPass ct"] m(3) show ?thesis by simp
  qed simp
qed

lemmas owned_deletions =
  deleteNetworkPolicyIfExists_def deletePodDisruptionBudgetIfExists_def deleteHorizontalPodAutoscalerIfExists_def
  deletePrometheusRuleIfExists_def deleteServiceMonitorIfExists_def

lemma excluded_guarded:
  "guarded (authorised ct inst) (performPass ct) w (snd (deleteExcludedResources cl (op_Owned (ct_Op ct)) inst kinds w))"
proof -
  have mon: "guarded (authorised ct inst) (performPass ct) w (snd (deleteMonitoringResourcesIfExcluded cl (op_Owned (ct_Op ct)) inst kinds w))" for w
    by (auto simp: deleteMonitoringResourcesIfExcluded_def onlyIf_def owned_deletions optionalKinds_def
        simp del: runSteps.simps split: sum.split bool.split intro!: runSteps_guarded deleteIfExists_guarded)
  show ?thesis
    unfolding deleteExcludedResources_def
    by (rule runSteps_guarded)
      (auto simp: onlyIf_def owned_deletions mon intro!: deleteIfExists_guarded simp: optionalKinds_def)
qed

lemma safeRun_guarded: "safeRun cl owner rs w w' \<Longrightarrow> guarded (allowedManifest cl owner rs) (perform cl) w w'"
proof (induction rs arbitrary: w)
  case (Cons res rs)
  then obtain wrs where wrs: "allowedWrites cl owner res w wrs"
    "w' = fold (perform cl) wrs w \<or> safeRun cl owner rs (fold (perform cl) wrs w) w'" by auto
  have first: "guarded (allowedManifest cl owner (res # rs)) (perform cl) w (fold (perform cl) wrs w)"
    by (rule guarded_all) (use wrs(1) in \<open>auto simp: list_all_iff allowedManifest_def\<close>)
  have mono: "guarded (allowedManifest cl owner (res # rs)) (perform cl) v v'" if "guarded (allowedManifest cl owner rs) (perform cl) v v'" for v v'
    using that by (induction rule: guarded.induct) (auto simp: allowedManifest_def intro: guarded.writes)
  from wrs(2) first mono [OF Cons.IH] show ?case by (auto intro: guarded_trans)
qed simp

interpretation manifest_writes: write_embedding "renderedManifest ct inst" "perform (op_Cluster (ct_Op ct))"
    "authorised ct inst" "performPass ct" WManifest for ct :: "('w, 'o, 'r, 't) Controller" and inst
  by unfold_locales (auto intro!: authorisedI simp: authorisedFor_def)

lemma apply_guarded:
  assumes "manifestResources (ct_Op ct) w0 inst rcfg pvc = Inr (rs, kinds)"
  shows "guarded (authorised ct inst) (performPass ct) w
    (snd (ApplyResources (op_Cluster (ct_Op ct)) inst (map (op_Rendered (ct_Op ct)) rs) w))"
proof (rule manifest_writes.lifts)
  let ?cl = "op_Cluster (ct_Op ct)" and ?rs = "map (op_Rendered (ct_Op ct)) rs"
  have "guarded (allowedManifest ?cl (srv_ObjectMeta inst) ?rs) (perform ?cl) w (snd (ApplyResources ?cl inst ?rs w))"
    by (rule safeRun_guarded [OF apply_safeRun])
  then show "guarded (renderedManifest ct inst) (perform ?cl) w (snd (ApplyResources ?cl inst ?rs w))"
  proof (induction rule: guarded.induct)
    case (writes w1 seen v)
    have "renderedManifest ct inst seen v" using assms writes.hyps(3) unfolding renderedManifest_def by blast
    then show ?case by (rule guarded.writes [OF writes.IH])
  qed simp
qed

lemma manifests_pass: "passStep ct p (snd (reconcileAllManifestResources (ct_Op ct) now rcfg p))"
proof -
  let ?op = "ct_Op ct"
  obtain e p1 where e: "resolveEffectivePVCName (op_Adopt ?op) now p = (e, p1)" by force
  then have 1: "passStep ct p p1"
    using resolvePVC_reports [of p "op_Adopt ?op" now] by (intro passStep_status) (simp_all add: reportsOnly_def sameInstance_def)
  show ?thesis
  proof (cases e)
    case (Inl err)
    then show ?thesis using e 1 by (cases err) (simp_all add: reconcileAllManifestResources_def)
  next
    case (Inr pvc)
    show ?thesis
    proof (cases "manifestResources ?op (ps_World p1) (ps_Instance p1) rcfg pvc")
      case (Inl err)
      then show ?thesis using e Inr 1 by (simp add: reconcileAllManifestResources_def Let_def)
    next
      case m: (Inr x)
      obtain rs kinds where x: "x = (rs, kinds)" by force
      obtain de w1 where d: "deleteExcludedResources (op_Cluster ?op) (op_Owned ?op) (ps_Instance p1) kinds (ps_World p1) = (de, w1)" by force
      obtain ae w2 where a: "ApplyResources (op_Cluster ?op) (ps_Instance p1) (map (op_Rendered ?op) rs) w1 = (ae, w2)" by force
      let ?g = "guarded (authorised ct (ps_Instance p1)) (performPass ct)"
      have g1: "?g (ps_World p1) w1"
        using excluded_guarded [of ct "ps_Instance p1" "ps_World p1" "op_Cluster ?op" kinds] d by simp
      have g2: "?g (ps_World p1) w2"
        using guarded_trans [OF apply_guarded [OF m [unfolded x], of w1] g1] a by simp
      have "passStep ct p (p1\<lparr>ps_World := w1\<rparr>)" "passStep ct p (p1\<lparr>ps_World := w2\<rparr>)"
        using passStep_trans [OF 1 passStep_world] g1 g2 by blast+
      then show ?thesis using e Inr m x d a by (auto simp: reconcileAllManifestResources_def Let_def split: option.split)
    qed
  qed
qed

section \<open>Cleaning up\<close>

lemma cleanupLoop_guarded:
  assumes "\<And>cm. cm \<in> set cms \<Longrightarrow> cmName cm \<notin> used \<Longrightarrow> authorised ct inst seen (WDeleteConfigMap cm)"
    and "guarded (authorised ct inst) (performPass ct) w0 seen"
  shows "guarded (authorised ct inst) (performPass ct) w0 w
    \<Longrightarrow> guarded (authorised ct inst) (performPass ct) w0 (cleanupLoop (op_ConfigMaps (ct_Op ct)) used cms n w)"
  using assms(1)
proof (induction cms arbitrary: n w)
  case (Cons cm cms)
  obtain e w1 where d: "ca_Delete (op_ConfigMaps (ct_Op ct)) w cm = (e, w1)" by force
  have "guarded (authorised ct inst) (performPass ct) w0 w1" if "cmName cm \<notin> used"
    using guarded.writes [OF Cons.prems(1) assms(2) Cons.prems(2) [OF _ that]] d by simp
  then show ?case using Cons d by simp
qed simp

lemma cleanup_pass:
  "passStep ct p (snd (cleanupOldGeneratedConfigMaps (op_ConfigMaps (ct_Op ct)) (op_Workload (ct_Op ct)) (op_ByAge (ct_Op ct)) current p))"
proof -
  let ?op = "ct_Op ct" and ?inst = "ps_Instance p"
  have "guarded (authorised ct ?inst) (performPass ct) (ps_World p)
      (cleanupLoop (op_ConfigMaps ?op) used (op_ByAge ?op items) n (ps_World p))"
    if "ca_List (op_ConfigMaps ?op) (ps_World p) (meta_Namespace (srv_ObjectMeta ?inst))
          (mlit [(''ogx.io/generated-config'', ''true''), (''app.kubernetes.io/instance'', meta_Name (srv_ObjectMeta ?inst))]) = Inr items"
      "referencedRuntimeConfigMapNames (op_Workload ?op) (ps_World p) ?inst current = Inr used" for items used n
  proof (rule cleanupLoop_guarded [OF _ guarded.begins guarded.begins])
    fix cm assume "cm \<in> set (op_ByAge ?op items)" "cmName cm \<notin> used"
    then have "unusedConfigMap ?op ?inst (ps_World p) cm" unfolding unusedConfigMap_def using that by blast
    then show "authorised ct ?inst (ps_World p) (WDeleteConfigMap cm)"
      by (intro authorisedI) (simp add: authorisedFor_def Let_def)
  qed
  then show ?thesis
    by (auto simp: cleanupOldGeneratedConfigMaps_def Let_def intro!: passStep_world split: sum.split)
qed

lemma deleteAdopted_guarded:
  assumes "\<And>obj. obj \<in> set objs \<Longrightarrow> shouldDeleteAdoptedResource api inst (ao_Meta obj) \<Longrightarrow> authorised ct inst' seen (wr obj)"
    and "\<And>obj w. snd (del w obj) = performPass ct (wr obj) w"
    and "guarded (authorised ct inst') (performPass ct) w0 seen"
  shows "guarded (authorised ct inst') (performPass ct) w0 w
    \<Longrightarrow> guarded (authorised ct inst') (performPass ct) w0 (snd (deleteAdopted api del what inst objs w))"
  using assms(1)
proof (induction objs arbitrary: w)
  case (Cons obj objs)
  obtain e w1 where d: "del w obj = (e, w1)" by force
  have "guarded (authorised ct inst') (performPass ct) w0 w1" if "shouldDeleteAdoptedResource api inst (ao_Meta obj)"
    using guarded.writes [OF Cons.prems(1) assms(3) Cons.prems(2) [OF _ that]] d assms(2) [of w obj] by simp
  then show ?case using Cons d by (auto split: option.split api_error.split)
qed simp

lemma adopted_services_guarded:
  "guarded (authorised ct inst) (performPass ct) w (snd (cleanupAdoptedServices (op_Adopt (ct_Op ct)) inst w))"
  unfolding cleanupAdoptedServices_def
  by (auto split: sum.split intro!: authorisedI deleteAdopted_guarded [where seen = w and wr = WDeleteAdoptedService]
      simp: authorisedFor_def Let_def)

lemma adopted_ingresses_guarded:
  "guarded (authorised ct inst) (performPass ct) w (snd (cleanupAdoptedIngresses (op_Adopt (ct_Op ct)) inst w))"
  unfolding cleanupAdoptedIngresses_def
  by (auto split: sum.split intro!: authorisedI deleteAdopted_guarded [where seen = w and wr = WDeleteAdoptedIngress]
      simp: authorisedFor_def Let_def)

lemma adopted_pass: "passStep ct p (snd (cleanupAdoptedNetworking (op_Adopt (ct_Op ct)) now p))"
proof -
  let ?api = "op_Adopt (ct_Op ct)" and ?inst = "ps_Instance p"
  obtain e1 w1 where s: "cleanupAdoptedServices ?api ?inst (ps_World p) = (e1, w1)" by force
  obtain e2 w2 where i: "cleanupAdoptedIngresses ?api ?inst w1 = (e2, w2)" by force
  have g1: "guarded (authorised ct ?inst) (performPass ct) (ps_World p) w1" using adopted_services_guarded [of ct ?inst "ps_World p"] s by simp
  have g2: "guarded (authorised ct ?inst) (performPass ct) (ps_World p) w2" using guarded_trans [OF _ g1] adopted_ingresses_guarded [of ct ?inst w1] i by simp
  show ?thesis using s i g1 g2
    by (auto simp: cleanupAdoptedNetworking_def Let_def passStep_def split: option.split)
qed

section \<open>Migration\<close>

lemma sameInstance_emit [simp]: "sameInstance p (emitMigrationEvent r ty reason msg q) = sameInstance p q"
  by (simp add: sameInstance_def)

lemma deleteJob_pass:
  assumes "getMigrationJob (op_R (ct_Op ct)) (ps_World p) (nsOf (ps_Instance p)) (migrationJobName (nameOf (ps_Instance p))) = Inr (Some job)"
    and "assertOwnedMigrationJob (op_R (ct_Op ct)) (ps_Instance p) job = None"
  shows "passStep ct p (snd (deleteMigrationJobObject (op_R (ct_Op ct)) job p))"
proof (rule passStep_one [of _ _ _ "WDeleteJob job"])
  show "sameInstance p (snd (deleteMigrationJobObject (op_R (ct_Op ct)) job p))"
    by (simp add: deleteMigrationJobObject_def split: prod.split option.split api_error.split)
  show "authorisedFor ct (ps_Instance p) (ps_World p) (WDeleteJob job)"
    using assms by (simp add: authorisedFor_def assertOwnedMigrationJob_def Let_def split: if_splits)
  show "ps_World (snd (deleteMigrationJobObject (op_R (ct_Op ct)) job p)) = performPass ct (WDeleteJob job) (ps_World p)"
    by (simp add: deleteMigrationJobObject_def split: prod.split option.split api_error.split)
qed

lemma notRequested_pass: "passStep ct p (snd (handleMigrationNotRequested (op_R (ct_Op ct)) now p))"
proof -
  have "passStep ct p (snd (deleteMigrationJob (op_R (ct_Op ct)) p))"
    using deleteJob_pass [of ct p] by (auto simp: deleteMigrationJob_def Let_def split: sum.split option.split)
  then obtain e p1 where d: "deleteMigrationJob (op_R (ct_Op ct)) p = (e, p1)" "passStep ct p p1" by (metis snd_conv surj_pair)
  have "passStep ct p (withStatus f p1)" for f
    using passStep_trans [OF d(2) passStep_status] by simp
  then show ?thesis using d by (auto simp: handleMigrationNotRequested_def split: option.split)
qed

lemma createJob_pass:
  assumes "reconciler_isMigrationRequested (ps_Instance p)"
    and "getMigrationJob (op_R (ct_Op ct)) (ps_World p) (nsOf (ps_Instance p)) (migrationJobName (nameOf (ps_Instance p))) = Inr None"
  shows "passStep ct p (snd (createMigrationJob (op_R (ct_Op ct)) rcfg (migrationJobName (nameOf (ps_Instance p))) key p))"
proof (cases "buildMigrationJob (op_R (ct_Op ct)) (ps_World p) (ps_Instance p) rcfg (migrationJobName (nameOf (ps_Instance p))) key")
  case (Inr job)
  let ?r = "op_R (ct_Op ct)" and ?n = "migrationJobName (nameOf (ps_Instance p))"
  show ?thesis
  proof (rule passStep_one [of _ _ _ "WCreateJob job"])
    show "sameInstance p (snd (createMigrationJob ?r rcfg ?n key p))"
      by (auto simp: createMigrationJob_def Let_def Inr split: prod.split sum.split option.split api_error.split)
    show "authorisedFor ct (ps_Instance p) (ps_World p) (WCreateJob job)"
      using assms Inr by (auto simp: authorisedFor_def Let_def)
    show "ps_World (snd (createMigrationJob ?r rcfg ?n key p)) = performPass ct (WCreateJob job) (ps_World p)"
      by (auto simp: createMigrationJob_def Let_def Inr split: prod.split sum.split option.split api_error.split)
  qed
qed (simp add: createMigrationJob_def)

lemma ensureJob_pass:
  assumes "reconciler_isMigrationRequested (ps_Instance p)"
  shows "passStep ct p (snd (ensureMigrationJob (op_R (ct_Op ct)) rcfg key p))"
proof (cases "getMigrationJob (op_R (ct_Op ct)) (ps_World p) (nsOf (ps_Instance p)) (migrationJobName (nameOf (ps_Instance p)))")
  case (Inr x)
  show ?thesis
  proof (cases x)
    case None
    then show ?thesis using Inr createJob_pass [OF assms Inr [unfolded None]] by (simp add: ensureMigrationJob_def Let_def)
  next
    case (Some job)
    note del = deleteJob_pass [OF Inr [unfolded Some]]
    have "passStep ct p (snd (reconcileExistingMigrationJob (op_R (ct_Op ct)) job key p))"
      using del by (auto simp: reconcileExistingMigrationJob_def replaceStaleMigrationJob_def split: option.split prod.split)
    then show ?thesis using Inr Some by (simp add: ensureMigrationJob_def Let_def)
  qed
qed (simp add: ensureMigrationJob_def Let_def)

lemma observe_same: "sameInstance p (observeMigrationJob r now job key p)"
  by (auto simp: observeMigrationJob_def applyMigrationJobComplete_def applyMigrationJobFailed_def applyMigrationJobRunning_def Let_def)

lemma migration_pass: "passStep ct p (snd (reconcileMigration (op_R (ct_Op ct)) now rcfg p))"
proof (cases "reconciler_isMigrationRequested (ps_Instance p)")
  case False
  then show ?thesis using notRequested_pass by (simp add: reconcileMigration_def)
next
  case True
  let ?r = "op_R (ct_Op ct)"
  define p1 where "p1 = withStatus (ensureSoftRollbackWarning now) p"
  define p2 where "p2 = withStatus (SetMigrationPreflightReadyCondition now True ReasonMigrationPreflightPassed ''Migration preflight checks passed'') p1"
  have st: "passStep ct p p1" "passStep ct p p2" "passStep ct p (emitMigrationEvent ?r ty reason e (withStatus f p1))" for ty reason e f
    by (rule passStep_status; simp add: p1_def p2_def)+
  have "reconciler_isMigrationRequested (ps_Instance p2) = reconciler_isMigrationRequested (ps_Instance p)"
    by (simp add: reconciler_isMigrationRequested_def p1_def p2_def)
  with True have req: "reconciler_isMigrationRequested (ps_Instance p2)" by simp
  have job: "passStep ct p (snd (case ensureMigrationJob ?r rcfg key p2 of
      (Inl e, p3) \<Rightarrow> (Some e, p3) | (Inr None, p3) \<Rightarrow> (None, p3)
    | (Inr (Some job), p3) \<Rightarrow>
        if \<not> migrationJobIsCurrent (Some job) key then
          (if \<not> jobDeleting job \<and> jobHasCondition job JobComplete then (None, observeMigrationJob ?r now job (attemptOf job) p3)
           else (None, withStatus (markMigrationWaiting now (ps_Instance p3) (Some job) key waitingMessage) p3))
        else (None, observeMigrationJob ?r now job key p3)))" for key
  proof -
    obtain res p3 where e: "ensureMigrationJob ?r rcfg key p2 = (res, p3)" by force
    have 3: "passStep ct p p3" using passStep_trans [OF st(2) ensureJob_pass [OF req, of ct rcfg key]] e by simp
    have "passStep ct p (observeMigrationJob ?r now job k p3)" "passStep ct p (withStatus f p3)" for job k f
      by (rule passStep_trans [OF 3 passStep_status]; simp add: observe_same)+
    then show ?thesis using e 3 by (auto split: sum.split option.split)
  qed
  show ?thesis
    using True st job
    by (auto simp: reconcileMigration_def Let_def p1_def [symmetric] p2_def [symmetric] split: option.split sum.split)
qed

section \<open>Status\<close>

lemma prepare_same:
  assumes "prepareStatus api ig ad r now err p = (e, p1)"
  shows "sameInstance p p1 \<and> ps_World p1 = ps_World p"
proof -
  have d: "sameInstance q (snd (updateDeploymentStatus api now q)) \<and> ps_World (snd (updateDeploymentStatus api now q)) = ps_World q" for q
    by (simp add: updateDeploymentStatus_def Let_def split: sum.split api_error.split)
  have "sameInstance q (reportHealth api now b (reportParts api ig ad r now q)) \<and> ps_World (reportHealth api now b (reportParts api ig ad r now q)) = ps_World q" for q b
    using parts_report [of q api ig ad r now] by (simp add: reportHealth_def reportsOnly_def sameInstance_def)
  note h = this
  have "sameInstance q (snd (refreshStatus api ig ad r now q)) \<and> ps_World (snd (refreshStatus api ig ad r now q)) = ps_World q" for q
  proof -
    obtain b q1 where u: "updateDeploymentStatus api now q = (b, q1)" by force
    have "sameInstance q q1" "ps_World q1 = ps_World q" using d [of q] u by simp_all
    then have "sameInstance q (reportHealth api now b1 (reportParts api ig ad r now q1)) \<and>
        ps_World (reportHealth api now b1 (reportParts api ig ad r now q1)) = ps_World q" for b1
      using h [of q1 b1] sameInstance_trans [of q q1] by simp
    then show ?thesis using u \<open>sameInstance q q1\<close> \<open>ps_World q1 = ps_World q\<close>
      by (cases b) (simp_all add: refreshStatus_def)
  qed
  from this [of "withStatus (\<lambda>st. st\<lparr>status_Version := (status_Version st)\<lparr>ver_OperatorVersion := sa_OperatorVersion api\<rparr>\<rparr>) p"]
  show ?thesis
    using assms by (auto simp: prepareStatus_def Let_def split: option.splits) (auto simp: sameInstance_def)
qed

lemma retry_guarded:
  "(\<And>w. guarded allowed perf w (snd (f w))) \<Longrightarrow> guarded allowed perf w (snd (retryOnConflict isConflict n f w))"
proof (induction n arbitrary: w)
  case (Suc n)
  obtain e w1 where "f w = (e, w1)" by force
  moreover have "guarded allowed perf w w1" using Suc.prems [of w] calculation by simp
  moreover have "guarded allowed perf w (snd (retryOnConflict isConflict n f w1))"
    using guarded_trans [OF Suc.IH [OF Suc.prems] calculation(2)] .
  ultimately show ?case by (auto split: option.split)
qed simp

lemma status_pass: "passStep ct p (snd (updateStatus (ct_Status ct) ig ad r now err p))"
proof -
  let ?api = "ct_Status ct"
  obtain e p1 where pr: "prepareStatus ?api ig ad r now err p = (e, p1)" by force
  have 1: "passStep ct p p1" using prepare_same [OF pr] by (auto intro: passStep_status)
  define p2 where "p2 = withStatus (\<lambda>st. st\<lparr>status_Version := (status_Version st)\<lparr>ver_LastUpdated := now\<rparr>\<rparr>) p1"
  have 2: "passStep ct p p2" using passStep_trans [OF 1 passStep_status] by (simp add: p2_def)
  let ?m = "srv_ObjectMeta (ps_Instance p2)"
  have "guarded (authorised ct (ps_Instance p2)) (performPass ct) w (snd (case sa_GetServer ?api w (meta_Namespace ?m) (meta_Name ?m) of
      Inl e \<Rightarrow> (Some e, w) | Inr latest \<Rightarrow> sa_UpdateStatus ?api w (latest\<lparr>srv_Status := srv_Status (ps_Instance p2)\<rparr>)))" for w
  proof (cases "sa_GetServer ?api w (meta_Namespace ?m) (meta_Name ?m)")
    case (Inr latest)
    let ?s = "latest\<lparr>srv_Status := srv_Status (ps_Instance p2)\<rparr>"
    have "authorised ct (ps_Instance p2) w (WStatus ?s)" by (rule authorisedI) (use Inr in \<open>auto simp: authorisedFor_def Let_def\<close>)
    from guarded_one [of "authorised ct (ps_Instance p2)", OF this, of "performPass ct"] Inr show ?thesis by simp
  qed simp
  then have "guarded (authorised ct (ps_Instance p2)) (performPass ct) (ps_World p2) (snd (writeStatus ?api (ps_Instance p2) (ps_World p2)))"
    unfolding writeStatus_def by (rule retry_guarded)
  note 3 = passStep_trans [OF 2 passStep_world [OF this]]
  show ?thesis
    using pr 1 3 by (auto simp: updateStatus_def Let_def p2_def [symmetric] split: option.split prod.split)
qed

section \<open>The whole pass\<close>

lemma sameInstance_withInstance:
  "(\<And>i. srv_Spec (f i) = srv_Spec i \<and> srv_ObjectMeta (f i) = srv_ObjectMeta i) \<Longrightarrow> sameInstance p (withInstance f p)"
  by (simp add: withInstance_def sameInstance_def)

lemma withInstance_pass:
  "(\<And>i. srv_Spec (f i) = srv_Spec i \<and> srv_ObjectMeta (f i) = srv_ObjectMeta i) \<Longrightarrow> passStep ct p (withInstance f p)"
  by (rule passStep_status [OF sameInstance_withInstance]) (simp_all add: withInstance_def)

lemma failed_pass: "passStep ct p (generationFailed now b e p)"
  by (auto simp: generationFailed_def setConfigGeneratedCondition_def intro: withInstance_pass)

lemma record_pass: "passStep ct p (recordGeneration (ct_Op ct) now generated p)"
proof (cases generated)
  case (Some g)
  let ?f = "\<lambda>i. updateConfigGenerationStatus now g (setConfigGeneratedCondition now i True ''ConfigGenerationSucceeded''
      (''Generated config.yaml with '' @ showInt (gc_ProviderCount g) @ '' providers and '' @ showInt (gc_ResourceCount g) @ '' resources''))"
  have "passStep ct p (withInstance ?f p)"
    by (rule withInstance_pass) (simp add: updateConfigGenerationStatus_def setConfigGeneratedCondition_def)
  from passStep_trans [OF this cleanup_pass] show ?thesis by (simp add: recordGeneration_def Some)
qed (auto simp: recordGeneration_def clearConfigGenerationStatus_def setConfigGeneratedCondition_def intro: withInstance_pass)

lemma network_pass:
  assumes "setsOwnerOnly (op_Ingress (ct_Op ct))"
  shows "passStep ct p (snd (reconcileNetworkAndMigration (ct_Op ct) now rcfg p))"
proof -
  let ?op = "ct_Op ct"
  obtain e1 p1 where i: "reconcileIngress (op_Ingress ?op) p = (e1, p1)" by force
  obtain e2 p2 where c: "cleanupAdoptedNetworking (op_Adopt ?op) now p1 = (e2, p2)" by force
  obtain e3 p3 where m: "reconcileMigration (op_R ?op) now rcfg p2 = (e3, p3)" by force
  have 1: "passStep ct p p1" using ingress_pass [OF assms, of p] i by simp
  have 2: "passStep ct p p2" using passStep_trans [OF 1] adopted_pass [of ct p1 now] c by simp
  have 3: "passStep ct p p3" using passStep_trans [OF 2] migration_pass [of ct p2 now rcfg] m by simp
  show ?thesis using i c m 1 2 3 by (auto simp: reconcileNetworkAndMigration_def split: option.split)
qed

lemma workload_pass:
  assumes "setsOwnerOnly (op_Ingress (ct_Op ct))"
  shows "passStep ct p (snd (reconcileWorkload (ct_Op ct) now generated p))"
proof -
  let ?rcfg = "resolveRuntimeConfigRef (ps_Instance p) (pendingConfigMap (ps_Instance p) generated)"
  obtain e p1 where m: "reconcileAllManifestResources (ct_Op ct) now ?rcfg p = (e, p1)" by force
  then have 1: "passStep ct p p1" using manifests_pass [of ct p now ?rcfg] by simp
  show ?thesis
    using m passStep_trans [OF 1 failed_pass] passStep_trans [OF passStep_trans [OF 1 record_pass] network_pass [OF assms]]
    by (auto simp: reconcileWorkload_def Let_def split: option.split)
qed

lemma resources_pass:
  assumes "setsOwnerOnly (op_Ingress (ct_Op ct))"
  shows "passStep ct p (snd (snd (reconcileResources (ct_Op ct) now c p)))"
proof -
  let ?op = "ct_Op ct"
  obtain a p1 where a: "adoptLegacyResources (op_Adopt ?op) now p = (a, p1)" by force
  obtain u p2 where u: "cleanupUnsafeOwnedIngress (op_Ingress ?op) p1 = (u, p2)" by force
  obtain c' res p3 where m: "reconcileConfigMaps ?op c p2 = (c', res, p3)" by (rule prod_cases3)
  have 1: "passStep ct p p1" using adopt_pass [of ct p now] a by simp
  have 2: "passStep ct p p2" using passStep_trans [OF 1] unsafe_pass [of ct p1] u by simp
  have 3: "passStep ct p p3" using passStep_trans [OF 2] configMaps_pass [of ct p2 c] m by simp
  show ?thesis
    using a u m 1 2 passStep_trans [OF 3 failed_pass] passStep_trans [OF 3 workload_pass [OF assms]]
    by (auto simp: reconcileResources_def split: sum.split option.split)
qed

lemma finish_pass:
  assumes "finishReconcile ct now err p = Some (res, p')"
  shows "passStep ct p p'"
proof -
  let ?u = "\<lambda>e. updateStatus (ct_Status ct) (op_Ingress (ct_Op ct)) (op_Adopt (ct_Op ct)) (op_R (ct_Op ct)) now e p"
  have "\<exists>e. p' = snd (?u e)"
    using assms by (auto simp: finishReconcile_def handleSentinelErrors_def Let_def
        split: option.splits reconcile_error.splits prod.splits if_splits; metis snd_conv)
  then show ?thesis using status_pass by auto
qed

section \<open>Properties\<close>



end
