(* ===== verification/Go_Trim.thy ===== *)
theory Go_Trim
  imports Ca_Bundle Manifest_Plugins
begin

text \<open>
  More of the package \<open>strings\<close>: \<open>TrimSpace\<close> on UTF-8 text, \<open>Split\<close> at a character, cutting at the
  first separator (\<open>SplitN\<close> with two parts) and \<open>ToLower\<close>; \<open>Join\<close> of the package \<open>path\<close>.
\<close>

section \<open>Trimming\<close>

function trimLeft :: "string \<Rightarrow> string" where
  "trimLeft s =
     (if s = [] then []
      else case decodeRune (map of_char s) of
             None \<Rightarrow> s
           | Some (r, w) \<Rightarrow> if isSpaceRune r then trimLeft (drop w s) else s)"
  by pat_completeness auto
termination by (relation "measure length") (auto dest!: decodeRune_width)

declare trimLeft.simps [simp del]

text \<open>
  \<open>utf8.DecodeLastRuneInString\<close>: the last rune and its width, \<open>None\<close> for an invalid end.  The search
  for the start of the rune goes back at most three bytes.
\<close>

definition lastRune :: "string \<Rightarrow> (nat \<times> nat) option" where
  "lastRune s =
     (let n = length s; b = of_char (last s) :: nat in
      if b < 128 then Some (b, 1)
      else let start = (case filter (\<lambda>k. \<not> isCont (of_char (s ! k))) (rev [n - 4..<n - 1]) of k # _ \<Rightarrow> k | [] \<Rightarrow> n - 5)
           in case decodeRune (map of_char (drop start s)) of
                None \<Rightarrow> None
              | Some (r, w) \<Rightarrow> if start + w = n then Some (r, w) else None)"

lemma lastRune_width: "s \<noteq> [] \<Longrightarrow> lastRune s = Some (r, w) \<Longrightarrow> 0 < w \<and> w \<le> length s"
  by (auto simp: lastRune_def Let_def Suc_le_eq dest!: decodeRune_width split: if_splits option.splits list.splits)

function trimRight :: "string \<Rightarrow> string" where
  "trimRight s =
     (if s = [] then []
      else case lastRune s of
             None \<Rightarrow> s
           | Some (r, w) \<Rightarrow> if isSpaceRune r then trimRight (take (length s - w) s) else s)"
  by pat_completeness auto
termination by (relation "measure length") (auto dest!: lastRune_width)

declare trimRight.simps [simp del]

definition trimSpace :: "string \<Rightarrow> string" where
  "trimSpace s = trimRight (trimLeft s)"

text \<open>Text whose first and last characters are visible ASCII characters is left alone.\<close>

definition visible :: "char \<Rightarrow> bool" where
  "visible c \<longleftrightarrow> (32 :: nat) < of_char c \<and> (of_char c :: nat) < 127"

lemma decodeRune_visible: "visible c \<Longrightarrow> decodeRune (of_char c # bs) = Some (of_char c, 1) \<and> \<not> isSpaceRune (of_char c)"
  by (auto simp: visible_def isSpaceRune_def)

lemma trimLeft_visible: "visible c \<Longrightarrow> trimLeft (c # s) = c # s"
  by (subst trimLeft.simps) (simp add: decodeRune_visible del: decodeRune.simps)

lemma trimRight_visible: "visible c \<Longrightarrow> trimRight (s @ [c]) = s @ [c]"
  by (subst trimRight.simps) (auto simp: lastRune_def Let_def visible_def isSpaceRune_def)

lemma trimSpace_visible:
  assumes "s \<noteq> []" "visible (hd s)" "visible (last s)"
  shows "trimSpace s = s"
  using trimLeft_visible [of "hd s" "tl s"] trimRight_visible [of "last s" "butlast s"] assms
  by (simp add: trimSpace_def)

lemma trimRight_prefix: "\<exists>n. trimRight s = take n s"
proof (induction s rule: trimRight.induct)
  case (1 s)
  show ?case
  proof (cases "\<exists>r w. s \<noteq> [] \<and> lastRune s = Some (r, w) \<and> isSpaceRune r")
    case True
    then obtain r w where l: "s \<noteq> []" "lastRune s = Some (r, w)" "isSpaceRune r" by blast
    then have "trimRight s = trimRight (take (length s - w) s)" by (subst trimRight.simps) simp
    moreover obtain n where "trimRight (take (length s - w) s) = take n (take (length s - w) s)"
      using "1.IH" [OF l(1,2) refl l(3)] by blast
    ultimately show ?thesis by (auto simp: take_take)
  next
    case False
    then have "trimRight s = s" by (subst trimRight.simps) (auto split: option.split)
    then show ?thesis by (intro exI [of _ "length s"]) simp
  qed
qed

lemma decodeRune_append: "decodeRune bs = Some x \<Longrightarrow> decodeRune (bs @ cs) = Some x"
  by (cases bs) (auto split: if_splits list.splits)

lemma trimLeft_append:
  "trimLeft p \<noteq> [] \<Longrightarrow> visible (hd (trimLeft p)) \<Longrightarrow> trimLeft (p @ s) = trimLeft p @ s"
proof (induction p rule: trimLeft.induct)
  case (1 p)
  show ?case
  proof (cases "\<exists>r w. decodeRune (map of_char p) = Some (r, w) \<and> isSpaceRune r")
    case True
    then obtain r w where d: "decodeRune (map of_char p) = Some (r, w)" "isSpaceRune r" by blast
    have ne: "p \<noteq> []" using d by auto
    have w: "w \<le> length p" using decodeRune_width [OF d(1)] by simp
    have "trimLeft p = trimLeft (drop w p)" using ne d by (subst trimLeft.simps) simp
    moreover have "trimLeft (p @ s) = trimLeft (drop w p @ s)"
      using ne d w decodeRune_append [OF d(1), of "map of_char s"] by (subst trimLeft.simps) simp
    ultimately show ?thesis using "1.IH" [OF ne d(1) refl d(2)] "1.prems" by simp
  next
    case False
    then have same: "trimLeft p = p" by (subst trimLeft.simps) (auto split: option.split)
    then obtain c q where "p = c # q" "visible c" using "1.prems" by (cases p) auto
    then show ?thesis using trimLeft_visible same by simp
  qed
qed

lemma trimSpace_start:
  assumes "trimSpace p = c # k" "visible c"
  shows "\<exists>q. trimLeft p = c # q"
proof -
  obtain n where "trimSpace p = take n (trimLeft p)" using trimRight_prefix by (auto simp: trimSpace_def)
  then show ?thesis using assms by (cases "trimLeft p"; cases n) auto
qed

section \<open>Splitting\<close>

text \<open>\<open>strings.SplitN(s, sep, 2)\<close> for a one-character separator: the second part is missing without a separator.\<close>

definition cutAt :: "char \<Rightarrow> string \<Rightarrow> string \<times> string option" where
  "cutAt c s =
     (takeWhile (\<lambda>x. x \<noteq> c) s,
      if c \<in> set s then Some (tl (dropWhile (\<lambda>x. x \<noteq> c) s)) else None)"

lemma cutAt_append [simp]: "c \<notin> set p \<Longrightarrow> cutAt c (p @ c # r) = (p, Some r)"
proof -
  assume "c \<notin> set p"
  then have "takeWhile (\<lambda>x. x \<noteq> c) (p @ c # r) = p" "dropWhile (\<lambda>x. x \<noteq> c) (p @ c # r) = c # r"
    by (auto simp: takeWhile_append dropWhile_append takeWhile_eq_all_conv)
  then show ?thesis by (simp add: cutAt_def)
qed

fun splitChar :: "char \<Rightarrow> string \<Rightarrow> string list" where
  "splitChar c [] = [[]]"
| "splitChar c (x # s) =
     (if x = c then [] # splitChar c s
      else case splitChar c s of [] \<Rightarrow> [[x]] | l # ls \<Rightarrow> (x # l) # ls)"

lemma splitChar_not_Nil [simp]: "splitChar c s \<noteq> []"
  by (induction s) (auto split: list.split)

lemma splitChar_free: "l \<in> set (splitChar c s) \<Longrightarrow> c \<notin> set l"
proof (induction s arbitrary: l)
  case (Cons x s)
  then show ?case by (cases "splitChar c s") (auto split: if_splits)
qed simp

lemma splitChar_line: "c \<notin> set l \<Longrightarrow> splitChar c (l @ c # s) = l # splitChar c s"
  by (induction l) auto

lemma splitChar_one: "c \<notin> set l \<Longrightarrow> splitChar c l = [l]"
  by (induction l) auto

lemma splitChar_joinWith:
  "ls \<noteq> [] \<Longrightarrow> (\<forall>l \<in> set ls. c \<notin> set l) \<Longrightarrow> splitChar c (joinWith [c] ls) = ls"
  by (induction ls rule: induct_list012) (simp_all add: splitChar_one splitChar_line)

lemma joinWith_splitChar: "joinWith [c] (splitChar c s) = s"
proof (induction s)
  case (Cons x s)
  then show ?case by (cases "splitChar c s"; cases "tl (splitChar c s)") auto
qed simp

section \<open>Lower case\<close>

definition lowerByte :: "char \<Rightarrow> char" where
  "lowerByte c = (if isAsciiUpper c then char_of (of_char c + 32 :: nat) else c)"

text \<open>
  Exactly two runes outside ASCII have an ASCII lower case: U+0130 (bytes C4 B0) becomes \<open>i\<close> and
  U+212A (bytes E2 84 AA) becomes \<open>k\<close>.  The callers compare with ASCII text only, so the bytes of the
  other runes outside ASCII are kept.
\<close>

fun toLower :: "string \<Rightarrow> string" where
  "toLower [] = []"
| "toLower (c # s) =
     (if c = CHR 0xC4 \<and> take 1 s = [CHR 0xB0] then CHR ''i'' # toLower (drop 1 s)
      else if c = CHR 0xE2 \<and> take 2 s = [CHR 0x84, CHR 0xAA] then CHR ''k'' # toLower (drop 2 s)
      else lowerByte c # toLower s)"

section \<open>Paths\<close>

text \<open>\<open>path.Clean\<close>, with the elements so far in reverse order.\<close>

definition cleanStep :: "bool \<Rightarrow> string \<Rightarrow> string list \<Rightarrow> string list" where
  "cleanStep rooted e st =
     (if e = [] \<or> e = ''.'' then st
      else if e = ''..''
      then (case st of [] \<Rightarrow> if rooted then [] else [''..''] | x # st' \<Rightarrow> if x = ''..'' then ''..'' # st else st')
      else e # st)"

definition cleanPath :: "string \<Rightarrow> string" where
  "cleanPath p =
     (let rooted = hasPrefix p ''/'';
          elements = joinWith ''/'' (rev (fold (cleanStep rooted) (splitChar (CHR ''/'') p) []))
      in if rooted then CHR ''/'' # elements else if elements = [] then ''.'' else elements)"

text \<open>\<open>path.Dir\<close>: the cleaned path before the last slash.\<close>

definition pathDir :: "string \<Rightarrow> string" where
  "pathDir p = cleanPath (rev (dropWhile (\<lambda>c. c \<noteq> CHR ''/'') (rev p)))"

definition pathJoin :: "string list \<Rightarrow> string" where
  "pathJoin elems =
     (let nonEmpty = filter (\<lambda>e. e \<noteq> []) elems
      in if nonEmpty = [] then [] else cleanPath (joinWith ''/'' nonEmpty))"

end
