(* ===== verification/Module_Params.thy ===== *)
theory Module_Params
  imports Go_Trim
begin

text \<open>
  The texts the OGX module works with (\<open>ogx-module/internal/controller/ogx/reconciler.go\<close> and
  \<open>ogx-module/pkg/config/config.go\<close>): the overlay for a platform, the image overrides in \<open>params.env\<close>, the
  reported releases and the names of configuration keys.  \<open>getenv\<close> is the environment of the process,
  \<open>validRef\<close> whether \<open>reference.ParseAnyReference\<close> accepts a text.
\<close>

section \<open>Names\<close>

definition componentName :: string where
  "componentName = ''ogx''"

definition overlayODH :: string where
  "overlayODH = ''overlays/odh''"

definition overlayRhoai :: string where
  "overlayRhoai = ''overlays/rhoai''"

definition paramsFileName :: string where
  "paramsFileName = ''params.env''"

definition overlayForPlatform :: "string \<Rightarrow> string" where
  "overlayForPlatform platformName =
     (let val = toLower (trimSpace platformName) in
      if containsStr val ''rhoai'' \<or> containsStr val ''open shift ai'' \<or> containsStr val ''openshift ai''
      then overlayRhoai else overlayODH)"

definition KeyPlatformVersion :: string where
  "KeyPlatformVersion = ''platform-version''"

definition KeyPlatformName :: string where
  "KeyPlatformName = ''platform-name''"

definition DefaultPlatformVersion :: string where
  "DefaultPlatformVersion = ''unknown''"

definition canonicalConfigKey :: "string \<Rightarrow> string" where
  "canonicalConfigKey name =
     (let n = toLower (replaceAll ''_'' ''-'' name) in
      if n = ''platformversion'' \<or> n = KeyPlatformVersion then KeyPlatformVersion
      else if n = ''platformname'' \<or> n = KeyPlatformName then KeyPlatformName
      else name)"

text \<open>The settings in the order in which the iteration over the map visits them.\<close>

definition canonicalizeSettings :: "(string \<times> 'v) list \<Rightarrow> 'v gomap" where
  "canonicalizeSettings settings = fold (\<lambda>(key, val). mput (canonicalConfigKey key) val) settings mempty"

section \<open>Releases\<close>

record ComponentRelease =
  crel_Name :: string
  crel_Version :: string
  crel_RepoURL :: string

definition platformReleaseName :: string where
  "platformReleaseName = ''platform''"

fun setReleaseLoop :: "string \<Rightarrow> ComponentRelease list \<Rightarrow> ComponentRelease list" where
  "setReleaseLoop version [] = [\<lparr>crel_Name = platformReleaseName, crel_Version = version, crel_RepoURL = []\<rparr>]"
| "setReleaseLoop version (r # rs) =
     (if crel_Name r = platformReleaseName then r\<lparr>crel_Version := version\<rparr> # rs
      else r # setReleaseLoop version rs)"

definition setPlatformRelease :: "ComponentRelease list \<Rightarrow> string \<Rightarrow> ComponentRelease list" where
  "setPlatformRelease rs version =
     (if version = [] \<or> version = DefaultPlatformVersion then rs else setReleaseLoop version rs)"

section \<open>Image overrides\<close>

definition imageParamEnvMap :: "(string \<times> string list) list" where
  "imageParamEnvMap =
     [(''RELATED_IMAGE_ODH_OGX_K8S_OPERATOR_IMAGE'', [''RELATED_IMAGE_ODH_OGX_K8S_OPERATOR_IMAGE'']),
      (''RELATED_IMAGE_ODH_OGX_CORE_IMAGE'', [''RELATED_IMAGE_ODH_OGX_CORE_IMAGE''])]"

definition hasImageParamOverrides :: "(string \<Rightarrow> string) \<Rightarrow> bool" where
  "hasImageParamOverrides getenv = list_ex (\<lambda>(_, envNames). list_ex (\<lambda>e. getenv e \<noteq> []) envNames) imageParamEnvMap"

fun firstValidOverride :: "(string \<Rightarrow> string) \<Rightarrow> (string \<Rightarrow> bool) \<Rightarrow> string list \<Rightarrow> string option" where
  "firstValidOverride getenv validRef [] = None"
| "firstValidOverride getenv validRef (envName # envNames) =
     (let val = trimSpace (getenv envName) in
      if val = [] then firstValidOverride getenv validRef envNames
      else if \<not> validRef val then firstValidOverride getenv validRef envNames
      else Some val)"

definition resolveImageParamOverride :: "(string \<Rightarrow> string) \<Rightarrow> (string \<Rightarrow> bool) \<Rightarrow> string \<Rightarrow> string option" where
  "resolveImageParamOverride getenv validRef key =
     (case map_of imageParamEnvMap key of
        None \<Rightarrow> None
      | Some envNames \<Rightarrow> firstValidOverride getenv validRef envNames)"

definition isQuoted :: "string \<Rightarrow> bool" where
  "isQuoted raw \<longleftrightarrow> 2 \<le> length raw
     \<and> ((hd raw = CHR 0x22 \<and> last raw = CHR 0x22) \<or> (hd raw = CHR 0x27 \<and> last raw = CHR 0x27))"

definition rewriteEnvLine :: "string \<Rightarrow> string \<Rightarrow> string \<Rightarrow> string" where
  "rewriteEnvLine line key val =
     (case cutAt (CHR ''='') line of
        (_, None) \<Rightarrow> key @ ''='' @ val
      | (before, Some rest) \<Rightarrow>
          (let rawValue = trimSpace rest in
           if isQuoted rawValue then before @ ''='' @ [hd rawValue] @ val @ [last rawValue]
           else before @ ''='' @ val))"

text \<open>One line of the loop: the line and whether it was rewritten.\<close>

definition overrideLine :: "(string \<Rightarrow> string) \<Rightarrow> (string \<Rightarrow> bool) \<Rightarrow> string \<Rightarrow> string \<times> bool" where
  "overrideLine getenv validRef line =
     (let trimmed = trimSpace line in
      if trimmed = [] \<or> hasPrefix trimmed ''#'' then (line, False)
      else let key = trimSpace (fst (cutAt (CHR ''='') line)) in
        case resolveImageParamOverride getenv validRef key of
          None \<Rightarrow> (line, False)
        | Some override \<Rightarrow> (rewriteEnvLine line key override, True))"

record 'f FileSystem =
  fs_Exists :: "'f \<Rightarrow> string \<Rightarrow> bool"
  fs_ReadFile :: "'f \<Rightarrow> string \<Rightarrow> string + string"
  fs_WriteFile :: "'f \<Rightarrow> string \<Rightarrow> string \<Rightarrow> string option \<times> 'f"
  fs_MkdirAll :: "'f \<Rightarrow> string \<Rightarrow> string option \<times> 'f"

definition applyParamsEnvOverrides ::
    "'f FileSystem \<Rightarrow> (string \<Rightarrow> string) \<Rightarrow> (string \<Rightarrow> bool) \<Rightarrow> 'f \<Rightarrow> string \<Rightarrow> string option \<times> 'f" where
  "applyParamsEnvOverrides api getenv validRef target paramsPath =
     (if \<not> fs_Exists api target paramsPath then (None, target)
      else case fs_ReadFile api target paramsPath of
             Inl e \<Rightarrow> (Some (''failed to read '' @ paramsPath @ '': '' @ e), target)
           | Inr fileText \<Rightarrow>
               (let rewritten = map (overrideLine getenv validRef) (splitChar (CHR 0x0A) fileText) in
                if \<not> list_ex snd rewritten then (None, target)
                else fs_WriteFile api target paramsPath (joinWith [CHR 0x0A] (map fst rewritten))))"

text \<open>
  What \<open>filepath.Walk\<close> and \<open>os.ReadFile\<close> find below a path: a path that cannot be examined, a file with
  its contents or the error of reading it, a directory with its entries in lexical order or the error
  of listing it.
\<close>

datatype os_tree =
    OsMissing string
  | OsFile "string + string"
  | OsDir "string + (string \<times> os_tree) list"

text \<open>The function that \<open>copyDirToFS\<close> passes to \<open>Walk\<close>, at the path with the elements \<open>rel\<close> below the root.\<close>

definition copyTarget :: "string \<Rightarrow> string list \<Rightarrow> string" where
  "copyTarget dstRoot rel = (if rel = [] then dstRoot else pathJoin [dstRoot, joinWith ''/'' rel])"

definition copyFile :: "'f FileSystem \<Rightarrow> string \<Rightarrow> string + string \<Rightarrow> 'f \<Rightarrow> string option \<times> 'f" where
  "copyFile api targetPath contents fs =
     (case contents of
        Inl e \<Rightarrow> (Some e, fs)
      | Inr data \<Rightarrow>
          (let parent = pathDir targetPath in
           if parent \<noteq> ''.'' then
             (case fs_MkdirAll api fs parent of
                (Some e, fs1) \<Rightarrow> (Some e, fs1)
              | (None, fs1) \<Rightarrow> fs_WriteFile api fs1 targetPath data)
           else fs_WriteFile api fs targetPath data))"

fun copyTree :: "'f FileSystem \<Rightarrow> string \<Rightarrow> string list \<Rightarrow> os_tree \<Rightarrow> 'f \<Rightarrow> string option \<times> 'f"
and copyEntries :: "'f FileSystem \<Rightarrow> string \<Rightarrow> string list \<Rightarrow> (string \<times> os_tree) list \<Rightarrow> 'f \<Rightarrow> string option \<times> 'f" where
  "copyTree api dstRoot rel (OsMissing e) fs = (Some e, fs)"
| "copyTree api dstRoot rel (OsFile contents) fs = copyFile api (copyTarget dstRoot rel) contents fs"
| "copyTree api dstRoot rel (OsDir entries) fs =
     (case fs_MkdirAll api fs (copyTarget dstRoot rel) of
        (Some e, fs1) \<Rightarrow> (Some e, fs1)
      | (None, fs1) \<Rightarrow>
          (case entries of
             Inl e \<Rightarrow> (Some e, fs1)
           | Inr kids \<Rightarrow> copyEntries api dstRoot rel kids fs1))"
| "copyEntries api dstRoot rel [] fs = (None, fs)"
| "copyEntries api dstRoot rel ((name, tree) # kids) fs =
     (case copyTree api dstRoot (rel @ [name]) tree fs of
        (Some e, fs1) \<Rightarrow> (Some e, fs1)
      | (None, fs1) \<Rightarrow> copyEntries api dstRoot rel kids fs1)"

definition copyDirToFS :: "'f FileSystem \<Rightarrow> os_tree \<Rightarrow> string \<Rightarrow> 'f \<Rightarrow> string option \<times> 'f" where
  "copyDirToFS api tree dstRoot fs = copyTree api dstRoot [] tree fs"

text \<open>\<open>fresh\<close> is the new file system in memory, \<open>disk\<close> what the path of the component holds.\<close>

definition prepareManifestFSWithOverrides ::
    "'f FileSystem \<Rightarrow> (string \<Rightarrow> string) \<Rightarrow> (string \<Rightarrow> bool) \<Rightarrow> 'f \<Rightarrow> (string \<Rightarrow> os_tree) \<Rightarrow> string \<Rightarrow> string
       \<Rightarrow> string + 'f \<times> string" where
  "prepareManifestFSWithOverrides api getenv validRef fresh disk componentRoot overlay =
     (case copyDirToFS api (disk componentRoot) componentName fresh of
        (Some e, _) \<Rightarrow> Inl e
      | (None, fs) \<Rightarrow>
          (case applyParamsEnvOverrides api getenv validRef fs (pathJoin [componentName, overlay, paramsFileName]) of
             (Some e, _) \<Rightarrow> Inl e
           | (None, fs') \<Rightarrow> Inr (fs', pathJoin [componentName, overlay])))"

section \<open>The copy\<close>

text \<open>A walk is complete when nothing below it is unreadable; the files it meets, in its order.\<close>

fun complete :: "os_tree \<Rightarrow> bool" and completeAll :: "(string \<times> os_tree) list \<Rightarrow> bool" where
  "complete (OsMissing e) = False"
| "complete (OsFile contents) = (\<exists>data. contents = Inr data)"
| "complete (OsDir entries) = (case entries of Inl e \<Rightarrow> False | Inr kids \<Rightarrow> completeAll kids)"
| "completeAll [] = True"
| "completeAll ((name, tree) # kids) = (complete tree \<and> completeAll kids)"

fun treeFiles :: "string list \<Rightarrow> os_tree \<Rightarrow> (string list \<times> string) list"
and entryFiles :: "string list \<Rightarrow> (string \<times> os_tree) list \<Rightarrow> (string list \<times> string) list" where
  "treeFiles rel (OsMissing e) = []"
| "treeFiles rel (OsFile contents) = (case contents of Inl e \<Rightarrow> [] | Inr data \<Rightarrow> [(rel, data)])"
| "treeFiles rel (OsDir entries) = (case entries of Inl e \<Rightarrow> [] | Inr kids \<Rightarrow> entryFiles rel kids)"
| "entryFiles rel [] = []"
| "entryFiles rel ((name, tree) # kids) = treeFiles (rel @ [name]) tree @ entryFiles rel kids"

text \<open>A file system in memory that keeps its files by path.\<close>

definition memoryFS :: "string gomap FileSystem" where
  "memoryFS = \<lparr>fs_Exists = (\<lambda>m p. mget m p \<noteq> None),
     fs_ReadFile = (\<lambda>m p. case mget m p of None \<Rightarrow> Inl ''file does not exist'' | Some t \<Rightarrow> Inr t),
     fs_WriteFile = (\<lambda>m p t. (None, mput p t m)), fs_MkdirAll = (\<lambda>m p. (None, m))\<rparr>"

lemma memoryFS_ops [simp]:
  "fs_MkdirAll memoryFS m p = (None, m)" "fs_WriteFile memoryFS m p t = (None, mput p t m)"
  by (simp_all add: memoryFS_def)

lemma copyTree_memory:
  "if complete tree
   then copyTree memoryFS dst rel tree m = (None, fold (\<lambda>(rel, data). mput (copyTarget dst rel) data) (treeFiles rel tree) m)
   else fst (copyTree memoryFS dst rel tree m) \<noteq> None"
  "if completeAll kids
   then copyEntries memoryFS dst rel kids m = (None, fold (\<lambda>(rel, data). mput (copyTarget dst rel) data) (entryFiles rel kids) m)
   else fst (copyEntries memoryFS dst rel kids m) \<noteq> None"
proof (induction tree and kids arbitrary: rel m and rel m rule: complete_completeAll.induct)
  case (2 contents)
  show ?case by (cases contents) (simp_all add: copyFile_def Let_def)
next
  case (3 entries)
  then show ?case by (cases entries) (auto split: if_splits)
next
  case (5 name tree kids)
  obtain e fs where c: "copyTree memoryFS dst (rel @ [name]) tree m = (e, fs)" by force
  then show ?case using "5.IH"(1) [of "rel @ [name]" m] "5.IH"(2) [of rel fs] by (cases e) (auto split: if_splits)
qed simp_all

section \<open>Reading a line back\<close>

definition assigns :: "string \<Rightarrow> bool" where
  "assigns line \<longleftrightarrow> trimSpace line \<noteq> [] \<and> \<not> hasPrefix (trimSpace line) ''#''"

definition lineKey :: "string \<Rightarrow> string" where
  "lineKey line = trimSpace (fst (cutAt (CHR ''='') line))"

definition lineValue :: "string \<Rightarrow> string option" where
  "lineValue line =
     map_option (\<lambda>rest. let raw = trimSpace rest in if isQuoted raw then tl (butlast raw) else raw)
       (snd (cutAt (CHR ''='') line))"

text \<open>The characters of an image reference, by its documented grammar.\<close>

definition refChar :: "char \<Rightarrow> bool" where
  "refChar c \<longleftrightarrow> isAsciiLower c \<or> isAsciiUpper c \<or> isDigit c \<or> c \<in> set ''._-/:@[]''"

definition refGrammar :: "(string \<Rightarrow> bool) \<Rightarrow> bool" where
  "refGrammar validRef \<longleftrightarrow> (\<forall>v. validRef v \<longrightarrow> v \<noteq> [] \<and> list_all refChar v)"

lemma refChar_visible: "refChar c \<Longrightarrow> visible c \<and> c \<noteq> CHR 0x22 \<and> c \<noteq> CHR 0x27 \<and> c \<noteq> CHR ''='' \<and> c \<noteq> CHR 0x0A"
  by (auto simp: refChar_def visible_def isAsciiLower_def isAsciiUpper_def isDigit_def less_eq_char_def)

lemma override_valid:
  assumes "refGrammar validRef" "resolveImageParamOverride getenv validRef key = Some v"
  shows "v \<noteq> []" "list_all refChar v" "key \<in> fst ` set imageParamEnvMap"
proof -
  have "validRef v" if "firstValidOverride getenv validRef es = Some v" for es
    using that by (induction es) (auto simp: Let_def split: if_splits)
  then have "validRef v" using assms(2) by (auto simp: resolveImageParamOverride_def split: option.splits)
  then show "v \<noteq> []" "list_all refChar v" using assms(1) by (auto simp: refGrammar_def)
  show "key \<in> fst ` set imageParamEnvMap"
    using assms(2) by (auto simp: resolveImageParamOverride_def split: option.splits dest!: map_of_SomeD intro: rev_image_eqI)
qed

lemma ref_ends:
  assumes "v \<noteq> []" "list_all refChar v"
  shows "visible (hd v)" "visible (last v)" "\<not> isQuoted v" "trimSpace v = v" "CHR ''='' \<notin> set v" "CHR 0x0A \<notin> set v"
proof -
  have "refChar (hd v)" "refChar (last v)" using assms by (simp_all add: list_all_iff)
  then show v: "visible (hd v)" "visible (last v)" "\<not> isQuoted v" by (auto simp: isQuoted_def dest: refChar_visible)
  then show "trimSpace v = v" using assms(1) by (intro trimSpace_visible)
  show "CHR ''='' \<notin> set v" "CHR 0x0A \<notin> set v" using assms(2) refChar_visible by (auto simp: list_all_iff)
qed

definition keyChar :: "char \<Rightarrow> bool" where
  "keyChar c \<longleftrightarrow> isAsciiUpper c \<or> isDigit c \<or> c = CHR ''_''"

lemma keyChar_visible: "keyChar c \<Longrightarrow> visible c \<and> c \<noteq> CHR ''#'' \<and> c \<noteq> CHR ''='' \<and> c \<noteq> CHR 0x0A"
  by (auto simp: keyChar_def visible_def isAsciiUpper_def isDigit_def less_eq_char_def)

lemma image_keys: "list_all (\<lambda>(key, _). key \<noteq> [] \<and> list_all keyChar key) imageParamEnvMap"
  by code_simp

lemma key_visible:
  assumes "key \<in> fst ` set imageParamEnvMap"
  shows "\<exists>c k. key = c # k \<and> visible c \<and> c \<noteq> CHR ''#'' \<and> visible (last key) \<and> CHR ''='' \<notin> set key \<and> CHR 0x0A \<notin> set key"
proof -
  have k: "key \<noteq> []" "list_all keyChar key" using assms image_keys by (auto simp: list_all_iff)
  then obtain c r where c: "key = c # r" by (cases key) auto
  have each: "visible x \<and> x \<noteq> CHR ''#'' \<and> x \<noteq> CHR ''='' \<and> x \<noteq> CHR 0x0A" if "x \<in> set key" for x
    using that k(2) keyChar_visible by (auto simp: list_all_iff)
  have "c \<in> set key" "last key \<in> set key" using c by simp_all
  then show ?thesis using c each by blast
qed

section \<open>Rewriting a line\<close>

text \<open>What the rewritten line looks like: a part without a separator and the value, with the quotes it had.\<close>

lemma rewriteEnvLine_form:
  assumes "CHR ''='' \<notin> set key" "trimSpace (fst (cutAt (CHR ''='') line)) = key" "trimSpace key = key"
  shows "\<exists>before q. rewriteEnvLine line key v = before @ CHR ''='' # q @ v @ q \<and> CHR ''='' \<notin> set before
     \<and> trimSpace before = key \<and> q \<in> {[], [CHR 0x22], [CHR 0x27]} \<and> (CHR 0x0A \<notin> set line \<longrightarrow> CHR 0x0A \<notin> set key \<longrightarrow> CHR 0x0A \<notin> set before)"
proof (cases "snd (cutAt (CHR ''='') line)")
  case None
  then have "rewriteEnvLine line key v = key @ CHR ''='' # [] @ v @ []"
    by (cases "cutAt (CHR ''='') line") (simp add: rewriteEnvLine_def)
  then show ?thesis using assms by blast
next
  case (Some rest)
  let ?b = "fst (cutAt (CHR ''='') line)" and ?raw = "trimSpace rest"
  have b: "CHR ''='' \<notin> set ?b" "CHR 0x0A \<notin> set line \<longrightarrow> CHR 0x0A \<notin> set ?b"
    by (auto simp: cutAt_def dest: set_takeWhileD)
  have r: "rewriteEnvLine line key v = ?b @ CHR ''='' # (if isQuoted ?raw then [hd ?raw] @ v @ [last ?raw] else v)"
    using Some by (cases "cutAt (CHR ''='') line") (simp add: rewriteEnvLine_def Let_def)
  show ?thesis
  proof (cases "isQuoted ?raw")
    case True
    then have "hd ?raw = last ?raw" "[hd ?raw] \<in> {[], [CHR 0x22], [CHR 0x27]}" by (auto simp: isQuoted_def)
    then show ?thesis using r b assms(2) True by (intro exI [of _ ?b] exI [of _ "[hd ?raw]"]) simp
  next
    case False
    then show ?thesis using r b assms(2) by (intro exI [of _ ?b] exI [of _ "[]"]) simp
  qed
qed

lemma written_line:
  assumes "v \<noteq> []" "list_all refChar v" "CHR ''='' \<notin> set before" "q \<in> {[], [CHR 0x22], [CHR 0x27]}"
    and "trimSpace before = key" "key \<in> fst ` set imageParamEnvMap"
  defines "l \<equiv> before @ CHR ''='' # q @ v @ q"
  shows "lineKey l = key" "lineValue l = Some v" "assigns l"
    and "rewriteEnvLine l key v = l"
proof -
  note e = ref_ends [OF assms(1,2)]
  have qv: "visible (CHR 0x22)" "visible (CHR 0x27)" by (simp_all add: visible_def)
  have cut: "cutAt (CHR ''='') l = (before, Some (q @ v @ q))" using assms(3) by (simp add: l_def)
  have trim: "trimSpace (q @ v @ q) = q @ v @ q"
    using assms(1,4) e qv by (intro trimSpace_visible) auto
  have quoted: "isQuoted (q @ v @ q) \<longleftrightarrow> q \<noteq> []" using assms(1,4) e(3) by (auto simp: isQuoted_def)
  show "lineKey l = key" using cut assms(5) by (simp add: lineKey_def)
  show "lineValue l = Some v"
    using cut trim quoted assms(4) by (auto simp: lineValue_def Let_def butlast_append)
  show "rewriteEnvLine l key v = l"
    using cut trim quoted assms(4) by (auto simp: rewriteEnvLine_def Let_def l_def)
  obtain c k where k: "key = c # k" "visible c" "c \<noteq> CHR ''#''" using key_visible [OF assms(6)] by blast
  obtain s where s: "trimLeft before = c # s" using trimSpace_start [of before c k] k assms(5) by auto
  have "trimLeft l = c # s @ CHR ''='' # q @ v @ q" using trimLeft_append [of before] s k by (simp add: l_def)
  moreover have "trimRight (c # s @ CHR ''='' # q @ v @ q) = c # s @ CHR ''='' # q @ v @ q"
  proof -
    let ?t = "c # s @ CHR ''='' # q @ v @ q"
    have "visible (last ?t)" using assms(1,4) e(2) qv by auto
    moreover have "?t = butlast ?t @ [last ?t]" by (rule append_butlast_last_id [symmetric]) simp
    ultimately show ?thesis using trimRight_visible by metis
  qed
  ultimately show "assigns l" using k(3) by (simp add: assigns_def trimSpace_def hasPrefix_def)
qed

lemma overrideLine_cases:
  "overrideLine getenv validRef line =
     (case (if assigns line then resolveImageParamOverride getenv validRef (lineKey line) else None) of
        None \<Rightarrow> (line, False)
      | Some v \<Rightarrow> (rewriteEnvLine line (lineKey line) v, True))"
  unfolding overrideLine_def assigns_def lineKey_def Let_def by simp

lemma overrideLine_unchanged: "\<not> snd (overrideLine getenv validRef l) \<Longrightarrow> fst (overrideLine getenv validRef l) = l"
  by (simp add: overrideLine_cases split: option.splits if_splits)

lemma overridden_line:
  assumes "refGrammar validRef" "resolveImageParamOverride getenv validRef (lineKey line) = Some v"
  defines "l \<equiv> rewriteEnvLine line (lineKey line) v"
  shows "lineKey l = lineKey line" "lineValue l = Some v" "assigns l" "rewriteEnvLine l (lineKey line) v = l"
    and "CHR 0x0A \<notin> set line \<Longrightarrow> CHR 0x0A \<notin> set l"
proof -
  note v = override_valid [OF assms(1,2)]
  obtain c k where k: "lineKey line = c # k" "visible c" "visible (last (lineKey line))"
      "CHR ''='' \<notin> set (lineKey line)" "CHR 0x0A \<notin> set (lineKey line)"
    using key_visible [OF v(3)] by blast
  have "trimSpace (lineKey line) = lineKey line" using k by (intro trimSpace_visible) simp_all
  then obtain before q where f: "l = before @ CHR ''='' # q @ v @ q" "CHR ''='' \<notin> set before" "trimSpace before = lineKey line"
      "q \<in> {[], [CHR 0x22], [CHR 0x27]}" "CHR 0x0A \<notin> set line \<longrightarrow> CHR 0x0A \<notin> set before"
    using rewriteEnvLine_form [OF k(4), of line v] k(5) by (auto simp: l_def lineKey_def)
  show "lineKey l = lineKey line" "lineValue l = Some v" "assigns l" "rewriteEnvLine l (lineKey line) v = l"
    using written_line [OF v(1,2) f(2,4,3) v(3)] f(1) by simp_all
  show "CHR 0x0A \<notin> set line \<Longrightarrow> CHR 0x0A \<notin> set l" using f ref_ends(6) [OF v(1,2)] by auto
qed

text \<open>The new line for an old one, read as assignments.\<close>

definition lineOverridden :: "(string \<Rightarrow> string) \<Rightarrow> (string \<Rightarrow> bool) \<Rightarrow> string \<Rightarrow> string \<Rightarrow> bool" where
  "lineOverridden getenv validRef l l' \<longleftrightarrow>
     (case (if assigns l then resolveImageParamOverride getenv validRef (lineKey l) else None) of
        None \<Rightarrow> l' = l
      | Some v \<Rightarrow> assigns l' \<and> lineKey l' = lineKey l \<and> lineValue l' = Some v)"

section \<open>Properties\<close>

text \<open>
  (C19) The image overrides are exact: every assignment of an image parameter with a valid override in
  the environment is read back as the override, with the same key, and every other line of
  \<open>params.env\<close> keeps its bytes.  Applying the overrides to the result changes nothing more.
\<close>

theorem image_overrides_are_exact:
  assumes "refGrammar validRef" "fs_Exists api fs p" "fs_ReadFile api fs p = Inr fileText"
  shows "\<exists>new. applyParamsEnvOverrides api getenv validRef fs p
           \<in> {fs_WriteFile api fs p new} \<union> (if new = fileText then {(None, fs)} else {})
      \<and> list_all2 (lineOverridden getenv validRef) (splitChar (CHR 0x0A) fileText) (splitChar (CHR 0x0A) new)
      \<and> map (fst \<circ> overrideLine getenv validRef) (splitChar (CHR 0x0A) new) = splitChar (CHR 0x0A) new"
proof -
  let ?ls = "splitChar (CHR 0x0A) fileText" and ?f = "fst \<circ> overrideLine getenv validRef"
  let ?new = "joinWith [CHR 0x0A] (map ?f ?ls)"
  have line: "?f l = l \<or> (\<exists>v. assigns l \<and> resolveImageParamOverride getenv validRef (lineKey l) = Some v
      \<and> ?f l = rewriteEnvLine l (lineKey l) v)" for l
    by (auto simp: overrideLine_cases split: option.split)
  have free: "CHR 0x0A \<notin> set l" if l: "l \<in> set (map ?f ?ls)" for l
  proof -
    obtain l0 where "l0 \<in> set ?ls" "l = ?f l0" using l by auto
    then have "CHR 0x0A \<notin> set l0" "l = ?f l0" by (simp_all add: splitChar_free)
    then show ?thesis using line [of l0] overridden_line(5) [OF assms(1), of getenv l0] by auto
  qed
  have split: "splitChar (CHR 0x0A) ?new = map ?f ?ls" by (rule splitChar_joinWith) (use free in auto)
  have twice: "?f (?f l) = ?f l" for l
    using line [of l] overridden_line(1,3,4) [OF assms(1), of getenv l]
    by (auto simp: overrideLine_cases split: option.split)
  have each: "lineOverridden getenv validRef l (?f l)" for l
    using overridden_line(1,2,3) [OF assms(1), of getenv l]
    by (auto simp: lineOverridden_def overrideLine_cases split: option.split)
  have "applyParamsEnvOverrides api getenv validRef fs p
      \<in> {fs_WriteFile api fs p ?new} \<union> (if ?new = fileText then {(None, fs)} else {})"
  proof (cases "list_ex snd (map (overrideLine getenv validRef) ?ls)")
    case False
    then have "\<not> snd (overrideLine getenv validRef l)" if "l \<in> set ?ls" for l using that by (auto simp: list_ex_iff)
    then have "?f l = l" if "l \<in> set ?ls" for l using that overrideLine_unchanged by simp
    then have "map ?f ?ls = ?ls" by (simp add: map_idI)
    then have "?new = fileText" by (simp only: joinWith_splitChar)
    then show ?thesis using False assms(2,3) by (simp add: applyParamsEnvOverrides_def)
  qed (simp add: applyParamsEnvOverrides_def assms(2,3))
  moreover have "map ?f (map ?f ?ls) = map ?f ?ls" using twice by simp
  ultimately show ?thesis using each by (intro exI [of _ ?new]) (simp add: split list.rel_map list.rel_refl_strong)
qed

text \<open>A file system with one file, an environment with an override for one of two parameters.\<close>

definition oneFile :: "string FileSystem" where
  "oneFile = \<lparr>fs_Exists = (\<lambda>_ _. True), fs_ReadFile = (\<lambda>f _. Inr f), fs_WriteFile = (\<lambda>_ _ t. (None, t)), fs_MkdirAll = (\<lambda>f _. (None, f))\<rparr>"

definition exLine :: string where
  "exLine = ''RELATED_IMAGE_ODH_OGX_CORE_IMAGE='' @ [CHR 0x22] @ ''quay.io/ogx:1'' @ [CHR 0x22]"

definition exParams :: string where
  "exParams = joinWith [CHR 0x0A] [''# images'', exLine, ''NAMESPACE=ogx'']"

definition exEnv :: "string \<Rightarrow> string" where
  "exEnv n = (if n = ''RELATED_IMAGE_ODH_OGX_CORE_IMAGE'' then ''quay.io/ogx:2'' else [])"

definition exValidRef :: "string \<Rightarrow> bool" where
  "exValidRef v \<longleftrightarrow> v \<noteq> [] \<and> list_all refChar v"

theorem image_overrides_are_exact_witness:
  "\<exists>new. applyParamsEnvOverrides oneFile exEnv exValidRef exParams ''p'' \<in> {(None, new), (None, exParams)}
     \<and> (let l = splitChar (CHR 0x0A) new ! 1 in lineKey l = ''RELATED_IMAGE_ODH_OGX_CORE_IMAGE'' \<and> lineValue l = Some ''quay.io/ogx:2'')"
proof -
  have 1: "refGrammar exValidRef" by (simp add: refGrammar_def exValidRef_def)
  let ?l = "splitChar (CHR 0x0A) exParams ! 1"
  have lines: "splitChar (CHR 0x0A) exParams = [''# images'', exLine, ''NAMESPACE=ogx'']"
    unfolding exParams_def by (rule splitChar_joinWith) (simp_all add: exLine_def)
  have key: "trimSpace ''RELATED_IMAGE_ODH_OGX_CORE_IMAGE'' = ''RELATED_IMAGE_ODH_OGX_CORE_IMAGE''"
    by (rule trimSpace_visible) (simp_all add: visible_def)
  have "trimSpace exLine = exLine" by (rule trimSpace_visible) (simp_all add: visible_def exLine_def)
  then have l: "length (splitChar (CHR 0x0A) exParams) = 3" "assigns ?l" "lineKey ?l = ''RELATED_IMAGE_ODH_OGX_CORE_IMAGE''"
    using key by (simp_all add: lines assigns_def hasPrefix_def lineKey_def cutAt_def) (simp_all add: exLine_def)
  have "trimSpace ''quay.io/ogx:2'' = ''quay.io/ogx:2''" by (rule trimSpace_visible) (simp_all add: visible_def)
  moreover have "exValidRef ''quay.io/ogx:2''"
    by (simp add: exValidRef_def refChar_def isAsciiLower_def isDigit_def less_eq_char_def)
  ultimately have v: "resolveImageParamOverride exEnv exValidRef ''RELATED_IMAGE_ODH_OGX_CORE_IMAGE'' = Some ''quay.io/ogx:2''"
    by (simp add: resolveImageParamOverride_def imageParamEnvMap_def exEnv_def Let_def)
  have 2: "fs_Exists oneFile exParams ''p''" "fs_ReadFile oneFile exParams ''p'' = Inr exParams" by (simp_all add: oneFile_def)
  from image_overrides_are_exact [OF 1 2, of exEnv]
  obtain new where n: "applyParamsEnvOverrides oneFile exEnv exValidRef exParams ''p''
        \<in> {fs_WriteFile oneFile exParams ''p'' new} \<union> (if new = exParams then {(None, exParams)} else {})"
      "list_all2 (lineOverridden exEnv exValidRef) (splitChar (CHR 0x0A) exParams) (splitChar (CHR 0x0A) new)"
    by blast
  have "lineOverridden exEnv exValidRef ?l (splitChar (CHR 0x0A) new ! 1)"
    using list_all2_nthD [OF n(2), of 1] l(1) by simp
  then have "lineKey (splitChar (CHR 0x0A) new ! 1) = ''RELATED_IMAGE_ODH_OGX_CORE_IMAGE''"
      "lineValue (splitChar (CHR 0x0A) new ! 1) = Some ''quay.io/ogx:2''"
    using l(2) unfolding lineOverridden_def l(3) v by simp_all
  moreover have "applyParamsEnvOverrides oneFile exEnv exValidRef exParams ''p'' \<in> {(None, new), (None, exParams)}"
    using n(1) by (auto simp: oneFile_def split: if_splits)
  ultimately show ?thesis by (auto simp: Let_def)
qed

end
