(* ===== verification/Module_Reconciler.thy ===== *)
theory Module_Reconciler
  imports Module_Params Apply_Resources
begin

text \<open>
  The controller of the OGX module (\<open>ogx-module/internal/controller/ogx/reconciler.go\<close>): it deploys the
  manifests of the operator for an \<open>OGX\<close> object, watches its Deployments and webhooks, sums up the
  health of the \<open>OGXServer\<close> instances and removes everything again.  The Kubernetes clients, the renderer,
  the deployer, the garbage collector and the condition manager of the platform are the fields of
  \<open>ModuleAPI\<close> and \<open>ConditionLib\<close>.
\<close>

section \<open>Objects\<close>

definition ogxFinalizer :: string where
  "ogxFinalizer = ''components.platform.opendatahub.io/ogx-finalizer''"

definition ogxServerDeploymentReady :: string where
  "ogxServerDeploymentReady = ''DeploymentReady''"

definition ogxServerHealthCheck :: string where
  "ogxServerHealthCheck = ''HealthCheck''"

definition platformConfigCMName :: string where
  "platformConfigCMName = ''odh-'' @ componentName @ ''-config''"

definition platformVersionDataKey :: string where
  "platformVersionDataKey = ''platformVersion''"

datatype ManagementState = Managed | Removed | OtherManagement

datatype module_phase = ModuleReady | ModuleNotReady | ModulePhaseUnset

record OGXDistribution =
  odist_Name :: string
  odist_Version :: string

record 'c OGXStatus =
  ogxs_ObservedGeneration :: int
  ogxs_Phase :: module_phase
  ogxs_Conditions :: 'c
  ogxs_Releases :: "ComponentRelease list"
  ogxs_Distribution :: OGXDistribution

record 'c OGX =
  ogx_ObjectMeta :: ObjectMeta
  ogx_Finalizers :: "string list"
  ogx_ManagementState :: ManagementState
  ogx_Status :: "'c OGXStatus"

text \<open>\<open>moduleconfig.Config\<close>, the fields the controller reads.\<close>

record ModuleConfig =
  mcf_ManifestsPath :: string
  mcf_ApplicationsNamespace :: string
  mcf_PlatformName :: string
  mcf_PlatformVersion :: string

text \<open>\<open>unstructured.Unstructured\<close> and what is read of a Deployment.\<close>

record ModuleObject =
  mo_GVK :: GVK
  mo_Name :: string
  mo_Namespace :: string
  mo_Object :: yaml

record ModuleDeployment =
  md_Generation :: int
  md_ObservedGeneration :: int
  md_Replicas :: "int option"
  md_ReadyReplicas :: int
  md_AvailableReplicas :: int

section \<open>Conditions\<close>

datatype module_condition = CondReady | CondProvisioningSucceeded | CondRootOperatorReady | CondRootWebhookReady | CondDegraded

text \<open>One call of \<open>MarkTrue\<close>, \<open>MarkFalse\<close> or \<open>MarkUnknown\<close> with its options; the text is that of \<open>WithError\<close> or of \<open>WithMessage\<close>.\<close>

record Mark =
  mk_Type :: module_condition
  mk_Status :: ConditionStatus
  mk_ObservedGeneration :: int
  mk_Reason :: string
  mk_Text :: "string + string"
  mk_InfoSeverity :: bool

text \<open>The condition manager of the platform library for a happy condition and its dependents.\<close>

record 'c ConditionLib =
  cd_NewManager :: "module_condition \<Rightarrow> module_condition list \<Rightarrow> 'c \<Rightarrow> 'c"
  cd_Mark :: "module_condition \<Rightarrow> module_condition list \<Rightarrow> Mark \<Rightarrow> 'c \<Rightarrow> 'c"
  cd_Sort :: "'c \<Rightarrow> 'c"
  cd_IsHappy :: "module_condition \<Rightarrow> module_condition list \<Rightarrow> 'c \<Rightarrow> bool"

record ogxServerHealthSummary =
  hs_Total :: nat
  hs_UnhealthyCount :: nat
  hs_Unhealthy :: "string list"

definition noHealthSummary :: ogxServerHealthSummary where
  "noHealthSummary = \<lparr>hs_Total = 0, hs_UnhealthyCount = 0, hs_Unhealthy = []\<rparr>"

section \<open>The outside\<close>

text \<open>
  \<open>ma_Discover\<close>: without a discovery client \<open>None\<close>; otherwise the kinds of \<open>monitoring.coreos.com/v1\<close>
  or an error, with the answer of the three \<open>Is...Error\<close> functions.  \<open>ma_Collect\<close> is the garbage
  collector, \<open>ma_GetWebhooks\<close> the services of a \<open>ValidatingWebhookConfiguration\<close>.  Updates answer with
  the stored object, which the caller's object becomes.
\<close>

record ('w, 'c, 'f) ModuleAPI =
  ma_GetOGX :: "'w \<Rightarrow> string \<Rightarrow> api_error + 'c OGX"
  ma_UpdateOGX :: "'w \<Rightarrow> 'c OGX \<Rightarrow> (api_error + 'c OGX) \<times> 'w"
  ma_UpdateStatus :: "'w \<Rightarrow> 'c OGX \<Rightarrow> (api_error + 'c OGX) \<times> 'w"
  ma_GetConfigMap :: "'w \<Rightarrow> string \<Rightarrow> string \<Rightarrow> api_error + string gomap"
  ma_GetDeployment :: "'w \<Rightarrow> string \<Rightarrow> string \<Rightarrow> api_error + ModuleDeployment"
  ma_GetWebhooks :: "'w \<Rightarrow> string \<Rightarrow> api_error + (string \<times> string) option list"
  ma_GetService :: "'w \<Rightarrow> string \<Rightarrow> string \<Rightarrow> api_error option"
  ma_GetSecret :: "'w \<Rightarrow> string \<Rightarrow> string \<Rightarrow> api_error option"
  ma_ListServers :: "'w \<Rightarrow> api_error + ModuleObject list"
  ma_IsNoMatch :: "api_error \<Rightarrow> bool"
  ma_Deploy :: "'w \<Rightarrow> 'c OGX \<Rightarrow> string \<times> string \<Rightarrow> ModuleObject list \<Rightarrow> string option \<times> 'w"
  ma_Collect :: "('w \<Rightarrow> 'c OGX \<Rightarrow> string \<times> string \<Rightarrow> string option \<times> 'w) option"
  ma_Discover :: "('w \<Rightarrow> (bool \<times> string) + string list) option"
  ma_Render :: "'f option \<Rightarrow> string \<Rightarrow> string \<Rightarrow> string + ModuleObject list"
  ma_FS :: "'f FileSystem"
  ma_EmptyFS :: 'f
  ma_Disk :: "string \<Rightarrow> os_tree"
  ma_Getenv :: "string \<Rightarrow> string"
  ma_ValidRef :: "string \<Rightarrow> bool"
  ma_ReadFile :: "string \<Rightarrow> string + string"
  ma_UnmarshalReleases :: "string \<Rightarrow> string + ComponentRelease list"
  ma_NestedError :: "yaml \<Rightarrow> string list \<Rightarrow> string"
  ma_Conditions :: "'c ConditionLib"

section \<open>Small functions\<close>

definition managementState :: "'c OGX \<Rightarrow> ManagementState" where
  "managementState inst = (if ogx_ManagementState inst = Removed then Removed else Managed)"

definition ensureFinalizer :: "'c OGX \<Rightarrow> 'c OGX \<times> bool" where
  "ensureFinalizer inst =
     (if ogxFinalizer \<in> set (ogx_Finalizers inst) then (inst, False)
      else (inst\<lparr>ogx_Finalizers := ogx_Finalizers inst @ [ogxFinalizer]\<rparr>, True))"

definition clearFinalizer :: "'c OGX \<Rightarrow> 'c OGX" where
  "clearFinalizer inst = inst\<lparr>ogx_Finalizers := filter (\<lambda>f. f \<noteq> ogxFinalizer) (ogx_Finalizers inst)\<rparr>"

definition readPlatformVersionFromConfigMap :: "('w, 'c, 'f) ModuleAPI \<Rightarrow> ModuleConfig \<Rightarrow> 'w \<Rightarrow> string + string" where
  "readPlatformVersionFromConfigMap api cfg w =
     (if mcf_ApplicationsNamespace cfg = [] then Inr []
      else case ma_GetConfigMap api w (mcf_ApplicationsNamespace cfg) platformConfigCMName of
             Inl (NotFound _) \<Rightarrow> Inr []
           | Inl e \<Rightarrow> Inl (''failed to get platform config ConfigMap '' @ mcf_ApplicationsNamespace cfg @ ''/'' @ platformConfigCMName
                          @ '': '' @ apiText e)
           | Inr data \<Rightarrow>
               (let text = (\<lambda>k. trimSpace (case mget data k of None \<Rightarrow> [] | Some v \<Rightarrow> v))
                in if text platformVersionDataKey \<noteq> [] then Inr (text platformVersionDataKey)
                   else Inr (text KeyPlatformVersion)))"

definition refreshPlatformVersion :: "('w, 'c, 'f) ModuleAPI \<Rightarrow> ModuleConfig \<Rightarrow> 'w \<Rightarrow> string + ModuleConfig" where
  "refreshPlatformVersion api cfg w =
     ebind (readPlatformVersionFromConfigMap api cfg w) (\<lambda>version.
       Inr (if version \<noteq> [] then cfg\<lparr>mcf_PlatformVersion := version\<rparr> else cfg))"

definition platformVersion :: "ModuleConfig \<Rightarrow> string" where
  "platformVersion cfg = trimSpace (mcf_PlatformVersion cfg)"

definition isPlatformConfigMap :: "ModuleConfig \<Rightarrow> ObjectMeta \<Rightarrow> bool" where
  "isPlatformConfigMap cfg m \<longleftrightarrow> meta_Name m = platformConfigCMName \<and> meta_Namespace m = mcf_ApplicationsNamespace cfg"

definition loadComponentReleases :: "('w, 'c, 'f) ModuleAPI \<Rightarrow> ModuleConfig \<Rightarrow> string + ComponentRelease list" where
  "loadComponentReleases api cfg =
     (let p = pathJoin [mcf_ManifestsPath cfg, componentName, ''component_metadata.yaml''] in
      ebind (mapErr (\<lambda>e. ''failed to read component metadata '' @ p @ '': '' @ e) (ma_ReadFile api p)) (\<lambda>data.
        mapErr (\<lambda>e. ''failed to unmarshal component metadata '' @ p @ '': '' @ e) (ma_UnmarshalReleases api data)))"

section \<open>Rendering\<close>

definition deploymentGVK :: GVK where
  "deploymentGVK = \<lparr>gvk_Group = ''apps'', gvk_Version = ''v1'', gvk_Kind = ''Deployment''\<rparr>"

definition crdGVK :: GVK where
  "crdGVK = \<lparr>gvk_Group = ''apiextensions.k8s.io'', gvk_Version = ''v1'', gvk_Kind = ''CustomResourceDefinition''\<rparr>"

definition namespaceGVK :: GVK where
  "namespaceGVK = \<lparr>gvk_Group = [], gvk_Version = ''v1'', gvk_Kind = ''Namespace''\<rparr>"

definition serviceMonitorGVK :: GVK where
  "serviceMonitorGVK = \<lparr>gvk_Group = ''monitoring.coreos.com'', gvk_Version = ''v1'', gvk_Kind = ''ServiceMonitor''\<rparr>"

definition prometheusRuleGVK :: GVK where
  "prometheusRuleGVK = \<lparr>gvk_Group = ''monitoring.coreos.com'', gvk_Version = ''v1'', gvk_Kind = ''PrometheusRule''\<rparr>"

definition webhookGVK :: GVK where
  "webhookGVK = \<lparr>gvk_Group = ''admissionregistration.k8s.io'', gvk_Version = ''v1'', gvk_Kind = ''ValidatingWebhookConfiguration''\<rparr>"

definition monitoringCRDsAvailable :: "('w, 'c, 'f) ModuleAPI \<Rightarrow> 'w \<Rightarrow> string + bool" where
  "monitoringCRDsAvailable api w =
     (case ma_Discover api of
        None \<Rightarrow> Inr False
      | Some discover \<Rightarrow>
          (case discover w of
             Inl (unavailable, e) \<Rightarrow>
               if unavailable then Inr False
               else Inl (''failed to discover monitoring.coreos.com/v1 resources: '' @ e)
           | Inr kinds \<Rightarrow> Inr (''ServiceMonitor'' \<in> set kinds \<and> ''PrometheusRule'' \<in> set kinds)))"

definition filterRendered :: "bool \<Rightarrow> ModuleObject \<Rightarrow> ModuleObject option" where
  "filterRendered monitoringAvailable obj =
     (if mo_GVK obj = namespaceGVK then None
      else if mo_GVK obj = crdGVK then Some (obj\<lparr>mo_Namespace := []\<rparr>)
      else if (mo_GVK obj = serviceMonitorGVK \<or> mo_GVK obj = prometheusRuleGVK) \<and> \<not> monitoringAvailable then None
      else Some obj)"

definition renderRootOperatorResources :: "('w, 'c, 'f) ModuleAPI \<Rightarrow> ModuleConfig \<Rightarrow> 'w \<Rightarrow> string + ModuleObject list" where
  "renderRootOperatorResources api cfg w =
     (let overlay = overlayForPlatform (mcf_PlatformName cfg);
          componentRoot = pathJoin [mcf_ManifestsPath cfg, componentName]
      in ebind (if hasImageParamOverrides (ma_Getenv api)
                then emap (\<lambda>(fs, p). (Some fs, p))
                       (mapErr (\<lambda>e. ''failed to prepare manifest filesystem with image overrides: '' @ e)
                         (prepareManifestFSWithOverrides (ma_FS api) (ma_Getenv api) (ma_ValidRef api) (ma_EmptyFS api) (ma_Disk api) componentRoot overlay))
                else Inr (None, pathJoin [componentRoot, overlay])) (\<lambda>(fs, overlayPath).
         ebind (mapErr (\<lambda>e. ''failed to render root operator manifests from '' @ overlayPath @ '': '' @ e)
                  (ma_Render api fs overlayPath (mcf_ApplicationsNamespace cfg))) (\<lambda>rendered.
         ebind (mapErr (\<lambda>e. ''failed to check monitoring CRD availability: '' @ e) (monitoringCRDsAvailable api w)) (\<lambda>monitoringAvailable.
           Inr (List.map_filter (filterRendered monitoringAvailable) rendered)))))"

definition cleanupRootOperatorResources :: "('w, 'c, 'f) ModuleAPI \<Rightarrow> ModuleConfig \<Rightarrow> 'c OGX \<Rightarrow> 'w \<Rightarrow> string option \<times> 'w" where
  "cleanupRootOperatorResources api cfg inst w =
     (case ma_Collect api of
        None \<Rightarrow> (Some ''failed to run cleanup because garbage collector is not configured'', w)
      | Some collect \<Rightarrow> collect w inst (mcf_PlatformName cfg, mcf_PlatformVersion cfg))"

section \<open>Readiness\<close>

definition deploymentReady :: "ModuleDeployment \<Rightarrow> bool" where
  "deploymentReady d =
     (if md_Generation d > md_ObservedGeneration d then False
      else let expected = (case md_Replicas d of None \<Rightarrow> 1 | Some n \<Rightarrow> n)
           in \<not> (md_ReadyReplicas d < expected \<or> md_AvailableReplicas d < expected))"

fun deploymentsLoop :: "('w, 'c, 'f) ModuleAPI \<Rightarrow> 'w \<Rightarrow> (string \<times> string) list \<Rightarrow> string + bool" where
  "deploymentsLoop api w [] = Inr True"
| "deploymentsLoop api w ((ns, n) # keys) =
     (case ma_GetDeployment api w ns n of
        Inl e \<Rightarrow> Inl (''failed to get deployment '' @ ns @ ''/'' @ n @ '': '' @ apiText e)
      | Inr d \<Rightarrow> if deploymentReady d then deploymentsLoop api w keys else Inr False)"

definition rootDeploymentsReady :: "('w, 'c, 'f) ModuleAPI \<Rightarrow> 'w \<Rightarrow> ModuleObject list \<Rightarrow> string + bool" where
  "rootDeploymentsReady api w resources =
     deploymentsLoop api w (map (\<lambda>o'. (mo_Namespace o', mo_Name o')) (filter (\<lambda>o'. mo_GVK o' = deploymentGVK) resources))"

text \<open>\<open>unstructured.NestedFieldNoCopy\<close> (\<open>Inl\<close>: a field on the way is no map) and \<open>NestedSlice\<close>.\<close>

fun nestedField :: "yaml \<Rightarrow> string list \<Rightarrow> unit + yaml option" where
  "nestedField v [] = Inr (Some v)"
| "nestedField v (f # fs) =
     (case v of
        YNull \<Rightarrow> Inr None
      | YMap m \<Rightarrow> (case mget m f of None \<Rightarrow> Inr None | Some v' \<Rightarrow> nestedField v' fs)
      | _ \<Rightarrow> Inl ())"

definition nestedSlice :: "(yaml \<Rightarrow> string list \<Rightarrow> string) \<Rightarrow> yaml \<Rightarrow> string list \<Rightarrow> string + yaml list option" where
  "nestedSlice nestedError v keys =
     (case nestedField v keys of
        Inl _ \<Rightarrow> Inl (nestedError v keys)
      | Inr None \<Rightarrow> Inr None
      | Inr (Some x) \<Rightarrow> (case asList x of None \<Rightarrow> Inl (nestedError v keys) | Some l \<Rightarrow> Inr (Some l)))"

definition volumeSecretName :: "yaml \<Rightarrow> string" where
  "volumeSecretName volume =
     (case asMap volume of
        None \<Rightarrow> []
      | Some vol \<Rightarrow>
          (case asMap (mfield vol ''secret'') of
             None \<Rightarrow> []
           | Some secret \<Rightarrow> (case asStr (mfield secret ''secretName'') of None \<Rightarrow> [] | Some n \<Rightarrow> n)))"

definition webhookSecretRefsFromDeployment ::
    "(yaml \<Rightarrow> string list \<Rightarrow> string) \<Rightarrow> ModuleObject \<Rightarrow> string + (string \<times> string) list" where
  "webhookSecretRefsFromDeployment nestedError obj =
     ebind (nestedSlice nestedError (mo_Object obj) [''spec'', ''template'', ''spec'', ''volumes'']) (\<lambda>volumes.
       Inr (case volumes of
              None \<Rightarrow> []
            | Some vs \<Rightarrow> map (\<lambda>n. (mo_Namespace obj, n)) (filter (\<lambda>n. n \<noteq> []) (map volumeSecretName vs))))"

fun webhookResources ::
    "(yaml \<Rightarrow> string list \<Rightarrow> string) \<Rightarrow> ModuleObject list \<Rightarrow> string + (string list \<times> (string \<times> string) list)" where
  "webhookResources nestedError [] = Inr ([], [])"
| "webhookResources nestedError (obj # objs) =
     (if mo_GVK obj = webhookGVK then emap (\<lambda>(names, refs). (mo_Name obj # names, refs)) (webhookResources nestedError objs)
      else if mo_GVK obj = deploymentGVK
      then ebind (webhookSecretRefsFromDeployment nestedError obj) (\<lambda>secretRefs.
             emap (\<lambda>(names, refs). (names, secretRefs @ refs)) (webhookResources nestedError objs))
      else webhookResources nestedError objs)"

fun objectsExist :: "string \<Rightarrow> (string \<Rightarrow> string \<Rightarrow> api_error option) \<Rightarrow> (string \<times> string) list \<Rightarrow> string + bool" where
  "objectsExist what get [] = Inr True"
| "objectsExist what get ((ns, n) # keys) =
     (case get ns n of
        Some (NotFound _) \<Rightarrow> Inr False
      | Some e \<Rightarrow> Inl (''failed to get webhook '' @ what @ '' '' @ ns @ ''/'' @ n @ '': '' @ apiText e)
      | None \<Rightarrow> objectsExist what get keys)"

fun webhooksLoop :: "('w, 'c, 'f) ModuleAPI \<Rightarrow> 'w \<Rightarrow> string list \<Rightarrow> string + bool" where
  "webhooksLoop api w [] = Inr True"
| "webhooksLoop api w (name # names) =
     (case ma_GetWebhooks api w name of
        Inl (NotFound _) \<Rightarrow> Inr False
      | Inl e \<Rightarrow> Inl (''failed to get validating webhook configuration '' @ name @ '': '' @ apiText e)
      | Inr services \<Rightarrow>
          ebind (objectsExist ''service'' (ma_GetService api w) (List.map_filter (\<lambda>s. s) services)) (\<lambda>ok.
            if ok then webhooksLoop api w names else Inr False))"

definition rootWebhookResourcesReady :: "('w, 'c, 'f) ModuleAPI \<Rightarrow> 'w \<Rightarrow> ModuleObject list \<Rightarrow> string + bool" where
  "rootWebhookResourcesReady api w resources =
     ebind (webhookResources (ma_NestedError api) resources) (\<lambda>(webhookNames, webhookSecretRefs).
       if webhookNames = [] then Inr True
       else ebind (webhooksLoop api w webhookNames) (\<lambda>ok.
              if ok then objectsExist ''secret'' (ma_GetSecret api w) webhookSecretRefs else Inr False))"

section \<open>Health of the instances\<close>

definition textField :: "ymap \<Rightarrow> string \<Rightarrow> string" where
  "textField m k = (case asStr (mfield m k) of None \<Rightarrow> [] | Some s \<Rightarrow> s)"

definition hasConditionStatus :: "yaml list \<Rightarrow> string \<Rightarrow> string \<Rightarrow> bool" where
  "hasConditionStatus conditions conditionType status =
     list_ex (\<lambda>c. case asMap c of
                None \<Rightarrow> False
              | Some item \<Rightarrow> textField item ''type'' = conditionType \<and> textField item ''status'' = status) conditions"

definition ogxServerIsHealthy :: "(yaml \<Rightarrow> string list \<Rightarrow> string) \<Rightarrow> ModuleObject \<Rightarrow> bool" where
  "ogxServerIsHealthy nestedError obj =
     (case nestedSlice nestedError (mo_Object obj) [''status'', ''conditions''] of
        Inl _ \<Rightarrow> False
      | Inr None \<Rightarrow> False
      | Inr (Some conditions) \<Rightarrow>
          \<not> hasConditionStatus conditions ogxServerDeploymentReady ''False''
          \<and> \<not> hasConditionStatus conditions ogxServerHealthCheck ''False'')"

definition aggregateOGXServerHealth :: "('w, 'c, 'f) ModuleAPI \<Rightarrow> 'w \<Rightarrow> string + ogxServerHealthSummary" where
  "aggregateOGXServerHealth api w =
     (case ma_ListServers api w of
        Inl e \<Rightarrow>
          if ma_IsNoMatch api e \<or> (case e of NotFound _ \<Rightarrow> True | _ \<Rightarrow> False) then Inr noHealthSummary
          else Inl (''failed to list OGXServer instances: '' @ apiText e)
      | Inr items \<Rightarrow>
          (let unhealthy = filter (\<lambda>obj. \<not> ogxServerIsHealthy (ma_NestedError api) obj) items
           in Inr \<lparr>hs_Total = length items, hs_UnhealthyCount = length unhealthy,
                   hs_Unhealthy = map (\<lambda>obj. mo_Namespace obj @ ''/'' @ mo_Name obj) unhealthy\<rparr>))"

section \<open>Status\<close>

definition conditionMark :: "int \<Rightarrow> module_condition \<Rightarrow> ConditionStatus \<Rightarrow> string \<Rightarrow> string \<Rightarrow> Mark" where
  "conditionMark gen t st reason message =
     \<lparr>mk_Type = t, mk_Status = st, mk_ObservedGeneration = gen, mk_Reason = reason, mk_Text = Inr message, mk_InfoSeverity = False\<rparr>"

text \<open>The branches of the \<open>switch\<close>, in the order of the calls.\<close>

definition stateMarks :: "int \<Rightarrow> ManagementState \<Rightarrow> bool \<Rightarrow> bool \<Rightarrow> bool \<Rightarrow> string option \<Rightarrow> Mark list" where
  "stateMarks gen state provisioningSucceeded rootOperatorReady rootWebhookReady reconcileErr =
     (let mark = conditionMark gen in
      if state = Removed then
        [mark CondProvisioningSucceeded ConditionFalse ''Removed'' ''OGX module resources were removed'',
         mark CondRootOperatorReady ConditionFalse ''Removed'' ''Root OGX operator deployment is removed'',
         mark CondRootWebhookReady ConditionFalse ''Removed'' ''Root OGX operator webhook resources are removed'',
         mark CondDegraded ConditionFalse ''Removed'' ''OGX module is not degraded'']
      else case reconcileErr of
        Some e \<Rightarrow>
          [(mark CondProvisioningSucceeded ConditionFalse ''DeployFailed'' [])\<lparr>mk_Text := Inl e\<rparr>,
           mark CondRootOperatorReady ConditionFalse ''DeployFailed'' ''Root OGX operator deployment is not ready'',
           mark CondRootWebhookReady ConditionFalse ''DeployFailed'' ''Root OGX operator webhook resources are not ready'',
           mark CondDegraded ConditionFalse ''DeployFailed'' ''OGX module deploy failed'']
      | None \<Rightarrow>
          if rootOperatorReady then
            [mark CondProvisioningSucceeded ConditionTrue ''Provisioned'' ''Root OGX operator manifests applied successfully'',
             mark CondRootOperatorReady ConditionTrue ''DeploymentReady'' ''Root OGX operator deployment is ready'',
             if rootWebhookReady
             then mark CondRootWebhookReady ConditionTrue ''WebhookReady'' ''Root OGX operator webhook resources are ready''
             else mark CondRootWebhookReady ConditionFalse ''WebhookNotReady'' ''Root OGX operator webhook resources are not ready'']
          else if provisioningSucceeded then
            [mark CondProvisioningSucceeded ConditionTrue ''Provisioned'' ''Root OGX operator manifests applied successfully'',
             mark CondRootOperatorReady ConditionFalse ''Deploying'' ''Waiting for root OGX operator deployment to become ready'',
             mark CondRootWebhookReady ConditionFalse ''Deploying'' ''Waiting for root OGX operator webhook resources to become ready'']
          else
            [mark CondProvisioningSucceeded ConditionFalse ''Unknown'' ''OGX module provisioning state is unknown'',
             mark CondRootOperatorReady ConditionUnknown ''Unknown'' ''OGX module state is unknown'',
             mark CondRootWebhookReady ConditionUnknown ''Unknown'' ''OGX module webhook state is unknown''])"

definition degradedMark :: "int \<Rightarrow> ogxServerHealthSummary \<Rightarrow> Mark" where
  "degradedMark gen summary =
     (if hs_UnhealthyCount summary > 0
      then conditionMark gen CondDegraded ConditionTrue ''UnhealthyOGXServers''
             (''Unhealthy OGXServer instances: '' @ joinWith '', '' (hs_Unhealthy summary))
      else conditionMark gen CondDegraded ConditionFalse ''Healthy'' ''No unhealthy OGXServer instances detected'')\<lparr>mk_InfoSeverity := True\<rparr>"

definition dependents :: "module_condition list" where
  "dependents = [CondProvisioningSucceeded, CondRootOperatorReady, CondRootWebhookReady]"

definition newConditions :: "'c ConditionLib \<Rightarrow> Mark list \<Rightarrow> 'c \<Rightarrow> 'c" where
  "newConditions lib marks c =
     cd_Sort lib (fold (cd_Mark lib CondReady dependents) marks (cd_NewManager lib CondReady dependents c))"

definition module_updateStatus ::
    "('w, 'c, 'f) ModuleAPI \<Rightarrow> ModuleConfig \<Rightarrow> 'c OGX \<Rightarrow> bool \<Rightarrow> bool \<Rightarrow> bool \<Rightarrow> ogxServerHealthSummary \<Rightarrow> string option \<Rightarrow> 'w
       \<Rightarrow> string option \<times> 'c OGX \<times> 'w" where
  "module_updateStatus api cfg inst provisioningSucceeded rootOperatorReady rootWebhookReady summary reconcileErr w =
     (case ma_GetOGX api w (meta_Name (ogx_ObjectMeta inst)) of
        Inl (NotFound _) \<Rightarrow> (None, inst, w)
      | Inl e \<Rightarrow> (Some (apiText e), inst, w)
      | Inr latest \<Rightarrow>
          (let gen = meta_Generation (ogx_ObjectMeta latest);
               st = ogx_Status latest;
               releases = (case loadComponentReleases api cfg of Inl _ \<Rightarrow> ogxs_Releases st | Inr rs \<Rightarrow> rs);
               lib = ma_Conditions api;
               conds = newConditions lib
                 (stateMarks gen (managementState latest) provisioningSucceeded rootOperatorReady rootWebhookReady reconcileErr
                  @ [degradedMark gen summary]) (ogxs_Conditions st);
               reported = latest\<lparr>ogx_Status := \<lparr>ogxs_ObservedGeneration = gen,
                 ogxs_Phase = (if cd_IsHappy lib CondReady dependents conds then ModuleReady else ModuleNotReady),
                 ogxs_Conditions = conds, ogxs_Releases = setPlatformRelease releases (platformVersion cfg),
                 ogxs_Distribution = \<lparr>odist_Name = mcf_PlatformName cfg, odist_Version = platformVersion cfg\<rparr>\<rparr>\<rparr>
           in case ma_UpdateStatus api w reported of
                (Inl e, w') \<Rightarrow> (Some (apiText e), reported, w')
              | (Inr stored, w') \<Rightarrow> (None, stored, w')))"

text \<open>An error of the status update is only logged.\<close>

definition updateStatusOnError ::
    "('w, 'c, 'f) ModuleAPI \<Rightarrow> ModuleConfig \<Rightarrow> 'c OGX \<Rightarrow> bool \<Rightarrow> bool \<Rightarrow> bool \<Rightarrow> string \<Rightarrow> 'w \<Rightarrow> 'w" where
  "updateStatusOnError api cfg inst provisioningSucceeded rootOperatorReady rootWebhookReady reconcileErr w =
     (case module_updateStatus api cfg inst provisioningSucceeded rootOperatorReady rootWebhookReady noHealthSummary (Some reconcileErr) w of
        (_, _, w') \<Rightarrow> w')"

section \<open>A pass\<close>

record ModuleResult =
  mres_RequeueAfter :: "int option"
  mres_Error :: "string option"

definition moduleFailed :: "string \<Rightarrow> ModuleResult" where
  "moduleFailed e = \<lparr>mres_RequeueAfter = None, mres_Error = Some e\<rparr>"

definition moduleDone :: ModuleResult where
  "moduleDone = \<lparr>mres_RequeueAfter = None, mres_Error = None\<rparr>"

definition removeResources :: "('w, 'c, 'f) ModuleAPI \<Rightarrow> ModuleConfig \<Rightarrow> 'c OGX \<Rightarrow> 'w \<Rightarrow> ModuleResult \<times> 'w" where
  "removeResources api cfg inst w =
     (let (err, w1) = cleanupRootOperatorResources api cfg inst w;
          (statusErr, inst1, w2) = module_updateStatus api cfg inst False False False noHealthSummary err w1;
          err1 = (case err of Some e \<Rightarrow> Some e | None \<Rightarrow> statusErr)
      in case err1 of
           Some e \<Rightarrow> (moduleFailed e, w2)
         | None \<Rightarrow>
             if ogxFinalizer \<in> set (ogx_Finalizers inst1)
             then (case ma_UpdateOGX api w2 (clearFinalizer inst1) of
                     (Inl e, w3) \<Rightarrow> (moduleFailed (apiText e), w3)
                   | (Inr _, w3) \<Rightarrow> (moduleDone, w3))
             else (moduleDone, w2))"

definition deployResources :: "('w, 'c, 'f) ModuleAPI \<Rightarrow> ModuleConfig \<Rightarrow> 'c OGX \<Rightarrow> ModuleObject list \<Rightarrow> 'w \<Rightarrow> ModuleResult \<times> 'w" where
  "deployResources api cfg inst rendered w =
     (case ma_Deploy api w inst (mcf_PlatformName cfg, mcf_PlatformVersion cfg) rendered of
        (Some e, w1) \<Rightarrow> (moduleFailed e, updateStatusOnError api cfg inst False False False e w1)
      | (None, w1) \<Rightarrow>
          (case rootDeploymentsReady api w1 rendered of
             Inl e \<Rightarrow> (moduleFailed e, updateStatusOnError api cfg inst True False False e w1)
           | Inr deploymentsReady \<Rightarrow>
               (case rootWebhookResourcesReady api w1 rendered of
                  Inl e \<Rightarrow> (moduleFailed e, updateStatusOnError api cfg inst True deploymentsReady False e w1)
                | Inr webhookReady \<Rightarrow>
                    (case aggregateOGXServerHealth api w1 of
                       Inl e \<Rightarrow> (moduleFailed e, updateStatusOnError api cfg inst True deploymentsReady webhookReady e w1)
                     | Inr summary \<Rightarrow>
                         (case module_updateStatus api cfg inst True deploymentsReady webhookReady summary None w1 of
                            (Some e, _, w2) \<Rightarrow> (moduleFailed e, w2)
                          | (None, _, w2) \<Rightarrow>
                              (if \<not> deploymentsReady \<or> \<not> webhookReady
                               then \<lparr>mres_RequeueAfter = Some 10, mres_Error = None\<rparr> else moduleDone, w2))))))"

definition reconcileOGX :: "('w, 'c, 'f) ModuleAPI \<Rightarrow> ModuleConfig \<Rightarrow> 'c OGX \<Rightarrow> 'w \<Rightarrow> ModuleResult \<times> ModuleConfig \<times> 'w" where
  "reconcileOGX api cfg inst w =
     (case refreshPlatformVersion api cfg w of
        Inl e \<Rightarrow> (moduleFailed e, cfg, updateStatusOnError api cfg inst False False False e w)
      | Inr cfg1 \<Rightarrow>
          (case renderRootOperatorResources api cfg1 w of
             Inl e \<Rightarrow> (moduleFailed e, cfg1, updateStatusOnError api cfg1 inst False False False e w)
           | Inr rendered \<Rightarrow>
               (let (res, w') =
                      (if meta_DeletionTimestamp (ogx_ObjectMeta inst) \<noteq> None \<or> managementState inst = Removed
                       then removeResources api cfg1 inst w
                       else deployResources api cfg1 inst rendered w)
                in (res, cfg1, w'))))"

definition module_Reconcile :: "('w, 'c, 'f) ModuleAPI \<Rightarrow> ModuleConfig \<Rightarrow> string \<Rightarrow> 'w \<Rightarrow> ModuleResult \<times> ModuleConfig \<times> 'w" where
  "module_Reconcile api cfg name w =
     (case ma_GetOGX api w name of
        Inl (NotFound _) \<Rightarrow> (moduleDone, cfg, w)
      | Inl e \<Rightarrow> (moduleFailed (apiText e), cfg, w)
      | Inr inst \<Rightarrow>
          (case ensureFinalizer inst of
             (inst1, changed) \<Rightarrow>
               if managementState inst = Managed \<and> changed
               then (case ma_UpdateOGX api w inst1 of
                       (Inl e, w1) \<Rightarrow> (moduleFailed (apiText e), cfg, w1)
                     | (Inr stored, w1) \<Rightarrow> reconcileOGX api cfg stored w1)
               else reconcileOGX api cfg inst w))"

section \<open>Conditions and phase\<close>

text \<open>
  What the condition manager promises, with \<open>look\<close> the status and the reason of a condition: a mark sets
  its condition and leaves the other ones, up to the happy one, alone; sorting changes nothing; once
  every dependent was marked, the object is happy when they are all true.
\<close>

definition conditionLaws :: "'c ConditionLib \<Rightarrow> ('c \<Rightarrow> module_condition \<Rightarrow> (ConditionStatus \<times> string) option) \<Rightarrow> bool" where
  "conditionLaws lib look \<longleftrightarrow>
     (\<forall>happy deps m c. map_option fst (look (cd_Mark lib happy deps m c) (mk_Type m)) = Some (mk_Status m))
   \<and> (\<forall>happy deps m c t. mk_Text m = Inr t \<longrightarrow> look (cd_Mark lib happy deps m c) (mk_Type m) = Some (mk_Status m, mk_Reason m))
   \<and> (\<forall>happy deps m c t. t \<noteq> mk_Type m \<longrightarrow> t \<noteq> happy \<longrightarrow> look (cd_Mark lib happy deps m c) t = look c t)
   \<and> (\<forall>c. look (cd_Sort lib c) = look c)
   \<and> (\<forall>happy deps ms c. set deps \<subseteq> mk_Type ` set ms \<longrightarrow>
        cd_IsHappy lib happy deps (cd_Sort lib (fold (cd_Mark lib happy deps) ms c)) \<longleftrightarrow>
        (\<forall>d \<in> set deps. map_option fst (look (cd_Sort lib (fold (cd_Mark lib happy deps) ms c)) d) = Some ConditionTrue))"

lemma mark_laws:
  assumes "conditionLaws lib look"
  shows "map_option fst (look (cd_Mark lib h deps m c) (mk_Type m)) = Some (mk_Status m)"
    and "mk_Text m = Inr t \<Longrightarrow> look (cd_Mark lib h deps m c) (mk_Type m) = Some (mk_Status m, mk_Reason m)"
    and "t' \<noteq> mk_Type m \<Longrightarrow> t' \<noteq> h \<Longrightarrow> look (cd_Mark lib h deps m c) t' = look c t'"
    and "look (cd_Sort lib c) = look c"
  using assms by (auto simp: conditionLaws_def)

text \<open>The last mark of a type decides.\<close>

lemma fold_marks:
  assumes "conditionLaws lib look" "t \<noteq> h"
  shows "map_option fst (look (fold (cd_Mark lib h deps) ms c) t)
     = (case find (\<lambda>m. mk_Type m = t) (rev ms) of None \<Rightarrow> map_option fst (look c t) | Some m \<Rightarrow> Some (mk_Status m))"
proof (induction ms arbitrary: c rule: rev_induct)
  case (snoc m ms)
  then show ?case using mark_laws(1,3) [OF assms(1), where h = h and deps = deps and m = m and c = "fold (cd_Mark lib h deps) ms c"] assms(2) by auto
qed simp

lemma stateMarks_last:
  "find (\<lambda>m. mk_Type m = t) (rev (stateMarks gen state prov op wh err @ [degradedMark gen sm])) =
     (if t = CondDegraded then Some (degradedMark gen sm) else find (\<lambda>m. mk_Type m = t) (rev (stateMarks gen state prov op wh err)))"
  by (auto simp: degradedMark_def conditionMark_def)

lemma stateMarks_status:
  fixes gen state prov op wh err
  defines "status t \<equiv> map_option mk_Status (find (\<lambda>m. mk_Type m = t) (rev (stateMarks gen state prov op wh err)))"
    and "good \<equiv> state \<noteq> Removed \<and> err = None"
  shows "status CondProvisioningSucceeded = Some (if good \<and> (op \<or> prov) then ConditionTrue else ConditionFalse)"
    and "status CondRootOperatorReady = Some (if good \<and> op then ConditionTrue else if good \<and> \<not> prov then ConditionUnknown else ConditionFalse)"
    and "status CondRootWebhookReady = Some (if good \<and> op \<and> wh then ConditionTrue else if good \<and> \<not> op \<and> \<not> prov then ConditionUnknown else ConditionFalse)"
  by (auto simp: status_def good_def stateMarks_def conditionMark_def Let_def split: option.split)

lemma newConditions_status:
  assumes "conditionLaws lib look" "t \<in> set dependents \<or> t = CondDegraded"
  shows "map_option fst (look (newConditions lib (stateMarks gen state prov op wh err @ [degradedMark gen sm]) c) t) =
     (if t = CondDegraded then Some (mk_Status (degradedMark gen sm))
      else map_option mk_Status (find (\<lambda>m. mk_Type m = t) (rev (stateMarks gen state prov op wh err))))"
proof -
  have ne: "t \<noteq> CondReady" using assms(2) by (auto simp: dependents_def)
  have "find (\<lambda>m. mk_Type m = t) (rev (stateMarks gen state prov op wh err)) \<noteq> None" if "t \<in> set dependents"
    using that stateMarks_status [of gen state prov op wh err] by (auto simp: dependents_def)
  then show ?thesis
    using assms(2) unfolding newConditions_def mark_laws(4) [OF assms(1)] fold_marks [OF assms(1) ne] stateMarks_last
    by (auto split: option.split)
qed

lemma newConditions_degraded:
  assumes "conditionLaws lib look"
  shows "look (newConditions lib (ms @ [degradedMark gen sm]) c) CondDegraded =
     Some (if hs_UnhealthyCount sm > 0 then (ConditionTrue, ''UnhealthyOGXServers'') else (ConditionFalse, ''Healthy''))"
proof -
  let ?c = "fold (cd_Mark lib CondReady dependents) ms (cd_NewManager lib CondReady dependents c)"
  have "\<exists>t. mk_Text (degradedMark gen sm) = Inr t" by (simp add: degradedMark_def conditionMark_def)
  then obtain t where "mk_Text (degradedMark gen sm) = Inr t" ..
  from mark_laws(2) [OF assms this, where h = CondReady and deps = dependents and c = ?c] show ?thesis
    by (auto simp: newConditions_def mark_laws(4) [OF assms] degradedMark_def conditionMark_def)
qed

lemma newConditions_happy:
  assumes "conditionLaws lib look"
  shows "cd_IsHappy lib CondReady dependents (newConditions lib (stateMarks gen state prov op wh err @ [degradedMark gen sm]) c)
     \<longleftrightarrow> state \<noteq> Removed \<and> err = None \<and> op \<and> wh"
proof -
  let ?ms = "stateMarks gen state prov op wh err @ [degradedMark gen sm]"
  have "set dependents \<subseteq> mk_Type ` set ?ms"
    by (auto simp: dependents_def stateMarks_def conditionMark_def Let_def split: option.split)
  then have "cd_IsHappy lib CondReady dependents (newConditions lib ?ms c) \<longleftrightarrow>
      (\<forall>d \<in> set dependents. map_option fst (look (newConditions lib ?ms c) d) = Some ConditionTrue)"
    using assms unfolding conditionLaws_def newConditions_def by blast
  also have "\<dots> \<longleftrightarrow> (\<forall>d \<in> set dependents. map_option mk_Status (find (\<lambda>m. mk_Type m = d) (rev (stateMarks gen state prov op wh err))) = Some ConditionTrue)"
    by (rule ball_cong [OF refl]) (subst newConditions_status [OF assms], auto simp: dependents_def)
  also have "\<dots> \<longleftrightarrow> state \<noteq> Removed \<and> err = None \<and> op \<and> wh"
    by (simp add: dependents_def stateMarks_status del: map_option_eq_Some)
  finally show ?thesis .
qed

lemma setReleaseLoop_platform: "\<exists>r \<in> set (setReleaseLoop v rs). crel_Name r = platformReleaseName \<and> crel_Version r = v"
  by (induction rs) (auto simp: platformReleaseName_def)

section \<open>Readiness in full\<close>

lemma deploymentsLoop_True_iff:
  "deploymentsLoop api w keys = Inr True \<longleftrightarrow>
     (\<forall>(ns, n) \<in> set keys. \<exists>d. ma_GetDeployment api w ns n = Inr d \<and> deploymentReady d)"
  by (induction keys) (auto split: sum.splits if_splits)

lemma objectsExist_True_iff: "objectsExist what get keys = Inr True \<longleftrightarrow> (\<forall>(ns, n) \<in> set keys. get ns n = None)"
  by (induction keys) (auto split: option.splits api_error.splits)

lemma webhooksLoop_True_iff:
  "webhooksLoop api w names = Inr True \<longleftrightarrow>
     (\<forall>name \<in> set names. \<exists>services. ma_GetWebhooks api w name = Inr services
        \<and> (\<forall>ns n. Some (ns, n) \<in> set services \<longrightarrow> ma_GetService api w ns n = None))"
proof (induction names)
  case (Cons name names)
  show ?case
  proof (cases "ma_GetWebhooks api w name")
    case (Inr services)
    have "objectsExist ''service'' (ma_GetService api w) (List.map_filter (\<lambda>s. s) services) = Inr True \<longleftrightarrow>
        (\<forall>ns n. Some (ns, n) \<in> set services \<longrightarrow> ma_GetService api w ns n = None)"
      by (auto simp: objectsExist_True_iff List.map_filter_def)
    with Cons.IH Inr show ?thesis by (auto simp: ebind_Inr_iff split: if_splits)
  qed (auto split: api_error.split)
qed simp

lemma webhookResources_names:
  "webhookResources ne objs = Inr (names, refs) \<Longrightarrow> names = map mo_Name (filter (\<lambda>o'. mo_GVK o' = webhookGVK) objs)
     \<and> (\<forall>o' \<in> set objs. mo_GVK o' = deploymentGVK \<longrightarrow> (\<exists>rs. webhookSecretRefsFromDeployment ne o' = Inr rs \<and> set rs \<subseteq> set refs))"
proof (induction objs arbitrary: names refs)
  case (Cons obj objs)
  have dw: "deploymentGVK \<noteq> webhookGVK" by (simp add: deploymentGVK_def webhookGVK_def)
  show ?case
  proof (cases "webhookResources ne objs")
    case (Inl e)
    then show ?thesis using Cons.prems by (auto simp: ebind_Inr_iff split: if_splits)
  next
    case (Inr nr)
    obtain ns rs where nr: "nr = (ns, rs)" by force
    show ?thesis using Cons.IH [of ns rs] Cons.prems Inr nr dw by (auto simp: ebind_Inr_iff split: if_splits) blast
  qed
qed simp

section \<open>Properties\<close>


text \<open>
  (C18) A pass over a managed module that asks for no further pass has found everything it deployed: in
  the state after the deployment every rendered Deployment has observed its latest generation and runs
  the wanted replicas, every rendered webhook configuration exists with the services it calls and, with
  such a configuration, every Secret that a rendered Deployment mounts.
\<close>

theorem module_settles_only_when_ready:
  assumes "ma_GetOGX api w name = Inr inst" "ogxFinalizer \<in> set (ogx_Finalizers inst)"
    and "ogx_ManagementState inst \<noteq> Removed" "meta_DeletionTimestamp (ogx_ObjectMeta inst) = None"
    and "module_Reconcile api cfg name w = (moduleDone, cfg', w')"
  shows "\<exists>rendered w1. renderRootOperatorResources api cfg' w = Inr rendered
    \<and> ma_Deploy api w inst (mcf_PlatformName cfg', mcf_PlatformVersion cfg') rendered = (None, w1)
    \<and> (\<forall>o' \<in> set rendered. mo_GVK o' = deploymentGVK \<longrightarrow>
         (\<exists>d. ma_GetDeployment api w1 (mo_Namespace o') (mo_Name o') = Inr d \<and> md_Generation d \<le> md_ObservedGeneration d
            \<and> (let wanted = (case md_Replicas d of None \<Rightarrow> 1 | Some n \<Rightarrow> n) in wanted \<le> md_ReadyReplicas d \<and> wanted \<le> md_AvailableReplicas d)))
    \<and> (\<forall>o' \<in> set rendered. mo_GVK o' = webhookGVK \<longrightarrow>
         (\<exists>services. ma_GetWebhooks api w1 (mo_Name o') = Inr services
            \<and> (\<forall>ns n. Some (ns, n) \<in> set services \<longrightarrow> ma_GetService api w1 ns n = None))
         \<and> (\<forall>o2 \<in> set rendered. mo_GVK o2 = deploymentGVK \<longrightarrow>
              (\<exists>refs. webhookSecretRefsFromDeployment (ma_NestedError api) o2 = Inr refs
                 \<and> (\<forall>(ns, n) \<in> set refs. ma_GetSecret api w1 ns n = None))))"
proof -
  have "reconcileOGX api cfg inst w = (moduleDone, cfg', w')"
    using assms by (simp add: module_Reconcile_def ensureFinalizer_def)
  then obtain rendered where r: "renderRootOperatorResources api cfg' w = Inr rendered"
      and d: "deployResources api cfg' inst rendered w = (moduleDone, w')"
    using assms(3,4) by (auto simp: reconcileOGX_def moduleFailed_def moduleDone_def managementState_def Let_def
        split: sum.splits prod.splits)
  then obtain w1 where dep: "ma_Deploy api w inst (mcf_PlatformName cfg', mcf_PlatformVersion cfg') rendered = (None, w1)"
      and dr: "rootDeploymentsReady api w1 rendered = Inr True" and wr: "rootWebhookResourcesReady api w1 rendered = Inr True"
    by (auto simp: deployResources_def moduleFailed_def moduleDone_def split: sum.splits prod.splits option.splits if_splits)
  have deployments: "\<exists>d. ma_GetDeployment api w1 (mo_Namespace o') (mo_Name o') = Inr d \<and> deploymentReady d"
    if "o' \<in> set rendered" "mo_GVK o' = deploymentGVK" for o'
    using dr that by (auto simp: rootDeploymentsReady_def deploymentsLoop_True_iff)
  obtain names refs where n: "webhookResources (ma_NestedError api) rendered = Inr (names, refs)"
      and all: "names = [] \<or> webhooksLoop api w1 names = Inr True \<and> objectsExist ''secret'' (ma_GetSecret api w1) refs = Inr True"
    using wr by (auto simp: rootWebhookResourcesReady_def ebind_Inr_iff split: if_splits)
  note names = webhookResources_names [OF n]
  have "names \<noteq> []" if "o' \<in> set rendered" "mo_GVK o' = webhookGVK" for o'
    using names that by (auto simp: filter_empty_conv)
  then have hooks: "(\<exists>services. ma_GetWebhooks api w1 (mo_Name o') = Inr services
        \<and> (\<forall>ns n. Some (ns, n) \<in> set services \<longrightarrow> ma_GetService api w1 ns n = None))
      \<and> (\<forall>(ns, n) \<in> set refs. ma_GetSecret api w1 ns n = None)"
    if "o' \<in> set rendered" "mo_GVK o' = webhookGVK" for o'
    using that names all by (auto simp: webhooksLoop_True_iff objectsExist_True_iff)
  have ready: "md_Generation d \<le> md_ObservedGeneration d
      \<and> (let wanted = (case md_Replicas d of None \<Rightarrow> 1 | Some n \<Rightarrow> n) in wanted \<le> md_ReadyReplicas d \<and> wanted \<le> md_AvailableReplicas d)"
    if "deploymentReady d" for d
    using that by (auto simp: deploymentReady_def Let_def split: if_splits)
  have secrets: "\<exists>rs. webhookSecretRefsFromDeployment (ma_NestedError api) o2 = Inr rs \<and> (\<forall>(ns, n) \<in> set rs. ma_GetSecret api w1 ns n = None)"
    if "o' \<in> set rendered" "mo_GVK o' = webhookGVK" "o2 \<in> set rendered" "mo_GVK o2 = deploymentGVK" for o' o2
    using hooks [OF that(1,2)] names that(3,4) by blast
  show ?thesis
    using r dep deployments ready hooks secrets by (intro exI [of _ rendered] exI [of _ w1] conjI ballI impI) blast+
qed

text \<open>A state that is reached by at most one update of the status.\<close>

definition statusOnly :: "('w, 'c, 'f) ModuleAPI \<Rightarrow> 'w \<Rightarrow> 'w \<Rightarrow> bool" where
  "statusOnly api w w' \<longleftrightarrow> w' = w \<or> (\<exists>reported. w' = snd (ma_UpdateStatus api w reported))"

lemma updateStatus_only: "module_updateStatus api cfg inst a b c sm err w = (e, inst', w') \<Longrightarrow> statusOnly api w w'"
proof (cases "ma_GetOGX api w (meta_Name (ogx_ObjectMeta inst))")
  case (Inr latest)
  assume u: "module_updateStatus api cfg inst a b c sm err w = (e, inst', w')"
  have "\<exists>reported. module_updateStatus api cfg inst a b c sm err w =
      (case ma_UpdateStatus api w reported of
         (Inl e, w') \<Rightarrow> (Some (apiText e), reported, w')
       | (Inr stored, w') \<Rightarrow> (None, stored, w'))"
    unfolding module_updateStatus_def Inr Let_def sum.case by (rule exI, rule refl)
  then obtain reported where r: "(e, inst', w') =
      (case ma_UpdateStatus api w reported of
         (Inl e, w') \<Rightarrow> (Some (apiText e), reported, w')
       | (Inr stored, w') \<Rightarrow> (None, stored, w'))"
    using u by auto
  obtain x w2 where "ma_UpdateStatus api w reported = (x, w2)" by force
  then have "w' = snd (ma_UpdateStatus api w reported)" using r by (cases x) simp_all
  then show ?thesis by (auto simp: statusOnly_def)
qed (auto simp: module_updateStatus_def statusOnly_def split: api_error.splits)

lemma onError_only: "statusOnly api w (updateStatusOnError api cfg inst a b c e w)"
  by (auto simp: updateStatusOnError_def split: prod.split dest: updateStatus_only)

text \<open>
  (C17) The finalizer outlives the deployed objects: when a module is deleted or set to Removed, a pass
  removes the finalizer only after the cleanup succeeded and the status was written; after a failed
  cleanup it reports the error and writes nothing but the status.  The cleanup is not even tried while the platform
  configuration cannot be read or the manifests, which the removal does not use, cannot be rendered.
\<close>

theorem finalizer_outlives_cleanup:
  assumes "ma_GetOGX api w name = Inr inst" "ogxFinalizer \<in> set (ogx_Finalizers inst)"
    and "ogx_ManagementState inst = Removed \<or> meta_DeletionTimestamp (ogx_ObjectMeta inst) \<noteq> None"
    and "module_Reconcile api cfg name w = (res, cfg', w')"
  shows "case ebind (refreshPlatformVersion api cfg w) (\<lambda>cfg1. emap (\<lambda>_. cfg1) (renderRootOperatorResources api cfg1 w)) of
      Inl e \<Rightarrow> mres_Error res = Some e \<and> statusOnly api w w'
    | Inr cfg1 \<Rightarrow>
        (case cleanupRootOperatorResources api cfg1 inst w of
           (Some e, w1) \<Rightarrow> mres_Error res = Some e \<and> statusOnly api w1 w'
         | (None, w1) \<Rightarrow>
             (\<exists>e inst1 w2. module_updateStatus api cfg1 inst False False False noHealthSummary None w1 = (e, inst1, w2)
                \<and> (if e = None \<and> ogxFinalizer \<in> set (ogx_Finalizers inst1)
                   then w' = snd (ma_UpdateOGX api w2 (clearFinalizer inst1)) else w' = w2)
                \<and> (mres_Error res = None \<longrightarrow> e = None)))"
proof -
  have r: "reconcileOGX api cfg inst w = (res, cfg', w')" using assms by (simp add: module_Reconcile_def ensureFinalizer_def)
  have del: "meta_DeletionTimestamp (ogx_ObjectMeta inst) \<noteq> None \<or> managementState inst = Removed"
    using assms(3) by (auto simp: managementState_def)
  show ?thesis
  proof (cases "ebind (refreshPlatformVersion api cfg w) (\<lambda>cfg1. emap (\<lambda>_. cfg1) (renderRootOperatorResources api cfg1 w))")
    case (Inl e)
    then show ?thesis
      using r onError_only by (auto simp: ebind_Inl_iff reconcileOGX_def moduleFailed_def emap_def split: sum.splits)
  next
    case (Inr cfg1)
    then have "removeResources api cfg1 inst w = (res, w')"
      using r del by (auto simp: ebind_Inr_iff reconcileOGX_def emap_def Let_def split: sum.splits prod.splits)
    moreover obtain err w1 where c: "cleanupRootOperatorResources api cfg1 inst w = (err, w1)" by force
    moreover obtain e inst1 w2 where u: "module_updateStatus api cfg1 inst False False False noHealthSummary err w1 = (e, inst1, w2)"
      by (rule prod_cases3)
    ultimately show ?thesis
      using Inr updateStatus_only [OF u]
      by (cases err; cases e) (auto simp: removeResources_def moduleFailed_def moduleDone_def split: prod.splits sum.splits if_splits)
  qed
qed

section \<open>Witnesses\<close>

text \<open>
  A cluster that holds one \<open>OGX\<close> object, a map of conditions, and an API that stores what it is given;
  the operator's Deployment runs with the given number of replicas.
\<close>

type_synonym cond_map = "module_condition \<Rightarrow> (ConditionStatus \<times> string) option"

definition mapConditions :: "cond_map ConditionLib" where
  "mapConditions = \<lparr>cd_NewManager = (\<lambda>_ _ c. c), cd_Mark = (\<lambda>_ _ m c. c(mk_Type m \<mapsto> (mk_Status m, mk_Reason m))), cd_Sort = (\<lambda>c. c),
     cd_IsHappy = (\<lambda>_ deps c. \<forall>d \<in> set deps. map_option fst (c d) = Some ConditionTrue)\<rparr>"

lemma mapConditions_laws: "conditionLaws mapConditions (\<lambda>c. c)"
  by (simp add: conditionLaws_def mapConditions_def)

definition exOGX :: "ManagementState \<Rightarrow> cond_map OGX" where
  "exOGX state = \<lparr>ogx_ObjectMeta = \<lparr>meta_Name = ''default-ogx'', meta_Namespace = [], meta_UID = ''o'', meta_Generation = 2,
       meta_ResourceVersion = [], meta_Labels = mempty, meta_Annotations = mempty, meta_OwnerReferences = [], meta_DeletionTimestamp = None\<rparr>,
     ogx_Finalizers = [ogxFinalizer], ogx_ManagementState = state,
     ogx_Status = \<lparr>ogxs_ObservedGeneration = 0, ogxs_Phase = ModulePhaseUnset, ogxs_Conditions = Map.empty, ogxs_Releases = [],
       ogxs_Distribution = \<lparr>odist_Name = [], odist_Version = []\<rparr>\<rparr>\<rparr>"

definition exOperator :: ModuleObject where
  "exOperator = \<lparr>mo_GVK = deploymentGVK, mo_Name = ''ogx-operator'', mo_Namespace = ''opendatahub'', mo_Object = YMap []\<rparr>"

definition exModuleAPI :: "int \<Rightarrow> (cond_map OGX, cond_map, string) ModuleAPI" where
  "exModuleAPI ready = \<lparr>ma_GetOGX = (\<lambda>w _. Inr w), ma_UpdateOGX = (\<lambda>_ o'. (Inr o', o')), ma_UpdateStatus = (\<lambda>_ o'. (Inr o', o')),
     ma_GetConfigMap = (\<lambda>_ _ n. Inl (NotFound n)),
     ma_GetDeployment = (\<lambda>_ _ _. Inr \<lparr>md_Generation = 1, md_ObservedGeneration = 1, md_Replicas = None, md_ReadyReplicas = ready, md_AvailableReplicas = ready\<rparr>),
     ma_GetWebhooks = (\<lambda>_ n. Inl (NotFound n)), ma_GetService = (\<lambda>_ _ _. None), ma_GetSecret = (\<lambda>_ _ _. None),
     ma_ListServers = (\<lambda>_. Inr []), ma_IsNoMatch = (\<lambda>_. False), ma_Deploy = (\<lambda>w _ _ _. (None, w)),
     ma_Collect = Some (\<lambda>w _ _. (None, w)), ma_Discover = None, ma_Render = (\<lambda>_ _ _. Inr [exOperator]), ma_FS = oneFile,
     ma_EmptyFS = [], ma_Disk = OsMissing, ma_Getenv = (\<lambda>_. []), ma_ValidRef = exValidRef, ma_ReadFile = (\<lambda>_. Inl ''no file''),
     ma_UnmarshalReleases = (\<lambda>_. Inr []), ma_NestedError = (\<lambda>_ _. ''no list''), ma_Conditions = mapConditions\<rparr>"

definition exModuleConfig :: ModuleConfig where
  "exModuleConfig = \<lparr>mcf_ManifestsPath = ''config/manifests'', mcf_ApplicationsNamespace = ''opendatahub'', mcf_PlatformName = ''OpenDataHub'',
     mcf_PlatformVersion = ''unknown''\<rparr>"

lemma exModule_steps:
  "refreshPlatformVersion (exModuleAPI n) exModuleConfig w = Inr exModuleConfig"
  "renderRootOperatorResources (exModuleAPI n) exModuleConfig w = Inr [exOperator]"
  by (simp_all add: refreshPlatformVersion_def readPlatformVersionFromConfigMap_def renderRootOperatorResources_def exModuleAPI_def
      exModuleConfig_def hasImageParamOverrides_def imageParamEnvMap_def monitoringCRDsAvailable_def exOperator_def filterRendered_def
      List.map_filter_def deploymentGVK_def namespaceGVK_def crdGVK_def serviceMonitorGVK_def prometheusRuleGVK_def Let_def)


theorem module_settles_only_when_ready_witness:
  "\<exists>d. ma_GetDeployment (exModuleAPI 1) (exOGX Managed) ''opendatahub'' ''ogx-operator'' = Inr d \<and> 1 \<le> md_ReadyReplicas d"
proof -
  have g: "ma_GetOGX (exModuleAPI 1) (exOGX Managed) ''default-ogx'' = Inr (exOGX Managed)" by (simp add: exModuleAPI_def)
  have ready: "rootDeploymentsReady (exModuleAPI 1) w [exOperator] = Inr True" "rootWebhookResourcesReady (exModuleAPI 1) w [exOperator] = Inr True" for w
    by (simp_all add: rootDeploymentsReady_def rootWebhookResourcesReady_def exModuleAPI_def exOperator_def deploymentReady_def
        webhookSecretRefsFromDeployment_def nestedSlice_def webhookGVK_def deploymentGVK_def)
  have other: "ma_Deploy (exModuleAPI 1) w i v rs = (None, w)" "aggregateOGXServerHealth (exModuleAPI 1) w = Inr noHealthSummary" for w i v rs
    by (simp_all add: exModuleAPI_def aggregateOGXServerHealth_def noHealthSummary_def)
  have "\<exists>i' w2. module_updateStatus (exModuleAPI 1) exModuleConfig i True True True noHealthSummary None w = (None, i', w2)" for i w
    by (simp add: module_updateStatus_def Let_def exModuleAPI_def)
  then obtain i' w2 where
    "module_updateStatus (exModuleAPI 1) exModuleConfig (exOGX Managed) True True True noHealthSummary None (exOGX Managed) = (None, i', w2)"
    by blast
  then have "fst (deployResources (exModuleAPI 1) exModuleConfig (exOGX Managed) [exOperator] (exOGX Managed)) = moduleDone"
    by (simp add: deployResources_def ready other)
  then obtain w' where "module_Reconcile (exModuleAPI 1) exModuleConfig ''default-ogx'' (exOGX Managed) = (moduleDone, exModuleConfig, w')"
    using g by (cases "deployResources (exModuleAPI 1) exModuleConfig (exOGX Managed) [exOperator] (exOGX Managed)")
      (simp add: module_Reconcile_def ensureFinalizer_def reconcileOGX_def exModule_steps exOGX_def managementState_def)
  from module_settles_only_when_ready [OF g _ _ _ this] show ?thesis
    by (simp add: exModule_steps) (auto simp: exOGX_def exModuleAPI_def exOperator_def)
qed

theorem finalizer_outlives_cleanup_witness:
  "\<exists>w1 e inst1 w2. cleanupRootOperatorResources (exModuleAPI 0) exModuleConfig (exOGX Removed) (exOGX Removed) = (None, w1)
     \<and> module_updateStatus (exModuleAPI 0) exModuleConfig (exOGX Removed) False False False noHealthSummary None w1 = (e, inst1, w2)
     \<and> ogx_Finalizers (snd (snd (module_Reconcile (exModuleAPI 0) exModuleConfig ''default-ogx'' (exOGX Removed))))
       = (if e = None \<and> ogxFinalizer \<in> set (ogx_Finalizers inst1) then ogx_Finalizers (clearFinalizer inst1) else ogx_Finalizers w2)"
proof -
  have g: "ma_GetOGX (exModuleAPI 0) (exOGX Removed) ''default-ogx'' = Inr (exOGX Removed)" by (simp add: exModuleAPI_def)
  have f: "ogxFinalizer \<in> set (ogx_Finalizers (exOGX Removed))" "ogx_ManagementState (exOGX Removed) = Removed" by (simp_all add: exOGX_def)
  obtain res cfg' w' where m: "module_Reconcile (exModuleAPI 0) exModuleConfig ''default-ogx'' (exOGX Removed) = (res, cfg', w')"
    by (rule prod_cases3)
  have c: "cleanupRootOperatorResources (exModuleAPI 0) exModuleConfig (exOGX Removed) (exOGX Removed) = (None, exOGX Removed)"
    by (simp add: cleanupRootOperatorResources_def exModuleAPI_def)
  have u: "snd (ma_UpdateOGX (exModuleAPI 0) w2 o') = o'" for w2 o' by (simp add: exModuleAPI_def)
  have steps: "ebind (refreshPlatformVersion (exModuleAPI 0) exModuleConfig (exOGX Removed))
      (\<lambda>cfg1. emap (\<lambda>_. cfg1) (renderRootOperatorResources (exModuleAPI 0) cfg1 (exOGX Removed))) = Inr exModuleConfig"
    by (simp add: exModule_steps)
  from finalizer_outlives_cleanup [OF g f(1) disjI1 [OF f(2)] m]
  obtain e inst1 w2 where s: "module_updateStatus (exModuleAPI 0) exModuleConfig (exOGX Removed) False False False noHealthSummary None (exOGX Removed) = (e, inst1, w2)"
      "if e = None \<and> ogxFinalizer \<in> set (ogx_Finalizers inst1) then w' = snd (ma_UpdateOGX (exModuleAPI 0) w2 (clearFinalizer inst1)) else w' = w2"
    unfolding steps sum.case c prod.case option.case by blast
  from s(2) have "ogx_Finalizers w' = (if e = None \<and> ogxFinalizer \<in> set (ogx_Finalizers inst1) then ogx_Finalizers (clearFinalizer inst1) else ogx_Finalizers w2)"
    by (simp add: u split: if_splits)
  with s(1) c m show ?thesis by (intro exI [of _ "exOGX Removed"] exI [of _ e] exI [of _ inst1] exI [of _ w2]) simp
qed

end
