(* ===== verification/Watches.thy ===== *)
theory Watches
  imports Reconciler
begin

text \<open>
  Which events lead to a reconciliation pass (\<open>ogxserver_controller.go\<close>, \<open>SetupWithManager\<close> and the
  functions it registers), and how the ConfigMap of the operator is set up.  A change of a user's
  ConfigMap or Secret that is mapped to no request for an instance is shown to change nothing that a
  pass over the instance derives from ConfigMaps and Secrets.
\<close>

section \<open>Events\<close>

definition managedByLabelKey :: string where
  "managedByLabelKey = ''app.kubernetes.io/managed-by''"

definition managedByLabelVal :: string where
  "managedByLabelVal = ''ogx-operator''"

text \<open>\<open>client.Object\<close>: the types the functions assert, and any other by its metadata.\<close>

datatype client_object =
    ServerObject OGXServer
  | ConfigMapObj ObjectMeta
  | SecretObj ObjectMeta
  | OtherObject ObjectMeta

fun objectMeta :: "client_object \<Rightarrow> ObjectMeta" where
  "objectMeta (ServerObject s) = srv_ObjectMeta s"
| "objectMeta (ConfigMapObj m) = m"
| "objectMeta (SecretObj m) = m"
| "objectMeta (OtherObject m) = m"

datatype watch_event =
    CreateEvent client_object
  | UpdateEvent client_object client_object
  | DeleteEvent client_object
  | GenericEvent client_object

record Request =
  req_Namespace :: string
  req_Name :: string

definition requestFor :: "OGXServer \<Rightarrow> Request" where
  "requestFor inst = \<lparr>req_Namespace = meta_Namespace (srv_ObjectMeta inst), req_Name = meta_Name (srv_ObjectMeta inst)\<rparr>"

section \<open>Predicates\<close>

text \<open>The difference of the specs is only printed.\<close>

definition ogxServerUpdatePredicate :: "client_object \<Rightarrow> client_object \<Rightarrow> bool" where
  "ogxServerUpdatePredicate old new =
     (case old of
        ServerObject _ \<Rightarrow> (case new of ServerObject _ \<Rightarrow> True | _ \<Rightarrow> False)
      | _ \<Rightarrow> False)"

definition isWatchLabeledUserConfigMap :: "client_object \<Rightarrow> bool" where
  "isWatchLabeledUserConfigMap obj =
     (let labels = meta_Labels (objectMeta obj) in
      if mget labels managedByLabelKey = Some managedByLabelVal then False
      else mget labels WatchLabelKey = Some WatchLabelValue)"

definition userConfigMapPredicate :: "watch_event \<Rightarrow> bool" where
  "userConfigMapPredicate e =
     (case e of
        CreateEvent obj \<Rightarrow> isWatchLabeledUserConfigMap obj
      | UpdateEvent _ new \<Rightarrow> isWatchLabeledUserConfigMap new
      | DeleteEvent obj \<Rightarrow> isWatchLabeledUserConfigMap obj
      | GenericEvent obj \<Rightarrow> isWatchLabeledUserConfigMap obj)"

definition isWatchLabeledUserSecret :: "client_object \<Rightarrow> bool" where
  "isWatchLabeledUserSecret obj =
     (let labels = meta_Labels (objectMeta obj) in
      if mget labels managedByLabelKey = Some managedByLabelVal then False
      else mget labels WatchLabelKey = Some WatchLabelValue)"

definition userSecretPredicate :: "watch_event \<Rightarrow> bool" where
  "userSecretPredicate e =
     (case e of
        CreateEvent obj \<Rightarrow> isWatchLabeledUserSecret obj
      | UpdateEvent _ new \<Rightarrow> isWatchLabeledUserSecret new
      | DeleteEvent obj \<Rightarrow> isWatchLabeledUserSecret obj
      | GenericEvent obj \<Rightarrow> isWatchLabeledUserSecret obj)"

section \<open>References\<close>

definition referencesCACertificateConfigMap :: "OGXServer \<Rightarrow> string \<Rightarrow> string \<Rightarrow> bool" where
  "referencesCACertificateConfigMap inst name ns =
     (if \<not> hasCACertificates inst \<or> ns \<noteq> meta_Namespace (srv_ObjectMeta inst) then False
      else list_ex (\<lambda>ref. cmkr_Name ref = name) (caCertificates inst))"

definition instanceReferencesConfigMap :: "string \<Rightarrow> OGXServer \<Rightarrow> string \<Rightarrow> string \<Rightarrow> bool" where
  "instanceReferencesConfigMap operatorNamespace inst name ns =
     (if HasOverrideConfig inst
         \<and> (case spec_OverrideConfig (srv_Spec inst) of Some ref \<Rightarrow> cmkr_Name ref = name | None \<Rightarrow> False)
         \<and> meta_Namespace (srv_ObjectMeta inst) = ns then True
      else if (case spec_BaseConfig (srv_Spec inst) of Some ref \<Rightarrow> cmkr_Name ref = name | None \<Rightarrow> False)
         \<and> meta_Namespace (srv_ObjectMeta inst) = ns then True
      else if referencesCACertificateConfigMap inst name ns then True
      else if name = odhTrustedCABundleConfigMap \<and> ns = meta_Namespace (srv_ObjectMeta inst) then True
      else name = operatorConfigData \<and> ns = operatorNamespace)"

definition instanceReferencesSecret :: "OGXServer \<Rightarrow> string \<Rightarrow> string \<Rightarrow> bool" where
  "instanceReferencesSecret inst name ns =
     (if ns \<noteq> meta_Namespace (srv_ObjectMeta inst) then False
      else if list_ex (\<lambda>env. case env_SecretKeyRef env of None \<Rightarrow> False | Some sel \<Rightarrow> sks_Name sel = name)
                (CollectSecretRefs (srv_Spec inst)) then True
      else (case spec_PraxisMode (srv_Spec inst) of
              None \<Rightarrow> False
            | Some pm \<Rightarrow>
                (case pm_MigrationJob pm of
                   None \<Rightarrow> False
                 | Some mj \<Rightarrow>
                     (case mj_TargetConnectionString mj of None \<Rightarrow> False | Some ref \<Rightarrow> skr_Name ref = name))))"

section \<open>Mapping\<close>

text \<open>\<open>List\<close> of the instances, in one namespace or (\<open>None\<close>) in all of them.\<close>

type_synonym 'w list_servers = "'w \<Rightarrow> string option \<Rightarrow> api_error + OGXServer list"

definition mapConfigMapToReconcileRequests ::
    "'w list_servers \<Rightarrow> string \<Rightarrow> 'w \<Rightarrow> client_object \<Rightarrow> Request list" where
  "mapConfigMapToReconcileRequests ls operatorNamespace w obj =
     (case obj of
        ConfigMapObj m \<Rightarrow>
          if mget (meta_Labels m) managedByLabelKey = Some managedByLabelVal then []
          else (case ls w (if meta_Name m = operatorConfigData then None else Some (meta_Namespace m)) of
                  Inl _ \<Rightarrow> []
                | Inr items \<Rightarrow>
                    map requestFor
                      (filter (\<lambda>inst. instanceReferencesConfigMap operatorNamespace inst (meta_Name m) (meta_Namespace m)) items))
      | _ \<Rightarrow> [])"

definition mapSecretToReconcileRequests :: "'w list_servers \<Rightarrow> 'w \<Rightarrow> client_object \<Rightarrow> Request list" where
  "mapSecretToReconcileRequests ls w obj =
     (case obj of
        SecretObj m \<Rightarrow>
          (case ls w (Some (meta_Namespace m)) of
             Inl _ \<Rightarrow> []
           | Inr items \<Rightarrow>
               map requestFor (filter (\<lambda>inst. instanceReferencesSecret inst (meta_Name m) (meta_Namespace m)) items))
      | _ \<Rightarrow> [])"

text \<open>
  The controller as \<open>SetupWithManager\<close> registers it.  \<open>EnqueueRequestsFromMapFunc\<close> maps the old and the
  new object of an update.  The owned kinds enqueue the controlling instance.
\<close>

fun eventObjects :: "watch_event \<Rightarrow> client_object list" where
  "eventObjects (CreateEvent obj) = [obj]"
| "eventObjects (UpdateEvent old new) = [old, new]"
| "eventObjects (DeleteEvent obj) = [obj]"
| "eventObjects (GenericEvent obj) = [obj]"

definition ownerRequests :: "client_object \<Rightarrow> Request list" where
  "ownerRequests obj =
     map (\<lambda>ref. \<lparr>req_Namespace = meta_Namespace (objectMeta obj), req_Name = owner_Name ref\<rparr>)
       (filter (\<lambda>ref. owner_Controller ref = Some True \<and> owner_Kind ref = ''OGXServer''
                  \<and> takeWhile (\<lambda>c. c \<noteq> CHR ''/'') (owner_APIVersion ref) = ''ogx.io'')
         (meta_OwnerReferences (objectMeta obj)))"

definition SetupWithManager :: "'w list_servers \<Rightarrow> string \<Rightarrow> 'w \<Rightarrow> watch_event \<Rightarrow> Request set" where
  "SetupWithManager ls operatorNamespace w e =
     (let objs = eventObjects e;
          viaMap = (\<lambda>f. set (concat (map f objs)));
          owned = viaMap ownerRequests
      in case last objs of
           ServerObject _ \<Rightarrow>
             (if (case e of UpdateEvent old new \<Rightarrow> ogxServerUpdatePredicate old new | _ \<Rightarrow> True)
              then viaMap (\<lambda>obj. [\<lparr>req_Namespace = meta_Namespace (objectMeta obj), req_Name = meta_Name (objectMeta obj)\<rparr>])
              else {})
         | ConfigMapObj _ \<Rightarrow>
             owned \<union> (if userConfigMapPredicate e then viaMap (mapConfigMapToReconcileRequests ls operatorNamespace w) else {})
         | SecretObj _ \<Rightarrow>
             (if userSecretPredicate e then viaMap (mapSecretToReconcileRequests ls w) else {})
         | OtherObject _ \<Rightarrow> owned)"

section \<open>The ConfigMap of the operator\<close>

record 'w OperatorConfigAPI =
  oc_Get :: "'w \<Rightarrow> string \<Rightarrow> string \<Rightarrow> api_error + ConfigMapObject"
  oc_Update :: "'w \<Rightarrow> ConfigMapObject \<Rightarrow> (api_error + ConfigMapObject) \<times> 'w"
  oc_Create :: "'w \<Rightarrow> ConfigMapObject \<Rightarrow> (api_error + ConfigMapObject) \<times> 'w"

definition withWatchLabel :: "ConfigMapObject \<Rightarrow> ConfigMapObject" where
  "withWatchLabel cm = cm\<lparr>cmo_ObjectMeta := (cmo_ObjectMeta cm)\<lparr>meta_Labels :=
     mput WatchLabelKey WatchLabelValue (meta_Labels (cmo_ObjectMeta cm))\<rparr>\<rparr>"

definition InitializeOperatorConfigMap ::
    "'w OperatorConfigAPI \<Rightarrow> string \<Rightarrow> 'w \<Rightarrow> (string + ConfigMapObject) \<times> 'w" where
  "InitializeOperatorConfigMap api operatorNamespace w =
     (case oc_Get api w operatorNamespace operatorConfigData of
        Inr configMap \<Rightarrow>
          if mget (meta_Labels (cmo_ObjectMeta configMap)) WatchLabelKey \<noteq> Some WatchLabelValue then
            (case oc_Update api w (withWatchLabel configMap) of
               (Inl e, w1) \<Rightarrow> (Inl (''failed to add watch label to operator config ConfigMap: '' @ apiText e), w1)
             | (Inr stored, w1) \<Rightarrow> (Inr stored, w1))
          else (Inr configMap, w)
      | Inl (NotFound _) \<Rightarrow>
          (case oc_Create api w
                  \<lparr>cmo_ObjectMeta = \<lparr>meta_Name = operatorConfigData, meta_Namespace = operatorNamespace, meta_UID = [],
                     meta_Generation = 0, meta_ResourceVersion = [], meta_Labels = mlit [(WatchLabelKey, WatchLabelValue)],
                     meta_Annotations = mempty, meta_OwnerReferences = [], meta_DeletionTimestamp = None\<rparr>,
                   cmo_CreationTimestamp = 0, cmo_Immutable = False, cmo_Data = mempty\<rparr> of
             (Inl e, w1) \<Rightarrow> (Inl (''failed to create ConfigMap: '' @ apiText e), w1)
           | (Inr stored, w1) \<Rightarrow> (Inr stored, w1))
      | Inl e \<Rightarrow> (Inl (''failed to get ConfigMap: '' @ apiText e), w))"

text \<open>When the API server stores what it is given, the operator ends up with a ConfigMap that its own watch accepts.\<close>

lemma operator_config_is_watched:
  assumes "\<And>w cm stored w'. oc_Update api w cm = (Inr stored, w') \<Longrightarrow> meta_Labels (cmo_ObjectMeta stored) = meta_Labels (cmo_ObjectMeta cm)"
    and "\<And>w cm stored w'. oc_Create api w cm = (Inr stored, w') \<Longrightarrow> meta_Labels (cmo_ObjectMeta stored) = meta_Labels (cmo_ObjectMeta cm)"
    and "InitializeOperatorConfigMap api ops w = (Inr cm, w')"
  shows "mget (meta_Labels (cmo_ObjectMeta cm)) WatchLabelKey = Some WatchLabelValue"
  using assms(3)
  by (auto simp: InitializeOperatorConfigMap_def withWatchLabel_def WatchLabelKey_def mlit_def
      split: sum.splits api_error.splits if_splits prod.splits dest!: assms(1,2))

section \<open>What is not mapped is not read\<close>

text \<open>A change of one ConfigMap, and of one Secret, in the eyes of the client.\<close>

definition changesConfigMap :: "('w, 'o, 'r, 't) Operator \<Rightarrow> ObjectMeta \<Rightarrow> 'w \<Rightarrow> 'w \<Rightarrow> bool" where
  "changesConfigMap op m w w' \<longleftrightarrow>
     (\<forall>ns n. (ns, n) \<noteq> (meta_Namespace m, meta_Name m) \<longrightarrow>
        kb_GetConfigMap (rc_Kube (op_R op)) w' ns n = kb_GetConfigMap (rc_Kube (op_R op)) w ns n
        \<and> ca_Get (op_ConfigMaps op) w' ns n = ca_Get (op_ConfigMaps op) w ns n)"

definition changesSecret :: "'w OGXServerReconciler \<Rightarrow> ObjectMeta \<Rightarrow> 'w \<Rightarrow> 'w \<Rightarrow> bool" where
  "changesSecret r m w w' \<longleftrightarrow>
     kb_GetConfigMap (rc_Kube r) w' = kb_GetConfigMap (rc_Kube r) w
     \<and> (\<forall>ns n. (ns, n) \<noteq> (meta_Namespace m, meta_Name m) \<longrightarrow>
          kb_GetSecret (rc_Kube r) w' ns n = kb_GetSecret (rc_Kube r) w ns n)"

text \<open>A list in one namespace holds the instances of that namespace.\<close>

definition listsServers :: "'w list_servers \<Rightarrow> 'w \<Rightarrow> OGXServer list \<Rightarrow> bool" where
  "listsServers ls w items \<longleftrightarrow>
     ls w None = Inr items
     \<and> (\<forall>ns. ls w (Some ns) = Inr (filter (\<lambda>i. meta_Namespace (srv_ObjectMeta i) = ns) items))"

lemma referenced_namespace:
  "instanceReferencesConfigMap ops inst n ns \<Longrightarrow> n \<noteq> operatorConfigData \<Longrightarrow> ns = meta_Namespace (srv_ObjectMeta inst)"
  by (auto simp: instanceReferencesConfigMap_def referencesCACertificateConfigMap_def split: if_splits)

lemma configMap_unmapped:
  assumes "listsServers ls w items" "inst \<in> set items" "last (eventObjects e) = ConfigMapObj m" "userConfigMapPredicate e"
    and "requestFor inst \<notin> SetupWithManager ls ops w e"
  shows "\<not> instanceReferencesConfigMap ops inst (meta_Name m) (meta_Namespace m)"
proof
  assume ref: "instanceReferencesConfigMap ops inst (meta_Name m) (meta_Namespace m)"
  have user: "mget (meta_Labels m) managedByLabelKey \<noteq> Some managedByLabelVal"
    using assms(3,4) by (cases e) (auto simp: userConfigMapPredicate_def isWatchLabeledUserConfigMap_def Let_def split: if_splits)
  have "requestFor inst \<in> set (mapConfigMapToReconcileRequests ls ops w (ConfigMapObj m))"
    using ref user referenced_namespace [OF ref] assms(1,2)
    by (auto simp: mapConfigMapToReconcileRequests_def listsServers_def)
  moreover have "ConfigMapObj m \<in> set (eventObjects e)" using assms(3) by (cases e) auto
  ultimately show False using assms(3,4,5) by (auto simp: SetupWithManager_def Let_def)
qed

lemma secret_unmapped:
  assumes "listsServers ls w items" "inst \<in> set items" "last (eventObjects e) = SecretObj m" "userSecretPredicate e"
    and "requestFor inst \<notin> SetupWithManager ls ops w e"
  shows "\<not> instanceReferencesSecret inst (meta_Name m) (meta_Namespace m)"
proof
  assume ref: "instanceReferencesSecret inst (meta_Name m) (meta_Namespace m)"
  then have "meta_Namespace (srv_ObjectMeta inst) = meta_Namespace m" by (simp add: instanceReferencesSecret_def split: if_splits)
  with ref assms(1,2) have "requestFor inst \<in> set (mapSecretToReconcileRequests ls w (SecretObj m))"
    by (simp add: mapSecretToReconcileRequests_def listsServers_def)
  moreover have "SecretObj m \<in> set (eventObjects e)" using assms(3) by (cases e) auto
  ultimately show False using assms(3,4,5) by (auto simp: SetupWithManager_def Let_def)
qed

text \<open>The reads of the ConfigMaps of an instance.\<close>

lemma explicitLoop_cong:
  "(\<And>ref. ref \<in> set refs \<Longrightarrow> kb_GetConfigMap (rc_Kube r) w' ns (cmkr_Name ref) = kb_GetConfigMap (rc_Kube r) w ns (cmkr_Name ref))
    \<Longrightarrow> explicitLoop pl r w' ns refs c = explicitLoop pl r w ns refs c"
proof (induction refs arbitrary: c)
  case (Cons ref refs)
  then have "explicitLoop pl r w' ns refs = explicitLoop pl r w ns refs" by (intro ext) simp
  with Cons.prems [of ref] show ?case by (simp split: sum.split)
qed simp

lemma caBundleLoop_cong:
  "(\<And>ref. ref \<in> set refs \<Longrightarrow> kb_GetConfigMap (rc_Kube r) w' ns (cmkr_Name ref) = kb_GetConfigMap (rc_Kube r) w ns (cmkr_Name ref))
    \<Longrightarrow> caBundleLoop r w' ns refs = caBundleLoop r w ns refs"
  by (induction refs) (simp_all split: sum.split api_error.split)

lemma unreferenced_reads:
  assumes "changesConfigMap op m w w'" "\<not> instanceReferencesConfigMap ops inst (meta_Name m) (meta_Namespace m)"
  defines "ns \<equiv> meta_Namespace (srv_ObjectMeta inst)" and "kb \<equiv> rc_Kube (op_R op)"
  shows "spec_BaseConfig (srv_Spec inst) = Some ref \<Longrightarrow> kb_GetConfigMap kb w' ns (cmkr_Name ref) = kb_GetConfigMap kb w ns (cmkr_Name ref)"
    and "HasOverrideConfig inst \<Longrightarrow> spec_OverrideConfig (srv_Spec inst) = Some ref \<Longrightarrow>
           kb_GetConfigMap kb w' ns (cmkr_Name ref) = kb_GetConfigMap kb w ns (cmkr_Name ref)
           \<and> ca_Get (op_ConfigMaps op) w' ns (cmkr_Name ref) = ca_Get (op_ConfigMaps op) w ns (cmkr_Name ref)"
    and "ref \<in> set (caCertificates inst) \<Longrightarrow> kb_GetConfigMap kb w' ns (cmkr_Name ref) = kb_GetConfigMap kb w ns (cmkr_Name ref)"
    and "kb_GetConfigMap kb w' ns odhTrustedCABundleConfigMap = kb_GetConfigMap kb w ns odhTrustedCABundleConfigMap"
    and "kb_GetConfigMap kb w' ops operatorConfigData = kb_GetConfigMap kb w ops operatorConfigData"
  using assms(2) assms(1) [unfolded changesConfigMap_def, rule_format, folded kb_def]
  unfolding instanceReferencesConfigMap_def referencesCACertificateConfigMap_def hasCACertificates_def ns_def
  by (auto simp: list_ex_iff split: if_splits)

lemma unreferenced_derived:
  assumes "changesConfigMap op m w w'" "\<not> instanceReferencesConfigMap ops inst (meta_Name m) (meta_Namespace m)"
  shows "reconcileOverrideAndCABundleConfigMaps (op_R op) w' inst = reconcileOverrideAndCABundleConfigMaps (op_R op) w inst"
    and "resolveBaseConfig fetcher (op_R op) w' inst cache = resolveBaseConfig fetcher (op_R op) w inst cache"
    and "detectODHTrustedCABundle (op_R op) w' inst = detectODHTrustedCABundle (op_R op) w inst"
    and "gatherCABundleData pl order (op_R op) w' inst = gatherCABundleData pl order (op_R op) w inst"
    and "getConfigMapHash (op_ConfigMaps op) w' inst = getConfigMapHash (op_ConfigMaps op) w inst"
proof -
  note reads = unreferenced_reads [OF assms]
  show "reconcileOverrideAndCABundleConfigMaps (op_R op) w' inst = reconcileOverrideAndCABundleConfigMaps (op_R op) w inst"
    using reads(1,2) caBundleLoop_cong [of "caCertificates inst" "op_R op" w' _ w, OF reads(3)]
    by (simp add: reconcileOverrideAndCABundleConfigMaps_def reconcileBaseConfigMap_def reconcileOverrideConfigMap_def
        reconcileCABundleConfigMap_def Let_def split: option.split)
  show "resolveBaseConfig fetcher (op_R op) w' inst cache = resolveBaseConfig fetcher (op_R op) w inst cache"
    using reads(1) by (simp add: resolveBaseConfig_def readReferencedConfigMapKey_def Let_def split: option.split)
  show d: "detectODHTrustedCABundle (op_R op) w' inst = detectODHTrustedCABundle (op_R op) w inst"
    using reads(4) by (simp add: detectODHTrustedCABundle_def)
  show "gatherCABundleData pl order (op_R op) w' inst = gatherCABundleData pl order (op_R op) w inst"
    using explicitLoop_cong [of "caCertificates inst" "op_R op" w' _ w, OF reads(3)] d
    by (simp add: gatherCABundleData_def gatherExplicitCABundle_def gatherODHCABundle_def cong: if_cong)
  show "getConfigMapHash (op_ConfigMaps op) w' inst = getConfigMapHash (op_ConfigMaps op) w inst"
    using reads(2) by (simp add: getConfigMapHash_def split: option.split)
qed

lemma unreferenced_operator:
  assumes "changesConfigMap (ct_Op ct) m w w'" "\<not> instanceReferencesConfigMap (rs_operatorNamespace st) inst (meta_Name m) (meta_Namespace m)"
    and "rs_operatorNamespace st \<noteq> []"
  shows "refreshOperatorConfig ct w' st = refreshOperatorConfig ct w st"
  using unreferenced_reads(5) [OF assms(1,2)] assms(3) by (simp add: refreshOperatorConfig_def Let_def)

text \<open>The reads of the Secrets of an instance.\<close>

lemma secretEntries_cong:
  "(\<And>env sel. env \<in> set envs \<Longrightarrow> env_SecretKeyRef env = Some sel \<Longrightarrow>
      kb_GetSecret (rc_Kube r) w' ns (sks_Name sel) = kb_GetSecret (rc_Kube r) w ns (sks_Name sel))
    \<Longrightarrow> secretEntries r w' ns envs = secretEntries r w ns envs"
proof (induction envs)
  case (Cons env envs)
  have IH: "secretEntries r w' ns envs = secretEntries r w ns envs"
    by (rule Cons.IH, rule Cons.prems) auto
  show ?case
  proof (cases "env_SecretKeyRef env")
    case (Some sel)
    have "kb_GetSecret (rc_Kube r) w' ns (sks_Name sel) = kb_GetSecret (rc_Kube r) w ns (sks_Name sel)"
      using Cons.prems [of env sel] Some by simp
    then show ?thesis by (simp add: Some IH split: sum.split)
  qed (simp add: IH)
qed simp

lemma unreferenced_secrets:
  assumes "changesSecret r m w w'" "\<not> instanceReferencesSecret inst (meta_Name m) (meta_Namespace m)"
  defines "ns \<equiv> meta_Namespace (srv_ObjectMeta inst)"
  shows "env \<in> set (CollectSecretRefs (srv_Spec inst)) \<Longrightarrow> env_SecretKeyRef env = Some sel \<Longrightarrow>
           kb_GetSecret (rc_Kube r) w' ns (sks_Name sel) = kb_GetSecret (rc_Kube r) w ns (sks_Name sel)"
    and "migrationTargetSecretRef inst = Some ref \<Longrightarrow>
           kb_GetSecret (rc_Kube r) w' ns (skr_Name ref) = kb_GetSecret (rc_Kube r) w ns (skr_Name ref)"
proof -
  note chg = assms(1) [unfolded changesSecret_def, THEN conjunct2, rule_format, of ns]
  show "env \<in> set (CollectSecretRefs (srv_Spec inst)) \<Longrightarrow> env_SecretKeyRef env = Some sel \<Longrightarrow>
      kb_GetSecret (rc_Kube r) w' ns (sks_Name sel) = kb_GetSecret (rc_Kube r) w ns (sks_Name sel)"
    using assms(2) by (intro chg) (auto simp: instanceReferencesSecret_def ns_def list_ex_iff split: if_splits)
  show "migrationTargetSecretRef inst = Some ref \<Longrightarrow>
      kb_GetSecret (rc_Kube r) w' ns (skr_Name ref) = kb_GetSecret (rc_Kube r) w ns (skr_Name ref)"
    using assms(2) by (intro chg) (auto simp: instanceReferencesSecret_def ns_def migrationTargetSecretRef_def
        split: if_splits option.splits)
qed

lemma sql_secret_collected:
  assumes "spec_Storage s = Some st" "stg_SQL st = Some sql" "sql_ConnectionString sql = Some ref"
    and "ValidateSecretRefEnvVarNames s = None"
  shows "secretEnv (envVarPrefix @ ''_STORAGE_SQL_CONNECTION_STRING'') ref \<in> set (CollectSecretRefs s)"
proof -
  have "secretEnv (envVarPrefix @ ''_STORAGE_SQL_CONNECTION_STRING'') ref \<in> set (collectSecretRefsRaw s)"
    using assms(1-3) by (simp add: collectSecretRefsRaw_def collectStorageSecrets_def)
  then show ?thesis using conflictFree_find assms(4) by (simp add: Validate_iff set_CollectSecretRefs)
qed


lemma unreferenced_migration:
  assumes "changesSecret r m w w'" "\<not> instanceReferencesSecret inst (meta_Name m) (meta_Namespace m)"
    and "ValidateSecretRefEnvVarNames (srv_Spec inst) = None"
  shows "runMigrationPreflight r w' inst rcfg = runMigrationPreflight r w inst rcfg"
    and "migrationAttemptKey r w' inst rcfg = migrationAttemptKey r w inst rcfg"
proof -
  have cm: "kb_GetConfigMap (rc_Kube r) w' = kb_GetConfigMap (rc_Kube r) w" using assms(1) by (simp add: changesSecret_def)
  have tgt: "kb_GetSecret (rc_Kube r) w' (nsOf inst) (skr_Name ref) = kb_GetSecret (rc_Kube r) w (nsOf inst) (skr_Name ref)"
    if "migrationTargetSecretRef inst = Some ref" for ref
    using unreferenced_secrets(2) [OF assms(1,2) that] by (simp add: nsOf_def)
  have src: "kb_GetSecret (rc_Kube r) w' (nsOf inst) (skr_Name ref) = kb_GetSecret (rc_Kube r) w (nsOf inst) (skr_Name ref)"
    if "spec_Storage (srv_Spec inst) = Some st" "stg_SQL st = Some sql" "sql_ConnectionString sql = Some ref" for st sql ref
    using unreferenced_secrets(1) [OF assms(1,2) sql_secret_collected [OF that assms(3)]] by (simp add: nsOf_def)
  have src': "kb_GetSecret (rc_Kube r) w' (nsOf inst) (skr_Name ref) = kb_GetSecret (rc_Kube r) w (nsOf inst) (skr_Name ref)"
    if "migrationSourceSecretRef inst = Inr ref" for ref
    using that src by (auto simp: migrationSourceSecretRef_def split: option.splits if_splits)
  have tgt': "kb_GetSecret (rc_Kube r) w' (nsOf inst) (skr_Name ref) = kb_GetSecret (rc_Kube r) w (nsOf inst) (skr_Name ref)"
    if "requireMigrationTargetSecretRef inst = Inr ref" for ref
    using that tgt by (auto simp: requireMigrationTargetSecretRef_def split: option.splits)
  have other: "ensureMigrationRuntimeConfig r w' (nsOf inst) rcfg = ensureMigrationRuntimeConfig r w (nsOf inst) rcfg"
    "ensureMigrationCABundle r w' inst = ensureMigrationCABundle r w inst"
    unfolding ensureMigrationRuntimeConfig_def ensureConfigMapKeyExists_def ensureMigrationCABundle_def
      hasAnyCABundle_def detectODHTrustedCABundle_def cm by (rule refl)+
  show "runMigrationPreflight r w' inst rcfg = runMigrationPreflight r w inst rcfg"
    using src' tgt' other
    by (simp add: runMigrationPreflight_def ensureSecretKeyExists_def ensureDistinctMigrationDatabases_def
        secretKeyFingerprint_def Let_def split: sum.split)
  have "appendMigrationSourceAttemptKey r w' inst = appendMigrationSourceAttemptKey r w inst"
    using src by (simp add: appendMigrationSourceAttemptKey_def appendSecretAttemptKey_def secretKeyFingerprint_def split: option.split)
  moreover have "appendMigrationTargetAttemptKey r w' inst = appendMigrationTargetAttemptKey r w inst"
    using tgt by (simp add: appendMigrationTargetAttemptKey_def appendSecretAttemptKey_def secretKeyFingerprint_def split: option.split)
  moreover have "appendMigrationConfigAttemptKey r w' (nsOf inst) rcfg = appendMigrationConfigAttemptKey r w (nsOf inst) rcfg"
    unfolding appendMigrationConfigAttemptKey_def configMapKeyFingerprint_def cm by (rule refl)
  ultimately show "migrationAttemptKey r w' inst rcfg = migrationAttemptKey r w inst rcfg"
    unfolding migrationAttemptKey_def migrationAttemptText_def by simp
qed

section \<open>Properties\<close>

text \<open>
  (C14) The watch of the users' ConfigMaps misses nothing: when the controller ignores an event about a
  labelled ConfigMap for an instance, the change alters none of the checks of the referenced
  ConfigMaps, neither the base configuration nor the CA bundle nor the hash of the override
  configuration, and not the image overrides of the operator.
\<close>

theorem ignored_configmaps_are_not_read:
  assumes "listsServers ls w items" "inst \<in> set items" "last (eventObjects e) = ConfigMapObj m" "userConfigMapPredicate e"
    and "requestFor inst \<notin> SetupWithManager ls (rs_operatorNamespace st) w e"
    and "changesConfigMap (ct_Op ct) m w w'" "rs_operatorNamespace st \<noteq> []"
  shows "let op = ct_Op ct; r = op_R op in
      reconcileOverrideAndCABundleConfigMaps r w' inst = reconcileOverrideAndCABundleConfigMaps r w inst
    \<and> resolveBaseConfig (op_Fetcher op) r w' inst cache = resolveBaseConfig (op_Fetcher op) r w inst cache
    \<and> detectODHTrustedCABundle r w' inst = detectODHTrustedCABundle r w inst
    \<and> gatherCABundleData (op_Pem op) order r w' inst = gatherCABundleData (op_Pem op) order r w inst
    \<and> getConfigMapHash (op_ConfigMaps op) w' inst = getConfigMapHash (op_ConfigMaps op) w inst
    \<and> refreshOperatorConfig ct w' st = refreshOperatorConfig ct w st"
proof -
  note no = configMap_unmapped [OF assms(1-5)]
  show ?thesis
    unfolding Let_def
    by (intro conjI unreferenced_derived [OF assms(6) no] unreferenced_operator [OF assms(6) no assms(7)])
qed

text \<open>
  (C15) The watch of the users' Secrets misses nothing that restarts pods or migrations: when the
  controller ignores an event about a labelled Secret for an instance, the change does not alter the
  hash of the instance's secrets, and for a validated spec neither the preflight nor the attempt key of
  a migration.
\<close>

theorem ignored_secrets_are_not_read:
  assumes "listsServers ls w items" "inst \<in> set items" "last (eventObjects e) = SecretObj m" "userSecretPredicate e"
    and "requestFor inst \<notin> SetupWithManager ls ops w e" "changesSecret r m w w'"
  shows "resolveSecretRefsHash r w' inst rcfg (secretVariables inst rcfg) = resolveSecretRefsHash r w inst rcfg (secretVariables inst rcfg)
    \<and> (ValidateSecretRefEnvVarNames (srv_Spec inst) = None \<longrightarrow>
         runMigrationPreflight r w' inst rcfg = runMigrationPreflight r w inst rcfg
         \<and> migrationAttemptKey r w' inst rcfg = migrationAttemptKey r w inst rcfg)"
proof -
  note no = secret_unmapped [OF assms(1-5)]
  have "secretEntries r w' (meta_Namespace (srv_ObjectMeta inst)) (secretVariables inst rcfg)
      = secretEntries r w (meta_Namespace (srv_ObjectMeta inst)) (secretVariables inst rcfg)"
    by (rule secretEntries_cong, rule unreferenced_secrets(1) [OF assms(6) no])
      (auto simp: secretVariables_def split: if_splits)
  then show ?thesis
    using unreferenced_migration [OF assms(6) no] by (simp add: resolveSecretRefsHash_def)
qed

section \<open>Witnesses\<close>

text \<open>A user's ConfigMap and Secret with the name \<open>notes\<close>, which no instance mentions.\<close>

definition exNotes :: ObjectMeta where
  "exNotes = \<lparr>meta_Name = ''notes'', meta_Namespace = ''ogx'', meta_UID = ''n'', meta_Generation = 0, meta_ResourceVersion = [],
     meta_Labels = mlit [(WatchLabelKey, WatchLabelValue)], meta_Annotations = mempty, meta_OwnerReferences = [],
     meta_DeletionTimestamp = None\<rparr>"

text \<open>The example controller with a ConfigMap that exists once objects were created.\<close>

definition watchController :: "(SimWorld, ymap, ymap, ymap) Controller" where
  "watchController = simController\<lparr>ct_Op := simOperator\<lparr>op_R := simReconciler\<lparr>rc_Kube := simKube\<lparr>kb_GetConfigMap :=
     (\<lambda>w ns n. if sim_Objects w \<noteq> [] \<and> ns = ''ogx'' \<and> n = ''notes'' then Inr \<lparr>cm_Labels = mempty, cm_Data = mempty, cm_BinaryData = mempty\<rparr>
              else Inl (NotFound n))\<rparr>\<rparr>\<rparr>\<rparr>"

definition watchStart :: ReconcilerState where
  "watchStart = simStart\<lparr>rs_operatorNamespace := ''ops''\<rparr>"

theorem ignored_configmaps_are_not_read_witness:
  "let w' = simWorld\<lparr>sim_Objects := [mempty]\<rparr>; r = op_R (ct_Op watchController) in
     kb_GetConfigMap (rc_Kube r) w' ''ogx'' ''notes'' \<noteq> kb_GetConfigMap (rc_Kube r) simWorld ''ogx'' ''notes''
     \<and> gatherCABundleData exPem (\<lambda>ks. ks) r w' exNetServer = gatherCABundleData exPem (\<lambda>ks. ks) r simWorld exNetServer
     \<and> refreshOperatorConfig watchController w' watchStart = refreshOperatorConfig watchController simWorld watchStart"
proof -
  let ?ls = "\<lambda>w ns. Inr (filter (\<lambda>i. case ns of None \<Rightarrow> True | Some n \<Rightarrow> meta_Namespace (srv_ObjectMeta i) = n) [exNetServer])"
  let ?e = "CreateEvent (ConfigMapObj exNotes)"
  have 1: "listsServers ?ls simWorld [exNetServer]" by (simp add: listsServers_def)
  have 2: "userConfigMapPredicate ?e"
    by (simp add: userConfigMapPredicate_def isWatchLabeledUserConfigMap_def exNotes_def WatchLabelKey_def WatchLabelValue_def
        managedByLabelKey_def mlit_def)
  have 3: "requestFor exNetServer \<notin> SetupWithManager ?ls (rs_operatorNamespace watchStart) simWorld ?e"
    using 2 by (simp add: SetupWithManager_def ownerRequests_def mapConfigMapToReconcileRequests_def exNotes_def exNetServer_def
        requestFor_def instanceReferencesConfigMap_def referencesCACertificateConfigMap_def HasOverrideConfig_def
        hasCACertificates_def caCertificates_def odhTrustedCABundleConfigMap_def operatorConfigData_def
        WatchLabelKey_def WatchLabelValue_def managedByLabelKey_def mlit_def)
  have 4: "changesConfigMap (ct_Op watchController) exNotes simWorld (simWorld\<lparr>sim_Objects := [mempty]\<rparr>)"
    by (auto simp: changesConfigMap_def watchController_def simController_def simOperator_def simConfigMaps_def simReconciler_def
        simWorld_def exNotes_def)
  show ?thesis
    using ignored_configmaps_are_not_read [of ?ls simWorld "[exNetServer]" exNetServer ?e exNotes watchStart watchController
        "simWorld\<lparr>sim_Objects := [mempty]\<rparr>" _ "\<lambda>ks. ks", OF 1 _ _ 2 3 4]
    by (simp add: Let_def watchStart_def) (simp add: watchController_def simController_def simOperator_def simReconciler_def simWorld_def)
qed

theorem ignored_secrets_are_not_read_witness:
  "let w' = exStore\<lparr>sto_Secrets := ((''ogx'', ''notes''), exSecret ''k'' ''v'') # sto_Secrets exStore\<rparr> in
     runMigrationPreflight exReconciler w' (exInstance True) None = None
     \<and> migrationAttemptKey exReconciler w' (exInstance True) None = migrationAttemptKey exReconciler exStore (exInstance True) None"
proof -
  let ?ls = "\<lambda>w ns. Inr (filter (\<lambda>i. case ns of None \<Rightarrow> True | Some n \<Rightarrow> meta_Namespace (srv_ObjectMeta i) = n) [exInstance True])"
  let ?e = "CreateEvent (SecretObj exNotes)"
  let ?w = "exStore\<lparr>sto_Secrets := ((''ogx'', ''notes''), exSecret ''k'' ''v'') # sto_Secrets exStore\<rparr>"
  have 1: "listsServers ?ls exStore [exInstance True]" by (simp add: listsServers_def)
  have 2: "userSecretPredicate ?e"
    by (simp add: userSecretPredicate_def isWatchLabeledUserSecret_def exNotes_def WatchLabelKey_def WatchLabelValue_def
        managedByLabelKey_def mlit_def)
  have refs: "collectSecretRefsRaw (srv_Spec (exInstance True))
      = [secretEnv (envVarPrefix @ ''_STORAGE_SQL_CONNECTION_STRING'') \<lparr>skr_Name = ''pg-secret'', skr_Key = ''conn''\<rparr>]"
    by (simp add: collectSecretRefsRaw_def collectStorageSecrets_def exInstance_def exMigrationSpec_def)
  have 3: "requestFor (exInstance True) \<notin> SetupWithManager ?ls [] exStore ?e"
  proof -
    have "\<not> instanceReferencesSecret (exInstance True) ''notes'' ''ogx''"
      using refs set_CollectSecretRefs [of _ "srv_Spec (exInstance True)"]
      by (auto simp: instanceReferencesSecret_def list_ex_iff exInstance_def exMigrationSpec_def split: if_splits)
    then show ?thesis
      by (simp add: SetupWithManager_def mapSecretToReconcileRequests_def exNotes_def)
  qed
  have 4: "changesSecret exReconciler exNotes exStore ?w"
    by (auto simp: changesSecret_def exReconciler_def storeKube_def storeGet_def exNotes_def)
  have 5: "ValidateSecretRefEnvVarNames (srv_Spec (exInstance True)) = None"
    by (simp add: Validate_iff refs conflictFree_def)
  have "runMigrationPreflight exReconciler exStore (exInstance True) None = None"
    by (rule exPreflight) (simp_all add: exStore_def)
  with ignored_secrets_are_not_read [of ?ls exStore "[exInstance True]" "exInstance True" ?e exNotes "[]" exReconciler ?w None, OF 1 _ _ 2 3 4] 5
  show ?thesis by (simp add: Let_def)
qed

end
