(* ===== verification/Webhook.thy ===== *)
theory Webhook
  imports Api_Server
begin

text \<open>
  The validating admission webhook (\<open>api/v1beta1/ogxserver_webhook.go\<close>).  Validation returns the list of
  field errors (admission is refused when it is not empty) and the list of warnings.  Error and
  warning texts are constructors carrying the values the texts mention.
  \<open>equality.Semantic.DeepEqual\<close> on the compared structs is equality of their records.
\<close>

datatype field_error =
    UnknownDistribution string "string list"
  | DuplicateProviderID string
  | UnknownProviderReference nat string "string list"
  | SameNameAdoption string string
  | DisallowedVolumeType nat string
  | HostnameRequired
  | TLSSecretNameRequired

datatype admission_warning =
    PraxisTechPreview
  | ExternalAccessNotHonored
  | NetworkPolicyLockdownRemoved
  | DeprecatedDistribution string string
  | SoftRollbackOnly

section \<open>Predicates on the spec\<close>

definition isPraxisModeEnabled :: "OGXServer \<Rightarrow> bool" where
  "isPraxisModeEnabled r =
     (case spec_PraxisMode (srv_Spec r) of None \<Rightarrow> False
      | Some pm \<Rightarrow> (case pm_Enabled pm of None \<Rightarrow> False | Some b \<Rightarrow> b))"

definition isMigrationRequested :: "OGXServer option \<Rightarrow> bool" where
  "isMigrationRequested ro =
     (case ro of None \<Rightarrow> False
      | Some r \<Rightarrow>
          if \<not> isPraxisModeEnabled r then False
          else (case spec_PraxisMode (srv_Spec r) of None \<Rightarrow> False
                | Some pm \<Rightarrow> (case pm_MigrationJob pm of None \<Rightarrow> False
                             | Some mj \<Rightarrow> (case mj_Enabled mj of None \<Rightarrow> True | Some b \<Rightarrow> b))))"

definition externalAccessOf :: "OGXServer \<Rightarrow> ExternalAccessConfig option" where
  "externalAccessOf r = (case spec_Network (srv_Spec r) of None \<Rightarrow> None | Some n \<Rightarrow> net_ExternalAccess n)"

definition isExternalAccessRequested :: "OGXServer \<Rightarrow> bool" where
  "isExternalAccessRequested r =
     (case spec_Network (srv_Spec r) of None \<Rightarrow> False
      | Some n \<Rightarrow> (case net_ExternalAccess n of None \<Rightarrow> False | Some ea \<Rightarrow> ea_Enabled ea))"

definition isNetworkPolicyDisabled :: "OGXServer \<Rightarrow> bool" where
  "isNetworkPolicyDisabled r =
     (case spec_Network (srv_Spec r) of None \<Rightarrow> False
      | Some n \<Rightarrow> (case net_Policy n of None \<Rightarrow> False | Some p \<Rightarrow> np_Enabled p = Some False))"

definition collectValidationWarnings :: "OGXServer \<Rightarrow> admission_warning list" where
  "collectValidationWarnings r =
     (if \<not> IsPraxisModeEnabled (srv_Spec r) then []
      else [PraxisTechPreview]
         @ (if isExternalAccessRequested r then [ExternalAccessNotHonored] else [])
         @ (if isNetworkPolicyDisabled r then [NetworkPolicyLockdownRemoved] else []))"

section \<open>Individual validations\<close>

definition validateDistributionName :: "string \<Rightarrow> string list \<Rightarrow> field_error list" where
  "validateDistributionName name knownNames =
     (if length knownNames = 0 then []
      else if list_ex (\<lambda>n. n = name) knownNames then []
      else [UnknownDistribution name (sort knownNames)])"

fun collectIDsLoop :: "bool gomap \<Rightarrow> string list \<Rightarrow> bool gomap \<times> field_error list" where
  "collectIDsLoop seen [] = (seen, [])"
| "collectIDsLoop seen (pid # ids) =
     (let errs = (if mget seen pid = Some True then [DuplicateProviderID pid] else []);
          (seen', errs') = collectIDsLoop (mput pid True seen) ids
      in (seen', errs @ errs'))"

definition collectAllProviderIDs :: "ProvidersSpec option \<Rightarrow> bool gomap \<times> field_error list" where
  "collectAllProviderIDs s =
     (case s of None \<Rightarrow> (mempty, []) | Some _ \<Rightarrow> collectIDsLoop mempty (ps_IDs s))"

definition validateProviderIDs :: "ProvidersSpec \<Rightarrow> field_error list" where
  "validateProviderIDs s = snd (collectAllProviderIDs (Some s))"

definition sortedMapKeys :: "bool gomap \<Rightarrow> string list" where
  "sortedMapKeys m = sort (mkeys m)"

definition validateProviderReferences :: "ResourcesSpec \<Rightarrow> ProvidersSpec \<Rightarrow> field_error list" where
  "validateProviderReferences resources providers =
     (let providerIDs = fst (collectAllProviderIDs (Some providers))
      in concat (map (\<lambda>(i, mc).
           if mc_Provider mc \<noteq> [] \<and> mget providerIDs (mc_Provider mc) \<noteq> Some True
           then [UnknownProviderReference i (mc_Provider mc) (sortedMapKeys providerIDs)] else [])
         (enumerate 0 (res_Models resources))))"

definition validateAdoptionAnnotations :: "OGXServer \<Rightarrow> field_error list" where
  "validateAdoptionAnnotations r =
     concat (map (\<lambda>key.
       case mget (meta_Annotations (srv_ObjectMeta r)) key of
         None \<Rightarrow> []
       | Some val \<Rightarrow> if val = meta_Name (srv_ObjectMeta r) then [SameNameAdoption key val] else [])
     [AdoptStorageAnnotation, AdoptNetworkingAnnotation])"

definition isAllowedVolumeType :: "Volume \<Rightarrow> bool" where
  "isAllowedVolumeType vol \<longleftrightarrow>
     vol_ConfigMap vol \<noteq> None \<or> vol_Secret vol \<noteq> None \<or> vol_EmptyDir vol \<noteq> None
     \<or> vol_PersistentVolumeClaim vol \<noteq> None \<or> vol_Projected vol \<noteq> None \<or> vol_DownwardAPI vol \<noteq> None"

definition overrideVolumes :: "OGXServer \<Rightarrow> Volume list" where
  "overrideVolumes r =
     (case spec_Workload (srv_Spec r) of None \<Rightarrow> []
      | Some w \<Rightarrow> (case wl_Overrides w of None \<Rightarrow> [] | Some ov \<Rightarrow> wo_Volumes ov))"

definition overrideVolumesByName :: "OGXServer option \<Rightarrow> Volume gomap" where
  "overrideVolumesByName ro =
     (case ro of None \<Rightarrow> mempty
      | Some r \<Rightarrow> fold (\<lambda>vol m. mput (vol_Name vol) vol m) (overrideVolumes r) mempty)"

definition validateChangedVolumeTypes :: "OGXServer option \<Rightarrow> OGXServer \<Rightarrow> field_error list" where
  "validateChangedVolumeTypes old r =
     (let unchanged = overrideVolumesByName old
      in concat (map (\<lambda>(i, vol).
           if mget unchanged (vol_Name vol) = Some vol then []
           else if \<not> isAllowedVolumeType vol then [DisallowedVolumeType i (vol_Name vol)] else [])
         (enumerate 0 (overrideVolumes r))))"

definition validateExternalAccess :: "OGXServer \<Rightarrow> field_error list" where
  "validateExternalAccess r =
     (case externalAccessOf r of None \<Rightarrow> []
      | Some ea \<Rightarrow>
          if \<not> ea_Enabled ea then []
          else (if ea_Hostname ea = [] then [HostnameRequired] else [])
             @ (if (case ea_TLS ea of None \<Rightarrow> True | Some t \<Rightarrow> tls_SecretName t = [])
                then [TLSSecretNameRequired] else []))"

section \<open>Admission\<close>

definition collectErrors :: "string list \<Rightarrow> OGXServer option \<Rightarrow> OGXServer \<Rightarrow> field_error list" where
  "collectErrors knownNames old r =
       (if dist_Name (spec_Distribution (srv_Spec r)) \<noteq> []
        then validateDistributionName (dist_Name (spec_Distribution (srv_Spec r))) knownNames else [])
     @ (case spec_Providers (srv_Spec r) of None \<Rightarrow> [] | Some p \<Rightarrow> validateProviderIDs p)
     @ (case (spec_Resources (srv_Spec r), spec_Providers (srv_Spec r)) of
          (Some res, Some p) \<Rightarrow> validateProviderReferences res p | _ \<Rightarrow> [])
     @ validateAdoptionAnnotations r
     @ validateChangedVolumeTypes old r
     @ (if (case old of None \<Rightarrow> True | Some o' \<Rightarrow> externalAccessOf o' \<noteq> externalAccessOf r)
        then validateExternalAccess r else [])"

definition DeprecatedDistributions :: "string gomap" where
  "DeprecatedDistributions = mlit [(''rh-dev'', ''rh'')]"

definition validateAgainst ::
  "string list \<Rightarrow> OGXServer option \<Rightarrow> OGXServer \<Rightarrow> admission_warning list \<times> field_error list" where
  "validateAgainst knownNames old r =
     (let warnings = collectValidationWarnings r;
          allErrs = collectErrors knownNames old r
      in if length allErrs > 0 then (warnings, allErrs)
         else (case mget DeprecatedDistributions (dist_Name (spec_Distribution (srv_Spec r))) of
                 None \<Rightarrow> (warnings, [])
               | Some replacement \<Rightarrow>
                   (warnings @ [DeprecatedDistribution (dist_Name (spec_Distribution (srv_Spec r))) replacement], [])))"

definition ValidateCreate :: "string list \<Rightarrow> OGXServer \<Rightarrow> admission_warning list \<times> field_error list" where
  "ValidateCreate knownNames r = validateAgainst knownNames None r"

definition ValidateUpdate ::
  "string list \<Rightarrow> OGXServer \<Rightarrow> OGXServer \<Rightarrow> admission_warning list \<times> field_error list" where
  "ValidateUpdate knownNames oldObj newObj =
     (let (warnings, err) = validateAgainst knownNames (Some oldObj) newObj
      in (if isMigrationRequested (Some oldObj) \<and> \<not> isMigrationRequested (Some newObj)
          then warnings @ [SoftRollbackOnly] else warnings, err))"

definition ValidateDelete :: "OGXServer \<Rightarrow> admission_warning list \<times> field_error list" where
  "ValidateDelete r = ([], [])"

section \<open>Lemmas\<close>

lemma collectIDsLoop_seen:
  "mget (fst (collectIDsLoop seen ids)) i = (if i \<in> set ids then Some True else mget seen i)"
  by (induction seen ids rule: collectIDsLoop.induct) (auto simp: Let_def split: prod.splits)

lemma collectIDsLoop_no_errs:
  "snd (collectIDsLoop seen ids) = [] \<longleftrightarrow> distinct ids \<and> (\<forall>i \<in> set ids. mget seen i \<noteq> Some True)"
  by (induction seen ids rule: collectIDsLoop.induct) (auto simp: Let_def split: prod.splits if_splits)

lemma validateProviderIDs_iff: "validateProviderIDs p = [] \<longleftrightarrow> distinct (ps_IDs (Some p))"
  by (simp add: validateProviderIDs_def collectAllProviderIDs_def collectIDsLoop_no_errs)

lemma in_enumerate: "(i, x) \<in> set (enumerate 0 xs) \<longleftrightarrow> i < length xs \<and> xs ! i = x"
  by (auto simp: in_set_enumerate_eq)

lemma concat_enumerate_Nil:
  "concat (map (\<lambda>(i, x). f i x) (enumerate 0 xs)) = [] \<longleftrightarrow> (\<forall>i < length xs. f i (xs ! i) = [])"
proof -
  have "concat (map (\<lambda>(i, x). f i x) (enumerate 0 xs)) = [] \<longleftrightarrow> (\<forall>i x. (i, x) \<in> set (enumerate 0 xs) \<longrightarrow> f i x = [])"
    by auto
  then show ?thesis unfolding in_enumerate by blast
qed

lemma validateProviderReferences_iff:
  "validateProviderReferences res p = [] \<longleftrightarrow>
     (\<forall>mc \<in> set (res_Models res). mc_Provider mc \<noteq> [] \<longrightarrow> mc_Provider mc \<in> set (ps_IDs (Some p)))"
  unfolding validateProviderReferences_def Let_def concat_enumerate_Nil all_set_conv_all_nth
  by (simp add: collectAllProviderIDs_def collectIDsLoop_seen) blast

lemma validateChangedVolumeTypes_iff:
  "validateChangedVolumeTypes old r = [] \<longleftrightarrow>
     (\<forall>vol \<in> set (overrideVolumes r). mget (overrideVolumesByName old) (vol_Name vol) = Some vol \<or> isAllowedVolumeType vol)"
  unfolding validateChangedVolumeTypes_def Let_def concat_enumerate_Nil all_set_conv_all_nth by auto

lemma validateExternalAccess_iff:
  "validateExternalAccess r = [] \<longleftrightarrow>
     (\<forall>ea. externalAccessOf r = Some ea \<and> ea_Enabled ea \<longrightarrow>
        ea_Hostname ea \<noteq> [] \<and> (\<exists>t. ea_TLS ea = Some t \<and> tls_SecretName t \<noteq> []))"
  by (auto simp: validateExternalAccess_def split: option.splits)

lemma validateAdoptionAnnotations_iff:
  "validateAdoptionAnnotations r = [] \<longleftrightarrow>
     (\<forall>key \<in> {AdoptStorageAnnotation, AdoptNetworkingAnnotation}.
        mget (meta_Annotations (srv_ObjectMeta r)) key \<noteq> Some (meta_Name (srv_ObjectMeta r)))"
  by (auto simp: validateAdoptionAnnotations_def split: option.splits)

lemma validateDistributionName_iff:
  "validateDistributionName n known = [] \<longleftrightarrow> known = [] \<or> n \<in> set known"
  by (auto simp: validateDistributionName_def list_ex_iff)

lemma snd_validateAgainst: "snd (validateAgainst known old r) = collectErrors known old r"
  by (auto simp: validateAgainst_def Let_def split: option.split)

lemma mget_overrideVolumes_notin:
  "n \<notin> vol_Name ` set vs \<Longrightarrow> mget (fold (\<lambda>vol m. mput (vol_Name vol) vol m) vs m) n = mget m n"
  by (induction vs arbitrary: m) auto

lemma mget_overrideVolumesByName:
  "distinct (map vol_Name (overrideVolumes r)) \<Longrightarrow> vol \<in> set (overrideVolumes r) \<Longrightarrow>
   mget (overrideVolumesByName (Some r)) (vol_Name vol) = Some vol"
proof -
  have "vol \<in> set vs \<Longrightarrow> distinct (map vol_Name vs) \<Longrightarrow>
    mget (fold (\<lambda>vol m. mput (vol_Name vol) vol m) vs m) (vol_Name vol) = Some vol" for vs m
    by (induction vs arbitrary: m) (auto simp: mget_overrideVolumes_notin)
  then show "distinct (map vol_Name (overrideVolumes r)) \<Longrightarrow> vol \<in> set (overrideVolumes r) \<Longrightarrow> ?thesis"
    by (simp add: overrideVolumesByName_def)
qed

section \<open>Properties\<close>


definition exMeta :: ObjectMeta where
  "exMeta = \<lparr> meta_Name = ''my-ogx'', meta_Namespace = ''ai'', meta_UID = ''uid-1'', meta_Generation = 1,
     meta_ResourceVersion = ''1'', meta_Labels = [], meta_Annotations = [], meta_OwnerReferences = [],
     meta_DeletionTimestamp = None \<rparr>"

definition exStatus :: OGXServerStatus where
  "exStatus = \<lparr> status_Phase = PhaseUnset,
     status_Version = \<lparr> ver_OperatorVersion = [], ver_ServerVersion = [], ver_LastUpdated = 0 \<rparr>,
     status_DistributionConfig = \<lparr> dcfg_ActiveDistribution = [], dcfg_Providers = [], dcfg_AvailableDistributions = [] \<rparr>,
     status_ResolvedDistribution = None, status_ConfigGeneration = None, status_Migration = None,
     status_Conditions = [], status_AvailableReplicas = 0, status_ServiceURL = [], status_ExternalURL = None \<rparr>"

definition exHostPath :: Volume where
  "exHostPath = \<lparr> vol_Name = ''host'', vol_ConfigMap = None, vol_Secret = None, vol_EmptyDir = None,
     vol_PersistentVolumeClaim = None, vol_Projected = None, vol_DownwardAPI = None,
     vol_OtherSources = [(''hostPath'', YMap [(''path'', YStr ''/etc'')])] \<rparr>"

text \<open>A server with one override volume and Praxis mode as given.\<close>

definition exServer :: "Volume list \<Rightarrow> PraxisModeSpec option \<Rightarrow> OGXServer" where
  "exServer vols pm = \<lparr> srv_ObjectMeta = exMeta,
     srv_Spec = \<lparr> spec_Distribution = \<lparr> dist_Name = ''starter'', dist_Image = [] \<rparr>,
       spec_Providers = None, spec_Resources = None, spec_Storage = None, spec_DisabledAPIs = [],
       spec_RegistryRefreshIntervalSeconds = None, spec_Network = None, spec_TLS = None,
       spec_Workload = Some \<lparr> wl_Replicas = None, wl_Workers = None, wl_Resources = None,
         wl_ResourceClaims = [], wl_Autoscaling = None, wl_Storage = None, wl_PodDisruptionBudget = None,
         wl_TopologySpreadConstraints = [],
         wl_Overrides = Some \<lparr> wo_ServiceAccountName = [], wo_Env = [], wo_Command = [], wo_Args = [],
           wo_Volumes = vols, wo_VolumeMounts = [] \<rparr> \<rparr>,
       spec_Monitoring = None, spec_BaseConfig = None, spec_OverrideConfig = None, spec_PraxisMode = pm \<rparr>,
     srv_Status = exStatus \<rparr>"


text \<open>
  An upgrade does not lock out existing objects: an update that leaves external access as it was
  and keeps every override volume (volume names being unique) is never refused for its volumes or
  its external access; only the checks that always ran can refuse it.
\<close>

theorem unchanged_fields_stay_editable:
  assumes "externalAccessOf old = externalAccessOf r"
    and "set (overrideVolumes r) \<subseteq> set (overrideVolumes old)" and "distinct (map vol_Name (overrideVolumes old))"
    and "e \<in> set (snd (ValidateUpdate known old r))"
  shows "(\<forall>i n. e \<noteq> DisallowedVolumeType i n) \<and> e \<noteq> HostnameRequired \<and> e \<noteq> TLSSecretNameRequired"
proof -
  have "validateChangedVolumeTypes (Some old) r = []"
    using assms(2,3) mget_overrideVolumesByName [of old] by (auto simp: validateChangedVolumeTypes_iff)
  then have e: "e \<in> set (collectErrors known (Some old) r)" "validateChangedVolumeTypes (Some old) r = []"
    using assms(4) snd_validateAgainst [of known "Some old" r]
    by (auto simp: ValidateUpdate_def case_prod_beta)
  have ids: "\<exists>i. e = DuplicateProviderID i" if "e \<in> set (validateProviderIDs p)" for p
  proof -
    have "x \<in> set (snd (collectIDsLoop seen ids)) \<Longrightarrow> \<exists>i. x = DuplicateProviderID i" for x seen ids
      by (induction seen ids rule: collectIDsLoop.induct) (auto simp: Let_def split: prod.splits if_splits)
    with that show ?thesis by (auto simp: validateProviderIDs_def collectAllProviderIDs_def)
  qed
  have refs: "\<exists>i n a. e = UnknownProviderReference i n a" if "e \<in> set (validateProviderReferences res p)" for res p
    using that by (auto simp: validateProviderReferences_def Let_def split: if_splits)
  have adopt: "\<exists>k v. e = SameNameAdoption k v" if "e \<in> set (validateAdoptionAnnotations r)"
    using that by (auto simp: validateAdoptionAnnotations_def split: option.splits if_splits)
  have dist: "\<exists>n l. e = UnknownDistribution n l" if "e \<in> set (validateDistributionName n known)" for n
    using that by (auto simp: validateDistributionName_def split: if_splits)
  show ?thesis
    using e assms(1) unfolding collectErrors_def
    by (auto split: if_splits option.splits dest!: ids refs adopt dist)
qed

theorem unchanged_fields_stay_editable_witness:
  "\<exists>e. e \<in> set (snd (ValidateUpdate [''rh''] (exServer [exHostPath] None) (exServer [exHostPath] None)))
     \<and> e \<noteq> HostnameRequired"
proof -
  let ?s = "exServer [exHostPath] None"
  have m: "UnknownDistribution ''starter'' [''rh''] \<in> set (snd (ValidateUpdate [''rh''] ?s ?s))" by code_simp
  have d: "distinct (map vol_Name (overrideVolumes ?s))" by code_simp
  from unchanged_fields_stay_editable [OF refl subset_refl d m] m show ?thesis by blast
qed

text \<open>
  Disabling the migration is announced for a soft rollback, but only when Praxis mode was enabled
  explicitly: the webhook reads an omitted \<open>praxisMode.enabled\<close> as false although the API type's own
  \<open>IsPraxisModeEnabled\<close> (and so the controller) reads it as true.  For a server with \<open>enabled\<close> omitted
  and a migration Job, turning Praxis mode off therefore yields no warning.
\<close>

theorem soft_rollback_warning_missed:
  assumes "spec_PraxisMode (srv_Spec old) = Some pm" and "pm_Enabled pm = None"
    and "pm_MigrationJob pm = Some mj" and "mj_Enabled mj = None"
    and "spec_PraxisMode (srv_Spec new) = None"
  shows "IsPraxisModeEnabled (srv_Spec old) \<and> \<not> IsPraxisModeEnabled (srv_Spec new)
     \<and> SoftRollbackOnly \<notin> set (fst (ValidateUpdate known old new))"
proof -
  have "SoftRollbackOnly \<notin> set (fst (validateAgainst known (Some old) new))"
    by (auto simp: validateAgainst_def collectValidationWarnings_def Let_def split: option.splits if_splits)
  moreover have "\<not> isMigrationRequested (Some old)"
    using assms(1,2) by (simp add: isMigrationRequested_def isPraxisModeEnabled_def)
  ultimately show ?thesis
    using assms by (simp add: IsPraxisModeEnabled_def ValidateUpdate_def case_prod_beta)
qed

theorem soft_rollback_warning_missed_witness:
  "SoftRollbackOnly \<notin> set (fst (ValidateUpdate [''starter'']
     (exServer [] (Some \<lparr> pm_Enabled = None, pm_PraxisSelector = None,
        pm_MigrationJob = Some \<lparr> mj_Enabled = None, mj_TargetConnectionString = None,
          mj_FallbackTenant = [], mj_FallbackOwnerSubject = [] \<rparr> \<rparr>))
     (exServer [] None)))
   \<and> IsPraxisModeEnabled (srv_Spec (exServer [] (Some \<lparr> pm_Enabled = None, pm_PraxisSelector = None,
        pm_MigrationJob = Some \<lparr> mj_Enabled = None, mj_TargetConnectionString = None,
          mj_FallbackTenant = [], mj_FallbackOwnerSubject = [] \<rparr> \<rparr>)))"
  (is "_ \<notin> set (fst (ValidateUpdate _ ?old ?new)) \<and> _")
  using soft_rollback_warning_missed [of ?old _ _ ?new "[''starter'']"] by (simp add: exServer_def)

end
