(* ===== verification/Tls_Profile.thy ===== *)
theory Tls_Profile
  imports Go_Quote "HOL-Library.Word"
begin

text \<open>
  The TLS settings of the servers of the operator (\<open>pkg/tls/tls.go\<close>) and of the OGX module
  (\<open>ogx-module/pkg/tls/tls.go\<close>), which follow the security profile of an OpenShift cluster.  Protocol
  versions, cipher suites and curves are 16-bit numbers.  The reads of the profile, the helper that
  turns a profile into a configuration and the suites that the Go runtime implements are arguments.
\<close>

section \<open>Profiles and configurations\<close>

datatype tls_version = VersionUnset | VersionTLS10 | VersionTLS11 | VersionTLS12 | VersionTLS13 | VersionOther string

datatype tls_group =
    SecP256r1 | SecP384r1 | SecP521r1 | X25519 | X25519MLKEM768 | SecP256r1MLKEM768 | SecP384r1MLKEM1024 | GroupOther string

datatype adherence_policy = NoOpinion | LegacyAdheringComponentsOnly | StrictAllComponents | AdherenceOther string

record TLSProfileSpec =
  pf_Ciphers :: "string list"
  pf_MinTLSVersion :: tls_version
  pf_Groups :: "tls_group list"

text \<open>\<open>tls.Config\<close>, the fields that are set, and \<open>tls.CipherSuite\<close>.\<close>

record tls_config =
  tc_MinVersion :: "16 word"
  tc_CipherSuites :: "16 word list"
  tc_CurvePreferences :: "16 word list"
  tc_NextProtos :: "string list"

record CipherSuite =
  cs_ID :: "16 word"
  cs_Name :: string
  cs_SupportedVersions :: "16 word list"

definition tlsVersionTLS10 :: "16 word" where "tlsVersionTLS10 = 0x0301"

definition tlsVersionTLS11 :: "16 word" where "tlsVersionTLS11 = 0x0302"

definition tlsVersionTLS12 :: "16 word" where "tlsVersionTLS12 = 0x0303"

definition tlsVersionTLS13 :: "16 word" where "tlsVersionTLS13 = 0x0304"

text \<open>What the functions ask of an error; discovery errors carry further errors.\<close>

record error_flags =
  ef_NoMatch :: bool
  ef_NotFound :: bool
  ef_Forbidden :: bool
  ef_Unauthorized :: bool
  ef_ServiceUnavailable :: bool
  ef_InternalError :: bool
  ef_Timeout :: bool
  ef_ServerTimeout :: bool
  ef_TooManyRequests :: bool
  ef_DeadlineExceeded :: bool
  ef_NetError :: "bool option"
  ef_Text :: string

datatype read_error = ReadError (re_Flags: error_flags) (re_ResourceErrors: "read_error list option") (re_GroupErrors: "read_error list option")

type_synonym tls_opt = "tls_config \<Rightarrow> tls_config"

definition applyOpts :: "tls_opt list \<Rightarrow> tls_config \<Rightarrow> tls_config" where
  "applyOpts opts c = fold (\<lambda>f. f) opts c"

section \<open>The operator\<close>

definition isTransientReadError :: "read_error \<Rightarrow> bool" where
  "isTransientReadError err =
     (let f = re_Flags err in
      ef_DeadlineExceeded f \<or> ef_ServiceUnavailable f \<or> ef_Timeout f \<or> ef_ServerTimeout f \<or> ef_TooManyRequests f
      \<or> ef_NetError f = Some True)"

definition minTLSVersion :: "(nat \<Rightarrow> bool) \<Rightarrow> tls_version \<Rightarrow> string + 16 word" where
  "minTLSVersion isPrint version =
     (case version of
        VersionUnset \<Rightarrow> Inr tlsVersionTLS12
      | VersionTLS10 \<Rightarrow> Inr tlsVersionTLS10
      | VersionTLS11 \<Rightarrow> Inr tlsVersionTLS11
      | VersionTLS12 \<Rightarrow> Inr tlsVersionTLS12
      | VersionTLS13 \<Rightarrow> Inr tlsVersionTLS13
      | VersionOther v \<Rightarrow> Inl (''failed to resolve minimum TLS version '' @ goQuote isPrint v @ '': unsupported''))"

definition usableCipherSuites :: "CipherSuite list \<Rightarrow> 16 word list \<Rightarrow> 16 word list" where
  "usableCipherSuites suites mapped =
     filter (\<lambda>i. \<not> (0x1300 \<le> i \<and> i \<le> 0x13ff) \<and> i \<in> cs_ID ` set suites) mapped"

definition tlsGroupToCurveID :: "tls_group \<Rightarrow> (16 word) option" where
  "tlsGroupToCurveID g =
     (case g of
        SecP256r1 \<Rightarrow> Some 23
      | SecP384r1 \<Rightarrow> Some 24
      | SecP521r1 \<Rightarrow> Some 25
      | X25519 \<Rightarrow> Some 29
      | X25519MLKEM768 \<Rightarrow> Some 0x11EC
      | SecP256r1MLKEM768 \<Rightarrow> Some 0x11EB
      | SecP384r1MLKEM1024 \<Rightarrow> Some 0x11ED
      | GroupOther _ \<Rightarrow> None)"

definition usableCurvePreferences :: "tls_group list \<Rightarrow> 16 word list" where
  "usableCurvePreferences groups = List.map_filter tlsGroupToCurveID groups"

text \<open>\<open>newConfig\<close> is \<open>NewTLSConfigFromProfile\<close>: an option and the names of the ciphers it does not know.\<close>

definition buildProfileTLSOpts ::
    "(nat \<Rightarrow> bool) \<Rightarrow> (TLSProfileSpec \<Rightarrow> tls_opt \<times> string list) \<Rightarrow> CipherSuite list \<Rightarrow> TLSProfileSpec \<Rightarrow> string + tls_opt list" where
  "buildProfileTLSOpts isPrint newConfig suites profile =
     ebind (minTLSVersion isPrint (pf_MinTLSVersion profile)) (\<lambda>minVersion.
       let (tlsConfigFn, _) = newConfig profile;
           curvePreferences = usableCurvePreferences (pf_Groups profile)
       in if pf_Groups profile \<noteq> [] \<and> curvePreferences = [] then Inl ''TLS profile has no usable groups''
          else let opts = tlsConfigFn #
                     (if curvePreferences \<noteq> [] then [\<lambda>c. c\<lparr>tc_CurvePreferences := curvePreferences\<rparr>] else [])
            in if minVersion \<ge> tlsVersionTLS13 then Inr opts
               else let probe = tlsConfigFn \<lparr>tc_MinVersion = tlsVersionTLS12, tc_CipherSuites = [], tc_CurvePreferences = [], tc_NextProtos = []\<rparr>;
                        usable = usableCipherSuites suites (tc_CipherSuites probe)
                    in if pf_Ciphers profile \<noteq> [] \<and> usable = []
                       then Inl (''failed to find usable cipher suites for TLS <= 1.2: all '' @ showNat (length (pf_Ciphers profile))
                              @ '' ciphers in TLS profile are TLS 1.3-only or unimplemented by Go'')
                       else Inr (opts @ [\<lambda>c. c\<lparr>tc_CipherSuites := usable\<rparr>]))"

definition isStrict :: "adherence_policy \<Rightarrow> bool" where
  "isStrict adherence \<longleftrightarrow> adherence \<noteq> NoOpinion \<and> adherence \<noteq> LegacyAdheringComponentsOnly"

definition buildProfileTLSOptsWithAdherence ::
    "(nat \<Rightarrow> bool) \<Rightarrow> (TLSProfileSpec \<Rightarrow> tls_opt \<times> string list) \<Rightarrow> CipherSuite list \<Rightarrow> TLSProfileSpec \<Rightarrow> adherence_policy
       \<Rightarrow> string + tls_opt list" where
  "buildProfileTLSOptsWithAdherence isPrint newConfig suites profile adherence =
     ebind (buildProfileTLSOpts isPrint newConfig suites profile) (\<lambda>opts.
       if isStrict adherence \<and> pf_MinTLSVersion profile \<noteq> VersionTLS13 \<and> pf_Ciphers profile = []
       then Inl ''failed to find usable cipher suites for TLS <= 1.2: strict adherence requires a non-empty cipher list''
       else Inr opts)"

definition fetchAdherence :: "read_error + adherence_policy \<Rightarrow> string + adherence_policy" where
  "fetchAdherence fetched =
     (case fetched of
        Inr adherence \<Rightarrow> Inr adherence
      | Inl err \<Rightarrow>
          if ef_NoMatch (re_Flags err) \<or> ef_NotFound (re_Flags err) \<or> isTransientReadError err then Inr NoOpinion
          else Inl (''failed to read TLS adherence policy: '' @ ef_Text (re_Flags err)))"

record TLSResult =
  tr_TLSOpts :: "tls_opt list"
  tr_Profile :: TLSProfileSpec
  tr_AdherencePolicy :: adherence_policy
  tr_HasOpenShiftConfigAPI :: bool

record TLSEnv =
  te_SchemeError :: "string option"
  te_ClientError :: "string option"
  te_FetchProfile :: "read_error + TLSProfileSpec"
  te_FetchAdherence :: "read_error + adherence_policy"
  te_NewConfig :: "TLSProfileSpec \<Rightarrow> tls_opt \<times> string list"
  te_Suites :: "CipherSuite list"
  te_Intermediate :: TLSProfileSpec
  te_IsPrint :: "nat \<Rightarrow> bool"

definition nextProtos :: tls_opt where
  "nextProtos c = c\<lparr>tc_NextProtos := [''h2'', ''http/1.1'']\<rparr>"

definition tls_Resolve :: "TLSEnv \<Rightarrow> string + TLSResult" where
  "tls_Resolve env =
     (case (te_SchemeError env, te_ClientError env) of
        (Some e, _) \<Rightarrow> Inl (''failed to register OpenShift config API scheme: '' @ e)
      | (None, Some e) \<Rightarrow> Inl (''failed to create bootstrap client for TLS profile: '' @ e)
      | (None, None) \<Rightarrow>
          (case te_FetchProfile env of
             Inl err \<Rightarrow>
               (let f = re_Flags err;
                    fallback = (\<lambda>hasAPI. Inr \<lparr>tr_TLSOpts = [fst (te_NewConfig env (te_Intermediate env)), nextProtos],
                      tr_Profile = te_Intermediate env, tr_AdherencePolicy = NoOpinion, tr_HasOpenShiftConfigAPI = hasAPI\<rparr>)
                in if ef_NoMatch f then fallback False
                   else if ef_NotFound f then fallback False
                   else if isTransientReadError err then fallback True
                   else Inl (''failed to read APIServer TLS profile: '' @ ef_Text f))
           | Inr profile \<Rightarrow>
               ebind (fetchAdherence (te_FetchAdherence env)) (\<lambda>adherence.
               ebind (mapErr (\<lambda>e. ''failed to configure TLS: '' @ e)
                        (buildProfileTLSOptsWithAdherence (te_IsPrint env) (te_NewConfig env) (te_Suites env) profile adherence)) (\<lambda>profileOpts.
                 Inr \<lparr>tr_TLSOpts = profileOpts @ [nextProtos], tr_Profile = profile, tr_AdherencePolicy = adherence,
                      tr_HasOpenShiftConfigAPI = True\<rparr>))))"

text \<open>Whether the watcher of the security profile is registered; its callbacks stop the process.\<close>

definition SetupWatcher :: "TLSResult option \<Rightarrow> string option \<Rightarrow> bool \<times> string option" where
  "SetupWatcher result setupError =
     (case result of
        None \<Rightarrow> (False, None)
      | Some res \<Rightarrow>
          if \<not> tr_HasOpenShiftConfigAPI res then (False, None)
          else (case setupError of
                  Some e \<Rightarrow> (False, Some (''failed to register TLS security profile watcher: '' @ e))
                | None \<Rightarrow> (True, None)))"

section \<open>The module\<close>

fun canFallbackTLS :: "read_error \<Rightarrow> bool" where
  "canFallbackTLS (ReadError f resourceErrors groupErrors) =
     (if ef_Forbidden f \<or> ef_Unauthorized f then False
      else case resourceErrors of
        Some es \<Rightarrow> es \<noteq> [] \<and> list_all canFallbackTLS es
      | None \<Rightarrow>
          (case groupErrors of
             Some es \<Rightarrow> es \<noteq> [] \<and> list_all canFallbackTLS es
           | None \<Rightarrow> ef_NoMatch f \<or> ef_NotFound f \<or> ef_ServiceUnavailable f \<or> ef_InternalError f \<or> ef_Timeout f
               \<or> ef_ServerTimeout f \<or> ef_TooManyRequests f \<or> ef_DeadlineExceeded f \<or> ef_NetError f \<noteq> None))"

definition runtimeSuites :: "CipherSuite list \<Rightarrow> 16 word set" where
  "runtimeSuites suites =
     set (map cs_ID (filter (\<lambda>s. \<not> containsStr (cs_Name s) ''RC4'' \<and> list_ex (\<lambda>v. v \<le> tlsVersionTLS12) (cs_SupportedVersions s)) suites))"

text \<open>The text of a version that is not one of the known ones.\<close>

definition versionText :: "tls_version \<Rightarrow> string" where
  "versionText v = (case v of VersionOther t \<Rightarrow> t | _ \<Rightarrow> [])"

definition OptionsFromProfile ::
    "(nat \<Rightarrow> bool) \<Rightarrow> (TLSProfileSpec \<Rightarrow> tls_opt \<times> string list) \<Rightarrow> CipherSuite list \<Rightarrow> TLSProfileSpec \<Rightarrow> adherence_policy \<Rightarrow> string + tls_opt list" where
  "OptionsFromProfile isPrint newConfig suites profile adherence =
     (if pf_MinTLSVersion profile \<notin> {VersionTLS10, VersionTLS11, VersionTLS12, VersionTLS13}
      then Inl (''failed to configure TLS: invalid minimum TLS version '' @ goQuote isPrint (versionText (pf_MinTLSVersion profile)))
      else let (configure, _) = newConfig profile;
               resolved = configure \<lparr>tc_MinVersion = 0, tc_CipherSuites = [], tc_CurvePreferences = [], tc_NextProtos = []\<rparr>;
               usable = filter (\<lambda>i. i \<in> runtimeSuites suites) (tc_CipherSuites resolved);
               serve = (\<lambda>ciphers. [\<lambda>c. c\<lparr>tc_MinVersion := tc_MinVersion resolved, tc_CipherSuites := ciphers,
                                          tc_NextProtos := [''h2'', ''http/1.1'']\<rparr>])
           in if tc_MinVersion resolved < tlsVersionTLS13
              then if usable = [] \<and> (pf_Ciphers profile \<noteq> [] \<or> isStrict adherence)
                   then Inl ''failed to configure TLS: profile has no usable TLS <= 1.2 cipher suites''
                   else Inr (serve usable)
              else Inr (serve (tc_CipherSuites resolved)))"

record ModuleTLSResult =
  mt_TLSOpts :: "tls_opt list"
  mt_Profile :: TLSProfileSpec
  mt_AdherencePolicy :: adherence_policy
  mt_HasOpenShiftConfigAPI :: bool
  mt_retryTLSConfig :: bool

record APIServerSpec =
  as_TLSAdherence :: adherence_policy
  as_Profile :: "string + TLSProfileSpec"

text \<open>\<open>reader\<close> is the read of the \<open>APIServer\<close> object, \<open>as_Profile\<close> what \<open>GetTLSProfileSpec\<close> makes of its profile.\<close>

definition readTLSConfig ::
    "(nat \<Rightarrow> bool) \<Rightarrow> (TLSProfileSpec \<Rightarrow> tls_opt \<times> string list) \<Rightarrow> CipherSuite list \<Rightarrow> TLSProfileSpec \<Rightarrow> read_error + APIServerSpec \<Rightarrow> string + ModuleTLSResult" where
  "readTLSConfig isPrint newConfig suites intermediate reader =
     ebind (case reader of
              Inl err \<Rightarrow>
                if \<not> canFallbackTLS err then Inl (''failed to read APIServer TLS configuration: '' @ ef_Text (re_Flags err))
                else Inr \<lparr>mt_TLSOpts = [], mt_Profile = intermediate, mt_AdherencePolicy = NoOpinion,
                          mt_HasOpenShiftConfigAPI = ef_NotFound (re_Flags err),
                          mt_retryTLSConfig = (\<not> ef_NotFound (re_Flags err)
                            \<and> (re_ResourceErrors err \<noteq> None \<or> \<not> ef_NoMatch (re_Flags err)))\<rparr>
            | Inr apiServer \<Rightarrow>
                (case as_Profile apiServer of
                   Inl e \<Rightarrow> Inl (''failed to resolve APIServer TLS profile: '' @ e)
                 | Inr profile \<Rightarrow> Inr \<lparr>mt_TLSOpts = [], mt_Profile = profile, mt_AdherencePolicy = as_TLSAdherence apiServer,
                                      mt_HasOpenShiftConfigAPI = True, mt_retryTLSConfig = False\<rparr>)) (\<lambda>result.
       ebind (OptionsFromProfile isPrint newConfig suites (mt_Profile result) (mt_AdherencePolicy result)) (\<lambda>opts.
         Inr (result\<lparr>mt_TLSOpts := opts\<rparr>)))"

datatype watch_mode = NoWatcher | ProfileWatcher | FallbackWatcher

definition watcherChoice :: "ModuleTLSResult \<Rightarrow> watch_mode" where
  "watcherChoice result =
     (if mt_HasOpenShiftConfigAPI result then ProfileWatcher
      else if mt_retryTLSConfig result then FallbackWatcher
      else NoWatcher)"

definition module_SetupWatcher :: "string option \<Rightarrow> string option \<Rightarrow> ModuleTLSResult \<Rightarrow> string + watch_mode" where
  "module_SetupWatcher profileError fallbackError result =
     (case watcherChoice result of
        ProfileWatcher \<Rightarrow>
          (case profileError of Some e \<Rightarrow> Inl (''failed to register TLS security profile watcher: '' @ e) | None \<Rightarrow> Inr ProfileWatcher)
      | FallbackWatcher \<Rightarrow>
          (case fallbackError of Some e \<Rightarrow> Inl (''failed to register TLS fallback watcher: '' @ e) | None \<Rightarrow> Inr FallbackWatcher)
      | NoWatcher \<Rightarrow> Inr NoWatcher)"

definition module_Resolve ::
    "string option \<Rightarrow> string option \<Rightarrow> (nat \<Rightarrow> bool) \<Rightarrow> (TLSProfileSpec \<Rightarrow> tls_opt \<times> string list) \<Rightarrow> CipherSuite list
       \<Rightarrow> TLSProfileSpec \<Rightarrow> read_error + APIServerSpec \<Rightarrow> string + ModuleTLSResult" where
  "module_Resolve schemeError clientError isPrint newConfig suites intermediate reader =
     (case (schemeError, clientError) of
        (Some e, _) \<Rightarrow> Inl (''failed to register OpenShift config API scheme: '' @ e)
      | (None, Some e) \<Rightarrow> Inl (''failed to create TLS bootstrap client: '' @ e)
      | (None, None) \<Rightarrow> readTLSConfig isPrint newConfig suites intermediate reader)"

text \<open>
  The loop of the fallback watcher over the rounds of its ticker: the error of the read, whether the context is
  cancelled after it, and whether it is cancelled before the next tick.  The result is \<open>None\<close> while
  the loop runs, then what it returns.
\<close>

record watch_round =
  wr_Error :: "read_error option"
  wr_Cancelled :: bool
  wr_Done :: bool

fun fallbackWatcher_Start :: "watch_round list \<Rightarrow> string option option" where
  "fallbackWatcher_Start [] = None"
| "fallbackWatcher_Start (round # rounds) =
     (if wr_Cancelled round then Some None
      else case wr_Error round of
        Some err \<Rightarrow>
          if \<not> canFallbackTLS err then Some (Some (''failed to watch TLS configuration after startup fallback: '' @ ef_Text (re_Flags err)))
          else if wr_Done round then Some None else fallbackWatcher_Start rounds
      | None \<Rightarrow> if wr_Done round then Some None else fallbackWatcher_Start rounds)"

section \<open>Enforcement\<close>

text \<open>
  \<open>NewTLSConfigFromProfile\<close> sets the minimum version of the profile (TLS 1.2 when it has none), whatever the
  configuration was before.
\<close>

definition setsMinVersion :: "(TLSProfileSpec \<Rightarrow> tls_opt \<times> string list) \<Rightarrow> bool" where
  "setsMinVersion newConfig \<longleftrightarrow>
     (\<forall>profile isPrint v c. minTLSVersion isPrint (pf_MinTLSVersion profile) = Inr v \<longrightarrow> tc_MinVersion (fst (newConfig profile) c) = v)"

lemma applyOpts_simps [simp]:
  "applyOpts [] c = c" "applyOpts (f # fs) c = applyOpts fs (f c)" "applyOpts (fs @ gs) c = applyOpts gs (applyOpts fs c)"
  by (simp_all add: applyOpts_def)

lemma usable_suites: "i \<in> set (usableCipherSuites suites mapped) \<Longrightarrow> i \<in> cs_ID ` set suites \<and> \<not> (0x1300 \<le> i \<and> i \<le> 0x13ff)"
  by (auto simp: usableCipherSuites_def)

text \<open>The configuration that the options of a profile give.\<close>

lemma built_opts:
  assumes "buildProfileTLSOpts isPrint newConfig suites profile = Inr opts" "setsMinVersion newConfig"
  obtains v where "minTLSVersion isPrint (pf_MinTLSVersion profile) = Inr v" "tc_MinVersion (applyOpts opts c) = v"
    and "pf_Groups profile \<noteq> [] \<Longrightarrow> tc_CurvePreferences (applyOpts opts c) = usableCurvePreferences (pf_Groups profile)
           \<and> usableCurvePreferences (pf_Groups profile) \<noteq> []"
    and "v < tlsVersionTLS13 \<Longrightarrow> (\<forall>i \<in> set (tc_CipherSuites (applyOpts opts c)). i \<in> cs_ID ` set suites \<and> \<not> (0x1300 \<le> i \<and> i \<le> 0x13ff))
           \<and> (pf_Ciphers profile \<noteq> [] \<longrightarrow> tc_CipherSuites (applyOpts opts c) \<noteq> [])"
proof -
  obtain v where v: "minTLSVersion isPrint (pf_MinTLSVersion profile) = Inr v"
    using assms(1) by (auto simp: buildProfileTLSOpts_def ebind_Inr_iff)
  obtain f u where f: "newConfig profile = (f, u)" by force
  have mv: "tc_MinVersion (f c) = v" for c
    using assms(2) v f unfolding setsMinVersion_def by (metis fst_conv)
  show thesis
    by (rule that [OF v]) (use assms(1) f mv in \<open>auto simp: buildProfileTLSOpts_def v Let_def not_less usableCurvePreferences_def
        dest: usable_suites split: if_splits\<close>)
qed

text \<open>An error that was refused, or that carries a refused one where the decision looks for it.\<close>

fun denied :: "read_error \<Rightarrow> bool" where
  "denied (ReadError f resourceErrors groupErrors) \<longleftrightarrow>
     ef_Forbidden f \<or> ef_Unauthorized f
     \<or> (case resourceErrors of
          Some es \<Rightarrow> list_ex denied es
        | None \<Rightarrow> (case groupErrors of Some es \<Rightarrow> list_ex denied es | None \<Rightarrow> False))"

lemma canFallback_not_denied: "canFallbackTLS err \<Longrightarrow> \<not> denied err"
  by (induction err rule: canFallbackTLS.induct) (auto simp: list_all_iff list_ex_iff split: if_splits option.splits)

lemma minTLSVersion_13: "minTLSVersion isPrint v = Inr n \<Longrightarrow> n < tlsVersionTLS13 \<Longrightarrow> v \<noteq> VersionTLS13"
  by (auto simp: minTLSVersion_def)

text \<open>The errors after which a default stands in for the policy of the cluster.\<close>

definition excusable :: "read_error \<Rightarrow> bool" where
  "excusable err \<longleftrightarrow> ef_NoMatch (re_Flags err) \<or> ef_NotFound (re_Flags err) \<or> isTransientReadError err"

lemma runtimeSuites_iff:
  "i \<in> runtimeSuites suites \<longleftrightarrow> (\<exists>s \<in> set suites. cs_ID s = i \<and> \<not> containsStr (cs_Name s) ''RC4''
     \<and> (\<exists>x \<in> set (cs_SupportedVersions s). x \<le> tlsVersionTLS12))"
  by (auto simp: runtimeSuites_def list_ex_iff)

text \<open>The fallback watcher gives up only for a reason: cancellation, or an error that is not excused.\<close>

lemma fallback_watcher_persists:
  "fallbackWatcher_Start rounds = None \<longleftrightarrow>
     (\<forall>r \<in> set rounds. \<not> wr_Cancelled r \<and> \<not> wr_Done r \<and> (\<forall>err. wr_Error r = Some err \<longrightarrow> canFallbackTLS err))"
  by (induction rounds rule: fallbackWatcher_Start.induct) (auto split: option.split)

section \<open>Properties\<close>

text \<open>
  (C20) The TLS profile of the cluster is enforced: when the operator starts its servers, whatever their
  configuration was before, they speak at least the version of the profile; below TLS 1.3 they offer only
  suites that the runtime implements for these versions, and some of them when the profile lists
  ciphers or the adherence is strict; the curves of a profile with groups are used.  The Intermediate profile
  replaces it only when the API or its object does not exist or the read failed transiently, and in
  the last case the profile is still watched.
\<close>

theorem tls_policy_is_enforced:
  assumes "setsMinVersion (te_NewConfig env)" "tls_Resolve env = Inr res"
  shows "let cfg = applyOpts (tr_TLSOpts res) c in
      tc_NextProtos cfg = [''h2'', ''http/1.1'']
    \<and> (case te_FetchProfile env of
         Inr profile \<Rightarrow>
           tr_Profile res = profile \<and> tr_HasOpenShiftConfigAPI res
           \<and> (\<exists>v. minTLSVersion (te_IsPrint env) (pf_MinTLSVersion profile) = Inr v \<and> tc_MinVersion cfg = v
                \<and> (v < tlsVersionTLS13 \<longrightarrow>
                     (\<forall>i \<in> set (tc_CipherSuites cfg). i \<in> cs_ID ` set (te_Suites env) \<and> \<not> (0x1300 \<le> i \<and> i \<le> 0x13ff))
                     \<and> (pf_Ciphers profile \<noteq> [] \<or> isStrict (tr_AdherencePolicy res) \<longrightarrow> tc_CipherSuites cfg \<noteq> [])))
           \<and> (pf_Groups profile \<noteq> [] \<longrightarrow> tc_CurvePreferences cfg = usableCurvePreferences (pf_Groups profile) \<and> tc_CurvePreferences cfg \<noteq> [])
           \<and> (case te_FetchAdherence env of Inr a \<Rightarrow> tr_AdherencePolicy res = a | Inl e \<Rightarrow> tr_AdherencePolicy res = NoOpinion \<and> excusable e)
       | Inl err \<Rightarrow> tr_Profile res = te_Intermediate env \<and> excusable err
           \<and> (tr_HasOpenShiftConfigAPI res \<longleftrightarrow> \<not> ef_NoMatch (re_Flags err) \<and> \<not> ef_NotFound (re_Flags err)))"
proof (cases "te_FetchProfile env")
  case (Inl err)
  then show ?thesis using assms(2)
    by (auto simp: tls_Resolve_def excusable_def nextProtos_def Let_def split: option.splits if_splits)
next
  case (Inr profile)
  obtain adherence opts where a: "fetchAdherence (te_FetchAdherence env) = Inr adherence"
      and b: "buildProfileTLSOptsWithAdherence (te_IsPrint env) (te_NewConfig env) (te_Suites env) profile adherence = Inr opts"
      and res: "res = \<lparr>tr_TLSOpts = opts @ [nextProtos], tr_Profile = profile, tr_AdherencePolicy = adherence, tr_HasOpenShiftConfigAPI = True\<rparr>"
    using assms(2) Inr by (auto simp: tls_Resolve_def ebind_Inr_iff split: option.splits)
  have o: "buildProfileTLSOpts (te_IsPrint env) (te_NewConfig env) (te_Suites env) profile = Inr opts"
      and strict: "isStrict adherence \<and> pf_MinTLSVersion profile \<noteq> VersionTLS13 \<Longrightarrow> pf_Ciphers profile \<noteq> []"
    using b by (auto simp: buildProfileTLSOptsWithAdherence_def ebind_Inr_iff split: if_splits)
  have adh: "case te_FetchAdherence env of Inr a \<Rightarrow> tr_AdherencePolicy res = a | Inl e \<Rightarrow> tr_AdherencePolicy res = NoOpinion \<and> excusable e"
    using a by (auto simp: res fetchAdherence_def excusable_def split: sum.splits if_splits)
  obtain v where v: "minTLSVersion (te_IsPrint env) (pf_MinTLSVersion profile) = Inr v" "tc_MinVersion (applyOpts opts c) = v"
      "pf_Groups profile \<noteq> [] \<Longrightarrow> tc_CurvePreferences (applyOpts opts c) = usableCurvePreferences (pf_Groups profile)
         \<and> usableCurvePreferences (pf_Groups profile) \<noteq> []"
      "v < tlsVersionTLS13 \<Longrightarrow> (\<forall>i \<in> set (tc_CipherSuites (applyOpts opts c)). i \<in> cs_ID ` set (te_Suites env) \<and> \<not> (0x1300 \<le> i \<and> i \<le> 0x13ff))
         \<and> (pf_Ciphers profile \<noteq> [] \<longrightarrow> tc_CipherSuites (applyOpts opts c) \<noteq> [])"
    using built_opts [OF o assms(1), of c] by blast
  have ne: "tc_CipherSuites (applyOpts opts c) \<noteq> []" if "v < tlsVersionTLS13" "pf_Ciphers profile \<noteq> [] \<or> isStrict adherence"
    using v(4) [OF that(1)] that(2) strict minTLSVersion_13 [OF v(1) that(1)] by blast
  show ?thesis
    using v ne adh unfolding Let_def Inr sum.case by (simp add: res nextProtos_def)
qed

text \<open>
  (C21) The servers of the module fail closed: they start only when the profile, or in its place the
  Intermediate one, gives them a minimum version and, below TLS 1.3, suites that the runtime implements
  and that do not use RC4; a read that was refused, also inside of a failed discovery, never leads to
  the fallback, and after a fallback the profile is watched or read again unless the cluster does not have the API.
\<close>

theorem module_tls_fails_closed:
  assumes "setsMinVersion newConfig" "readTLSConfig isPrint newConfig suites intermediate reader = Inr res"
  shows "let cfg = applyOpts (mt_TLSOpts res) c in
      tc_NextProtos cfg = [''h2'', ''http/1.1'']
    \<and> (\<exists>v. minTLSVersion isPrint (pf_MinTLSVersion (mt_Profile res)) = Inr v \<and> tc_MinVersion cfg = v
         \<and> (v < tlsVersionTLS13 \<longrightarrow>
              (\<forall>i \<in> set (tc_CipherSuites cfg). \<exists>s \<in> set suites. cs_ID s = i \<and> \<not> containsStr (cs_Name s) ''RC4''
                 \<and> (\<exists>x \<in> set (cs_SupportedVersions s). x \<le> tlsVersionTLS12))
              \<and> (pf_Ciphers (mt_Profile res) \<noteq> [] \<or> isStrict (mt_AdherencePolicy res) \<longrightarrow> tc_CipherSuites cfg \<noteq> [])))
    \<and> (case reader of
         Inr apiServer \<Rightarrow> as_Profile apiServer = Inr (mt_Profile res) \<and> mt_AdherencePolicy res = as_TLSAdherence apiServer
           \<and> watcherChoice res = ProfileWatcher
       | Inl err \<Rightarrow> mt_Profile res = intermediate \<and> \<not> denied err
           \<and> (watcherChoice res = NoWatcher \<longleftrightarrow>
                ef_NoMatch (re_Flags err) \<and> \<not> ef_NotFound (re_Flags err) \<and> re_ResourceErrors err = None))"
proof -
  have o: "OptionsFromProfile isPrint newConfig suites (mt_Profile res) (mt_AdherencePolicy res) = Inr (mt_TLSOpts res)" (is "?build = _")
    using assms(2) by (auto simp: readTLSConfig_def ebind_Inr_iff split: sum.splits if_splits)
  have src: "case reader of
         Inr apiServer \<Rightarrow> as_Profile apiServer = Inr (mt_Profile res) \<and> mt_AdherencePolicy res = as_TLSAdherence apiServer \<and> mt_HasOpenShiftConfigAPI res
       | Inl err \<Rightarrow> mt_Profile res = intermediate \<and> canFallbackTLS err \<and> mt_HasOpenShiftConfigAPI res = ef_NotFound (re_Flags err)
           \<and> mt_retryTLSConfig res = (\<not> ef_NotFound (re_Flags err) \<and> (re_ResourceErrors err \<noteq> None \<or> \<not> ef_NoMatch (re_Flags err)))"
    using assms(2) by (auto simp: readTLSConfig_def ebind_Inr_iff split: sum.splits if_splits)
  let ?p = "mt_Profile res"
  obtain f u where f: "newConfig ?p = (f, u)" by force
  have "\<exists>v. minTLSVersion isPrint (pf_MinTLSVersion ?p) = Inr v"
    using o by (auto simp: OptionsFromProfile_def minTLSVersion_def split: if_splits)
  then obtain v where v: "minTLSVersion isPrint (pf_MinTLSVersion ?p) = Inr v" ..
  have mv: "tc_MinVersion (f c) = v" for c using assms(1) v f unfolding setsMinVersion_def by (metis fst_conv)
  have "tc_NextProtos (applyOpts opts c) = [''h2'', ''http/1.1''] \<and> tc_MinVersion (applyOpts opts c) = v
     \<and> (v < tlsVersionTLS13 \<longrightarrow> set (tc_CipherSuites (applyOpts opts c)) \<subseteq> runtimeSuites suites
          \<and> (pf_Ciphers ?p \<noteq> [] \<or> isStrict (mt_AdherencePolicy res) \<longrightarrow> tc_CipherSuites (applyOpts opts c) \<noteq> []))"
    if "?build = Inr opts" for opts
    using that by (auto simp: OptionsFromProfile_def f mv Let_def split: if_splits)
  note cfg = this [OF o]
  have "case reader of
         Inr apiServer \<Rightarrow> as_Profile apiServer = Inr (mt_Profile res) \<and> mt_AdherencePolicy res = as_TLSAdherence apiServer
           \<and> watcherChoice res = ProfileWatcher
       | Inl err \<Rightarrow> mt_Profile res = intermediate \<and> \<not> denied err
           \<and> (watcherChoice res = NoWatcher \<longleftrightarrow>
                ef_NoMatch (re_Flags err) \<and> \<not> ef_NotFound (re_Flags err) \<and> re_ResourceErrors err = None)"
    using src canFallback_not_denied by (auto simp: watcherChoice_def split: sum.splits)
  with cfg v show ?thesis unfolding Let_def by (auto simp: subset_iff runtimeSuites_iff)
qed

section \<open>Witnesses\<close>

definition exNewConfig :: "TLSProfileSpec \<Rightarrow> tls_opt \<times> string list" where
  "exNewConfig profile =
     (\<lambda>c. c\<lparr>tc_MinVersion := (case minTLSVersion (\<lambda>_. True) (pf_MinTLSVersion profile) of Inl _ \<Rightarrow> 0 | Inr v \<Rightarrow> v),
           tc_CipherSuites := [0xC02F, 0x1301, 0x0005]\<rparr>, [])"

lemma exNewConfig_law: "setsMinVersion exNewConfig"
  unfolding setsMinVersion_def exNewConfig_def
proof (intro allI impI)
  fix profile isPrint v c
  assume "minTLSVersion isPrint (pf_MinTLSVersion profile) = Inr v"
  then show "tc_MinVersion (fst (\<lambda>c. c\<lparr>tc_MinVersion := (case minTLSVersion (\<lambda>_. True) (pf_MinTLSVersion profile) of Inl _ \<Rightarrow> 0 | Inr v \<Rightarrow> v),
      tc_CipherSuites := [0xC02F, 0x1301, 0x0005]\<rparr>, []) c) = v"
    by (cases "pf_MinTLSVersion profile") (auto simp: minTLSVersion_def)
qed

definition exSuites :: "CipherSuite list" where
  "exSuites = [\<lparr>cs_ID = 0xC02F, cs_Name = ''TLS_ECDHE_RSA_WITH_AES_128_GCM_SHA256'', cs_SupportedVersions = [0x0303]\<rparr>,
     \<lparr>cs_ID = 0x0005, cs_Name = ''TLS_RSA_WITH_RC4_128_SHA'', cs_SupportedVersions = [0x0301, 0x0302, 0x0303]\<rparr>]"

definition exProfile :: TLSProfileSpec where
  "exProfile = \<lparr>pf_Ciphers = [''ECDHE-RSA-AES128-GCM-SHA256''], pf_MinTLSVersion = VersionTLS12, pf_Groups = [X25519]\<rparr>"

definition exPlainConfig :: tls_config where
  "exPlainConfig = \<lparr>tc_MinVersion = 0, tc_CipherSuites = [], tc_CurvePreferences = [], tc_NextProtos = []\<rparr>"

theorem tls_policy_is_enforced_witness:
  "\<exists>res. tls_Resolve \<lparr>te_SchemeError = None, te_ClientError = None, te_FetchProfile = Inr exProfile, te_FetchAdherence = Inr StrictAllComponents,
        te_NewConfig = exNewConfig, te_Suites = exSuites, te_Intermediate = exProfile, te_IsPrint = (\<lambda>_. True)\<rparr> = Inr res
     \<and> tc_MinVersion (applyOpts (tr_TLSOpts res) exPlainConfig) = 0x0303 \<and> tc_CipherSuites (applyOpts (tr_TLSOpts res) exPlainConfig) \<noteq> []
     \<and> tc_CurvePreferences (applyOpts (tr_TLSOpts res) exPlainConfig) = [29]"
proof -
  let ?env = "\<lparr>te_SchemeError = None, te_ClientError = None, te_FetchProfile = Inr exProfile, te_FetchAdherence = Inr StrictAllComponents,
      te_NewConfig = exNewConfig, te_Suites = exSuites, te_Intermediate = exProfile, te_IsPrint = (\<lambda>_. True)\<rparr>"
  have "\<exists>res. tls_Resolve ?env = Inr res"
    by (simp add: tls_Resolve_def fetchAdherence_def buildProfileTLSOptsWithAdherence_def buildProfileTLSOpts_def exProfile_def exNewConfig_def
        exSuites_def minTLSVersion_def usableCurvePreferences_def usableCipherSuites_def tlsGroupToCurveID_def List.map_filter_def Let_def
        tlsVersionTLS12_def tlsVersionTLS13_def)
  then obtain res where res: "tls_Resolve ?env = Inr res" ..
  have "setsMinVersion (te_NewConfig ?env)" using exNewConfig_law by simp
  note en = tls_policy_is_enforced [OF this res, of exPlainConfig]
  have "minTLSVersion (\<lambda>_. True) (pf_MinTLSVersion exProfile) = Inr 0x0303" "(0x0303 :: 16 word) < tlsVersionTLS13" "pf_Ciphers exProfile \<noteq> []"
    "pf_Groups exProfile \<noteq> []" "usableCurvePreferences (pf_Groups exProfile) = [29]"
    by (simp_all add: exProfile_def minTLSVersion_def tlsVersionTLS12_def tlsVersionTLS13_def usableCurvePreferences_def List.map_filter_def tlsGroupToCurveID_def)
  with en res show ?thesis unfolding Let_def by auto
qed

theorem module_tls_fails_closed_witness:
  "\<exists>res. readTLSConfig (\<lambda>_. True) exNewConfig exSuites exProfile
       (Inr \<lparr>as_TLSAdherence = StrictAllComponents, as_Profile = Inr exProfile\<rparr>) = Inr res
     \<and> tc_MinVersion (applyOpts (mt_TLSOpts res) exPlainConfig) = 0x0303 \<and> tc_CipherSuites (applyOpts (mt_TLSOpts res) exPlainConfig) \<noteq> []
     \<and> watcherChoice res = ProfileWatcher"
proof -
  let ?server = "\<lparr>as_TLSAdherence = StrictAllComponents, as_Profile = Inr exProfile\<rparr>"
  have "0xC02F \<in> runtimeSuites exSuites" by (simp add: runtimeSuites_def exSuites_def hasPrefix_def tlsVersionTLS12_def)
  then have "\<exists>res. readTLSConfig (\<lambda>_. True) exNewConfig exSuites exProfile (Inr ?server) = Inr res"
    by (simp add: readTLSConfig_def OptionsFromProfile_def exProfile_def exNewConfig_def Let_def)
  then obtain res where res: "readTLSConfig (\<lambda>_. True) exNewConfig exSuites exProfile (Inr ?server) = Inr res" ..
  note en = module_tls_fails_closed [OF exNewConfig_law res, of exPlainConfig]
  then have "mt_Profile res = exProfile" by (simp add: Let_def)
  moreover have "minTLSVersion (\<lambda>_. True) (pf_MinTLSVersion exProfile) = Inr 0x0303" "(0x0303 :: 16 word) < tlsVersionTLS13" "pf_Ciphers exProfile \<noteq> []"
    by (simp_all add: exProfile_def minTLSVersion_def tlsVersionTLS12_def tlsVersionTLS13_def)
  ultimately show ?thesis using en res unfolding Let_def by auto
qed

end
