(* ===== verification/Startup.thy ===== *)
theory Startup
  imports Watches Webhook Tls_Profile
begin

text \<open>
  The start of the operator (\<open>main.go\<close>, \<open>pkg/cluster/cluster.go\<close>): the registry of distributions, the cleanup after
  an upgrade, the set-up of the webhook and the reconciler, and the outcome of the process.
  The environment, the API server and the manager are arguments.
\<close>

section \<open>The cluster\<close>

record ClusterInfo =
  ci_OperatorNamespace :: string
  ci_DistributionImages :: "string gomap"

record Environment =
  ev_LookupEnv :: "string \<Rightarrow> string option"
  ev_ReadNamespace :: "string + string"
  ev_ParseImages :: "string + string gomap"

text \<open>
  \<open>ev_ReadNamespace\<close>: the file with the namespace of the service account; \<open>ev_ParseImages\<close>: what the JSON decoder
  makes of the embedded \<open>distributions.json\<close>.
\<close>

definition getenv :: "Environment \<Rightarrow> string \<Rightarrow> string" where
  "getenv env n = (case ev_LookupEnv env n of None \<Rightarrow> [] | Some v \<Rightarrow> v)"

definition GetOperatorNamespace :: "Environment \<Rightarrow> string + string" where
  "GetOperatorNamespace env =
     (case ev_LookupEnv env ''OPERATOR_NAMESPACE'' of
        Some operatorNS \<Rightarrow> if operatorNS \<noteq> [] then Inr operatorNS else ev_ReadNamespace env
      | None \<Rightarrow> ev_ReadNamespace env)"

definition NewClusterInfo :: "Environment \<Rightarrow> string + ClusterInfo" where
  "NewClusterInfo env =
     ebind (mapErr (\<lambda>e. ''failed to find operator namespace: '' @ e) (GetOperatorNamespace env)) (\<lambda>operatorNamespace.
       let img = getenv env ''RELATED_IMAGE_ODH_OGX_CORE_IMAGE'' in
       ebind (if img \<noteq> [] then Inr (mlit [(''rh'', img), (''rh-dev'', img)])
              else mapErr (\<lambda>e. ''failed to parse embedded distributions JSON: '' @ e) (ev_ParseImages env)) (\<lambda>distributionImages.
         Inr \<lparr>ci_OperatorNamespace = operatorNamespace, ci_DistributionImages = distributionImages\<rparr>))"

section \<open>Cleaning up after an upgrade\<close>

record Subject =
  sub_Kind :: string
  sub_Namespace :: string

record ClusterRoleBinding =
  crb_ObjectMeta :: ObjectMeta
  crb_Subjects :: "Subject list"

record 'w BindingAPI =
  ba_List :: "'w \<Rightarrow> api_error + ClusterRoleBinding list"
  ba_Delete :: "'w \<Rightarrow> ClusterRoleBinding \<Rightarrow> api_error option \<times> 'w"

definition shouldDeleteLegacyClusterRoleBinding :: "ClusterRoleBinding \<Rightarrow> bool" where
  "shouldDeleteLegacyClusterRoleBinding crb =
     (if mget (meta_Labels (crb_ObjectMeta crb)) ''app.kubernetes.io/managed-by'' \<noteq> Some ''ogx-operator'' then False
      else list_ex (\<lambda>s. sub_Kind s = ''ServiceAccount'' \<and> sub_Namespace s \<noteq> []) (crb_Subjects crb))"

text \<open>Every error is logged only.\<close>

definition cleanupLegacyClusterRoleBindings :: "'w BindingAPI \<Rightarrow> 'w \<Rightarrow> 'w" where
  "cleanupLegacyClusterRoleBindings api w =
     (case ba_List api w of
        Inl _ \<Rightarrow> w
      | Inr items \<Rightarrow> fold (\<lambda>crb w. snd (ba_Delete api w crb)) (filter shouldDeleteLegacyClusterRoleBinding items) w)"

definition PerformUpgradeCleanup :: "'w BindingAPI \<Rightarrow> 'w \<Rightarrow> string option \<times> 'w" where
  "PerformUpgradeCleanup api w = (None, cleanupLegacyClusterRoleBindings api w)"

section \<open>The manager\<close>

text \<open>
  The label that the cached client asks of an object of a kind; an object without it is not seen.
\<close>

definition newCacheOptions :: "string \<Rightarrow> (string \<times> string) option" where
  "newCacheOptions kind =
     (if kind \<in> {''ConfigMap'', ''Secret''} then Some (WatchLabelKey, WatchLabelValue)
      else if kind \<in> {''Deployment'', ''PodDisruptionBudget'', ''HorizontalPodAutoscaler'', ''Service'', ''Job'',
                      ''NetworkPolicy'', ''Ingress'', ''PersistentVolumeClaim''}
      then Some (''app.kubernetes.io/managed-by'', ''ogx-operator'')
      else None)"

definition cached :: "string \<Rightarrow> ObjectMeta \<Rightarrow> bool" where
  "cached kind m = (case newCacheOptions kind of None \<Rightarrow> True | Some (k, v) \<Rightarrow> mget (meta_Labels m) k = Some v)"

record MetricsOptions =
  mo_BindAddress :: string
  mo_TLSOpts :: "tls_opt list"
  mo_SecureServing :: bool
  mo_CertDir :: string
  mo_Authenticated :: bool

definition buildMetricsOptions :: "string \<Rightarrow> string \<Rightarrow> tls_opt list \<Rightarrow> MetricsOptions" where
  "buildMetricsOptions addr certPath tlsOpts =
     (let opts = \<lparr>mo_BindAddress = addr, mo_TLSOpts = tlsOpts, mo_SecureServing = False, mo_CertDir = [], mo_Authenticated = False\<rparr>
      in if certPath \<noteq> [] then opts\<lparr>mo_SecureServing := True, mo_CertDir := certPath, mo_Authenticated := True\<rparr> else opts)"

text \<open>
  What the manager answers: to the registrations of the webhook, the controller, the two health checks and the
  watcher of the TLS profile, and to \<open>Start\<close>: its error and whether its context was cancelled by then.
\<close>

record ManagerAPI =
  mg_NewManager :: "string option"
  mg_Webhook :: "string option"
  mg_Controller :: "string option"
  mg_Healthz :: "string option"
  mg_Readyz :: "string option"
  mg_Watcher :: "string option"
  mg_Start :: "string option \<times> bool"

text \<open>The names are the keys of a map in no particular order; the webhook reads them as a set.\<close>

definition setupWebhook :: "ManagerAPI \<Rightarrow> ClusterInfo \<Rightarrow> string + string list" where
  "setupWebhook mgr clusterInfo =
     (let distNames = mkeys (ci_DistributionImages clusterInfo) in
      case mg_Webhook mgr of Some e \<Rightarrow> Inl e | None \<Rightarrow> Inr distNames)"

definition NewOGXServerReconciler :: "'w Kube \<Rightarrow> ClusterInfo \<Rightarrow> string gomap \<Rightarrow> string \<Rightarrow> 'w OGXServerReconciler \<times> ReconcilerState" where
  "NewOGXServerReconciler kube clusterInfo imageMappingOverrides operatorNamespace =
     (\<lparr>rc_Kube = kube, rc_HasRecorder = False, rc_DistributionImages = ci_DistributionImages clusterInfo,
       rc_ImageMappingOverrides = imageMappingOverrides\<rparr>,
      \<lparr>rs_ImageMappingOverrides = imageMappingOverrides, rs_operatorNamespace = operatorNamespace, rs_cache = newOCIConfigCache\<rparr>)"

text \<open>The clients and decoders that the set-up uses.\<close>

record 'w SetupEnv =
  se_Env :: Environment
  se_ClientError :: "string option"
  se_Bindings :: "'w BindingAPI"
  se_OperatorConfig :: "'w OperatorConfigAPI"
  se_Kube :: "'w Kube"
  se_Unmarshal :: "string \<Rightarrow> string gomap option"
  se_ValidImage :: "string \<Rightarrow> bool"

text \<open>\<open>setupReconciler\<close>; \<open>SetupWithManager\<close> gives the reconciler the event recorder of the manager.\<close>

definition setupReconciler ::
    "'w SetupEnv \<Rightarrow> ManagerAPI \<Rightarrow> ClusterInfo \<Rightarrow> 'w \<Rightarrow> (string + 'w OGXServerReconciler \<times> ReconcilerState) \<times> 'w" where
  "setupReconciler se mgr clusterInfo w =
     (case GetOperatorNamespace (se_Env se) of
        Inl e \<Rightarrow> (Inl (''failed to get operator namespace: '' @ e), w)
      | Inr operatorNamespace \<Rightarrow>
          (case InitializeOperatorConfigMap (se_OperatorConfig se) operatorNamespace w of
             (Inl e, w1) \<Rightarrow> (Inl (''failed to initialize operator config: '' @ e), w1)
           | (Inr configMap, w1) \<Rightarrow>
               (let imageMappingOverrides = ParseImageMappingOverrides (se_Unmarshal se) (se_ValidImage se) (cmo_Data configMap) in
                (case mg_Controller mgr of
                   Some e \<Rightarrow> Inl (''failed to create controller: '' @ e)
                 | None \<Rightarrow>
                     let (r, st) = NewOGXServerReconciler (se_Kube se) clusterInfo imageMappingOverrides operatorNamespace
                     in Inr (r\<lparr>rc_HasRecorder := True\<rparr>, st), w1))))"

definition setupHealthChecks :: "ManagerAPI \<Rightarrow> string option" where
  "setupHealthChecks mgr =
     (case mg_Healthz mgr of
        Some e \<Rightarrow> Some (''failed to set up health check: '' @ e)
      | None \<Rightarrow> (case mg_Readyz mgr of Some e \<Rightarrow> Some (''failed to set up ready check: '' @ e) | None \<Rightarrow> None))"

text \<open>What runs after a successful set-up: the names that the webhook knows, and the reconciler with its state.\<close>

record 'w Components =
  cp_Known :: "string list"
  cp_Reconciler :: "'w OGXServerReconciler"
  cp_State :: ReconcilerState

definition setupComponents :: "'w SetupEnv \<Rightarrow> ManagerAPI \<Rightarrow> 'w \<Rightarrow> (string + 'w Components) \<times> 'w" where
  "setupComponents se mgr w =
     (case se_ClientError se of
        Some e \<Rightarrow> (Inl (''failed to set up clients: '' @ e), w)
      | None \<Rightarrow>
          (case NewClusterInfo (se_Env se) of
             Inl e \<Rightarrow> (Inl (''failed to initialize cluster config: '' @ e), w)
           | Inr clusterInfo \<Rightarrow>
               (case PerformUpgradeCleanup (se_Bindings se) w of
                  (Some e, w1) \<Rightarrow> (Inl (''failed to perform upgrade cleanup: '' @ e), w1)
                | (None, w1) \<Rightarrow>
                    (case setupWebhook mgr clusterInfo of
                       Inl e \<Rightarrow> (Inl (''failed to set up webhook: '' @ e), w1)
                     | Inr known \<Rightarrow>
                         (case setupReconciler se mgr clusterInfo w1 of
                            (Inl e, w2) \<Rightarrow> (Inl (''failed to set up reconciler: '' @ e), w2)
                          | (Inr (r, st), w2) \<Rightarrow>
                              (case setupHealthChecks mgr of
                                 Some e \<Rightarrow> (Inl e, w2)
                               | None \<Rightarrow> (Inr \<lparr>cp_Known = known, cp_Reconciler = r, cp_State = st\<rparr>, w2)))))))"

definition errTLSProfileChanged :: string where
  "errTLSProfileChanged = ''TLS profile changed, restarting''"

text \<open>\<open>run\<close>: the error of the process, which then exits with status 1.\<close>

definition operator_run :: "string option \<Rightarrow> TLSEnv \<Rightarrow> 'w SetupEnv \<Rightarrow> ManagerAPI \<Rightarrow> 'w \<Rightarrow> string option \<times> 'w" where
  "operator_run kubeconfigError tlsEnv se mgr w =
     (case kubeconfigError of
        Some e \<Rightarrow> (Some (''failed to get kubeconfig: '' @ e), w)
      | None \<Rightarrow>
          (case tls_Resolve tlsEnv of
             Inl e \<Rightarrow> (Some (''failed to set up TLS: '' @ e), w)
           | Inr tlsResult \<Rightarrow>
               (case mg_NewManager mgr of
                  Some e \<Rightarrow> (Some (''failed to start manager: '' @ e), w)
                | None \<Rightarrow>
                    (case setupComponents se mgr w of
                       (Inl e, w1) \<Rightarrow> (Some e, w1)
                     | (Inr _, w1) \<Rightarrow>
                         (case snd (SetupWatcher (Some tlsResult) (mg_Watcher mgr)) of
                            Some e \<Rightarrow> (Some e, w1)
                          | None \<Rightarrow>
                              (case mg_Start mgr of
                                 (Some e, _) \<Rightarrow> (Some e, w1)
                               | (None, cancelled) \<Rightarrow>
                                   (if cancelled \<and> tr_HasOpenShiftConfigAPI tlsResult then Some errTLSProfileChanged else None, w1)))))))"

section \<open>What the start guarantees\<close>

text \<open>The cleanup deletes bindings that an earlier operator made for a service account, and nothing else.\<close>

lemma cleanup_deletes_only_legacy_bindings:
  "\<exists>crbs. snd (PerformUpgradeCleanup api w) = fold (\<lambda>crb w. snd (ba_Delete api w crb)) crbs w
     \<and> (\<forall>crb \<in> set crbs. mget (meta_Labels (crb_ObjectMeta crb)) ''app.kubernetes.io/managed-by'' = Some ''ogx-operator''
          \<and> (\<exists>s \<in> set (crb_Subjects crb). sub_Kind s = ''ServiceAccount'' \<and> sub_Namespace s \<noteq> []))"
proof (cases "ba_List api w")
  case (Inl e)
  then show ?thesis
    by (intro exI [of _ "[]"]) (simp add: PerformUpgradeCleanup_def cleanupLegacyClusterRoleBindings_def)
next
  case (Inr items)
  then show ?thesis
    by (intro exI [of _ "filter shouldDeleteLegacyClusterRoleBinding items"])
       (auto simp: PerformUpgradeCleanup_def cleanupLegacyClusterRoleBindings_def shouldDeleteLegacyClusterRoleBinding_def
         list_ex_iff split: if_splits)
qed

text \<open>
  A manager that stops without an error because its context was cancelled, by a signal as much as by a changed
  profile, makes the operator of an OpenShift cluster fail with the message about the profile.
\<close>

lemma every_shutdown_is_a_profile_change:
  assumes "tls_Resolve tlsEnv = Inr res" "tr_HasOpenShiftConfigAPI res" "mg_NewManager mgr = None" "mg_Watcher mgr = None"
    and "setupComponents se mgr w = (Inr c, w')" "mg_Start mgr = (None, True)"
  shows "operator_run None tlsEnv se mgr w = (Some errTLSProfileChanged, w')"
  using assms by (simp add: operator_run_def SetupWatcher_def)

lemma setupComponents_registry:
  assumes "setupComponents se mgr w = (Inr c, w')"
  obtains ci where "NewClusterInfo (se_Env se) = Inr ci" "cp_Known c = mkeys (ci_DistributionImages ci)"
    "rc_DistributionImages (cp_Reconciler c) = ci_DistributionImages ci"
  using assms
  by (auto simp: setupComponents_def setupReconciler_def setupWebhook_def NewOGXServerReconciler_def PerformUpgradeCleanup_def Let_def
      split: option.splits sum.splits prod.splits)

lemma admitted_name_is_known:
  assumes "snd (ValidateCreate known server) = []" "known \<noteq> []" "dist_Name (spec_Distribution (srv_Spec server)) \<noteq> []"
  shows "dist_Name (spec_Distribution (srv_Spec server)) \<in> set known"
  using assms by (simp add: ValidateCreate_def snd_validateAgainst collectErrors_def validateDistributionName_iff)

text \<open>
  (C25) The webhook and the reconciler of a started operator agree on the distributions: when the registry is not
  empty, a new server that the webhook admits and that names a distribution or an image (as the CRD demands) is
  resolved to an image, whatever image overrides the operator's ConfigMap has by then: its own image,
  or, for a name, the override of that name or the image of the registry.
\<close>

theorem admitted_distributions_resolve:
  assumes "setupComponents se mgr w = (Inr c, w')" and "cp_Known c \<noteq> []"
    and "snd (ValidateCreate (cp_Known c) server) = []"
    and "dist_Name (spec_Distribution (srv_Spec server)) \<noteq> [] \<or> dist_Image (spec_Distribution (srv_Spec server)) \<noteq> []"
  shows "\<exists>img. resolveImage ((cp_Reconciler c)\<lparr>rc_ImageMappingOverrides := overrides\<rparr>) (spec_Distribution (srv_Spec server)) = Inr img
     \<and> (if dist_Name (spec_Distribution (srv_Spec server)) = [] then img = dist_Image (spec_Distribution (srv_Spec server))
        else Some img = mget overrides (dist_Name (spec_Distribution (srv_Spec server)))
           \<or> Some img = mget (rc_DistributionImages (cp_Reconciler c)) (dist_Name (spec_Distribution (srv_Spec server))))"
proof -
  let ?n = "dist_Name (spec_Distribution (srv_Spec server))"
  obtain ci where "NewClusterInfo (se_Env se) = Inr ci" and ci: "cp_Known c = mkeys (ci_DistributionImages ci)"
      "rc_DistributionImages (cp_Reconciler c) = ci_DistributionImages ci"
    using assms(1) by (rule setupComponents_registry)
  show ?thesis
  proof (cases "?n = []")
    case True
    with assms(4) show ?thesis by (simp add: resolveImage_def)
  next
    case False
    with admitted_name_is_known [OF assms(3,2)] have "?n \<in> set (mkeys (ci_DistributionImages ci))" by (simp add: ci)
    then obtain img where "mget (ci_DistributionImages ci) ?n = Some img" using mget_in_mkeys [of _ ?n] by fastforce
    with False show ?thesis by (auto simp: resolveImage_def ci split: option.split)
  qed
qed

definition exEnvironment :: Environment where
  "exEnvironment = \<lparr>ev_LookupEnv = (\<lambda>n. if n = ''OPERATOR_NAMESPACE'' then Some ''ogx-system'' else None),
     ev_ReadNamespace = Inl ''no such file'', ev_ParseImages = Inr [(''starter'', ''quay.io/ogx/starter:1'')]\<rparr>"

definition exSetup :: "Store SetupEnv" where
  "exSetup = \<lparr>se_Env = exEnvironment, se_ClientError = None,
     se_Bindings = \<lparr>ba_List = (\<lambda>w. Inr []), ba_Delete = (\<lambda>w b. (None, w))\<rparr>,
     se_OperatorConfig = \<lparr>oc_Get = (\<lambda>w ns n. Inl (NotFound n)), oc_Update = (\<lambda>w c. (Inr c, w)), oc_Create = (\<lambda>w c. (Inr c, w))\<rparr>,
     se_Kube = storeKube, se_Unmarshal = (\<lambda>_. None), se_ValidImage = (\<lambda>_. True)\<rparr>"

definition exManager :: ManagerAPI where
  "exManager = \<lparr>mg_NewManager = None, mg_Webhook = None, mg_Controller = None, mg_Healthz = None, mg_Readyz = None,
     mg_Watcher = None, mg_Start = (None, False)\<rparr>"

theorem admitted_distributions_resolve_witness:
  "\<exists>c img. setupComponents exSetup exManager exStore = (Inr c, exStore)
     \<and> snd (ValidateCreate (cp_Known c) (exServer [] None)) = []
     \<and> resolveImage ((cp_Reconciler c)\<lparr>rc_ImageMappingOverrides := []\<rparr>) (spec_Distribution (srv_Spec (exServer [] None))) = Inr img
     \<and> img = ''quay.io/ogx/starter:1''"
proof -
  obtain c where c: "setupComponents exSetup exManager exStore = (Inr c, exStore)" "cp_Known c = [''starter'']"
      "rc_DistributionImages (cp_Reconciler c) = [(''starter'', ''quay.io/ogx/starter:1'')]"
    by (simp add: setupComponents_def exSetup_def exEnvironment_def exManager_def NewClusterInfo_def GetOperatorNamespace_def getenv_def
        PerformUpgradeCleanup_def cleanupLegacyClusterRoleBindings_def setupWebhook_def setupReconciler_def
        InitializeOperatorConfigMap_def setupHealthChecks_def NewOGXServerReconciler_def mkeys_def mapErr_def Let_def)
  have a: "snd (ValidateCreate (cp_Known c) (exServer [] None)) = []" unfolding c(2) by code_simp
  have n: "dist_Name (spec_Distribution (srv_Spec (exServer [] None))) = ''starter''" by (simp add: exServer_def)
  have m: "mget [(''starter'', ''quay.io/ogx/starter:1'')] ''starter'' = Some ''quay.io/ogx/starter:1''"
      "mget ([] :: string gomap) ''starter'' = None" by (simp_all add: mget_def)
  from admitted_distributions_resolve [OF c(1) _ a, of "[]"] obtain img where
    "resolveImage ((cp_Reconciler c)\<lparr>rc_ImageMappingOverrides := []\<rparr>) (spec_Distribution (srv_Spec (exServer [] None))) = Inr img"
    "img = ''quay.io/ogx/starter:1''"
    by (auto simp: n c(2,3) m)
  with c(1) a show ?thesis by blast
qed

end
