(* ===== verification/Module_Start.thy ===== *)
theory Module_Start
  imports Startup
begin

text \<open>
  The process of the OGX module (\<open>ogx-module/cmd/ogx-module\<close>) and the default namespace of its settings
  (\<open>ogx-module/pkg/config\<close>).  The settings, the manager and the clients are arguments.
\<close>

section \<open>Settings\<close>

definition DefaultApplicationsNS :: string where
  "DefaultApplicationsNS = ''opendatahub''"

definition applicationsNamespace :: "(string \<Rightarrow> string) \<Rightarrow> string" where
  "applicationsNamespace env =
     (let ns = env ''APPLICATIONS_NAMESPACE'';
          ns = (if ns = [] then env ''RHAI_APPLICATIONS_NAMESPACE'' else ns)
      in if ns = [] then DefaultApplicationsNS else ns)"

section \<open>The process\<close>

text \<open>The error of loading the certificate of a directory is an argument.\<close>

definition module_buildMetricsOptions ::
    "(string \<Rightarrow> string option) \<Rightarrow> string \<Rightarrow> string \<Rightarrow> tls_opt list \<Rightarrow> string + MetricsOptions" where
  "module_buildMetricsOptions loadKeyPair addr certPath tlsOpts =
     (let opts = \<lparr>mo_BindAddress = addr, mo_TLSOpts = tlsOpts, mo_SecureServing = True, mo_CertDir = certPath, mo_Authenticated = False\<rparr>
      in if addr \<noteq> ''0'' \<and> certPath \<noteq> [] then
           (case loadKeyPair certPath of
              Some e \<Rightarrow> Inl (''failed to load metrics serving certificate: '' @ e)
            | None \<Rightarrow> Inr opts)
         else Inr opts)"

definition operatorNS :: "(string \<Rightarrow> string) \<Rightarrow> string" where
  "operatorNS env =
     (if env ''ODH_MODULE_OPERATOR_NAMESPACE'' = [] then env ''POD_NAMESPACE'' else env ''ODH_MODULE_OPERATOR_NAMESPACE'')"

definition watchNamespaces :: "string \<Rightarrow> string \<Rightarrow> string set" where
  "watchNamespaces opNS appNS = (if opNS \<noteq> [] then {opNS} else {}) \<union> (if appNS \<noteq> [] then {appNS} else {})"

text \<open>What the manager is started with, and the answers of the libraries in the order of the calls.\<close>

record ManagerOptions =
  mn_Metrics :: MetricsOptions
  mn_HealthProbeBindAddress :: string
  mn_LeaderElection :: bool
  mn_LeaderElectionID :: string
  mn_LeaderElectionNamespace :: string
  mn_Namespaces :: "string set"

record ModuleEnv =
  mv_Getenv :: "string \<Rightarrow> string"
  mv_KubeConfig :: "string option"
  mv_SchemeError :: "string option"
  mv_ClientError :: "string option"
  mv_IsPrint :: "nat \<Rightarrow> bool"
  mv_NewConfig :: "TLSProfileSpec \<Rightarrow> tls_opt \<times> string list"
  mv_Suites :: "CipherSuite list"
  mv_Intermediate :: TLSProfileSpec
  mv_APIServer :: "read_error + APIServerSpec"
  mv_LoadKeyPair :: "string \<Rightarrow> string option"
  mv_Dynamic :: "string option"
  mv_Discovery :: "string option"
  mv_NewManager :: "ManagerOptions \<Rightarrow> string option"
  mv_Controller :: "string option"
  mv_Healthz :: "string option"
  mv_Readyz :: "string option"
  mv_ProfileWatcher :: "string option"
  mv_FallbackWatcher :: "string option"
  mv_Start :: "string option"

definition resolvedTLS :: "ModuleEnv \<Rightarrow> string + ModuleTLSResult" where
  "resolvedTLS env = module_Resolve (mv_SchemeError env) (mv_ClientError env) (mv_IsPrint env) (mv_NewConfig env) (mv_Suites env)
     (mv_Intermediate env) (mv_APIServer env)"

definition failing :: "string \<Rightarrow> string option \<Rightarrow> string + unit" where
  "failing what e = (case e of Some t \<Rightarrow> Inl (what @ t) | None \<Rightarrow> Inr ())"

text \<open>\<open>run\<close>: the options that the manager was started with when everything was set up, and the error.\<close>

definition module_run ::
    "ModuleEnv \<Rightarrow> string \<Rightarrow> string \<Rightarrow> string \<Rightarrow> string \<Rightarrow> string \<Rightarrow> bool \<Rightarrow> string + ManagerOptions \<times> string option" where
  "module_run env appNS leaderID metricsAddr probeAddr metricsCertPath enableLeaderElect =
     (let opNS = operatorNS (mv_Getenv env) in
      ebind (failing ''failed to get Kubernetes configuration: '' (mv_KubeConfig env)) (\<lambda>_.
      ebind (mapErr (\<lambda>e. ''failed to set up TLS: '' @ e) (resolvedTLS env)) (\<lambda>tlsResult.
      ebind (module_buildMetricsOptions (mv_LoadKeyPair env) metricsAddr metricsCertPath (mt_TLSOpts tlsResult)) (\<lambda>metricsOptions.
      ebind (failing ''failed to create dynamic client: '' (mv_Dynamic env)) (\<lambda>_.
      ebind (failing ''failed to create discovery client: '' (mv_Discovery env)) (\<lambda>_.
      let opts = \<lparr>mn_Metrics = metricsOptions, mn_HealthProbeBindAddress = probeAddr, mn_LeaderElection = enableLeaderElect,
            mn_LeaderElectionID = leaderID, mn_LeaderElectionNamespace = opNS, mn_Namespaces = watchNamespaces opNS appNS\<rparr> in
      ebind (failing ''failed to create manager: '' (mv_NewManager env opts)) (\<lambda>_.
      ebind (failing ''failed to create OGX controller: '' (mv_Controller env)) (\<lambda>_.
      ebind (failing ''failed to set up health check: '' (mv_Healthz env)) (\<lambda>_.
      ebind (failing ''failed to set up ready check: '' (mv_Readyz env)) (\<lambda>_.
      ebind (module_SetupWatcher (mv_ProfileWatcher env) (mv_FallbackWatcher env) tlsResult) (\<lambda>_.
        Inr (opts, mv_Start env))))))))))))"

section \<open>What a started module serves\<close>

lemma metrics_are_secure:
  assumes "module_buildMetricsOptions loadKeyPair addr certPath tlsOpts = Inr opts"
  shows "mo_SecureServing opts \<and> mo_TLSOpts opts = tlsOpts \<and> (addr \<noteq> ''0'' \<and> certPath \<noteq> [] \<longrightarrow> loadKeyPair certPath = None)"
  using assms by (auto simp: module_buildMetricsOptions_def Let_def split: if_splits option.splits)

text \<open>
  The metrics of a started module are served over TLS with the resolved profile, and a configured certificate was
  loaded; the manager watches the namespaces of the module and of its applications only, when they are known.
\<close>

lemma started_module_serves_securely:
  assumes "module_run env appNS leaderID metricsAddr probeAddr certPath elect = Inr (opts, err)"
  obtains tlsResult where "resolvedTLS env = Inr tlsResult" "mo_SecureServing (mn_Metrics opts)"
    "mo_TLSOpts (mn_Metrics opts) = mt_TLSOpts tlsResult"
    "metricsAddr \<noteq> ''0'' \<and> certPath \<noteq> [] \<Longrightarrow> mv_LoadKeyPair env certPath = None"
    "mn_Namespaces opts = {operatorNS (mv_Getenv env), appNS} - {[]}"
proof -
  obtain tlsResult where t: "resolvedTLS env = Inr tlsResult"
      and m: "module_buildMetricsOptions (mv_LoadKeyPair env) metricsAddr certPath (mt_TLSOpts tlsResult) = Inr (mn_Metrics opts)"
      and n: "mn_Namespaces opts = watchNamespaces (operatorNS (mv_Getenv env)) appNS"
    using assms by (auto simp: module_run_def Let_def ebind_Inr_iff mapErr_def split: sum.splits)
  note metrics = metrics_are_secure [OF m]
  have "watchNamespaces a b = {a, b} - {[]}" for a b by (auto simp: watchNamespaces_def)
  then show thesis using that [OF t] n metrics by simp
qed

end
