(* ===== verification/Oci_Fetcher.thy ===== *)
theory Oci_Fetcher
  imports Config_Resolver Go_Quote
begin

text \<open>
  The label fetcher of the base config resolver (\<open>pkg/config/oci_fetcher.go\<close>): the labels of an image from
  its registry.  The parser of image references, the HTTP client and the JSON decoders are arguments.
\<close>

record OciLib =
  ol_ParseReference :: "string \<Rightarrow> string + string \<times> string \<times> string"
  ol_NewRequest :: "string \<Rightarrow> string option"
  ol_Get :: "string \<Rightarrow> string \<Rightarrow> string + int \<times> (string + string)"
  ol_ManifestDigest :: "string \<Rightarrow> string + string"
  ol_ConfigLabels :: "string \<Rightarrow> string + string gomap option"
  ol_IsPrint :: "nat \<Rightarrow> bool"

text \<open>
  \<open>ol_ParseReference\<close>: registry, repository and identifier; \<open>ol_NewRequest\<close>: the error of building a
  request; \<open>ol_Get\<close>: the answer to a request for a URL with an \<open>Accept\<close> header, its status and what
  reading its body gives (a decoder that reads the body fails when the body cannot be read).
\<close>

definition configBlobLimit :: nat where
  "configBlobLimit = 2 ^ 20"

fun probeSchemes :: "OciLib \<Rightarrow> string \<Rightarrow> string list \<Rightarrow> string + string" where
  "probeSchemes lib registry [] = Inl ''failed to connect on https or http''"
| "probeSchemes lib registry (scheme # schemes) =
     (let probeURL = scheme @ ''://'' @ registry @ ''/v2/'' in
      if ol_NewRequest lib probeURL \<noteq> None then probeSchemes lib registry schemes
      else case ol_Get lib probeURL [] of
             Inl _ \<Rightarrow> probeSchemes lib registry schemes
           | Inr _ \<Rightarrow> Inr (scheme @ ''://'' @ registry))"

definition detectRegistryScheme :: "OciLib \<Rightarrow> string \<Rightarrow> string + string" where
  "detectRegistryScheme lib registry = probeSchemes lib registry [''https'', ''http'']"

definition manifestTypes :: string where
  "manifestTypes = ''application/vnd.oci.image.manifest.v1+json, application/vnd.docker.distribution.manifest.v2+json''"

definition fetchManifestConfigDigest :: "OciLib \<Rightarrow> string \<Rightarrow> string \<Rightarrow> string \<Rightarrow> string \<Rightarrow> string + string" where
  "fetchManifestConfigDigest lib base repo identifier imageRef =
     (let url = base @ ''/v2/'' @ repo @ ''/manifests/'' @ identifier; q = goQuote (ol_IsPrint lib) imageRef in
      case ol_NewRequest lib url of
        Some e \<Rightarrow> Inl (''failed to build manifest request: '' @ e)
      | None \<Rightarrow>
          (case ol_Get lib url manifestTypes of
             Inl e \<Rightarrow> Inl (''failed to fetch manifest for '' @ q @ '': '' @ e)
           | Inr (status, body) \<Rightarrow>
               if status \<noteq> 200 then Inl (''failed to fetch manifest for '' @ q @ '': HTTP '' @ showInt status)
               else mapErr (\<lambda>e. ''failed to decode manifest for '' @ q @ '': '' @ e) (ebind body (ol_ManifestDigest lib))))"

definition fetchConfigLabels :: "OciLib \<Rightarrow> string \<Rightarrow> string \<Rightarrow> string \<Rightarrow> string \<Rightarrow> string + string gomap" where
  "fetchConfigLabels lib base repo digest imageRef =
     (let url = base @ ''/v2/'' @ repo @ ''/blobs/'' @ digest; q = goQuote (ol_IsPrint lib) imageRef in
      case ol_NewRequest lib url of
        Some e \<Rightarrow> Inl (''failed to build config blob request: '' @ e)
      | None \<Rightarrow>
          (case ol_Get lib url [] of
             Inl e \<Rightarrow> Inl (''failed to fetch config blob for '' @ q @ '': '' @ e)
           | Inr (status, body) \<Rightarrow>
               if status \<noteq> 200 then Inl (''failed to fetch config blob for '' @ q @ '': HTTP '' @ showInt status)
               else ebind (mapErr (\<lambda>e. ''failed to read config blob for '' @ q @ '': '' @ e) body) (\<lambda>text.
                    ebind (mapErr (\<lambda>e. ''failed to decode config for '' @ q @ '': '' @ e)
                             (ol_ConfigLabels lib (take configBlobLimit text))) (\<lambda>labels.
                      Inr (case labels of None \<Rightarrow> mempty | Some ls \<Rightarrow> ls)))))"

definition fetchOCILabels :: "OciLib \<Rightarrow> label_fetcher" where
  "fetchOCILabels lib imageRef =
     (let q = goQuote (ol_IsPrint lib) in
      ebind (mapErr (\<lambda>e. ''failed to parse image reference '' @ q imageRef @ '': '' @ e) (ol_ParseReference lib imageRef))
        (\<lambda>(registry, repo, identifier).
      ebind (mapErr (\<lambda>e. ''failed to reach registry '' @ q registry @ '': '' @ e) (detectRegistryScheme lib registry)) (\<lambda>base.
      ebind (fetchManifestConfigDigest lib base repo identifier imageRef) (\<lambda>configDigest.
        if configDigest = [] then Inr mempty
        else fetchConfigLabels lib base repo configDigest imageRef))))"

section \<open>Which answers count\<close>

definition answers :: "OciLib \<Rightarrow> string \<Rightarrow> bool" where
  "answers lib url \<longleftrightarrow> ol_NewRequest lib url = None \<and> (\<exists>a. ol_Get lib url [] = Inr a)"

text \<open>Plain HTTP is used only for a registry that does not answer on HTTPS.\<close>

lemma https_first:
  assumes "detectRegistryScheme lib registry = Inr base"
  shows "base = ''https://'' @ registry \<and> answers lib (''https://'' @ registry @ ''/v2/'')
       \<or> base = ''http://'' @ registry \<and> answers lib (''http://'' @ registry @ ''/v2/'') \<and> \<not> answers lib (''https://'' @ registry @ ''/v2/'')"
  using assms by (auto simp: detectRegistryScheme_def answers_def Let_def split: if_splits sum.splits)

text \<open>
  Labels that are returned were decoded from at most one MiB of a successful answer of that registry, for
  the digest in a successful answer to the request for the manifest.
\<close>

lemma fetched_labels:
  assumes "fetchOCILabels lib imageRef = Inr labels" "labels \<noteq> mempty"
  obtains registry repo ident base digest manifest blob where
    "ol_ParseReference lib imageRef = Inr (registry, repo, ident)" "detectRegistryScheme lib registry = Inr base"
    "ol_Get lib (base @ ''/v2/'' @ repo @ ''/manifests/'' @ ident) manifestTypes = Inr (200, Inr manifest)"
    "ol_ManifestDigest lib manifest = Inr digest"
    "ol_Get lib (base @ ''/v2/'' @ repo @ ''/blobs/'' @ digest) [] = Inr (200, Inr blob)"
    "ol_ConfigLabels lib (take configBlobLimit blob) = Inr (Some labels)"
proof -
  obtain registry repo ident base digest where r: "ol_ParseReference lib imageRef = Inr (registry, repo, ident)"
      "detectRegistryScheme lib registry = Inr base" "fetchManifestConfigDigest lib base repo ident imageRef = Inr digest"
      "fetchConfigLabels lib base repo digest imageRef = Inr labels"
    using assms by (auto simp: fetchOCILabels_def ebind_Inr_iff Let_def split: if_splits)
  from r(3) obtain manifest where m: "ol_Get lib (base @ ''/v2/'' @ repo @ ''/manifests/'' @ ident) manifestTypes = Inr (200, Inr manifest)"
      "ol_ManifestDigest lib manifest = Inr digest"
    unfolding fetchManifestConfigDigest_def Let_def by (auto simp: ebind_Inr_iff split: option.splits sum.splits prod.splits if_splits)
  from r(4) assms(2) obtain blob where t: "ol_Get lib (base @ ''/v2/'' @ repo @ ''/blobs/'' @ digest) [] = Inr (200, Inr blob)"
      "ol_ConfigLabels lib (take configBlobLimit blob) = Inr (Some labels)"
    unfolding fetchConfigLabels_def Let_def by (auto simp: ebind_Inr_iff split: option.splits sum.splits prod.splits if_splits)
  show thesis using that [OF r(1,2) m t] .
qed

end
