(* ===== verification/Configgen.thy ===== *)
theory Configgen
  imports Config_Correct Config_Maps Webhook Oci_Fetcher
begin

text \<open>
  The command line tool (\<open>cmd/configgen/main.go\<close>): generating the configuration of a server outside
  Kubernetes.  The standard library's flag parser is modelled as it is used; files, the environment, the
  decoder of Kubernetes objects, the JSON decoder and the test API server are arguments.  Standard input is state:
  a read of \<open>-\<close> takes all that is left of it.
\<close>

section \<open>The command line\<close>

record options =
  opt_crPath :: string
  opt_basePath :: string
  opt_crdPath :: string
  opt_distributionsPath :: string
  opt_outputConfig :: bool
  opt_validate :: bool

definition flagDefaults :: options where
  "flagDefaults = \<lparr> opt_crPath = [], opt_basePath = [], opt_crdPath = ''config/crd/bases'',
     opt_distributionsPath = ''distributions.json'', opt_outputConfig = False, opt_validate = False \<rparr>"

datatype flag_error =
    BadFlagSyntax string
  | UndefinedFlag string
  | HelpRequested
  | FlagNeedsArgument string
  | InvalidBool string string
  | Usage

text \<open>\<open>strconv.ParseBool\<close>.\<close>

definition parseBool :: "string \<Rightarrow> bool option" where
  "parseBool s =
     (if s \<in> {''1'', ''t'', ''T'', ''TRUE'', ''true'', ''True''} then Some True
      else if s \<in> {''0'', ''f'', ''F'', ''FALSE'', ''false'', ''False''} then Some False
      else None)"

definition isBoolFlag :: "string \<Rightarrow> bool" where
  "isBoolFlag n \<longleftrightarrow> n = ''output-config'' \<or> n = ''validate''"

definition isStringFlag :: "string \<Rightarrow> bool" where
  "isStringFlag n \<longleftrightarrow> n = ''base'' \<or> n = ''crd-path'' \<or> n = ''distributions-path''"

definition setStringFlag :: "string \<Rightarrow> string \<Rightarrow> options \<Rightarrow> options" where
  "setStringFlag n v o' =
     (if n = ''base'' then o'\<lparr>opt_basePath := v\<rparr>
      else if n = ''crd-path'' then o'\<lparr>opt_crdPath := v\<rparr>
      else o'\<lparr>opt_distributionsPath := v\<rparr>)"

definition setBoolFlag :: "string \<Rightarrow> bool \<Rightarrow> options \<Rightarrow> options" where
  "setBoolFlag n b o' = (if n = ''output-config'' then o'\<lparr>opt_outputConfig := b\<rparr> else o'\<lparr>opt_validate := b\<rparr>)"

text \<open>The first argument that is not a flag ends the flags, and so does \<open>--\<close>, which is skipped.\<close>

definition endsFlags :: "string \<Rightarrow> bool" where
  "endsFlags s \<longleftrightarrow> length s < 2 \<or> hd s \<noteq> CHR ''-''"

definition flagBody :: "string \<Rightarrow> string" where
  "flagBody s = (if s ! 1 = CHR ''-'' then drop 2 s else drop 1 s)"

definition flagName :: "string \<Rightarrow> string" where
  "flagName body = takeWhile (\<lambda>c. c \<noteq> CHR ''='') body"

definition flagValue :: "string \<Rightarrow> string option" where
  "flagValue body = (if CHR ''='' \<in> set body then Some (drop (length (flagName body) + 1) body) else None)"

fun parseArgs :: "options \<Rightarrow> string list \<Rightarrow> flag_error + options \<times> string list" where
  "parseArgs o' [] = Inr (o', [])"
| "parseArgs o' (s # args) =
     (if endsFlags s then Inr (o', s # args)
      else if s = ''--'' then Inr (o', args)
      else let body = flagBody s; n = flagName body in
        if body = [] \<or> hd body = CHR ''-'' \<or> hd body = CHR ''='' then Inl (BadFlagSyntax s)
        else if isBoolFlag n then
          (case flagValue body of
             None \<Rightarrow> parseArgs (setBoolFlag n True o') args
           | Some v \<Rightarrow> (case parseBool v of
                          None \<Rightarrow> Inl (InvalidBool n v)
                        | Some b \<Rightarrow> parseArgs (setBoolFlag n b o') args))
        else if isStringFlag n then
          (case flagValue body of
             Some v \<Rightarrow> parseArgs (setStringFlag n v o') args
           | None \<Rightarrow> (case args of
                        [] \<Rightarrow> Inl (FlagNeedsArgument n)
                      | v # rest \<Rightarrow> parseArgs (setStringFlag n v o') rest))
        else if n = ''help'' \<or> n = ''h'' then Inl HelpRequested
        else Inl (UndefinedFlag n))"

definition parseFlags :: "string list \<Rightarrow> flag_error + options" where
  "parseFlags argv =
     ebind (parseArgs flagDefaults argv) (\<lambda>(o', args).
       let crPath = (case args of [] \<Rightarrow> [] | a # _ \<Rightarrow> a) in
       if crPath = [] then Inl Usage else Inr (o'\<lparr>opt_crPath := crPath\<rparr>))"

section \<open>Reading the inputs\<close>

text \<open>\<open>OtherKind\<close> carries the Go type of a decoded object that is not an \<open>OGXServer\<close>.\<close>

datatype decoded = DecodedServer OGXServer | OtherKind string

text \<open>What is left of standard input, or the error of reading it.\<close>

type_synonym stdin = "string + string"

record CliEnv =
  cl_ReadFile :: "string \<Rightarrow> string + string"
  cl_Decode :: "string \<Rightarrow> string + decoded"
  cl_Getenv :: "string \<Rightarrow> string"
  cl_IsDir :: "string \<Rightarrow> bool"
  cl_ParseImages :: "string \<Rightarrow> string + string gomap"
  cl_StartEnv :: "string \<Rightarrow> string \<Rightarrow> string option"
  cl_NewClient :: "string option"
  cl_CreateNamespace :: "string \<Rightarrow> string option"
  cl_CreateDryRun :: "OGXServer \<Rightarrow> string option"
  cl_Codec :: yaml_codec
  cl_Fetcher :: label_fetcher
  cl_IsPrint :: "nat \<Rightarrow> bool"

definition readFile :: "CliEnv \<Rightarrow> string \<Rightarrow> stdin \<Rightarrow> stdin \<times> (string + string)" where
  "readFile env file inp =
     (if file = ''-'' then (case inp of Inl e \<Rightarrow> (inp, Inl e) | Inr data \<Rightarrow> (Inr [], Inr data))
      else (inp, cl_ReadFile env file))"

definition loadCR :: "CliEnv \<Rightarrow> string \<Rightarrow> stdin \<Rightarrow> stdin \<times> (string + OGXServer)" where
  "loadCR env file inp =
     (case readFile env file inp of
        (inp', Inl e) \<Rightarrow> (inp', Inl e)
      | (inp', Inr data) \<Rightarrow>
          (inp', (case cl_Decode env data of
                    Inl e \<Rightarrow> Inl (''failed to decode CR: '' @ e)
                  | Inr (OtherKind t) \<Rightarrow> Inl (''failed to cast decoded object: expected OGXServer, got '' @ t)
                  | Inr (DecodedServer server) \<Rightarrow> Inr server)))"

definition loadKnownDistributionNames ::
    "CliEnv \<Rightarrow> OGXServer \<Rightarrow> string \<Rightarrow> stdin \<Rightarrow> stdin \<times> (string + string list)" where
  "loadKnownDistributionNames env server distributionsPath inp =
     (let q = goQuote (cl_IsPrint env) distributionsPath in
      if dist_Name (spec_Distribution (srv_Spec server)) = [] then (inp, Inr [])
      else case readFile env distributionsPath inp of
        (inp', Inl e) \<Rightarrow> (inp', Inl (''failed to read distributions file '' @ q @ '': '' @ e))
      | (inp', Inr data) \<Rightarrow>
          (inp', (case cl_ParseImages env data of
                    Inl e \<Rightarrow> Inl (''failed to parse distributions file '' @ q @ '': '' @ e)
                  | Inr images \<Rightarrow> Inr (sort (mkeys images)))))"

datatype base_error =
    BaseFileUnreadable string
  | BaseConfigInCluster
  | NamedDistribution
  | BaseUnresolved resolve_error
  | CachePanic

text \<open>\<open>resolveBaseConfig\<close> of the tool.  Its resolver is new, so its cache is empty.\<close>

definition cli_resolveBaseConfig ::
    "CliEnv \<Rightarrow> string \<Rightarrow> OGXServerSpec \<Rightarrow> stdin \<Rightarrow> stdin \<times> (base_error + string)" where
  "cli_resolveBaseConfig env basePath s inp =
     (if basePath \<noteq> [] then
        (case readFile env basePath inp of (inp', res) \<Rightarrow> (inp', mapErr BaseFileUnreadable res))
      else if spec_BaseConfig s \<noteq> None then (inp, Inl BaseConfigInCluster)
      else if dist_Image (spec_Distribution s) = [] then (inp, Inl NamedDistribution)
      else (inp, (case Resolve (Some (cl_Fetcher env)) (dist_Image (spec_Distribution s)) newOCIConfigCache of
                    None \<Rightarrow> Inl CachePanic
                  | Some (_, res) \<Rightarrow> mapErr BaseUnresolved res)))"

section \<open>Validation\<close>

datatype validation_error =
    NoAssets
  | NoCRDDirectory string
  | CrdCel string
  | DistributionsUnreadable string
  | WebhookRejected "field_error list"

definition validateWithEnvTest :: "CliEnv \<Rightarrow> OGXServer \<Rightarrow> string \<Rightarrow> string \<Rightarrow> string option" where
  "validateWithEnvTest env server crdPath assets =
     (case cl_StartEnv env crdPath assets of
        Some e \<Rightarrow> Some (''failed to start envtest: '' @ e)
      | None \<Rightarrow>
          (case cl_NewClient env of
             Some e \<Rightarrow> Some (''failed to create envtest client: '' @ e)
           | None \<Rightarrow>
               (case cl_CreateNamespace env ''configgen-validate'' of
                  Some e \<Rightarrow> Some (''failed to create namespace: '' @ e)
                | None \<Rightarrow>
                    (let m = (srv_ObjectMeta server)\<lparr>meta_Namespace := ''configgen-validate''\<rparr>;
                         m' = (if meta_Name m = [] then m\<lparr>meta_Name := ''configgen-validate''\<rparr> else m)
                     in cl_CreateDryRun env (server\<lparr>srv_ObjectMeta := m'\<rparr>)))))"

text \<open>\<open>validateCR\<close>: every check runs, and all their errors are reported together.\<close>

definition validateCR ::
    "CliEnv \<Rightarrow> OGXServer \<Rightarrow> string \<Rightarrow> string \<Rightarrow> stdin \<Rightarrow> stdin \<times> validation_error list" where
  "validateCR env server crdPath distributionsPath inp =
     (let assets = cl_Getenv env ''KUBEBUILDER_ASSETS'' in
      if assets = [] then (inp, [NoAssets])
      else if \<not> cl_IsDir env crdPath then (inp, [NoCRDDirectory crdPath])
      else let schemaErrs = (case validateWithEnvTest env server crdPath assets of None \<Rightarrow> [] | Some e \<Rightarrow> [CrdCel e]);
               (inp', names) = loadKnownDistributionNames env server distributionsPath inp;
               (known, nameErrs) = (case names of Inl e \<Rightarrow> ([], [DistributionsUnreadable e]) | Inr ns \<Rightarrow> (ns, []));
               rejected = snd (ValidateCreate known server)
           in (inp', schemaErrs @ nameErrs @ (if rejected = [] then [] else [WebhookRejected rejected])))"

section \<open>Running\<close>

datatype cli_error =
    LoadFailed string
  | OverrideConfigSet
  | NothingToGenerate
  | InvalidCR "validation_error list"
  | BaseFailed base_error
  | SecretNamesInvalid secret_error
  | GenerateFailed config_error

definition configgen_run :: "CliEnv \<Rightarrow> options \<Rightarrow> stdin \<Rightarrow> cli_error + GeneratedConfig" where
  "configgen_run env o' inp =
     (case loadCR env (opt_crPath o') inp of
        (inp1, Inl e) \<Rightarrow> Inl (LoadFailed e)
      | (inp1, Inr server) \<Rightarrow>
          if HasOverrideConfig server then Inl OverrideConfigSet
          else if \<not> HasDeclarativeConfig server \<and> \<not> IsPraxisModeEnabled (srv_Spec server) then Inl NothingToGenerate
          else
            let (inp2, errs) = (if opt_validate o'
                  then validateCR env server (opt_crdPath o') (opt_distributionsPath o') inp1 else (inp1, []))
            in if errs \<noteq> [] then Inl (InvalidCR errs)
            else (case snd (cli_resolveBaseConfig env (opt_basePath o') (srv_Spec server) inp2) of
                    Inl e \<Rightarrow> Inl (BaseFailed e)
                  | Inr baseConfigData \<Rightarrow>
                      (case ValidateSecretRefEnvVarNames (srv_Spec server) of
                         Some e \<Rightarrow> Inl (SecretNamesInvalid e)
                       | None \<Rightarrow>
                           mapErr GenerateFailed
                             (if HasDeclarativeConfig server
                              then GenerateConfig (cl_Codec env) (srv_Spec server) baseConfigData (IsPraxisModeEnabled (srv_Spec server))
                              else GeneratePraxisDefaultConfig (cl_Codec env) (srv_Spec server) baseConfigData))))"

definition envVarLine :: "EnvVar \<Rightarrow> string" where
  "envVarLine e =
     (case env_SecretKeyRef e of
        None \<Rightarrow> []
      | Some ref \<Rightarrow> env_Name e @ '' -> '' @ sks_Name ref @ ''/'' @ sks_Key ref @ [CHR 10])"

definition printFullOutput :: "GeneratedConfig \<Rightarrow> string" where
  "printFullOutput g =
     ''--- config.yaml ---'' @ [CHR 10] @ gc_ConfigYAML g
     @ [CHR 10] @ ''--- metadata ---'' @ [CHR 10]
     @ ''content-hash:   '' @ gc_ContentHash g @ [CHR 10]
     @ ''config-version: '' @ showInt (gc_ConfigVersion g) @ [CHR 10]
     @ ''config-version-defaulted: '' @ (if gc_ConfigVersionDefaulted g then ''true'' else ''false'') @ [CHR 10]
     @ ''providers:      '' @ showInt (gc_ProviderCount g) @ [CHR 10]
     @ ''resources:      '' @ showInt (gc_ResourceCount g) @ [CHR 10]
     @ (if length (gc_EnvVars g) > 0
        then [CHR 10] @ ''--- env vars ---'' @ [CHR 10] @ concat (map envVarLine (gc_EnvVars g)) else [])"

datatype exit_status = BadCommandLine flag_error | RunFailed cli_error

definition configgen_main :: "CliEnv \<Rightarrow> string list \<Rightarrow> stdin \<Rightarrow> exit_status + string" where
  "configgen_main env argv inp =
     ebind (mapErr BadCommandLine (parseFlags argv)) (\<lambda>o'.
     ebind (mapErr RunFailed (configgen_run env o' inp)) (\<lambda>g.
       Inr (if opt_outputConfig o' then gc_ConfigYAML g else printFullOutput g)))"

section \<open>What the command line means\<close>

text \<open>One flag as a user writes it: a value flag in either form, or a switch.\<close>

datatype flag_setting = ValueFlag bool string string | Switch string

definition knownFlag :: "flag_setting \<Rightarrow> bool" where
  "knownFlag f = (case f of ValueFlag _ n _ \<Rightarrow> isStringFlag n | Switch n \<Rightarrow> isBoolFlag n)"

definition writeFlag :: "flag_setting \<Rightarrow> string list" where
  "writeFlag f =
     (case f of ValueFlag joined n v \<Rightarrow> if joined then [''-'' @ n @ ''='' @ v] else [''-'' @ n, v]
      | Switch n \<Rightarrow> [''-'' @ n])"

definition applyFlag :: "flag_setting \<Rightarrow> options \<Rightarrow> options" where
  "applyFlag f = (case f of ValueFlag _ n v \<Rightarrow> setStringFlag n v | Switch n \<Rightarrow> setBoolFlag n True)"

lemma parseArgs_flag:
  assumes "knownFlag f"
  shows "parseArgs o' (writeFlag f @ args) = parseArgs (applyFlag f o') args"
proof (cases f)
  case (ValueFlag joined n v)
  with assms have "isStringFlag n" by (simp add: knownFlag_def)
  then show ?thesis unfolding isStringFlag_def
    by (elim disjE) (simp_all add: ValueFlag writeFlag_def applyFlag_def endsFlags_def flagBody_def flagName_def flagValue_def
        isBoolFlag_def isStringFlag_def)
next
  case (Switch n)
  with assms have "isBoolFlag n" by (simp add: knownFlag_def)
  then show ?thesis unfolding isBoolFlag_def
    by (elim disjE) (simp_all add: Switch writeFlag_def applyFlag_def endsFlags_def flagBody_def flagName_def flagValue_def
        isBoolFlag_def)
qed

lemma parseArgs_flags:
  "\<forall>f \<in> set fs. knownFlag f \<Longrightarrow> parseArgs o' (concat (map writeFlag fs) @ args) = parseArgs (fold applyFlag fs o') args"
  by (induction fs arbitrary: o') (simp_all add: parseArgs_flag)



section \<open>The tool and the operator\<close>

text \<open>The tool's resolver never fails on its cache.\<close>

lemma cli_cache_is_sound: "snd (cli_resolveBaseConfig env basePath s inp) \<noteq> Inl CachePanic"
proof -
  let ?f = "cl_Fetcher env" and ?ref = "dist_Image (spec_Distribution s)"
  obtain c r where "Resolve (Some ?f) ?ref newOCIConfigCache = Some (c, r)"
    using Resolve_good [OF new_only, of ?ref ?f "\<lambda>_. case ?f ?ref of Inr l \<Rightarrow> l | Inl _ \<Rightarrow> mempty"] by auto
  then show ?thesis
    by (auto simp: cli_resolveBaseConfig_def mapErr_def split: prod.split sum.split option.split)
qed

text \<open>
  A CR that names its image and no base config is resolved from the same labels by an operator that has
  not cached any.
\<close>

lemma cli_base_from_image:
  assumes "spec_BaseConfig s = None" "dist_Name (spec_Distribution s) = []" "dist_Image (spec_Distribution s) \<noteq> []"
    and "srv_Spec inst = s" and "snd (cli_resolveBaseConfig env [] s inp) = Inr data"
  shows "\<exists>c. resolveBaseConfig (Some (cl_Fetcher env)) r w inst newOCIConfigCache = Some (c, Inr data)"
  using assms by (auto simp: cli_resolveBaseConfig_def resolveBaseConfig_def resolveImage_def mapErr_def Let_def
      split: option.splits sum.splits)

text \<open>What an outcome of the tool says of a reconciliation with the same base config.\<close>

definition predicts :: "cli_error + GeneratedConfig \<Rightarrow> gen_error + GeneratedConfig option \<Rightarrow> bool" where
  "predicts out res =
     (case out of
        Inr g \<Rightarrow> res = Inr (Some g) \<or> (\<exists>e. res = Inl (GenConfigMap e))
      | Inl OverrideConfigSet \<Rightarrow> res = Inr None
      | Inl NothingToGenerate \<Rightarrow> res = Inr None
      | Inl (SecretNamesInvalid e) \<Rightarrow> res = Inl (GenSecrets e)
      | Inl (GenerateFailed e) \<Rightarrow> res = Inl (GenConfig e)
      | Inl _ \<Rightarrow> False)"

definition validated :: "CliEnv \<Rightarrow> options \<Rightarrow> OGXServer \<Rightarrow> stdin \<Rightarrow> stdin \<times> validation_error list" where
  "validated env o' server inp =
     (if opt_validate o' then validateCR env server (opt_crdPath o') (opt_distributionsPath o') inp else (inp, []))"

text \<open>
  (C27) The tool predicts the operator: given a CR that loads, passes the requested validation and has the base config
  that the operator resolves, the tool prints the very configuration that a reconciliation of a server with this
  spec runs (the reconciliation can then fail only on storing it in its ConfigMap), it refuses the CR for its
  secret names or its generation exactly when the operator does and for the same reason, and it says that there is
  nothing to generate exactly when the operator generates nothing.
\<close>

theorem configgen_predicts_the_operator:
  assumes "loadCR env (opt_crPath o') inp = (inp1, Inr server)"
    and "validated env o' server inp1 = (inp2, [])"
    and "snd (cli_resolveBaseConfig env (opt_basePath o') (srv_Spec server) inp2) = Inr data"
    and "srv_Spec (ps_Instance p) = srv_Spec server"
    and "resolveBaseConfig fetcher r (ps_World p) (ps_Instance p) cache = Some (cache', Inr data)"
  shows "\<exists>c res p'. reconcileGeneratedConfig (cl_Codec env) fetcher r api cache p = Some (c, res, p')
     \<and> predicts (configgen_run env o' inp) res"
proof -
  have same: "HasOverrideConfig (ps_Instance p) = HasOverrideConfig server"
      "HasDeclarativeConfig (ps_Instance p) = HasDeclarativeConfig server"
    using assms(4) by (simp_all add: HasOverrideConfig_def HasDeclarativeConfig_def)
  show ?thesis
  proof (cases "shouldGenerateConfig server (IsPraxisModeEnabled (srv_Spec server))")
    case False
    then show ?thesis using assms(1)
      by (auto simp: configgen_run_def reconcileGeneratedConfig_def shouldGenerateConfig_def same assms(4) predicts_def)
  next
    case True
    then have run: "configgen_run env o' inp =
        (case ValidateSecretRefEnvVarNames (srv_Spec server) of Some e \<Rightarrow> Inl (SecretNamesInvalid e)
         | None \<Rightarrow> mapErr GenerateFailed
             (if HasDeclarativeConfig server
              then GenerateConfig (cl_Codec env) (srv_Spec server) data (IsPraxisModeEnabled (srv_Spec server))
              else GeneratePraxisDefaultConfig (cl_Codec env) (srv_Spec server) data))"
      using assms(1,2,3) by (auto simp: configgen_run_def shouldGenerateConfig_def validated_def)
    from True show ?thesis
      by (auto simp: reconcileGeneratedConfig_def run assms(4,5) same generateFor_def predicts_def mapErr_def shouldGenerateConfig_def
          split: option.split sum.split prod.split)
  qed
qed

definition exCliServer :: OGXServer where
  "exCliServer = \<lparr> srv_ObjectMeta = exMeta,
     srv_Spec = exSpec\<lparr> spec_BaseConfig := Some \<lparr> cmkr_Name = odhTrustedCABundleConfigMap, cmkr_Key = ''ca-bundle.crt'' \<rparr> \<rparr>,
     srv_Status = exStatus \<rparr>"

definition exCli :: CliEnv where
  "exCli = \<lparr> cl_ReadFile = (\<lambda>f. if f = ''b.yaml'' then Inr ''K0C1'' else Inl ''no such file''),
     cl_Decode = (\<lambda>t. if t = ''cr'' then Inr (DecodedServer exCliServer) else Inl ''not a manifest''),
     cl_Getenv = (\<lambda>_. []), cl_IsDir = (\<lambda>_. False), cl_ParseImages = (\<lambda>_. Inl ''bad''),
     cl_StartEnv = (\<lambda>_ _. None), cl_NewClient = None, cl_CreateNamespace = (\<lambda>_. None), cl_CreateDryRun = (\<lambda>_. None),
     cl_Codec = exCodec, cl_Fetcher = (\<lambda>_. Inl ''unreachable''), cl_IsPrint = (\<lambda>_. True) \<rparr>"

definition exCliOptions :: options where
  "exCliOptions = flagDefaults\<lparr>opt_basePath := ''b.yaml'', opt_crPath := ''-''\<rparr>"

theorem configgen_predicts_the_operator_witness:
  "\<exists>g c res p'. configgen_run exCli exCliOptions (Inr ''cr'') = Inr g
     \<and> reconcileGeneratedConfig exCodec None exTrusted exManagedAPI newOCIConfigCache
          \<lparr>ps_Instance = exCliServer, ps_World = None, ps_Events = []\<rparr> = Some (c, res, p')
     \<and> predicts (configgen_run exCli exCliOptions (Inr ''cr'')) res"
proof -
  let ?p = "\<lparr>ps_Instance = exCliServer, ps_World = None, ps_Events = []\<rparr> :: ConfigMapObject option Pass"
  let ?s = "srv_Spec exCliServer"
  have load: "loadCR exCli (opt_crPath exCliOptions) (Inr ''cr'') = (Inr [], Inr exCliServer)"
    by (simp add: loadCR_def readFile_def exCli_def exCliOptions_def)
  have valid: "validated exCli exCliOptions exCliServer (Inr []) = (Inr [], [])"
    by (simp add: validated_def exCliOptions_def flagDefaults_def)
  have base: "snd (cli_resolveBaseConfig exCli (opt_basePath exCliOptions) ?s (Inr [])) = Inr ''K0C1''"
    by (simp add: cli_resolveBaseConfig_def readFile_def exCli_def exCliOptions_def mapErr_def)
  have certs: "mget (mlit [(''ca-bundle.crt'', ''K0C1''), (''odh-ca-bundle.crt'', ''C2'')]) ''ca-bundle.crt'' = Some ''K0C1''"
    by code_simp
  have op: "resolveBaseConfig None exTrusted (ps_World ?p) (ps_Instance ?p) newOCIConfigCache
      = Some (newOCIConfigCache, Inr ''K0C1'')"
    by (simp add: resolveBaseConfig_def readReferencedConfigMapKey_def exCliServer_def exTrusted_def exTrustedKube_def
        certs)
  have "\<exists>c res p'. reconcileGeneratedConfig (cl_Codec exCli) None exTrusted exManagedAPI newOCIConfigCache ?p = Some (c, res, p')
     \<and> predicts (configgen_run exCli exCliOptions (Inr ''cr'')) res"
    by (rule configgen_predicts_the_operator [OF load valid base _ op]) simp
  moreover have "\<exists>g. configgen_run exCli exCliOptions (Inr ''cr'') = Inr g"
  proof -
    have v: "ValidateSecretRefEnvVarNames ?s = None" by code_simp
    have "ParseBaseConfig exCodec ''K0C1'' = Inr exBase" "ExpandProviders (spec_Providers ?s) = Inr (Some exExpanded)"
      by (simp_all add: ParseBaseConfig_def exCodec_def exBase_def exCliServer_def exSpec_def exProviders_expand)
    from GenerateConfig_marshal_total [OF this, of "[]" False] obtain g where
      "GenerateConfig exCodec ?s ''K0C1'' False = Inr g"
      by (auto simp: ExpandResources_def exCliServer_def exSpec_def emptySpec_def exCodec_def)
    then show ?thesis using load base v
      by (simp add: configgen_run_def HasOverrideConfig_def HasDeclarativeConfig_def exCliServer_def exSpec_def emptySpec_def
          IsPraxisModeEnabled_def exCliOptions_def flagDefaults_def mapErr_def exCli_def)
  qed
  ultimately show ?thesis by (auto simp: exCli_def)
qed

end
