(* ===== verification/Spec2Isabelle.thy ===== *)
theory Spec2Isabelle
  imports Config_Storage Config_Types Render Pass_Safety Module_Reconciler Module_Start Configgen
begin

text \<open>
  A verification development for the OGX Kubernetes operator.

  \<^bold>\<open>The program.\<close>  The operator turns an \<open>OGXServer\<close> custom resource into a running server.  An
  admission webhook (\<open>api/v1beta1/ogxserver_webhook.go\<close>) validates the resource.  A reconciliation
  pass (\<open>controllers/ogxserver_controller.go\<close>) then adopts resources of a legacy
  LlamaStackDistribution, removes unsafe Ingresses, generates the server's configuration from the
  spec and the base configuration of the image (\<open>pkg/config\<close>), publishes it in a ConfigMap named after
  its content, gathers CA certificates, renders the manifests with kustomize plugins (\<open>pkg/deploy\<close>),
  applies them, reconciles the Ingress, runs the Praxis migration Job and reports conditions in the
  status.

  \<^bold>\<open>Theories and sources.\<close>
  \<^item> \<open>Prelude\<close>, \<open>Go_Strings\<close>, \<open>Yaml\<close>, \<open>Go_Quote\<close>, \<open>Base64\<close>, \<open>Digest\<close>, \<open>Digest_Eval\<close>: Go maps as sorted
    association lists (the interface \<open>string_map\<close> and its interpretation), byte strings, dynamic
    YAML/JSON values, \<open>strconv.Quote\<close>, base64 and SHA-256 as the sources use them.
  \<^item> \<open>K8s_Types\<close>, \<open>Api_Providers\<close>, \<open>Api_Server\<close>: the custom resource (\<open>api/v1beta1/*_types*.go\<close>), one
    record per struct, and the methods that derive provider IDs and read the spec.
  \<^item> \<open>Secrets\<close> (\<open>pkg/config/secret.go\<close>), \<open>Provider_Config\<close> and \<open>Provider_Expand\<close> (\<open>provider.go\<close>),
    \<open>Config_Merge\<close> (\<open>storage.go\<close>, \<open>resource.go\<close>, \<open>merge.go\<close>), \<open>Config_Generator\<close> (\<open>generator.go\<close>), and
    their correctness in \<open>Config_Correct\<close> and \<open>Config_Storage\<close>: what the generated document contains,
    that every secret is both mounted and referenced, that Praxis mode installs its authentication; in
    \<open>Config_Types\<close> that it is well typed.
  \<^item> \<open>Oci_Cache\<close>, \<open>Config_Resolver\<close> (\<open>pkg/config/resolver.go\<close>): the pointer-based LRU cache refines a
    bounded map (interface \<open>bounded_cache\<close>), and resolving through it is transparent.  \<open>Oci_Fetcher\<close>
    (\<open>oci_fetcher.go\<close>): where the labels come from.
  \<^item> \<open>Webhook\<close>: create and update admission is exact.
  \<^item> \<open>Status_Conditions\<close> (\<open>controllers/status.go\<close>): every condition setter, the interface
    \<open>condition_register\<close>, and transition times over arbitrary sequences of reports.
  \<^item> \<open>Kube_Client\<close>: the Kubernetes objects and the operations of the API server that the controllers
    use, with the helpers they share.
  \<^item> \<open>Migration_Job\<close>, \<open>Migration\<close> (\<open>controllers/migration_job.go\<close>): preflight, the Job, and the
    migration as a state machine over runs with arbitrary interference.
  \<^item> \<open>Network_Policy\<close> (\<open>plugins/networkpolicy_transformer.go\<close>, \<open>deploy/utils.go\<close>), \<open>Ingress\<close>
    (\<open>controllers/network_resources.go\<close>), \<open>Praxis_Preflight\<close> (\<open>controllers/praxis_preflight.go\<close>): who may
    reach the server.
  \<^item> \<open>Kustomize_Lib\<close>, \<open>Manifest_Plugins\<close>, \<open>Manifest_Correct\<close>, \<open>Render\<close>, \<open>Apply_Resources\<close>
    (\<open>pkg/deploy/plugins\<close>, \<open>kustomizer.go\<close>, \<open>pkg/compare\<close>): rendering and applying manifests.
  \<^item> \<open>Pod_Spec\<close> (\<open>controllers/resource_helper.go\<close>): the pod, disruption budget and autoscaler.
  \<^item> \<open>Ca_Bundle\<close> (in \<open>ogxserver_controller.go\<close>), \<open>Config_Maps\<close> (\<open>configmap_reconciler.go\<close>), \<open>Adoption\<close>
    (\<open>legacy_adoption.go\<close>): the CA bundle, the generated ConfigMaps, legacy adoption.
  \<^item> \<open>Manifest_Context\<close>, \<open>Server_Status\<close>, \<open>Reconciler\<close> (\<open>ogxserver_controller.go\<close>): what a pass renders, applies
    and removes; what it reports; the order of its steps, its errors and delays.  The end-to-end
    lemmas show that the configuration reaches the applied pods, that every pass returns and is
    followed by another one, and that the reported status is exact.
  \<^item> \<open>Guarded_Writes\<close>, \<open>Pass_Safety\<close>: the writes of a whole pass.  The locale \<open>write_embedding\<close> carries the
    safety of a component's writes over to those of the pass; together the steps of \<open>Reconcile\<close> are
    shown to make authorised writes only.
  \<^item> \<open>Watches\<close> (\<open>SetupWithManager\<close> and the functions it registers): which events lead to a pass; a
    change that is mapped to no request is shown not to matter to the instance.
  \<^item> \<open>Go_Trim\<close>, \<open>Module_Params\<close>, \<open>Module_Reconciler\<close> (\<open>ogx-module\<close>): the controller that installs the operator on a
    platform.  Image overrides in \<open>params.env\<close> are exact, the reported state is exact, a pass settles only
    when everything runs, and the finalizer outlives the deployed objects.
  \<^item> \<open>Tls_Profile\<close> (\<open>pkg/tls\<close>, \<open>ogx-module/pkg/tls\<close>): the TLS settings of both programs follow the profile of the
    cluster and fail closed.
  \<^item> \<open>Startup\<close> (\<open>main.go\<close>, \<open>pkg/cluster\<close>): what the operator sets up and how its process ends; its webhook
    and its reconciler agree on the distributions.
    \<open>Module_Start\<close> (\<open>ogx-module/cmd\<close>): the same for the process of the module.
  \<^item> \<open>Configgen\<close> (\<open>cmd/configgen\<close>): the command line tool predicts the operator.

  \<^bold>\<open>State and effects.\<close>  The cluster is an arbitrary state \<open>'w\<close>.  A component reads and writes it
  through a record of functions (\<open>Kube\<close>, \<open>IngressAPI\<close>, \<open>Cluster\<close>, \<open>ConfigMapAPI\<close>, \<open>WorkloadAPI\<close>, \<open>AdoptAPI\<close>
  and others), one field per request of the source; a write returns its outcome and the next state, in which other
  clients may have acted.  \<open>Pass\<close> is the state of one reconciliation: the instance with its status, the
  cluster, the events.  A pass reads the clock once.  Errors are values: the text of the Go error,
  or a datatype where the source distinguishes errors.  Safety of a component is stated as: the
  cluster after an operation is the cluster before it after a list of writes, each of which is allowed.

  \<^bold>\<open>Parameters and hypotheses.\<close>  Code outside the repository is an argument: the YAML codec
  (\<open>wf_codec\<close>: decoded maps have distinct keys), the HTTP client of the OCI label fetcher, the kustomize library
  (\<open>updatesData\<close>, \<open>readsContent\<close>: a resource reads back what was written; \<open>rfc6901\<close>: JSON pointers), PEM
  and X.509 parsing, resource quantities, the API server (\<open>setsController\<close> and the like).  Every such
  hypothesis is satisfied by a concrete instance in a witness.

  \<^bold>\<open>Bounds and fuel.\<close>  The image cache holds 64 entries as in the source.  The PEM loop has fuel one
  more than the length of its input, which is enough since every decoded block consumes input
  (\<open>pemConsumes\<close>); running out would be the separate error \<open>CaDiverges\<close>.  All other loops are structural or have a
  termination proof.  Go's 32-bit fields are unbounded integers: the sources do no arithmetic on
  them beyond comparison.

  \<^bold>\<open>Not modelled.\<close>  Logging; the generated deep copies, which are the identity on the immutable values of
  the model; the legacy \<open>v1alpha1\<close> types, which no controller reads; the registration of schemes and of the
  controllers with the manager; the merging of the module's settings, which is the viper library (the remapping of
  projected keys and the default namespace are modelled); \<open>pkg/deploy/deploy.go\<close> and \<open>networkpolicy.go\<close>, which only tests call; the end-to-end test helpers.
\<close>

end
